(* ===== verification/FO_Prelude.thy ===== *)
theory FO_Prelude
  imports Main "HOL-Library.Word" "HOL-Library.Char_ord" "HOL-Library.List_Lexorder"
    "HOL-Library.Product_Lexorder" "HOL-Library.Multiset"
begin

text \<open>
  Shared vocabulary of the development: the machine integers of the sources, the C++ standard
  library pieces the code uses (\<open>std::to_string\<close>, \<open>std::sort\<close>, \<open>std::stable_sort\<close>,
  \<open>std::unique\<close>, \<open>std::adjacent_find\<close>), the generic lemmas on them and the collections
  of rules the component theories share.

  \<open>std::string\<close> is the HOL type \<^typ>\<open>string\<close>: a list of bytes, compared as unsigned bytes,
  which is what \<open>Char_ord\<close> and \<open>List_Lexorder\<close> provide.
\<close>

named_theorems fo_word \<open>conversion of 64-bit arithmetic to the naturals\<close>
named_theorems fo_safe \<open>decoders that stay inside their input\<close>
named_theorems fo_yields \<open>what the values accepted by a decoder satisfy\<close>
named_theorems fo_settles \<open>how the operations of the state engine end\<close>
named_theorems fo_quiet \<open>outcomes that leave the stored records as they are\<close>
named_theorems fo_keeps \<open>operations that keep the invariant of the stored records\<close>
named_theorems fo_codec \<open>field codecs of the record format\<close>

unbundle bit_operations_syntax

section \<open>Machine integers\<close>

type_synonym u8 = "8 word"
type_synonym u16 = "16 word"
type_synonym u32 = "32 word"
type_synonym u64 = "64 word"
type_synonym byte = "8 word"

abbreviation UINT64_MAX :: u64 where
  "UINT64_MAX \<equiv> 18446744073709551615"

abbreviation UINT32_MAX :: u64 where
  "UINT32_MAX \<equiv> 4294967295"

lemma unat_u64_less [simp]: "unat (w :: u64) < 18446744073709551616"
  using unsigned_less [of w, where ?'a = nat] by simp

lemma unat_u64_le [simp]: "unat (w :: u64) \<le> 18446744073709551615"
  using unat_u64_less [of w] by linarith

lemma u64_le_max [simp]: "(w :: u64) \<le> UINT64_MAX"
  by (simp add: word_le_nat_alt)

lemma u64_add_no_wrap:
  "unat (a :: u64) + unat b < 18446744073709551616 \<Longrightarrow> unat (a + b) = unat a + unat b"
  by (simp add: unat_word_ariths)

lemma u64_sub_no_wrap: "(b :: u64) \<le> a \<Longrightarrow> unat (a - b) = unat a - unat b"
  by (rule unat_sub)

lemma u64_max_sub: "unat (UINT64_MAX - (b :: u64)) = 18446744073709551615 - unat b"
  using u64_sub_no_wrap [of b UINT64_MAX] by simp

lemma u64_eq_iff: "(a :: u64) = b \<longleftrightarrow> unat a = unat b"
  by (simp add: word_unat_eq_iff)

lemma u64_inc: "(w :: u64) \<noteq> UINT64_MAX \<Longrightarrow> unat (w + 1) = Suc (unat w)"
proof -
  assume "w \<noteq> UINT64_MAX"
  then have "unat w \<noteq> 18446744073709551615" by (simp add: u64_eq_iff)
  with unat_u64_le [of w] have "unat w < 18446744073709551615" by linarith
  then have "unat w + unat (1 :: u64) < 18446744073709551616" by simp
  then show ?thesis by (simp add: u64_add_no_wrap)
qed

lemmas u64_nat [fo_word] = word_less_nat_alt word_le_nat_alt u64_eq_iff u64_max_sub

section \<open>Decimal rendering of unsigned integers\<close>

text \<open>\<open>std::to_string\<close> on an unsigned integer.\<close>

fun to_string_nat :: "nat \<Rightarrow> string" where
  "to_string_nat n =
     (if n < 10 then [char_of (48 + n)] else to_string_nat (n div 10) @ [char_of (48 + n mod 10)])"

declare to_string_nat.simps [simp del]

definition to_string_u64 :: "u64 \<Rightarrow> string" where
  "to_string_u64 w = to_string_nat (unat w)"

fun read_digits :: "nat \<Rightarrow> string \<Rightarrow> nat" where
  "read_digits acc [] = acc"
| "read_digits acc (c # cs) = read_digits (10 * acc + (of_char c - 48)) cs"

lemma read_digits_append: "read_digits acc (xs @ ys) = read_digits (read_digits acc xs) ys"
  by (induction xs arbitrary: acc) auto

lemma to_string_nat_nonempty [simp]: "to_string_nat n \<noteq> []"
  by (subst to_string_nat.simps) simp

lemma of_char_digit [simp]: "d < 10 \<Longrightarrow> of_char (char_of (48 + d) :: char) = (48 + d :: nat)"
  by (simp add: of_char_of)

lemma read_to_string_nat: "read_digits 0 (to_string_nat n) = n"
proof (induction n rule: to_string_nat.induct)
  case (1 n)
  show ?case
  proof (cases "n < 10")
    case True
    then show ?thesis by (subst to_string_nat.simps) simp
  next
    case False
    with "1.IH" have "read_digits 0 (to_string_nat (n div 10)) = n div 10" by simp
    with False show ?thesis
      by (subst to_string_nat.simps) (simp add: read_digits_append)
  qed
qed

lemma to_string_nat_inject [simp]: "to_string_nat m = to_string_nat n \<longleftrightarrow> m = n"
  using read_to_string_nat by metis

section \<open>Sorting with a comparator\<close>

text \<open>
  \<open>std::stable_sort\<close> with the comparator \<open>lt\<close>. \<open>std::sort\<close> is modelled by the same function:
  it differs only in the order of elements that compare equivalent.
\<close>

fun insert_lt :: "('a \<Rightarrow> 'a \<Rightarrow> bool) \<Rightarrow> 'a \<Rightarrow> 'a list \<Rightarrow> 'a list" where
  "insert_lt lt x [] = [x]"
| "insert_lt lt x (y # ys) = (if lt y x then y # insert_lt lt x ys else x # y # ys)"

fun stable_sort :: "('a \<Rightarrow> 'a \<Rightarrow> bool) \<Rightarrow> 'a list \<Rightarrow> 'a list" where
  "stable_sort lt [] = []"
| "stable_sort lt (x # xs) = insert_lt lt x (stable_sort lt xs)"

lemma mset_insert_lt [simp]: "mset (insert_lt lt x ys) = add_mset x (mset ys)"
  by (induction ys) auto

lemma mset_stable_sort [simp]: "mset (stable_sort lt xs) = mset xs"
  by (induction xs) auto

lemma set_stable_sort [simp]: "set (stable_sort lt xs) = set xs"
  by (metis mset_stable_sort set_mset_mset)

lemma length_stable_sort [simp]: "length (stable_sort lt xs) = length xs"
  by (metis mset_stable_sort size_mset)

lemma distinct_map_stable_sort [simp]:
  "distinct (map f (stable_sort lt xs)) \<longleftrightarrow> distinct (map f xs)"
  by (metis distinct_map distinct_card card_distinct length_stable_sort set_stable_sort)

text \<open>A comparator that is a strict weak order sorts.\<close>

definition lt_sorted :: "('a \<Rightarrow> 'a \<Rightarrow> bool) \<Rightarrow> 'a list \<Rightarrow> bool" where
  "lt_sorted lt = sorted_wrt (\<lambda>x y. \<not> lt y x)"

locale comparator =
  fixes lt :: "'a \<Rightarrow> 'a \<Rightarrow> bool"
  assumes lt_asym: "lt x y \<Longrightarrow> \<not> lt y x"
    and lt_neg_trans: "\<not> lt y x \<Longrightarrow> \<not> lt z y \<Longrightarrow> \<not> lt z x"
begin

lemma set_insert_lt: "set (insert_lt lt x ys) = insert x (set ys)"
  by (induction ys) auto

lemma insert_lt_sorted: "lt_sorted lt ys \<Longrightarrow> lt_sorted lt (insert_lt lt x ys)"
  unfolding lt_sorted_def
  by (induction ys) (auto simp: set_insert_lt dest: lt_asym lt_neg_trans)

lemma stable_sort_sorted: "lt_sorted lt (stable_sort lt xs)"
  by (induction xs) (simp_all add: insert_lt_sorted, simp add: lt_sorted_def)

lemma stable_sort_idem: "lt_sorted lt xs \<Longrightarrow> stable_sort lt xs = xs"
proof (induction xs)
  case Nil
  show ?case by simp
next
  case (Cons x xs)
  then have "stable_sort lt xs = xs" by (simp add: lt_sorted_def)
  moreover have "insert_lt lt x xs = x # xs"
    using Cons.prems by (cases xs) (auto simp: lt_sorted_def)
  ultimately show ?case by simp
qed

end

text \<open>A comparator that compares a key is one.\<close>

lemma comparator_key:
  assumes "\<And>x y. lt x y \<longleftrightarrow> key x < (key y :: 'b :: linorder)"
  shows "comparator lt"
  by unfold_locales (auto simp: assms)

lemma lt_sorted_key:
  assumes "\<And>x y. lt x y \<longleftrightarrow> key x < (key y :: 'b :: linorder)"
  shows "lt_sorted lt xs \<longleftrightarrow> sorted (map key xs)"
  by (simp add: lt_sorted_def assms not_less sorted_map)

section \<open>Duplicates\<close>

text \<open>\<open>std::adjacent_find(first, last) != last\<close>.\<close>

fun adjacent_dup :: "'a list \<Rightarrow> bool" where
  "adjacent_dup (x # y # ys) = (x = y \<or> adjacent_dup (y # ys))"
| "adjacent_dup _ = False"

text \<open>\<open>std::unique\<close> followed by \<open>erase\<close>.\<close>

fun unique_adjacent :: "'a list \<Rightarrow> 'a list" where
  "unique_adjacent (x # y # ys) =
     (if x = y then unique_adjacent (y # ys) else x # unique_adjacent (y # ys))"
| "unique_adjacent xs = xs"

lemma adjacent_dup_sorted: "sorted (xs :: 'a :: linorder list) \<Longrightarrow> adjacent_dup xs \<longleftrightarrow> \<not> distinct xs"
proof (induction xs rule: adjacent_dup.induct)
  case (1 x y ys)
  then show ?case by (auto simp: antisym)
qed auto

lemma set_unique_adjacent [simp]: "set (unique_adjacent xs) = set xs"
  by (induction xs rule: unique_adjacent.induct) auto

lemma unique_adjacent_sorted:
  "sorted (xs :: 'a :: linorder list) \<Longrightarrow> sorted (unique_adjacent xs) \<and> distinct (unique_adjacent xs)"
proof (induction xs rule: unique_adjacent.induct)
  case (1 x y ys)
  then show ?case by (auto simp: antisym)
qed auto

lemma unique_adjacent_distinct: "distinct xs \<Longrightarrow> unique_adjacent xs = xs"
  by (induction xs rule: unique_adjacent.induct) auto

end
