(* ===== verification/FO_StdMap.thy ===== *)
theory FO_StdMap
  imports FO_Prelude
begin

text \<open>
  \<open>std::map\<close> as the sources use it: a key-ordered association list with \<open>find\<close>,
  \<open>emplace\<close> (which keeps an existing entry), assignment (\<open>m[k] = v\<close> or through the iterator of
  a found entry), \<open>size\<close>, iteration in key order and a loop that rewrites every value in place.
  The locale \<open>ordered_store\<close> is the contract the state engine relies on; it is interpreted on
  these definitions.
\<close>

type_synonym ('k, 'v) std_map = "('k \<times> 'v) list"

definition smap_find :: "('k, 'v) std_map \<Rightarrow> 'k \<Rightarrow> 'v option" where
  "smap_find m k = map_of m k"

fun smap_put :: "'k :: linorder \<Rightarrow> 'v \<Rightarrow> ('k, 'v) std_map \<Rightarrow> ('k, 'v) std_map" where
  "smap_put k v [] = [(k, v)]"
| "smap_put k v ((j, w) # m) =
     (if k < j then (k, v) # (j, w) # m
      else if k = j then (k, v) # m
      else (j, w) # smap_put k v m)"

definition smap_emplace :: "'k :: linorder \<Rightarrow> 'v \<Rightarrow> ('k, 'v) std_map \<Rightarrow> ('k, 'v) std_map" where
  "smap_emplace k v m = (case smap_find m k of Some _ \<Rightarrow> m | None \<Rightarrow> smap_put k v m)"

definition smap_size :: "('k, 'v) std_map \<Rightarrow> nat" where
  "smap_size m = length m"

definition smap_transform :: "('k \<Rightarrow> 'v \<Rightarrow> 'v) \<Rightarrow> ('k, 'v) std_map \<Rightarrow> ('k, 'v) std_map" where
  "smap_transform f m = map (\<lambda>(k, v). (k, f k v)) m"

definition smap_values :: "('k, 'v) std_map \<Rightarrow> 'v list" where
  "smap_values m = map snd m"

text \<open>Representation invariant: the keys increase strictly.\<close>

definition smap_ok :: "('k :: linorder, 'v) std_map \<Rightarrow> bool" where
  "smap_ok m = sorted_wrt (<) (map fst m)"

abbreviation smap_has :: "('k, 'v) std_map \<Rightarrow> 'k \<Rightarrow> bool" where
  "smap_has m k \<equiv> smap_find m k \<noteq> None"

section \<open>The contract\<close>

locale ordered_store =
  fixes find :: "'m \<Rightarrow> 'k \<Rightarrow> 'v option"
    and put :: "'k \<Rightarrow> 'v \<Rightarrow> 'm \<Rightarrow> 'm"
    and emplace :: "'k \<Rightarrow> 'v \<Rightarrow> 'm \<Rightarrow> 'm"
    and transform :: "('k \<Rightarrow> 'v \<Rightarrow> 'v) \<Rightarrow> 'm \<Rightarrow> 'm"
    and size_of :: "'m \<Rightarrow> nat"
    and ok :: "'m \<Rightarrow> bool"
    and none :: 'm
  assumes find_none: "find none k = None"
    and find_put: "find (put k v m) j = (if j = k then Some v else find m j)"
    and emplace_eq: "emplace k v m = (case find m k of Some w \<Rightarrow> m | None \<Rightarrow> put k v m)"
    and find_transform: "find (transform f m) k = map_option (f k) (find m k)"
    and size_none: "size_of none = 0"
    and size_put_new: "find m k = None \<Longrightarrow> size_of (put k v m) = Suc (size_of m)"
    and size_put_old: "ok m \<Longrightarrow> find m k \<noteq> None \<Longrightarrow> size_of (put k v m) = size_of m"
    and size_transform: "size_of (transform f m) = size_of m"
    and ok_none: "ok none"
    and ok_put: "ok m \<Longrightarrow> ok (put k v m)"
    and ok_transform: "ok m \<Longrightarrow> ok (transform f m)"
begin

lemma find_emplace:
  "find (emplace k v m) j = (if j = k \<and> find m k = None then Some v else find m j)"
  by (auto simp: emplace_eq find_put split: option.splits)

lemma ok_emplace: "ok m \<Longrightarrow> ok (emplace k v m)"
  by (auto simp: emplace_eq ok_put split: option.splits)

lemma emplace_keeps: "find m j = Some w \<Longrightarrow> find (emplace k v m) j = Some w"
  by (auto simp: find_emplace)

lemma size_put_bound: "ok m \<Longrightarrow> size_of (put k v m) \<le> Suc (size_of m)"
  by (cases "find m k = None") (auto simp: size_put_new size_put_old)

lemma size_put_within:
  assumes "ok m" and "size_of m \<le> limit" and "find m k = None \<Longrightarrow> size_of m < limit"
  shows "size_of (put k v m) \<le> limit"
  using assms by (cases "find m k = None") (auto simp: size_put_new size_put_old)

lemma find_put_None [simp]: "find (put k v m) j = None \<longleftrightarrow> j \<noteq> k \<and> find m j = None"
  by (simp add: find_put)

lemma find_transform_None [simp]: "find (transform f m) k = None \<longleftrightarrow> find m k = None"
  by (simp add: find_transform)

end

section \<open>The implementation\<close>

lemma map_of_smap_put: "map_of (smap_put k v m) = (map_of m)(k \<mapsto> v)"
  by (induction m) auto

lemma keys_smap_put [simp]: "set (map fst (smap_put k v m)) = insert k (set (map fst m))"
  using map_of_smap_put [of k v m]
  by (simp add: dom_map_of_conv_image_fst [symmetric])

lemma smap_ok_Cons: "smap_ok ((j, w) # m) \<longleftrightarrow> (\<forall>i \<in> set (map fst m). j < i) \<and> smap_ok m"
  by (simp add: smap_ok_def)

lemma smap_ok_put: "smap_ok m \<Longrightarrow> smap_ok (smap_put k v m)"
proof (induction m)
  case Nil
  show ?case by (simp add: smap_ok_def)
next
  case (Cons e m)
  obtain j w where e: "e = (j, w)" by (cases e)
  from Cons.prems have above: "\<forall>i \<in> set (map fst m). j < i" and ok: "smap_ok m"
    by (auto simp: e smap_ok_Cons)
  consider "k < j" | "k = j" | "j < k" by fastforce
  then show ?case
  proof cases
    case 1
    then have "\<forall>i \<in> set (map fst (e # m)). k < i"
      using above less_trans by (auto simp: e)
    with 1 Cons.prems show ?thesis by (simp add: e smap_ok_Cons)
  next
    case 2
    with Cons.prems show ?thesis by (simp add: e smap_ok_Cons)
  next
    case 3
    then have "\<forall>i \<in> set (map fst (smap_put k v m)). j < i"
      using above by (simp only: keys_smap_put) blast
    moreover have "smap_put k v (e # m) = (j, w) # smap_put k v m"
      using 3 by (auto simp: e)
    ultimately show ?thesis using Cons.IH [OF ok] by (simp only: smap_ok_Cons simp_thms)
  qed
qed

lemma smap_ok_distinct: "smap_ok m \<Longrightarrow> distinct (map fst m)"
  by (simp add: smap_ok_def strict_sorted_iff)

lemma length_smap_put_new: "map_of m k = None \<Longrightarrow> length (smap_put k v m) = Suc (length m)"
  by (induction m) (auto split: if_splits)

lemma length_smap_put_old:
  "smap_ok m \<Longrightarrow> map_of m k \<noteq> None \<Longrightarrow> length (smap_put k v m) = length m"
proof (induction m)
  case (Cons e m)
  obtain j w where e: "e = (j, w)" by (cases e)
  from Cons.prems(1) have above: "\<forall>i \<in> fst ` set m. j < i" and "smap_ok m"
    by (auto simp: e smap_ok_def)
  show ?case
  proof (cases "k = j")
    case True
    then show ?thesis by (simp add: e)
  next
    case False
    with Cons.prems(2) have k: "map_of m k \<noteq> None" by (simp add: e)
    then have "j < k" using above by (auto simp: map_of_eq_None_iff)
    with k False \<open>smap_ok m\<close> show ?thesis using Cons.IH by (simp add: e not_less_iff_gr_or_eq)
  qed
qed simp

lemma map_of_smap_transform: "map_of (smap_transform f m) k = map_option (f k) (map_of m k)"
  by (induction m) (auto simp: smap_transform_def)

lemma keys_smap_transform [simp]: "map fst (smap_transform f m) = map fst m"
  by (induction m) (auto simp: smap_transform_def)

lemma smap_ok_transform [simp]: "smap_ok (smap_transform f m) = smap_ok m"
  by (simp add: smap_ok_def)

lemma length_smap_transform: "length (smap_transform f m) = length m"
  by (simp add: smap_transform_def)

interpretation stdmap: ordered_store smap_find smap_put smap_emplace smap_transform smap_size
  smap_ok "[]"
proof unfold_locales
  show "smap_ok []" by (simp add: smap_ok_def)
qed (auto simp: smap_find_def smap_emplace_def smap_size_def map_of_smap_put
    map_of_smap_transform length_smap_put_new length_smap_put_old smap_ok_put
    length_smap_transform split: option.splits)

lemma smap_values_mem: "smap_ok m \<Longrightarrow> v \<in> set (smap_values m) \<longleftrightarrow> (\<exists>k. smap_find m k = Some v)"
  by (force simp: smap_values_def smap_find_def dest: smap_ok_distinct map_of_SomeD
      intro: map_of_is_SomeI)

lemma smap_values_transform: "smap_values (smap_transform f m) = map (\<lambda>(k, v). f k v) m"
  by (simp add: smap_values_def smap_transform_def case_prod_beta)

lemma length_smap_values [simp]: "length (smap_values m) = smap_size m"
  by (simp add: smap_values_def smap_size_def)

end
