(* ===== verification/FO_Ids.thy ===== *)
theory FO_Ids
  imports FO_Prelude
begin

text \<open>
  Classified failures (\<open>errors.hpp\<close>), strong identities, generations and sequence numbers
  (\<open>ids.hpp\<close>, and the identity part of \<open>foundation.cpp\<close>).

  A \<open>StrongId<Tag>\<close> or \<open>Generation<Tag>\<close> is a type with a phantom parameter, so a cluster
  identifier cannot be used where a site identifier is expected, exactly as in the sources. Both
  are linearly ordered, by the byte order of the text and by the unsigned value.
\<close>

section \<open>Classified failures\<close>

datatype ErrorCode =
    Ok
  | InvalidArgument
  | NotFound
  | AlreadyExists
  | Conflict
  | BoundExceeded
  | CapacityInconsistent
  | StaleGeneration
  | StaleEpoch
  | StaleBoot
  | FencedPublisher
  | SequenceRegression
  | SequenceGap
  | ProtocolViolation
  | ConnectionClosed
  | OversizedPayload
  | IntegrityFailure
  | UnsupportedVersion
  | UnsupportedOperation
  | InvalidTransition
  | CorruptState
  | NotReady
  | Backpressure
  | ShuttingDown
  | Internal

fun ErrorCode_to_string :: "ErrorCode \<Rightarrow> string" where
  "ErrorCode_to_string Ok = ''OK''"
| "ErrorCode_to_string InvalidArgument = ''INVALID_ARGUMENT''"
| "ErrorCode_to_string NotFound = ''NOT_FOUND''"
| "ErrorCode_to_string AlreadyExists = ''ALREADY_EXISTS''"
| "ErrorCode_to_string Conflict = ''CONFLICT''"
| "ErrorCode_to_string BoundExceeded = ''BOUND_EXCEEDED''"
| "ErrorCode_to_string CapacityInconsistent = ''CAPACITY_INCONSISTENT''"
| "ErrorCode_to_string StaleGeneration = ''STALE_GENERATION''"
| "ErrorCode_to_string StaleEpoch = ''STALE_EPOCH''"
| "ErrorCode_to_string StaleBoot = ''STALE_BOOT''"
| "ErrorCode_to_string FencedPublisher = ''FENCED_PUBLISHER''"
| "ErrorCode_to_string SequenceRegression = ''SEQUENCE_REGRESSION''"
| "ErrorCode_to_string SequenceGap = ''SEQUENCE_GAP''"
| "ErrorCode_to_string ProtocolViolation = ''PROTOCOL_VIOLATION''"
| "ErrorCode_to_string ConnectionClosed = ''CONNECTION_CLOSED''"
| "ErrorCode_to_string OversizedPayload = ''OVERSIZED_PAYLOAD''"
| "ErrorCode_to_string IntegrityFailure = ''INTEGRITY_FAILURE''"
| "ErrorCode_to_string UnsupportedVersion = ''UNSUPPORTED_VERSION''"
| "ErrorCode_to_string UnsupportedOperation = ''UNSUPPORTED_OPERATION''"
| "ErrorCode_to_string InvalidTransition = ''INVALID_TRANSITION''"
| "ErrorCode_to_string CorruptState = ''CORRUPT_STATE''"
| "ErrorCode_to_string NotReady = ''NOT_READY''"
| "ErrorCode_to_string Backpressure = ''BACKPRESSURE''"
| "ErrorCode_to_string ShuttingDown = ''SHUTTING_DOWN''"
| "ErrorCode_to_string Internal = ''INTERNAL''"

datatype Error = Error (error_code: ErrorCode) (error_message: string) (error_detail: string)

text \<open>\<open>Error::to_string\<close>: the code, the message and the parenthesised detail.\<close>

definition Error_to_string :: "Error \<Rightarrow> string" where
  "Error_to_string e =
     ErrorCode_to_string (error_code e) @
     (if error_message e = [] then [] else '': '' @ error_message e) @
     (if error_detail e = [] then [] else '' ('' @ error_detail e @ '')'')"

text \<open>\<open>Status\<close> is success or a classified error; \<open>Result<T>\<close> a value or a classified error.\<close>

datatype Status = Success | Failure (status_error: Error)

type_synonym 'a result = "Error + 'a"

definition fail :: "ErrorCode \<Rightarrow> string \<Rightarrow> string \<Rightarrow> Status" where
  "fail code message detail = Failure (Error code message detail)"

definition status_ok :: "Status \<Rightarrow> bool" where
  "status_ok s = (s = Success)"

definition status_code :: "Status \<Rightarrow> ErrorCode" where
  "status_code s = (case s of Success \<Rightarrow> Ok | Failure e \<Rightarrow> error_code e)"

definition result_code :: "'a result \<Rightarrow> ErrorCode" where
  "result_code r = (case r of Inl e \<Rightarrow> error_code e | Inr _ \<Rightarrow> Ok)"

definition value_or :: "'a result \<Rightarrow> 'a \<Rightarrow> 'a" where
  "value_or r fallback = (case r of Inl _ \<Rightarrow> fallback | Inr v \<Rightarrow> v)"

text \<open>A loop over a collection that returns at the first failing element.\<close>

fun first_failure :: "('a \<Rightarrow> Status) \<Rightarrow> 'a list \<Rightarrow> Status" where
  "first_failure check [] = Success"
| "first_failure check (x # xs) =
     (case check x of Success \<Rightarrow> first_failure check xs | Failure e \<Rightarrow> Failure e)"

text \<open>\<open>has_duplicates\<close> of \<open>model.cpp\<close>: sort a copy, then look for equal neighbours.\<close>

definition has_duplicates :: "'a :: linorder list \<Rightarrow> bool" where
  "has_duplicates values = adjacent_dup (sort values)"

section \<open>Identifiers\<close>

definition kMaxIdentifierLength :: nat where
  "kMaxIdentifierLength = 96"

definition identifier_char :: "char \<Rightarrow> bool" where
  "identifier_char c =
     ((CHR ''a'' \<le> c \<and> c \<le> CHR ''z'') \<or> (CHR ''A'' \<le> c \<and> c \<le> CHR ''Z'') \<or>
      (CHR ''0'' \<le> c \<and> c \<le> CHR ''9'') \<or>
      c = CHR ''.'' \<or> c = CHR ''_'' \<or> c = CHR ''-'' \<or> c = CHR '':'' \<or> c = CHR ''@'' \<or>
      c = CHR ''/'' \<or> c = CHR ''+'' \<or> c = CHR ''='')"

definition is_valid_identifier :: "string \<Rightarrow> bool" where
  "is_valid_identifier text =
     (if text = [] \<or> length text > kMaxIdentifierLength then False
      else list_all identifier_char text)"

datatype (dead 'tag) StrongId = StrongId (id_value: string)

definition StrongId_parse :: "string \<Rightarrow> string \<Rightarrow> 'tag StrongId result" where
  "StrongId_parse tag_name text =
     (if text = [] then Inl (Error InvalidArgument ''empty identifier'' tag_name)
      else if length text > kMaxIdentifierLength then
        Inl (Error BoundExceeded ''identifier too long'' tag_name)
      else if \<not> is_valid_identifier text then
        Inl (Error InvalidArgument ''identifier has invalid characters'' tag_name)
      else Inr (StrongId text))"

definition id_empty :: "'tag StrongId \<Rightarrow> bool" where
  "id_empty i = (id_value i = [])"

text \<open>The identity with no text, as default construction makes it.\<close>

abbreviation no_id :: "'tag StrongId" where
  "no_id \<equiv> StrongId []"

instantiation StrongId :: (type) linorder
begin

definition less_eq_StrongId :: "'a StrongId \<Rightarrow> 'a StrongId \<Rightarrow> bool" where
  "less_eq_StrongId a b = (id_value a \<le> id_value b)"

definition less_StrongId :: "'a StrongId \<Rightarrow> 'a StrongId \<Rightarrow> bool" where
  "less_StrongId a b = (id_value a < id_value b)"

instance
  by intro_classes
    (auto simp: less_eq_StrongId_def less_StrongId_def StrongId.expand)

end

definition render_id :: "string \<Rightarrow> string" where
  "render_id i = (if i = [] then ''<none>'' else i)"

typedecl FederationIdTag
typedecl SiteIdTag
typedecl ClusterIdTag
typedecl AcceleratorClassIdTag
typedecl RuntimeIdTag
typedecl BackendIdTag
typedecl ArtifactIdTag
typedecl WorkloadIdTag
typedecl WorkloadClassIdTag
typedecl PlacementIdTag
typedecl MigrationIdTag
typedecl PublisherIdTag
typedecl PolicyIdTag
typedecl CapabilityKeyIdTag
typedecl DomainIdTag
typedecl NodeIdTag
typedecl ResourcePoolIdTag

type_synonym FederationId = "FederationIdTag StrongId"
type_synonym SiteId = "SiteIdTag StrongId"
type_synonym ClusterId = "ClusterIdTag StrongId"
type_synonym AcceleratorClassId = "AcceleratorClassIdTag StrongId"
type_synonym RuntimeId = "RuntimeIdTag StrongId"
type_synonym BackendId = "BackendIdTag StrongId"
type_synonym ArtifactId = "ArtifactIdTag StrongId"
type_synonym WorkloadId = "WorkloadIdTag StrongId"
type_synonym WorkloadClassId = "WorkloadClassIdTag StrongId"
type_synonym PlacementId = "PlacementIdTag StrongId"
type_synonym MigrationId = "MigrationIdTag StrongId"
type_synonym PublisherId = "PublisherIdTag StrongId"
type_synonym PolicyId = "PolicyIdTag StrongId"
type_synonym CapabilityKeyId = "CapabilityKeyIdTag StrongId"
type_synonym DomainId = "DomainIdTag StrongId"
type_synonym NodeId = "NodeIdTag StrongId"
type_synonym ResourcePoolId = "ResourcePoolIdTag StrongId"

section \<open>Generations\<close>

datatype (dead 'tag) Generation = Generation (gen_value: u64)

abbreviation gen_unset :: "'tag Generation" where
  "gen_unset \<equiv> Generation 0"

definition is_set :: "'tag Generation \<Rightarrow> bool" where
  "is_set g = (gen_value g \<noteq> 0)"

definition gen_next :: "'tag Generation \<Rightarrow> 'tag Generation" where
  "gen_next g =
     (if gen_value g = UINT64_MAX then Generation (gen_value g) else Generation (gen_value g + 1))"

definition newer_than :: "'tag Generation \<Rightarrow> 'tag Generation \<Rightarrow> bool" where
  "newer_than g other = (gen_value g > gen_value other)"

definition older_than :: "'tag Generation \<Rightarrow> 'tag Generation \<Rightarrow> bool" where
  "older_than g other = (gen_value g < gen_value other)"

definition gen_to_string :: "'tag Generation \<Rightarrow> string" where
  "gen_to_string g = to_string_u64 (gen_value g)"

instantiation Generation :: (type) linorder
begin

definition less_eq_Generation :: "'a Generation \<Rightarrow> 'a Generation \<Rightarrow> bool" where
  "less_eq_Generation a b = (gen_value a \<le> gen_value b)"

definition less_Generation :: "'a Generation \<Rightarrow> 'a Generation \<Rightarrow> bool" where
  "less_Generation a b = (gen_value a < gen_value b)"

instance
  by intro_classes
    (auto simp: less_eq_Generation_def less_Generation_def Generation.expand)

end

typedecl FederationGenerationTag
typedecl SiteGenerationTag
typedecl ClusterGenerationTag
typedecl ClusterEpochTag
typedecl AcceleratorCapabilityGenerationTag
typedecl RuntimeGenerationTag
typedecl BackendGenerationTag
typedecl ArtifactGenerationTag
typedecl WorkloadGenerationTag
typedecl PlacementGenerationTag
typedecl MigrationGenerationTag
typedecl PolicyGenerationTag
typedecl CompatibilityGenerationTag
typedecl CapacityGenerationTag
typedecl TopologyGenerationTag
typedecl EvidenceGenerationTag
typedecl CoordinatorEpochTag
typedecl SnapshotGenerationTag
typedecl BootGenerationTag
typedecl PublisherGenerationTag

type_synonym FederationGeneration = "FederationGenerationTag Generation"
type_synonym SiteGeneration = "SiteGenerationTag Generation"
type_synonym ClusterGeneration = "ClusterGenerationTag Generation"
type_synonym ClusterEpoch = "ClusterEpochTag Generation"
type_synonym AcceleratorCapabilityGeneration = "AcceleratorCapabilityGenerationTag Generation"
type_synonym RuntimeGeneration = "RuntimeGenerationTag Generation"
type_synonym BackendGeneration = "BackendGenerationTag Generation"
type_synonym ArtifactGeneration = "ArtifactGenerationTag Generation"
type_synonym WorkloadGeneration = "WorkloadGenerationTag Generation"
type_synonym PlacementGeneration = "PlacementGenerationTag Generation"
type_synonym MigrationGeneration = "MigrationGenerationTag Generation"
type_synonym PolicyGeneration = "PolicyGenerationTag Generation"
type_synonym CompatibilityGeneration = "CompatibilityGenerationTag Generation"
type_synonym CapacityGeneration = "CapacityGenerationTag Generation"
type_synonym TopologyGeneration = "TopologyGenerationTag Generation"
type_synonym EvidenceGeneration = "EvidenceGenerationTag Generation"
type_synonym CoordinatorEpoch = "CoordinatorEpochTag Generation"
type_synonym SnapshotGeneration = "SnapshotGenerationTag Generation"
type_synonym BootGeneration = "BootGenerationTag Generation"
type_synonym PublisherGeneration = "PublisherGenerationTag Generation"

section \<open>Sequence numbers and time stamps\<close>

datatype Sequence = Sequence (seq_value: u64)

definition seq_is_zero :: "Sequence \<Rightarrow> bool" where
  "seq_is_zero s = (seq_value s = 0)"

definition seq_next :: "Sequence \<Rightarrow> Sequence" where
  "seq_next s =
     (if seq_value s = UINT64_MAX then Sequence (seq_value s) else Sequence (seq_value s + 1))"

definition seq_to_string :: "Sequence \<Rightarrow> string" where
  "seq_to_string s = to_string_u64 (seq_value s)"

instantiation Sequence :: linorder
begin

definition less_eq_Sequence :: "Sequence \<Rightarrow> Sequence \<Rightarrow> bool" where
  "less_eq_Sequence a b = (seq_value a \<le> seq_value b)"

definition less_Sequence :: "Sequence \<Rightarrow> Sequence \<Rightarrow> bool" where
  "less_Sequence a b = (seq_value a < seq_value b)"

instance
  by intro_classes (auto simp: less_eq_Sequence_def less_Sequence_def Sequence.expand)

end

text \<open>\<open>TimestampNanos\<close> is a signed 64-bit count that the runtime only compares and stores.\<close>

type_synonym TimestampNanos = int

text \<open>
  \<open>now_unix_nanos()\<close> reads the system clock. An operation takes the readings it makes as a
  parameter: \<open>clock i\<close> is the result of its \<open>i\<close>-th read.
\<close>

type_synonym clock = "nat \<Rightarrow> TimestampNanos"

section \<open>Lemmas\<close>

lemma first_failure_Success:
  "first_failure check xs = Success \<longleftrightarrow> (\<forall>x \<in> set xs. check x = Success)"
  by (induction xs) (auto split: Status.splits)

lemma first_failure_Failure:
  "first_failure check xs = Failure e \<Longrightarrow> \<exists>x \<in> set xs. check x = Failure e"
  by (induction xs) (auto split: Status.splits)

lemma fail_not_Success [simp]: "fail c m d \<noteq> Success" "Success \<noteq> fail c m d"
  by (simp_all add: fail_def)

lemma status_code_fail [simp]: "status_code (fail c m d) = c"
  by (simp add: fail_def status_code_def)

lemma has_duplicates_iff [simp]: "has_duplicates xs \<longleftrightarrow> \<not> distinct xs"
  by (simp add: has_duplicates_def adjacent_dup_sorted)

lemma ErrorCode_to_string_inject: "ErrorCode_to_string a = ErrorCode_to_string b \<Longrightarrow> a = b"
  by (cases a; cases b) simp_all

lemma gen_value_next: "gen_value g \<noteq> UINT64_MAX \<Longrightarrow> unat (gen_value (gen_next g)) = Suc (unat (gen_value g))"
  by (simp add: gen_next_def u64_inc)

lemma gen_next_ge [simp]: "g \<le> gen_next g"
  by (cases "gen_value g = UINT64_MAX")
    (auto simp: gen_next_def less_eq_Generation_def word_le_nat_alt u64_inc)

lemma gen_next_newer: "gen_value g \<noteq> UINT64_MAX \<Longrightarrow> newer_than (gen_next g) g"
  by (simp add: newer_than_def word_less_nat_alt gen_value_next)

lemma newer_than_less: "newer_than a b \<longleftrightarrow> b < a"
  by (simp add: newer_than_def less_Generation_def)

lemma older_than_less: "older_than a b \<longleftrightarrow> a < b"
  by (simp add: older_than_def less_Generation_def)

lemma is_set_gen_next [simp]: "is_set (gen_next g)"
proof (cases "gen_value g = UINT64_MAX")
  case False
  from gen_value_next [OF False] have "gen_value (gen_next g) \<noteq> 0" by (metis unat_0 nat.distinct(1))
  then show ?thesis by (simp add: is_set_def)
qed (simp add: is_set_def gen_next_def)

lemma is_set_newer: "newer_than g other \<Longrightarrow> is_set g"
  by (auto simp: newer_than_def is_set_def)

lemmas generation_order = newer_than_less older_than_less

lemma id_empty_iff: "id_empty i \<longleftrightarrow> i = no_id"
  by (cases i) (simp add: id_empty_def)

lemma is_valid_identifier_bound: "is_valid_identifier t \<Longrightarrow> t \<noteq> [] \<and> length t \<le> 96"
  by (auto simp: is_valid_identifier_def kMaxIdentifierLength_def split: if_splits)

lemma StrongId_parse_Inr:
  "StrongId_parse n t = Inr i \<longleftrightarrow> is_valid_identifier t \<and> i = StrongId t"
  by (auto simp: StrongId_parse_def is_valid_identifier_def)

end
