(* ===== verification/FO_Arith.thy ===== *)
theory FO_Arith
  imports FO_Ids
begin

text \<open>
  Deterministic arithmetic of \<open>foundation.cpp\<close>: checked 64-bit arithmetic, the 128-bit product and
  long division behind exact percentages, CRC-32, FNV-1a, SplitMix64 and the text helpers built on
  them. An out-parameter that is written only on success is an \<open>option\<close> result.
\<close>

unbundle bit_operations_syntax

section \<open>Checked arithmetic\<close>

definition checked_add :: "u64 \<Rightarrow> u64 \<Rightarrow> u64 option" where
  "checked_add a b = (if a > UINT64_MAX - b then None else Some (a + b))"

definition checked_sub :: "u64 \<Rightarrow> u64 \<Rightarrow> u64 option" where
  "checked_sub a b = (if b > a then None else Some (a - b))"

definition checked_mul :: "u64 \<Rightarrow> u64 \<Rightarrow> u64 option" where
  "checked_mul a b =
     (if a = 0 \<or> b = 0 then Some 0
      else if a > UINT64_MAX div b then None
      else Some (a * b))"

definition saturating_add :: "u64 \<Rightarrow> u64 \<Rightarrow> u64" where
  "saturating_add a b = (case checked_add a b of Some out \<Rightarrow> out | None \<Rightarrow> UINT64_MAX)"

fun checked_sum_from :: "u64 \<Rightarrow> u64 list \<Rightarrow> u64 option" where
  "checked_sum_from acc [] = Some acc"
| "checked_sum_from acc (v # vs) =
     (case checked_add acc v of None \<Rightarrow> None | Some t \<Rightarrow> checked_sum_from t vs)"

definition checked_sum :: "u64 list \<Rightarrow> u64 option" where
  "checked_sum values = checked_sum_from 0 values"

section \<open>128-bit helpers\<close>

record U128 =
  u_hi :: u64
  u_lo :: u64

definition mul_u64 :: "u64 \<Rightarrow> u64 \<Rightarrow> U128" where
  "mul_u64 a b =
     (let a0 = a AND 0xFFFFFFFF; a1 = drop_bit 32 a;
          b0 = b AND 0xFFFFFFFF; b1 = drop_bit 32 b;
          p00 = a0 * b0; p01 = a0 * b1; p10 = a1 * b0; p11 = a1 * b1;
          mid = drop_bit 32 p00 + (p01 AND 0xFFFFFFFF) + (p10 AND 0xFFFFFFFF)
      in \<lparr>u_hi = p11 + drop_bit 32 p01 + drop_bit 32 p10 + drop_bit 32 mid,
          u_lo = (p00 AND 0xFFFFFFFF) OR push_bit 32 mid\<rparr>)"

text \<open>The loop of \<open>div_u128_by_u64\<close>; its first argument is \<open>bit + 1\<close>.\<close>

fun div_loop :: "nat \<Rightarrow> U128 \<Rightarrow> u64 \<Rightarrow> u64 \<Rightarrow> u64 \<Rightarrow> u64" where
  "div_loop 0 value divisor quot rmd = quot"
| "div_loop (Suc n) value divisor quot rmd =
     (let nxt = (if n \<ge> 64 then drop_bit (n - 64) (u_hi value) AND 1
                 else drop_bit n (u_lo value) AND 1);
          carry = (drop_bit 63 rmd \<noteq> 0);
          shifted = push_bit 1 rmd OR nxt
      in if carry \<or> shifted \<ge> divisor then
           (if n \<ge> 64 then UINT64_MAX
            else div_loop n value divisor (quot OR push_bit n 1) (shifted - divisor))
         else div_loop n value divisor quot shifted)"

definition div_u128_by_u64 :: "U128 \<Rightarrow> u64 \<Rightarrow> u64" where
  "div_u128_by_u64 value divisor =
     (if divisor = 0 then 0 else div_loop 128 value divisor 0 0)"

definition basis_points_of :: "u64 \<Rightarrow> u64 \<Rightarrow> u32" where
  "basis_points_of part whole =
     (if whole = 0 then 0
      else let scaled = mul_u64 part 10000; quot = div_u128_by_u64 scaled whole
           in if quot > UINT32_MAX then 0xFFFFFFFF else ucast quot)"

definition pad :: "u64 \<Rightarrow> nat \<Rightarrow> string" where
  "pad value width =
     (let text = to_string_u64 value
      in if length text < width then replicate (width - length text) (CHR ''0'') @ text else text)"

definition percent_string :: "u64 \<Rightarrow> u64 \<Rightarrow> string" where
  "percent_string part whole =
     (if whole = 0 then ''0.00%''
      else let scaled = mul_u64 part 1000000; micro = div_u128_by_u64 scaled whole
           in if micro = UINT64_MAX then ''>1.8e14%''
              else let hundredths = (micro + 50) div 100; whole_part = hundredths div 100
                   in to_string_u64 whole_part @ ''.'' @ pad (hundredths mod 100) 2 @ ''%'')"

section \<open>Checksums and hashes\<close>

definition crc_step :: "u32 \<Rightarrow> u32" where
  "crc_step c = (if c AND 1 \<noteq> 0 then 0xEDB88320 XOR drop_bit 1 c else drop_bit 1 c)"

definition crc_table :: "u32 list" where
  "crc_table = map (\<lambda>i. (crc_step ^^ 8) (of_nat i)) [0..<256]"

fun crc32_loop :: "u32 \<Rightarrow> byte list \<Rightarrow> u32" where
  "crc32_loop crc [] = crc"
| "crc32_loop crc (b # bs) =
     crc32_loop (crc_table ! unat ((crc XOR ucast b) AND 0xFF) XOR drop_bit 8 crc) bs"

definition crc32 :: "byte list \<Rightarrow> u32" where
  "crc32 bytes = crc32_loop 0xFFFFFFFF bytes XOR 0xFFFFFFFF"

text \<open>The bytes of a text, as \<open>unsigned char\<close>.\<close>

definition byte_of_char :: "char \<Rightarrow> byte" where
  "byte_of_char c = of_nat (of_char c)"

definition char_of_byte :: "byte \<Rightarrow> char" where
  "char_of_byte b = char_of (unat b)"

definition fnv1a64_step :: "u64 \<Rightarrow> byte \<Rightarrow> u64" where
  "fnv1a64_step hash b = (hash XOR ucast b) * 1099511628211"

definition fnv1a64_bytes :: "byte list \<Rightarrow> u64" where
  "fnv1a64_bytes bs = foldl fnv1a64_step 14695981039346656037 bs"

definition fnv1a64 :: "string \<Rightarrow> u64" where
  "fnv1a64 text = fnv1a64_bytes (map byte_of_char text)"

definition kHex :: string where
  "kHex = ''0123456789abcdef''"

fun hex_loop :: "nat \<Rightarrow> u64 \<Rightarrow> string \<Rightarrow> string" where
  "hex_loop 0 value out = out"
| "hex_loop (Suc i) value out = hex_loop i (drop_bit 4 value) (kHex ! unat (value AND 0xF) # out)"

definition hex_digest64 :: "u64 \<Rightarrow> string" where
  "hex_digest64 value = hex_loop 16 value []"

text \<open>\<open>render_table\<close>: left-aligned columns, trailing blanks of a line removed.\<close>

definition newline :: string where
  "newline = [char_of (10 :: nat)]"

definition table_widths :: "string list \<Rightarrow> string list list \<Rightarrow> nat list" where
  "table_widths headers rows =
     map (\<lambda>i. foldl max (length (headers ! i))
            (map (\<lambda>row. length (row ! i)) (filter (\<lambda>row. i < length row) rows)))
       [0..<length headers]"

definition trim_right :: "string \<Rightarrow> string" where
  "trim_right line = rev (dropWhile (\<lambda>c. c = CHR '' '') (rev line))"

definition emit_row :: "string \<Rightarrow> nat list \<Rightarrow> string list \<Rightarrow> string" where
  "emit_row indent widths row =
     trim_right (indent @ concat (map (\<lambda>i.
       let cell = (if i < length row then row ! i else [])
       in cell @ (if i + 1 < length widths then replicate (widths ! i - length cell + 2) (CHR '' '') else []))
       [0..<length widths]))"

definition render_table :: "string list \<Rightarrow> string list list \<Rightarrow> string \<Rightarrow> string" where
  "render_table headers rows indent =
     (let widths = table_widths headers rows
      in emit_row indent widths headers @ newline @ indent @
         concat (map (\<lambda>i. replicate (widths ! i) (CHR ''-'') @
                            (if i + 1 < length widths then ''  '' else [])) [0..<length widths]) @
         concat (map (\<lambda>row. newline @ emit_row indent widths row) rows))"

definition digest_text :: "string \<Rightarrow> string" where
  "digest_text text = hex_digest64 (fnv1a64 text)"

section \<open>SplitMix64\<close>

record DeterministicRandom =
  rng_state :: u64
  rng_seed :: u64

definition DeterministicRandom_init :: "u64 \<Rightarrow> DeterministicRandom" where
  "DeterministicRandom_init seed = \<lparr>rng_state = seed, rng_seed = seed\<rparr>"

definition next_u64 :: "DeterministicRandom \<Rightarrow> u64 \<times> DeterministicRandom" where
  "next_u64 g =
     (let s = rng_state g + 0x9E3779B97F4A7C15;
          z1 = (s XOR drop_bit 30 s) * 0xBF58476D1CE4E5B9;
          z2 = (z1 XOR drop_bit 27 z1) * 0x94D049BB133111EB
      in (z2 XOR drop_bit 31 z2, g\<lparr>rng_state := s\<rparr>))"

definition rng_below :: "u32 \<Rightarrow> DeterministicRandom \<Rightarrow> u32 \<times> DeterministicRandom" where
  "rng_below bound g =
     (if bound = 0 then (0, g)
      else let (v, g') = next_u64 g in (ucast (v mod ucast bound), g'))"

definition rng_chance :: "u32 \<Rightarrow> u32 \<Rightarrow> DeterministicRandom \<Rightarrow> bool \<times> DeterministicRandom" where
  "rng_chance numerator denominator g =
     (if denominator = 0 then (False, g)
      else let (v, g') = rng_below denominator g in (v < numerator, g'))"

section \<open>Text helpers\<close>

fun join_strings :: "string list \<Rightarrow> string \<Rightarrow> string" where
  "join_strings [] separator = []"
| "join_strings [v] separator = v"
| "join_strings (v # vs) separator = v @ separator @ join_strings vs separator"

definition truncate_with_marker :: "string \<Rightarrow> nat \<Rightarrow> string" where
  "truncate_with_marker text max_bytes =
     (if length text \<le> max_bytes then text
      else if max_bytes \<le> 3 then take max_bytes text
      else take (max_bytes - 3) text @ ''...'')"

section \<open>Correctness of checked arithmetic\<close>

lemma checked_add_iff:
  "checked_add a b = Some c \<longleftrightarrow> unat a + unat b < 18446744073709551616 \<and> c = a + b"
proof -
  have "a > UINT64_MAX - b \<longleftrightarrow> unat a > 18446744073709551615 - unat b"
    by (simp add: word_less_nat_alt u64_max_sub)
  also have "\<dots> \<longleftrightarrow> \<not> unat a + unat b < 18446744073709551616"
    using unat_u64_le [of b] by linarith
  finally show ?thesis by (auto simp: checked_add_def)
qed

lemma checked_add_unat: "checked_add a b = Some c \<Longrightarrow> unat c = unat a + unat b"
  by (auto simp: checked_add_iff u64_add_no_wrap)

lemma checked_add_None: "checked_add a b = None \<longleftrightarrow> 18446744073709551616 \<le> unat a + unat b"
  using checked_add_iff [of a b "a + b"] by (cases "checked_add a b") (auto simp: checked_add_iff)

lemma checked_add_exact:
  "unat a + unat b < 18446744073709551616 \<Longrightarrow> checked_add a b = Some (a + b)"
  by (simp add: checked_add_iff)

lemma checked_sub_iff: "checked_sub a b = Some c \<longleftrightarrow> unat b \<le> unat a \<and> c = a - b"
  by (auto simp: checked_sub_def word_less_nat_alt)

lemma checked_sub_unat: "checked_sub a b = Some c \<Longrightarrow> unat c + unat b = unat a"
  by (auto simp: checked_sub_iff u64_sub_no_wrap word_le_nat_alt)

lemma checked_mul_iff:
  "checked_mul a b = Some c \<longleftrightarrow> unat a * unat b < 18446744073709551616 \<and> c = a * b"
proof (cases "a = 0 \<or> b = 0")
  case True
  then show ?thesis by (auto simp: checked_mul_def)
next
  case False
  then have b: "0 < unat b" by (simp add: unat_gt_0)
  have "a > UINT64_MAX div b \<longleftrightarrow> 18446744073709551615 div unat b < unat a"
    by (simp add: word_less_nat_alt unat_div_distrib)
  also have "\<dots> \<longleftrightarrow> \<not> unat a * unat b < 18446744073709551616"
    using b by (simp add: div_less_iff_less_mult) linarith
  finally show ?thesis using False by (auto simp: checked_mul_def)
qed

lemma checked_mul_unat: "checked_mul a b = Some c \<Longrightarrow> unat c = unat a * unat b"
  by (auto simp: checked_mul_iff unat_word_ariths)

lemma checked_sum_from_Some:
  "checked_sum_from t vs = Some s \<Longrightarrow> unat s = unat t + sum_list (map unat vs)"
  by (induction vs arbitrary: t) (auto split: option.splits dest: checked_add_unat)

lemma checked_sum_from_exact:
  "unat t + sum_list (map unat vs) < 18446744073709551616 \<Longrightarrow> \<exists>s. checked_sum_from t vs = Some s"
proof (induction vs arbitrary: t)
  case (Cons v vs)
  then have "unat t + unat v < 18446744073709551616" by simp
  then have s: "checked_add t v = Some (t + v)" and "unat (t + v) = unat t + unat v"
    by (simp_all add: checked_add_exact u64_add_no_wrap)
  with Cons show ?case by (simp add: add.assoc)
qed simp

lemma checked_sum_correct:
  "checked_sum vs = (if sum_list (map unat vs) < 18446744073709551616
                     then Some (of_nat (sum_list (map unat vs))) else None)"
proof (cases "checked_sum vs")
  case None
  then have "\<not> sum_list (map unat vs) < 18446744073709551616"
    using checked_sum_from_exact [of 0 vs] by (auto simp: checked_sum_def)
  with None show ?thesis by simp
next
  case (Some s)
  then have s: "unat s = sum_list (map unat vs)"
    by (simp add: checked_sum_def checked_sum_from_Some)
  then have "s = of_nat (sum_list (map unat vs))"
    by (simp flip: s)
  with Some s show ?thesis by (metis unat_u64_less)
qed

lemma checked_sum_single: "checked_sum [v] = Some v"
  by (simp add: checked_sum_def checked_add_exact)

lemma checked_sum_from_correct:
  "checked_sum_from t vs = (let s = unat t + sum_list (map unat vs)
     in if s < 18446744073709551616 then Some (of_nat s) else None)"
proof (cases "checked_sum_from t vs")
  case None
  then show ?thesis using checked_sum_from_exact [of t vs] by (auto simp: Let_def)
next
  case (Some r)
  then have r: "unat t + sum_list (map unat vs) = unat r" by (simp add: checked_sum_from_Some)
  show ?thesis unfolding r Some by simp
qed

section \<open>The 128-bit product and the long division are exact\<close>

lemma unat_and_low32: "unat ((w :: u64) AND 0xFFFFFFFF) = unat w mod 4294967296"
proof -
  have "w AND 0xFFFFFFFF = take_bit 32 w"
    by (simp add: take_bit_eq_mask mask_eq_exp_minus_1)
  then show ?thesis by (simp add: take_bit_eq_mod unat_mod_distrib)
qed

lemma unat_drop32: "unat (drop_bit 32 (w :: u64)) = unat w div 4294967296"
  by (simp add: drop_bit_eq_div unat_div_distrib)

lemma u64_mult_no_wrap:
  "unat (a :: u64) * unat b < 18446744073709551616 \<Longrightarrow> unat (a * b) = unat a * unat b"
  by (simp add: unat_word_ariths)

lemma unat_push32: "unat (push_bit 32 (w :: u64)) = (unat w mod 4294967296) * 4294967296"
  using mod_mult_mult2 [of "unat w" 4294967296 4294967296]
  by (simp add: push_bit_eq_mult unat_word_ariths)

lemma or_low_high:
  "unat (((x :: u64) AND 0xFFFFFFFF) OR push_bit 32 y) = unat (x AND 0xFFFFFFFF) + unat (push_bit 32 y)"
proof -
  have "(x AND 0xFFFFFFFF) AND push_bit 32 y = 0"
  proof (rule bit_eqI)
    fix n
    have "x AND 0xFFFFFFFF = take_bit 32 x"
      by (simp add: take_bit_eq_mask mask_eq_exp_minus_1)
    then show "bit ((x AND 0xFFFFFFFF) AND push_bit 32 y) n = bit (0 :: u64) n"
      by (auto simp: bit_simps)
  qed
  then have "(x AND 0xFFFFFFFF) OR push_bit 32 y = (x AND 0xFFFFFFFF) + push_bit 32 y"
    by (simp add: disjunctive_add_eq_or)
  moreover have "unat (x AND 0xFFFFFFFF) + unat (push_bit 32 y) < 18446744073709551616"
    unfolding unat_and_low32 unat_push32
    using mod_less_divisor [of 4294967296 "unat y"] mod_less_divisor [of 4294967296 "unat x"]
    by simp
  ultimately show ?thesis by (simp add: u64_add_no_wrap)
qed

definition u128_nat :: "U128 \<Rightarrow> nat" where
  "u128_nat v = unat (u_hi v) * 18446744073709551616 + unat (u_lo v)"

lemma split_base:
  fixes a b :: nat
  defines "B \<equiv> 4294967296"
  shows "a * b = (a div B * (b div B)) * (B * B) + ((a mod B) * (b div B) + (a div B) * (b mod B)) * B
      + (a mod B) * (b mod B)"
proof -
  have "a * b = ((a div B) * B + a mod B) * ((b div B) * B + b mod B)" by simp
  also have "\<dots> = (a div B * (b div B)) * (B * B) + ((a mod B) * (b div B) + (a div B) * (b mod B)) * B
      + (a mod B) * (b mod B)" by (simp only: algebra_simps)
  finally show ?thesis .
qed

lemma carry_base:
  fixes x y z :: nat
  defines "B \<equiv> 4294967296"
  defines "m \<equiv> z div B + x mod B + y mod B"
  shows "(x + y) * B + z = (x div B + y div B + m div B) * (B * B) + ((m mod B) * B + z mod B)"
proof -
  have x: "x = x div B * B + x mod B" and y: "y = y div B * B + y mod B"
    and z: "z = z div B * B + z mod B" and m: "m = m div B * B + m mod B" by simp_all
  have "(x + y) * B + z = (x div B * B + x mod B + (y div B * B + y mod B)) * B + (z div B * B + z mod B)"
    using x y z by simp
  also have "\<dots> = (x div B + y div B) * (B * B) + m * B + z mod B"
    by (simp only: m_def algebra_simps)
  also have "\<dots> = (x div B + y div B) * (B * B) + (m div B * B + m mod B) * B + z mod B"
    using m by simp
  finally show ?thesis by (simp only: algebra_simps)
qed

lemma mul_u64_correct: "u128_nat (mul_u64 a b) = unat a * unat b"
proof -
  define B :: nat where "B = 4294967296"
  define x where "x = unat a mod B * (unat b div B)"
  define y where "y = unat a div B * (unat b mod B)"
  define z where "z = unat a mod B * (unat b mod B)"
  define q where "q = unat a div B * (unat b div B)"
  define m where "m = z div B + x mod B + y mod B"
  define h where "h = q + x div B + y div B + m div B"
  have small: "unat w div B < B" "unat w mod B < B" for w :: u64
    using unat_u64_less [of w] by (simp_all add: B_def div_less_iff_less_mult)
  have prod_lt: "i < B \<Longrightarrow> j < B \<Longrightarrow> i * j < 18446744073709551616" for i j
    using mult_strict_mono' [of i B j B] by (simp add: B_def)
  note parts = unat_and_low32 [folded B_def] unat_drop32 [folded B_def]
  have p: "unat ((a AND 0xFFFFFFFF) * (b AND 0xFFFFFFFF)) = z"
    "unat ((a AND 0xFFFFFFFF) * drop_bit 32 b) = x"
    "unat (drop_bit 32 a * (b AND 0xFFFFFFFF)) = y"
    "unat (drop_bit 32 a * drop_bit 32 b) = q"
    by (simp_all add: u64_mult_no_wrap parts prod_lt small x_def y_def z_def q_def)
  have zB: "z div B < B"
    using prod_lt [OF small(2) [of a] small(2) [of b]]
    by (simp add: z_def B_def div_less_iff_less_mult)
  have mlt: "m < 3 * B"
    using zB mod_less_divisor [of B x] mod_less_divisor [of B y] by (simp add: m_def B_def)
  have total: "unat a * unat b = h * (B * B) + ((m mod B) * B + z mod B)"
  proof -
    have "unat a * unat b = q * (B * B) + ((x + y) * B + z)"
      using split_base [of "unat a" "unat b"] by (simp add: B_def x_def y_def z_def q_def)
    also have "(x + y) * B + z = (x div B + y div B + m div B) * (B * B) + ((m mod B) * B + z mod B)"
      using carry_base [of x y z] by (simp add: B_def m_def)
    finally show ?thesis by (simp add: h_def algebra_simps)
  qed
  have "unat a * unat b < (B * B) * (B * B)"
    using mult_strict_mono' [OF unat_u64_less [of a] unat_u64_less [of b]] by (simp add: B_def)
  then have hlt: "h < 18446744073709551616"
    using total by (simp add: B_def)
  define md where "md = drop_bit 32 ((a AND 0xFFFFFFFF) * (b AND 0xFFFFFFFF)) +
      ((a AND 0xFFFFFFFF) * drop_bit 32 b AND 0xFFFFFFFF) +
      (drop_bit 32 a * (b AND 0xFFFFFFFF) AND 0xFFFFFFFF)"
  have md: "unat md = m"
    unfolding md_def m_def using mlt [unfolded m_def]
    by (simp add: u64_add_no_wrap parts p B_def)
  have hi: "unat (u_hi (mul_u64 a b)) = h"
    using hlt unfolding mul_u64_def h_def
    by (simp add: Let_def md_def [symmetric] u64_add_no_wrap parts p md)
  have lo: "unat (u_lo (mul_u64 a b)) = z mod B + (m mod B) * B"
    unfolding mul_u64_def
    by (simp add: Let_def md_def [symmetric] or_low_high unat_push32 md parts p B_def)
  show ?thesis
    by (simp add: u128_nat_def hi lo total B_def)
qed

lemma unat_drop_bit_div: "unat (drop_bit n w) = unat w div 2 ^ n"
  by (metis unat_drop_bit_eq drop_bit_eq_div)

lemma and_one_cases: "(w :: u64) AND 1 = of_nat (unat w mod 2)"
  by (simp add: and_one_eq u64_eq_iff unat_mod_distrib unat_of_nat)

lemma u128_bit:
  "(if 64 \<le> n then drop_bit (n - 64) (u_hi v) AND 1 else drop_bit n (u_lo v) AND 1)
     = (of_nat (u128_nat v div 2 ^ n mod 2) :: u64)"
proof (cases "64 \<le> n")
  case True
  then obtain k where n: "n = 64 + k" using le_iff_add by blast
  have "u128_nat v div 2 ^ n = u128_nat v div 2 ^ 64 div 2 ^ k"
    by (simp add: n power_add div_mult2_eq)
  also have "u128_nat v div 2 ^ 64 = unat (u_hi v)"
    by (simp add: u128_nat_def)
  finally show ?thesis using n
    by (simp add: and_one_cases unat_drop_bit_div)
next
  case False
  then obtain k where k: "64 = n + Suc k" using less_iff_Suc_add [of n 64] by auto
  have split: "(18446744073709551616 :: nat) = 2 ^ n * (2 * 2 ^ k)"
    using arg_cong [OF k, of "(^) (2 :: nat)"] by (simp add: power_add)
  have "u128_nat v div 2 ^ n = unat (u_hi v) * (2 * 2 ^ k) + unat (u_lo v) div 2 ^ n"
    using div_mult_self3 [of "2 ^ n" "unat (u_hi v) * (2 * 2 ^ k)" "unat (u_lo v)"]
    unfolding u128_nat_def split by (simp add: ac_simps)
  then have "u128_nat v div 2 ^ n = unat (u_lo v) div 2 ^ n + 2 * (unat (u_hi v) * 2 ^ k)" by simp
  then have "u128_nat v div 2 ^ n mod 2 = unat (u_lo v) div 2 ^ n mod 2"
    by (metis mod_mult_self2)
  with False show ?thesis
    by (simp add: and_one_cases unat_drop_bit_div)
qed

lemma shift_or_bit: "b < 2 \<Longrightarrow> push_bit 1 (r :: u64) OR of_nat b = of_nat (2 * unat r + b)"
proof -
  assume "b < 2"
  then have "b = 0 \<or> b = 1" by linarith
  moreover have "push_bit 1 r AND 1 = 0"
    by (rule bit_eqI) (auto simp: bit_and_iff bit_push_bit_iff bit_1_iff simp del: push_bit_Suc One_nat_def)
  then have "push_bit 1 r OR 1 = push_bit 1 r + 1"
    by (rule disjunctive_add_eq_or [symmetric])
  ultimately show ?thesis
    by (auto simp: push_bit_eq_mult mult.commute)
qed

lemma nat_div_step:
  fixes V d n :: nat
  assumes "0 < d"
  defines "X \<equiv> V div 2 ^ Suc n div d" and "R \<equiv> V div 2 ^ Suc n mod d" and "b \<equiv> V div 2 ^ n mod 2"
  shows "2 * R + b < d \<Longrightarrow> V div 2 ^ n div d = 2 * X \<and> V div 2 ^ n mod d = 2 * R + b"
    and "d \<le> 2 * R + b \<Longrightarrow> V div 2 ^ n div d = 2 * X + 1 \<and> V div 2 ^ n mod d = 2 * R + b - d"
    and "2 * R + b < 2 * d"
proof -
  have R: "R < d" and b: "b < 2" using assms(1) by (simp_all add: R_def b_def)
  then show lt: "2 * R + b < 2 * d" by linarith
  have "V div 2 ^ n = 2 * (V div 2 ^ Suc n) + b"
    by (simp add: b_def power_Suc2 div_mult2_eq del: power_Suc)
  also have "V div 2 ^ Suc n = X * d + R" by (simp add: X_def R_def)
  finally have V: "V div 2 ^ n = (2 * X) * d + (2 * R + b)" by (simp add: algebra_simps)
  show "2 * R + b < d \<Longrightarrow> V div 2 ^ n div d = 2 * X \<and> V div 2 ^ n mod d = 2 * R + b"
    unfolding V by simp
  assume ge: "d \<le> 2 * R + b"
  have "V div 2 ^ n = (2 * X + 1) * d + (2 * R + b - d)" using V ge by simp
  moreover have "2 * R + b - d < d" using lt by linarith
  ultimately show "V div 2 ^ n div d = 2 * X + 1 \<and> V div 2 ^ n mod d = 2 * R + b - d"
    by (metis add.commute assms(1) div_mult_self1_is_m div_mult_self3 div_less mod_less mod_mult_self3
        add_0_right gr_implies_not0)
qed

lemma or_set_bit:
  "n < 64 \<Longrightarrow> (of_nat (X * 2 ^ Suc n) :: u64) OR push_bit n 1 = of_nat ((2 * X + 1) * 2 ^ n)"
proof -
  have X: "(of_nat (X * 2 ^ Suc n) :: u64) = push_bit (Suc n) (of_nat X)"
    by (simp add: push_bit_eq_mult)
  have "push_bit (Suc n) (of_nat X :: u64) AND push_bit n 1 = 0"
    by (rule bit_eqI) (auto simp: bit_and_iff bit_push_bit_iff bit_1_iff simp del: push_bit_Suc push_bit_of_1)
  then have "push_bit (Suc n) (of_nat X :: u64) OR push_bit n 1 = push_bit (Suc n) (of_nat X) + push_bit n 1"
    by (rule disjunctive_add_eq_or [symmetric])
  then show ?thesis unfolding X by (simp add: push_bit_eq_mult algebra_simps)
qed

lemma fits_below: "V div 18446744073709551616 div d = 0 \<Longrightarrow> V div d < (18446744073709551616 :: nat)"
  by (metis div_eq_0_iff div_mult2_eq mult.commute numeral_eq_iff zero_neq_numeral)

lemma div_loop_correct:
  fixes v :: U128 and dv :: u64
  defines "V \<equiv> u128_nat v" and "d \<equiv> unat dv"
  assumes d: "0 < d"
    and q: "q = of_nat (V div 2 ^ n div d * 2 ^ n)"
    and r: "r = of_nat (V div 2 ^ n mod d)"
    and hi: "64 \<le> n \<Longrightarrow> V div 2 ^ n div d = 0"
    and fits: "n < 64 \<Longrightarrow> V div d < 18446744073709551616"
  shows "div_loop n v dv q r = (if V div d < 18446744073709551616 then of_nat (V div d) else UINT64_MAX)"
  using q r hi fits
proof (induction n arbitrary: q r)
  case 0
  then show ?case
    by simp
next
  case (Suc n)
  define R where "R = V div 2 ^ Suc n mod d"
  define b where "b = V div 2 ^ n mod 2"
  define X where "X = V div 2 ^ Suc n div d"
  note step = nat_div_step [OF d, of V n, folded R_def b_def X_def]
  have dlt: "d < 18446744073709551616" by (simp add: d_def)
  have Rd: "R < d" using d by (simp add: R_def)
  have r: "unat r = R" using Suc.prems(2) Rd dlt unfolding R_def [symmetric] by (simp add: unat_of_nat)
  have shifted: "push_bit 1 r OR (if 64 \<le> n then drop_bit (n - 64) (u_hi v) AND 1 else drop_bit n (u_lo v) AND 1)
      = of_nat (2 * R + b)"
    using shift_or_bit [of b r] unfolding u128_bit by (simp add: r b_def V_def)
  have carry: "drop_bit 63 r \<noteq> 0 \<longleftrightarrow> 9223372036854775808 \<le> R"
    by (simp add: u64_eq_iff unat_drop_bit_div r div_eq_0_iff not_less)
  have test: "drop_bit 63 r \<noteq> 0 \<or> dv \<le> of_nat (2 * R + b) \<longleftrightarrow> d \<le> 2 * R + b"
  proof (cases "9223372036854775808 \<le> R")
    case True
    with carry dlt show ?thesis by simp
  next
    case False
    moreover have "b < 2" by (simp add: b_def)
    ultimately have "2 * R + b < 18446744073709551616" by linarith
    then have "unat (of_nat (2 * R + b) :: u64) = 2 * R + b"
      by (simp add: unat_of_nat del: of_nat_add of_nat_mult)
    with carry False show ?thesis by (simp add: word_le_nat_alt d_def del: of_nat_add of_nat_mult)
  qed
  show ?case
  proof (cases "d \<le> 2 * R + b")
    case True
    note quot = step(2) [OF True]
    show ?thesis
    proof (cases "64 \<le> n")
      case big: True
      have "2 ^ n \<le> V div 2 ^ n div d * 2 ^ n" using quot by simp
      also have "\<dots> \<le> V div d" 
        by (metis div_mult2_eq div_times_less_eq_dividend mult.commute)
      finally have "2 ^ n \<le> V div d" .
      moreover have "(18446744073709551616 :: nat) \<le> 2 ^ n"
        using power_increasing [OF big, of "2 :: nat"] by simp
      ultimately have "\<not> V div d < 18446744073709551616" by linarith
      with True big test shifted show ?thesis by (simp add: Let_def)
    next
      case False
      have fits: "V div d < 18446744073709551616"
        using Suc.prems(3,4) fits_below [of V d] False by (cases "n = 63") auto
      have q: "q OR push_bit n 1 = of_nat (V div 2 ^ n div d * 2 ^ n)"
        using Suc.prems(1) or_set_bit [of n X] False quot by (simp add: X_def)
      have r': "of_nat (2 * R + b) - dv = of_nat (V div 2 ^ n mod d)"
        using quot True by (simp add: d_def)
      have "div_loop n v dv (q OR push_bit n 1) (of_nat (2 * R + b) - dv) =
        (if V div d < 18446744073709551616 then of_nat (V div d) else UINT64_MAX)"
        using Suc.IH [OF q r'] False fits by simp
      with True False test shifted show ?thesis by (simp add: Let_def)
    qed
  next
    case False
    note quot = step(1) [OF False [unfolded not_le]]
    have q: "q = of_nat (V div 2 ^ n div d * 2 ^ n)"
      using Suc.prems(1) quot unfolding X_def [symmetric] by (simp add: algebra_simps)
    have r': "of_nat (2 * R + b) = of_nat (V div 2 ^ n mod d)"
      using quot by simp
    have hi: "64 \<le> n \<Longrightarrow> V div 2 ^ n div d = 0"
      using Suc.prems(3) quot by (simp add: X_def)
    have fits: "n < 64 \<Longrightarrow> V div d < 18446744073709551616"
      using Suc.prems(3,4) fits_below [of V d] by (cases "n = 63") auto
    from Suc.IH [OF q r' hi fits] False test shifted show ?thesis by (simp add: Let_def)
  qed
qed

lemma div_u128_by_u64_correct:
  "d \<noteq> 0 \<Longrightarrow> div_u128_by_u64 v d =
     (if u128_nat v div unat d < 18446744073709551616 then of_nat (u128_nat v div unat d)
      else UINT64_MAX)"
proof -
  assume d: "d \<noteq> 0"
  have "u128_nat v < 340282366920938463463374607431768211456"
    using unat_u64_less [of "u_hi v"] unat_u64_less [of "u_lo v"] unfolding u128_nat_def by linarith
  then have "u128_nat v div 2 ^ 128 = 0" by simp
  with d show ?thesis
    using div_loop_correct [of d 0 v 128 0] by (simp add: div_u128_by_u64_def unat_gt_0)
qed

section \<open>Ratios, checksums, digests and random numbers\<close>

text \<open>
  \<open>basis_points_of\<close> is the exact quotient \<open>10000 * part / whole\<close> rounded down and saturated at
  \<open>UINT32_MAX\<close>: the 128-bit product and the long division lose nothing, for every pair of counts.
\<close>

lemma basis_points_exact:
  "unat (basis_points_of part whole) =
     (if whole = 0 then 0 else min 4294967295 (unat part * 10000 div unat whole))"
proof (cases "whole = 0")
  case False
  define N where "N = unat part * 10000 div unat whole"
  have q: "div_u128_by_u64 (mul_u64 part 10000) whole =
      (if N < 18446744073709551616 then of_nat N else UINT64_MAX)"
    using False by (simp add: div_u128_by_u64_correct mul_u64_correct N_def)
  show ?thesis
    using False q
    by (auto simp: basis_points_of_def Let_def N_def [symmetric] word_less_nat_alt unat_of_nat
      unsigned_ucast_eq take_bit_nat_eq_self_iff min_def)
qed (simp add: basis_points_of_def)

lemma crc_step_linear: "crc_step (x XOR y) = crc_step x XOR crc_step y"
proof -
  have "(x XOR y) AND 1 \<noteq> 0 \<longleftrightarrow> (x AND 1 \<noteq> 0) \<noteq> (y AND 1 \<noteq> 0)"
    by (simp add: and_one_eq even_xor_iff odd_iff_mod_2_eq_one [symmetric])
  then show ?thesis
    by (auto simp: crc_step_def drop_bit_xor ac_simps intro!: bit_eqI simp: bit_simps)
qed

lemma crc_step_pow_linear: "(crc_step ^^ n) (x XOR y) = (crc_step ^^ n) x XOR (crc_step ^^ n) y"
  by (induction n) (simp_all add: crc_step_linear)

text \<open>The bit-serial reference of the checksum.\<close>

definition crc_bits :: "u32 \<Rightarrow> byte list \<Rightarrow> u32" where
  "crc_bits = foldl (\<lambda>c b. (crc_step ^^ 8) (c XOR ucast b))"

lemma crc_pow_high: "n \<le> 8 \<Longrightarrow> (crc_step ^^ n) (push_bit 8 y) = drop_bit n (push_bit 8 y)"
proof (induction n)
  case (Suc n)
  then have "even (drop_bit n (push_bit 8 y))" by (simp add: even_drop_bit_iff_not_bit bit_push_bit_iff)
  then show ?case using Suc by (simp add: crc_step_def and_one_eq ac_simps even_iff_mod_2_eq_zero)
qed simp

lemma crc_table_nth: "n < 256 \<Longrightarrow> crc_table ! n = (crc_step ^^ 8) (of_nat n)"
  by (simp add: crc_table_def del: funpow.simps)

lemma crc_table_step:
  "crc_table ! unat ((c XOR ucast b) AND 0xFF) XOR drop_bit 8 c = (crc_step ^^ 8) (c XOR ucast b)"
  for c :: u32 and b :: byte
proof -
  define w where "w = c XOR ucast b"
  have lo: "w AND 0xFF = take_bit 8 w" by (simp add: take_bit_eq_mask mask_eq_exp_minus_1)
  have split: "w = take_bit 8 w XOR push_bit 8 (drop_bit 8 w)"
    by (rule bit_eqI) (auto simp: bit_simps)
  have "drop_bit 8 c = drop_bit 8 w"
    unfolding w_def by (rule bit_eqI) (auto simp: bit_simps dest: bit_imp_le_length)
  moreover have "unat (take_bit 8 w) < 256"
    by (simp add: take_bit_eq_mod unat_mod_distrib)
  moreover have "drop_bit 8 (push_bit 8 (drop_bit 8 w)) = drop_bit 8 w"
    by (rule bit_eqI) (auto simp: bit_simps dest: bit_imp_le_length)
  ultimately show ?thesis
    unfolding w_def [symmetric] lo
    using crc_step_pow_linear [of 8 "take_bit 8 w" "push_bit 8 (drop_bit 8 w)"] split
    by (simp add: crc_table_nth crc_pow_high del: funpow.simps)
qed

lemma crc32_loop_bits: "crc32_loop c bs = crc_bits c bs"
  by (induction bs arbitrary: c) (simp_all add: crc_bits_def crc_table_step del: funpow.simps)

text \<open>
  Property C40. The table-driven \<open>crc32\<close> equals the bit-serial reflected CRC-32 of polynomial
  \<open>0xEDB88320\<close> on every byte string.
\<close>

theorem crc32_is_bitwise: "crc32 bytes = crc_bits 0xFFFFFFFF bytes XOR 0xFFFFFFFF"
  by (simp add: crc32_def crc32_loop_bits)

lemma xor_cancel: "a XOR c = b XOR c \<longleftrightarrow> a = b" "c XOR a = c XOR b \<longleftrightarrow> a = b" "a XOR b = 0 \<longleftrightarrow> a = b"
  for a b c :: "'a :: len word"
  by (auto simp: bit_eq_iff bit_simps)

lemma ucast_byte_inject: "(ucast a :: u32) = ucast b \<longleftrightarrow> a = b" for a b :: byte
  by transfer (simp add: take_bit_eq_mod)

lemma crc_step_zero: "crc_step x = 0 \<Longrightarrow> x = 0"
proof (cases "x AND 1 = 0")
  case True
  assume "crc_step x = 0"
  with True have half: "drop_bit 1 x = 0" and "even x"
    by (simp_all add: crc_step_def and_one_eq even_iff_mod_2_eq_zero)
  have "\<not> bit x n" for n
  proof (cases n)
    case 0
    then show ?thesis using \<open>even x\<close> by (simp add: bit_0)
  next
    case (Suc m)
    have "\<not> bit (drop_bit 1 x) m" unfolding half by simp
    then show ?thesis by (simp add: Suc bit_drop_bit_eq)
  qed
  then show "x = 0" by (simp add: bit_eq_iff)
next
  case False
  assume "crc_step x = 0"
  with False have "drop_bit 1 x = 0xEDB88320" by (simp add: crc_step_def xor_cancel)
  moreover have "\<not> bit (drop_bit 1 x) 31" by (auto simp: bit_drop_bit_eq dest: bit_imp_le_length)
  moreover have "bit (0xEDB88320 :: u32) 31" by simp
  ultimately show "x = 0" by simp
qed

lemma crc_step_inject: "(crc_step ^^ n) x = (crc_step ^^ n) y \<longleftrightarrow> x = y"
proof -
  have "(crc_step ^^ n) z = 0 \<Longrightarrow> z = 0" for z
    by (induction n) (auto dest: crc_step_zero)
  from this [of "x XOR y"] show ?thesis
    by (auto simp: crc_step_pow_linear xor_cancel)
qed

lemma crc_bits_Cons: "crc_bits c (b # bs) = crc_bits ((crc_step ^^ 8) (c XOR ucast b)) bs"
  by (simp add: crc_bits_def del: funpow.simps)

lemma crc_bits_append: "crc_bits c (as @ bs) = crc_bits (crc_bits c as) bs"
  by (simp add: crc_bits_def del: funpow.simps)

lemma crc_bits_inject: "crc_bits c bs = crc_bits d bs \<longleftrightarrow> c = d"
proof (induction bs arbitrary: c d)
  case (Cons b bs)
  then show ?case by (simp only: crc_bits_Cons crc_step_inject xor_cancel)
qed (simp add: crc_bits_def)

text \<open>Changing one byte of the input always changes the checksum.\<close>

lemma crc32_one_byte: "crc32 (xs @ a # ys) = crc32 (xs @ b # ys) \<longleftrightarrow> a = b"
  by (simp only: crc32_def crc32_loop_bits crc_bits_append crc_bits_Cons crc_bits_inject crc_step_inject
      xor_cancel ucast_byte_inject)

lemma hex_loop_append: "hex_loop n v out = hex_loop n v [] @ out"
proof (induction n arbitrary: v out)
  case (Suc n)
  show ?case
    using Suc [of "drop_bit 4 v" "kHex ! unat (v AND 0xF) # out"]
      Suc [of "drop_bit 4 v" "[kHex ! unat (v AND 0xF)]"] by simp
qed simp

lemma hex_loop_length: "length (hex_loop n v out) = n + length out"
  by (induction n arbitrary: v out) auto

lemma kHex_inject: "i < 16 \<Longrightarrow> j < 16 \<Longrightarrow> kHex ! i = kHex ! j \<Longrightarrow> i = j"
proof -
  have "distinct kHex" "length kHex = 16" by (simp_all add: kHex_def)
  then show "i < 16 \<Longrightarrow> j < 16 \<Longrightarrow> kHex ! i = kHex ! j \<Longrightarrow> i = j"
    by (simp add: nth_eq_iff_index_eq)
qed

lemma hex_loop_inject:
  "hex_loop n v [] = hex_loop n w [] \<Longrightarrow> take_bit (4 * n) v = take_bit (4 * n) (w :: u64)"
proof (induction n arbitrary: v w)
  case (Suc n)
  have nib: "x AND 0xF = take_bit 4 x" for x :: u64
    by (simp add: take_bit_eq_mask mask_eq_exp_minus_1)
  have lt: "unat (take_bit 4 x) < 16" for x :: u64 by (simp add: take_bit_eq_mod unat_mod_distrib)
  have "hex_loop n (drop_bit 4 v) [] @ [kHex ! unat (take_bit 4 v)] =
        hex_loop n (drop_bit 4 w) [] @ [kHex ! unat (take_bit 4 w)]"
    using Suc.prems hex_loop_append [of n "drop_bit 4 v" "[kHex ! unat (take_bit 4 v)]"]
      hex_loop_append [of n "drop_bit 4 w" "[kHex ! unat (take_bit 4 w)]"] by (simp add: nib)
  then have low: "take_bit 4 v = take_bit 4 w"
    and high: "take_bit (4 * n) (drop_bit 4 v) = take_bit (4 * n) (drop_bit 4 w)"
    using Suc.IH [of "drop_bit 4 v" "drop_bit 4 w"] kHex_inject [OF lt lt] by (auto simp: u64_eq_iff)
  have bits: "bit (take_bit (4 * Suc n) x) i =
      (if i < 4 then bit (take_bit 4 x) i else bit (take_bit (4 * n) (drop_bit 4 x)) (i - 4))" for x :: u64 and i
    by (auto simp: bit_simps)
  show ?case by (rule bit_eqI) (simp only: bits low high)
qed simp

text \<open>
  \<open>hex_digest64\<close> always has sixteen digits and two digests print alike only when they are
  the same number, so comparing the printed digests compares the hashes.
\<close>

lemma hex_digest64_inject: "length (hex_digest64 v) = 16 \<and> (hex_digest64 v = hex_digest64 w \<longleftrightarrow> v = w)"
proof -
  have "hex_digest64 v = hex_digest64 w \<Longrightarrow> v = w"
    using hex_loop_inject [of 16 v w] by (simp add: hex_digest64_def take_bit_length_eq [where 'a = 64, simplified] del: hex_loop.simps)
  then show ?thesis by (auto simp: hex_digest64_def hex_loop_length simp del: hex_loop.simps)
qed

text \<open>\<open>DeterministicRandom::below\<close> stays below its bound (and is zero for the bound zero).\<close>

lemma rng_below_bounded: "unat (fst (rng_below b g)) < max 1 (unat b)"
proof (cases "b = 0")
  case False
  obtain v g' where n: "next_u64 g = (v, g')" by fastforce
  have b: "0 < unat b" "unat b < 4294967296" using False unsigned_less [of b, where 'a = nat] by (simp_all add: unat_gt_0)
  then have "unat (ucast b :: u64) = unat b"
    by (simp add: unsigned_ucast_eq take_bit_nat_eq_self_iff)
  then have m: "unat (v mod ucast b) = unat v mod unat b"
    by (simp add: unat_mod_distrib)
  then have "unat (ucast (v mod ucast b) :: u32) = unat v mod unat b"
    using b less_trans [OF mod_less_divisor [OF b(1)] b(2)] by (simp add: unsigned_ucast_eq take_bit_nat_eq_self_iff)
  then show ?thesis using False n b by (simp add: rng_below_def)
qed (simp add: rng_below_def)

lemma truncate_with_marker_length: "length (truncate_with_marker t n) = min (length t) n"
  by (auto simp: truncate_with_marker_def)

section \<open>Percentages as text\<close>

lemma percent_division:
  "whole \<noteq> 0 \<Longrightarrow> div_u128_by_u64 (mul_u64 part 1000000) whole =
     (let m = unat part * 1000000 div unat whole
      in if m < 18446744073709551616 then of_nat m else UINT64_MAX)"
  by (simp add: div_u128_by_u64_correct mul_u64_correct Let_def)

lemma to_string_two:
  "n < 100 \<Longrightarrow> to_string_nat n =
     (if n < 10 then [char_of (48 + n)] else [char_of (48 + n div 10), char_of (48 + n mod 10)])"
  by (subst to_string_nat.simps) (simp add: to_string_nat.simps [of "n div 10"] div_less_iff_less_mult)

lemma pad_two: "unat v < 100 \<Longrightarrow>
  pad v 2 = [char_of (48 + unat v div 10), char_of (48 + unat v mod 10)]"
proof -
  have "char_of (48 :: nat) = CHR ''0''" by (simp add: char_of_def bit_0)
  then show "unat v < 100 \<Longrightarrow> ?thesis"
    by (auto simp: pad_def to_string_u64_def Let_def to_string_two)
qed

text \<open>
  As long as the ratio in millionths fits 64 bits with room for the rounding,
  \<open>percent_string\<close> prints the exact percentage rounded half up to two decimals.
\<close>

lemma percent_string_exact:
  assumes "whole \<noteq> 0" and "unat part * 1000000 div unat whole < 18446744073709551566"
  shows "percent_string part whole =
     (let h = (unat part * 1000000 div unat whole + 50) div 100
      in to_string_nat (h div 100) @ ''.'' @ [char_of (48 + h mod 100 div 10), char_of (48 + h mod 10)] @ ''%'')"
proof -
  define m where "m = unat part * 1000000 div unat whole"
  have lt: "m < 18446744073709551566" using assms(2) by (simp add: m_def)
  have "div_u128_by_u64 (mul_u64 part 1000000) whole = of_nat m"
    using percent_division [OF assms(1)] lt by (simp add: m_def Let_def)
  moreover have u: "unat (of_nat m :: u64) = m" using lt by (simp add: unat_of_nat)
  then have "(of_nat m :: u64) \<noteq> UINT64_MAX"
    using lt by (auto simp: u64_eq_iff)
  moreover have h: "unat ((of_nat m + 50) div 100 :: u64) = (m + 50) div 100"
    using lt u by (simp add: unat_div_distrib u64_add_no_wrap)
  moreover have "unat ((of_nat m + 50) div 100 mod 100 :: u64) = (m + 50) div 100 mod 100"
    using unat_mod_distrib [of "(of_nat m + 50) div 100 :: u64" 100] h by simp
  moreover have "unat ((of_nat m + 50) div 100 div 100 :: u64) = (m + 50) div 100 div 100"
    using unat_div_distrib [of "(of_nat m + 50) div 100 :: u64" 100] h by simp
  moreover have "(m + 50) div 100 mod 100 mod 10 = (m + 50) div 100 mod 10"
    by (rule mod_mod_cancel) simp
  ultimately show ?thesis
    using assms(1) 
    by (simp add: percent_string_def m_def [symmetric] Let_def to_string_u64_def pad_two)
qed

text \<open>The rounding \<open>micro + 50\<close> is a plain 64-bit addition: at the very top of the range it wraps and
  the text reads \<open>0.00%\<close>.\<close>

lemma percent_string_wraps:
  assumes "whole \<noteq> 0" and "18446744073709551566 \<le> unat part * 1000000 div unat whole"
    and "unat part * 1000000 div unat whole < 18446744073709551615"
  shows "percent_string part whole = ''0.00%''"
proof -
  define m where "m = unat part * 1000000 div unat whole"
  have lt: "18446744073709551566 \<le> m" "m < 18446744073709551615" using assms by (simp_all add: m_def)
  have "div_u128_by_u64 (mul_u64 part 1000000) whole = of_nat m"
    using percent_division [OF assms(1)] lt by (simp add: m_def Let_def)
  moreover have u: "unat (of_nat m :: u64) = m" using lt by (simp add: unat_of_nat)
  then have "(of_nat m :: u64) \<noteq> UINT64_MAX"
    using lt by (auto simp: u64_eq_iff)
  moreover have "unat (of_nat m + 50 :: u64) = m + 50 - 18446744073709551616"
    using lt u by (simp add: unat_word_ariths mod_nat_eqI)
  then have "unat ((of_nat m + 50) div 100 :: u64) = 0"
    using lt by (simp add: unat_div_distrib)
  then have "(of_nat m + 50) div 100 = (0 :: u64)" by (simp add: unat_eq_zero)
  moreover have "pad 0 2 = ''00''" "to_string_u64 0 = ''0''" by code_simp+
  ultimately show ?thesis
    using assms(1) by (simp add: percent_string_def m_def [symmetric] Let_def)
qed

end
