(* ===== verification/FO_Codec.thy ===== *)
theory FO_Codec
  imports FO_Arith
begin

text \<open>
  The bounded binary writer and reader (\<open>codec.hpp\<close>, \<open>foundation.cpp\<close>) and the primitive field
  codecs of \<open>records_codec.cpp\<close>.

  An \<open>Encoder\<close> operation maps an encoder to the encoder after the call; \<open>enc_seq\<close> runs a list of
  them in order. A \<open>Decoder\<close> operation returns its \<open>Result\<close> and the decoder after the call, and
  \<open>dec_bind\<close> is the pattern \<open>if (!x.ok()) return x.error();\<close>. Doubles are their IEEE-754 bit
  patterns, which is what \<open>f64\<close> copies. Lengths and offsets (\<open>size_t\<close>) are naturals: they stay below
  the length of a buffer.

  \<open>field_ok enc dec v\<close> is the contract of one field: what \<open>enc\<close> appends for \<open>v\<close>, \<open>dec\<close> reads back as
  \<open>v\<close>, consuming exactly these bytes. The locale \<open>field_codec\<close> lifts the contract to collections.
\<close>

unbundle bit_operations_syntax

definition kMaxStringFieldBytes :: nat where
  "kMaxStringFieldBytes = 4096"

definition kMaxFrameBytes :: nat where
  "kMaxFrameBytes = 1024 * 1024"

type_synonym double = u64

section \<open>Encoder\<close>

record Encoder =
  enc_buffer :: "byte list"
  enc_failed :: bool
  enc_error :: Error

definition Encoder_init :: Encoder where
  "Encoder_init = \<lparr>enc_buffer = [], enc_failed = False, enc_error = Error Ok [] []\<rparr>"

definition push_bytes :: "byte list \<Rightarrow> Encoder \<Rightarrow> Encoder" where
  "push_bytes bs e = e\<lparr>enc_buffer := enc_buffer e @ bs\<rparr>"

text \<open>The low \<open>n\<close> bytes of a word, least significant first.\<close>

definition le_bytes :: "nat \<Rightarrow> 'a :: len word \<Rightarrow> byte list" where
  "le_bytes n v = map (\<lambda>i. ucast (drop_bit (8 * i) v AND 0xFF)) [0..<n]"

definition enc_u8 :: "u8 \<Rightarrow> Encoder \<Rightarrow> Encoder" where
  "enc_u8 v = push_bytes [v]"

definition enc_u16 :: "u16 \<Rightarrow> Encoder \<Rightarrow> Encoder" where
  "enc_u16 v = push_bytes (le_bytes 2 v)"

definition enc_u32 :: "u32 \<Rightarrow> Encoder \<Rightarrow> Encoder" where
  "enc_u32 v = push_bytes (le_bytes 4 v)"

definition enc_u64 :: "u64 \<Rightarrow> Encoder \<Rightarrow> Encoder" where
  "enc_u64 v = push_bytes (le_bytes 8 v)"

definition enc_i64 :: "int \<Rightarrow> Encoder \<Rightarrow> Encoder" where
  "enc_i64 v = enc_u64 (word_of_int v)"

definition enc_f64 :: "double \<Rightarrow> Encoder \<Rightarrow> Encoder" where
  "enc_f64 v = enc_u64 v"

definition enc_boolean :: "bool \<Rightarrow> Encoder \<Rightarrow> Encoder" where
  "enc_boolean v = enc_u8 (if v then 1 else 0)"

definition enc_raw :: "byte list \<Rightarrow> Encoder \<Rightarrow> Encoder" where
  "enc_raw bytes e = (if enc_failed e then e else push_bytes bytes e)"

definition enc_fail :: "ErrorCode \<Rightarrow> string \<Rightarrow> Encoder \<Rightarrow> Encoder" where
  "enc_fail code message e =
     (if enc_failed e then e else e\<lparr>enc_failed := True, enc_error := Error code message []\<rparr>)"

definition enc_str :: "string \<Rightarrow> Encoder \<Rightarrow> Encoder" where
  "enc_str v e =
     (if enc_failed e then e
      else if length v > kMaxStringFieldBytes then
        enc_fail BoundExceeded ''string field exceeds the maximum encoded length'' e
      else enc_raw (map byte_of_char v) (enc_u32 (of_nat (length v)) e))"

definition enc_text_block :: "string \<Rightarrow> Encoder \<Rightarrow> Encoder" where
  "enc_text_block v e =
     (if enc_failed e then e
      else if length v > kMaxFrameBytes then
        enc_fail OversizedPayload ''encoded text block exceeds the frame bound'' e
      else enc_raw (map byte_of_char v) (enc_u32 (of_nat (length v)) e))"

text \<open>A sequence of encoder calls.\<close>

fun enc_seq :: "(Encoder \<Rightarrow> Encoder) list \<Rightarrow> Encoder \<Rightarrow> Encoder" where
  "enc_seq [] e = e"
| "enc_seq (f # fs) e = enc_seq fs (f e)"

section \<open>Decoder\<close>

record Decoder =
  dec_data :: "byte list"
  dec_length :: nat
  dec_offset :: nat
  dec_max_bytes :: nat
  dec_over_budget :: bool

type_synonym 'a decoder = "Decoder \<Rightarrow> 'a result \<times> Decoder"

definition Decoder_init :: "byte list \<Rightarrow> nat \<Rightarrow> Decoder" where
  "Decoder_init data max_bytes =
     \<lparr>dec_data = data, dec_length = min (length data) max_bytes, dec_offset = 0,
      dec_max_bytes = max_bytes, dec_over_budget = (length data > max_bytes)\<rparr>"

definition dec_remaining :: "Decoder \<Rightarrow> nat" where
  "dec_remaining d = dec_length d - dec_offset d"

definition exhausted :: "Decoder \<Rightarrow> bool" where
  "exhausted d = (dec_offset d = dec_length d)"

definition need :: "Decoder \<Rightarrow> nat \<Rightarrow> Status" where
  "need d n =
     (if dec_over_budget d then
        fail OversizedPayload ''decoder input exceeds the configured budget'' []
      else if n > dec_length d - dec_offset d then
        fail ProtocolViolation ''decoder input truncated'' []
      else Success)"

text \<open>The next \<open>n\<close> bytes of the input and the decoder behind them.\<close>

definition peek :: "Decoder \<Rightarrow> nat \<Rightarrow> byte list" where
  "peek d n = take n (drop (dec_offset d) (dec_data d))"

definition advance :: "nat \<Rightarrow> Decoder \<Rightarrow> Decoder" where
  "advance n d = d\<lparr>dec_offset := dec_offset d + n\<rparr>"

fun le_value :: "nat \<Rightarrow> byte list \<Rightarrow> 'a :: len word" where
  "le_value i [] = 0"
| "le_value i (b # bs) = push_bit (8 * i) (ucast b) OR le_value (Suc i) bs"

definition dec_bytes :: "nat \<Rightarrow> (byte list \<Rightarrow> 'a) \<Rightarrow> 'a decoder" where
  "dec_bytes n value_of d =
     (case need d n of
        Failure e \<Rightarrow> (Inl e, d)
      | Success \<Rightarrow> (Inr (value_of (peek d n)), advance n d))"

definition dec_u8 :: "u8 decoder" where
  "dec_u8 = dec_bytes 1 hd"

definition dec_u16 :: "u16 decoder" where
  "dec_u16 = dec_bytes 2 (le_value 0)"

definition dec_u32 :: "u32 decoder" where
  "dec_u32 = dec_bytes 4 (le_value 0)"

definition dec_u64 :: "u64 decoder" where
  "dec_u64 = dec_bytes 8 (le_value 0)"

definition dec_bind :: "'a decoder \<Rightarrow> ('a \<Rightarrow> 'b decoder) \<Rightarrow> 'b decoder" where
  "dec_bind m k d = (case m d of (Inl e, d') \<Rightarrow> (Inl e, d') | (Inr v, d') \<Rightarrow> k v d')"

definition dec_return :: "'a \<Rightarrow> 'a decoder" where
  "dec_return v d = (Inr v, d)"

definition dec_error :: "Error \<Rightarrow> 'a decoder" where
  "dec_error e d = (Inl e, d)"

definition dec_i64 :: "int decoder" where
  "dec_i64 = dec_bind dec_u64 (\<lambda>raw. dec_return (sint raw))"

definition dec_f64 :: "double decoder" where
  "dec_f64 = dec_bind dec_u64 dec_return"

definition dec_boolean :: "bool decoder" where
  "dec_boolean =
     dec_bind dec_u8 (\<lambda>raw.
       if raw > 1 then dec_error (Error ProtocolViolation ''boolean field is not 0 or 1'' [])
       else dec_return (raw = 1))"

definition dec_str :: "string decoder" where
  "dec_str =
     dec_bind dec_u32 (\<lambda>len.
       if unat len > kMaxStringFieldBytes then
         dec_error (Error BoundExceeded ''encoded string field exceeds the maximum length'' [])
       else dec_bytes (unat len) (map char_of_byte))"

definition dec_text_block :: "string decoder" where
  "dec_text_block =
     dec_bind dec_u32 (\<lambda>len.
       if unat len > kMaxFrameBytes then
         dec_error (Error OversizedPayload ''encoded text block exceeds the frame bound'' [])
       else dec_bytes (unat len) (map char_of_byte))"

definition dec_raw :: "nat \<Rightarrow> byte list decoder" where
  "dec_raw n = dec_bytes n id"

definition dec_skip :: "nat \<Rightarrow> unit decoder" where
  "dec_skip n = dec_bytes n (\<lambda>_. ())"

text \<open>The count of a collection is checked before anything is read; then the elements follow.\<close>

fun dec_times :: "nat \<Rightarrow> 'a decoder \<Rightarrow> 'a list decoder" where
  "dec_times 0 dec = dec_return []"
| "dec_times (Suc n) dec = dec_bind dec (\<lambda>v. dec_bind (dec_times n dec) (\<lambda>vs. dec_return (v # vs)))"

definition dec_counted :: "nat \<Rightarrow> string \<Rightarrow> 'a decoder \<Rightarrow> 'a list decoder" where
  "dec_counted limit message dec =
     dec_bind dec_u32 (\<lambda>count.
       if unat count > limit then dec_error (Error BoundExceeded message [])
       else dec_times (unat count) dec)"

text \<open>
  A decoded element that goes through an operation which may refuse it (\<open>list.add\<close>, \<open>set.put\<close>) stops
  the loop at the first refusal; \<open>add_all\<close> is the same loop over elements already at hand.
\<close>

fun dec_fold :: "nat \<Rightarrow> 'a decoder \<Rightarrow> ('a \<Rightarrow> 's \<Rightarrow> Status \<times> 's) \<Rightarrow> 's \<Rightarrow> 's decoder" where
  "dec_fold 0 dec add s = dec_return s"
| "dec_fold (Suc n) dec add s =
     dec_bind dec (\<lambda>v.
       case add v s of
         (Success, s') \<Rightarrow> dec_fold n dec add s'
       | (Failure e, s') \<Rightarrow> dec_error e)"

fun add_all :: "('a \<Rightarrow> 's \<Rightarrow> Status \<times> 's) \<Rightarrow> 'a list \<Rightarrow> 's \<Rightarrow> Status \<times> 's" where
  "add_all add [] s = (Success, s)"
| "add_all add (v # vs) s =
     (case add v s of
        (Success, s') \<Rightarrow> add_all add vs s'
      | (Failure e, s') \<Rightarrow> (Failure e, s'))"

text \<open>The final \<open>validate()\<close> of a decoded record.\<close>

definition dec_validated :: "string \<Rightarrow> ('a \<Rightarrow> Status) \<Rightarrow> 'a \<Rightarrow> 'a decoder" where
  "dec_validated message validate v =
     (case validate v of
        Success \<Rightarrow> dec_return v
      | Failure e \<Rightarrow> dec_error (Error ProtocolViolation message (error_message e)))"

section \<open>Primitive field codecs of \<open>records_codec.cpp\<close>\<close>

definition kCollectionLimit :: nat where
  "kCollectionLimit = 2 ^ 22"

definition enc_id :: "'tag StrongId \<Rightarrow> Encoder \<Rightarrow> Encoder" where
  "enc_id i = enc_str (id_value i)"

definition dec_id :: "string \<Rightarrow> 'tag StrongId decoder" where
  "dec_id tag_name =
     dec_bind dec_str (\<lambda>text.
       if text = [] then dec_return no_id
       else if \<not> is_valid_identifier text then
         dec_error (Error ProtocolViolation ''encoded identifier is not valid'' tag_name)
       else dec_return (StrongId text))"

definition enc_gen :: "'tag Generation \<Rightarrow> Encoder \<Rightarrow> Encoder" where
  "enc_gen g = enc_u64 (gen_value g)"

definition dec_gen :: "'tag Generation decoder" where
  "dec_gen = dec_bind dec_u64 (\<lambda>v. dec_return (Generation v))"

definition enc_sequence :: "Sequence \<Rightarrow> Encoder \<Rightarrow> Encoder" where
  "enc_sequence s = enc_u64 (seq_value s)"

definition dec_sequence :: "Sequence decoder" where
  "dec_sequence = dec_bind dec_u64 (\<lambda>v. dec_return (Sequence v))"

text \<open>
  An enumeration is given by its enumerators in declaration order; every enumeration of the sources
  numbers them 0, 1, 2, ... and \<open>enum_max\<close> is the last one.
\<close>

fun enum_index :: "'e list \<Rightarrow> 'e \<Rightarrow> nat" where
  "enum_index [] v = 0"
| "enum_index (x # xs) v = (if x = v then 0 else Suc (enum_index xs v))"

definition enc_enum :: "'e list \<Rightarrow> 'e \<Rightarrow> Encoder \<Rightarrow> Encoder" where
  "enc_enum enumerators v = enc_u8 (of_nat (enum_index enumerators v))"

definition dec_enum :: "'e list \<Rightarrow> string \<Rightarrow> 'e decoder" where
  "dec_enum enumerators what =
     dec_bind dec_u8 (\<lambda>v.
       if unat v > length enumerators - 1 then
         dec_error (Error ProtocolViolation (''encoded '' @ what @ '' is out of range'') [])
       else dec_return (enumerators ! unat v))"

definition enc_each :: "('a \<Rightarrow> Encoder \<Rightarrow> Encoder) \<Rightarrow> 'a list \<Rightarrow> Encoder \<Rightarrow> Encoder" where
  "enc_each enc values = enc_seq (map enc values)"

definition enc_counted :: "('a \<Rightarrow> Encoder \<Rightarrow> Encoder) \<Rightarrow> 'a list \<Rightarrow> Encoder \<Rightarrow> Encoder" where
  "enc_counted enc values = enc_seq [enc_u32 (of_nat (length values)), enc_each enc values]"

definition enc_text_vector :: "string list \<Rightarrow> Encoder \<Rightarrow> Encoder" where
  "enc_text_vector values = enc_counted enc_str (unique_adjacent (sort values))"

definition dec_text_vector :: "nat \<Rightarrow> string list decoder" where
  "dec_text_vector limit =
     dec_bind
       (dec_counted limit ''encoded string collection exceeds the permitted size'' dec_str)
       (\<lambda>values. if adjacent_dup (sort values) then
           dec_error (Error ProtocolViolation ''encoded string collection contains duplicates'' [])
         else dec_return (sort values))"

definition enc_vector ::
  "('a \<Rightarrow> 'a \<Rightarrow> bool) \<Rightarrow> ('a \<Rightarrow> Encoder \<Rightarrow> Encoder) \<Rightarrow> 'a list \<Rightarrow> Encoder \<Rightarrow> Encoder" where
  "enc_vector lt enc values = enc_counted enc (stable_sort lt values)"

definition dec_vector :: "nat \<Rightarrow> 'a decoder \<Rightarrow> 'a list decoder" where
  "dec_vector limit dec = dec_counted limit ''encoded collection exceeds the permitted size'' dec"

definition enc_id_vector :: "'tag StrongId list \<Rightarrow> Encoder \<Rightarrow> Encoder" where
  "enc_id_vector = enc_vector (<) enc_id"

definition dec_id_vector :: "string \<Rightarrow> 'tag StrongId list decoder" where
  "dec_id_vector tag_name = dec_vector kCollectionLimit (dec_id tag_name)"

text \<open>\<open>digest_of\<close>: the FNV-1a hash of the canonical encoding.\<close>

definition digest_of :: "('a \<Rightarrow> Encoder \<Rightarrow> Encoder) \<Rightarrow> 'a \<Rightarrow> string" where
  "digest_of enc v =
     (let e = enc v Encoder_init
      in if enc_failed e then ''encode-failed''
         else hex_digest64 (fnv1a64_bytes (enc_buffer e)))"

section \<open>The field contract\<close>

definition writes :: "(Encoder \<Rightarrow> Encoder) \<Rightarrow> byte list \<Rightarrow> bool" where
  "writes E bs \<longleftrightarrow> (\<forall>e. \<not> enc_failed e \<longrightarrow> E e = push_bytes bs e)"

definition supplies :: "Decoder \<Rightarrow> byte list \<Rightarrow> bool" where
  "supplies d bs \<longleftrightarrow> \<not> dec_over_budget d \<and> dec_offset d + length bs \<le> dec_length d \<and>
     peek d (length bs) = bs"

definition reads :: "'a decoder \<Rightarrow> 'a \<Rightarrow> byte list \<Rightarrow> bool" where
  "reads D v bs \<longleftrightarrow> (\<forall>d. supplies d bs \<longrightarrow> D d = (Inr v, advance (length bs) d))"

definition field_ok :: "(Encoder \<Rightarrow> Encoder) \<Rightarrow> 'a decoder \<Rightarrow> 'a \<Rightarrow> bool" where
  "field_ok E D v \<longleftrightarrow> (\<exists>bs. writes E bs \<and> reads D v bs)"

lemma push_bytes_simps [simp]:
  "enc_failed (push_bytes bs e) = enc_failed e"
  "enc_error (push_bytes bs e) = enc_error e"
  "enc_buffer (push_bytes bs e) = enc_buffer e @ bs"
  "push_bytes [] e = e"
  "push_bytes cs (push_bytes bs e) = push_bytes (bs @ cs) e"
  by (simp_all add: push_bytes_def)

lemma advance_simps [simp]:
  "dec_offset (advance n d) = dec_offset d + n" "dec_data (advance n d) = dec_data d"
  "dec_length (advance n d) = dec_length d" "dec_over_budget (advance n d) = dec_over_budget d"
  "dec_max_bytes (advance n d) = dec_max_bytes d"
  "advance m (advance n d) = advance (n + m) d" "advance 0 d = d"
  by (simp_all add: advance_def)

lemma take_append_split:
  "take (length bs + length cs) xs = bs @ cs \<longleftrightarrow>
     take (length bs) xs = bs \<and> take (length cs) (drop (length bs) xs) = cs"
proof
  assume h: "take (length bs + length cs) xs = bs @ cs"
  from h have "take (length bs) (take (length bs + length cs) xs) = take (length bs) (bs @ cs)" by simp
  moreover from h have "drop (length bs) (take (length bs + length cs) xs) = drop (length bs) (bs @ cs)" by simp
  ultimately show "take (length bs) xs = bs \<and> take (length cs) (drop (length bs) xs) = cs"
    by (simp add: drop_take)
qed (simp add: take_add)

lemma supplies_append:
  "supplies d (bs @ cs) \<longleftrightarrow> supplies d bs \<and> supplies (advance (length bs) d) cs"
  using take_append_split [of bs cs "drop (dec_offset d) (dec_data d)"]
  by (auto simp: supplies_def peek_def add.commute)

lemma writes_Nil: "writes (enc_seq []) []"
  by (simp add: writes_def)

lemma writes_Cons: "writes E bs \<Longrightarrow> writes (enc_seq Es) cs \<Longrightarrow> writes (enc_seq (E # Es)) (bs @ cs)"
  by (simp add: writes_def)

lemma reads_return: "reads (dec_return v) v []"
  by (simp add: reads_def dec_return_def)

lemma reads_bind: "reads D v bs \<Longrightarrow> reads (K v) w cs \<Longrightarrow> reads (dec_bind D K) w (bs @ cs)"
  by (simp add: reads_def dec_bind_def supplies_append)

lemma reads_bytes: "length bs = n \<Longrightarrow> f bs = v \<Longrightarrow> reads (dec_bytes n f) v bs"
  by (auto simp: reads_def dec_bytes_def need_def supplies_def)

lemma field_Nil: "field_ok (enc_seq []) (dec_return v) v"
  unfolding field_ok_def using writes_Nil reads_return [of v] by auto

lemma field_Cons [fo_codec]:
  assumes "field_ok E D v" and "field_ok (enc_seq Es) (K v) w"
  shows "field_ok (enc_seq (E # Es)) (dec_bind D K) w"
proof -
  obtain bs cs where "writes E bs" "reads D v bs" "writes (enc_seq Es) cs" "reads (K v) w cs"
    using assms unfolding field_ok_def by auto
  then have "writes (enc_seq (E # Es)) (bs @ cs)" "reads (dec_bind D K) w (bs @ cs)"
    by (simp_all only: writes_Cons reads_bind)
  then show ?thesis unfolding field_ok_def by blast
qed

lemma field_map:
  assumes "field_ok E D v" and "K v = dec_return w"
  shows "field_ok E (dec_bind D K) w"
proof -
  obtain bs where "writes E bs" "reads D v bs"
    using assms unfolding field_ok_def by auto
  then have "writes E bs" "reads (dec_bind D K) w bs"
    using reads_bind [of D v bs K w "[]"] reads_return [of w] assms(2) by simp_all
  then show ?thesis unfolding field_ok_def by blast
qed

lemma field_guard: "\<not> b \<Longrightarrow> field_ok E D v \<Longrightarrow> field_ok E (if b then X else D) v"
  by simp

lemma field_validated:
  "validate v = Success \<Longrightarrow> field_ok (enc_seq []) (dec_validated m validate v) v"
  using field_Nil by (simp add: dec_validated_def)

lemma field_seq: "field_ok (enc_seq Es) D v \<Longrightarrow> field_ok (enc_seq [enc_seq Es]) D v"
  by (simp add: field_ok_def writes_def)

section \<open>Fixed-width words\<close>

lemma length_le_bytes [simp]: "length (le_bytes n v) = n"
  by (simp add: le_bytes_def)


lemma bit_le_value:
  "bit (le_value i bs :: 'a :: len word) k \<longleftrightarrow>
     k < LENGTH('a) \<and> (\<exists>j < length bs. 8 * (i + j) \<le> k \<and> bit (bs ! j) (k - 8 * (i + j)))"
proof (induction bs arbitrary: i)
  case (Cons b bs)
  have "(\<exists>j < length (b # bs). 8 * (i + j) \<le> k \<and> bit ((b # bs) ! j) (k - 8 * (i + j))) \<longleftrightarrow>
     (8 * i \<le> k \<and> bit b (k - 8 * i)) \<or> (\<exists>j < length bs. 8 * (Suc i + j) \<le> k \<and> bit (bs ! j) (k - 8 * (Suc i + j)))"
    (is "?L \<longleftrightarrow> ?A \<or> ?B")
  proof
    assume ?L
    then obtain j where j: "j < length (b # bs)" "8 * (i + j) \<le> k" "bit ((b # bs) ! j) (k - 8 * (i + j))" by blast
    then show "?A \<or> ?B" by (cases j) auto
  next
    assume "?A \<or> ?B"
    then show ?L
    proof
      assume ?A then show ?L by (intro exI [of _ 0]) simp
    next
      assume ?B
      then obtain j where "j < length bs" "8 * (Suc i + j) \<le> k" "bit (bs ! j) (k - 8 * (Suc i + j))" by blast
      then show ?L by (intro exI [of _ "Suc j"]) simp
    qed
  qed
  then show ?case using Cons [of "Suc i"]
    by (auto simp: bit_or_iff bit_push_bit_iff bit_ucast_iff possible_bit_def)
qed simp

lemma bit_le_bytes:
  "j < n \<Longrightarrow> bit (le_bytes n (v :: 'a :: len word) ! j) m \<longleftrightarrow> m < 8 \<and> bit v (8 * j + m)"
proof -
  have m: "(0xFF :: 'a word) = mask 8"
    by (simp add: mask_eq_exp_minus_1)
  show "j < n \<Longrightarrow> ?thesis"
    by (auto simp: le_bytes_def bit_ucast_iff bit_and_iff m bit_mask_iff bit_drop_bit_eq possible_bit_def
       add.commute dest: bit_imp_le_length)
qed

lemma le_value_le_bytes: "LENGTH('a) = 8 * n \<Longrightarrow> le_value 0 (le_bytes n v) = (v :: 'a :: len word)"
proof (rule bit_eqI)
  fix k assume len: "LENGTH('a) = 8 * n" and "possible_bit TYPE('a word) k"
  then have k: "k < 8 * n" by (simp add: possible_bit_def)
  have uniq: "8 * j \<le> k \<and> k - 8 * j < 8 \<longleftrightarrow> j = k div 8" for j by auto
  have "bit (le_value 0 (le_bytes n v) :: 'a word) k \<longleftrightarrow>
      (\<exists>j < n. 8 * j \<le> k \<and> k - 8 * j < 8 \<and> bit v (8 * j + (k - 8 * j)))"
    using k len by (auto simp: bit_le_value bit_le_bytes)
  also have "\<dots> \<longleftrightarrow> (\<exists>j < n. j = k div 8 \<and> bit v k)"
    using uniq by (metis le_add_diff_inverse)
  also have "\<dots> \<longleftrightarrow> bit v k" using k by auto
  finally show "bit (le_value 0 (le_bytes n v) :: 'a word) k = bit v k" .
qed

lemma writes_push: "writes (push_bytes bs) bs"
  by (simp add: writes_def)

lemma field_push: "length bs = n \<Longrightarrow> f bs = v \<Longrightarrow> field_ok (push_bytes bs) (dec_bytes n f) v"
  unfolding field_ok_def using writes_push [of bs] reads_bytes [of bs n f v] by auto

lemma field_u8 [fo_codec]: "field_ok (enc_u8 v) dec_u8 v"
  unfolding enc_u8_def dec_u8_def by (rule field_push) simp_all

lemma field_u16 [fo_codec]: "field_ok (enc_u16 v) dec_u16 v"
  unfolding enc_u16_def dec_u16_def by (rule field_push) (simp_all add: le_value_le_bytes)

lemma field_u32 [fo_codec]: "field_ok (enc_u32 v) dec_u32 v"
  unfolding enc_u32_def dec_u32_def by (rule field_push) (simp_all add: le_value_le_bytes)

lemma field_u64 [fo_codec]: "field_ok (enc_u64 v) dec_u64 v"
  unfolding enc_u64_def dec_u64_def by (rule field_push) (simp_all add: le_value_le_bytes)

definition i64_range :: "int \<Rightarrow> bool" where
  "i64_range v \<longleftrightarrow> - 9223372036854775808 \<le> v \<and> v < 9223372036854775808"

lemma field_i64 [fo_codec]: "i64_range v \<Longrightarrow> field_ok (enc_i64 v) dec_i64 v"
proof -
  assume "i64_range v"
  then have "sint (word_of_int v :: u64) = v"
    by (simp add: signed_of_int signed_take_bit_int_eq_self i64_range_def)
  then show ?thesis
    unfolding enc_i64_def dec_i64_def by (intro field_map [OF field_u64]) simp
qed

lemma field_f64 [fo_codec]: "field_ok (enc_f64 v) dec_f64 v"
  unfolding enc_f64_def dec_f64_def by (rule field_map [OF field_u64]) simp

lemma field_boolean [fo_codec]: "field_ok (enc_boolean v) dec_boolean v"
  unfolding enc_boolean_def dec_boolean_def by (rule field_map [OF field_u8]) simp

section \<open>Texts, identifiers and enumerations\<close>

lemma char_of_byte_of_char [simp]: "char_of_byte (byte_of_char c) = c"
proof -
  have "unat (of_nat (of_char c) :: byte) = (of_char c :: nat)"
    by (simp add: unat_of_nat of_char_mod_256)
  then show ?thesis by (simp add: char_of_byte_def byte_of_char_def)
qed

lemma char_of_byte_map [simp]: "map char_of_byte (map byte_of_char s) = s"
  by (simp add: map_idI)

definition text_ok :: "string \<Rightarrow> bool" where
  "text_ok s \<longleftrightarrow> length s \<le> kMaxStringFieldBytes"

lemma field_prefixed:
  assumes "\<And>e. \<not> enc_failed e \<Longrightarrow> E e = enc_raw (map byte_of_char s) (enc_u32 (of_nat (length s)) e)"
    and "K (of_nat (length s)) = dec_bytes (length s) (map char_of_byte)"
  shows "field_ok E (dec_bind dec_u32 K) s"
proof -
  have "field_ok (enc_seq [push_bytes (map byte_of_char s)]) (K (of_nat (length s))) s"
    using field_push [of "map byte_of_char s" "length s" "map char_of_byte", OF length_map char_of_byte_map] assms(2)
    by (simp add: field_ok_def writes_def)
  from field_Cons [where K = K, OF field_u32 this]
  show ?thesis using assms(1)
    by (simp add: field_ok_def writes_def enc_u32_def enc_raw_def)
qed

lemma field_str [fo_codec]: "text_ok s \<Longrightarrow> field_ok (enc_str s) dec_str s"
proof -
  assume "text_ok s"
  then have n: "length s \<le> 4096" "unat (of_nat (length s) :: u32) = length s"
    by (simp_all add: text_ok_def kMaxStringFieldBytes_def unat_of_nat)
  then show ?thesis
    unfolding dec_str_def
    by (intro field_prefixed) (simp_all add: enc_str_def kMaxStringFieldBytes_def)
qed

lemma field_text_block: "length s \<le> kMaxFrameBytes \<Longrightarrow> field_ok (enc_text_block s) dec_text_block s"
proof -
  assume "length s \<le> kMaxFrameBytes"
  then have n: "length s \<le> 1024 * 1024" "unat (of_nat (length s) :: u32) = length s"
    by (simp_all add: kMaxFrameBytes_def unat_of_nat)
  then show ?thesis
    unfolding dec_text_block_def
    by (intro field_prefixed) (simp_all add: enc_text_block_def kMaxFrameBytes_def)
qed

definition id_encodable :: "'tag StrongId \<Rightarrow> bool" where
  "id_encodable i \<longleftrightarrow> id_value i = [] \<or> is_valid_identifier (id_value i)"

lemma identifier_text_ok: "is_valid_identifier s \<Longrightarrow> text_ok s"
  by (simp add: is_valid_identifier_def text_ok_def kMaxIdentifierLength_def kMaxStringFieldBytes_def
    split: if_splits)

lemma field_id [fo_codec]: "id_encodable i \<Longrightarrow> field_ok (enc_id i) (dec_id t) i"
proof -
  assume i: "id_encodable i"
  then have "text_ok (id_value i)"
    by (auto simp: id_encodable_def identifier_text_ok) (simp add: text_ok_def)
  moreover obtain s where "i = StrongId s" by (cases i)
  ultimately show ?thesis using i
    unfolding enc_id_def dec_id_def
    by (intro field_map [OF field_str]) (auto simp: id_encodable_def)
qed

lemma field_gen [fo_codec]: "field_ok (enc_gen g) dec_gen g"
  unfolding enc_gen_def dec_gen_def by (rule field_map [OF field_u64]) simp

lemma field_sequence [fo_codec]: "field_ok (enc_sequence s) dec_sequence s"
  unfolding enc_sequence_def dec_sequence_def by (rule field_map [OF field_u64]) simp

locale enumeration =
  fixes enumerators :: "'a list"
  assumes enumerators_all: "v \<in> set enumerators"
    and enumerators_small: "length enumerators \<le> 256"
begin

lemma enum_index_less: "v \<in> set xs \<Longrightarrow> enum_index xs v < length xs"
  by (induction xs) auto

lemma nth_enum_index: "v \<in> set xs \<Longrightarrow> xs ! enum_index xs v = v"
  by (induction xs) auto

lemma field_enum [fo_codec]: "field_ok (enc_enum enumerators v) (dec_enum enumerators what) v"
proof -
  have lt: "enum_index enumerators v < length enumerators"
    by (rule enum_index_less [OF enumerators_all])
  have "enum_index enumerators v < 256" using lt enumerators_small by linarith
  then have small: "unat (of_nat (enum_index enumerators v) :: u8) = enum_index enumerators v"
    by (simp add: unat_of_nat)
  have "\<not> enum_index enumerators v > length enumerators - 1" using lt by linarith
  then show ?thesis
    unfolding enc_enum_def dec_enum_def
    by (intro field_map [OF field_u8]) (simp only: small nth_enum_index [OF enumerators_all] if_False)
qed

end

text \<open>The comparison of enumerators, their names, and looking a name up.\<close>

definition enum_lt :: "'e list \<Rightarrow> 'e \<Rightarrow> 'e \<Rightarrow> bool" where
  "enum_lt enumerators a b = (enum_index enumerators a < enum_index enumerators b)"

definition parse_enum :: "'e list \<Rightarrow> ('e \<Rightarrow> string) \<Rightarrow> string \<Rightarrow> 'e option" where
  "parse_enum enumerators name text = find (\<lambda>v. name v = text) enumerators"

locale named_enumeration = enumeration +
  fixes name :: "'a \<Rightarrow> string"
  assumes names_distinct: "distinct (map name enumerators)"
begin

lemma name_inject: "name v = name w \<longleftrightarrow> v = w"
  using names_distinct enumerators_all by (auto simp: distinct_map inj_on_def)

lemma enum_index_inject: "enum_index enumerators v = enum_index enumerators w \<longleftrightarrow> v = w"
  using nth_enum_index [OF enumerators_all] by metis

lemma parse_name: "parse_enum enumerators name text = Some v \<longleftrightarrow> name v = text"
proof
  assume "parse_enum enumerators name text = Some v"
  then show "name v = text" by (auto simp: parse_enum_def find_Some_iff)
next
  assume v: "name v = text"
  obtain w where "parse_enum enumerators name text = Some w"
    using v enumerators_all [of v] find_None_iff [of "\<lambda>u. name u = text" enumerators]
    by (cases "parse_enum enumerators name text") (auto simp: parse_enum_def)
  moreover then have "name w = text" by (auto simp: parse_enum_def find_Some_iff)
  ultimately show "parse_enum enumerators name text = Some v" using v name_inject [of w v] by simp
qed

end

section \<open>Collections\<close>

locale field_codec =
  fixes enc :: "'a \<Rightarrow> Encoder \<Rightarrow> Encoder" and dec :: "'a decoder" and encodable :: "'a \<Rightarrow> bool"
  assumes field: "encodable v \<Longrightarrow> field_ok (enc v) dec v"
begin

lemma field_times: "list_all encodable vs \<Longrightarrow> field_ok (enc_each enc vs) (dec_times (length vs) dec) vs"
proof (induction vs)
  case Nil
  show ?case using field_Nil [of "[]"] by (simp add: enc_each_def del: enc_seq.simps)
next
  case (Cons v vs)
  then have v: "field_ok (enc v) dec v" and vs: "field_ok (enc_each enc vs) (dec_times (length vs) dec) vs"
    by (simp_all add: field)
  have "field_ok (enc_each enc vs) (dec_bind (dec_times (length vs) dec) (\<lambda>vs. dec_return (v # vs))) (v # vs)"
    by (rule field_map [OF vs]) simp
  then show ?case
    using field_Cons [OF v] by (simp add: enc_each_def del: enc_seq.simps)
qed

lemma field_counted:
  assumes "list_all encodable vs" and "length vs \<le> limit" and "limit < 4294967296"
  shows "field_ok (enc_counted enc vs) (dec_counted limit m dec) vs"
proof -
  have n: "unat (of_nat (length vs) :: u32) = length vs"
    using assms by (simp add: unat_of_nat)
  have "field_ok (enc_seq [enc_each enc vs]) (dec_times (length vs) dec) vs"
    using field_times [OF assms(1)] by (simp add: field_seq enc_each_def)
  then show ?thesis
    unfolding enc_counted_def dec_counted_def
    using assms(2) by (intro field_Cons [OF field_u32]) (simp add: n)
qed

lemma field_fold:
  assumes "list_all encodable vs" and "add_all add vs s = (Success, s')"
  shows "field_ok (enc_each enc vs) (dec_fold (length vs) dec add s) s'"
  using assms
proof (induction vs arbitrary: s)
  case Nil
  then show ?case using field_Nil [of s] by (simp add: enc_each_def del: enc_seq.simps)
next
  case (Cons v vs)
  obtain s1 where s1: "add v s = (Success, s1)" "add_all add vs s1 = (Success, s')"
    using Cons.prems(2) by (auto split: prod.splits Status.splits)
  have "field_ok (enc v) dec v" using Cons.prems(1) by (simp add: field)
  moreover have "field_ok (enc_each enc vs) (dec_fold (length vs) dec add s1) s'"
    using Cons.IH Cons.prems(1) s1(2) by simp
  ultimately show ?case
    unfolding enc_each_def list.map list.size add_0_right add_Suc_right dec_fold.simps
    by (intro field_Cons [of _ _ v]) (simp_all add: s1(1))
qed

lemma field_vector:
  assumes "list_all encodable vs" and "length vs \<le> limit" and "limit < 4294967296"
    and "stable_sort lt vs = vs"
  shows "field_ok (enc_vector lt enc vs) (dec_vector limit dec) vs"
  unfolding enc_vector_def dec_vector_def assms(4) by (rule field_counted [OF assms(1-3)])

end

interpretation str_codec: field_codec enc_str dec_str text_ok
  by unfold_locales (rule field_str)

interpretation id_codec: field_codec enc_id "dec_id t" id_encodable for t
  by unfold_locales (rule field_id)

interpretation linear_less: comparator "(<) :: 'a :: linorder \<Rightarrow> 'a \<Rightarrow> bool"
  by unfold_locales auto

lemma sorted_is_lt_sorted: "sorted xs \<longleftrightarrow> lt_sorted (<) (xs :: 'a :: linorder list)"
  by (simp add: lt_sorted_def not_less)

definition ids_encodable :: "'tag StrongId list \<Rightarrow> bool" where
  "ids_encodable is \<longleftrightarrow> list_all id_encodable is \<and> sorted is \<and> length is \<le> kCollectionLimit"

lemma field_id_vector [fo_codec]: "ids_encodable is \<Longrightarrow> field_ok (enc_id_vector is) (dec_id_vector t) is"
  unfolding enc_id_vector_def dec_id_vector_def ids_encodable_def
  by (intro id_codec.field_vector) 
     (auto simp: kCollectionLimit_def sorted_is_lt_sorted linear_less.stable_sort_idem)

definition texts_encodable :: "nat \<Rightarrow> string list \<Rightarrow> bool" where
  "texts_encodable limit ts \<longleftrightarrow>
     list_all text_ok ts \<and> sorted ts \<and> distinct ts \<and> length ts \<le> limit"

lemma field_text_vector:
  assumes "texts_encodable limit ts" and "limit < 4294967296"
  shows "field_ok (enc_text_vector ts) (dec_text_vector limit) ts"
proof -
  have ts: "sorted ts" "distinct ts" "unique_adjacent ts = ts" "\<not> adjacent_dup ts" "sort ts = ts"
    using assms(1) by (simp_all add: texts_encodable_def unique_adjacent_distinct adjacent_dup_sorted sorted_sort_id)
  have "field_ok (enc_counted enc_str ts) (dec_counted limit m dec_str) ts" for m
    using assms by (intro str_codec.field_counted) (simp_all add: texts_encodable_def)
  then show ?thesis
    unfolding enc_text_vector_def dec_text_vector_def by (simp add: ts) (intro field_map, auto simp: ts)
qed

text \<open>From a field to a whole message.\<close>

lemma field_round_trip:
  assumes "field_ok (enc v) dec v" and "length (enc_buffer (enc v Encoder_init)) \<le> max_bytes"
  shows "\<not> enc_failed (enc v Encoder_init) \<and>
     (\<exists>d. dec (Decoder_init (enc_buffer (enc v Encoder_init)) max_bytes) = (Inr v, d) \<and> exhausted d)"
proof -
  obtain bs where bs: "writes (enc v) bs" "reads dec v bs"
    using assms(1) by (auto simp: field_ok_def)
  then have e: "enc v Encoder_init = push_bytes bs Encoder_init"
    by (simp add: writes_def Encoder_init_def)
  have "supplies (Decoder_init bs max_bytes) bs"
    using assms(2) unfolding e by (simp add: supplies_def Decoder_init_def peek_def Encoder_init_def)
  with bs(2) have "dec (Decoder_init bs max_bytes) = (Inr v, advance (length bs) (Decoder_init bs max_bytes))"
    by (simp add: reads_def)
  with assms(2) show ?thesis
    unfolding e by (simp add: Encoder_init_def exhausted_def Decoder_init_def)
qed

text \<open>Digests of encodable values are equal exactly when their hashes are.\<close>

lemma field_inject:
  assumes "field_ok (enc v) dec v" and "field_ok (enc w) dec w"
    and "enc_buffer (enc v Encoder_init) = enc_buffer (enc w Encoder_init)"
  shows "v = w"
proof -
  let ?d = "Decoder_init (enc_buffer (enc v Encoder_init)) (length (enc_buffer (enc v Encoder_init)))"
  obtain d1 where "dec ?d = (Inr v, d1)"
    using field_round_trip [of enc v dec, OF assms(1) order_refl] by blast
  moreover obtain d2 where "dec ?d = (Inr w, d2)"
    using field_round_trip [of enc w dec, OF assms(2) order_refl] unfolding assms(3) by blast
  ultimately show ?thesis by simp
qed

section \<open>Safety of decoders\<close>

text \<open>
  \<open>dec_safe D\<close>: whatever the input, \<open>D\<close> moves the read position forward only, never beyond the end,
  and changes nothing else of the decoder. \<open>dec_yields P D\<close>: every value \<open>D\<close> accepts satisfies \<open>P\<close>.
\<close>

definition dec_safe :: "'a decoder \<Rightarrow> bool" where
  "dec_safe D \<longleftrightarrow>
     (\<forall>d. dec_offset d \<le> dec_length d \<longrightarrow>
        (\<exists>n. snd (D d) = advance n d \<and> dec_offset d + n \<le> dec_length d))"

definition dec_yields :: "('a \<Rightarrow> bool) \<Rightarrow> 'a decoder \<Rightarrow> bool" where
  "dec_yields P D \<longleftrightarrow> (\<forall>d v d'. D d = (Inr v, d') \<longrightarrow> P v)"

lemma safe_stay: "(\<And>d. snd (D d) = d) \<Longrightarrow> dec_safe D"
  unfolding dec_safe_def by (intro allI impI exI [of _ 0]) simp

lemma safe_return [fo_safe]: "dec_safe (dec_return v)"
  by (rule safe_stay) (simp add: dec_return_def)

lemma safe_error [fo_safe]: "dec_safe (dec_error e)"
  by (rule safe_stay) (simp add: dec_error_def)

lemma safe_validated [fo_safe]: "dec_safe (dec_validated m validate v)"
  by (rule safe_stay) (simp add: dec_validated_def dec_error_def dec_return_def split: Status.split)

lemma safe_bytes [fo_safe]: "dec_safe (dec_bytes n f)"
  unfolding dec_safe_def
proof (intro allI impI)
  fix d :: Decoder assume "dec_offset d \<le> dec_length d"
  then show "\<exists>k. snd (dec_bytes n f d) = advance k d \<and> dec_offset d + k \<le> dec_length d"
    by (cases "need d n = Success")
       (auto simp: dec_bytes_def need_def fail_def intro: exI [of _ n] exI [of _ 0] split: if_splits)
qed

lemma safe_bind [fo_safe]:
  assumes D: "dec_safe D" and K: "\<And>v. dec_safe (K v)"
  shows "dec_safe (dec_bind D K)"
  unfolding dec_safe_def
proof (intro allI impI)
  fix d :: Decoder assume d: "dec_offset d \<le> dec_length d"
  obtain r d1 where r: "D d = (r, d1)" by (cases "D d")
  with D d obtain n where n: "d1 = advance n d" "dec_offset d + n \<le> dec_length d"
    unfolding dec_safe_def by fastforce
  show "\<exists>k. snd (dec_bind D K d) = advance k d \<and> dec_offset d + k \<le> dec_length d"
  proof (cases r)
    case (Inl e)
    with r n show ?thesis by (auto simp: dec_bind_def)
  next
    case (Inr v)
    have "dec_offset d1 \<le> dec_length d1" using n by simp
    with K [of v] obtain k where "snd (K v d1) = advance k d1" "dec_offset d1 + k \<le> dec_length d1"
      unfolding dec_safe_def by blast
    with Inr r n show ?thesis by (intro exI [of _ "n + k"]) (simp add: dec_bind_def add.assoc)
  qed
qed

lemma safe_if [fo_safe]: "dec_safe D \<Longrightarrow> dec_safe E \<Longrightarrow> dec_safe (if b then D else E)"
  by simp

lemma safe_words [fo_safe]:
  "dec_safe dec_u8" "dec_safe dec_u16" "dec_safe dec_u32" "dec_safe dec_u64"
  unfolding dec_u8_def dec_u16_def dec_u32_def dec_u64_def by (intro fo_safe)+

lemma safe_fields [fo_safe]:
  "dec_safe dec_i64" "dec_safe dec_f64" "dec_safe dec_boolean" "dec_safe dec_str" "dec_safe dec_text_block"
  "dec_safe (dec_id t)" "dec_safe dec_gen" "dec_safe dec_sequence" "dec_safe (dec_enum vs what)"
  unfolding dec_i64_def dec_f64_def dec_boolean_def dec_str_def dec_text_block_def dec_id_def dec_gen_def
    dec_sequence_def dec_enum_def
  by (intro fo_safe)+

lemma safe_times: "dec_safe D \<Longrightarrow> dec_safe (dec_times n D)"
  by (induction n) (auto intro!: fo_safe)

lemma safe_fold: "dec_safe D \<Longrightarrow> dec_safe (dec_fold n D add s)"
  by (induction n arbitrary: s) (auto intro!: fo_safe split: prod.split Status.split)

lemmas safe_loops [fo_safe] = safe_times safe_fold

lemma safe_collections [fo_safe]:
  "dec_safe D \<Longrightarrow> dec_safe (dec_counted limit m D)" "dec_safe D \<Longrightarrow> dec_safe (dec_vector limit D)"
  "dec_safe (dec_text_vector limit)" "dec_safe (dec_id_vector t)"
  unfolding dec_vector_def dec_text_vector_def dec_id_vector_def dec_counted_def
  by (intro fo_safe; assumption?)+

lemma yields_bind [fo_yields]: "(\<And>v. dec_yields P (K v)) \<Longrightarrow> dec_yields P (dec_bind D K)"
  by (fastforce simp: dec_yields_def dec_bind_def split: prod.splits sum.splits)

lemma yields_validated [fo_yields]: "dec_yields (\<lambda>v. validate v = Success) (dec_validated m validate w)"
  by (auto simp: dec_yields_def dec_validated_def dec_return_def dec_error_def split: Status.splits)

lemma yieldsD: "dec_yields P D \<Longrightarrow> D d = (Inr v, d') \<Longrightarrow> P v"
  by (auto simp: dec_yields_def)

end
