(* ===== verification/FO_Bounds.thy ===== *)
theory FO_Bounds
  imports FO_Codec
begin

text \<open>
  Resource bounds (\<open>bounds.hpp\<close> and the bounds part of \<open>foundation.cpp\<close>): the compile-time limits,
  the configured limits and their validation. Every counter is a \<open>size_t\<close> and modelled as a natural
  number.
\<close>

section \<open>Limits\<close>

definition kMinEvidencePerFinding :: nat where
  "kMinEvidencePerFinding = 1"

definition kMaxEvidencePerFinding :: nat where
  "kMaxEvidencePerFinding = 64"

definition kDefaultEvidencePerFinding :: nat where
  "kDefaultEvidencePerFinding = 16"

definition kMaxCapabilityEntriesPerPublication :: nat where
  "kMaxCapabilityEntriesPerPublication = 512"

definition kMaxValueSetEntries :: nat where
  "kMaxValueSetEntries = 32"

definition kMaxMetadataBytes :: nat where
  "kMaxMetadataBytes = 64 * 1024"

definition kMinFrameBytes :: nat where
  "kMinFrameBytes = 64"

definition kMaxQueryResponseBytes :: nat where
  "kMaxQueryResponseBytes = 8 * 1024 * 1024"

definition kMaxSnapshotBytes :: nat where
  "kMaxSnapshotBytes = 64 * 1024 * 1024"

definition kMaxPersistenceBytes :: nat where
  "kMaxPersistenceBytes = 256 * 1024 * 1024"

definition kMaxRejectionReasons :: nat where
  "kMaxRejectionReasons = 32"

definition kMaxCandidatesPerPlacement :: nat where
  "kMaxCandidatesPerPlacement = 4096"

definition kMaxStageEventsPerMigration :: nat where
  "kMaxStageEventsPerMigration = 256"

definition kMaxClusterPerSite :: nat where
  "kMaxClusterPerSite = 4096"

definition kMaxMigrationHistoryPerWorkload :: nat where
  "kMaxMigrationHistoryPerWorkload = 4096"

definition kMaxPlacementsPerWorkload :: nat where
  "kMaxPlacementsPerWorkload = 65536"

definition kMaxPoolsPerCluster :: nat where
  "kMaxPoolsPerCluster = 1024"

record Bounds =
  max_federations :: nat
  max_sites :: nat
  max_clusters :: nat
  max_accelerator_classes :: nat
  max_runtimes :: nat
  max_backends :: nat
  max_artifacts :: nat
  max_workloads :: nat
  max_workload_classes :: nat
  max_capability_entries :: nat
  max_capacity_records :: nat
  max_placement_history :: nat
  max_migration_history :: nat
  max_portability_records :: nat
  max_publishers :: nat
  max_publishers_per_federation :: nat
  max_domains :: nat
  max_policies :: nat
  max_aggregate_findings :: nat
  max_metadata_bytes :: nat
  max_frame_bytes :: nat
  max_query_response_bytes :: nat
  max_snapshot_bytes :: nat
  max_persistence_bytes :: nat
  max_evidence_per_finding :: nat
  max_threads :: nat
  max_connections :: nat
  max_ingest_queue_depth :: nat
  max_connections_per_publisher :: nat
  max_outstanding_requests_per_connection :: nat
  max_history_per_federation :: nat
  max_pools_per_cluster :: nat

definition default_bounds :: Bounds where
  "default_bounds =
     \<lparr>max_federations = 64,
      max_sites = 4096,
      max_clusters = 16384,
      max_accelerator_classes = 4096,
      max_runtimes = 4096,
      max_backends = 4096,
      max_artifacts = 2 ^ 20,
      max_workloads = 2 ^ 20,
      max_workload_classes = 4096,
      max_capability_entries = 2 ^ 20,
      max_capacity_records = 2 ^ 17,
      max_placement_history = 2 ^ 20,
      max_migration_history = 2 ^ 18,
      max_portability_records = 2 ^ 17,
      max_publishers = 1024,
      max_publishers_per_federation = 256,
      max_domains = 8192,
      max_policies = 4096,
      max_aggregate_findings = 2 ^ 18,
      max_metadata_bytes = kMaxMetadataBytes,
      max_frame_bytes = kMaxFrameBytes,
      max_query_response_bytes = kMaxQueryResponseBytes,
      max_snapshot_bytes = kMaxSnapshotBytes,
      max_persistence_bytes = kMaxPersistenceBytes,
      max_evidence_per_finding = kDefaultEvidencePerFinding,
      max_threads = 64,
      max_connections = 256,
      max_ingest_queue_depth = 65536,
      max_connections_per_publisher = 4,
      max_outstanding_requests_per_connection = 64,
      max_history_per_federation = 2 ^ 20,
      max_pools_per_cluster = 1024\<rparr>"

section \<open>Validation\<close>

definition check_bound_range :: "nat \<Rightarrow> nat \<Rightarrow> nat \<Rightarrow> string \<Rightarrow> Status" where
  "check_bound_range value low high name =
     (if value < low \<or> value > high then fail InvalidArgument ''bound out of range'' name
      else Success)"

definition check_bound_nonzero :: "nat \<Rightarrow> string \<Rightarrow> Status" where
  "check_bound_nonzero value name =
     (if value = 0 then fail InvalidArgument ''bound must be non-zero'' name else Success)"

definition bound_ranges :: "Bounds \<Rightarrow> (nat \<times> nat \<times> nat \<times> string) list" where
  "bound_ranges b =
     [(max_frame_bytes b, kMinFrameBytes, kMaxFrameBytes, ''max_frame_bytes''),
      (max_metadata_bytes b, 256, kMaxMetadataBytes, ''max_metadata_bytes''),
      (max_query_response_bytes b, 1024, kMaxQueryResponseBytes, ''max_query_response_bytes''),
      (max_snapshot_bytes b, 1024, kMaxSnapshotBytes, ''max_snapshot_bytes''),
      (max_persistence_bytes b, 1024, kMaxPersistenceBytes, ''max_persistence_bytes''),
      (max_evidence_per_finding b, kMinEvidencePerFinding, kMaxEvidencePerFinding, ''max_evidence_per_finding''),
      (max_threads b, 1, 1024, ''max_threads''),
      (max_connections b, 1, 65536, ''max_connections''),
      (max_ingest_queue_depth b, 1, 2 ^ 24, ''max_ingest_queue_depth''),
      (max_publishers b, 1, 2 ^ 20, ''max_publishers''),
      (max_connections_per_publisher b, 1, 1024, ''max_connections_per_publisher''),
      (max_outstanding_requests_per_connection b, 1, 65536, ''max_outstanding_requests_per_connection'')]"

definition bound_counters :: "Bounds \<Rightarrow> (nat \<times> string) list" where
  "bound_counters b =
     [(max_federations b, ''max_federations''),
      (max_sites b, ''max_sites''),
      (max_clusters b, ''max_clusters''),
      (max_accelerator_classes b, ''max_accelerator_classes''),
      (max_runtimes b, ''max_runtimes''),
      (max_backends b, ''max_backends''),
      (max_artifacts b, ''max_artifacts''),
      (max_workloads b, ''max_workloads''),
      (max_workload_classes b, ''max_workload_classes''),
      (max_capability_entries b, ''max_capability_entries''),
      (max_capacity_records b, ''max_capacity_records''),
      (max_placement_history b, ''max_placement_history''),
      (max_migration_history b, ''max_migration_history''),
      (max_portability_records b, ''max_portability_records''),
      (max_publishers_per_federation b, ''max_publishers_per_federation''),
      (max_domains b, ''max_domains''),
      (max_policies b, ''max_policies''),
      (max_aggregate_findings b, ''max_aggregate_findings''),
      (max_history_per_federation b, ''max_history_per_federation'')]"

definition Bounds_validate :: "Bounds \<Rightarrow> Status" where
  "Bounds_validate b =
     (case first_failure (\<lambda>(value, low, high, name). check_bound_range value low high name)
             (bound_ranges b) of
        Failure e \<Rightarrow> Failure e
      | Success \<Rightarrow> first_failure (\<lambda>(value, name). check_bound_nonzero value name) (bound_counters b))"

section \<open>What validated bounds guarantee\<close>

lemmas limit_defs =
  kMaxStringFieldBytes_def kMaxFrameBytes_def
  kMinEvidencePerFinding_def
  kMaxEvidencePerFinding_def
  kDefaultEvidencePerFinding_def
  kMaxCapabilityEntriesPerPublication_def
  kMaxValueSetEntries_def
  kMaxMetadataBytes_def
  kMinFrameBytes_def
  kMaxQueryResponseBytes_def
  kMaxSnapshotBytes_def
  kMaxPersistenceBytes_def
  kMaxRejectionReasons_def
  kMaxCandidatesPerPlacement_def
  kMaxStageEventsPerMigration_def
  kMaxClusterPerSite_def
  kMaxMigrationHistoryPerWorkload_def
  kMaxPlacementsPerWorkload_def
  kMaxPoolsPerCluster_def

lemma check_bound_range_Success: "check_bound_range v l h n = Success \<longleftrightarrow> l \<le> v \<and> v \<le> h"
  by (auto simp: check_bound_range_def)

lemma check_bound_nonzero_Success: "check_bound_nonzero v n = Success \<longleftrightarrow> v \<noteq> 0"
  by (simp add: check_bound_nonzero_def)

lemma Bounds_validate_Success:
  "Bounds_validate b = Success \<longleftrightarrow>
     (\<forall>(value, low, high, name) \<in> set (bound_ranges b). low \<le> value \<and> value \<le> high) \<and>
     (\<forall>(value, name) \<in> set (bound_counters b). value \<noteq> 0)"
proof -
  have "Bounds_validate b = Success \<longleftrightarrow>
      first_failure (\<lambda>(value, low, high, name). check_bound_range value low high name) (bound_ranges b) = Success \<and>
      first_failure (\<lambda>(value, name). check_bound_nonzero value name) (bound_counters b) = Success"
    by (simp add: Bounds_validate_def split: Status.splits)
  then show ?thesis
    by (simp add: first_failure_Success check_bound_range_Success check_bound_nonzero_Success
        split_beta)
qed

lemma Bounds_validate_code: "Bounds_validate b = Failure e \<Longrightarrow> error_code e = InvalidArgument"
  by (auto simp: Bounds_validate_def check_bound_range_def check_bound_nonzero_def fail_def
      split: Status.splits if_splits dest!: first_failure_Failure)

lemma default_bounds_valid: "Bounds_validate default_bounds = Success"
  by (simp add: Bounds_validate_Success bound_ranges_def bound_counters_def default_bounds_def
      limit_defs)

end
