(* ===== verification/FO_Evidence.thy ===== *)
theory FO_Evidence
  imports FO_Bounds
begin

text \<open>
  Evidence classification (\<open>evidence.hpp\<close> and the evidence part of \<open>foundation.cpp\<close>): the tri-state
  logic, precision, reason basis, evidence class and provenance, and the bounded, ordered,
  deduplicated \<open>EvidenceList\<close> every record carries. An enumeration lists its enumerators in
  declaration order, so its rank (the underlying integer) is the position in that list.
\<close>

section \<open>Tri-state truth\<close>

datatype Tri =
    Tri_No
  | Tri_Unknown
  | Tri_Yes

definition Tri_values :: "Tri list" where
  "Tri_values =
     [Tri_No, Tri_Unknown, Tri_Yes]"

fun Tri_to_string :: "Tri \<Rightarrow> string" where
  "Tri_to_string Tri_No = ''NO''"
| "Tri_to_string Tri_Unknown = ''UNKNOWN''"
| "Tri_to_string Tri_Yes = ''YES''"

interpretation tri_enum: named_enumeration Tri_values Tri_to_string
proof unfold_locales
  show "v \<in> set Tri_values" for v by (cases v) (simp_all add: Tri_values_def)
qed (simp_all add: Tri_values_def)

definition tri_and :: "Tri \<Rightarrow> Tri \<Rightarrow> Tri" where
  "tri_and a b =
     (if a = Tri_No \<or> b = Tri_No then Tri_No
      else if a = Tri_Unknown \<or> b = Tri_Unknown then Tri_Unknown
      else Tri_Yes)"

definition tri_or :: "Tri \<Rightarrow> Tri \<Rightarrow> Tri" where
  "tri_or a b =
     (if a = Tri_Yes \<or> b = Tri_Yes then Tri_Yes
      else if a = Tri_Unknown \<or> b = Tri_Unknown then Tri_Unknown
      else Tri_No)"

fun tri_not :: "Tri \<Rightarrow> Tri" where
  "tri_not Tri_No = Tri_Yes"
| "tri_not Tri_Yes = Tri_No"
| "tri_not Tri_Unknown = Tri_Unknown"

definition tri_from_bool :: "bool \<Rightarrow> Tri" where
  "tri_from_bool value = (if value then Tri_Yes else Tri_No)"

section \<open>Precision\<close>

datatype Precision =
    Precision_Exact
  | Precision_Aggregated
  | Precision_Sampled
  | Precision_Derived
  | Precision_Inferred
  | Precision_Ambiguous
  | Precision_Unknown

definition Precision_values :: "Precision list" where
  "Precision_values =
     [Precision_Exact, Precision_Aggregated, Precision_Sampled, Precision_Derived,
      Precision_Inferred, Precision_Ambiguous, Precision_Unknown]"

fun Precision_to_string :: "Precision \<Rightarrow> string" where
  "Precision_to_string Precision_Exact = ''EXACT''"
| "Precision_to_string Precision_Aggregated = ''AGGREGATED''"
| "Precision_to_string Precision_Sampled = ''SAMPLED''"
| "Precision_to_string Precision_Derived = ''DERIVED''"
| "Precision_to_string Precision_Inferred = ''INFERRED''"
| "Precision_to_string Precision_Ambiguous = ''AMBIGUOUS''"
| "Precision_to_string Precision_Unknown = ''UNKNOWN''"

interpretation precision_enum: named_enumeration Precision_values Precision_to_string
proof unfold_locales
  show "v \<in> set Precision_values" for v by (cases v) (simp_all add: Precision_values_def)
qed (simp_all add: Precision_values_def)

definition precision_rank :: "Precision \<Rightarrow> nat" where
  "precision_rank precision = enum_index Precision_values precision"

definition weakest_precision :: "Precision \<Rightarrow> Precision \<Rightarrow> Precision" where
  "weakest_precision a b = (if precision_rank a \<ge> precision_rank b then a else b)"

definition strongest_precision :: "Precision \<Rightarrow> Precision \<Rightarrow> Precision" where
  "strongest_precision a b = (if precision_rank a \<le> precision_rank b then a else b)"

definition parse_precision :: "string \<Rightarrow> Precision option" where
  "parse_precision = parse_enum Precision_values Precision_to_string"

section \<open>Basis of a stated reason\<close>

datatype ReasonBasis =
    ReasonBasis_Observed
  | ReasonBasis_Derived
  | ReasonBasis_Inferred
  | ReasonBasis_Unattributed

definition ReasonBasis_values :: "ReasonBasis list" where
  "ReasonBasis_values =
     [ReasonBasis_Observed, ReasonBasis_Derived, ReasonBasis_Inferred,
      ReasonBasis_Unattributed]"

fun ReasonBasis_to_string :: "ReasonBasis \<Rightarrow> string" where
  "ReasonBasis_to_string ReasonBasis_Observed = ''OBSERVED''"
| "ReasonBasis_to_string ReasonBasis_Derived = ''DERIVED''"
| "ReasonBasis_to_string ReasonBasis_Inferred = ''INFERRED''"
| "ReasonBasis_to_string ReasonBasis_Unattributed = ''UNATTRIBUTED''"

interpretation reason_basis_enum: named_enumeration ReasonBasis_values ReasonBasis_to_string
proof unfold_locales
  show "v \<in> set ReasonBasis_values" for v by (cases v) (simp_all add: ReasonBasis_values_def)
qed (simp_all add: ReasonBasis_values_def)

definition reason_basis_rank :: "ReasonBasis \<Rightarrow> nat" where
  "reason_basis_rank basis = enum_index ReasonBasis_values basis"

definition weakest_basis :: "ReasonBasis \<Rightarrow> ReasonBasis \<Rightarrow> ReasonBasis" where
  "weakest_basis a b = (if reason_basis_rank a \<ge> reason_basis_rank b then a else b)"

section \<open>Evidence class and provenance\<close>

datatype EvidenceClass =
    EvidenceClass_Real
  | EvidenceClass_Synthetic
  | EvidenceClass_Unsupported
  | EvidenceClass_Unknown

definition EvidenceClass_values :: "EvidenceClass list" where
  "EvidenceClass_values =
     [EvidenceClass_Real, EvidenceClass_Synthetic, EvidenceClass_Unsupported,
      EvidenceClass_Unknown]"

fun EvidenceClass_to_string :: "EvidenceClass \<Rightarrow> string" where
  "EvidenceClass_to_string EvidenceClass_Real = ''REAL''"
| "EvidenceClass_to_string EvidenceClass_Synthetic = ''SYNTHETIC''"
| "EvidenceClass_to_string EvidenceClass_Unsupported = ''UNSUPPORTED''"
| "EvidenceClass_to_string EvidenceClass_Unknown = ''UNKNOWN''"

interpretation evidence_class_enum: named_enumeration EvidenceClass_values EvidenceClass_to_string
proof unfold_locales
  show "v \<in> set EvidenceClass_values" for v by (cases v) (simp_all add: EvidenceClass_values_def)
qed (simp_all add: EvidenceClass_values_def)

definition evidence_class_rank :: "EvidenceClass \<Rightarrow> nat" where
  "evidence_class_rank cls = enum_index EvidenceClass_values cls"

definition weaker_class :: "EvidenceClass \<Rightarrow> EvidenceClass \<Rightarrow> EvidenceClass" where
  "weaker_class a b = (if evidence_class_rank a \<ge> evidence_class_rank b then a else b)"

definition parse_evidence_class :: "string \<Rightarrow> EvidenceClass option" where
  "parse_evidence_class = parse_enum EvidenceClass_values EvidenceClass_to_string"

datatype Provenance =
    Provenance_HostProbe
  | Provenance_ToolchainProbe
  | Provenance_ArtifactInspection
  | Provenance_FederationController
  | Provenance_ClusterController
  | Provenance_Scheduler
  | Provenance_RuntimeRegistry
  | Provenance_HardwareCapabilityRegistry
  | Provenance_ArtifactRegistry
  | Provenance_MigrationRuntime
  | Provenance_ResourceBroker
  | Provenance_ExternalInventory
  | Provenance_SyntheticBackend
  | Provenance_ImportedTrace
  | Provenance_DerivedAnalysis
  | Provenance_PublisherReport
  | Provenance_Unknown

definition Provenance_values :: "Provenance list" where
  "Provenance_values =
     [Provenance_HostProbe, Provenance_ToolchainProbe, Provenance_ArtifactInspection,
      Provenance_FederationController, Provenance_ClusterController, Provenance_Scheduler,
      Provenance_RuntimeRegistry, Provenance_HardwareCapabilityRegistry,
      Provenance_ArtifactRegistry, Provenance_MigrationRuntime, Provenance_ResourceBroker,
      Provenance_ExternalInventory, Provenance_SyntheticBackend, Provenance_ImportedTrace,
      Provenance_DerivedAnalysis, Provenance_PublisherReport, Provenance_Unknown]"

fun Provenance_to_string :: "Provenance \<Rightarrow> string" where
  "Provenance_to_string Provenance_HostProbe = ''HOST_PROBE''"
| "Provenance_to_string Provenance_ToolchainProbe = ''TOOLCHAIN_PROBE''"
| "Provenance_to_string Provenance_ArtifactInspection = ''ARTIFACT_INSPECTION''"
| "Provenance_to_string Provenance_FederationController = ''FEDERATION_CONTROLLER''"
| "Provenance_to_string Provenance_ClusterController = ''CLUSTER_CONTROLLER''"
| "Provenance_to_string Provenance_Scheduler = ''SCHEDULER''"
| "Provenance_to_string Provenance_RuntimeRegistry = ''RUNTIME_REGISTRY''"
| "Provenance_to_string Provenance_HardwareCapabilityRegistry = ''HARDWARE_CAPABILITY_REGISTRY''"
| "Provenance_to_string Provenance_ArtifactRegistry = ''ARTIFACT_REGISTRY''"
| "Provenance_to_string Provenance_MigrationRuntime = ''MIGRATION_RUNTIME''"
| "Provenance_to_string Provenance_ResourceBroker = ''RESOURCE_BROKER''"
| "Provenance_to_string Provenance_ExternalInventory = ''EXTERNAL_INVENTORY''"
| "Provenance_to_string Provenance_SyntheticBackend = ''SYNTHETIC_BACKEND''"
| "Provenance_to_string Provenance_ImportedTrace = ''IMPORTED_TRACE''"
| "Provenance_to_string Provenance_DerivedAnalysis = ''DERIVED_ANALYSIS''"
| "Provenance_to_string Provenance_PublisherReport = ''PUBLISHER_REPORT''"
| "Provenance_to_string Provenance_Unknown = ''UNKNOWN''"

interpretation provenance_enum: named_enumeration Provenance_values Provenance_to_string
proof unfold_locales
  show "v \<in> set Provenance_values" for v by (cases v) (simp_all add: Provenance_values_def)
qed (simp_all add: Provenance_values_def)

definition parse_provenance :: "string \<Rightarrow> Provenance option" where
  "parse_provenance = parse_enum Provenance_values Provenance_to_string"

section \<open>Evidence references\<close>

record EvidenceRef =
  ev_source :: Provenance
  ev_evidence_class :: EvidenceClass
  ev_source_id :: string
  ev_generation :: EvidenceGeneration
  ev_precision :: Precision
  ev_detail :: string

definition EvidenceRef_init :: EvidenceRef where
  "EvidenceRef_init =
     \<lparr>ev_source = Provenance_Unknown, ev_evidence_class = EvidenceClass_Unknown, ev_source_id = [],
      ev_generation = gen_unset, ev_precision = Precision_Unknown, ev_detail = []\<rparr>"

definition EvidenceRef_less :: "EvidenceRef \<Rightarrow> EvidenceRef \<Rightarrow> bool" where
  "EvidenceRef_less a b =
     (if ev_source a \<noteq> ev_source b then enum_lt Provenance_values (ev_source a) (ev_source b)
      else if ev_source_id a \<noteq> ev_source_id b then ev_source_id a < ev_source_id b
      else if ev_generation a \<noteq> ev_generation b then ev_generation a < ev_generation b
      else if ev_evidence_class a \<noteq> ev_evidence_class b then
        enum_lt EvidenceClass_values (ev_evidence_class a) (ev_evidence_class b)
      else if ev_precision a \<noteq> ev_precision b then
        enum_lt Precision_values (ev_precision a) (ev_precision b)
      else ev_detail a < ev_detail b)"

definition EvidenceRef_to_string :: "EvidenceRef \<Rightarrow> string" where
  "EvidenceRef_to_string r =
     Provenance_to_string (ev_source r) @ ''/'' @ EvidenceClass_to_string (ev_evidence_class r) @
     ''/'' @ Precision_to_string (ev_precision r) @
     (if ev_source_id r = [] then [] else '' src='' @ ev_source_id r) @
     (if is_set (ev_generation r) then '' gen='' @ gen_to_string (ev_generation r) else []) @
     (if ev_detail r = [] then [] else '' - '' @ ev_detail r)"

section \<open>Evidence lists\<close>

record EvidenceList =
  el_items :: "EvidenceRef list"
  el_limit :: nat

definition EvidenceList_init :: "nat \<Rightarrow> EvidenceList" where
  "EvidenceList_init limit = \<lparr>el_items = [], el_limit = limit\<rparr>"

abbreviation no_evidence :: EvidenceList where
  "no_evidence \<equiv> EvidenceList_init kDefaultEvidencePerFinding"

definition EvidenceRef_truncated :: "EvidenceRef \<Rightarrow> EvidenceRef" where
  "EvidenceRef_truncated r =
     r\<lparr>ev_source_id := truncate_with_marker (ev_source_id r) kMaxIdentifierLength,
       ev_detail := truncate_with_marker (ev_detail r) 512\<rparr>"

definition EvidenceList_add :: "EvidenceRef \<Rightarrow> EvidenceList \<Rightarrow> Status \<times> EvidenceList" where
  "EvidenceList_add r0 l =
     (let r = EvidenceRef_truncated r0
      in if r \<in> set (el_items l) then (Success, l)
         else if length (el_items l) \<ge> el_limit l then
           (fail BoundExceeded ''evidence list is full''
              (to_string_nat (el_limit l) @ '' references retained''), l)
         else (Success, l\<lparr>el_items := stable_sort EvidenceRef_less (el_items l @ [r])\<rparr>))"

definition EvidenceList_add_fields ::
  "Provenance \<Rightarrow> EvidenceClass \<Rightarrow> string \<Rightarrow> Precision \<Rightarrow> string \<Rightarrow> EvidenceList \<Rightarrow> Status \<times> EvidenceList" where
  "EvidenceList_add_fields source cls source_id precision detail =
     EvidenceList_add (EvidenceRef_init
       \<lparr>ev_source := source, ev_evidence_class := cls, ev_source_id := source_id,
        ev_precision := precision, ev_detail := detail\<rparr>)"

definition combined_precision :: "EvidenceList \<Rightarrow> Precision" where
  "combined_precision l =
     (case el_items l of [] \<Rightarrow> Precision_Unknown
      | r # rs \<Rightarrow> foldl (\<lambda>acc x. weakest_precision acc (ev_precision x)) (ev_precision r) rs)"

definition combined_class :: "EvidenceList \<Rightarrow> EvidenceClass" where
  "combined_class l =
     (case el_items l of [] \<Rightarrow> EvidenceClass_Unknown
      | r # rs \<Rightarrow> foldl (\<lambda>acc x. weaker_class acc (ev_evidence_class x)) (ev_evidence_class r) rs)"

definition all_real :: "EvidenceList \<Rightarrow> bool" where
  "all_real l =
     (if el_items l = [] then False
      else list_all (\<lambda>r. ev_evidence_class r = EvidenceClass_Real) (el_items l))"

definition any_synthetic :: "EvidenceList \<Rightarrow> bool" where
  "any_synthetic l = list_ex (\<lambda>r. ev_evidence_class r = EvidenceClass_Synthetic) (el_items l)"

definition EvidenceList_render :: "string \<Rightarrow> EvidenceList \<Rightarrow> string" where
  "EvidenceList_render indent l =
     (if el_items l = [] then indent @ ''evidence: <none>''
      else indent @ ''evidence:'' @
        concat (map (\<lambda>r. [char_of (10 :: nat)] @ indent @ ''  - '' @ EvidenceRef_to_string r) (el_items l)))"

definition evidence_digest :: "EvidenceList \<Rightarrow> string" where
  "evidence_digest l =
     hex_digest64 (fnv1a64 (concat (map (\<lambda>r.
       Provenance_to_string (ev_source r) @ ''|'' @ EvidenceClass_to_string (ev_evidence_class r) @
       ''|'' @ Precision_to_string (ev_precision r) @ ''|'' @ ev_source_id r @ ''|'' @
       gen_to_string (ev_generation r) @ ''|'' @ ev_detail r @ [char_of (10 :: nat)]) (el_items l))))"

section \<open>Tri-state logic is Kleene's strong logic\<close>

lemma tri_and_rank:
  "enum_index Tri_values (tri_and a b) = min (enum_index Tri_values a) (enum_index Tri_values b)"
  by (cases a; cases b) (simp_all add: tri_and_def Tri_values_def)

lemma tri_or_rank:
  "enum_index Tri_values (tri_or a b) = max (enum_index Tri_values a) (enum_index Tri_values b)"
  by (cases a; cases b) (simp_all add: tri_or_def Tri_values_def)

lemma tri_not_and: "tri_not (tri_and a b) = tri_or (tri_not a) (tri_not b)"
  by (cases a; cases b) (simp_all add: tri_and_def tri_or_def)

section \<open>Evidence is combined without optimism\<close>

lemma weakest_precision_rank: "precision_rank (weakest_precision a b) = max (precision_rank a) (precision_rank b)"
  by (simp add: weakest_precision_def max_def)

lemma weaker_class_rank: "evidence_class_rank (weaker_class a b) = max (evidence_class_rank a) (evidence_class_rank b)"
  by (simp add: weaker_class_def max_def)

lemma foldl_weakest_rank:
  assumes "\<And>a b. rank (weaken a b) = max (rank a) (rank b :: nat)"
  shows "rank (foldl (\<lambda>acc x. weaken acc (f x)) a xs) = Max (insert (rank a) ((\<lambda>x. rank (f x)) ` set xs))"
proof (induction xs arbitrary: a)
  case (Cons x xs)
  show ?case
    unfolding foldl_Cons Cons assms
    by (cases "xs = []") (auto simp: Max_insert max.assoc insert_commute)
qed simp

lemma combined_precision_rank:
  "el_items l \<noteq> [] \<Longrightarrow>
     precision_rank (combined_precision l) = Max ((\<lambda>r. precision_rank (ev_precision r)) ` set (el_items l))"
  by (cases "el_items l")
     (simp_all add: combined_precision_def foldl_weakest_rank weakest_precision_rank)

lemma combined_class_rank:
  "el_items l \<noteq> [] \<Longrightarrow>
     evidence_class_rank (combined_class l) = Max ((\<lambda>r. evidence_class_rank (ev_evidence_class r)) ` set (el_items l))"
  by (cases "el_items l")
     (simp_all add: combined_class_def foldl_weakest_rank weaker_class_rank)

lemma all_real_combined: "all_real l \<longleftrightarrow> el_items l \<noteq> [] \<and> combined_class l = EvidenceClass_Real"
proof (cases "el_items l = []")
  case False
  have r0: "evidence_class_rank c = 0 \<longleftrightarrow> c = EvidenceClass_Real" for c
    by (cases c) (simp_all add: evidence_class_rank_def EvidenceClass_values_def)
  have "evidence_class_rank (combined_class l) = 0 \<longleftrightarrow>
      (\<forall>r \<in> set (el_items l). evidence_class_rank (ev_evidence_class r) = 0)"
    using False by (simp add: combined_class_rank Max_eq_iff) (auto simp: image_iff neq_Nil_conv)
  then show ?thesis using False by (simp add: all_real_def r0 list_all_iff)
qed (simp add: all_real_def)

section \<open>The order of evidence references\<close>

definition EvidenceRef_key :: "EvidenceRef \<Rightarrow> nat \<times> string \<times> EvidenceGeneration \<times> nat \<times> nat \<times> string" where
  "EvidenceRef_key r =
     (enum_index Provenance_values (ev_source r), ev_source_id r, ev_generation r,
      enum_index EvidenceClass_values (ev_evidence_class r),
      enum_index Precision_values (ev_precision r), ev_detail r)"

lemma EvidenceRef_less_key: "EvidenceRef_less a b \<longleftrightarrow> EvidenceRef_key a < EvidenceRef_key b"
  by (auto simp: EvidenceRef_less_def EvidenceRef_key_def enum_lt_def less_prod_simp less_le
      provenance_enum.enum_index_inject evidence_class_enum.enum_index_inject
      precision_enum.enum_index_inject)

lemma EvidenceRef_key_inject: "EvidenceRef_key a = EvidenceRef_key b \<longleftrightarrow> a = b"
  by (auto simp: EvidenceRef_key_def provenance_enum.enum_index_inject
      evidence_class_enum.enum_index_inject precision_enum.enum_index_inject)

interpretation evidence_order: comparator EvidenceRef_less
  by (rule comparator_key) (rule EvidenceRef_less_key)

section \<open>The invariant of an evidence list\<close>

definition EvidenceRef_bounded :: "EvidenceRef \<Rightarrow> bool" where
  "EvidenceRef_bounded r \<longleftrightarrow>
     length (ev_source_id r) \<le> kMaxIdentifierLength \<and> length (ev_detail r) \<le> 512"

definition EvidenceList_ok :: "EvidenceList \<Rightarrow> bool" where
  "EvidenceList_ok l \<longleftrightarrow>
     lt_sorted EvidenceRef_less (el_items l) \<and> distinct (el_items l) \<and>
     length (el_items l) \<le> el_limit l \<and> list_all EvidenceRef_bounded (el_items l)"

lemma EvidenceList_ok_init [simp]: "EvidenceList_ok (EvidenceList_init n)"
  by (simp add: EvidenceList_ok_def EvidenceList_init_def lt_sorted_def)

lemma EvidenceRef_truncated_bounded: "EvidenceRef_bounded (EvidenceRef_truncated r)"
  by (simp add: EvidenceRef_bounded_def EvidenceRef_truncated_def truncate_with_marker_length)

lemma EvidenceRef_truncated_id: "EvidenceRef_bounded r \<Longrightarrow> EvidenceRef_truncated r = r"
  by (simp add: EvidenceRef_bounded_def EvidenceRef_truncated_def truncate_with_marker_def)

lemma distinct_stable_sort [simp]: "distinct (stable_sort lt xs) \<longleftrightarrow> distinct xs"
  using distinct_map_stable_sort [of id lt xs] by simp

lemma EvidenceList_add_ok: "EvidenceList_ok l \<Longrightarrow> EvidenceList_ok (snd (EvidenceList_add r l))"
  using EvidenceRef_truncated_bounded [of r]
  by (auto simp: EvidenceList_add_def Let_def EvidenceList_ok_def list_all_iff
      evidence_order.stable_sort_sorted)

lemma EvidenceList_add_limit [simp]: "el_limit (snd (EvidenceList_add r l)) = el_limit l"
  by (simp add: EvidenceList_add_def Let_def)

lemma EvidenceList_add_Success:
  "fst (EvidenceList_add r l) = Success \<Longrightarrow>
     set (el_items (snd (EvidenceList_add r l))) = insert (EvidenceRef_truncated r) (set (el_items l))"
  by (auto simp: EvidenceList_add_def Let_def split: if_splits)

lemma EvidenceList_add_Failure:
  "fst (EvidenceList_add r l) \<noteq> Success \<Longrightarrow> snd (EvidenceList_add r l) = l"
  by (auto simp: EvidenceList_add_def Let_def split: if_splits)

text \<open>A well-formed list is determined by its limit and the set of its references.\<close>

lemma EvidenceList_canonical:
  assumes "EvidenceList_ok k" and "EvidenceList_ok l"
    and "set (el_items k) = set (el_items l)" and "el_limit k = el_limit l"
  shows "k = l"
proof -
  have "map EvidenceRef_key (el_items k) = map EvidenceRef_key (el_items l)"
    using assms
    by (intro sorted_distinct_set_unique)
       (auto simp: EvidenceList_ok_def lt_sorted_key [OF EvidenceRef_less_key] distinct_map inj_on_def
         EvidenceRef_key_inject)
  then have "el_items k = el_items l"
    by (metis EvidenceRef_key_inject list.inj_map_strong)
  with assms(4) show ?thesis by simp
qed

text \<open>
  On a well-formed list, adding two references in either order gives the same list, which
  is again well-formed (sorted, without duplicates, bounded, truncated), and adding a reference a
  second time changes nothing: evidence is independent of arrival order and of replays.
\<close>

lemma evidence_order_irrelevant:
  assumes "EvidenceList_ok l"
    and "fst (EvidenceList_add r l) = Success" "fst (EvidenceList_add s (snd (EvidenceList_add r l))) = Success"
    and "fst (EvidenceList_add s l) = Success" "fst (EvidenceList_add r (snd (EvidenceList_add s l))) = Success"
  shows "snd (EvidenceList_add s (snd (EvidenceList_add r l))) = snd (EvidenceList_add r (snd (EvidenceList_add s l)))
     \<and> EvidenceList_ok (snd (EvidenceList_add s (snd (EvidenceList_add r l))))
     \<and> EvidenceList_add r (snd (EvidenceList_add r l)) = (Success, snd (EvidenceList_add r l))"
proof (intro conjI)
  show "snd (EvidenceList_add s (snd (EvidenceList_add r l))) = snd (EvidenceList_add r (snd (EvidenceList_add s l)))"
    using assms by (intro EvidenceList_canonical) (auto simp: EvidenceList_add_ok EvidenceList_add_Success)
  show "EvidenceList_ok (snd (EvidenceList_add s (snd (EvidenceList_add r l))))"
    using assms(1) by (simp add: EvidenceList_add_ok)
  have "EvidenceRef_truncated r \<in> set (el_items (snd (EvidenceList_add r l)))"
    using assms(2) by (simp add: EvidenceList_add_Success)
  then show "EvidenceList_add r (snd (EvidenceList_add r l)) = (Success, snd (EvidenceList_add r l))"
    by (simp add: EvidenceList_add_def [of r "snd (EvidenceList_add r l)"])
qed

text \<open>Adding the references of a well-formed list in order rebuilds it.\<close>

lemma EvidenceList_rebuild:
  "EvidenceList_ok \<lparr>el_items = rs @ qs, el_limit = n\<rparr> \<Longrightarrow>
     add_all EvidenceList_add qs \<lparr>el_items = rs, el_limit = n\<rparr> = (Success, \<lparr>el_items = rs @ qs, el_limit = n\<rparr>)"
proof (induction qs arbitrary: rs)
  case (Cons q qs)
  have ok: "EvidenceList_ok \<lparr>el_items = (rs @ [q]) @ qs, el_limit = n\<rparr>" using Cons.prems by simp
  have "lt_sorted EvidenceRef_less (rs @ [q])"
    using Cons.prems by (auto simp: EvidenceList_ok_def lt_sorted_def sorted_wrt_append)
  then have "EvidenceList_add q \<lparr>el_items = rs, el_limit = n\<rparr> = (Success, \<lparr>el_items = rs @ [q], el_limit = n\<rparr>)"
    using Cons.prems
    by (auto simp: EvidenceList_add_def Let_def EvidenceList_ok_def EvidenceRef_truncated_id
        evidence_order.stable_sort_idem)
  then show ?case using Cons.IH [OF ok] by simp
qed simp

end
