(* ===== verification/FO_Capacity.thy ===== *)
theory FO_Capacity
  imports FO_Evidence
begin

text \<open>
  Capacity accounting (\<open>capacity.hpp\<close>, \<open>capacity.cpp\<close>): the seven-bucket ledger of a pool, stranding
  reasons, reason tallies and the partition of idle capacity. Amounts are 64-bit words and all sums
  are checked, so the accounting identities are stated over the natural numbers.
\<close>

section \<open>Ledgers\<close>

datatype ResourceKind =
    ResourceKind_Accelerator
  | ResourceKind_MemoryBytes
  | ResourceKind_Custom

definition ResourceKind_values :: "ResourceKind list" where
  "ResourceKind_values =
     [ResourceKind_Accelerator, ResourceKind_MemoryBytes, ResourceKind_Custom]"

fun ResourceKind_to_string :: "ResourceKind \<Rightarrow> string" where
  "ResourceKind_to_string ResourceKind_Accelerator = ''ACCELERATOR''"
| "ResourceKind_to_string ResourceKind_MemoryBytes = ''MEMORY_BYTES''"
| "ResourceKind_to_string ResourceKind_Custom = ''CUSTOM''"

interpretation resource_kind_enum: named_enumeration ResourceKind_values ResourceKind_to_string
proof unfold_locales
  show "v \<in> set ResourceKind_values" for v by (cases v) (simp_all add: ResourceKind_values_def)
qed (simp_all add: ResourceKind_values_def)

definition parse_resource_kind :: "string \<Rightarrow> ResourceKind option" where
  "parse_resource_kind = parse_enum ResourceKind_values ResourceKind_to_string"

record CapacityLedger =
  cl_nominal :: u64
  cl_offline :: u64
  cl_allocated :: u64
  cl_reserved :: u64
  cl_draining :: u64
  cl_unusable :: u64
  cl_idle :: u64

definition CapacityLedger_init :: CapacityLedger where
  "CapacityLedger_init =
     \<lparr>cl_nominal = 0, cl_offline = 0, cl_allocated = 0, cl_reserved = 0, cl_draining = 0,
      cl_unusable = 0, cl_idle = 0\<rparr>"

definition from_components :: "u64 \<Rightarrow> u64 \<Rightarrow> u64 \<Rightarrow> u64 \<Rightarrow> u64 \<Rightarrow> u64 \<Rightarrow> CapacityLedger result" where
  "from_components nominal offline allocated reserved draining unusable =
     (case checked_sum [offline] of
        None \<Rightarrow> Inl (Error CapacityInconsistent ''capacity accounting overflowed'' [])
      | Some start \<Rightarrow>
          (case checked_sum_from start [allocated, reserved, draining, unusable] of
             None \<Rightarrow> Inl (Error CapacityInconsistent ''capacity accounting overflowed'' [])
           | Some committed_total \<Rightarrow>
               (case checked_sub nominal committed_total of
                  None \<Rightarrow> Inl (Error CapacityInconsistent
                    ''capacity components exceed nominal capacity''
                    (''nominal='' @ to_string_u64 nominal @ '' components='' @
                     to_string_u64 committed_total))
                | Some idle \<Rightarrow>
                    Inr \<lparr>cl_nominal = nominal, cl_offline = offline, cl_allocated = allocated,
                         cl_reserved = reserved, cl_draining = draining, cl_unusable = unusable,
                         cl_idle = idle\<rparr>)))"

definition ledger_online :: "CapacityLedger \<Rightarrow> u64" where
  "ledger_online l =
     (case checked_sub (cl_nominal l) (cl_offline l) of Some v \<Rightarrow> v | None \<Rightarrow> 0)"

definition ledger_committed :: "CapacityLedger \<Rightarrow> u64" where
  "ledger_committed l =
     (case checked_add (cl_allocated l) (cl_reserved l) of
        None \<Rightarrow> UINT64_MAX
      | Some t \<Rightarrow> (case checked_add t (cl_draining l) of None \<Rightarrow> UINT64_MAX | Some t' \<Rightarrow> t'))"

definition CapacityLedger_validate :: "CapacityLedger \<Rightarrow> Status" where
  "CapacityLedger_validate l =
     (case from_components (cl_nominal l) (cl_offline l) (cl_allocated l) (cl_reserved l)
             (cl_draining l) (cl_unusable l) of
        Inl e \<Rightarrow> Failure e
      | Inr rebuilt \<Rightarrow>
          if cl_idle rebuilt \<noteq> cl_idle l then
            fail CapacityInconsistent ''capacity ledger does not close''
              (''idle='' @ to_string_u64 (cl_idle l) @ '' expected='' @ to_string_u64 (cl_idle rebuilt))
          else Success)"

section \<open>Pools\<close>

record CapacityPool =
  cp_pool_id :: ResourcePoolId
  cp_kind :: ResourceKind
  cp_accelerator_class :: AcceleratorClassId
  cp_custom_name :: string
  cp_ledger :: CapacityLedger
  cp_generation :: CapacityGeneration
  cp_precision :: Precision
  cp_evidence_class :: EvidenceClass
  cp_evidence :: EvidenceList

definition CapacityPool_init :: CapacityPool where
  "CapacityPool_init =
     \<lparr>cp_pool_id = no_id, cp_kind = ResourceKind_Accelerator, cp_accelerator_class = no_id,
      cp_custom_name = [], cp_ledger = CapacityLedger_init, cp_generation = gen_unset,
      cp_precision = Precision_Unknown, cp_evidence_class = EvidenceClass_Unknown,
      cp_evidence = no_evidence\<rparr>"

text \<open>\<open>operator==\<close> of pools: the evidence is not compared.\<close>

definition CapacityPool_eq :: "CapacityPool \<Rightarrow> CapacityPool \<Rightarrow> bool" where
  "CapacityPool_eq a b =
     (cp_pool_id a = cp_pool_id b \<and> cp_kind a = cp_kind b \<and>
      cp_accelerator_class a = cp_accelerator_class b \<and> cp_custom_name a = cp_custom_name b \<and>
      cp_ledger a = cp_ledger b \<and> cp_generation a = cp_generation b \<and>
      cp_precision a = cp_precision b \<and> cp_evidence_class a = cp_evidence_class b)"

definition CapacityPool_less :: "CapacityPool \<Rightarrow> CapacityPool \<Rightarrow> bool" where
  "CapacityPool_less a b =
     (if cp_pool_id a \<noteq> cp_pool_id b then cp_pool_id a < cp_pool_id b
      else if cp_kind a \<noteq> cp_kind b then enum_lt ResourceKind_values (cp_kind a) (cp_kind b)
      else cp_accelerator_class a < cp_accelerator_class b)"

section \<open>Stranding reasons\<close>

datatype StrandingReason =
    StrandingReason_None
  | StrandingReason_UnsupportedAcceleratorCapability
  | StrandingReason_UnsupportedPrecision
  | StrandingReason_MissingOffloadCapability
  | StrandingReason_MissingInterconnectFeature
  | StrandingReason_RuntimeMismatch
  | StrandingReason_DriverMismatch
  | StrandingReason_AbiMismatch
  | StrandingReason_ArtifactIncompatibility
  | StrandingReason_MissingCompilerTarget
  | StrandingReason_PartitionGeometry
  | StrandingReason_TopologyConstraint
  | StrandingReason_IsolationRequirement
  | StrandingReason_MissingLocalStorageState
  | StrandingReason_MemoryInsufficient
  | StrandingReason_SiteRestriction
  | StrandingReason_PolicyRestriction
  | StrandingReason_Unknown

definition StrandingReason_values :: "StrandingReason list" where
  "StrandingReason_values =
     [StrandingReason_None, StrandingReason_UnsupportedAcceleratorCapability,
      StrandingReason_UnsupportedPrecision, StrandingReason_MissingOffloadCapability,
      StrandingReason_MissingInterconnectFeature, StrandingReason_RuntimeMismatch,
      StrandingReason_DriverMismatch, StrandingReason_AbiMismatch,
      StrandingReason_ArtifactIncompatibility, StrandingReason_MissingCompilerTarget,
      StrandingReason_PartitionGeometry, StrandingReason_TopologyConstraint,
      StrandingReason_IsolationRequirement, StrandingReason_MissingLocalStorageState,
      StrandingReason_MemoryInsufficient, StrandingReason_SiteRestriction,
      StrandingReason_PolicyRestriction, StrandingReason_Unknown]"

fun StrandingReason_to_string :: "StrandingReason \<Rightarrow> string" where
  "StrandingReason_to_string StrandingReason_None = ''NONE''"
| "StrandingReason_to_string StrandingReason_UnsupportedAcceleratorCapability = ''UNSUPPORTED_ACCELERATOR_CAPABILITY''"
| "StrandingReason_to_string StrandingReason_UnsupportedPrecision = ''UNSUPPORTED_PRECISION''"
| "StrandingReason_to_string StrandingReason_MissingOffloadCapability = ''MISSING_OFFLOAD_CAPABILITY''"
| "StrandingReason_to_string StrandingReason_MissingInterconnectFeature = ''MISSING_INTERCONNECT_FEATURE''"
| "StrandingReason_to_string StrandingReason_RuntimeMismatch = ''RUNTIME_MISMATCH''"
| "StrandingReason_to_string StrandingReason_DriverMismatch = ''DRIVER_MISMATCH''"
| "StrandingReason_to_string StrandingReason_AbiMismatch = ''ABI_MISMATCH''"
| "StrandingReason_to_string StrandingReason_ArtifactIncompatibility = ''ARTIFACT_INCOMPATIBILITY''"
| "StrandingReason_to_string StrandingReason_MissingCompilerTarget = ''MISSING_COMPILER_TARGET''"
| "StrandingReason_to_string StrandingReason_PartitionGeometry = ''PARTITION_GEOMETRY''"
| "StrandingReason_to_string StrandingReason_TopologyConstraint = ''TOPOLOGY_CONSTRAINT''"
| "StrandingReason_to_string StrandingReason_IsolationRequirement = ''ISOLATION_REQUIREMENT''"
| "StrandingReason_to_string StrandingReason_MissingLocalStorageState = ''MISSING_LOCAL_STORAGE_STATE''"
| "StrandingReason_to_string StrandingReason_MemoryInsufficient = ''MEMORY_INSUFFICIENT''"
| "StrandingReason_to_string StrandingReason_SiteRestriction = ''SITE_RESTRICTION''"
| "StrandingReason_to_string StrandingReason_PolicyRestriction = ''POLICY_RESTRICTION''"
| "StrandingReason_to_string StrandingReason_Unknown = ''UNKNOWN''"

interpretation stranding_reason_enum: named_enumeration StrandingReason_values StrandingReason_to_string
proof unfold_locales
  show "v \<in> set StrandingReason_values" for v by (cases v) (simp_all add: StrandingReason_values_def)
qed (simp_all add: StrandingReason_values_def)

definition kStrandingReasonCount :: nat where
  "kStrandingReasonCount = 18"

definition parse_stranding_reason :: "string \<Rightarrow> StrandingReason option" where
  "parse_stranding_reason = parse_enum StrandingReason_values StrandingReason_to_string"

fun stranding_reason_precedence :: "StrandingReason \<Rightarrow> nat" where
  "stranding_reason_precedence StrandingReason_Unknown = 0"
| "stranding_reason_precedence StrandingReason_UnsupportedAcceleratorCapability = 1"
| "stranding_reason_precedence StrandingReason_UnsupportedPrecision = 2"
| "stranding_reason_precedence StrandingReason_MissingOffloadCapability = 3"
| "stranding_reason_precedence StrandingReason_MissingInterconnectFeature = 4"
| "stranding_reason_precedence StrandingReason_RuntimeMismatch = 5"
| "stranding_reason_precedence StrandingReason_DriverMismatch = 6"
| "stranding_reason_precedence StrandingReason_AbiMismatch = 7"
| "stranding_reason_precedence StrandingReason_ArtifactIncompatibility = 8"
| "stranding_reason_precedence StrandingReason_MissingCompilerTarget = 9"
| "stranding_reason_precedence StrandingReason_PartitionGeometry = 10"
| "stranding_reason_precedence StrandingReason_TopologyConstraint = 11"
| "stranding_reason_precedence StrandingReason_IsolationRequirement = 12"
| "stranding_reason_precedence StrandingReason_MissingLocalStorageState = 13"
| "stranding_reason_precedence StrandingReason_MemoryInsufficient = 14"
| "stranding_reason_precedence StrandingReason_SiteRestriction = 15"
| "stranding_reason_precedence StrandingReason_PolicyRestriction = 16"
| "stranding_reason_precedence StrandingReason_None = 17"

definition is_technical_reason :: "StrandingReason \<Rightarrow> bool" where
  "is_technical_reason reason =
     (reason \<notin> {StrandingReason_SiteRestriction, StrandingReason_PolicyRestriction,
                 StrandingReason_None, StrandingReason_Unknown})"

section \<open>Reason tallies\<close>

record ReasonTally =
  amounts :: "u64 list"

definition ReasonTally_init :: ReasonTally where
  "ReasonTally_init = \<lparr>amounts = replicate kStrandingReasonCount 0\<rparr>"

abbreviation reason_index :: "StrandingReason \<Rightarrow> nat" where
  "reason_index \<equiv> enum_index StrandingReason_values"

definition tally_add :: "StrandingReason \<Rightarrow> u64 \<Rightarrow> ReasonTally \<Rightarrow> Status \<times> ReasonTally" where
  "tally_add reason amount t =
     (let index = reason_index reason
      in if index \<ge> kStrandingReasonCount then
           (fail InvalidArgument ''stranding reason out of range'' [], t)
         else (case checked_add (amounts t ! index) amount of
                 None \<Rightarrow> (fail CapacityInconsistent ''reason tally overflowed''
                            (StrandingReason_to_string reason), t)
               | Some updated \<Rightarrow> (Success, t\<lparr>amounts := (amounts t)[index := updated]\<rparr>)))"

definition tally_get :: "ReasonTally \<Rightarrow> StrandingReason \<Rightarrow> u64" where
  "tally_get t reason =
     (if reason_index reason < kStrandingReasonCount then amounts t ! reason_index reason else 0)"

definition tally_total :: "ReasonTally \<Rightarrow> u64" where
  "tally_total t = (case checked_sum (amounts t) of Some v \<Rightarrow> v | None \<Rightarrow> UINT64_MAX)"

definition tally_empty :: "ReasonTally \<Rightarrow> bool" where
  "tally_empty t = (tally_total t = 0)"

definition tally_non_zero :: "ReasonTally \<Rightarrow> (StrandingReason \<times> u64) list" where
  "tally_non_zero t =
     stable_sort
       (\<lambda>a b. stranding_reason_precedence (fst a) < stranding_reason_precedence (fst b))
       (filter (\<lambda>p. snd p \<noteq> 0) (zip StrandingReason_values (amounts t)))"

section \<open>The partition of idle capacity\<close>

record EligibilityBreakdown =
  eb_idle :: u64
  eb_usable :: u64
  eb_unknown :: u64
  eb_stranded_by_primary_reason :: ReasonTally
  eb_reason_occurrences :: ReasonTally

definition EligibilityBreakdown_init :: EligibilityBreakdown where
  "EligibilityBreakdown_init =
     \<lparr>eb_idle = 0, eb_usable = 0, eb_unknown = 0, eb_stranded_by_primary_reason = ReasonTally_init,
      eb_reason_occurrences = ReasonTally_init\<rparr>"

definition eb_stranded :: "EligibilityBreakdown \<Rightarrow> u64" where
  "eb_stranded b =
     (case checked_sub (eb_idle b) (eb_usable b) of
        None \<Rightarrow> 0
      | Some rest \<Rightarrow> (case checked_sub rest (eb_unknown b) of Some v \<Rightarrow> v | None \<Rightarrow> 0))"

definition eb_closes :: "EligibilityBreakdown \<Rightarrow> bool" where
  "eb_closes b =
     (case checked_add (eb_usable b) (eb_unknown b) of
        None \<Rightarrow> False
      | Some t \<Rightarrow> (case checked_add t (tally_total (eb_stranded_by_primary_reason b)) of
                    None \<Rightarrow> False
                  | Some expected \<Rightarrow> expected = eb_idle b))"

definition EligibilityBreakdown_validate :: "EligibilityBreakdown \<Rightarrow> Status" where
  "EligibilityBreakdown_validate b =
     (case checked_add (eb_usable b) (eb_unknown b) of
        None \<Rightarrow> fail CapacityInconsistent ''eligibility breakdown overflowed'' []
      | Some t \<Rightarrow> (case checked_add t (tally_total (eb_stranded_by_primary_reason b)) of
                    None \<Rightarrow> fail CapacityInconsistent ''eligibility breakdown overflowed'' []
                  | Some expected \<Rightarrow>
                      if expected \<noteq> eb_idle b then
                        fail CapacityInconsistent ''eligibility breakdown does not close''
                          (''idle='' @ to_string_u64 (eb_idle b) @ '' accounted='' @ to_string_u64 expected)
                      else Success))"

definition stranded_percent_of_idle :: "EligibilityBreakdown \<Rightarrow> string" where
  "stranded_percent_of_idle b = percent_string (eb_stranded b) (eb_idle b)"

text \<open>An amount that would overflow is left as it is.\<close>

definition merge_amount :: "u64 \<Rightarrow> u64 \<Rightarrow> u64" where
  "merge_amount a b = (case checked_add a b of Some v \<Rightarrow> v | None \<Rightarrow> a)"

definition merge_reason :: "ReasonTally \<Rightarrow> ReasonTally \<Rightarrow> StrandingReason \<Rightarrow> ReasonTally" where
  "merge_reason other t reason =
     (let a = tally_get t reason; b = tally_get other reason
      in case checked_add a b of
           None \<Rightarrow> t
         | Some v \<Rightarrow> snd (tally_add reason (v - a) t))"

definition eb_merge :: "EligibilityBreakdown \<Rightarrow> EligibilityBreakdown \<Rightarrow> EligibilityBreakdown" where
  "eb_merge other b =
     foldl (\<lambda>acc reason. acc
         \<lparr>eb_stranded_by_primary_reason :=
            merge_reason (eb_stranded_by_primary_reason other) (eb_stranded_by_primary_reason acc) reason,
          eb_reason_occurrences :=
            merge_reason (eb_reason_occurrences other) (eb_reason_occurrences acc) reason\<rparr>)
       (b\<lparr>eb_idle := merge_amount (eb_idle b) (eb_idle other),
         eb_usable := merge_amount (eb_usable b) (eb_usable other),
         eb_unknown := merge_amount (eb_unknown b) (eb_unknown other)\<rparr>)
       StrandingReason_values"

record CapacitySummary =
  cs_nominal :: u64
  cs_offline :: u64
  cs_allocated :: u64
  cs_reserved :: u64
  cs_draining :: u64
  cs_unusable :: u64
  cs_idle :: u64
  cs_usable :: u64
  cs_stranded :: u64
  cs_unknown :: u64

section \<open>The order of pools\<close>

interpretation pool_order: comparator CapacityPool_less
  by (rule comparator_key [where key = "\<lambda>p. (cp_pool_id p, enum_index ResourceKind_values (cp_kind p),
        cp_accelerator_class p)"])
     (auto simp: CapacityPool_less_def enum_lt_def resource_kind_enum.enum_index_inject less_le)

section \<open>The ledger closes\<close>

definition ledger_closes :: "CapacityLedger \<Rightarrow> bool" where
  "ledger_closes l \<longleftrightarrow>
     unat (cl_nominal l) = unat (cl_offline l) + unat (cl_allocated l) + unat (cl_reserved l) +
       unat (cl_draining l) + unat (cl_unusable l) + unat (cl_idle l)"

lemma from_components_Inr:
  "from_components n off al re dr un = Inr l \<longleftrightarrow>
     ledger_closes l \<and> cl_nominal l = n \<and> cl_offline l = off \<and> cl_allocated l = al \<and>
     cl_reserved l = re \<and> cl_draining l = dr \<and> cl_unusable l = un"
proof -
  define c where "c = unat off + unat al + unat re + unat dr + unat un"
  have sum: "checked_sum_from off [al, re, dr, un] =
      (if c < 18446744073709551616 then Some (of_nat c) else None)"
    using checked_sum_from_correct [of off "[al, re, dr, un]"]
    by (simp only: c_def Let_def list.map sum_list.Cons sum_list.Nil add.assoc add_0_right)
  have fits: "ledger_closes l \<Longrightarrow> cl_nominal l = n \<Longrightarrow> cl_offline l = off \<Longrightarrow> cl_allocated l = al \<Longrightarrow>
     cl_reserved l = re \<Longrightarrow> cl_draining l = dr \<Longrightarrow> cl_unusable l = un \<Longrightarrow>
     c \<le> unat n \<and> unat (cl_idle l) = unat n - c"
    by (simp add: ledger_closes_def c_def)
  have idle: "c \<le> unat n \<Longrightarrow> unat (n - of_nat c) = unat n - c" 
    using le_less_trans [OF _ unat_u64_less [of n], of c]
    by (simp add: u64_sub_no_wrap word_le_nat_alt unat_of_nat)
  show ?thesis
  proof (cases "c \<le> unat n")
    case True
    then have lt: "c < 18446744073709551616" using unat_u64_less [of n] by linarith
    then have "checked_sub n (of_nat c) = Some (n - of_nat c)"
      using True by (simp add: checked_sub_iff unat_of_nat)
    then have "from_components n off al re dr un =
        Inr \<lparr>cl_nominal = n, cl_offline = off, cl_allocated = al, cl_reserved = re, cl_draining = dr,
             cl_unusable = un, cl_idle = n - of_nat c\<rparr>"
      using sum lt by (simp add: from_components_def checked_sum_single)
    then show ?thesis
      using fits True idle [OF True] by (auto simp: ledger_closes_def u64_eq_iff c_def intro: CapacityLedger.equality)
  next
    case False
    then have "\<exists>e. from_components n off al re dr un = Inl e"
      using sum by (auto simp: from_components_def checked_sum_single checked_sub_iff unat_of_nat
          split: option.splits)
    moreover have "\<not> (ledger_closes l \<and> cl_nominal l = n \<and> cl_offline l = off \<and> cl_allocated l = al \<and>
     cl_reserved l = re \<and> cl_draining l = dr \<and> cl_unusable l = un)"
      using fits False by blast
    ultimately show ?thesis by auto
  qed
qed

lemma from_components_code: "from_components n off al re dr un = Inl e \<Longrightarrow> error_code e = CapacityInconsistent"
  by (auto simp: from_components_def split: option.splits)

lemma CapacityLedger_validate_code:
  "CapacityLedger_validate l = Failure e \<Longrightarrow> error_code e = CapacityInconsistent"
  by (auto simp: CapacityLedger_validate_def fail_def split: sum.splits if_splits dest: from_components_code)

lemma CapacityLedger_validate_iff: "CapacityLedger_validate l = Success \<longleftrightarrow> ledger_closes l"
proof
  assume "CapacityLedger_validate l = Success"
  then obtain r where r: "from_components (cl_nominal l) (cl_offline l) (cl_allocated l) (cl_reserved l)
             (cl_draining l) (cl_unusable l) = Inr r" and "cl_idle r = cl_idle l"
    by (auto simp: CapacityLedger_validate_def split: sum.splits if_splits)
  then show "ledger_closes l" by (auto simp: from_components_Inr ledger_closes_def)
next
  assume "ledger_closes l"
  then show "CapacityLedger_validate l = Success"
    using from_components_Inr [of "cl_nominal l" "cl_offline l" "cl_allocated l" "cl_reserved l"
             "cl_draining l" "cl_unusable l" l] by (simp add: CapacityLedger_validate_def)
qed

text \<open>
  \<open>CapacityLedger::validate\<close> accepts exactly the ledgers whose seven buckets close over the
  natural numbers: no wrapped sum ever passes, and no closing ledger is refused.
\<close>

lemma ledger_validate_exact:
  "CapacityLedger_validate l = Success \<longleftrightarrow>
     unat (cl_nominal l) = unat (cl_offline l) + unat (cl_allocated l) + unat (cl_reserved l) +
       unat (cl_draining l) + unat (cl_unusable l) + unat (cl_idle l)"
  by (simp add: CapacityLedger_validate_iff ledger_closes_def)

text \<open>
  On a valid ledger \<open>online\<close> and \<open>committed\<close> are exact (nothing saturates):
  nominal splits into offline and online, and online into committed, unusable and idle.
\<close>

lemma ledger_accounting_identity:
  assumes "CapacityLedger_validate l = Success"
  shows "unat (cl_nominal l) = unat (cl_offline l) + unat (ledger_online l) \<and>
     unat (ledger_online l) = unat (ledger_committed l) + unat (cl_unusable l) + unat (cl_idle l)"
proof -
  have c: "ledger_closes l" using assms by (simp add: CapacityLedger_validate_iff)
  have n: "unat (cl_nominal l) < 18446744073709551616" by simp
  have on: "unat (ledger_online l) = unat (cl_nominal l) - unat (cl_offline l)"
    using c by (simp add: ledger_online_def checked_sub_def ledger_closes_def u64_sub_no_wrap
        word_le_nat_alt word_less_nat_alt)
  have t: "checked_add (cl_allocated l) (cl_reserved l) = Some (cl_allocated l + cl_reserved l)"
    "unat (cl_allocated l + cl_reserved l) = unat (cl_allocated l) + unat (cl_reserved l)"
    using c n by (simp_all add: checked_add_exact u64_add_no_wrap ledger_closes_def)
  have "unat (ledger_committed l) = unat (cl_allocated l) + unat (cl_reserved l) + unat (cl_draining l)"
    using c n t by (simp add: ledger_committed_def checked_add_exact u64_add_no_wrap ledger_closes_def)
  with c on show ?thesis by (simp add: ledger_closes_def)
qed

section \<open>Tallies\<close>

definition tally_ok :: "ReasonTally \<Rightarrow> bool" where
  "tally_ok t \<longleftrightarrow> length (amounts t) = kStrandingReasonCount"

definition tally_sum :: "ReasonTally \<Rightarrow> nat" where
  "tally_sum t = sum_list (map unat (amounts t))"

lemma reason_index_less: "reason_index r < kStrandingReasonCount"
  by (cases r) (simp_all add: StrandingReason_values_def kStrandingReasonCount_def)

lemma tally_get_nth: "tally_get t r = amounts t ! reason_index r"
  by (simp add: tally_get_def reason_index_less)

lemma tally_ok_init: "tally_ok ReasonTally_init"
  by (simp add: tally_ok_def ReasonTally_init_def)

lemma tally_add_ok: "tally_ok t \<Longrightarrow> tally_ok (snd (tally_add r n t))"
  by (auto simp: tally_add_def tally_ok_def Let_def split: option.splits)

lemma sum_list_update_nat:
  "i < length xs \<Longrightarrow> sum_list (map unat (xs[i := v])) + unat (xs ! i) = sum_list (map unat xs) + unat (v :: u64)"
  by (induction xs arbitrary: i) (auto split: nat.splits)

lemma tally_add_Success:
  assumes "fst (tally_add r n t) = Success"
  obtains v where "unat v = unat (amounts t ! reason_index r) + unat n"
    and "snd (tally_add r n t) = t\<lparr>amounts := (amounts t)[reason_index r := v]\<rparr>"
  using assms reason_index_less [of r]
  by (auto simp: tally_add_def Let_def split: option.splits dest: checked_add_unat)

lemma tally_add_get:
  assumes "tally_ok t" and "fst (tally_add r n t) = Success"
  shows "unat (tally_get (snd (tally_add r n t)) s) =
     unat (tally_get t s) + (if s = r then unat n else 0)"
proof -
  obtain v where "unat v = unat (amounts t ! reason_index r) + unat n"
    and "snd (tally_add r n t) = t\<lparr>amounts := (amounts t)[reason_index r := v]\<rparr>"
    using tally_add_Success [OF assms(2)] .
  moreover have "reason_index r < length (amounts t)"
    using assms(1) reason_index_less by (simp add: tally_ok_def)
  ultimately show ?thesis
    by (simp add: tally_get_nth nth_list_update stranding_reason_enum.enum_index_inject)
qed

lemma tally_add_sum:
  assumes "tally_ok t" and "fst (tally_add r n t) = Success"
  shows "tally_sum (snd (tally_add r n t)) = tally_sum t + unat n"
proof -
  obtain v where v: "unat v = unat (amounts t ! reason_index r) + unat n"
    and t: "snd (tally_add r n t) = t\<lparr>amounts := (amounts t)[reason_index r := v]\<rparr>"
    using tally_add_Success [OF assms(2)] .
  have "reason_index r < length (amounts t)"
    using assms(1) reason_index_less by (simp add: tally_ok_def)
  from sum_list_update_nat [OF this, of v] v show ?thesis
    by (simp add: t tally_sum_def)
qed

lemma tally_total_exact: "unat (tally_total t) = min 18446744073709551615 (tally_sum t)"
  by (auto simp: tally_total_def tally_sum_def checked_sum_correct unat_of_nat min_def)

section \<open>The partition of idle capacity\<close>

lemma eb_validate_closes: "EligibilityBreakdown_validate b = Success \<longleftrightarrow> eb_closes b"
  by (simp add: EligibilityBreakdown_validate_def eb_closes_def split: option.splits)

lemma eb_closes_iff:
  "eb_closes b \<longleftrightarrow>
     unat (eb_idle b) = unat (eb_usable b) + unat (eb_unknown b) + unat (tally_total (eb_stranded_by_primary_reason b))"
proof -
  obtain i where i: "unat (eb_idle b) = i" "i < 18446744073709551616" using unat_u64_less by blast
  show ?thesis using i(2)
    by (auto simp: eb_closes_def checked_add_iff checked_add_None u64_eq_iff u64_add_no_wrap i(1)
        split: option.splits dest: checked_add_unat)
qed

lemma eb_stranded_exact:
  "eb_closes b \<Longrightarrow> unat (eb_stranded b) = unat (tally_total (eb_stranded_by_primary_reason b))"
proof -
  assume c: "eb_closes b"
  then have "checked_sub (eb_idle b) (eb_usable b) = Some (eb_idle b - eb_usable b)"
    and r: "unat (eb_idle b - eb_usable b) = unat (eb_idle b) - unat (eb_usable b)"
    by (simp_all add: checked_sub_iff eb_closes_iff u64_sub_no_wrap word_le_nat_alt)
  moreover have "unat (eb_unknown b) \<le> unat (eb_idle b - eb_usable b)"
    using c r by (simp add: eb_closes_iff)
  ultimately show ?thesis
    using c r by (simp add: eb_stranded_def checked_sub_def eb_closes_iff u64_sub_no_wrap
        word_le_nat_alt word_less_nat_alt)
qed

lemma eb_closes_sum:
  assumes "eb_closes b" and "unat (eb_idle b) < 18446744073709551615"
  shows "unat (tally_total (eb_stranded_by_primary_reason b)) = tally_sum (eb_stranded_by_primary_reason b)"
  using assms by (simp add: eb_closes_iff tally_total_exact min_def split: if_splits)

section \<open>Merging partitions\<close>

lemma unat_merge_amount:
  "unat a + unat b < 18446744073709551616 \<Longrightarrow> unat (merge_amount a b) = unat a + unat b"
  by (simp add: merge_amount_def checked_add_exact u64_add_no_wrap)

lemma merge_reason_update:
  "tally_ok t \<Longrightarrow> merge_reason other t r =
     t\<lparr>amounts := (amounts t)[reason_index r :=
         merge_amount (amounts t ! reason_index r) (amounts other ! reason_index r)]\<rparr>"
proof (cases "checked_add (amounts t ! reason_index r) (amounts other ! reason_index r)")
  case None
  then show ?thesis by (simp add: merge_reason_def Let_def tally_get_nth merge_amount_def)
next
  case (Some v)
  then have "v - amounts t ! reason_index r = amounts other ! reason_index r"
    by (simp add: checked_add_iff)
  with Some show ?thesis
    using reason_index_less [of r]
    by (simp add: merge_reason_def Let_def tally_get_nth merge_amount_def tally_add_def)
qed

lemma merge_reason_ok: "tally_ok t \<Longrightarrow> tally_ok (merge_reason other t r)"
  by (simp add: merge_reason_update) (simp add: tally_ok_def)

definition merge_tally :: "ReasonTally \<Rightarrow> ReasonTally \<Rightarrow> StrandingReason list \<Rightarrow> ReasonTally" where
  "merge_tally other t rs = foldl (merge_reason other) t rs"

lemma merge_tally_nth:
  "tally_ok t \<Longrightarrow> distinct rs \<Longrightarrow> i < kStrandingReasonCount \<Longrightarrow>
     tally_ok (merge_tally other t rs) \<and>
     amounts (merge_tally other t rs) ! i =
       (if i \<in> reason_index ` set rs then merge_amount (amounts t ! i) (amounts other ! i) else amounts t ! i)"
proof (induction rs arbitrary: t)
  case (Cons r rs)
  have ok: "tally_ok (merge_reason other t r)" using Cons.prems by (simp add: merge_reason_ok)
  have len: "reason_index r < length (amounts t)"
    using Cons.prems reason_index_less by (simp add: tally_ok_def)
  have "reason_index r \<notin> reason_index ` set rs"
    using Cons.prems by (auto simp: stranding_reason_enum.enum_index_inject)
  with Cons.IH [OF ok] Cons.prems len show ?case
    by (auto simp: merge_tally_def merge_reason_update nth_list_update)
qed (simp add: merge_tally_def)

lemma eb_merge_fields:
  "eb_idle (eb_merge other b) = merge_amount (eb_idle b) (eb_idle other)"
  "eb_usable (eb_merge other b) = merge_amount (eb_usable b) (eb_usable other)"
  "eb_unknown (eb_merge other b) = merge_amount (eb_unknown b) (eb_unknown other)"
  "eb_stranded_by_primary_reason (eb_merge other b) =
     merge_tally (eb_stranded_by_primary_reason other) (eb_stranded_by_primary_reason b) StrandingReason_values"
  "eb_reason_occurrences (eb_merge other b) =
     merge_tally (eb_reason_occurrences other) (eb_reason_occurrences b) StrandingReason_values"
proof -
  define f where "f = (\<lambda>(acc :: EligibilityBreakdown) reason. acc
         \<lparr>eb_stranded_by_primary_reason :=
            merge_reason (eb_stranded_by_primary_reason other) (eb_stranded_by_primary_reason acc) reason,
          eb_reason_occurrences :=
            merge_reason (eb_reason_occurrences other) (eb_reason_occurrences acc) reason\<rparr>)"
  have "foldl f c rs =
      c\<lparr>eb_stranded_by_primary_reason := merge_tally (eb_stranded_by_primary_reason other) (eb_stranded_by_primary_reason c) rs,
        eb_reason_occurrences := merge_tally (eb_reason_occurrences other) (eb_reason_occurrences c) rs\<rparr>" for c rs
    by (induction rs arbitrary: c) (simp_all add: merge_tally_def f_def)
  then show "eb_idle (eb_merge other b) = merge_amount (eb_idle b) (eb_idle other)"
  "eb_usable (eb_merge other b) = merge_amount (eb_usable b) (eb_usable other)"
  "eb_unknown (eb_merge other b) = merge_amount (eb_unknown b) (eb_unknown other)"
  "eb_stranded_by_primary_reason (eb_merge other b) =
     merge_tally (eb_stranded_by_primary_reason other) (eb_stranded_by_primary_reason b) StrandingReason_values"
  "eb_reason_occurrences (eb_merge other b) =
     merge_tally (eb_reason_occurrences other) (eb_reason_occurrences b) StrandingReason_values"
    by (simp_all add: eb_merge_def f_def)
qed

lemma merge_tally_amounts:
  assumes "tally_ok t" and "tally_ok other"
  shows "amounts (merge_tally other t StrandingReason_values) = map2 merge_amount (amounts t) (amounts other)"
proof (rule nth_equalityI)
  have all: "i < kStrandingReasonCount \<Longrightarrow> i \<in> reason_index ` set StrandingReason_values" for i
  proof -
    assume "i < kStrandingReasonCount"
    then have "i \<in> set [0..<18]" by (simp add: kStrandingReasonCount_def)
    also have "[0..<18] = map reason_index StrandingReason_values" by (simp add: StrandingReason_values_def upt_conv_Cons)
    finally show ?thesis by (simp only: set_map)
  qed
  have d: "distinct StrandingReason_values" by (simp add: StrandingReason_values_def)
  note m = merge_tally_nth [OF assms(1) d]
  have ok: "tally_ok (merge_tally other t StrandingReason_values)"
    using m [of 0] by (simp add: kStrandingReasonCount_def)
  then show "length (amounts (merge_tally other t StrandingReason_values)) = length (map2 merge_amount (amounts t) (amounts other))"
    using assms by (simp add: tally_ok_def)
  fix i assume "i < length (amounts (merge_tally other t StrandingReason_values))"
  then have i: "i < kStrandingReasonCount" using ok by (simp add: tally_ok_def)
  then show "amounts (merge_tally other t StrandingReason_values) ! i = map2 merge_amount (amounts t) (amounts other) ! i"
    using m [OF i] all [OF i] assms by (simp add: tally_ok_def)
qed

lemma merge_amount_list_sum:
  "length xs = length ys \<Longrightarrow> sum_list (map unat xs) + sum_list (map unat ys) < 18446744073709551616 \<Longrightarrow>
     sum_list (map unat (map2 merge_amount xs ys)) = sum_list (map unat xs) + sum_list (map unat ys)"
  by (induction xs ys rule: list_induct2) (simp_all add: unat_merge_amount)

lemma merge_tally_sum:
  assumes "tally_ok t" and "tally_ok other" and "tally_sum t + tally_sum other < 18446744073709551616"
  shows "tally_sum (merge_tally other t StrandingReason_values) = tally_sum t + tally_sum other"
  using assms merge_amount_list_sum [of "amounts t" "amounts other"]
  by (simp add: tally_sum_def merge_tally_amounts tally_ok_def)

text \<open>
  Merging two partitions of idle capacity that close gives a partition that closes over the
  sum, and the stranded amounts add up: no unit is lost or counted twice, as long as the summed idle
  capacity stays below the largest 64-bit value.
\<close>

lemma merge_keeps_partition:
  assumes "EligibilityBreakdown_validate a = Success" and "EligibilityBreakdown_validate b = Success"
    and "tally_ok (eb_stranded_by_primary_reason a)" and "tally_ok (eb_stranded_by_primary_reason b)"
    and fits: "unat (eb_idle a) + unat (eb_idle b) < 18446744073709551615"
  shows "EligibilityBreakdown_validate (eb_merge b a) = Success \<and>
     unat (eb_idle (eb_merge b a)) = unat (eb_idle a) + unat (eb_idle b) \<and>
     unat (eb_stranded (eb_merge b a)) = unat (eb_stranded a) + unat (eb_stranded b)"
proof -
  have c: "eb_closes a" "eb_closes b" using assms by (simp_all add: eb_validate_closes)
  note s = eb_closes_sum [OF c(1)] eb_closes_sum [OF c(2)]
  note e = c [unfolded eb_closes_iff]
  have ms: "tally_sum (eb_stranded_by_primary_reason (eb_merge b a)) =
      tally_sum (eb_stranded_by_primary_reason a) + tally_sum (eb_stranded_by_primary_reason b)"
    using assms e s by (simp add: eb_merge_fields merge_tally_sum)
  then have total: "unat (tally_total (eb_stranded_by_primary_reason (eb_merge b a))) =
      tally_sum (eb_stranded_by_primary_reason a) + tally_sum (eb_stranded_by_primary_reason b)"
    using e s fits by (simp add: tally_total_exact min_def)
  have f: "unat (eb_idle (eb_merge b a)) = unat (eb_idle a) + unat (eb_idle b)"
    "unat (eb_usable (eb_merge b a)) = unat (eb_usable a) + unat (eb_usable b)"
    "unat (eb_unknown (eb_merge b a)) = unat (eb_unknown a) + unat (eb_unknown b)"
    using e fits by (simp_all add: eb_merge_fields unat_merge_amount)
  have m: "eb_closes (eb_merge b a)"
    using e s fits by (simp add: eb_closes_iff f total)
  with f total s fits e show ?thesis
    by (simp add: eb_validate_closes eb_stranded_exact [OF m] eb_stranded_exact [OF c(1)] eb_stranded_exact [OF c(2)])
qed

end
