(* ===== verification/FO_Capability.thy ===== *)
theory FO_Capability
  imports FO_Evidence
begin

text \<open>
  Typed capabilities (\<open>capability.hpp\<close>, \<open>capability.cpp\<close>): the key table, bounded capability values,
  the ordered set of published capabilities, requirements and their tri-state evaluation, and
  version strings.

  \<open>CapabilityKey\<close> is a scoped enumeration with a 16-bit underlying type, sparse codes and casts from
  raw codes, so it is a wrapped 16-bit code with one name per enumerator. A double is its IEEE-754 bit
  pattern with the comparison and the conversions the code uses spelled out (round to nearest even);
  plain \<open>char\<close> is signed.
\<close>

unbundle bit_operations_syntax

section \<open>Doubles\<close>

definition double_exponent :: "double \<Rightarrow> nat" where
  "double_exponent d = unat (drop_bit 52 d AND 0x7FF)"

definition double_fraction :: "double \<Rightarrow> nat" where
  "double_fraction d = unat (d AND 0xFFFFFFFFFFFFF)"

definition double_sign :: "double \<Rightarrow> bool" where
  "double_sign d = (drop_bit 63 d \<noteq> 0)"

definition double_is_nan :: "double \<Rightarrow> bool" where
  "double_is_nan d = (double_exponent d = 2047 \<and> double_fraction d \<noteq> 0)"

definition double_is_inf :: "double \<Rightarrow> bool" where
  "double_is_inf d = (double_exponent d = 2047 \<and> double_fraction d = 0)"

text \<open>The position of a number on the line of all doubles; both zeros are at 0.\<close>

definition double_place :: "double \<Rightarrow> int" where
  "double_place d =
     (let m = int (unat (d AND 0x7FFFFFFFFFFFFFFF)) in if double_sign d then - m else m)"

definition double_less :: "double \<Rightarrow> double \<Rightarrow> bool" where
  "double_less a b =
     (\<not> double_is_nan a \<and> \<not> double_is_nan b \<and> double_place a < double_place b)"

definition double_eq :: "double \<Rightarrow> double \<Rightarrow> bool" where
  "double_eq a b =
     (\<not> double_is_nan a \<and> \<not> double_is_nan b \<and> double_place a = double_place b)"

fun bit_length :: "nat \<Rightarrow> nat" where
  "bit_length n = (if n = 0 then 0 else Suc (bit_length (n div 2)))"

declare bit_length.simps [simp del]

text \<open>The upper bits of \<open>n\<close> above the lowest \<open>s\<close>, rounded to nearest, ties to even.\<close>

definition round_bits :: "nat \<Rightarrow> nat \<Rightarrow> nat" where
  "round_bits s n =
     (if s = 0 then n
      else let q = n div 2 ^ s; r = n mod 2 ^ s; half = 2 ^ (s - 1)
           in if r > half \<or> (r = half \<and> odd q) then q + 1 else q)"

definition double_of_nat :: "nat \<Rightarrow> double" where
  "double_of_nat n =
     (if n = 0 then 0
      else let k = bit_length n;
               m = (if k \<le> 53 then n * 2 ^ (53 - k) else round_bits (k - 53) n)
           in of_nat ((1021 + k) * 2 ^ 52 + m))"

definition double_of_int :: "int \<Rightarrow> double" where
  "double_of_int v =
     (if v < 0 then double_of_nat (nat (- v)) OR 0x8000000000000000 else double_of_nat (nat v))"

text \<open>
  A finite magnitude is \<open>m / 2 ^ 1074\<close>; a positive dyadic \<open>a / 2 ^ p\<close> is rounded to 53 bits by
  \<open>round53\<close>.
\<close>

definition double_scaled :: "double \<Rightarrow> nat" where
  "double_scaled d =
     (let e = double_exponent d; f = double_fraction d
      in if e = 0 then f else (2 ^ 52 + f) * 2 ^ (e - 1))"

definition round53 :: "nat \<times> nat \<Rightarrow> nat \<times> nat" where
  "round53 v =
     (let (a, p) = v; k = bit_length a
      in if k \<le> 53 then (a, p)
         else if k - 53 \<le> p then (round_bits (k - 53) a, p - (k - 53))
         else (round_bits (k - 53) a * 2 ^ (k - 53 - p), 0))"

text \<open>
  \<open>format_double\<close>. The cast of the integral part to 64 bits is defined only below \<open>2 ^ 64\<close>; the
  product by a million and the addition of one half are rounded to doubles.
\<close>

definition format_double :: "double \<Rightarrow> string" where
  "format_double value =
     (if double_is_nan value then ''nan''
      else if double_is_inf value then (if double_sign value then ''-inf'' else ''inf'')
      else
        let negative = (double_place value < 0);
            m = double_scaled value; unit = 2 ^ 1074; integral = m div unit
        in if m mod unit = 0 \<and> integral < 10 ^ 15 then
             (if negative then ''-'' else []) @ to_string_nat integral
           else
             let product = round53 ((m mod unit) * 1000000, 1074);
                 shifted = round53 (fst product * 2 + 2 ^ snd product, snd product + 1);
                 fraction = min 999999 (fst shifted div 2 ^ snd shifted);
                 frac = to_string_nat fraction
             in (if negative then ''-'' else []) @ to_string_u64 (of_nat integral) @ ''.'' @
                replicate (6 - length frac) (CHR ''0'') @ frac)"

section \<open>Categories and keys\<close>

datatype CapabilityCategory =
    CapabilityCategory_AcceleratorArchitecture
  | CapabilityCategory_PrecisionSupport
  | CapabilityCategory_MemorySize
  | CapabilityCategory_MemoryBandwidthClass
  | CapabilityCategory_Interconnect
  | CapabilityCategory_PartitionSupport
  | CapabilityCategory_RuntimeApi
  | CapabilityCategory_DriverApi
  | CapabilityCategory_CompilerTarget
  | CapabilityCategory_KernelFormat
  | CapabilityCategory_CollectiveSupport
  | CapabilityCategory_RdmaCapability
  | CapabilityCategory_GpuDirectCapability
  | CapabilityCategory_CxlCapability
  | CapabilityCategory_DpuSmartNicCapability
  | CapabilityCategory_ArtifactFormat
  | CapabilityCategory_QuantizationSupport
  | CapabilityCategory_SparseExecutionSupport
  | CapabilityCategory_FirmwareGeneration
  | CapabilityCategory_ContainerRuntime
  | CapabilityCategory_OperatingSystem
  | CapabilityCategory_SecurityIsolation
  | CapabilityCategory_OffloadCapability
  | CapabilityCategory_Custom

definition CapabilityCategory_values :: "CapabilityCategory list" where
  "CapabilityCategory_values =
     [CapabilityCategory_AcceleratorArchitecture, CapabilityCategory_PrecisionSupport,
      CapabilityCategory_MemorySize, CapabilityCategory_MemoryBandwidthClass,
      CapabilityCategory_Interconnect, CapabilityCategory_PartitionSupport,
      CapabilityCategory_RuntimeApi, CapabilityCategory_DriverApi,
      CapabilityCategory_CompilerTarget, CapabilityCategory_KernelFormat,
      CapabilityCategory_CollectiveSupport, CapabilityCategory_RdmaCapability,
      CapabilityCategory_GpuDirectCapability, CapabilityCategory_CxlCapability,
      CapabilityCategory_DpuSmartNicCapability, CapabilityCategory_ArtifactFormat,
      CapabilityCategory_QuantizationSupport, CapabilityCategory_SparseExecutionSupport,
      CapabilityCategory_FirmwareGeneration, CapabilityCategory_ContainerRuntime,
      CapabilityCategory_OperatingSystem, CapabilityCategory_SecurityIsolation,
      CapabilityCategory_OffloadCapability, CapabilityCategory_Custom]"

fun CapabilityCategory_to_string :: "CapabilityCategory \<Rightarrow> string" where
  "CapabilityCategory_to_string CapabilityCategory_AcceleratorArchitecture = ''ACCELERATOR_ARCHITECTURE''"
| "CapabilityCategory_to_string CapabilityCategory_PrecisionSupport = ''PRECISION_SUPPORT''"
| "CapabilityCategory_to_string CapabilityCategory_MemorySize = ''MEMORY_SIZE''"
| "CapabilityCategory_to_string CapabilityCategory_MemoryBandwidthClass = ''MEMORY_BANDWIDTH_CLASS''"
| "CapabilityCategory_to_string CapabilityCategory_Interconnect = ''INTERCONNECT''"
| "CapabilityCategory_to_string CapabilityCategory_PartitionSupport = ''PARTITION_SUPPORT''"
| "CapabilityCategory_to_string CapabilityCategory_RuntimeApi = ''RUNTIME_API''"
| "CapabilityCategory_to_string CapabilityCategory_DriverApi = ''DRIVER_API''"
| "CapabilityCategory_to_string CapabilityCategory_CompilerTarget = ''COMPILER_TARGET''"
| "CapabilityCategory_to_string CapabilityCategory_KernelFormat = ''KERNEL_FORMAT''"
| "CapabilityCategory_to_string CapabilityCategory_CollectiveSupport = ''COLLECTIVE_SUPPORT''"
| "CapabilityCategory_to_string CapabilityCategory_RdmaCapability = ''RDMA_CAPABILITY''"
| "CapabilityCategory_to_string CapabilityCategory_GpuDirectCapability = ''GPUDIRECT_CAPABILITY''"
| "CapabilityCategory_to_string CapabilityCategory_CxlCapability = ''CXL_CAPABILITY''"
| "CapabilityCategory_to_string CapabilityCategory_DpuSmartNicCapability = ''DPU_SMARTNIC_CAPABILITY''"
| "CapabilityCategory_to_string CapabilityCategory_ArtifactFormat = ''ARTIFACT_FORMAT''"
| "CapabilityCategory_to_string CapabilityCategory_QuantizationSupport = ''QUANTIZATION_SUPPORT''"
| "CapabilityCategory_to_string CapabilityCategory_SparseExecutionSupport = ''SPARSE_EXECUTION_SUPPORT''"
| "CapabilityCategory_to_string CapabilityCategory_FirmwareGeneration = ''FIRMWARE_GENERATION''"
| "CapabilityCategory_to_string CapabilityCategory_ContainerRuntime = ''CONTAINER_RUNTIME''"
| "CapabilityCategory_to_string CapabilityCategory_OperatingSystem = ''OPERATING_SYSTEM''"
| "CapabilityCategory_to_string CapabilityCategory_SecurityIsolation = ''SECURITY_ISOLATION''"
| "CapabilityCategory_to_string CapabilityCategory_OffloadCapability = ''OFFLOAD_CAPABILITY''"
| "CapabilityCategory_to_string CapabilityCategory_Custom = ''CUSTOM''"

interpretation capability_category_enum: named_enumeration CapabilityCategory_values CapabilityCategory_to_string
proof unfold_locales
  show "v \<in> set CapabilityCategory_values" for v by (cases v) (simp_all add: CapabilityCategory_values_def)
qed (simp_all add: CapabilityCategory_values_def)

definition parse_capability_category :: "string \<Rightarrow> CapabilityCategory option" where
  "parse_capability_category = parse_enum CapabilityCategory_values CapabilityCategory_to_string"

datatype CapabilityKey = CapabilityKey (key_code: u16)

abbreviation CapabilityKey_Unknown :: CapabilityKey where
  "CapabilityKey_Unknown \<equiv> CapabilityKey 0"

abbreviation CapabilityKey_AcceleratorArchitecture :: CapabilityKey where
  "CapabilityKey_AcceleratorArchitecture \<equiv> CapabilityKey 1"

abbreviation CapabilityKey_AcceleratorVendor :: CapabilityKey where
  "CapabilityKey_AcceleratorVendor \<equiv> CapabilityKey 2"

abbreviation CapabilityKey_AcceleratorFamily :: CapabilityKey where
  "CapabilityKey_AcceleratorFamily \<equiv> CapabilityKey 3"

abbreviation CapabilityKey_AcceleratorModel :: CapabilityKey where
  "CapabilityKey_AcceleratorModel \<equiv> CapabilityKey 4"

abbreviation CapabilityKey_ComputeCapability :: CapabilityKey where
  "CapabilityKey_ComputeCapability \<equiv> CapabilityKey 5"

abbreviation CapabilityKey_PrecisionFp64 :: CapabilityKey where
  "CapabilityKey_PrecisionFp64 \<equiv> CapabilityKey 20"

abbreviation CapabilityKey_PrecisionFp32 :: CapabilityKey where
  "CapabilityKey_PrecisionFp32 \<equiv> CapabilityKey 21"

abbreviation CapabilityKey_PrecisionTf32 :: CapabilityKey where
  "CapabilityKey_PrecisionTf32 \<equiv> CapabilityKey 22"

abbreviation CapabilityKey_PrecisionFp16 :: CapabilityKey where
  "CapabilityKey_PrecisionFp16 \<equiv> CapabilityKey 23"

abbreviation CapabilityKey_PrecisionBf16 :: CapabilityKey where
  "CapabilityKey_PrecisionBf16 \<equiv> CapabilityKey 24"

abbreviation CapabilityKey_PrecisionFp8E4M3 :: CapabilityKey where
  "CapabilityKey_PrecisionFp8E4M3 \<equiv> CapabilityKey 25"

abbreviation CapabilityKey_PrecisionFp8E5M2 :: CapabilityKey where
  "CapabilityKey_PrecisionFp8E5M2 \<equiv> CapabilityKey 26"

abbreviation CapabilityKey_PrecisionFp6 :: CapabilityKey where
  "CapabilityKey_PrecisionFp6 \<equiv> CapabilityKey 27"

abbreviation CapabilityKey_PrecisionInt8 :: CapabilityKey where
  "CapabilityKey_PrecisionInt8 \<equiv> CapabilityKey 28"

abbreviation CapabilityKey_PrecisionInt4 :: CapabilityKey where
  "CapabilityKey_PrecisionInt4 \<equiv> CapabilityKey 29"

abbreviation CapabilityKey_PrecisionFp4 :: CapabilityKey where
  "CapabilityKey_PrecisionFp4 \<equiv> CapabilityKey 30"

abbreviation CapabilityKey_MemoryBytes :: CapabilityKey where
  "CapabilityKey_MemoryBytes \<equiv> CapabilityKey 40"

abbreviation CapabilityKey_MemoryBandwidthGbps :: CapabilityKey where
  "CapabilityKey_MemoryBandwidthGbps \<equiv> CapabilityKey 41"

abbreviation CapabilityKey_MemoryType :: CapabilityKey where
  "CapabilityKey_MemoryType \<equiv> CapabilityKey 42"

abbreviation CapabilityKey_MemoryEcc :: CapabilityKey where
  "CapabilityKey_MemoryEcc \<equiv> CapabilityKey 43"

abbreviation CapabilityKey_InterconnectType :: CapabilityKey where
  "CapabilityKey_InterconnectType \<equiv> CapabilityKey 60"

abbreviation CapabilityKey_InterconnectBandwidthGbps :: CapabilityKey where
  "CapabilityKey_InterconnectBandwidthGbps \<equiv> CapabilityKey 61"

abbreviation CapabilityKey_NvlinkGeneration :: CapabilityKey where
  "CapabilityKey_NvlinkGeneration \<equiv> CapabilityKey 62"

abbreviation CapabilityKey_PcieGeneration :: CapabilityKey where
  "CapabilityKey_PcieGeneration \<equiv> CapabilityKey 63"

abbreviation CapabilityKey_PartitionSupport :: CapabilityKey where
  "CapabilityKey_PartitionSupport \<equiv> CapabilityKey 80"

abbreviation CapabilityKey_PartitionModes :: CapabilityKey where
  "CapabilityKey_PartitionModes \<equiv> CapabilityKey 81"

abbreviation CapabilityKey_PartitionGeometry :: CapabilityKey where
  "CapabilityKey_PartitionGeometry \<equiv> CapabilityKey 82"

abbreviation CapabilityKey_PartitionMaxInstances :: CapabilityKey where
  "CapabilityKey_PartitionMaxInstances \<equiv> CapabilityKey 83"

abbreviation CapabilityKey_RuntimeApi :: CapabilityKey where
  "CapabilityKey_RuntimeApi \<equiv> CapabilityKey 100"

abbreviation CapabilityKey_RuntimeVersion :: CapabilityKey where
  "CapabilityKey_RuntimeVersion \<equiv> CapabilityKey 101"

abbreviation CapabilityKey_RuntimeAbi :: CapabilityKey where
  "CapabilityKey_RuntimeAbi \<equiv> CapabilityKey 102"

abbreviation CapabilityKey_RuntimeGeneration :: CapabilityKey where
  "CapabilityKey_RuntimeGeneration \<equiv> CapabilityKey 103"

abbreviation CapabilityKey_DriverApi :: CapabilityKey where
  "CapabilityKey_DriverApi \<equiv> CapabilityKey 104"

abbreviation CapabilityKey_DriverVersion :: CapabilityKey where
  "CapabilityKey_DriverVersion \<equiv> CapabilityKey 105"

abbreviation CapabilityKey_DriverAbi :: CapabilityKey where
  "CapabilityKey_DriverAbi \<equiv> CapabilityKey 106"

abbreviation CapabilityKey_DriverGeneration :: CapabilityKey where
  "CapabilityKey_DriverGeneration \<equiv> CapabilityKey 107"

abbreviation CapabilityKey_CompilerTarget :: CapabilityKey where
  "CapabilityKey_CompilerTarget \<equiv> CapabilityKey 120"

abbreviation CapabilityKey_CompilerVersion :: CapabilityKey where
  "CapabilityKey_CompilerVersion \<equiv> CapabilityKey 121"

abbreviation CapabilityKey_KernelFormat :: CapabilityKey where
  "CapabilityKey_KernelFormat \<equiv> CapabilityKey 122"

abbreviation CapabilityKey_KernelArchitectures :: CapabilityKey where
  "CapabilityKey_KernelArchitectures \<equiv> CapabilityKey 123"

abbreviation CapabilityKey_CollectiveSupport :: CapabilityKey where
  "CapabilityKey_CollectiveSupport \<equiv> CapabilityKey 140"

abbreviation CapabilityKey_CollectiveBackend :: CapabilityKey where
  "CapabilityKey_CollectiveBackend \<equiv> CapabilityKey 141"

abbreviation CapabilityKey_CollectiveMaxGroupSize :: CapabilityKey where
  "CapabilityKey_CollectiveMaxGroupSize \<equiv> CapabilityKey 142"

abbreviation CapabilityKey_RdmaCapability :: CapabilityKey where
  "CapabilityKey_RdmaCapability \<equiv> CapabilityKey 160"

abbreviation CapabilityKey_GpuDirectCapability :: CapabilityKey where
  "CapabilityKey_GpuDirectCapability \<equiv> CapabilityKey 161"

abbreviation CapabilityKey_GpuDirectStorage :: CapabilityKey where
  "CapabilityKey_GpuDirectStorage \<equiv> CapabilityKey 162"

abbreviation CapabilityKey_CxlCapability :: CapabilityKey where
  "CapabilityKey_CxlCapability \<equiv> CapabilityKey 163"

abbreviation CapabilityKey_DpuSmartNicCapability :: CapabilityKey where
  "CapabilityKey_DpuSmartNicCapability \<equiv> CapabilityKey 164"

abbreviation CapabilityKey_ArtifactFormat :: CapabilityKey where
  "CapabilityKey_ArtifactFormat \<equiv> CapabilityKey 180"

abbreviation CapabilityKey_ArtifactFormats :: CapabilityKey where
  "CapabilityKey_ArtifactFormats \<equiv> CapabilityKey 181"

abbreviation CapabilityKey_QuantizationSupport :: CapabilityKey where
  "CapabilityKey_QuantizationSupport \<equiv> CapabilityKey 182"

abbreviation CapabilityKey_QuantizationFormats :: CapabilityKey where
  "CapabilityKey_QuantizationFormats \<equiv> CapabilityKey 183"

abbreviation CapabilityKey_SparseExecutionSupport :: CapabilityKey where
  "CapabilityKey_SparseExecutionSupport \<equiv> CapabilityKey 184"

abbreviation CapabilityKey_InferenceServingBackend :: CapabilityKey where
  "CapabilityKey_InferenceServingBackend \<equiv> CapabilityKey 185"

abbreviation CapabilityKey_FirmwareGeneration :: CapabilityKey where
  "CapabilityKey_FirmwareGeneration \<equiv> CapabilityKey 200"

abbreviation CapabilityKey_ContainerRuntime :: CapabilityKey where
  "CapabilityKey_ContainerRuntime \<equiv> CapabilityKey 201"

abbreviation CapabilityKey_OperatingSystem :: CapabilityKey where
  "CapabilityKey_OperatingSystem \<equiv> CapabilityKey 202"

abbreviation CapabilityKey_SecurityIsolation :: CapabilityKey where
  "CapabilityKey_SecurityIsolation \<equiv> CapabilityKey 203"

abbreviation CapabilityKey_OffloadCapability :: CapabilityKey where
  "CapabilityKey_OffloadCapability \<equiv> CapabilityKey 204"

abbreviation CapabilityKey_Custom :: CapabilityKey where
  "CapabilityKey_Custom \<equiv> CapabilityKey 4096"

definition kCapabilityKeyCount :: nat where
  "kCapabilityKeyCount = 57"

definition kKeyTable :: "(CapabilityKey \<times> string \<times> CapabilityCategory) list" where
  "kKeyTable =
     [(CapabilityKey_AcceleratorArchitecture, ''accelerator.architecture'', CapabilityCategory_AcceleratorArchitecture),
      (CapabilityKey_AcceleratorVendor, ''accelerator.vendor'', CapabilityCategory_AcceleratorArchitecture),
      (CapabilityKey_AcceleratorFamily, ''accelerator.family'', CapabilityCategory_AcceleratorArchitecture),
      (CapabilityKey_AcceleratorModel, ''accelerator.model'', CapabilityCategory_AcceleratorArchitecture),
      (CapabilityKey_ComputeCapability, ''accelerator.compute_capability'', CapabilityCategory_AcceleratorArchitecture),
      (CapabilityKey_PrecisionFp64, ''precision.fp64'', CapabilityCategory_PrecisionSupport),
      (CapabilityKey_PrecisionFp32, ''precision.fp32'', CapabilityCategory_PrecisionSupport),
      (CapabilityKey_PrecisionTf32, ''precision.tf32'', CapabilityCategory_PrecisionSupport),
      (CapabilityKey_PrecisionFp16, ''precision.fp16'', CapabilityCategory_PrecisionSupport),
      (CapabilityKey_PrecisionBf16, ''precision.bf16'', CapabilityCategory_PrecisionSupport),
      (CapabilityKey_PrecisionFp8E4M3, ''precision.fp8_e4m3'', CapabilityCategory_PrecisionSupport),
      (CapabilityKey_PrecisionFp8E5M2, ''precision.fp8_e5m2'', CapabilityCategory_PrecisionSupport),
      (CapabilityKey_PrecisionFp6, ''precision.fp6'', CapabilityCategory_PrecisionSupport),
      (CapabilityKey_PrecisionInt8, ''precision.int8'', CapabilityCategory_PrecisionSupport),
      (CapabilityKey_PrecisionInt4, ''precision.int4'', CapabilityCategory_PrecisionSupport),
      (CapabilityKey_PrecisionFp4, ''precision.fp4'', CapabilityCategory_PrecisionSupport),
      (CapabilityKey_MemoryBytes, ''memory.bytes'', CapabilityCategory_MemorySize),
      (CapabilityKey_MemoryBandwidthGbps, ''memory.bandwidth_gbps'', CapabilityCategory_MemoryBandwidthClass),
      (CapabilityKey_MemoryType, ''memory.type'', CapabilityCategory_MemorySize),
      (CapabilityKey_MemoryEcc, ''memory.ecc'', CapabilityCategory_MemorySize),
      (CapabilityKey_InterconnectType, ''interconnect.type'', CapabilityCategory_Interconnect),
      (CapabilityKey_InterconnectBandwidthGbps, ''interconnect.bandwidth_gbps'', CapabilityCategory_Interconnect),
      (CapabilityKey_NvlinkGeneration, ''interconnect.nvlink_generation'', CapabilityCategory_Interconnect),
      (CapabilityKey_PcieGeneration, ''interconnect.pcie_generation'', CapabilityCategory_Interconnect),
      (CapabilityKey_PartitionSupport, ''partition.support'', CapabilityCategory_PartitionSupport),
      (CapabilityKey_PartitionModes, ''partition.modes'', CapabilityCategory_PartitionSupport),
      (CapabilityKey_PartitionGeometry, ''partition.geometry'', CapabilityCategory_PartitionSupport),
      (CapabilityKey_PartitionMaxInstances, ''partition.max_instances'', CapabilityCategory_PartitionSupport),
      (CapabilityKey_RuntimeApi, ''runtime.api'', CapabilityCategory_RuntimeApi),
      (CapabilityKey_RuntimeVersion, ''runtime.version'', CapabilityCategory_RuntimeApi),
      (CapabilityKey_RuntimeAbi, ''runtime.abi'', CapabilityCategory_RuntimeApi),
      (CapabilityKey_RuntimeGeneration, ''runtime.generation'', CapabilityCategory_RuntimeApi),
      (CapabilityKey_DriverApi, ''driver.api'', CapabilityCategory_DriverApi),
      (CapabilityKey_DriverVersion, ''driver.version'', CapabilityCategory_DriverApi),
      (CapabilityKey_DriverAbi, ''driver.abi'', CapabilityCategory_DriverApi),
      (CapabilityKey_DriverGeneration, ''driver.generation'', CapabilityCategory_DriverApi),
      (CapabilityKey_CompilerTarget, ''compiler.target'', CapabilityCategory_CompilerTarget),
      (CapabilityKey_CompilerVersion, ''compiler.version'', CapabilityCategory_CompilerTarget),
      (CapabilityKey_KernelFormat, ''kernel.format'', CapabilityCategory_KernelFormat),
      (CapabilityKey_KernelArchitectures, ''kernel.architectures'', CapabilityCategory_KernelFormat),
      (CapabilityKey_CollectiveSupport, ''collective.support'', CapabilityCategory_CollectiveSupport),
      (CapabilityKey_CollectiveBackend, ''collective.backend'', CapabilityCategory_CollectiveSupport),
      (CapabilityKey_CollectiveMaxGroupSize, ''collective.max_group_size'', CapabilityCategory_CollectiveSupport),
      (CapabilityKey_RdmaCapability, ''fabric.rdma'', CapabilityCategory_RdmaCapability),
      (CapabilityKey_GpuDirectCapability, ''fabric.gpu_direct'', CapabilityCategory_GpuDirectCapability),
      (CapabilityKey_GpuDirectStorage, ''fabric.gpu_direct_storage'', CapabilityCategory_GpuDirectCapability),
      (CapabilityKey_CxlCapability, ''fabric.cxl'', CapabilityCategory_CxlCapability),
      (CapabilityKey_DpuSmartNicCapability, ''fabric.dpu_smartnic'', CapabilityCategory_DpuSmartNicCapability),
      (CapabilityKey_ArtifactFormat, ''artifact.format'', CapabilityCategory_ArtifactFormat),
      (CapabilityKey_ArtifactFormats, ''artifact.formats'', CapabilityCategory_ArtifactFormat),
      (CapabilityKey_QuantizationSupport, ''quantization.support'', CapabilityCategory_QuantizationSupport),
      (CapabilityKey_QuantizationFormats, ''quantization.formats'', CapabilityCategory_QuantizationSupport),
      (CapabilityKey_SparseExecutionSupport, ''sparse.execution'', CapabilityCategory_SparseExecutionSupport),
      (CapabilityKey_InferenceServingBackend, ''serving.backend'', CapabilityCategory_ArtifactFormat),
      (CapabilityKey_FirmwareGeneration, ''firmware.generation'', CapabilityCategory_FirmwareGeneration),
      (CapabilityKey_ContainerRuntime, ''environment.container_runtime'', CapabilityCategory_ContainerRuntime),
      (CapabilityKey_OperatingSystem, ''environment.os'', CapabilityCategory_OperatingSystem),
      (CapabilityKey_SecurityIsolation, ''environment.isolation'', CapabilityCategory_SecurityIsolation),
      (CapabilityKey_OffloadCapability, ''offload.capability'', CapabilityCategory_OffloadCapability)]"

definition CapabilityKey_to_string :: "CapabilityKey \<Rightarrow> string" where
  "CapabilityKey_to_string k =
     (if k = CapabilityKey_Custom then ''custom''
      else case find (\<lambda>e. fst e = k) kKeyTable of
             Some (_, name, _) \<Rightarrow> name
           | None \<Rightarrow> ''unknown'')"

definition category_of :: "CapabilityKey \<Rightarrow> CapabilityCategory" where
  "category_of k =
     (case find (\<lambda>e. fst e = k) kKeyTable of
        Some (_, _, category) \<Rightarrow> category
      | None \<Rightarrow> CapabilityCategory_Custom)"

definition parse_capability_key :: "string \<Rightarrow> CapabilityKey option" where
  "parse_capability_key text =
     (case find (\<lambda>e. fst (snd e) = text) kKeyTable of
        Some (k, _, _) \<Rightarrow> Some k
      | None \<Rightarrow> if text = ''custom'' then Some CapabilityKey_Custom else None)"

record CapabilityRef =
  cr_key :: CapabilityKey
  cr_custom :: CapabilityKeyId

definition CapabilityRef_valid :: "CapabilityRef \<Rightarrow> bool" where
  "CapabilityRef_valid r =
     (if cr_key r = CapabilityKey_Unknown then False
      else if cr_key r = CapabilityKey_Custom then \<not> id_empty (cr_custom r)
      else id_empty (cr_custom r))"

definition CapabilityRef_category :: "CapabilityRef \<Rightarrow> CapabilityCategory" where
  "CapabilityRef_category r = category_of (cr_key r)"

definition CapabilityRef_to_string :: "CapabilityRef \<Rightarrow> string" where
  "CapabilityRef_to_string r =
     (if cr_key r = CapabilityKey_Custom then ''custom:'' @ id_value (cr_custom r)
      else CapabilityKey_to_string (cr_key r))"

definition CapabilityRef_less :: "CapabilityRef \<Rightarrow> CapabilityRef \<Rightarrow> bool" where
  "CapabilityRef_less a b =
     (if cr_key a \<noteq> cr_key b then key_code (cr_key a) < key_code (cr_key b)
      else cr_custom a < cr_custom b)"

section \<open>Values\<close>

datatype CapabilityValue =
    CapabilityValue_Unknown
  | CapabilityValue_Boolean bool
  | CapabilityValue_Integer int
  | CapabilityValue_Unsigned u64
  | CapabilityValue_Number double
  | CapabilityValue_Text string
  | CapabilityValue_TextSet "string list"

definition value_text :: "string \<Rightarrow> CapabilityValue" where
  "value_text v =
     CapabilityValue_Text
       (if length v > kMaxStringFieldBytes then truncate_with_marker v kMaxStringFieldBytes else v)"

definition value_text_set :: "string list \<Rightarrow> CapabilityValue result" where
  "value_text_set values =
     (if length values > kMaxValueSetEntries then
        Inl (Error BoundExceeded ''capability value set exceeds the maximum size''
               (to_string_nat (length values)))
      else if list_ex (\<lambda>entry. length entry > 256) values then
        Inl (Error BoundExceeded ''capability value set entry exceeds the maximum length'' [])
      else Inr (CapabilityValue_TextSet (unique_adjacent (sort values))))"

fun value_index :: "CapabilityValue \<Rightarrow> nat" where
  "value_index CapabilityValue_Unknown = 0"
| "value_index (CapabilityValue_Boolean _) = 1"
| "value_index (CapabilityValue_Integer _) = 2"
| "value_index (CapabilityValue_Unsigned _) = 3"
| "value_index (CapabilityValue_Number _) = 4"
| "value_index (CapabilityValue_Text _) = 5"
| "value_index (CapabilityValue_TextSet _) = 6"

definition value_known :: "CapabilityValue \<Rightarrow> bool" where
  "value_known v = (value_index v \<noteq> 0)"

definition is_boolean :: "CapabilityValue \<Rightarrow> bool" where
  "is_boolean v = (value_index v = 1)"

definition is_integral :: "CapabilityValue \<Rightarrow> bool" where
  "is_integral v = (value_index v = 2 \<or> value_index v = 3)"

definition is_number :: "CapabilityValue \<Rightarrow> bool" where
  "is_number v = (value_index v = 4)"

definition is_text :: "CapabilityValue \<Rightarrow> bool" where
  "is_text v = (value_index v = 5)"

definition is_text_set :: "CapabilityValue \<Rightarrow> bool" where
  "is_text_set v = (value_index v = 6)"

fun as_boolean :: "CapabilityValue \<Rightarrow> bool \<Rightarrow> bool" where
  "as_boolean (CapabilityValue_Boolean v) fallback = v"
| "as_boolean _ fallback = fallback"

fun as_integer :: "CapabilityValue \<Rightarrow> int \<Rightarrow> int" where
  "as_integer (CapabilityValue_Integer v) fallback = v"
| "as_integer (CapabilityValue_Unsigned u) fallback =
     (if uint u > 9223372036854775807 then 9223372036854775807 else uint u)"
| "as_integer _ fallback = fallback"

fun as_unsigned :: "CapabilityValue \<Rightarrow> u64 \<Rightarrow> u64" where
  "as_unsigned (CapabilityValue_Unsigned u) fallback = u"
| "as_unsigned (CapabilityValue_Integer v) fallback = (if v < 0 then fallback else word_of_int v)"
| "as_unsigned _ fallback = fallback"

fun as_number :: "CapabilityValue \<Rightarrow> double \<Rightarrow> double" where
  "as_number (CapabilityValue_Number d) fallback = d"
| "as_number (CapabilityValue_Integer v) fallback = double_of_int v"
| "as_number (CapabilityValue_Unsigned u) fallback = double_of_nat (unat u)"
| "as_number _ fallback = fallback"

fun as_text :: "CapabilityValue \<Rightarrow> string" where
  "as_text (CapabilityValue_Text v) = v"
| "as_text _ = []"

fun as_text_set :: "CapabilityValue \<Rightarrow> string list" where
  "as_text_set (CapabilityValue_TextSet v) = v"
| "as_text_set _ = []"

definition to_string_int :: "int \<Rightarrow> string" where
  "to_string_int v = (if v < 0 then ''-'' @ to_string_nat (nat (- v)) else to_string_nat (nat v))"

fun CapabilityValue_to_string :: "CapabilityValue \<Rightarrow> string" where
  "CapabilityValue_to_string CapabilityValue_Unknown = ''UNKNOWN''"
| "CapabilityValue_to_string (CapabilityValue_Boolean v) = (if v then ''true'' else ''false'')"
| "CapabilityValue_to_string (CapabilityValue_Integer v) = to_string_int v"
| "CapabilityValue_to_string (CapabilityValue_Unsigned v) = to_string_u64 v"
| "CapabilityValue_to_string (CapabilityValue_Number v) = format_double v"
| "CapabilityValue_to_string (CapabilityValue_Text v) = v"
| "CapabilityValue_to_string (CapabilityValue_TextSet v) = ''['' @ join_strings v '', '' @ '']''"

text \<open>\<open>operator==\<close> and \<open>operator<\<close>: doubles compare as numbers, the other alternatives by value.\<close>

fun CapabilityValue_eq :: "CapabilityValue \<Rightarrow> CapabilityValue \<Rightarrow> bool" where
  "CapabilityValue_eq (CapabilityValue_Number a) (CapabilityValue_Number b) = double_eq a b"
| "CapabilityValue_eq a b = (a = b)"

fun CapabilityValue_less :: "CapabilityValue \<Rightarrow> CapabilityValue \<Rightarrow> bool" where
  "CapabilityValue_less (CapabilityValue_Boolean a) (CapabilityValue_Boolean b) = (\<not> a \<and> b)"
| "CapabilityValue_less (CapabilityValue_Integer a) (CapabilityValue_Integer b) = (a < b)"
| "CapabilityValue_less (CapabilityValue_Unsigned a) (CapabilityValue_Unsigned b) = (a < b)"
| "CapabilityValue_less (CapabilityValue_Number a) (CapabilityValue_Number b) = double_less a b"
| "CapabilityValue_less (CapabilityValue_Text a) (CapabilityValue_Text b) = (a < b)"
| "CapabilityValue_less (CapabilityValue_TextSet a) (CapabilityValue_TextSet b) = (a < b)"
| "CapabilityValue_less a b = (value_index a < value_index b)"

section \<open>Published capabilities\<close>

record CapabilityEntry =
  ce_key :: CapabilityRef
  ce_value :: CapabilityValue
  ce_precision :: Precision
  ce_evidence_class :: EvidenceClass
  ce_generation :: EvidenceGeneration
  ce_note :: string

definition CapabilityEntry_less :: "CapabilityEntry \<Rightarrow> CapabilityEntry \<Rightarrow> bool" where
  "CapabilityEntry_less a b =
     (if ce_key a \<noteq> ce_key b then CapabilityRef_less (ce_key a) (ce_key b)
      else if \<not> CapabilityValue_eq (ce_value a) (ce_value b) then
        CapabilityValue_less (ce_value a) (ce_value b)
      else ce_generation a < ce_generation b)"

record CapabilitySet =
  cset_entries :: "CapabilityEntry list"
  cset_limit :: nat

definition CapabilitySet_init :: "nat \<Rightarrow> CapabilitySet" where
  "CapabilitySet_init limit = \<lparr>cset_entries = [], cset_limit = limit\<rparr>"

abbreviation no_capabilities :: CapabilitySet where
  "no_capabilities \<equiv> CapabilitySet_init kMaxCapabilityEntriesPerPublication"

definition cset_note_truncated :: "CapabilityEntry \<Rightarrow> CapabilityEntry" where
  "cset_note_truncated e =
     (if length (ce_note e) > 512 then e\<lparr>ce_note := truncate_with_marker (ce_note e) 512\<rparr> else e)"

text \<open>Overwriting the first entry with the same key.\<close>

fun replace_first :: "CapabilityEntry \<Rightarrow> CapabilityEntry list \<Rightarrow> CapabilityEntry list" where
  "replace_first e [] = []"
| "replace_first e (x # xs) = (if ce_key x = ce_key e then e # xs else x # replace_first e xs)"

definition CapabilitySet_find :: "CapabilityRef \<Rightarrow> CapabilitySet \<Rightarrow> CapabilityEntry option" where
  "CapabilitySet_find k s = find (\<lambda>e. ce_key e = k) (cset_entries s)"

definition CapabilitySet_put :: "CapabilityEntry \<Rightarrow> CapabilitySet \<Rightarrow> Status \<times> CapabilitySet" where
  "CapabilitySet_put entry s =
     (if \<not> CapabilityRef_valid (ce_key entry) then
        (fail InvalidArgument ''capability key is not valid'' (CapabilityRef_to_string (ce_key entry)), s)
      else
        let e = cset_note_truncated entry
        in if list_ex (\<lambda>x. ce_key x = ce_key e) (cset_entries s) then
             (Success, s\<lparr>cset_entries :=
                stable_sort CapabilityEntry_less (replace_first e (cset_entries s))\<rparr>)
           else if length (cset_entries s) \<ge> cset_limit s then
             (fail BoundExceeded ''capability set is full''
                (to_string_nat (cset_limit s) @ '' entries retained''), s)
           else (Success, s\<lparr>cset_entries := stable_sort CapabilityEntry_less (cset_entries s @ [e])\<rparr>))"

definition cset_combined_precision :: "CapabilitySet \<Rightarrow> Precision" where
  "cset_combined_precision s =
     (case cset_entries s of [] \<Rightarrow> Precision_Unknown
      | e # es \<Rightarrow> foldl (\<lambda>acc x. weakest_precision acc (ce_precision x)) (ce_precision e) es)"

definition cset_combined_class :: "CapabilitySet \<Rightarrow> EvidenceClass" where
  "cset_combined_class s =
     (case cset_entries s of [] \<Rightarrow> EvidenceClass_Unknown
      | e # es \<Rightarrow> foldl (\<lambda>acc x. weaker_class acc (ce_evidence_class x)) (ce_evidence_class e) es)"

section \<open>Requirements\<close>

datatype CapabilityComparator =
    CapabilityComparator_Present
  | CapabilityComparator_Absent
  | CapabilityComparator_Equals
  | CapabilityComparator_NotEquals
  | CapabilityComparator_AtLeast
  | CapabilityComparator_AtMost
  | CapabilityComparator_AnyOf
  | CapabilityComparator_AllOf

definition CapabilityComparator_values :: "CapabilityComparator list" where
  "CapabilityComparator_values =
     [CapabilityComparator_Present, CapabilityComparator_Absent, CapabilityComparator_Equals,
      CapabilityComparator_NotEquals, CapabilityComparator_AtLeast,
      CapabilityComparator_AtMost, CapabilityComparator_AnyOf, CapabilityComparator_AllOf]"

fun CapabilityComparator_to_string :: "CapabilityComparator \<Rightarrow> string" where
  "CapabilityComparator_to_string CapabilityComparator_Present = ''PRESENT''"
| "CapabilityComparator_to_string CapabilityComparator_Absent = ''ABSENT''"
| "CapabilityComparator_to_string CapabilityComparator_Equals = ''EQUALS''"
| "CapabilityComparator_to_string CapabilityComparator_NotEquals = ''NOT_EQUALS''"
| "CapabilityComparator_to_string CapabilityComparator_AtLeast = ''AT_LEAST''"
| "CapabilityComparator_to_string CapabilityComparator_AtMost = ''AT_MOST''"
| "CapabilityComparator_to_string CapabilityComparator_AnyOf = ''ANY_OF''"
| "CapabilityComparator_to_string CapabilityComparator_AllOf = ''ALL_OF''"

interpretation capability_comparator_enum: named_enumeration CapabilityComparator_values CapabilityComparator_to_string
proof unfold_locales
  show "v \<in> set CapabilityComparator_values" for v by (cases v) (simp_all add: CapabilityComparator_values_def)
qed (simp_all add: CapabilityComparator_values_def)

definition parse_capability_comparator :: "string \<Rightarrow> CapabilityComparator option" where
  "parse_capability_comparator = parse_enum CapabilityComparator_values CapabilityComparator_to_string"

record CapabilityRequirement =
  req_key :: CapabilityRef
  req_comparator :: CapabilityComparator
  req_value :: CapabilityValue
  req_optional :: bool
  req_rationale :: string

definition CapabilityRequirement_to_string :: "CapabilityRequirement \<Rightarrow> string" where
  "CapabilityRequirement_to_string r =
     CapabilityRef_to_string (req_key r) @ '' '' @ CapabilityComparator_to_string (req_comparator r) @
     (if value_known (req_value r) then '' '' @ CapabilityValue_to_string (req_value r) else []) @
     (if req_optional r then '' [optional]'' else []) @
     (if req_rationale r = [] then [] else '' ('' @ req_rationale r @ '')'')"

definition CapabilityRequirement_eq :: "CapabilityRequirement \<Rightarrow> CapabilityRequirement \<Rightarrow> bool" where
  "CapabilityRequirement_eq a b =
     (req_key a = req_key b \<and> req_comparator a = req_comparator b \<and>
      CapabilityValue_eq (req_value a) (req_value b) \<and> req_optional a = req_optional b \<and>
      req_rationale a = req_rationale b)"

definition CapabilityRequirement_less :: "CapabilityRequirement \<Rightarrow> CapabilityRequirement \<Rightarrow> bool" where
  "CapabilityRequirement_less a b =
     (if req_key a \<noteq> req_key b then CapabilityRef_less (req_key a) (req_key b)
      else if req_comparator a \<noteq> req_comparator b then
        enum_lt CapabilityComparator_values (req_comparator a) (req_comparator b)
      else CapabilityValue_less (req_value a) (req_value b))"

record CapabilityCheck =
  chk_requirement :: CapabilityRequirement
  chk_observed :: CapabilityValue
  chk_satisfied :: Tri
  chk_detail :: string

definition three_way :: "bool \<Rightarrow> bool \<Rightarrow> int" where
  "three_way lt gt = (if lt then - 1 else if gt then 1 else 0)"

text \<open>\<open>Comparison\<close>: \<open>None\<close> when the two values are not comparable as numbers.\<close>

definition compare_numeric_pairs :: "CapabilityValue \<Rightarrow> CapabilityValue \<Rightarrow> int option" where
  "compare_numeric_pairs a b =
     (if is_integral a \<and> is_integral b then
        (if as_integer a 0 \<ge> 0 \<and> as_integer b 0 \<ge> 0 then
           Some (three_way (as_unsigned a 0 < as_unsigned b 0) (as_unsigned a 0 > as_unsigned b 0))
         else Some (three_way (as_integer a 0 < as_integer b 0) (as_integer a 0 > as_integer b 0)))
      else if (is_integral a \<or> is_number a) \<and> (is_integral b \<or> is_number b) then
        let av = (if is_number a then as_number a 0 else double_of_int (as_integer a 0));
            bv = (if is_number b then as_number b 0 else double_of_int (as_integer b 0))
        in Some (three_way (double_less av bv) (double_less bv av))
      else None)"

section \<open>Version strings\<close>

definition is_digit :: "char \<Rightarrow> bool" where
  "is_digit c = (CHR ''0'' \<le> c \<and> c \<le> CHR ''9'')"

definition digit_value :: "char \<Rightarrow> nat" where
  "digit_value c = of_char c - 48"

definition read_run :: "string \<Rightarrow> u64" where
  "read_run ds = foldl (\<lambda>n c. n * 10 + of_nat (digit_value c)) 0 ds"

definition signed_char :: "char \<Rightarrow> int" where
  "signed_char c = sint (byte_of_char c)"

text \<open>The character after the numeric runs, 0 when there is none.\<close>

definition head_char :: "string \<Rightarrow> int" where
  "head_char s = (case s of [] \<Rightarrow> 0 | c # _ \<Rightarrow> signed_char c)"

definition compare_separators :: "int \<Rightarrow> int \<Rightarrow> int" where
  "compare_separators ca cb =
     (if ca = cb then 0
      else if ca = 0 then - 1
      else if cb = 0 then 1
      else if ca = 46 then - 1
      else if cb = 46 then 1
      else if ca < cb then - 1 else 1)"

function compare_version_strings :: "string \<Rightarrow> string \<Rightarrow> int" where
  "compare_version_strings a b =
     (if a = [] \<and> b = [] then 0
      else
        let da = takeWhile is_digit a; ra = dropWhile is_digit a; na = read_run da;
            db = takeWhile is_digit b; rb = dropWhile is_digit b; nb = read_run db;
            sep = compare_separators (head_char ra) (head_char rb)
        in if (da \<noteq> [] \<or> db \<noteq> []) \<and> na \<noteq> nb then (if na < nb then - 1 else 1)
           else if sep \<noteq> 0 then sep
           else compare_version_strings (tl ra) (tl rb))"
  by pat_completeness auto

termination
proof (relation "measure (\<lambda>(a, b). length a + length b)")
  fix a b :: string and da ra na db rb nb sep
  assume "\<not> (a = [] \<and> b = [])" and ra: "ra = dropWhile is_digit a" and rb: "rb = dropWhile is_digit b"
    and sep: "sep = compare_separators (head_char ra) (head_char rb)" "\<not> sep \<noteq> 0"
    and na: "na = read_run da" and nb: "nb = read_run db"
    and da: "da = takeWhile is_digit a" and db: "db = takeWhile is_digit b"
  have shrink: "length (tl (dropWhile is_digit s)) < length s \<or> s = []" for s :: string
    using length_dropWhile_le [of is_digit s] by (cases "dropWhile is_digit s"; cases s) auto
  from shrink [of a] shrink [of b] \<open>\<not> (a = [] \<and> b = [])\<close>
  show "((tl ra, tl rb), (a, b)) \<in> measure (\<lambda>(a, b). length a + length b)"
    by (auto simp: ra rb)
qed simp

declare compare_version_strings.simps [simp del]

fun version_component :: "nat \<Rightarrow> string \<Rightarrow> string \<Rightarrow> u32 result" where
  "version_component value piece [] = Inr (of_nat value)"
| "version_component value piece (c # cs) =
     (if \<not> is_digit c then Inl (Error InvalidArgument ''non-numeric version component'' piece)
      else if value * 10 + digit_value c > 4294967295 then
        Inl (Error BoundExceeded ''version component out of range'' piece)
      else version_component (value * 10 + digit_value c) piece cs)"

text \<open>The text between the dots, as the repeated \<open>text.find('.', index)\<close> cuts it.\<close>

fun split_dots :: "string \<Rightarrow> string list" where
  "split_dots [] = [[]]"
| "split_dots (c # cs) =
     (if c = CHR ''.'' then [] # split_dots cs
      else case split_dots cs of [] \<Rightarrow> [[c]] | p # ps \<Rightarrow> (c # p) # ps)"

fun version_parts :: "string \<Rightarrow> u32 list \<Rightarrow> string list \<Rightarrow> u32 list result" where
  "version_parts text parts [] = Inr parts"
| "version_parts text parts (piece # ps) =
     (if piece = [] then Inl (Error InvalidArgument ''empty version component'' text)
      else case version_component 0 piece piece of
             Inl e \<Rightarrow> Inl e
           | Inr v \<Rightarrow>
               if length (parts @ [v]) > 8 then
                 Inl (Error BoundExceeded ''version has too many components'' text)
               else version_parts text (parts @ [v]) ps)"

definition parse_version :: "string \<Rightarrow> u32 list result" where
  "parse_version text =
     (if text = [] then Inl (Error InvalidArgument ''empty version string'' [])
      else version_parts text [] (split_dots text))"

section \<open>Evaluation of requirements\<close>

definition unpublished_check :: "CapabilityRequirement \<Rightarrow> CapabilityCheck" where
  "unpublished_check r =
     (let base = \<lparr>chk_requirement = r, chk_observed = CapabilityValue_Unknown,
                  chk_satisfied = Tri_Unknown, chk_detail = []\<rparr>
      in if req_comparator r \<noteq> CapabilityComparator_Present \<and>
            req_comparator r \<noteq> CapabilityComparator_Absent then
           base\<lparr>chk_satisfied := Tri_Unknown,
                chk_detail := ''capability not published; requirement cannot be evaluated''\<rparr>
         else if req_comparator r = CapabilityComparator_Absent then
           base\<lparr>chk_satisfied := Tri_Yes, chk_detail := ''capability is not published, as required''\<rparr>
         else base\<lparr>chk_satisfied := Tri_No, chk_detail := ''capability is not published''\<rparr>)"

text \<open>\<open>None\<close> when the published and the required value are not comparable.\<close>

definition values_equal :: "CapabilityValue \<Rightarrow> CapabilityValue \<Rightarrow> bool option" where
  "values_equal published required =
     (case compare_numeric_pairs published required of
        Some order \<Rightarrow> Some (order = 0)
      | None \<Rightarrow>
          if is_text published \<and> is_text required then Some (as_text published = as_text required)
          else if is_text_set published \<and> is_text required then
            Some (as_text required \<in> set (as_text_set published))
          else if is_boolean published \<and> is_boolean required then
            Some (as_boolean published False = as_boolean required True)
          else None)"

definition values_ordered :: "CapabilityValue \<Rightarrow> CapabilityValue \<Rightarrow> int option" where
  "values_ordered published required =
     (case compare_numeric_pairs published required of
        Some order \<Rightarrow> Some order
      | None \<Rightarrow>
          if is_text published \<and> is_text required then
            Some (compare_version_strings (as_text published) (as_text required))
          else None)"

fun any_of_check :: "CapabilityValue \<Rightarrow> string list \<Rightarrow> Tri \<times> string" where
  "any_of_check v [] = (Tri_No, ''published value matches none of the allowed alternatives'')"
| "any_of_check v (candidate # cs) =
     (if is_text v \<and> as_text v = candidate then
        (Tri_Yes, ''published value matches an allowed alternative'')
      else if is_text_set v \<and> candidate \<in> set (as_text_set v) then
        (Tri_Yes, ''published value set intersects the allowed alternatives'')
      else any_of_check v cs)"

fun all_of_check :: "string list \<Rightarrow> string list \<Rightarrow> Tri \<times> string" where
  "all_of_check published [] = (Tri_Yes, ''published value set contains every required member'')"
| "all_of_check published (candidate # cs) =
     (if candidate \<notin> set published then (Tri_No, ''published value set is missing '' @ candidate)
      else all_of_check published cs)"

definition evaluate_published :: "CapabilityRequirement \<Rightarrow> CapabilityValue \<Rightarrow> Tri \<times> string" where
  "evaluate_published r v =
     (case req_comparator r of
        CapabilityComparator_Present \<Rightarrow>
          if is_boolean v then
            let t = tri_from_bool (as_boolean v False)
            in (t, if t = Tri_Yes then ''published and enabled'' else ''published but disabled'')
          else (Tri_Yes, ''published'')
      | CapabilityComparator_Absent \<Rightarrow>
          if is_boolean v then
            let t = tri_not (tri_from_bool (as_boolean v True))
            in (t, if t = Tri_Yes then ''published and disabled'' else ''published and enabled'')
          else (Tri_No, ''published with a value'')
      | CapabilityComparator_AnyOf \<Rightarrow>
          if is_text_set (req_value r) then any_of_check v (as_text_set (req_value r))
          else (Tri_Unknown, ''ANY_OF requires a required value set'')
      | CapabilityComparator_AllOf \<Rightarrow>
          if is_text_set (req_value r) then
            (if \<not> is_text_set v then (Tri_No, ''published value is not a set'')
             else all_of_check (as_text_set v) (as_text_set (req_value r)))
          else (Tri_Unknown, ''ALL_OF requires a required value set'')
      | cmp \<Rightarrow>
          if cmp = CapabilityComparator_Equals \<or> cmp = CapabilityComparator_NotEquals then
            (case values_equal v (req_value r) of
               None \<Rightarrow> (Tri_Unknown, ''published value and required value are not comparable'')
             | Some eq \<Rightarrow>
                 let result = (if cmp = CapabilityComparator_Equals then eq else \<not> eq)
                 in (tri_from_bool result,
                     ''published '' @ CapabilityValue_to_string v @
                     (if result then '' satisfies '' else '' violates '') @
                     CapabilityValue_to_string (req_value r)))
          else
            (case values_ordered v (req_value r) of
               None \<Rightarrow> (Tri_Unknown, ''published value and required bound are not orderable'')
             | Some order \<Rightarrow>
                 let result = (if cmp = CapabilityComparator_AtLeast then order \<ge> 0 else order \<le> 0)
                 in (tri_from_bool result,
                     ''published '' @ CapabilityValue_to_string v @
                     (if result then '' satisfies '' else '' violates '') @
                     CapabilityComparator_to_string cmp @ '' '' @
                     CapabilityValue_to_string (req_value r))))"

definition evaluate_requirement :: "CapabilityRequirement \<Rightarrow> CapabilitySet \<Rightarrow> CapabilityCheck" where
  "evaluate_requirement r observed =
     (case CapabilitySet_find (req_key r) observed of
        None \<Rightarrow> unpublished_check r
      | Some entry \<Rightarrow>
          if \<not> value_known (ce_value entry) then
            \<lparr>chk_requirement = r, chk_observed = ce_value entry, chk_satisfied = Tri_Unknown,
             chk_detail = ''capability is published without a known value''\<rparr>
          else
            let (t, detail) = evaluate_published r (ce_value entry)
            in \<lparr>chk_requirement = r, chk_observed = ce_value entry, chk_satisfied = t,
                chk_detail = detail\<rparr>)"

definition evaluate_requirements :: "CapabilityRequirement list \<Rightarrow> CapabilitySet \<Rightarrow> CapabilityCheck list" where
  "evaluate_requirements requirements observed =
     map (\<lambda>r. evaluate_requirement r observed) requirements"

section \<open>The order of published capabilities\<close>

definition ref_key :: "CapabilityRef \<Rightarrow> u16 \<times> CapabilityKeyId" where
  "ref_key r = (key_code (cr_key r), cr_custom r)"

lemma CapabilityRef_less_key: "CapabilityRef_less a b \<longleftrightarrow> ref_key a < ref_key b"
  by (auto simp: CapabilityRef_less_def ref_key_def less_le CapabilityKey.expand)

lemma ref_key_inject [simp]: "ref_key a = ref_key b \<longleftrightarrow> a = b"
  by (auto simp: ref_key_def CapabilityKey.expand)

interpretation ref_order: comparator CapabilityRef_less
  by (rule comparator_key) (rule CapabilityRef_less_key)

lemma double_less_irrefl [simp]: "\<not> double_less d d"
  by (simp add: double_less_def)

lemma CapabilityValue_less_irrefl [simp]: "\<not> CapabilityValue_less v v"
  by (cases v) simp_all

lemma CapabilityEntry_less_irrefl: "\<not> CapabilityEntry_less e e"
  by (simp add: CapabilityEntry_less_def)

abbreviation entry_key_less :: "CapabilityEntry \<Rightarrow> CapabilityEntry \<Rightarrow> bool" where
  "entry_key_less a b \<equiv> ref_key (ce_key a) < ref_key (ce_key b)"

lemma stable_sort_cong:
  "(\<And>x y. x \<in> set xs \<Longrightarrow> y \<in> set xs \<Longrightarrow> lt x y = lt' x y) \<Longrightarrow> stable_sort lt xs = stable_sort lt' xs"
proof (induction xs)
  case (Cons x xs)
  have "(\<And>y. y \<in> set ys \<Longrightarrow> lt y x = lt' y x) \<Longrightarrow> insert_lt lt x ys = insert_lt lt' x ys" for ys
    by (induction ys) auto
  from this [of "stable_sort lt' xs"] show ?case using Cons by simp
qed simp

text \<open>Where the keys are distinct, the value and generation never decide.\<close>

lemma entry_less_key:
  "distinct (map ce_key es) \<Longrightarrow> x \<in> set es \<Longrightarrow> y \<in> set es \<Longrightarrow> CapabilityEntry_less x y = entry_key_less x y"
proof -
  assume d: "distinct (map ce_key es)" and m: "x \<in> set es" "y \<in> set es"
  show ?thesis
  proof (cases "ce_key x = ce_key y")
    case True
    then have "x = y" using d m by (simp add: distinct_map inj_on_def)
    then show ?thesis by (simp add: CapabilityEntry_less_irrefl)
  qed (simp add: CapabilityEntry_less_def CapabilityRef_less_key)
qed

lemma sort_entries_key:
  "distinct (map ce_key es) \<Longrightarrow> stable_sort CapabilityEntry_less es = stable_sort entry_key_less es"
  by (rule stable_sort_cong) (rule entry_less_key)

interpretation entry_key_order: comparator entry_key_less
  by (rule comparator_key) (rule refl)

definition CapabilitySet_ok :: "CapabilitySet \<Rightarrow> bool" where
  "CapabilitySet_ok s \<longleftrightarrow>
     lt_sorted entry_key_less (cset_entries s) \<and> distinct (map ce_key (cset_entries s)) \<and>
     length (cset_entries s) \<le> cset_limit s \<and>
     list_all (\<lambda>e. CapabilityRef_valid (ce_key e) \<and> length (ce_note e) \<le> 512) (cset_entries s)"

lemma CapabilitySet_ok_init [simp]: "CapabilitySet_ok (CapabilitySet_init n)"
  by (simp add: CapabilitySet_ok_def CapabilitySet_init_def lt_sorted_def)

lemma replace_first_keys [simp]: "map ce_key (replace_first e es) = map ce_key es"
  by (induction es) auto

lemma length_replace_first [simp]: "length (replace_first e es) = length es"
  by (metis length_map replace_first_keys)

lemma set_replace_first: "set (replace_first e es) \<subseteq> insert e (set es)"
  by (induction es) auto

lemma find_key_iff:
  "distinct (map ce_key es) \<Longrightarrow> find (\<lambda>e. ce_key e = k) es = Some e \<longleftrightarrow> e \<in> set es \<and> ce_key e = k"
  by (induction es) auto

lemma find_key_None: "find (\<lambda>e. ce_key e = k) es = None \<longleftrightarrow> k \<notin> ce_key ` set es"
  by (auto simp: find_None_iff)

lemma mem_replace_first:
  "distinct (map ce_key es) \<Longrightarrow> ce_key e \<in> ce_key ` set es \<Longrightarrow>
     x \<in> set (replace_first e es) \<longleftrightarrow> x = e \<or> x \<in> set es \<and> ce_key x \<noteq> ce_key e"
proof (induction es)
  case (Cons y ys)
  show ?case
  proof (cases "ce_key y = ce_key e")
    case True
    then have "ce_key e \<notin> ce_key ` set ys" using Cons.prems(1) by simp
    then have "\<And>z. z \<in> set ys \<Longrightarrow> ce_key z \<noteq> ce_key e" by (metis imageI)
    with True show ?thesis by auto
  next
    case False
    then have "ce_key e \<in> ce_key ` set ys" using Cons.prems(2) by auto
    with False Cons show ?thesis by auto
  qed
qed simp

lemma note_truncated_key [simp]: "ce_key (cset_note_truncated e) = ce_key e"
  by (simp add: cset_note_truncated_def)

lemma note_truncated_bounded: "length (ce_note (cset_note_truncated e)) \<le> 512"
  by (simp add: cset_note_truncated_def truncate_with_marker_length)

lemma note_truncated_id: "length (ce_note e) \<le> 512 \<Longrightarrow> cset_note_truncated e = e"
  by (simp add: cset_note_truncated_def)

text \<open>What a successful \<open>put\<close> stores, before sorting.\<close>

lemma CapabilitySet_put_Success:
  assumes "CapabilitySet_ok s" and "fst (CapabilitySet_put e s) = Success"
  shows "\<exists>es. snd (CapabilitySet_put e s) = s\<lparr>cset_entries := stable_sort entry_key_less es\<rparr> \<and>
     distinct (map ce_key es) \<and> length es \<le> cset_limit s \<and> CapabilityRef_valid (ce_key e) \<and>
     set es = insert (cset_note_truncated e) {x \<in> set (cset_entries s). ce_key x \<noteq> ce_key e}"
proof -
  let ?e = "cset_note_truncated e" and ?es = "cset_entries s"
  have ok: "distinct (map ce_key ?es)" "length ?es \<le> cset_limit s" using assms(1) by (simp_all add: CapabilitySet_ok_def)
  have v: "CapabilityRef_valid (ce_key e)" using assms(2) by (auto simp: CapabilitySet_put_def split: if_splits)
  have ex: "list_ex (\<lambda>x. ce_key x = ce_key e) ?es \<longleftrightarrow> ce_key e \<in> ce_key ` set ?es"
    by (simp add: list_ex_iff image_iff) metis
  show ?thesis
  proof (cases "ce_key e \<in> ce_key ` set ?es")
    case True
    then have "snd (CapabilitySet_put e s) = s\<lparr>cset_entries := stable_sort entry_key_less (replace_first ?e ?es)\<rparr>"
      using v ok ex by (simp add: CapabilitySet_put_def Let_def sort_entries_key)
    moreover have "set (replace_first ?e ?es) = insert ?e {x \<in> set ?es. ce_key x \<noteq> ce_key e}"
      using mem_replace_first [of ?es ?e] ok True by auto
    ultimately show ?thesis using ok v by (intro exI [of _ "replace_first ?e ?es"]) simp
  next
    case False
    have d: "distinct (map ce_key (?es @ [?e]))" using False ok by simp
    have l: "length ?es < cset_limit s" using assms(2) v False ex
      by (simp add: CapabilitySet_put_def Let_def not_le split: if_splits)
    have "snd (CapabilitySet_put e s) = s\<lparr>cset_entries := stable_sort entry_key_less (?es @ [?e])\<rparr>"
      using v False l ex by (simp add: CapabilitySet_put_def Let_def sort_entries_key [OF d])
    moreover have "set (?es @ [?e]) = insert ?e {x \<in> set ?es. ce_key x \<noteq> ce_key e}"
      using False by (auto simp: image_iff)
    ultimately show ?thesis using d l v by (intro exI [of _ "?es @ [?e]"]) simp
  qed
qed

lemma CapabilitySet_put_Failure:
  "fst (CapabilitySet_put e s) \<noteq> Success \<Longrightarrow> snd (CapabilitySet_put e s) = s"
  by (auto simp: CapabilitySet_put_def Let_def split: if_splits)

lemma CapabilitySet_put_ok: "CapabilitySet_ok s \<Longrightarrow> CapabilitySet_ok (snd (CapabilitySet_put e s))"
proof (cases "fst (CapabilitySet_put e s) = Success")
  case True
  assume ok: "CapabilitySet_ok s"
  show ?thesis using CapabilitySet_put_Success [OF ok True] ok
    by (auto simp: CapabilitySet_ok_def list_all_iff entry_key_order.stable_sort_sorted note_truncated_bounded)
qed (simp add: CapabilitySet_put_Failure)

lemma find_key_same:
  assumes "distinct (map ce_key es)" and "distinct (map ce_key fs)" and "set es = set fs"
  shows "find (\<lambda>e. ce_key e = k) es = find (\<lambda>e. ce_key e = k) fs"
proof (cases "find (\<lambda>e. ce_key e = k) fs")
  case None
  then have "k \<notin> ce_key ` set fs" unfolding find_key_None .
  then have "find (\<lambda>e. ce_key e = k) es = None" unfolding find_key_None assms(3) .
  with None show ?thesis by simp
next
  case (Some e)
  then have "e \<in> set es \<and> ce_key e = k" unfolding find_key_iff [OF assms(2)] assms(3) .
  then have "find (\<lambda>e. ce_key e = k) es = Some e" unfolding find_key_iff [OF assms(1)] .
  with Some show ?thesis by simp
qed

text \<open>
  \<open>CapabilitySet::put\<close> keeps the set sorted by key, duplicate free and bounded. On success
  exactly the entry of that key is replaced (with its note truncated) and every other lookup is
  unchanged; it fails, changing nothing, only for an invalid key or a new key in a full set.
\<close>

lemma capability_put_find:
  assumes "CapabilitySet_ok s"
  shows "CapabilitySet_ok (snd (CapabilitySet_put e s)) \<and>
    (case fst (CapabilitySet_put e s) of
       Success \<Rightarrow> CapabilitySet_find k (snd (CapabilitySet_put e s)) =
         (if k = ce_key e then Some (cset_note_truncated e) else CapabilitySet_find k s)
     | Failure _ \<Rightarrow> snd (CapabilitySet_put e s) = s \<and>
         (\<not> CapabilityRef_valid (ce_key e) \<or>
          CapabilitySet_find (ce_key e) s = None \<and> length (cset_entries s) = cset_limit s))"
proof (cases "fst (CapabilitySet_put e s)")
  case Success
  obtain es where es: "snd (CapabilitySet_put e s) = s\<lparr>cset_entries := stable_sort entry_key_less es\<rparr>"
    "distinct (map ce_key es)" "set es = insert (cset_note_truncated e) {x \<in> set (cset_entries s). ce_key x \<noteq> ce_key e}"
    using CapabilitySet_put_Success [OF assms Success] by blast
  have d: "distinct (map ce_key (cset_entries s))" using assms by (simp add: CapabilitySet_ok_def)
  have "CapabilitySet_find k (snd (CapabilitySet_put e s)) = find (\<lambda>e. ce_key e = k) es"
    using find_key_same [of "stable_sort entry_key_less es" es k] es(2)
    by (simp add: es(1) CapabilitySet_find_def)
  also have "\<dots> = (if k = ce_key e then Some (cset_note_truncated e) else CapabilitySet_find k s)"
  proof (cases "k = ce_key e")
    case False
    show ?thesis
    proof (cases "CapabilitySet_find k s")
      case None
      then have "k \<notin> ce_key ` set (cset_entries s)" unfolding CapabilitySet_find_def find_key_None .
      then have "k \<notin> ce_key ` set es" using False unfolding es(3) by auto
      then have "find (\<lambda>e. ce_key e = k) es = None" unfolding find_key_None .
      then show ?thesis using None False by simp
    next
      case (Some x)
      then have "x \<in> set (cset_entries s)" "ce_key x = k"
        using d by (simp_all add: CapabilitySet_find_def find_key_iff)
      then have "find (\<lambda>e. ce_key e = k) es = Some x"
        using False unfolding find_key_iff [OF es(2)] es(3) by simp
      then show ?thesis using Some False by simp
    qed
  qed (simp add: find_key_iff [OF es(2)] es(3))
  finally show ?thesis using assms Success by (simp add: CapabilitySet_put_ok)
next
  case (Failure err)
  then have "snd (CapabilitySet_put e s) = s" by (simp add: CapabilitySet_put_Failure)
  moreover have "\<not> CapabilityRef_valid (ce_key e) \<or>
          CapabilitySet_find (ce_key e) s = None \<and> length (cset_entries s) = cset_limit s"
    using Failure assms
    by (auto simp: CapabilitySet_put_def Let_def CapabilitySet_find_def find_None_iff list_ex_iff
        CapabilitySet_ok_def split: if_splits)
  ultimately show ?thesis using assms Failure by simp
qed

section \<open>Numeric comparison\<close>

text \<open>The integer an integral value denotes.\<close>

fun integral_value :: "CapabilityValue \<Rightarrow> int" where
  "integral_value (CapabilityValue_Integer v) = v"
| "integral_value (CapabilityValue_Unsigned u) = uint u"
| "integral_value _ = 0"

definition value_ok :: "CapabilityValue \<Rightarrow> bool" where
  "value_ok v = (case v of
      CapabilityValue_Integer i \<Rightarrow> i64_range i
    | CapabilityValue_Text t \<Rightarrow> text_ok t
    | CapabilityValue_TextSet ts \<Rightarrow>
        texts_encodable kMaxValueSetEntries ts \<and> list_all (\<lambda>t. length t \<le> 256) ts
    | _ \<Rightarrow> True)"

lemma three_way_int: "three_way (x < y) (x > y) = sgn (x - y :: int)"
  by (simp add: three_way_def sgn_if)

lemma word_less_uint: "(a :: u64) < b \<longleftrightarrow> uint a < uint b"
  by (rule word_less_def)

lemma compare_integral_exact:
  assumes "is_integral a" and "is_integral b" and "value_ok a" and "value_ok b"
  shows "compare_numeric_pairs a b = Some (sgn (integral_value a - integral_value b))"
proof -
  have u: "as_integer v 0 \<ge> 0 \<Longrightarrow> uint (as_unsigned v 0) = integral_value v"
    if "is_integral v" "value_ok v" for v
    using that by (cases v) (auto simp: is_integral_def value_ok_def i64_range_def
        unsigned_of_int take_bit_int_eq_self split: if_splits)
  have neg: "\<not> (as_integer a 0 \<ge> 0 \<and> as_integer b 0 \<ge> 0) \<Longrightarrow>
     sgn (as_integer a 0 - as_integer b 0) = sgn (integral_value a - integral_value b)"
    using assms uint_lt2p [of "as_unsigned a 0"]
    by (cases a; cases b) (auto simp: is_integral_def value_ok_def i64_range_def sgn_if split: if_splits)
  show ?thesis
  proof (cases "as_integer a 0 \<ge> 0 \<and> as_integer b 0 \<ge> 0")
    case True
    then show ?thesis using assms u [of a] u [of b] three_way_int [of "uint (as_unsigned a 0)" "uint (as_unsigned b 0)"]
      by (simp add: compare_numeric_pairs_def word_less_uint three_way_int)
  next
    case False
    then show ?thesis using assms neg three_way_int [of "as_integer a 0" "as_integer b 0"]
      by (auto simp: compare_numeric_pairs_def)
  qed
qed

section \<open>Version strings\<close>

lemma compare_separators_antisym: "compare_separators a b = - compare_separators b a"
  by (simp add: compare_separators_def)

lemma compare_version_antisym: "compare_version_strings a b = - compare_version_strings b a"
proof (induction a b rule: compare_version_strings.induct)
  case (1 a b)
  let ?na = "read_run (takeWhile is_digit a)" and ?nb = "read_run (takeWhile is_digit b)"
  show ?case
  proof (cases "(a = [] \<and> b = []) \<or> ((takeWhile is_digit a \<noteq> [] \<or> takeWhile is_digit b \<noteq> []) \<and> ?na \<noteq> ?nb)
      \<or> compare_separators (head_char (dropWhile is_digit a)) (head_char (dropWhile is_digit b)) \<noteq> 0")
    case True
    then show ?thesis
      unfolding compare_version_strings.simps [of a b] compare_version_strings.simps [of b a]
      using compare_separators_antisym [of "head_char (dropWhile is_digit a)" "head_char (dropWhile is_digit b)"]
      by (auto simp: Let_def not_less_iff_gr_or_eq)
  next
    case False
    then show ?thesis
      unfolding compare_version_strings.simps [of a b] compare_version_strings.simps [of b a]
      using compare_separators_antisym [of "head_char (dropWhile is_digit a)" "head_char (dropWhile is_digit b)"]
        "1.IH" by (auto simp: Let_def)
  qed
qed

lemma compare_version_refl: "compare_version_strings a a = 0"
  using compare_version_antisym [of a a] by simp

lemma compare_version_range: "compare_version_strings a b \<in> {- 1, 0, 1}"
proof (induction a b rule: compare_version_strings.induct)
  case (1 a b)
  then show ?case
    by (subst compare_version_strings.simps) (auto simp: Let_def compare_separators_def)
qed

lemma missing_component_is_older: "compare_version_strings ''1.2'' ''1.2.0'' = - 1"
  by code_simp

section \<open>Parsing versions\<close>

lemma digit_of_nat [simp]: "d < 10 \<Longrightarrow> is_digit (char_of (48 + d :: nat))"
  by (simp add: is_digit_def less_eq_char_def)

lemma digit_value_of_nat [simp]: "d < 10 \<Longrightarrow> digit_value (char_of (48 + d)) = d"
  by (simp add: digit_value_def)

lemma to_string_digits: "list_all is_digit (to_string_nat n)"
proof (induction n rule: to_string_nat.induct)
  case (1 n)
  then show ?case by (subst to_string_nat.simps) auto
qed

lemma version_component_append:
  "version_component v p (xs @ ys) =
     (case version_component v p xs of Inl e \<Rightarrow> Inl e | Inr _ \<Rightarrow>
        version_component (foldl (\<lambda>n c. n * 10 + digit_value c) v xs) p ys)"
  by (induction xs arbitrary: v) (auto split: sum.splits)

lemma version_component_to_string:
  "n \<le> 4294967295 \<Longrightarrow> version_component 0 p (to_string_nat n) = Inr (of_nat n) \<and>
     foldl (\<lambda>n c. n * 10 + digit_value c) 0 (to_string_nat n) = n"
proof (induction n rule: to_string_nat.induct)
  case (1 n)
  show ?case
  proof (cases "n < 10")
    case True
    then show ?thesis by (subst (1 2) to_string_nat.simps) simp
  next
    case False
    with 1 have "version_component 0 p (to_string_nat (n div 10)) = Inr (of_nat (n div 10)) \<and>
     foldl (\<lambda>n c. n * 10 + digit_value c) 0 (to_string_nat (n div 10)) = n div 10" by simp
    with False "1.prems" show ?thesis
      by (subst (1 2) to_string_nat.simps) (simp add: version_component_append)
  qed
qed

lemma split_dots_nonempty [simp]: "split_dots s \<noteq> []"
  by (induction s) (auto split: list.splits)

lemma split_dots_append:
  "CHR ''.'' \<notin> set p \<Longrightarrow> split_dots (p @ CHR ''.'' # s) = p # split_dots s"
  by (induction p) auto

lemma split_dots_single: "CHR ''.'' \<notin> set p \<Longrightarrow> split_dots p = [p]"
  by (induction p) auto

lemma split_dots_join:
  "ps \<noteq> [] \<Longrightarrow> (\<And>p. p \<in> set ps \<Longrightarrow> CHR ''.'' \<notin> set p) \<Longrightarrow> split_dots (join_strings ps ''.'') = ps"
  by (induction ps "''.''" rule: join_strings.induct) (auto simp: split_dots_single split_dots_append)

lemma no_dot_in_digits: "list_all is_digit s \<Longrightarrow> CHR ''.'' \<notin> set s"
  by (auto simp: list_all_iff is_digit_def less_eq_char_def)

lemma version_parts_numbers:
  "length parts + length vs \<le> 8 \<Longrightarrow>
     version_parts t parts (map (\<lambda>v. to_string_nat (unat v)) vs) = Inr (parts @ vs)"
proof (induction vs arbitrary: parts)
  case (Cons v vs)
  have "unat v \<le> 4294967295" using unsigned_less [of v, where ?'a = nat] by simp
  then have "version_component 0 p (to_string_nat (unat v)) = Inr v" for p
    by (simp add: version_component_to_string)
  with Cons show ?case by simp
qed simp

text \<open>
  \<open>parse_version\<close> reads back every version of one to eight 32-bit components printed in
  dotted form.
\<close>

lemma parse_version_round_trip:
  assumes "vs \<noteq> []" and "length vs \<le> 8"
  shows "parse_version (join_strings (map (\<lambda>v. to_string_nat (unat v)) vs) ''.'') = Inr vs"
proof -
  let ?ps = "map (\<lambda>v. to_string_nat (unat v)) vs"
  have "split_dots (join_strings ?ps ''.'') = ?ps"
    using assms(1) by (intro split_dots_join) (auto dest: no_dot_in_digits [OF to_string_digits, THEN notE])
  moreover have "join_strings ?ps ''.'' \<noteq> []"
    using assms(1) by (cases vs rule: remdups_adj.cases) auto
  ultimately show ?thesis
    using version_parts_numbers [of "[]" vs] assms(2) by (simp add: parse_version_def)
qed

section \<open>Keys\<close>

lemma key_table_distinct: "distinct (map fst kKeyTable)" "distinct (map (fst \<circ> snd) kKeyTable)"
  by (simp_all add: kKeyTable_def)

lemma find_in_table:
  "distinct (map f xs) \<Longrightarrow> x \<in> set xs \<Longrightarrow> find (\<lambda>e. f e = f x) xs = Some x"
  by (induction xs) auto

lemma key_count: "length kKeyTable = 59"
  by (simp add: kKeyTable_def)

lemma key_names_plain: "(k, n, c) \<in> set kKeyTable \<Longrightarrow> k \<noteq> CapabilityKey_Custom \<and> n \<noteq> ''custom'' \<and> n \<noteq> ''unknown''"
  by (auto simp: kKeyTable_def)

text \<open>
  Every key of the table has its own name: printing and parsing are inverse, and the
  category is the one of the table.
\<close>

lemma capability_key_round_trip:
  "list_all (\<lambda>(k, name, category).
      CapabilityKey_to_string k = name \<and> parse_capability_key name = Some k \<and> category_of k = category)
    kKeyTable \<and> parse_capability_key (CapabilityKey_to_string CapabilityKey_Custom) = Some CapabilityKey_Custom"
proof
  show "list_all (\<lambda>(k, name, category).
      CapabilityKey_to_string k = name \<and> parse_capability_key name = Some k \<and> category_of k = category) kKeyTable"
  proof (unfold list_all_iff, clarify)
    fix k n c assume e: "(k, n, c) \<in> set kKeyTable"
    have "find (\<lambda>e. fst e = k) kKeyTable = Some (k, n, c)"
      using find_in_table [OF key_table_distinct(1) e] by simp
    moreover have "find (\<lambda>e. fst (snd e) = n) kKeyTable = Some (k, n, c)"
      using find_in_table [OF key_table_distinct(2) e] by simp
    ultimately show "CapabilityKey_to_string k = n \<and> parse_capability_key n = Some k \<and> category_of k = c"
      using key_names_plain [OF e] by (simp add: CapabilityKey_to_string_def parse_capability_key_def category_of_def)
  qed
  show "parse_capability_key (CapabilityKey_to_string CapabilityKey_Custom) = Some CapabilityKey_Custom"
    by (simp add: CapabilityKey_to_string_def parse_capability_key_def kKeyTable_def)
qed

section \<open>Evaluation\<close>

lemma evaluate_unpublished:
  "CapabilitySet_find (req_key r) s = None \<Longrightarrow>
     chk_satisfied (evaluate_requirement r s) =
       (case req_comparator r of
          CapabilityComparator_Present \<Rightarrow> Tri_No
        | CapabilityComparator_Absent \<Rightarrow> Tri_Yes
        | _ \<Rightarrow> Tri_Unknown)"
  by (simp add: evaluate_requirement_def unpublished_check_def Let_def split: CapabilityComparator.splits)

lemma evaluate_satisfied_published:
  "CapabilitySet_find (req_key r) s = Some e \<Longrightarrow>
     chk_satisfied (evaluate_requirement r s) =
       (if value_known (ce_value e) then fst (evaluate_published r (ce_value e)) else Tri_Unknown)"
  by (simp add: evaluate_requirement_def split_beta)

text \<open>
  A requirement that compares a value (anything but \<open>PRESENT\<close> and \<open>ABSENT\<close>) is decided only
  by a published capability with a known value; without it the answer is \<open>Unknown\<close>.
\<close>

lemma requirement_needs_evidence:
  assumes "req_comparator r \<notin> {CapabilityComparator_Present, CapabilityComparator_Absent}"
    and "chk_satisfied (evaluate_requirement r s) \<noteq> Tri_Unknown"
  shows "\<exists>e. CapabilitySet_find (req_key r) s = Some e \<and> value_known (ce_value e)"
proof (cases "CapabilitySet_find (req_key r) s")
  case None
  with assms show ?thesis by (simp add: evaluate_unpublished split: CapabilityComparator.splits)
next
  case (Some e)
  with assms show ?thesis by (auto simp: evaluate_satisfied_published split: if_splits)
qed

lemma evaluate_comparator_find:
  "CapabilitySet_find (req_key (r\<lparr>req_comparator := c\<rparr>)) s = CapabilitySet_find (req_key r) s"
  by simp

text \<open>
  \<open>NOT_EQUALS\<close> is the tri-state negation of \<open>EQUALS\<close>, and \<open>ABSENT\<close> of \<open>PRESENT\<close>, for every
  requirement and every capability set.
\<close>

lemma requirement_negation:
  "chk_satisfied (evaluate_requirement (r\<lparr>req_comparator := CapabilityComparator_NotEquals\<rparr>) s) =
     tri_not (chk_satisfied (evaluate_requirement (r\<lparr>req_comparator := CapabilityComparator_Equals\<rparr>) s)) \<and>
   chk_satisfied (evaluate_requirement (r\<lparr>req_comparator := CapabilityComparator_Absent\<rparr>) s) =
     tri_not (chk_satisfied (evaluate_requirement (r\<lparr>req_comparator := CapabilityComparator_Present\<rparr>) s))"
proof (cases "CapabilitySet_find (req_key r) s")
  case None
  then show ?thesis by (simp add: evaluate_unpublished)
next
  case (Some e)
  have b: "is_boolean v \<Longrightarrow> as_boolean v True = as_boolean v False" for v
    by (cases v) (simp_all add: is_boolean_def)
  show ?thesis using Some b [of "ce_value e"]
    by (auto simp: evaluate_satisfied_published evaluate_published_def Let_def tri_from_bool_def split: option.splits)
qed

text \<open>
  On integral values, signed or unsigned, the comparators \<open>AT_LEAST\<close>, \<open>AT_MOST\<close> and \<open>EQUALS\<close>
  decide exactly the order of the integers, over the whole 64-bit signed and unsigned ranges.
\<close>

lemma integral_bounds_exact:
  assumes "CapabilitySet_find (req_key r) s = Some e"
    and "is_integral (ce_value e)" and "is_integral (req_value r)"
    and "value_ok (ce_value e)" and "value_ok (req_value r)"
  shows "chk_satisfied (evaluate_requirement (r\<lparr>req_comparator := CapabilityComparator_AtLeast\<rparr>) s) =
       tri_from_bool (integral_value (ce_value e) \<ge> integral_value (req_value r)) \<and>
     chk_satisfied (evaluate_requirement (r\<lparr>req_comparator := CapabilityComparator_AtMost\<rparr>) s) =
       tri_from_bool (integral_value (ce_value e) \<le> integral_value (req_value r)) \<and>
     chk_satisfied (evaluate_requirement (r\<lparr>req_comparator := CapabilityComparator_Equals\<rparr>) s) =
       tri_from_bool (integral_value (ce_value e) = integral_value (req_value r))"
proof -
  have k: "value_known (ce_value e)" using assms(2) by (auto simp: value_known_def is_integral_def)
  have "sgn x \<ge> 0 \<longleftrightarrow> x \<ge> 0" "sgn x \<le> 0 \<longleftrightarrow> x \<le> 0" for x :: int by (auto simp: sgn_if)
  with k show ?thesis
    using compare_integral_exact [OF assms(2-5)] assms(1)
    by (simp add: evaluate_satisfied_published evaluate_published_def values_ordered_def values_equal_def
        Let_def sgn_eq_0_iff)
qed

section \<open>Instances\<close>

definition sample_entry :: CapabilityEntry where
  "sample_entry =
     \<lparr>ce_key = \<lparr>cr_key = CapabilityKey_MemoryBytes, cr_custom = no_id\<rparr>,
      ce_value = CapabilityValue_Unsigned 80, ce_precision = Precision_Exact,
      ce_evidence_class = EvidenceClass_Real, ce_generation = Generation 1, ce_note = []\<rparr>"

definition sample_requirement :: CapabilityRequirement where
  "sample_requirement =
     \<lparr>req_key = \<lparr>cr_key = CapabilityKey_MemoryBytes, cr_custom = no_id\<rparr>,
      req_comparator = CapabilityComparator_AtLeast, req_value = CapabilityValue_Integer 64,
      req_optional = False, req_rationale = []\<rparr>"

definition sample_set :: CapabilitySet where
  "sample_set = \<lparr>cset_entries = [sample_entry], cset_limit = 8\<rparr>"

lemma sample_find: "CapabilitySet_find (req_key sample_requirement) sample_set = Some sample_entry"
  by (simp add: sample_set_def sample_requirement_def sample_entry_def CapabilitySet_find_def)

end
