(* ===== verification/FO_Model.thy ===== *)
theory FO_Model
  imports FO_Capacity FO_Capability
begin

text \<open>
  The structural records of a federation (\<open>model.hpp\<close>, \<open>model.cpp\<close>): currentness and the other
  enumerations, the observation stamp, one record per published entity with the sources' default
  values, and their validation. \<open>checks\<close> runs the guards of a \<open>validate()\<close> in order and returns the
  first refusal; \<open>refuse_if\<close> is one guard.
\<close>

section \<open>Guards\<close>

definition refuse_if :: "bool \<Rightarrow> ErrorCode \<Rightarrow> string \<Rightarrow> string \<Rightarrow> Status" where
  "refuse_if condition code message detail = (if condition then fail code message detail else Success)"

definition checks :: "Status list \<Rightarrow> Status" where
  "checks guards = first_failure (\<lambda>s. s) guards"

section \<open>Enumerations\<close>

datatype Currentness =
    Currentness_Unknown
  | Currentness_Current
  | Currentness_Stale
  | Currentness_RevalidationRequired
  | Currentness_Retired

definition Currentness_values :: "Currentness list" where
  "Currentness_values =
     [Currentness_Unknown, Currentness_Current, Currentness_Stale,
      Currentness_RevalidationRequired, Currentness_Retired]"

fun Currentness_to_string :: "Currentness \<Rightarrow> string" where
  "Currentness_to_string Currentness_Unknown = ''UNKNOWN''"
| "Currentness_to_string Currentness_Current = ''CURRENT''"
| "Currentness_to_string Currentness_Stale = ''STALE''"
| "Currentness_to_string Currentness_RevalidationRequired = ''REVALIDATION_REQUIRED''"
| "Currentness_to_string Currentness_Retired = ''RETIRED''"

interpretation currentness_enum: named_enumeration Currentness_values Currentness_to_string
proof unfold_locales
  show "v \<in> set Currentness_values" for v by (cases v) (simp_all add: Currentness_values_def)
qed (simp_all add: Currentness_values_def)

definition parse_currentness :: "string \<Rightarrow> Currentness option" where
  "parse_currentness = parse_enum Currentness_values Currentness_to_string"

definition is_current :: "Currentness \<Rightarrow> bool" where
  "is_current currentness = (currentness = Currentness_Current)"

datatype Readiness =
    Readiness_Unknown
  | Readiness_Ready
  | Readiness_NotReady
  | Readiness_Draining
  | Readiness_Retired

definition Readiness_values :: "Readiness list" where
  "Readiness_values =
     [Readiness_Unknown, Readiness_Ready, Readiness_NotReady, Readiness_Draining,
      Readiness_Retired]"

fun Readiness_to_string :: "Readiness \<Rightarrow> string" where
  "Readiness_to_string Readiness_Unknown = ''UNKNOWN''"
| "Readiness_to_string Readiness_Ready = ''READY''"
| "Readiness_to_string Readiness_NotReady = ''NOT_READY''"
| "Readiness_to_string Readiness_Draining = ''DRAINING''"
| "Readiness_to_string Readiness_Retired = ''RETIRED''"

interpretation readiness_enum: named_enumeration Readiness_values Readiness_to_string
proof unfold_locales
  show "v \<in> set Readiness_values" for v by (cases v) (simp_all add: Readiness_values_def)
qed (simp_all add: Readiness_values_def)

definition parse_readiness :: "string \<Rightarrow> Readiness option" where
  "parse_readiness = parse_enum Readiness_values Readiness_to_string"

datatype RuntimeKind =
    RuntimeKind_Unknown
  | RuntimeKind_Cuda
  | RuntimeKind_Rocm
  | RuntimeKind_OneApi
  | RuntimeKind_Metal
  | RuntimeKind_Vulkan
  | RuntimeKind_OpenCl
  | RuntimeKind_CpuGeneric
  | RuntimeKind_Custom

definition RuntimeKind_values :: "RuntimeKind list" where
  "RuntimeKind_values =
     [RuntimeKind_Unknown, RuntimeKind_Cuda, RuntimeKind_Rocm, RuntimeKind_OneApi,
      RuntimeKind_Metal, RuntimeKind_Vulkan, RuntimeKind_OpenCl, RuntimeKind_CpuGeneric,
      RuntimeKind_Custom]"

fun RuntimeKind_to_string :: "RuntimeKind \<Rightarrow> string" where
  "RuntimeKind_to_string RuntimeKind_Unknown = ''UNKNOWN''"
| "RuntimeKind_to_string RuntimeKind_Cuda = ''CUDA''"
| "RuntimeKind_to_string RuntimeKind_Rocm = ''ROCM''"
| "RuntimeKind_to_string RuntimeKind_OneApi = ''ONEAPI''"
| "RuntimeKind_to_string RuntimeKind_Metal = ''METAL''"
| "RuntimeKind_to_string RuntimeKind_Vulkan = ''VULKAN''"
| "RuntimeKind_to_string RuntimeKind_OpenCl = ''OPENCL''"
| "RuntimeKind_to_string RuntimeKind_CpuGeneric = ''CPU_GENERIC''"
| "RuntimeKind_to_string RuntimeKind_Custom = ''CUSTOM''"

interpretation runtime_kind_enum: named_enumeration RuntimeKind_values RuntimeKind_to_string
proof unfold_locales
  show "v \<in> set RuntimeKind_values" for v by (cases v) (simp_all add: RuntimeKind_values_def)
qed (simp_all add: RuntimeKind_values_def)

definition parse_runtime_kind :: "string \<Rightarrow> RuntimeKind option" where
  "parse_runtime_kind = parse_enum RuntimeKind_values RuntimeKind_to_string"

datatype ArtifactKind =
    ArtifactKind_Unknown
  | ArtifactKind_ExecutableBinary
  | ArtifactKind_SharedLibrary
  | ArtifactKind_DeviceImage
  | ArtifactKind_ContainerImage
  | ArtifactKind_ModelWeights
  | ArtifactKind_Adapter
  | ArtifactKind_Checkpoint
  | ArtifactKind_DatasetShard
  | ArtifactKind_Custom

definition ArtifactKind_values :: "ArtifactKind list" where
  "ArtifactKind_values =
     [ArtifactKind_Unknown, ArtifactKind_ExecutableBinary, ArtifactKind_SharedLibrary,
      ArtifactKind_DeviceImage, ArtifactKind_ContainerImage, ArtifactKind_ModelWeights,
      ArtifactKind_Adapter, ArtifactKind_Checkpoint, ArtifactKind_DatasetShard,
      ArtifactKind_Custom]"

fun ArtifactKind_to_string :: "ArtifactKind \<Rightarrow> string" where
  "ArtifactKind_to_string ArtifactKind_Unknown = ''UNKNOWN''"
| "ArtifactKind_to_string ArtifactKind_ExecutableBinary = ''EXECUTABLE_BINARY''"
| "ArtifactKind_to_string ArtifactKind_SharedLibrary = ''SHARED_LIBRARY''"
| "ArtifactKind_to_string ArtifactKind_DeviceImage = ''DEVICE_IMAGE''"
| "ArtifactKind_to_string ArtifactKind_ContainerImage = ''CONTAINER_IMAGE''"
| "ArtifactKind_to_string ArtifactKind_ModelWeights = ''MODEL_WEIGHTS''"
| "ArtifactKind_to_string ArtifactKind_Adapter = ''ADAPTER''"
| "ArtifactKind_to_string ArtifactKind_Checkpoint = ''CHECKPOINT''"
| "ArtifactKind_to_string ArtifactKind_DatasetShard = ''DATASET_SHARD''"
| "ArtifactKind_to_string ArtifactKind_Custom = ''CUSTOM''"

interpretation artifact_kind_enum: named_enumeration ArtifactKind_values ArtifactKind_to_string
proof unfold_locales
  show "v \<in> set ArtifactKind_values" for v by (cases v) (simp_all add: ArtifactKind_values_def)
qed (simp_all add: ArtifactKind_values_def)

definition parse_artifact_kind :: "string \<Rightarrow> ArtifactKind option" where
  "parse_artifact_kind = parse_enum ArtifactKind_values ArtifactKind_to_string"

datatype DomainKind =
    DomainKind_Unknown
  | DomainKind_Cluster
  | DomainKind_Site
  | DomainKind_Federation

definition DomainKind_values :: "DomainKind list" where
  "DomainKind_values =
     [DomainKind_Unknown, DomainKind_Cluster, DomainKind_Site, DomainKind_Federation]"

fun DomainKind_to_string :: "DomainKind \<Rightarrow> string" where
  "DomainKind_to_string DomainKind_Unknown = ''UNKNOWN''"
| "DomainKind_to_string DomainKind_Cluster = ''CLUSTER''"
| "DomainKind_to_string DomainKind_Site = ''SITE''"
| "DomainKind_to_string DomainKind_Federation = ''FEDERATION''"

interpretation domain_kind_enum: named_enumeration DomainKind_values DomainKind_to_string
proof unfold_locales
  show "v \<in> set DomainKind_values" for v by (cases v) (simp_all add: DomainKind_values_def)
qed (simp_all add: DomainKind_values_def)

definition parse_domain_kind :: "string \<Rightarrow> DomainKind option" where
  "parse_domain_kind = parse_enum DomainKind_values DomainKind_to_string"

section \<open>Observation stamps\<close>

record ObservationStamp =
  os_publisher :: PublisherId
  os_publisher_boot :: BootGeneration
  os_coordinator_epoch :: CoordinatorEpoch
  os_evidence_generation :: EvidenceGeneration
  os_sequence :: Sequence
  os_observed_at :: TimestampNanos
  os_precision :: Precision
  os_evidence_class :: EvidenceClass
  os_provenance :: Provenance

definition ObservationStamp_init :: ObservationStamp where
  "ObservationStamp_init =
     \<lparr>os_publisher = no_id, os_publisher_boot = gen_unset, os_coordinator_epoch = gen_unset,
      os_evidence_generation = gen_unset, os_sequence = Sequence 0, os_observed_at = 0,
      os_precision = Precision_Unknown, os_evidence_class = EvidenceClass_Unknown,
      os_provenance = Provenance_Unknown\<rparr>"

definition ObservationStamp_valid :: "ObservationStamp \<Rightarrow> bool" where
  "ObservationStamp_valid s = (\<not> id_empty (os_publisher s))"

section \<open>Federation\<close>

record FederationRecord =
  fr_id :: FederationId
  fr_generation :: FederationGeneration
  fr_display_name :: string
  fr_coordinator_epoch :: CoordinatorEpoch
  fr_sites :: "SiteId list"
  fr_clusters :: "ClusterId list"
  fr_accelerator_classes :: "AcceleratorClassId list"
  fr_runtimes :: "RuntimeId list"
  fr_workload_classes :: "WorkloadClassId list"
  fr_policy :: PolicyId
  fr_policy_generation :: PolicyGeneration
  fr_compatibility_generation :: CompatibilityGeneration
  fr_capacity_generation :: CapacityGeneration
  fr_topology_generation :: TopologyGeneration
  fr_evidence_generation :: EvidenceGeneration
  fr_currentness :: Currentness
  fr_stamp :: ObservationStamp
  fr_evidence :: EvidenceList

definition FederationRecord_init :: FederationRecord where
  "FederationRecord_init =
     \<lparr>fr_id = no_id, fr_generation = gen_unset, fr_display_name = [],
      fr_coordinator_epoch = gen_unset, fr_sites = [], fr_clusters = [],
      fr_accelerator_classes = [], fr_runtimes = [], fr_workload_classes = [], fr_policy = no_id,
      fr_policy_generation = gen_unset, fr_compatibility_generation = gen_unset,
      fr_capacity_generation = gen_unset, fr_topology_generation = gen_unset,
      fr_evidence_generation = gen_unset, fr_currentness = Currentness_Unknown,
      fr_stamp = ObservationStamp_init, fr_evidence = no_evidence\<rparr>"

definition FederationRecord_validate :: "FederationRecord \<Rightarrow> Status" where
  "FederationRecord_validate r =
     checks
       [refuse_if (id_empty (fr_id r)) InvalidArgument ''federation id is empty'' [],
        refuse_if (\<not> is_set (fr_generation r)) InvalidArgument ''federation generation is unset'' (id_value (fr_id r)),
        refuse_if (\<not> is_set (fr_coordinator_epoch r)) InvalidArgument ''coordinator epoch is unset'' (id_value (fr_id r)),
        refuse_if (has_duplicates (fr_sites r)) InvalidArgument ''duplicate site reference'' (id_value (fr_id r)),
        refuse_if (has_duplicates (fr_clusters r)) InvalidArgument ''duplicate cluster reference'' (id_value (fr_id r)),
        refuse_if (has_duplicates (fr_accelerator_classes r)) InvalidArgument ''duplicate accelerator class reference'' (id_value (fr_id r)),
        refuse_if (has_duplicates (fr_runtimes r)) InvalidArgument ''duplicate runtime reference'' (id_value (fr_id r)),
        refuse_if (has_duplicates (fr_workload_classes r)) InvalidArgument ''duplicate workload class reference'' (id_value (fr_id r))]"

definition contains_cluster :: "FederationRecord \<Rightarrow> ClusterId \<Rightarrow> bool" where
  "contains_cluster r cluster = (cluster \<in> set (fr_clusters r))"

definition contains_site :: "FederationRecord \<Rightarrow> SiteId \<Rightarrow> bool" where
  "contains_site r site = (site \<in> set (fr_sites r))"

section \<open>Site\<close>

record SiteRecord =
  sr_id :: SiteId
  sr_generation :: SiteGeneration
  sr_federation :: FederationId
  sr_region :: string
  sr_zone :: string
  sr_failure_domain :: string
  sr_clusters :: "ClusterId list"
  sr_policies :: "PolicyId list"
  sr_currentness :: Currentness
  sr_stamp :: ObservationStamp
  sr_evidence :: EvidenceList

definition SiteRecord_init :: SiteRecord where
  "SiteRecord_init =
     \<lparr>sr_id = no_id, sr_generation = gen_unset, sr_federation = no_id, sr_region = [],
      sr_zone = [], sr_failure_domain = [], sr_clusters = [], sr_policies = [],
      sr_currentness = Currentness_Unknown, sr_stamp = ObservationStamp_init,
      sr_evidence = no_evidence\<rparr>"

definition SiteRecord_validate :: "SiteRecord \<Rightarrow> Status" where
  "SiteRecord_validate r =
     checks
       [refuse_if (id_empty (sr_id r)) InvalidArgument ''site id is empty'' [],
        refuse_if (\<not> is_set (sr_generation r)) InvalidArgument ''site generation is unset'' (id_value (sr_id r)),
        refuse_if (id_empty (sr_federation r)) InvalidArgument ''site has no federation'' (id_value (sr_id r)),
        refuse_if (has_duplicates (sr_clusters r)) InvalidArgument ''duplicate cluster reference'' (id_value (sr_id r)),
        refuse_if (length (sr_clusters r) > kMaxClusterPerSite) BoundExceeded ''too many clusters in site'' (id_value (sr_id r)),
        refuse_if (has_duplicates (sr_policies r)) InvalidArgument ''duplicate policy reference'' (id_value (sr_id r))]"

section \<open>Accelerator class, runtime, backend\<close>

record AcceleratorClassRecord =
  ar_id :: AcceleratorClassId
  ar_capability_generation :: AcceleratorCapabilityGeneration
  ar_vendor :: string
  ar_family :: string
  ar_model :: string
  ar_architecture :: string
  ar_compute_capability :: string
  ar_memory_bytes_per_device :: u64
  ar_memory_bandwidth_gbps :: u32
  ar_capabilities :: CapabilitySet
  ar_currentness :: Currentness
  ar_stamp :: ObservationStamp
  ar_evidence :: EvidenceList

definition AcceleratorClassRecord_init :: AcceleratorClassRecord where
  "AcceleratorClassRecord_init =
     \<lparr>ar_id = no_id, ar_capability_generation = gen_unset, ar_vendor = [], ar_family = [],
      ar_model = [], ar_architecture = [], ar_compute_capability = [],
      ar_memory_bytes_per_device = 0, ar_memory_bandwidth_gbps = 0,
      ar_capabilities = no_capabilities, ar_currentness = Currentness_Unknown,
      ar_stamp = ObservationStamp_init, ar_evidence = no_evidence\<rparr>"

definition AcceleratorClassRecord_validate :: "AcceleratorClassRecord \<Rightarrow> Status" where
  "AcceleratorClassRecord_validate r =
     checks
       [refuse_if (id_empty (ar_id r)) InvalidArgument ''accelerator class id is empty'' [],
        refuse_if (\<not> is_set (ar_capability_generation r)) InvalidArgument ''accelerator capability generation is unset'' (id_value (ar_id r)),
        first_failure (\<lambda>entry. refuse_if (\<not> CapabilityRef_valid (ce_key entry)) InvalidArgument
            ''invalid capability key on accelerator class''
            (id_value (ar_id r) @ '' '' @ CapabilityRef_to_string (ce_key entry)))
          (cset_entries (ar_capabilities r))]"

record RuntimeRecord =
  rr_id :: RuntimeId
  rr_generation :: RuntimeGeneration
  rr_backend :: BackendId
  rr_backend_generation :: BackendGeneration
  rr_kind :: RuntimeKind
  rr_version :: string
  rr_abi :: string
  rr_driver_version :: string
  rr_driver_abi :: string
  rr_compiler_version :: string
  rr_capabilities :: CapabilitySet
  rr_currentness :: Currentness
  rr_stamp :: ObservationStamp
  rr_evidence :: EvidenceList

definition RuntimeRecord_init :: RuntimeRecord where
  "RuntimeRecord_init =
     \<lparr>rr_id = no_id, rr_generation = gen_unset, rr_backend = no_id,
      rr_backend_generation = gen_unset, rr_kind = RuntimeKind_Unknown, rr_version = [],
      rr_abi = [], rr_driver_version = [], rr_driver_abi = [], rr_compiler_version = [],
      rr_capabilities = no_capabilities, rr_currentness = Currentness_Unknown,
      rr_stamp = ObservationStamp_init, rr_evidence = no_evidence\<rparr>"

definition RuntimeRecord_validate :: "RuntimeRecord \<Rightarrow> Status" where
  "RuntimeRecord_validate r =
     checks
       [refuse_if (id_empty (rr_id r)) InvalidArgument ''runtime id is empty'' [],
        refuse_if (\<not> is_set (rr_generation r)) InvalidArgument ''runtime generation is unset'' (id_value (rr_id r))]"

record BackendRecord =
  br_id :: BackendId
  br_generation :: BackendGeneration
  br_runtime :: RuntimeId
  br_name :: string
  br_version :: string
  br_capabilities :: CapabilitySet
  br_currentness :: Currentness
  br_stamp :: ObservationStamp
  br_evidence :: EvidenceList

definition BackendRecord_init :: BackendRecord where
  "BackendRecord_init =
     \<lparr>br_id = no_id, br_generation = gen_unset, br_runtime = no_id, br_name = [],
      br_version = [], br_capabilities = no_capabilities, br_currentness = Currentness_Unknown,
      br_stamp = ObservationStamp_init, br_evidence = no_evidence\<rparr>"

definition BackendRecord_validate :: "BackendRecord \<Rightarrow> Status" where
  "BackendRecord_validate r =
     checks
       [refuse_if (id_empty (br_id r)) InvalidArgument ''backend id is empty'' [],
        refuse_if (\<not> is_set (br_generation r)) InvalidArgument ''backend generation is unset'' (id_value (br_id r)),
        refuse_if (id_empty (br_runtime r)) InvalidArgument ''backend has no runtime'' (id_value (br_id r))]"

section \<open>Cluster\<close>

record ClusterRecord =
  clr_id :: ClusterId
  clr_generation :: ClusterGeneration
  clr_epoch :: ClusterEpoch
  clr_federation :: FederationId
  clr_site :: SiteId
  clr_domain :: DomainId
  clr_failure_domain :: string
  clr_zone :: string
  clr_accelerator_classes :: "AcceleratorClassId list"
  clr_capacity_pools :: "CapacityPool list"
  clr_runtimes :: "RuntimeId list"
  clr_backends :: "BackendId list"
  clr_topology_generation :: TopologyGeneration
  clr_capability_generation :: AcceleratorCapabilityGeneration
  clr_capacity_generation :: CapacityGeneration
  clr_runtime_generation :: RuntimeGeneration
  clr_compatibility_generation :: CompatibilityGeneration
  clr_evidence_generation :: EvidenceGeneration
  clr_readiness :: Readiness
  clr_capabilities :: CapabilitySet
  clr_currentness :: Currentness
  clr_stamp :: ObservationStamp
  clr_evidence :: EvidenceList

definition ClusterRecord_init :: ClusterRecord where
  "ClusterRecord_init =
     \<lparr>clr_id = no_id, clr_generation = gen_unset, clr_epoch = gen_unset, clr_federation = no_id,
      clr_site = no_id, clr_domain = no_id, clr_failure_domain = [], clr_zone = [],
      clr_accelerator_classes = [], clr_capacity_pools = [], clr_runtimes = [],
      clr_backends = [], clr_topology_generation = gen_unset,
      clr_capability_generation = gen_unset, clr_capacity_generation = gen_unset,
      clr_runtime_generation = gen_unset, clr_compatibility_generation = gen_unset,
      clr_evidence_generation = gen_unset, clr_readiness = Readiness_Unknown,
      clr_capabilities = no_capabilities, clr_currentness = Currentness_Unknown,
      clr_stamp = ObservationStamp_init, clr_evidence = no_evidence\<rparr>"

definition pool_check :: "ClusterId \<Rightarrow> CapacityPool \<Rightarrow> Status" where
  "pool_check cluster pool =
     (let place = id_value cluster @ '' '' @ id_value (cp_pool_id pool)
      in checks
           [refuse_if (id_empty (cp_pool_id pool)) InvalidArgument ''capacity pool has no id'' (id_value cluster),
            (case CapacityLedger_validate (cp_ledger pool) of
               Success \<Rightarrow> Success
             | Failure e \<Rightarrow> fail CapacityInconsistent ''capacity pool ledger does not close''
                 (place @ '': '' @ error_message e)),
            refuse_if (cp_kind pool = ResourceKind_Accelerator \<and> id_empty (cp_accelerator_class pool))
              InvalidArgument ''accelerator pool has no accelerator class'' place,
            refuse_if (cp_kind pool = ResourceKind_Custom \<and> cp_custom_name pool = [])
              InvalidArgument ''custom pool has no resource name'' place])"

definition ClusterRecord_validate :: "ClusterRecord \<Rightarrow> Status" where
  "ClusterRecord_validate r =
     checks
       [refuse_if (id_empty (clr_id r)) InvalidArgument ''cluster id is empty'' [],
        refuse_if (\<not> is_set (clr_generation r)) InvalidArgument ''cluster generation is unset'' (id_value (clr_id r)),
        refuse_if (\<not> is_set (clr_epoch r)) InvalidArgument ''cluster epoch is unset'' (id_value (clr_id r)),
        refuse_if (id_empty (clr_federation r)) InvalidArgument ''cluster has no federation'' (id_value (clr_id r)),
        refuse_if (id_empty (clr_site r)) InvalidArgument ''cluster has no site'' (id_value (clr_id r)),
        refuse_if (has_duplicates (clr_accelerator_classes r)) InvalidArgument ''duplicate accelerator class reference'' (id_value (clr_id r)),
        refuse_if (has_duplicates (clr_runtimes r)) InvalidArgument ''duplicate runtime reference'' (id_value (clr_id r)),
        refuse_if (has_duplicates (clr_backends r)) InvalidArgument ''duplicate backend reference'' (id_value (clr_id r)),
        refuse_if (length (clr_capacity_pools r) > kMaxPoolsPerCluster) BoundExceeded ''too many capacity pools on cluster'' (id_value (clr_id r)),
        first_failure (pool_check (clr_id r)) (clr_capacity_pools r),
        refuse_if (has_duplicates (map cp_pool_id (clr_capacity_pools r))) InvalidArgument ''duplicate capacity pool id'' (id_value (clr_id r)),
        first_failure (\<lambda>entry. refuse_if (\<not> CapabilityRef_valid (ce_key entry)) InvalidArgument
            ''invalid capability key on cluster''
            (id_value (clr_id r) @ '' '' @ CapabilityRef_to_string (ce_key entry)))
          (cset_entries (clr_capabilities r))]"

definition find_pool :: "ClusterRecord \<Rightarrow> ResourcePoolId \<Rightarrow> CapacityPool option" where
  "find_pool r pool = find (\<lambda>candidate. cp_pool_id candidate = pool) (clr_capacity_pools r)"

definition ledger_plus :: "string \<Rightarrow> CapacityLedger \<Rightarrow> CapacityLedger \<Rightarrow> CapacityLedger result" where
  "ledger_plus detail t l =
     (case (checked_add (cl_nominal t) (cl_nominal l), checked_add (cl_offline t) (cl_offline l),
            checked_add (cl_allocated t) (cl_allocated l), checked_add (cl_reserved t) (cl_reserved l),
            checked_add (cl_draining t) (cl_draining l), checked_add (cl_unusable t) (cl_unusable l)) of
        (Some n, Some off, Some al, Some re, Some dr, Some un) \<Rightarrow> from_components n off al re dr un
      | _ \<Rightarrow> Inl (Error CapacityInconsistent ''capacity total overflowed'' detail))"

fun sum_ledgers :: "string \<Rightarrow> CapacityLedger \<Rightarrow> CapacityLedger list \<Rightarrow> CapacityLedger result" where
  "sum_ledgers detail t [] = Inr t"
| "sum_ledgers detail t (l # ls) =
     (case ledger_plus detail t l of Inl e \<Rightarrow> Inl e | Inr t' \<Rightarrow> sum_ledgers detail t' ls)"

definition total_ledger :: "ClusterRecord \<Rightarrow> ResourceKind \<Rightarrow> CapacityLedger result" where
  "total_ledger r kind =
     sum_ledgers (id_value (clr_id r) @ '' '' @ ResourceKind_to_string kind) CapacityLedger_init
       (map cp_ledger (filter (\<lambda>pool. cp_kind pool = kind) (clr_capacity_pools r)))"

section \<open>Domain, artifact, workload class\<close>

record DomainRecord =
  dr_id :: DomainId
  dr_kind :: DomainKind
  dr_federation :: FederationId
  dr_site :: SiteId
  dr_clusters :: "ClusterId list"
  dr_topology_generation :: TopologyGeneration
  dr_currentness :: Currentness
  dr_stamp :: ObservationStamp
  dr_evidence :: EvidenceList

definition DomainRecord_init :: DomainRecord where
  "DomainRecord_init =
     \<lparr>dr_id = no_id, dr_kind = DomainKind_Unknown, dr_federation = no_id, dr_site = no_id,
      dr_clusters = [], dr_topology_generation = gen_unset, dr_currentness = Currentness_Unknown,
      dr_stamp = ObservationStamp_init, dr_evidence = no_evidence\<rparr>"

definition DomainRecord_validate :: "DomainRecord \<Rightarrow> Status" where
  "DomainRecord_validate r =
     checks
       [refuse_if (id_empty (dr_id r)) InvalidArgument ''domain id is empty'' [],
        refuse_if (dr_kind r = DomainKind_Unknown) InvalidArgument ''domain kind is unknown'' (id_value (dr_id r)),
        refuse_if (id_empty (dr_federation r)) InvalidArgument ''domain has no federation'' (id_value (dr_id r)),
        refuse_if (dr_kind r = DomainKind_Site \<and> id_empty (dr_site r)) InvalidArgument ''site domain has no site'' (id_value (dr_id r)),
        refuse_if (dr_clusters r = []) InvalidArgument ''domain has no member clusters'' (id_value (dr_id r)),
        refuse_if (has_duplicates (dr_clusters r)) InvalidArgument ''duplicate cluster reference'' (id_value (dr_id r))]"

record ArtifactRecord =
  art_id :: ArtifactId
  art_generation :: ArtifactGeneration
  art_kind :: ArtifactKind
  art_format :: string
  art_kernel_format :: string
  art_target_architectures :: "string list"
  art_minimum_compute_capability :: string
  art_size_bytes :: u64
  art_runtime_abi :: string
  art_driver_abi :: string
  art_compiler_target :: string
  art_state_format :: string
  art_required_memory_bytes :: u64
  art_capabilities :: CapabilitySet
  art_currentness :: Currentness
  art_stamp :: ObservationStamp
  art_evidence :: EvidenceList

definition ArtifactRecord_init :: ArtifactRecord where
  "ArtifactRecord_init =
     \<lparr>art_id = no_id, art_generation = gen_unset, art_kind = ArtifactKind_Unknown,
      art_format = [], art_kernel_format = [], art_target_architectures = [],
      art_minimum_compute_capability = [], art_size_bytes = 0, art_runtime_abi = [],
      art_driver_abi = [], art_compiler_target = [], art_state_format = [],
      art_required_memory_bytes = 0, art_capabilities = no_capabilities,
      art_currentness = Currentness_Unknown, art_stamp = ObservationStamp_init,
      art_evidence = no_evidence\<rparr>"

definition ArtifactRecord_validate :: "ArtifactRecord \<Rightarrow> Status" where
  "ArtifactRecord_validate r =
     checks
       [refuse_if (id_empty (art_id r)) InvalidArgument ''artifact id is empty'' [],
        refuse_if (\<not> is_set (art_generation r)) InvalidArgument ''artifact generation is unset'' (id_value (art_id r)),
        refuse_if (has_duplicates (art_target_architectures r)) InvalidArgument ''duplicate target architecture'' (id_value (art_id r)),
        first_failure (\<lambda>architecture. refuse_if (architecture = [] \<or> length architecture > 64) InvalidArgument
            ''target architecture is malformed'' (id_value (art_id r)))
          (art_target_architectures r)]"

definition targets_architecture :: "ArtifactRecord \<Rightarrow> string \<Rightarrow> bool" where
  "targets_architecture r architecture = (architecture \<in> set (art_target_architectures r))"

record WorkloadClassRecord =
  wcr_id :: WorkloadClassId
  wcr_display_name :: string
  wcr_prefers_accelerators :: bool
  wcr_currentness :: Currentness
  wcr_stamp :: ObservationStamp
  wcr_evidence :: EvidenceList

definition WorkloadClassRecord_init :: WorkloadClassRecord where
  "WorkloadClassRecord_init =
     \<lparr>wcr_id = no_id, wcr_display_name = [], wcr_prefers_accelerators = True,
      wcr_currentness = Currentness_Unknown, wcr_stamp = ObservationStamp_init,
      wcr_evidence = no_evidence\<rparr>"

definition WorkloadClassRecord_validate :: "WorkloadClassRecord \<Rightarrow> Status" where
  "WorkloadClassRecord_validate r =
     checks
       [refuse_if (id_empty (wcr_id r)) InvalidArgument ''workload class id is empty'' []]"

section \<open>Workload\<close>

record WorkloadRecord =
  wr_id :: WorkloadId
  wr_generation :: WorkloadGeneration
  wr_workload_class :: WorkloadClassId
  wr_artifact :: ArtifactId
  wr_artifact_generation :: ArtifactGeneration
  wr_required_accelerators :: u32
  wr_required_memory_bytes_per_accelerator :: u64
  wr_acceptable_accelerator_classes :: "AcceleratorClassId list"
  wr_requirements :: "CapabilityRequirement list"
  wr_policy :: PolicyId
  wr_policy_generation :: PolicyGeneration
  wr_required_domain :: DomainId
  wr_required_domain_kind :: DomainKind
  wr_require_single_failure_domain :: bool
  wr_isolation_requirement :: string
  wr_portability_class :: string
  wr_currentness :: Currentness
  wr_stamp :: ObservationStamp
  wr_evidence :: EvidenceList

definition WorkloadRecord_init :: WorkloadRecord where
  "WorkloadRecord_init =
     \<lparr>wr_id = no_id, wr_generation = gen_unset, wr_workload_class = no_id, wr_artifact = no_id,
      wr_artifact_generation = gen_unset, wr_required_accelerators = 1,
      wr_required_memory_bytes_per_accelerator = 0, wr_acceptable_accelerator_classes = [],
      wr_requirements = [], wr_policy = no_id, wr_policy_generation = gen_unset,
      wr_required_domain = no_id, wr_required_domain_kind = DomainKind_Unknown,
      wr_require_single_failure_domain = False, wr_isolation_requirement = [],
      wr_portability_class = [], wr_currentness = Currentness_Unknown,
      wr_stamp = ObservationStamp_init, wr_evidence = no_evidence\<rparr>"

definition WorkloadRecord_validate :: "WorkloadRecord \<Rightarrow> Status" where
  "WorkloadRecord_validate r =
     checks
       [refuse_if (id_empty (wr_id r)) InvalidArgument ''workload id is empty'' [],
        refuse_if (\<not> is_set (wr_generation r)) InvalidArgument ''workload generation is unset'' (id_value (wr_id r)),
        refuse_if (id_empty (wr_workload_class r)) InvalidArgument ''workload has no class'' (id_value (wr_id r)),
        refuse_if (wr_required_accelerators r = 0) InvalidArgument ''workload requires zero accelerators'' (id_value (wr_id r)),
        refuse_if (has_duplicates (wr_acceptable_accelerator_classes r)) InvalidArgument ''duplicate acceptable accelerator class'' (id_value (wr_id r)),
        first_failure (\<lambda>requirement. refuse_if (\<not> CapabilityRef_valid (req_key requirement)) InvalidArgument
            ''requirement has an invalid capability key''
            (id_value (wr_id r) @ '' '' @ CapabilityRef_to_string (req_key requirement)))
          (wr_requirements r),
        refuse_if (wr_required_domain_kind r = DomainKind_Unknown \<and> \<not> id_empty (wr_required_domain r)) InvalidArgument ''workload names a domain without a domain kind'' (id_value (wr_id r)),
        refuse_if (length (wr_requirements r) > kMaxCapabilityEntriesPerPublication) BoundExceeded ''too many capability requirements'' (id_value (wr_id r))]"

section \<open>Policy\<close>

record PolicyRecord =
  pr_id :: PolicyId
  pr_generation :: PolicyGeneration
  pr_name :: string
  pr_allowed_sites :: "SiteId list"
  pr_denied_sites :: "SiteId list"
  pr_allowed_clusters :: "ClusterId list"
  pr_denied_clusters :: "ClusterId list"
  pr_allow_cross_site :: Tri
  pr_data_residency :: string
  pr_isolation_requirement :: string
  pr_capabilities :: CapabilitySet
  pr_currentness :: Currentness
  pr_stamp :: ObservationStamp
  pr_evidence :: EvidenceList

definition PolicyRecord_init :: PolicyRecord where
  "PolicyRecord_init =
     \<lparr>pr_id = no_id, pr_generation = gen_unset, pr_name = [], pr_allowed_sites = [],
      pr_denied_sites = [], pr_allowed_clusters = [], pr_denied_clusters = [],
      pr_allow_cross_site = Tri_Unknown, pr_data_residency = [], pr_isolation_requirement = [],
      pr_capabilities = no_capabilities, pr_currentness = Currentness_Unknown,
      pr_stamp = ObservationStamp_init, pr_evidence = no_evidence\<rparr>"

definition PolicyRecord_validate :: "PolicyRecord \<Rightarrow> Status" where
  "PolicyRecord_validate r =
     checks
       [refuse_if (id_empty (pr_id r)) InvalidArgument ''policy id is empty'' [],
        refuse_if (\<not> is_set (pr_generation r)) InvalidArgument ''policy generation is unset'' (id_value (pr_id r)),
        refuse_if (has_duplicates (pr_allowed_sites r) \<or> has_duplicates (pr_denied_sites r)) InvalidArgument ''duplicate site reference in policy'' (id_value (pr_id r)),
        refuse_if (has_duplicates (pr_allowed_clusters r) \<or> has_duplicates (pr_denied_clusters r)) InvalidArgument ''duplicate cluster reference in policy'' (id_value (pr_id r)),
        first_failure (\<lambda>site. refuse_if (site \<in> set (pr_denied_sites r)) InvalidArgument
            ''site is both allowed and denied'' (id_value (pr_id r)))
          (pr_allowed_sites r),
        first_failure (\<lambda>cluster. refuse_if (cluster \<in> set (pr_denied_clusters r)) InvalidArgument
            ''cluster is both allowed and denied'' (id_value (pr_id r)))
          (pr_allowed_clusters r)]"

definition permits_site :: "PolicyRecord \<Rightarrow> SiteId \<Rightarrow> Tri" where
  "permits_site r site =
     (if site \<in> set (pr_denied_sites r) then Tri_No
      else if pr_allowed_sites r = [] then Tri_Yes
      else if site \<in> set (pr_allowed_sites r) then Tri_Yes else Tri_No)"

definition permits_cluster :: "PolicyRecord \<Rightarrow> ClusterId \<Rightarrow> Tri" where
  "permits_cluster r cluster =
     (if cluster \<in> set (pr_denied_clusters r) then Tri_No
      else if pr_allowed_clusters r = [] then Tri_Yes
      else if cluster \<in> set (pr_allowed_clusters r) then Tri_Yes else Tri_No)"

section \<open>What validation guarantees\<close>

lemma refuse_if_Success [simp]: "refuse_if c code m d = Success \<longleftrightarrow> \<not> c"
  by (simp add: refuse_if_def)

lemma checks_Success: "checks gs = Success \<longleftrightarrow> list_all (\<lambda>g. g = Success) gs"
  by (simp add: checks_def first_failure_Success list_all_iff)

lemma checks_simps [simp]:
  "checks [] = Success"
  "checks (g # gs) = (case g of Success \<Rightarrow> checks gs | Failure e \<Rightarrow> Failure e)"
  by (simp_all add: checks_def split: Status.splits)

lemma pool_check_Success:
  "pool_check c pool = Success \<longleftrightarrow>
     \<not> id_empty (cp_pool_id pool) \<and> ledger_closes (cp_ledger pool) \<and>
     (cp_kind pool = ResourceKind_Accelerator \<longrightarrow> \<not> id_empty (cp_accelerator_class pool)) \<and>
     (cp_kind pool = ResourceKind_Custom \<longrightarrow> cp_custom_name pool \<noteq> [])"
  by (auto simp: pool_check_def Let_def checks_Success CapacityLedger_validate_iff [symmetric]
      simp del: checks_simps split: Status.splits)

lemma ClusterRecord_validate_pools:
  "ClusterRecord_validate r = Success \<Longrightarrow> pool \<in> set (clr_capacity_pools r) \<Longrightarrow>
     ledger_closes (cp_ledger pool) \<and> \<not> id_empty (cp_pool_id pool)"
  by (auto simp: ClusterRecord_validate_def checks_Success first_failure_Success pool_check_Success
      simp del: checks_simps)

lemma ClusterRecord_validate_ids:
  "ClusterRecord_validate r = Success \<Longrightarrow>
     \<not> id_empty (clr_id r) \<and> is_set (clr_generation r) \<and> is_set (clr_epoch r) \<and>
     distinct (map cp_pool_id (clr_capacity_pools r)) \<and> length (clr_capacity_pools r) \<le> kMaxPoolsPerCluster"
  by (auto simp: ClusterRecord_validate_def checks_Success has_duplicates_iff simp del: checks_simps)

section \<open>Totals over pools\<close>

abbreviation ledger_sum :: "(CapacityLedger \<Rightarrow> u64) \<Rightarrow> CapacityLedger list \<Rightarrow> nat" where
  "ledger_sum f ls \<equiv> sum_list (map (\<lambda>l. unat (f l)) ls)"

text \<open>The total of a list of ledgers, bucket by bucket over the natural numbers.\<close>

definition ledger_total :: "CapacityLedger list \<Rightarrow> CapacityLedger \<Rightarrow> bool" where
  "ledger_total ls t \<longleftrightarrow>
     list_all (\<lambda>f. unat (f t) = ledger_sum f ls)
       [cl_nominal, cl_offline, cl_allocated, cl_reserved, cl_draining, cl_unusable, cl_idle]"

lemma ledger_plus_exact:
  assumes "ledger_closes t" and "ledger_closes l"
  shows "case ledger_plus detail t l of
      Inr s \<Rightarrow> ledger_closes s \<and> ledger_total [t, l] s
    | Inl e \<Rightarrow> 18446744073709551616 \<le> unat (cl_nominal t) + unat (cl_nominal l)"
proof (cases "unat (cl_nominal t) + unat (cl_nominal l) < 18446744073709551616")
  case True
  let ?s = "\<lparr>cl_nominal = cl_nominal t + cl_nominal l, cl_offline = cl_offline t + cl_offline l,
     cl_allocated = cl_allocated t + cl_allocated l, cl_reserved = cl_reserved t + cl_reserved l,
     cl_draining = cl_draining t + cl_draining l, cl_unusable = cl_unusable t + cl_unusable l,
     cl_idle = cl_idle t + cl_idle l\<rparr>"
  have le: "unat (f t) + unat (f l) < 18446744073709551616"
    if "f \<in> {cl_nominal, cl_offline, cl_allocated, cl_reserved, cl_draining, cl_unusable, cl_idle}" for f
    using that True assms unfolding ledger_closes_def by auto
  have sums: "unat (f t + f l) = unat (f t) + unat (f l)" "checked_add (f t) (f l) = Some (f t + f l)"
    if "f \<in> {cl_nominal, cl_offline, cl_allocated, cl_reserved, cl_draining, cl_unusable, cl_idle}" for f
    using le [OF that] by (simp_all add: u64_add_no_wrap checked_add_exact)
  have s: "ledger_closes ?s" "ledger_total [t, l] ?s"
    using assms by (simp_all add: ledger_closes_def ledger_total_def sums)
  then have "ledger_plus detail t l = Inr ?s"
    by (simp add: ledger_plus_def sums from_components_Inr)
  with s show ?thesis by simp
next
  case False
  then have "checked_add (cl_nominal t) (cl_nominal l) = None"
    by (cases "checked_add (cl_nominal t) (cl_nominal l)") (simp_all add: checked_add_iff)
  with False show ?thesis by (simp add: ledger_plus_def)
qed

lemma sum_ledgers_exact:
  "ledger_closes t \<Longrightarrow> list_all ledger_closes ls \<Longrightarrow>
     (case sum_ledgers detail t ls of
        Inr s \<Rightarrow> ledger_closes s \<and> ledger_total (t # ls) s
      | Inl e \<Rightarrow> 18446744073709551616 \<le> ledger_sum cl_nominal (t # ls))"
proof (induction ls arbitrary: t)
  case (Cons l ls)
  then show ?case
    using ledger_plus_exact [of t l detail]
    by (cases "ledger_plus detail t l") (auto simp: ledger_total_def add.assoc split: sum.splits dest!: Cons.IH)
qed (simp add: ledger_total_def)

text \<open>
  On a cluster record that validates, \<open>total_ledger\<close> is the exact sum of its pools of that
  kind, bucket by bucket, and closes; it is an error only when the nominal capacities really add up to
  more than 64 bits hold.
\<close>

lemma total_ledger_exact:
  assumes "ClusterRecord_validate r = Success"
  shows "case total_ledger r kind of
      Inr t \<Rightarrow> CapacityLedger_validate t = Success \<and>
        ledger_total (map cp_ledger (filter (\<lambda>p. cp_kind p = kind) (clr_capacity_pools r))) t
    | Inl e \<Rightarrow> 2 ^ 64 \<le> ledger_sum cl_nominal (map cp_ledger (filter (\<lambda>p. cp_kind p = kind) (clr_capacity_pools r)))"
proof -
  let ?ls = "map cp_ledger (filter (\<lambda>p. cp_kind p = kind) (clr_capacity_pools r))"
  have "list_all ledger_closes ?ls"
    using ClusterRecord_validate_pools [OF assms] by (auto simp: list_all_iff)
  moreover have "ledger_closes CapacityLedger_init" by (simp add: ledger_closes_def CapacityLedger_init_def)
  moreover have "ledger_sum f (CapacityLedger_init # ?ls) = ledger_sum f ?ls" if "f CapacityLedger_init = 0" for f
    using that by simp
  ultimately show ?thesis
    using sum_ledgers_exact [of CapacityLedger_init ?ls "id_value (clr_id r) @ '' '' @ ResourceKind_to_string kind"]
    by (simp add: total_ledger_def CapacityLedger_validate_iff ledger_total_def CapacityLedger_init_def
        split: sum.splits)
qed

definition sample_pool :: "string \<Rightarrow> u64 \<Rightarrow> u64 \<Rightarrow> CapacityPool" where
  "sample_pool name n used = CapacityPool_init
     \<lparr>cp_pool_id := StrongId name, cp_kind := ResourceKind_Accelerator, cp_accelerator_class := StrongId ''gpu'',
      cp_ledger := CapacityLedger_init\<lparr>cl_nominal := n, cl_allocated := used, cl_idle := n - used\<rparr>\<rparr>"

definition sample_pools :: ClusterRecord where
  "sample_pools = ClusterRecord_init
     \<lparr>clr_id := StrongId ''east'', clr_generation := Generation 1, clr_epoch := Generation 1,
      clr_federation := StrongId ''fed'', clr_site := StrongId ''site'',
      clr_capacity_pools := [sample_pool ''a'' 8 3, sample_pool ''b'' 4 4]\<rparr>"

end
