(* ===== verification/FO_ValueCodec.thy ===== *)
theory FO_ValueCodec
  imports FO_Model
begin

text \<open>
  The encoding of the values inside records (\<open>records_codec.cpp\<close>, first part): evidence, capability
  references, values, entries, sets and requirements, observation stamps, capacity ledgers and pools.

  Every codec gets an \<open>_encodable\<close> predicate, the condition under which its decoder reads back exactly
  what its encoder wrote, and is interpreted in \<open>field_codec\<close>, so that collections of such values
  satisfy the contract as well.
\<close>

section \<open>Evidence\<close>

definition encode_evidence :: "EvidenceRef \<Rightarrow> Encoder \<Rightarrow> Encoder" where
  "encode_evidence v =
     enc_seq
       [enc_enum Provenance_values (ev_source v),
        enc_enum EvidenceClass_values (ev_evidence_class v),
        enc_str (ev_source_id v),
        enc_gen (ev_generation v),
        enc_enum Precision_values (ev_precision v),
        enc_str (ev_detail v)]"

definition decode_evidence :: "EvidenceRef decoder" where
  "decode_evidence =
     dec_bind (dec_enum Provenance_values ''provenance'') (\<lambda>provenance.
     dec_bind (dec_enum EvidenceClass_values ''evidence class'') (\<lambda>cls.
     dec_bind dec_str (\<lambda>source_id.
     dec_bind dec_gen (\<lambda>generation.
     dec_bind (dec_enum Precision_values ''precision'') (\<lambda>precision.
     dec_bind dec_str (\<lambda>detail.
     dec_return
       \<lparr>ev_source = provenance, ev_evidence_class = cls, ev_source_id = source_id,
        ev_generation = generation, ev_precision = precision, ev_detail = detail\<rparr>))))))"

definition encode_evidence_list :: "EvidenceList \<Rightarrow> Encoder \<Rightarrow> Encoder" where
  "encode_evidence_list v = enc_counted encode_evidence (el_items v)"

definition decode_evidence_list :: "nat \<Rightarrow> EvidenceList decoder" where
  "decode_evidence_list limit =
     dec_bind dec_u32 (\<lambda>count.
       if unat count > kMaxEvidencePerFinding then
         dec_error (Error BoundExceeded ''encoded evidence list exceeds the permitted size'' [])
       else dec_fold (unat count) decode_evidence EvidenceList_add (EvidenceList_init limit))"

section \<open>Capabilities\<close>

definition valid_capability_key :: "u16 \<Rightarrow> bool" where
  "valid_capability_key raw =
     (if raw = 0 \<or> raw = key_code CapabilityKey_Custom then raw = key_code CapabilityKey_Custom
      else let ref = \<lparr>cr_key = CapabilityKey raw, cr_custom = no_id\<rparr>
           in CapabilityRef_to_string ref \<noteq> [] \<and> CapabilityRef_to_string ref \<noteq> ''unknown'')"

definition encode_capability_ref :: "CapabilityRef \<Rightarrow> Encoder \<Rightarrow> Encoder" where
  "encode_capability_ref v = enc_seq [enc_u16 (key_code (cr_key v)), enc_id (cr_custom v)]"

definition decode_capability_ref :: "CapabilityRef decoder" where
  "decode_capability_ref =
     dec_bind dec_u16 (\<lambda>raw.
     if \<not> valid_capability_key raw then
       dec_error (Error ProtocolViolation ''encoded capability key is not recognised'' [])
     else
     dec_bind (dec_id ''CapabilityKeyIdTag'') (\<lambda>custom.
     let v = \<lparr>cr_key = CapabilityKey raw, cr_custom = custom\<rparr>
     in if \<not> CapabilityRef_valid v then
          dec_error (Error ProtocolViolation ''encoded capability key is inconsistent'' [])
        else dec_return v))"

definition encode_capability_value :: "CapabilityValue \<Rightarrow> Encoder \<Rightarrow> Encoder" where
  "encode_capability_value v =
     (if is_boolean v then enc_seq [enc_u8 1, enc_boolean (as_boolean v False)]
      else if is_integral v then enc_seq [enc_u8 2, enc_i64 (as_integer v 0)]
      else if is_number v then enc_seq [enc_u8 3, enc_f64 (as_number v 0)]
      else if is_text v then enc_seq [enc_u8 4, enc_str (as_text v)]
      else if is_text_set v then enc_seq [enc_u8 5, enc_text_vector (as_text_set v)]
      else enc_seq [enc_u8 0])"

definition dec_result :: "'a result \<Rightarrow> 'a decoder" where
  "dec_result r = (case r of Inl e \<Rightarrow> dec_error e | Inr v \<Rightarrow> dec_return v)"

definition decode_capability_value :: "CapabilityValue decoder" where
  "decode_capability_value =
     dec_bind dec_u8 (\<lambda>kind.
       if kind = 0 then dec_return CapabilityValue_Unknown
       else if kind = 1 then dec_bind dec_boolean (\<lambda>v. dec_return (CapabilityValue_Boolean v))
       else if kind = 2 then dec_bind dec_i64 (\<lambda>v. dec_return (CapabilityValue_Integer v))
       else if kind = 3 then dec_bind dec_f64 (\<lambda>v. dec_return (CapabilityValue_Number v))
       else if kind = 4 then dec_bind dec_str (\<lambda>v. dec_return (value_text v))
       else if kind = 5 then
         dec_bind (dec_text_vector kMaxValueSetEntries) (\<lambda>v. dec_result (value_text_set v))
       else dec_error (Error ProtocolViolation ''encoded capability value kind is out of range'' []))"

definition encode_capability_entry :: "CapabilityEntry \<Rightarrow> Encoder \<Rightarrow> Encoder" where
  "encode_capability_entry v =
     enc_seq
       [encode_capability_ref (ce_key v),
        encode_capability_value (ce_value v),
        enc_enum Precision_values (ce_precision v),
        enc_enum EvidenceClass_values (ce_evidence_class v),
        enc_gen (ce_generation v),
        enc_str (ce_note v)]"

definition decode_capability_entry :: "CapabilityEntry decoder" where
  "decode_capability_entry =
     dec_bind decode_capability_ref (\<lambda>key.
     dec_bind decode_capability_value (\<lambda>cap_value.
     dec_bind (dec_enum Precision_values ''precision'') (\<lambda>precision.
     dec_bind (dec_enum EvidenceClass_values ''evidence class'') (\<lambda>cls.
     dec_bind dec_gen (\<lambda>generation.
     dec_bind dec_str (\<lambda>note.
     dec_return
       \<lparr>ce_key = key, ce_value = cap_value, ce_precision = precision, ce_evidence_class = cls,
        ce_generation = generation, ce_note = note\<rparr>))))))"

definition encode_capability_set :: "CapabilitySet \<Rightarrow> Encoder \<Rightarrow> Encoder" where
  "encode_capability_set v = enc_counted encode_capability_entry (cset_entries v)"

definition decode_capability_set :: "nat \<Rightarrow> CapabilitySet decoder" where
  "decode_capability_set limit =
     dec_bind dec_u32 (\<lambda>count.
       if unat count > kMaxCapabilityEntriesPerPublication then
         dec_error (Error BoundExceeded ''encoded capability set exceeds the permitted size'' [])
       else dec_fold (unat count) decode_capability_entry CapabilitySet_put (CapabilitySet_init limit))"

definition encode_capability_requirement :: "CapabilityRequirement \<Rightarrow> Encoder \<Rightarrow> Encoder" where
  "encode_capability_requirement v =
     enc_seq
       [encode_capability_ref (req_key v),
        enc_enum CapabilityComparator_values (req_comparator v),
        encode_capability_value (req_value v),
        enc_boolean (req_optional v),
        enc_str (req_rationale v)]"

definition decode_capability_requirement :: "CapabilityRequirement decoder" where
  "decode_capability_requirement =
     dec_bind decode_capability_ref (\<lambda>key.
     dec_bind (dec_enum CapabilityComparator_values ''capability comparator'') (\<lambda>comparator.
     dec_bind decode_capability_value (\<lambda>cap_value.
     dec_bind dec_boolean (\<lambda>optional.
     dec_bind dec_str (\<lambda>rationale.
     dec_return
       \<lparr>req_key = key, req_comparator = comparator, req_value = cap_value, req_optional = optional,
        req_rationale = rationale\<rparr>)))))"

section \<open>Stamps, ledgers and pools\<close>

definition encode_stamp :: "ObservationStamp \<Rightarrow> Encoder \<Rightarrow> Encoder" where
  "encode_stamp v =
     enc_seq
       [enc_id (os_publisher v),
        enc_gen (os_publisher_boot v),
        enc_gen (os_coordinator_epoch v),
        enc_gen (os_evidence_generation v),
        enc_sequence (os_sequence v),
        enc_i64 (os_observed_at v),
        enc_enum Precision_values (os_precision v),
        enc_enum EvidenceClass_values (os_evidence_class v),
        enc_enum Provenance_values (os_provenance v)]"

definition decode_stamp :: "ObservationStamp decoder" where
  "decode_stamp =
     dec_bind (dec_id ''PublisherIdTag'') (\<lambda>publisher.
     dec_bind dec_gen (\<lambda>boot.
     dec_bind dec_gen (\<lambda>epoch.
     dec_bind dec_gen (\<lambda>evidence.
     dec_bind dec_sequence (\<lambda>sequence.
     dec_bind dec_i64 (\<lambda>observed_at.
     dec_bind (dec_enum Precision_values ''precision'') (\<lambda>precision.
     dec_bind (dec_enum EvidenceClass_values ''evidence class'') (\<lambda>cls.
     dec_bind (dec_enum Provenance_values ''provenance'') (\<lambda>provenance.
     dec_return
       \<lparr>os_publisher = publisher, os_publisher_boot = boot, os_coordinator_epoch = epoch,
        os_evidence_generation = evidence, os_sequence = sequence, os_observed_at = observed_at,
        os_precision = precision, os_evidence_class = cls, os_provenance = provenance\<rparr>)))))))))"

definition encode_ledger :: "CapacityLedger \<Rightarrow> Encoder \<Rightarrow> Encoder" where
  "encode_ledger v =
     enc_seq
       [enc_u64 (cl_nominal v), enc_u64 (cl_offline v), enc_u64 (cl_allocated v),
        enc_u64 (cl_reserved v), enc_u64 (cl_draining v), enc_u64 (cl_unusable v),
        enc_u64 (cl_idle v)]"

definition decode_ledger :: "CapacityLedger decoder" where
  "decode_ledger =
     dec_bind dec_u64 (\<lambda>nominal.
     dec_bind dec_u64 (\<lambda>offline.
     dec_bind dec_u64 (\<lambda>allocated.
     dec_bind dec_u64 (\<lambda>reserved.
     dec_bind dec_u64 (\<lambda>draining.
     dec_bind dec_u64 (\<lambda>unusable.
     dec_bind dec_u64 (\<lambda>idle.
     dec_validated ''encoded capacity ledger does not close'' CapacityLedger_validate
       \<lparr>cl_nominal = nominal, cl_offline = offline, cl_allocated = allocated, cl_reserved = reserved,
        cl_draining = draining, cl_unusable = unusable, cl_idle = idle\<rparr>)))))))"

definition encode_capacity_pool :: "CapacityPool \<Rightarrow> Encoder \<Rightarrow> Encoder" where
  "encode_capacity_pool v =
     enc_seq
       [enc_id (cp_pool_id v),
        enc_enum ResourceKind_values (cp_kind v),
        enc_id (cp_accelerator_class v),
        enc_str (cp_custom_name v),
        encode_ledger (cp_ledger v),
        enc_gen (cp_generation v),
        enc_enum Precision_values (cp_precision v),
        enc_enum EvidenceClass_values (cp_evidence_class v),
        encode_evidence_list (cp_evidence v)]"

definition decode_capacity_pool :: "CapacityPool decoder" where
  "decode_capacity_pool =
     dec_bind (dec_id ''ResourcePoolIdTag'') (\<lambda>pool_id.
     dec_bind (dec_enum ResourceKind_values ''resource kind'') (\<lambda>kind.
     dec_bind (dec_id ''AcceleratorClassIdTag'') (\<lambda>accelerator_class.
     dec_bind dec_str (\<lambda>custom_name.
     dec_bind decode_ledger (\<lambda>ledger.
     dec_bind dec_gen (\<lambda>generation.
     dec_bind (dec_enum Precision_values ''precision'') (\<lambda>precision.
     dec_bind (dec_enum EvidenceClass_values ''evidence class'') (\<lambda>cls.
     dec_bind (decode_evidence_list kDefaultEvidencePerFinding) (\<lambda>evidence.
     dec_return
       \<lparr>cp_pool_id = pool_id, cp_kind = kind, cp_accelerator_class = accelerator_class,
        cp_custom_name = custom_name, cp_ledger = ledger, cp_generation = generation,
        cp_precision = precision, cp_evidence_class = cls, cp_evidence = evidence\<rparr>)))))))))"

section \<open>The contracts of the value codecs\<close>

text \<open>The last step of a decoder that rebuilds its value field by field.\<close>

lemma field_rebuilt [fo_codec]: "w = v \<Longrightarrow> field_ok (enc_seq []) (dec_return w) v"
  using field_Nil by simp

lemma field_rebuilt_validated [fo_codec]:
  "w = v \<Longrightarrow> validate v = Success \<Longrightarrow> field_ok (enc_seq []) (dec_validated m validate w) v"
  using field_validated [of validate v m] by simp

definition EvidenceRef_encodable :: "EvidenceRef \<Rightarrow> bool" where
  "EvidenceRef_encodable v \<longleftrightarrow> text_ok (ev_source_id v) \<and> text_ok (ev_detail v)"

lemma field_evidence: "EvidenceRef_encodable v \<Longrightarrow> field_ok (encode_evidence v) decode_evidence v"
  unfolding encode_evidence_def decode_evidence_def EvidenceRef_encodable_def
  by (elim conjE) ((rule fo_codec | assumption)+, simp_all)

interpretation evidence_codec: field_codec encode_evidence decode_evidence EvidenceRef_encodable
  by unfold_locales (rule field_evidence)

text \<open>A counted collection whose elements are added one by one.\<close>

lemma field_counted_fold:
  assumes "field_codec enc dec encodable" and "list_all encodable vs" and "length vs \<le> limit"
    and "limit < 4294967296" and "add_all add vs s = (Success, s')"
  shows "field_ok (enc_counted enc vs)
     (dec_bind dec_u32 (\<lambda>count. if unat count > limit then dec_error e else dec_fold (unat count) dec add s)) s'"
proof -
  have n: "unat (of_nat (length vs) :: u32) = length vs"
    using assms(3,4) by (simp add: unat_of_nat)
  have "field_ok (enc_seq [enc_each enc vs]) (dec_fold (length vs) dec add s) s'"
    using field_codec.field_fold [OF assms(1,2,5)] by (simp add: field_seq enc_each_def)
  then show ?thesis
    unfolding enc_counted_def
    using assms(3) by (intro field_Cons [OF field_u32]) (simp add: n)
qed

definition EvidenceList_encodable :: "nat \<Rightarrow> EvidenceList \<Rightarrow> bool" where
  "EvidenceList_encodable limit l \<longleftrightarrow>
     EvidenceList_ok l \<and> el_limit l = limit \<and> limit \<le> kMaxEvidencePerFinding"

lemma EvidenceRef_bounded_encodable: "EvidenceRef_bounded r \<Longrightarrow> EvidenceRef_encodable r"
  by (simp add: EvidenceRef_bounded_def EvidenceRef_encodable_def text_ok_def kMaxIdentifierLength_def
    kMaxStringFieldBytes_def)

lemma field_evidence_list [fo_codec]:
  assumes "EvidenceList_encodable limit l"
  shows "field_ok (encode_evidence_list l) (decode_evidence_list limit) l"
proof -
  have l: "l = \<lparr>el_items = el_items l, el_limit = limit\<rparr>"
    using assms by (cases l) (simp add: EvidenceList_encodable_def)
  have "add_all EvidenceList_add (el_items l) (EvidenceList_init limit) = (Success, l)"
    using EvidenceList_rebuild [of "[]" "el_items l" limit] assms l
    by (simp add: EvidenceList_encodable_def EvidenceList_init_def)
  moreover have "list_all EvidenceRef_encodable (el_items l)"
    using assms by (auto simp: EvidenceList_encodable_def EvidenceList_ok_def list_all_iff
        EvidenceRef_bounded_encodable)
  ultimately show ?thesis
    unfolding encode_evidence_list_def decode_evidence_list_def using assms
    by (intro field_counted_fold [OF evidence_codec.field_codec_axioms])
       (auto simp: EvidenceList_encodable_def EvidenceList_ok_def kMaxEvidencePerFinding_def)
qed

definition CapabilityRef_encodable :: "CapabilityRef \<Rightarrow> bool" where
  "CapabilityRef_encodable r \<longleftrightarrow>
     valid_capability_key (key_code (cr_key r)) \<and> CapabilityRef_valid r \<and> id_encodable (cr_custom r)"

lemma field_capability_ref [fo_codec]:
  assumes "CapabilityRef_encodable r"
  shows "field_ok (encode_capability_ref r) decode_capability_ref r"
proof -
  have r: "\<lparr>cr_key = cr_key r, cr_custom = cr_custom r\<rparr> = r" by simp
  show ?thesis
    using assms
    unfolding encode_capability_ref_def decode_capability_ref_def CapabilityRef_encodable_def Let_def
    by (intro field_Cons [OF field_u16] field_guard field_Cons [OF field_id]) (simp_all add: r field_Nil del: enc_seq.simps)
qed

text \<open>
  Unsigned values are written as signed ones: they are not read back as themselves, and above the
  signed range they are clamped.
\<close>

definition CapabilityValue_encodable :: "CapabilityValue \<Rightarrow> bool" where
  "CapabilityValue_encodable v \<longleftrightarrow> value_ok v \<and> (\<forall>u. v \<noteq> CapabilityValue_Unsigned u)"

lemmas value_kind_defs = is_boolean_def is_integral_def is_number_def is_text_def is_text_set_def

lemma value_text_id: "text_ok t \<Longrightarrow> value_text t = CapabilityValue_Text t"
  by (simp add: value_text_def text_ok_def)

lemma value_text_set_id:
  "texts_encodable kMaxValueSetEntries ts \<Longrightarrow> list_all (\<lambda>t. length t \<le> 256) ts \<Longrightarrow>
     value_text_set ts = Inr (CapabilityValue_TextSet ts)"
  by (auto simp: value_text_set_def texts_encodable_def list_all_iff list_ex_iff
      unique_adjacent_distinct sorted_sort_id)

lemma field_single: "field_ok E D v \<Longrightarrow> field_ok (enc_seq [E]) D v"
  by (simp add: field_ok_def writes_def)

lemma field_tagged: "field_ok E (K t) v \<Longrightarrow> field_ok (enc_seq [enc_u8 t, E]) (dec_bind dec_u8 K) v"
  by (intro field_Cons [OF field_u8] field_single)

lemma field_signed:
  "i64_range i \<Longrightarrow> as_integer v 0 = i \<Longrightarrow> is_integral v \<Longrightarrow>
     field_ok (encode_capability_value v) decode_capability_value (CapabilityValue_Integer i)"
  unfolding encode_capability_value_def decode_capability_value_def
  by (auto simp: value_kind_defs simp del: enc_seq.simps intro!: field_tagged field_map [OF field_i64])

lemma field_capability_value [fo_codec]:
  assumes "CapabilityValue_encodable v"
  shows "field_ok (encode_capability_value v) decode_capability_value v"
proof (cases v)
  case CapabilityValue_Unknown
  then show ?thesis
    unfolding encode_capability_value_def decode_capability_value_def
    by (auto simp: value_kind_defs simp del: enc_seq.simps intro!: field_Cons [OF field_u8] field_Nil)
next
  case (CapabilityValue_TextSet ts)
  then show ?thesis using assms
    unfolding encode_capability_value_def decode_capability_value_def
    by (auto simp: value_kind_defs CapabilityValue_encodable_def value_ok_def value_text_set_id dec_result_def
        kMaxValueSetEntries_def simp del: enc_seq.simps intro!: field_tagged field_map [OF field_text_vector])
next
  case (CapabilityValue_Text t)
  then show ?thesis using assms
    unfolding encode_capability_value_def decode_capability_value_def
    by (auto simp: value_kind_defs CapabilityValue_encodable_def value_ok_def value_text_id
        simp del: enc_seq.simps intro!: field_tagged field_map [OF field_str])
next
  case (CapabilityValue_Integer i)
  then show ?thesis using assms
    by (auto simp: CapabilityValue_encodable_def value_ok_def value_kind_defs intro!: field_signed)
next
  case (CapabilityValue_Boolean b)
  then show ?thesis
    unfolding encode_capability_value_def decode_capability_value_def
    by (auto simp: value_kind_defs simp del: enc_seq.simps intro!: field_tagged field_map [OF field_boolean])
next
  case (CapabilityValue_Number d)
  then show ?thesis
    unfolding encode_capability_value_def decode_capability_value_def
    by (auto simp: value_kind_defs simp del: enc_seq.simps intro!: field_tagged field_map [OF field_f64])
qed (use assms in \<open>simp add: CapabilityValue_encodable_def\<close>)

lemma field_capability_unsigned:
  "field_ok (encode_capability_value (CapabilityValue_Unsigned u)) decode_capability_value
     (CapabilityValue_Integer (min (uint u) 9223372036854775807))"
proof (rule field_signed)
  have "- 9223372036854775808 \<le> uint u"
    by (rule order_trans [OF _ uint_nonnegative]) simp
  then show "i64_range (min (uint u) 9223372036854775807)" by (auto simp: i64_range_def min_def)
qed (auto simp: value_kind_defs min_def)

text \<open>Writing the entries of a well-formed set in order rebuilds it.\<close>

lemma CapabilitySet_rebuild:
  "CapabilitySet_ok \<lparr>cset_entries = ds @ es, cset_limit = n\<rparr> \<Longrightarrow>
     add_all CapabilitySet_put es \<lparr>cset_entries = ds, cset_limit = n\<rparr> =
       (Success, \<lparr>cset_entries = ds @ es, cset_limit = n\<rparr>)"
proof (induction es arbitrary: ds)
  case (Cons e es)
  have ok: "CapabilitySet_ok \<lparr>cset_entries = (ds @ [e]) @ es, cset_limit = n\<rparr>" using Cons.prems by simp
  have d: "distinct (map ce_key (ds @ [e]))" using Cons.prems by (auto simp: CapabilitySet_ok_def)
  have "lt_sorted entry_key_less (ds @ [e])"
    using Cons.prems by (auto simp: CapabilitySet_ok_def lt_sorted_def sorted_wrt_append)
  then have "stable_sort CapabilityEntry_less (ds @ [e]) = ds @ [e]"
    using sort_entries_key [OF d] by (simp add: entry_key_order.stable_sort_idem)
  moreover have "\<not> list_ex (\<lambda>x. ce_key x = ce_key e) ds"
    using d unfolding list_ex_iff by (simp add: image_iff) metis
  ultimately have "CapabilitySet_put e \<lparr>cset_entries = ds, cset_limit = n\<rparr> =
      (Success, \<lparr>cset_entries = ds @ [e], cset_limit = n\<rparr>)"
    using Cons.prems by (simp add: CapabilitySet_put_def Let_def CapabilitySet_ok_def note_truncated_id)
  then show ?case using Cons.IH [OF ok] by simp
qed simp

definition CapabilityEntry_encodable :: "CapabilityEntry \<Rightarrow> bool" where
  "CapabilityEntry_encodable v \<longleftrightarrow>
     CapabilityRef_encodable (ce_key v) \<and> CapabilityValue_encodable (ce_value v) \<and> text_ok (ce_note v)"

lemma field_capability_entry:
  "CapabilityEntry_encodable v \<Longrightarrow> field_ok (encode_capability_entry v) decode_capability_entry v"
  unfolding encode_capability_entry_def decode_capability_entry_def CapabilityEntry_encodable_def
  by (elim conjE) ((rule fo_codec | assumption)+, simp_all)

interpretation entry_codec: field_codec encode_capability_entry decode_capability_entry CapabilityEntry_encodable
  by unfold_locales (rule field_capability_entry)

definition CapabilitySet_encodable :: "nat \<Rightarrow> CapabilitySet \<Rightarrow> bool" where
  "CapabilitySet_encodable limit s \<longleftrightarrow>
     CapabilitySet_ok s \<and> cset_limit s = limit \<and> limit \<le> kMaxCapabilityEntriesPerPublication \<and>
     list_all CapabilityEntry_encodable (cset_entries s)"

lemma field_capability_set [fo_codec]:
  assumes "CapabilitySet_encodable limit s"
  shows "field_ok (encode_capability_set s) (decode_capability_set limit) s"
proof -
  have s: "s = \<lparr>cset_entries = cset_entries s, cset_limit = limit\<rparr>"
    using assms by (cases s) (simp add: CapabilitySet_encodable_def)
  have "add_all CapabilitySet_put (cset_entries s) (CapabilitySet_init limit) = (Success, s)"
    using CapabilitySet_rebuild [of "[]" "cset_entries s" limit] assms s
    by (simp add: CapabilitySet_encodable_def CapabilitySet_init_def)
  then show ?thesis
    unfolding encode_capability_set_def decode_capability_set_def using assms
    by (intro field_counted_fold [OF entry_codec.field_codec_axioms])
       (auto simp: CapabilitySet_encodable_def CapabilitySet_ok_def kMaxCapabilityEntriesPerPublication_def)
qed

definition CapabilityRequirement_encodable :: "CapabilityRequirement \<Rightarrow> bool" where
  "CapabilityRequirement_encodable v \<longleftrightarrow>
     CapabilityRef_encodable (req_key v) \<and> CapabilityValue_encodable (req_value v) \<and> text_ok (req_rationale v)"

lemma field_capability_requirement:
  "CapabilityRequirement_encodable v \<Longrightarrow>
     field_ok (encode_capability_requirement v) decode_capability_requirement v"
  unfolding encode_capability_requirement_def decode_capability_requirement_def CapabilityRequirement_encodable_def
  by (elim conjE) ((rule fo_codec | assumption)+, simp_all)

interpretation requirement_codec:
  field_codec encode_capability_requirement decode_capability_requirement CapabilityRequirement_encodable
  by unfold_locales (rule field_capability_requirement)

definition ObservationStamp_encodable :: "ObservationStamp \<Rightarrow> bool" where
  "ObservationStamp_encodable v \<longleftrightarrow> id_encodable (os_publisher v) \<and> i64_range (os_observed_at v)"

lemma field_stamp [fo_codec]: "ObservationStamp_encodable v \<Longrightarrow> field_ok (encode_stamp v) decode_stamp v"
  unfolding encode_stamp_def decode_stamp_def ObservationStamp_encodable_def
  by (elim conjE) ((rule fo_codec | assumption)+, simp_all)

lemma field_ledger [fo_codec]: "CapacityLedger_validate v = Success \<Longrightarrow> field_ok (encode_ledger v) decode_ledger v"
  unfolding encode_ledger_def decode_ledger_def
  by ((rule fo_codec | assumption)+, simp_all)

definition CapacityPool_encodable :: "CapacityPool \<Rightarrow> bool" where
  "CapacityPool_encodable v \<longleftrightarrow>
     id_encodable (cp_pool_id v) \<and> id_encodable (cp_accelerator_class v) \<and> text_ok (cp_custom_name v) \<and>
     CapacityLedger_validate (cp_ledger v) = Success \<and>
     EvidenceList_encodable kDefaultEvidencePerFinding (cp_evidence v)"

lemma field_capacity_pool: "CapacityPool_encodable v \<Longrightarrow> field_ok (encode_capacity_pool v) decode_capacity_pool v"
  unfolding encode_capacity_pool_def decode_capacity_pool_def CapacityPool_encodable_def
  by (elim conjE) ((rule fo_codec | assumption)+, simp_all)

interpretation pool_codec: field_codec encode_capacity_pool decode_capacity_pool CapacityPool_encodable
  by unfold_locales (rule field_capacity_pool)

section \<open>Bounded collections\<close>

definition counted_encodable :: "nat \<Rightarrow> ('a \<Rightarrow> bool) \<Rightarrow> 'a list \<Rightarrow> bool" where
  "counted_encodable limit encodable vs \<longleftrightarrow> list_all encodable vs \<and> length vs \<le> limit"

definition vector_encodable :: "nat \<Rightarrow> ('a \<Rightarrow> 'a \<Rightarrow> bool) \<Rightarrow> ('a \<Rightarrow> bool) \<Rightarrow> 'a list \<Rightarrow> bool" where
  "vector_encodable limit lt encodable vs \<longleftrightarrow>
     list_all encodable vs \<and> length vs \<le> limit \<and> stable_sort lt vs = vs"

context field_codec
begin

lemma field_vector_encodable:
  "vector_encodable limit lt encodable vs \<Longrightarrow> limit < 4294967296 \<Longrightarrow>
     field_ok (enc_vector lt enc vs) (dec_vector limit dec) vs"
  unfolding vector_encodable_def by (intro field_vector) simp_all

lemma field_counted_encodable:
  "counted_encodable limit encodable vs \<Longrightarrow> limit < 4294967296 \<Longrightarrow>
     field_ok (enc_counted enc vs) (dec_counted limit m dec) vs"
  unfolding counted_encodable_def by (intro field_counted) simp_all

end

lemma field_pools [fo_codec]:
  "vector_encodable kMaxPoolsPerCluster CapacityPool_less CapacityPool_encodable ps \<Longrightarrow>
     field_ok (enc_vector CapacityPool_less encode_capacity_pool ps)
       (dec_vector kMaxPoolsPerCluster decode_capacity_pool) ps"
  by (rule pool_codec.field_vector_encodable) (simp_all add: kMaxPoolsPerCluster_def)

lemma field_requirements [fo_codec]:
  "counted_encodable kMaxCapabilityEntriesPerPublication CapabilityRequirement_encodable rs \<Longrightarrow>
     field_ok (enc_counted encode_capability_requirement rs)
       (dec_counted kMaxCapabilityEntriesPerPublication m decode_capability_requirement) rs"
  by (rule requirement_codec.field_counted_encodable) (simp_all add: kMaxCapabilityEntriesPerPublication_def)

lemma field_architectures [fo_codec]:
  "texts_encodable 64 ts \<Longrightarrow> field_ok (enc_text_vector ts) (dec_text_vector 64) ts"
  by (rule field_text_vector) simp_all

section \<open>Safety of the value decoders\<close>

lemma safe_result [fo_safe]: "dec_safe (dec_result r)"
  by (cases r) (simp_all add: dec_result_def fo_safe)

lemma safe_evidence [fo_safe]: "dec_safe decode_evidence" "dec_safe (decode_evidence_list n)"
  unfolding decode_evidence_list_def decode_evidence_def by (intro fo_safe)+

lemma safe_capability [fo_safe]: "dec_safe decode_capability_ref" "dec_safe decode_capability_value"
  unfolding decode_capability_ref_def decode_capability_value_def Let_def by (intro fo_safe)+

lemma safe_capability_set [fo_safe]:
  "dec_safe decode_capability_entry" "dec_safe (decode_capability_set n)" "dec_safe decode_capability_requirement"
  unfolding decode_capability_entry_def decode_capability_set_def decode_capability_requirement_def
  by (intro fo_safe)+

lemma safe_stamp [fo_safe]: "dec_safe decode_stamp" "dec_safe decode_ledger"
  unfolding decode_stamp_def decode_ledger_def by (intro fo_safe)+

lemma safe_pool [fo_safe]: "dec_safe decode_capacity_pool"
  unfolding decode_capacity_pool_def by (intro fo_safe)

end
