(* ===== verification/FO_RecordCodec.thy ===== *)
theory FO_RecordCodec
  imports FO_ValueCodec
begin

text \<open>
  The encoding of the structural records (\<open>records_codec.cpp\<close>): federations, sites, accelerator
  classes, runtimes, backends, domains, clusters, policies, artifacts, workload classes and workloads.
  Each decoder reads its fields in the order of the source and ends with the record's \<open>validate()\<close>.
\<close>

section \<open>Encoders and decoders\<close>

definition encode_federation :: "FederationRecord \<Rightarrow> Encoder \<Rightarrow> Encoder" where
  "encode_federation v =
     enc_seq
       [enc_id (fr_id v),
        enc_gen (fr_generation v),
        enc_str (fr_display_name v),
        enc_gen (fr_coordinator_epoch v),
        enc_id_vector (fr_sites v),
        enc_id_vector (fr_clusters v),
        enc_id_vector (fr_accelerator_classes v),
        enc_id_vector (fr_runtimes v),
        enc_id_vector (fr_workload_classes v),
        enc_id (fr_policy v),
        enc_gen (fr_policy_generation v),
        enc_gen (fr_compatibility_generation v),
        enc_gen (fr_capacity_generation v),
        enc_gen (fr_topology_generation v),
        enc_gen (fr_evidence_generation v),
        enc_enum Currentness_values (fr_currentness v),
        encode_stamp (fr_stamp v),
        encode_evidence_list (fr_evidence v)]"

definition decode_federation :: "FederationRecord decoder" where
  "decode_federation =
     dec_bind (dec_id ''FederationIdTag'') (\<lambda>id.
     dec_bind dec_gen (\<lambda>generation.
     dec_bind dec_str (\<lambda>display_name.
     dec_bind dec_gen (\<lambda>coordinator_epoch.
     dec_bind (dec_id_vector ''SiteIdTag'') (\<lambda>sites.
     dec_bind (dec_id_vector ''ClusterIdTag'') (\<lambda>clusters.
     dec_bind (dec_id_vector ''AcceleratorClassIdTag'') (\<lambda>accelerator_classes.
     dec_bind (dec_id_vector ''RuntimeIdTag'') (\<lambda>runtimes.
     dec_bind (dec_id_vector ''WorkloadClassIdTag'') (\<lambda>workload_classes.
     dec_bind (dec_id ''PolicyIdTag'') (\<lambda>policy.
     dec_bind dec_gen (\<lambda>policy_generation.
     dec_bind dec_gen (\<lambda>compatibility_generation.
     dec_bind dec_gen (\<lambda>capacity_generation.
     dec_bind dec_gen (\<lambda>topology_generation.
     dec_bind dec_gen (\<lambda>evidence_generation.
     dec_bind (dec_enum Currentness_values ''currentness'') (\<lambda>currentness.
     dec_bind decode_stamp (\<lambda>stamp.
     dec_bind (decode_evidence_list kDefaultEvidencePerFinding) (\<lambda>evidence.
     dec_validated ''encoded federation is not valid'' FederationRecord_validate
       \<lparr>fr_id = id, fr_generation = generation, fr_display_name = display_name,
        fr_coordinator_epoch = coordinator_epoch, fr_sites = sites, fr_clusters = clusters,
        fr_accelerator_classes = accelerator_classes, fr_runtimes = runtimes,
        fr_workload_classes = workload_classes, fr_policy = policy,
        fr_policy_generation = policy_generation,
        fr_compatibility_generation = compatibility_generation,
        fr_capacity_generation = capacity_generation, fr_topology_generation = topology_generation,
        fr_evidence_generation = evidence_generation, fr_currentness = currentness, fr_stamp = stamp,
        fr_evidence = evidence\<rparr>))))))))))))))))))"

definition encode_site :: "SiteRecord \<Rightarrow> Encoder \<Rightarrow> Encoder" where
  "encode_site v =
     enc_seq
       [enc_id (sr_id v),
        enc_gen (sr_generation v),
        enc_id (sr_federation v),
        enc_str (sr_region v),
        enc_str (sr_zone v),
        enc_str (sr_failure_domain v),
        enc_id_vector (sr_clusters v),
        enc_id_vector (sr_policies v),
        enc_enum Currentness_values (sr_currentness v),
        encode_stamp (sr_stamp v),
        encode_evidence_list (sr_evidence v)]"

definition decode_site :: "SiteRecord decoder" where
  "decode_site =
     dec_bind (dec_id ''SiteIdTag'') (\<lambda>id.
     dec_bind dec_gen (\<lambda>generation.
     dec_bind (dec_id ''FederationIdTag'') (\<lambda>federation.
     dec_bind dec_str (\<lambda>region.
     dec_bind dec_str (\<lambda>zone.
     dec_bind dec_str (\<lambda>failure_domain.
     dec_bind (dec_id_vector ''ClusterIdTag'') (\<lambda>clusters.
     dec_bind (dec_id_vector ''PolicyIdTag'') (\<lambda>policies.
     dec_bind (dec_enum Currentness_values ''currentness'') (\<lambda>currentness.
     dec_bind decode_stamp (\<lambda>stamp.
     dec_bind (decode_evidence_list kDefaultEvidencePerFinding) (\<lambda>evidence.
     dec_validated ''encoded site is not valid'' SiteRecord_validate
       \<lparr>sr_id = id, sr_generation = generation, sr_federation = federation, sr_region = region,
        sr_zone = zone, sr_failure_domain = failure_domain, sr_clusters = clusters,
        sr_policies = policies, sr_currentness = currentness, sr_stamp = stamp, sr_evidence = evidence\<rparr>)))))))))))"

definition encode_accelerator_class :: "AcceleratorClassRecord \<Rightarrow> Encoder \<Rightarrow> Encoder" where
  "encode_accelerator_class v =
     enc_seq
       [enc_id (ar_id v),
        enc_gen (ar_capability_generation v),
        enc_str (ar_vendor v),
        enc_str (ar_family v),
        enc_str (ar_model v),
        enc_str (ar_architecture v),
        enc_str (ar_compute_capability v),
        enc_u64 (ar_memory_bytes_per_device v),
        enc_u32 (ar_memory_bandwidth_gbps v),
        encode_capability_set (ar_capabilities v),
        enc_enum Currentness_values (ar_currentness v),
        encode_stamp (ar_stamp v),
        encode_evidence_list (ar_evidence v)]"

definition decode_accelerator_class :: "AcceleratorClassRecord decoder" where
  "decode_accelerator_class =
     dec_bind (dec_id ''AcceleratorClassIdTag'') (\<lambda>id.
     dec_bind dec_gen (\<lambda>capability_generation.
     dec_bind dec_str (\<lambda>vendor.
     dec_bind dec_str (\<lambda>family.
     dec_bind dec_str (\<lambda>model.
     dec_bind dec_str (\<lambda>architecture.
     dec_bind dec_str (\<lambda>compute_capability.
     dec_bind dec_u64 (\<lambda>memory_bytes_per_device.
     dec_bind dec_u32 (\<lambda>memory_bandwidth_gbps.
     dec_bind (decode_capability_set kMaxCapabilityEntriesPerPublication) (\<lambda>capabilities.
     dec_bind (dec_enum Currentness_values ''currentness'') (\<lambda>currentness.
     dec_bind decode_stamp (\<lambda>stamp.
     dec_bind (decode_evidence_list kDefaultEvidencePerFinding) (\<lambda>evidence.
     dec_validated ''encoded accelerator class is not valid'' AcceleratorClassRecord_validate
       \<lparr>ar_id = id, ar_capability_generation = capability_generation, ar_vendor = vendor,
        ar_family = family, ar_model = model, ar_architecture = architecture,
        ar_compute_capability = compute_capability,
        ar_memory_bytes_per_device = memory_bytes_per_device,
        ar_memory_bandwidth_gbps = memory_bandwidth_gbps, ar_capabilities = capabilities,
        ar_currentness = currentness, ar_stamp = stamp, ar_evidence = evidence\<rparr>)))))))))))))"

definition encode_runtime :: "RuntimeRecord \<Rightarrow> Encoder \<Rightarrow> Encoder" where
  "encode_runtime v =
     enc_seq
       [enc_id (rr_id v),
        enc_gen (rr_generation v),
        enc_id (rr_backend v),
        enc_gen (rr_backend_generation v),
        enc_enum RuntimeKind_values (rr_kind v),
        enc_str (rr_version v),
        enc_str (rr_abi v),
        enc_str (rr_driver_version v),
        enc_str (rr_driver_abi v),
        enc_str (rr_compiler_version v),
        encode_capability_set (rr_capabilities v),
        enc_enum Currentness_values (rr_currentness v),
        encode_stamp (rr_stamp v),
        encode_evidence_list (rr_evidence v)]"

definition decode_runtime :: "RuntimeRecord decoder" where
  "decode_runtime =
     dec_bind (dec_id ''RuntimeIdTag'') (\<lambda>id.
     dec_bind dec_gen (\<lambda>generation.
     dec_bind (dec_id ''BackendIdTag'') (\<lambda>backend.
     dec_bind dec_gen (\<lambda>backend_generation.
     dec_bind (dec_enum RuntimeKind_values ''runtime kind'') (\<lambda>kind.
     dec_bind dec_str (\<lambda>version.
     dec_bind dec_str (\<lambda>abi.
     dec_bind dec_str (\<lambda>driver_version.
     dec_bind dec_str (\<lambda>driver_abi.
     dec_bind dec_str (\<lambda>compiler_version.
     dec_bind (decode_capability_set kMaxCapabilityEntriesPerPublication) (\<lambda>capabilities.
     dec_bind (dec_enum Currentness_values ''currentness'') (\<lambda>currentness.
     dec_bind decode_stamp (\<lambda>stamp.
     dec_bind (decode_evidence_list kDefaultEvidencePerFinding) (\<lambda>evidence.
     dec_validated ''encoded runtime is not valid'' RuntimeRecord_validate
       \<lparr>rr_id = id, rr_generation = generation, rr_backend = backend,
        rr_backend_generation = backend_generation, rr_kind = kind, rr_version = version,
        rr_abi = abi, rr_driver_version = driver_version, rr_driver_abi = driver_abi,
        rr_compiler_version = compiler_version, rr_capabilities = capabilities,
        rr_currentness = currentness, rr_stamp = stamp, rr_evidence = evidence\<rparr>))))))))))))))"

definition encode_backend :: "BackendRecord \<Rightarrow> Encoder \<Rightarrow> Encoder" where
  "encode_backend v =
     enc_seq
       [enc_id (br_id v),
        enc_gen (br_generation v),
        enc_id (br_runtime v),
        enc_str (br_name v),
        enc_str (br_version v),
        encode_capability_set (br_capabilities v),
        enc_enum Currentness_values (br_currentness v),
        encode_stamp (br_stamp v),
        encode_evidence_list (br_evidence v)]"

definition decode_backend :: "BackendRecord decoder" where
  "decode_backend =
     dec_bind (dec_id ''BackendIdTag'') (\<lambda>id.
     dec_bind dec_gen (\<lambda>generation.
     dec_bind (dec_id ''RuntimeIdTag'') (\<lambda>runtime.
     dec_bind dec_str (\<lambda>name.
     dec_bind dec_str (\<lambda>version.
     dec_bind (decode_capability_set kMaxCapabilityEntriesPerPublication) (\<lambda>capabilities.
     dec_bind (dec_enum Currentness_values ''currentness'') (\<lambda>currentness.
     dec_bind decode_stamp (\<lambda>stamp.
     dec_bind (decode_evidence_list kDefaultEvidencePerFinding) (\<lambda>evidence.
     dec_validated ''encoded backend is not valid'' BackendRecord_validate
       \<lparr>br_id = id, br_generation = generation, br_runtime = runtime, br_name = name,
        br_version = version, br_capabilities = capabilities, br_currentness = currentness,
        br_stamp = stamp, br_evidence = evidence\<rparr>)))))))))"

definition encode_domain :: "DomainRecord \<Rightarrow> Encoder \<Rightarrow> Encoder" where
  "encode_domain v =
     enc_seq
       [enc_id (dr_id v),
        enc_enum DomainKind_values (dr_kind v),
        enc_id (dr_federation v),
        enc_id (dr_site v),
        enc_id_vector (dr_clusters v),
        enc_gen (dr_topology_generation v),
        enc_enum Currentness_values (dr_currentness v),
        encode_stamp (dr_stamp v),
        encode_evidence_list (dr_evidence v)]"

definition decode_domain :: "DomainRecord decoder" where
  "decode_domain =
     dec_bind (dec_id ''DomainIdTag'') (\<lambda>id.
     dec_bind (dec_enum DomainKind_values ''domain kind'') (\<lambda>kind.
     dec_bind (dec_id ''FederationIdTag'') (\<lambda>federation.
     dec_bind (dec_id ''SiteIdTag'') (\<lambda>site.
     dec_bind (dec_id_vector ''ClusterIdTag'') (\<lambda>clusters.
     dec_bind dec_gen (\<lambda>topology_generation.
     dec_bind (dec_enum Currentness_values ''currentness'') (\<lambda>currentness.
     dec_bind decode_stamp (\<lambda>stamp.
     dec_bind (decode_evidence_list kDefaultEvidencePerFinding) (\<lambda>evidence.
     dec_validated ''encoded domain is not valid'' DomainRecord_validate
       \<lparr>dr_id = id, dr_kind = kind, dr_federation = federation, dr_site = site,
        dr_clusters = clusters, dr_topology_generation = topology_generation,
        dr_currentness = currentness, dr_stamp = stamp, dr_evidence = evidence\<rparr>)))))))))"

definition encode_cluster :: "ClusterRecord \<Rightarrow> Encoder \<Rightarrow> Encoder" where
  "encode_cluster v =
     enc_seq
       [enc_id (clr_id v),
        enc_gen (clr_generation v),
        enc_gen (clr_epoch v),
        enc_id (clr_federation v),
        enc_id (clr_site v),
        enc_id (clr_domain v),
        enc_str (clr_failure_domain v),
        enc_str (clr_zone v),
        enc_id_vector (clr_accelerator_classes v),
        enc_id_vector (clr_runtimes v),
        enc_id_vector (clr_backends v),
        enc_vector CapacityPool_less encode_capacity_pool (clr_capacity_pools v),
        enc_gen (clr_topology_generation v),
        enc_gen (clr_capability_generation v),
        enc_gen (clr_capacity_generation v),
        enc_gen (clr_runtime_generation v),
        enc_gen (clr_compatibility_generation v),
        enc_gen (clr_evidence_generation v),
        enc_enum Readiness_values (clr_readiness v),
        encode_capability_set (clr_capabilities v),
        enc_enum Currentness_values (clr_currentness v),
        encode_stamp (clr_stamp v),
        encode_evidence_list (clr_evidence v)]"

definition decode_cluster :: "ClusterRecord decoder" where
  "decode_cluster =
     dec_bind (dec_id ''ClusterIdTag'') (\<lambda>id.
     dec_bind dec_gen (\<lambda>generation.
     dec_bind dec_gen (\<lambda>epoch.
     dec_bind (dec_id ''FederationIdTag'') (\<lambda>federation.
     dec_bind (dec_id ''SiteIdTag'') (\<lambda>site.
     dec_bind (dec_id ''DomainIdTag'') (\<lambda>domain.
     dec_bind dec_str (\<lambda>failure_domain.
     dec_bind dec_str (\<lambda>zone.
     dec_bind (dec_id_vector ''AcceleratorClassIdTag'') (\<lambda>accelerator_classes.
     dec_bind (dec_id_vector ''RuntimeIdTag'') (\<lambda>runtimes.
     dec_bind (dec_id_vector ''BackendIdTag'') (\<lambda>backends.
     dec_bind (dec_vector kMaxPoolsPerCluster decode_capacity_pool) (\<lambda>capacity_pools.
     dec_bind dec_gen (\<lambda>topology_generation.
     dec_bind dec_gen (\<lambda>capability_generation.
     dec_bind dec_gen (\<lambda>capacity_generation.
     dec_bind dec_gen (\<lambda>runtime_generation.
     dec_bind dec_gen (\<lambda>compatibility_generation.
     dec_bind dec_gen (\<lambda>evidence_generation.
     dec_bind (dec_enum Readiness_values ''readiness'') (\<lambda>readiness.
     dec_bind (decode_capability_set kMaxCapabilityEntriesPerPublication) (\<lambda>capabilities.
     dec_bind (dec_enum Currentness_values ''currentness'') (\<lambda>currentness.
     dec_bind decode_stamp (\<lambda>stamp.
     dec_bind (decode_evidence_list kDefaultEvidencePerFinding) (\<lambda>evidence.
     dec_validated ''encoded cluster is not valid'' ClusterRecord_validate
       \<lparr>clr_id = id, clr_generation = generation, clr_epoch = epoch, clr_federation = federation,
        clr_site = site, clr_domain = domain, clr_failure_domain = failure_domain, clr_zone = zone,
        clr_accelerator_classes = accelerator_classes, clr_capacity_pools = capacity_pools,
        clr_runtimes = runtimes, clr_backends = backends,
        clr_topology_generation = topology_generation,
        clr_capability_generation = capability_generation,
        clr_capacity_generation = capacity_generation, clr_runtime_generation = runtime_generation,
        clr_compatibility_generation = compatibility_generation,
        clr_evidence_generation = evidence_generation, clr_readiness = readiness,
        clr_capabilities = capabilities, clr_currentness = currentness, clr_stamp = stamp,
        clr_evidence = evidence\<rparr>)))))))))))))))))))))))"

definition encode_policy :: "PolicyRecord \<Rightarrow> Encoder \<Rightarrow> Encoder" where
  "encode_policy v =
     enc_seq
       [enc_id (pr_id v),
        enc_gen (pr_generation v),
        enc_str (pr_name v),
        enc_id_vector (pr_allowed_sites v),
        enc_id_vector (pr_denied_sites v),
        enc_id_vector (pr_allowed_clusters v),
        enc_id_vector (pr_denied_clusters v),
        enc_enum Tri_values (pr_allow_cross_site v),
        enc_str (pr_data_residency v),
        enc_str (pr_isolation_requirement v),
        encode_capability_set (pr_capabilities v),
        enc_enum Currentness_values (pr_currentness v),
        encode_stamp (pr_stamp v),
        encode_evidence_list (pr_evidence v)]"

definition decode_policy :: "PolicyRecord decoder" where
  "decode_policy =
     dec_bind (dec_id ''PolicyIdTag'') (\<lambda>id.
     dec_bind dec_gen (\<lambda>generation.
     dec_bind dec_str (\<lambda>name.
     dec_bind (dec_id_vector ''SiteIdTag'') (\<lambda>allowed_sites.
     dec_bind (dec_id_vector ''SiteIdTag'') (\<lambda>denied_sites.
     dec_bind (dec_id_vector ''ClusterIdTag'') (\<lambda>allowed_clusters.
     dec_bind (dec_id_vector ''ClusterIdTag'') (\<lambda>denied_clusters.
     dec_bind (dec_enum Tri_values ''tri-state'') (\<lambda>allow_cross_site.
     dec_bind dec_str (\<lambda>data_residency.
     dec_bind dec_str (\<lambda>isolation_requirement.
     dec_bind (decode_capability_set kMaxCapabilityEntriesPerPublication) (\<lambda>capabilities.
     dec_bind (dec_enum Currentness_values ''currentness'') (\<lambda>currentness.
     dec_bind decode_stamp (\<lambda>stamp.
     dec_bind (decode_evidence_list kDefaultEvidencePerFinding) (\<lambda>evidence.
     dec_validated ''encoded policy is not valid'' PolicyRecord_validate
       \<lparr>pr_id = id, pr_generation = generation, pr_name = name, pr_allowed_sites = allowed_sites,
        pr_denied_sites = denied_sites, pr_allowed_clusters = allowed_clusters,
        pr_denied_clusters = denied_clusters, pr_allow_cross_site = allow_cross_site,
        pr_data_residency = data_residency, pr_isolation_requirement = isolation_requirement,
        pr_capabilities = capabilities, pr_currentness = currentness, pr_stamp = stamp,
        pr_evidence = evidence\<rparr>))))))))))))))"

definition encode_artifact :: "ArtifactRecord \<Rightarrow> Encoder \<Rightarrow> Encoder" where
  "encode_artifact v =
     enc_seq
       [enc_id (art_id v),
        enc_gen (art_generation v),
        enc_enum ArtifactKind_values (art_kind v),
        enc_str (art_format v),
        enc_str (art_kernel_format v),
        enc_text_vector (art_target_architectures v),
        enc_str (art_minimum_compute_capability v),
        enc_str (art_runtime_abi v),
        enc_str (art_driver_abi v),
        enc_str (art_compiler_target v),
        enc_str (art_state_format v),
        enc_u64 (art_size_bytes v),
        enc_u64 (art_required_memory_bytes v),
        encode_capability_set (art_capabilities v),
        enc_enum Currentness_values (art_currentness v),
        encode_stamp (art_stamp v),
        encode_evidence_list (art_evidence v)]"

definition decode_artifact :: "ArtifactRecord decoder" where
  "decode_artifact =
     dec_bind (dec_id ''ArtifactIdTag'') (\<lambda>id.
     dec_bind dec_gen (\<lambda>generation.
     dec_bind (dec_enum ArtifactKind_values ''artifact kind'') (\<lambda>kind.
     dec_bind dec_str (\<lambda>format.
     dec_bind dec_str (\<lambda>kernel_format.
     dec_bind (dec_text_vector 64) (\<lambda>target_architectures.
     dec_bind dec_str (\<lambda>minimum_compute_capability.
     dec_bind dec_str (\<lambda>runtime_abi.
     dec_bind dec_str (\<lambda>driver_abi.
     dec_bind dec_str (\<lambda>compiler_target.
     dec_bind dec_str (\<lambda>state_format.
     dec_bind dec_u64 (\<lambda>size_bytes.
     dec_bind dec_u64 (\<lambda>required_memory_bytes.
     dec_bind (decode_capability_set kMaxCapabilityEntriesPerPublication) (\<lambda>capabilities.
     dec_bind (dec_enum Currentness_values ''currentness'') (\<lambda>currentness.
     dec_bind decode_stamp (\<lambda>stamp.
     dec_bind (decode_evidence_list kDefaultEvidencePerFinding) (\<lambda>evidence.
     dec_validated ''encoded artifact is not valid'' ArtifactRecord_validate
       \<lparr>art_id = id, art_generation = generation, art_kind = kind, art_format = format,
        art_kernel_format = kernel_format, art_target_architectures = target_architectures,
        art_minimum_compute_capability = minimum_compute_capability, art_size_bytes = size_bytes,
        art_runtime_abi = runtime_abi, art_driver_abi = driver_abi,
        art_compiler_target = compiler_target, art_state_format = state_format,
        art_required_memory_bytes = required_memory_bytes, art_capabilities = capabilities,
        art_currentness = currentness, art_stamp = stamp, art_evidence = evidence\<rparr>)))))))))))))))))"

definition encode_workload_class :: "WorkloadClassRecord \<Rightarrow> Encoder \<Rightarrow> Encoder" where
  "encode_workload_class v =
     enc_seq
       [enc_id (wcr_id v),
        enc_str (wcr_display_name v),
        enc_boolean (wcr_prefers_accelerators v),
        enc_enum Currentness_values (wcr_currentness v),
        encode_stamp (wcr_stamp v),
        encode_evidence_list (wcr_evidence v)]"

definition decode_workload_class :: "WorkloadClassRecord decoder" where
  "decode_workload_class =
     dec_bind (dec_id ''WorkloadClassIdTag'') (\<lambda>id.
     dec_bind dec_str (\<lambda>display_name.
     dec_bind dec_boolean (\<lambda>prefers_accelerators.
     dec_bind (dec_enum Currentness_values ''currentness'') (\<lambda>currentness.
     dec_bind decode_stamp (\<lambda>stamp.
     dec_bind (decode_evidence_list kDefaultEvidencePerFinding) (\<lambda>evidence.
     dec_validated ''encoded workload class is not valid'' WorkloadClassRecord_validate
       \<lparr>wcr_id = id, wcr_display_name = display_name,
        wcr_prefers_accelerators = prefers_accelerators, wcr_currentness = currentness,
        wcr_stamp = stamp, wcr_evidence = evidence\<rparr>))))))"

definition encode_workload :: "WorkloadRecord \<Rightarrow> Encoder \<Rightarrow> Encoder" where
  "encode_workload v =
     enc_seq
       [enc_id (wr_id v),
        enc_gen (wr_generation v),
        enc_id (wr_workload_class v),
        enc_id (wr_artifact v),
        enc_gen (wr_artifact_generation v),
        enc_u32 (wr_required_accelerators v),
        enc_u64 (wr_required_memory_bytes_per_accelerator v),
        enc_id_vector (wr_acceptable_accelerator_classes v),
        enc_counted encode_capability_requirement (wr_requirements v),
        enc_id (wr_policy v),
        enc_gen (wr_policy_generation v),
        enc_id (wr_required_domain v),
        enc_enum DomainKind_values (wr_required_domain_kind v),
        enc_boolean (wr_require_single_failure_domain v),
        enc_str (wr_isolation_requirement v),
        enc_str (wr_portability_class v),
        enc_enum Currentness_values (wr_currentness v),
        encode_stamp (wr_stamp v),
        encode_evidence_list (wr_evidence v)]"

definition decode_workload :: "WorkloadRecord decoder" where
  "decode_workload =
     dec_bind (dec_id ''WorkloadIdTag'') (\<lambda>id.
     dec_bind dec_gen (\<lambda>generation.
     dec_bind (dec_id ''WorkloadClassIdTag'') (\<lambda>workload_class.
     dec_bind (dec_id ''ArtifactIdTag'') (\<lambda>artifact.
     dec_bind dec_gen (\<lambda>artifact_generation.
     dec_bind dec_u32 (\<lambda>required_accelerators.
     dec_bind dec_u64 (\<lambda>required_memory_bytes_per_accelerator.
     dec_bind (dec_id_vector ''AcceleratorClassIdTag'') (\<lambda>acceptable_accelerator_classes.
     dec_bind (dec_counted kMaxCapabilityEntriesPerPublication ''encoded requirement list exceeds the permitted size'' decode_capability_requirement) (\<lambda>requirements.
     dec_bind (dec_id ''PolicyIdTag'') (\<lambda>policy.
     dec_bind dec_gen (\<lambda>policy_generation.
     dec_bind (dec_id ''DomainIdTag'') (\<lambda>required_domain.
     dec_bind (dec_enum DomainKind_values ''domain kind'') (\<lambda>required_domain_kind.
     dec_bind dec_boolean (\<lambda>require_single_failure_domain.
     dec_bind dec_str (\<lambda>isolation_requirement.
     dec_bind dec_str (\<lambda>portability_class.
     dec_bind (dec_enum Currentness_values ''currentness'') (\<lambda>currentness.
     dec_bind decode_stamp (\<lambda>stamp.
     dec_bind (decode_evidence_list kDefaultEvidencePerFinding) (\<lambda>evidence.
     dec_validated ''encoded workload is not valid'' WorkloadRecord_validate
       \<lparr>wr_id = id, wr_generation = generation, wr_workload_class = workload_class,
        wr_artifact = artifact, wr_artifact_generation = artifact_generation,
        wr_required_accelerators = required_accelerators,
        wr_required_memory_bytes_per_accelerator = required_memory_bytes_per_accelerator,
        wr_acceptable_accelerator_classes = acceptable_accelerator_classes,
        wr_requirements = requirements, wr_policy = policy, wr_policy_generation = policy_generation,
        wr_required_domain = required_domain, wr_required_domain_kind = required_domain_kind,
        wr_require_single_failure_domain = require_single_failure_domain,
        wr_isolation_requirement = isolation_requirement, wr_portability_class = portability_class,
        wr_currentness = currentness, wr_stamp = stamp, wr_evidence = evidence\<rparr>)))))))))))))))))))"

section \<open>Digests\<close>

definition digest_federation :: "FederationRecord \<Rightarrow> string" where
  "digest_federation = digest_of encode_federation"

definition digest_site :: "SiteRecord \<Rightarrow> string" where
  "digest_site = digest_of encode_site"

definition digest_accelerator_class :: "AcceleratorClassRecord \<Rightarrow> string" where
  "digest_accelerator_class = digest_of encode_accelerator_class"

definition digest_runtime :: "RuntimeRecord \<Rightarrow> string" where
  "digest_runtime = digest_of encode_runtime"

definition digest_backend :: "BackendRecord \<Rightarrow> string" where
  "digest_backend = digest_of encode_backend"

definition digest_domain :: "DomainRecord \<Rightarrow> string" where
  "digest_domain = digest_of encode_domain"

definition digest_cluster :: "ClusterRecord \<Rightarrow> string" where
  "digest_cluster = digest_of encode_cluster"

definition digest_policy :: "PolicyRecord \<Rightarrow> string" where
  "digest_policy = digest_of encode_policy"

definition digest_artifact :: "ArtifactRecord \<Rightarrow> string" where
  "digest_artifact = digest_of encode_artifact"

definition digest_workload_class :: "WorkloadClassRecord \<Rightarrow> string" where
  "digest_workload_class = digest_of encode_workload_class"

definition digest_workload :: "WorkloadRecord \<Rightarrow> string" where
  "digest_workload = digest_of encode_workload"

section \<open>Round trips\<close>

definition FederationRecord_encodable :: "FederationRecord \<Rightarrow> bool" where
  "FederationRecord_encodable v \<longleftrightarrow>
     id_encodable (fr_id v) \<and> text_ok (fr_display_name v) \<and>
     ids_encodable (fr_sites v) \<and> ids_encodable (fr_clusters v) \<and>
     ids_encodable (fr_accelerator_classes v) \<and> ids_encodable (fr_runtimes v) \<and>
     ids_encodable (fr_workload_classes v) \<and> id_encodable (fr_policy v) \<and>
     ObservationStamp_encodable (fr_stamp v) \<and>
     EvidenceList_encodable kDefaultEvidencePerFinding (fr_evidence v) \<and>
     FederationRecord_validate v = Success"

lemma field_federation:
  "FederationRecord_encodable v \<Longrightarrow> field_ok (encode_federation v) decode_federation v"
  unfolding encode_federation_def decode_federation_def FederationRecord_encodable_def
  by (elim conjE) ((rule fo_codec | assumption)+, simp_all)

interpretation federation_codec: field_codec encode_federation decode_federation FederationRecord_encodable
  by unfold_locales (rule field_federation)

definition SiteRecord_encodable :: "SiteRecord \<Rightarrow> bool" where
  "SiteRecord_encodable v \<longleftrightarrow>
     id_encodable (sr_id v) \<and> id_encodable (sr_federation v) \<and>
     text_ok (sr_region v) \<and> text_ok (sr_zone v) \<and> text_ok (sr_failure_domain v) \<and>
     ids_encodable (sr_clusters v) \<and> ids_encodable (sr_policies v) \<and>
     ObservationStamp_encodable (sr_stamp v) \<and>
     EvidenceList_encodable kDefaultEvidencePerFinding (sr_evidence v) \<and>
     SiteRecord_validate v = Success"

lemma field_site:
  "SiteRecord_encodable v \<Longrightarrow> field_ok (encode_site v) decode_site v"
  unfolding encode_site_def decode_site_def SiteRecord_encodable_def
  by (elim conjE) ((rule fo_codec | assumption)+, simp_all)

interpretation site_codec: field_codec encode_site decode_site SiteRecord_encodable
  by unfold_locales (rule field_site)

definition AcceleratorClassRecord_encodable :: "AcceleratorClassRecord \<Rightarrow> bool" where
  "AcceleratorClassRecord_encodable v \<longleftrightarrow>
     id_encodable (ar_id v) \<and> text_ok (ar_vendor v) \<and> text_ok (ar_family v) \<and>
     text_ok (ar_model v) \<and> text_ok (ar_architecture v) \<and>
     text_ok (ar_compute_capability v) \<and>
     CapabilitySet_encodable kMaxCapabilityEntriesPerPublication (ar_capabilities v) \<and>
     ObservationStamp_encodable (ar_stamp v) \<and>
     EvidenceList_encodable kDefaultEvidencePerFinding (ar_evidence v) \<and>
     AcceleratorClassRecord_validate v = Success"

lemma field_accelerator_class:
  "AcceleratorClassRecord_encodable v \<Longrightarrow> field_ok (encode_accelerator_class v) decode_accelerator_class v"
  unfolding encode_accelerator_class_def decode_accelerator_class_def AcceleratorClassRecord_encodable_def
  by (elim conjE) ((rule fo_codec | assumption)+, simp_all)

interpretation accelerator_class_codec: field_codec encode_accelerator_class decode_accelerator_class AcceleratorClassRecord_encodable
  by unfold_locales (rule field_accelerator_class)

definition RuntimeRecord_encodable :: "RuntimeRecord \<Rightarrow> bool" where
  "RuntimeRecord_encodable v \<longleftrightarrow>
     id_encodable (rr_id v) \<and> id_encodable (rr_backend v) \<and>
     text_ok (rr_version v) \<and> text_ok (rr_abi v) \<and> text_ok (rr_driver_version v) \<and>
     text_ok (rr_driver_abi v) \<and> text_ok (rr_compiler_version v) \<and>
     CapabilitySet_encodable kMaxCapabilityEntriesPerPublication (rr_capabilities v) \<and>
     ObservationStamp_encodable (rr_stamp v) \<and>
     EvidenceList_encodable kDefaultEvidencePerFinding (rr_evidence v) \<and>
     RuntimeRecord_validate v = Success"

lemma field_runtime:
  "RuntimeRecord_encodable v \<Longrightarrow> field_ok (encode_runtime v) decode_runtime v"
  unfolding encode_runtime_def decode_runtime_def RuntimeRecord_encodable_def
  by (elim conjE) ((rule fo_codec | assumption)+, simp_all)

interpretation runtime_codec: field_codec encode_runtime decode_runtime RuntimeRecord_encodable
  by unfold_locales (rule field_runtime)

definition BackendRecord_encodable :: "BackendRecord \<Rightarrow> bool" where
  "BackendRecord_encodable v \<longleftrightarrow>
     id_encodable (br_id v) \<and> id_encodable (br_runtime v) \<and> text_ok (br_name v) \<and>
     text_ok (br_version v) \<and>
     CapabilitySet_encodable kMaxCapabilityEntriesPerPublication (br_capabilities v) \<and>
     ObservationStamp_encodable (br_stamp v) \<and>
     EvidenceList_encodable kDefaultEvidencePerFinding (br_evidence v) \<and>
     BackendRecord_validate v = Success"

lemma field_backend:
  "BackendRecord_encodable v \<Longrightarrow> field_ok (encode_backend v) decode_backend v"
  unfolding encode_backend_def decode_backend_def BackendRecord_encodable_def
  by (elim conjE) ((rule fo_codec | assumption)+, simp_all)

interpretation backend_codec: field_codec encode_backend decode_backend BackendRecord_encodable
  by unfold_locales (rule field_backend)

definition DomainRecord_encodable :: "DomainRecord \<Rightarrow> bool" where
  "DomainRecord_encodable v \<longleftrightarrow>
     id_encodable (dr_id v) \<and> id_encodable (dr_federation v) \<and>
     id_encodable (dr_site v) \<and> ids_encodable (dr_clusters v) \<and>
     ObservationStamp_encodable (dr_stamp v) \<and>
     EvidenceList_encodable kDefaultEvidencePerFinding (dr_evidence v) \<and>
     DomainRecord_validate v = Success"

lemma field_domain:
  "DomainRecord_encodable v \<Longrightarrow> field_ok (encode_domain v) decode_domain v"
  unfolding encode_domain_def decode_domain_def DomainRecord_encodable_def
  by (elim conjE) ((rule fo_codec | assumption)+, simp_all)

interpretation domain_codec: field_codec encode_domain decode_domain DomainRecord_encodable
  by unfold_locales (rule field_domain)

definition ClusterRecord_encodable :: "ClusterRecord \<Rightarrow> bool" where
  "ClusterRecord_encodable v \<longleftrightarrow>
     id_encodable (clr_id v) \<and> id_encodable (clr_federation v) \<and>
     id_encodable (clr_site v) \<and> id_encodable (clr_domain v) \<and>
     text_ok (clr_failure_domain v) \<and> text_ok (clr_zone v) \<and>
     ids_encodable (clr_accelerator_classes v) \<and> ids_encodable (clr_runtimes v) \<and>
     ids_encodable (clr_backends v) \<and>
     vector_encodable kMaxPoolsPerCluster CapacityPool_less CapacityPool_encodable (clr_capacity_pools v) \<and>
     CapabilitySet_encodable kMaxCapabilityEntriesPerPublication (clr_capabilities v) \<and>
     ObservationStamp_encodable (clr_stamp v) \<and>
     EvidenceList_encodable kDefaultEvidencePerFinding (clr_evidence v) \<and>
     ClusterRecord_validate v = Success"

lemma field_cluster:
  "ClusterRecord_encodable v \<Longrightarrow> field_ok (encode_cluster v) decode_cluster v"
  unfolding encode_cluster_def decode_cluster_def ClusterRecord_encodable_def
  by (elim conjE) ((rule fo_codec | assumption)+, simp_all)

interpretation cluster_codec: field_codec encode_cluster decode_cluster ClusterRecord_encodable
  by unfold_locales (rule field_cluster)

definition PolicyRecord_encodable :: "PolicyRecord \<Rightarrow> bool" where
  "PolicyRecord_encodable v \<longleftrightarrow>
     id_encodable (pr_id v) \<and> text_ok (pr_name v) \<and>
     ids_encodable (pr_allowed_sites v) \<and> ids_encodable (pr_denied_sites v) \<and>
     ids_encodable (pr_allowed_clusters v) \<and> ids_encodable (pr_denied_clusters v) \<and>
     text_ok (pr_data_residency v) \<and> text_ok (pr_isolation_requirement v) \<and>
     CapabilitySet_encodable kMaxCapabilityEntriesPerPublication (pr_capabilities v) \<and>
     ObservationStamp_encodable (pr_stamp v) \<and>
     EvidenceList_encodable kDefaultEvidencePerFinding (pr_evidence v) \<and>
     PolicyRecord_validate v = Success"

lemma field_policy:
  "PolicyRecord_encodable v \<Longrightarrow> field_ok (encode_policy v) decode_policy v"
  unfolding encode_policy_def decode_policy_def PolicyRecord_encodable_def
  by (elim conjE) ((rule fo_codec | assumption)+, simp_all)

interpretation policy_codec: field_codec encode_policy decode_policy PolicyRecord_encodable
  by unfold_locales (rule field_policy)

definition ArtifactRecord_encodable :: "ArtifactRecord \<Rightarrow> bool" where
  "ArtifactRecord_encodable v \<longleftrightarrow>
     id_encodable (art_id v) \<and> text_ok (art_format v) \<and>
     text_ok (art_kernel_format v) \<and> texts_encodable 64 (art_target_architectures v) \<and>
     text_ok (art_minimum_compute_capability v) \<and> text_ok (art_runtime_abi v) \<and>
     text_ok (art_driver_abi v) \<and> text_ok (art_compiler_target v) \<and>
     text_ok (art_state_format v) \<and>
     CapabilitySet_encodable kMaxCapabilityEntriesPerPublication (art_capabilities v) \<and>
     ObservationStamp_encodable (art_stamp v) \<and>
     EvidenceList_encodable kDefaultEvidencePerFinding (art_evidence v) \<and>
     ArtifactRecord_validate v = Success"

lemma field_artifact:
  "ArtifactRecord_encodable v \<Longrightarrow> field_ok (encode_artifact v) decode_artifact v"
  unfolding encode_artifact_def decode_artifact_def ArtifactRecord_encodable_def
  by (elim conjE) ((rule fo_codec | assumption)+, simp_all)

interpretation artifact_codec: field_codec encode_artifact decode_artifact ArtifactRecord_encodable
  by unfold_locales (rule field_artifact)

definition WorkloadClassRecord_encodable :: "WorkloadClassRecord \<Rightarrow> bool" where
  "WorkloadClassRecord_encodable v \<longleftrightarrow>
     id_encodable (wcr_id v) \<and> text_ok (wcr_display_name v) \<and>
     ObservationStamp_encodable (wcr_stamp v) \<and>
     EvidenceList_encodable kDefaultEvidencePerFinding (wcr_evidence v) \<and>
     WorkloadClassRecord_validate v = Success"

lemma field_workload_class:
  "WorkloadClassRecord_encodable v \<Longrightarrow> field_ok (encode_workload_class v) decode_workload_class v"
  unfolding encode_workload_class_def decode_workload_class_def WorkloadClassRecord_encodable_def
  by (elim conjE) ((rule fo_codec | assumption)+, simp_all)

interpretation workload_class_codec: field_codec encode_workload_class decode_workload_class WorkloadClassRecord_encodable
  by unfold_locales (rule field_workload_class)

definition WorkloadRecord_encodable :: "WorkloadRecord \<Rightarrow> bool" where
  "WorkloadRecord_encodable v \<longleftrightarrow>
     id_encodable (wr_id v) \<and> id_encodable (wr_workload_class v) \<and>
     id_encodable (wr_artifact v) \<and>
     ids_encodable (wr_acceptable_accelerator_classes v) \<and>
     counted_encodable kMaxCapabilityEntriesPerPublication CapabilityRequirement_encodable (wr_requirements v) \<and>
     id_encodable (wr_policy v) \<and> id_encodable (wr_required_domain v) \<and>
     text_ok (wr_isolation_requirement v) \<and> text_ok (wr_portability_class v) \<and>
     ObservationStamp_encodable (wr_stamp v) \<and>
     EvidenceList_encodable kDefaultEvidencePerFinding (wr_evidence v) \<and>
     WorkloadRecord_validate v = Success"

lemma field_workload:
  "WorkloadRecord_encodable v \<Longrightarrow> field_ok (encode_workload v) decode_workload v"
  unfolding encode_workload_def decode_workload_def WorkloadRecord_encodable_def
  by (elim conjE) ((rule fo_codec | assumption)+, simp_all)

interpretation workload_codec: field_codec encode_workload decode_workload WorkloadRecord_encodable
  by unfold_locales (rule field_workload)

section \<open>Safety of the record decoders\<close>

lemma safe_federation [fo_safe]: "dec_safe decode_federation"
  unfolding decode_federation_def by (intro fo_safe)

lemma safe_site [fo_safe]: "dec_safe decode_site"
  unfolding decode_site_def by (intro fo_safe)

lemma safe_accelerator_class [fo_safe]: "dec_safe decode_accelerator_class"
  unfolding decode_accelerator_class_def by (intro fo_safe)

lemma safe_runtime [fo_safe]: "dec_safe decode_runtime"
  unfolding decode_runtime_def by (intro fo_safe)

lemma safe_backend [fo_safe]: "dec_safe decode_backend"
  unfolding decode_backend_def by (intro fo_safe)

lemma safe_domain [fo_safe]: "dec_safe decode_domain"
  unfolding decode_domain_def by (intro fo_safe)

lemma safe_cluster [fo_safe]: "dec_safe decode_cluster"
  unfolding decode_cluster_def by (intro fo_safe)

lemma safe_policy [fo_safe]: "dec_safe decode_policy"
  unfolding decode_policy_def by (intro fo_safe)

lemma safe_artifact [fo_safe]: "dec_safe decode_artifact"
  unfolding decode_artifact_def by (intro fo_safe)

lemma safe_workload_class [fo_safe]: "dec_safe decode_workload_class"
  unfolding decode_workload_class_def by (intro fo_safe)

lemma safe_workload [fo_safe]: "dec_safe decode_workload"
  unfolding decode_workload_def by (intro fo_safe)

lemma yields_federation: "dec_yields (\<lambda>v. FederationRecord_validate v = Success) decode_federation"
  unfolding decode_federation_def by (intro fo_yields)

lemma yields_site: "dec_yields (\<lambda>v. SiteRecord_validate v = Success) decode_site"
  unfolding decode_site_def by (intro fo_yields)

lemma yields_accelerator_class: "dec_yields (\<lambda>v. AcceleratorClassRecord_validate v = Success) decode_accelerator_class"
  unfolding decode_accelerator_class_def by (intro fo_yields)

lemma yields_runtime: "dec_yields (\<lambda>v. RuntimeRecord_validate v = Success) decode_runtime"
  unfolding decode_runtime_def by (intro fo_yields)

lemma yields_backend: "dec_yields (\<lambda>v. BackendRecord_validate v = Success) decode_backend"
  unfolding decode_backend_def by (intro fo_yields)

lemma yields_domain: "dec_yields (\<lambda>v. DomainRecord_validate v = Success) decode_domain"
  unfolding decode_domain_def by (intro fo_yields)

lemma yields_cluster: "dec_yields (\<lambda>v. ClusterRecord_validate v = Success) decode_cluster"
  unfolding decode_cluster_def by (intro fo_yields)

lemma yields_policy: "dec_yields (\<lambda>v. PolicyRecord_validate v = Success) decode_policy"
  unfolding decode_policy_def by (intro fo_yields)

lemma yields_artifact: "dec_yields (\<lambda>v. ArtifactRecord_validate v = Success) decode_artifact"
  unfolding decode_artifact_def by (intro fo_yields)

lemma yields_workload_class: "dec_yields (\<lambda>v. WorkloadClassRecord_validate v = Success) decode_workload_class"
  unfolding decode_workload_class_def by (intro fo_yields)

lemma yields_workload: "dec_yields (\<lambda>v. WorkloadRecord_validate v = Success) decode_workload"
  unfolding decode_workload_def by (intro fo_yields)

end
