(* ===== verification/FO_Placement.thy ===== *)
theory FO_Placement
  imports FO_Model
begin

text \<open>
  Observed placement decisions (\<open>placement.hpp\<close>, \<open>placement.cpp\<close>): rejection reasons and their bit
  mask, candidate rows, the placement record and its validation. The explanations built on them are
  in \<open>FO_Explain\<close>.
\<close>

unbundle bit_operations_syntax

section \<open>Rejection reasons\<close>

datatype RejectionReason =
    RejectionReason_Unknown
  | RejectionReason_InsufficientAccelerators
  | RejectionReason_InsufficientMemory
  | RejectionReason_CapabilityMissing
  | RejectionReason_ArtifactIncompatible
  | RejectionReason_RuntimeIncompatible
  | RejectionReason_DriverIncompatible
  | RejectionReason_TopologyIncompatible
  | RejectionReason_IsolationIncompatible
  | RejectionReason_AbiIncompatible
  | RejectionReason_PolicyRejected
  | RejectionReason_ClusterDraining
  | RejectionReason_ClusterNotReady
  | RejectionReason_StaleClusterEvidence
  | RejectionReason_CapacityReserved
  | RejectionReason_PortabilityNotProven
  | RejectionReason_SiteRestriction
  | RejectionReason_LocalityConstraint
  | RejectionReason_FailureDomainConstraint

definition RejectionReason_values :: "RejectionReason list" where
  "RejectionReason_values =
     [RejectionReason_Unknown, RejectionReason_InsufficientAccelerators,
      RejectionReason_InsufficientMemory, RejectionReason_CapabilityMissing,
      RejectionReason_ArtifactIncompatible, RejectionReason_RuntimeIncompatible,
      RejectionReason_DriverIncompatible, RejectionReason_TopologyIncompatible,
      RejectionReason_IsolationIncompatible, RejectionReason_AbiIncompatible,
      RejectionReason_PolicyRejected, RejectionReason_ClusterDraining,
      RejectionReason_ClusterNotReady, RejectionReason_StaleClusterEvidence,
      RejectionReason_CapacityReserved, RejectionReason_PortabilityNotProven,
      RejectionReason_SiteRestriction, RejectionReason_LocalityConstraint,
      RejectionReason_FailureDomainConstraint]"

fun RejectionReason_to_string :: "RejectionReason \<Rightarrow> string" where
  "RejectionReason_to_string RejectionReason_Unknown = ''UNKNOWN''"
| "RejectionReason_to_string RejectionReason_InsufficientAccelerators = ''INSUFFICIENT_ACCELERATORS''"
| "RejectionReason_to_string RejectionReason_InsufficientMemory = ''INSUFFICIENT_MEMORY''"
| "RejectionReason_to_string RejectionReason_CapabilityMissing = ''CAPABILITY_MISSING''"
| "RejectionReason_to_string RejectionReason_ArtifactIncompatible = ''ARTIFACT_INCOMPATIBLE''"
| "RejectionReason_to_string RejectionReason_RuntimeIncompatible = ''RUNTIME_INCOMPATIBLE''"
| "RejectionReason_to_string RejectionReason_DriverIncompatible = ''DRIVER_INCOMPATIBLE''"
| "RejectionReason_to_string RejectionReason_TopologyIncompatible = ''TOPOLOGY_INCOMPATIBLE''"
| "RejectionReason_to_string RejectionReason_IsolationIncompatible = ''ISOLATION_INCOMPATIBLE''"
| "RejectionReason_to_string RejectionReason_AbiIncompatible = ''ABI_INCOMPATIBLE''"
| "RejectionReason_to_string RejectionReason_PolicyRejected = ''POLICY_REJECTED''"
| "RejectionReason_to_string RejectionReason_ClusterDraining = ''CLUSTER_DRAINING''"
| "RejectionReason_to_string RejectionReason_ClusterNotReady = ''CLUSTER_NOT_READY''"
| "RejectionReason_to_string RejectionReason_StaleClusterEvidence = ''STALE_CLUSTER_EVIDENCE''"
| "RejectionReason_to_string RejectionReason_CapacityReserved = ''CAPACITY_RESERVED''"
| "RejectionReason_to_string RejectionReason_PortabilityNotProven = ''PORTABILITY_NOT_PROVEN''"
| "RejectionReason_to_string RejectionReason_SiteRestriction = ''SITE_RESTRICTION''"
| "RejectionReason_to_string RejectionReason_LocalityConstraint = ''LOCALITY_CONSTRAINT''"
| "RejectionReason_to_string RejectionReason_FailureDomainConstraint = ''FAILURE_DOMAIN_CONSTRAINT''"

interpretation rejection_reason_enum: named_enumeration RejectionReason_values RejectionReason_to_string
proof unfold_locales
  show "v \<in> set RejectionReason_values" for v by (cases v) (simp_all add: RejectionReason_values_def)
qed (simp_all add: RejectionReason_values_def)

definition kRejectionReasonCount :: nat where
  "kRejectionReasonCount = 19"

definition parse_rejection_reason :: "string \<Rightarrow> RejectionReason option" where
  "parse_rejection_reason = parse_enum RejectionReason_values RejectionReason_to_string"

fun rejection_reason_precedence :: "RejectionReason \<Rightarrow> nat" where
  "rejection_reason_precedence RejectionReason_Unknown = 0"
| "rejection_reason_precedence RejectionReason_StaleClusterEvidence = 1"
| "rejection_reason_precedence RejectionReason_ClusterDraining = 2"
| "rejection_reason_precedence RejectionReason_ClusterNotReady = 3"
| "rejection_reason_precedence RejectionReason_CapacityReserved = 4"
| "rejection_reason_precedence RejectionReason_InsufficientAccelerators = 5"
| "rejection_reason_precedence RejectionReason_InsufficientMemory = 6"
| "rejection_reason_precedence RejectionReason_CapabilityMissing = 7"
| "rejection_reason_precedence RejectionReason_ArtifactIncompatible = 8"
| "rejection_reason_precedence RejectionReason_AbiIncompatible = 9"
| "rejection_reason_precedence RejectionReason_RuntimeIncompatible = 10"
| "rejection_reason_precedence RejectionReason_DriverIncompatible = 11"
| "rejection_reason_precedence RejectionReason_TopologyIncompatible = 12"
| "rejection_reason_precedence RejectionReason_IsolationIncompatible = 13"
| "rejection_reason_precedence RejectionReason_LocalityConstraint = 14"
| "rejection_reason_precedence RejectionReason_FailureDomainConstraint = 15"
| "rejection_reason_precedence RejectionReason_PortabilityNotProven = 16"
| "rejection_reason_precedence RejectionReason_SiteRestriction = 17"
| "rejection_reason_precedence RejectionReason_PolicyRejected = 18"

fun reject_reason_for_stranding :: "StrandingReason \<Rightarrow> RejectionReason" where
  "reject_reason_for_stranding StrandingReason_UnsupportedAcceleratorCapability = RejectionReason_CapabilityMissing"
| "reject_reason_for_stranding StrandingReason_UnsupportedPrecision = RejectionReason_CapabilityMissing"
| "reject_reason_for_stranding StrandingReason_MissingOffloadCapability = RejectionReason_CapabilityMissing"
| "reject_reason_for_stranding StrandingReason_MissingInterconnectFeature = RejectionReason_TopologyIncompatible"
| "reject_reason_for_stranding StrandingReason_RuntimeMismatch = RejectionReason_RuntimeIncompatible"
| "reject_reason_for_stranding StrandingReason_DriverMismatch = RejectionReason_DriverIncompatible"
| "reject_reason_for_stranding StrandingReason_AbiMismatch = RejectionReason_AbiIncompatible"
| "reject_reason_for_stranding StrandingReason_ArtifactIncompatibility = RejectionReason_ArtifactIncompatible"
| "reject_reason_for_stranding StrandingReason_MissingCompilerTarget = RejectionReason_ArtifactIncompatible"
| "reject_reason_for_stranding StrandingReason_PartitionGeometry = RejectionReason_TopologyIncompatible"
| "reject_reason_for_stranding StrandingReason_TopologyConstraint = RejectionReason_TopologyIncompatible"
| "reject_reason_for_stranding StrandingReason_IsolationRequirement = RejectionReason_IsolationIncompatible"
| "reject_reason_for_stranding StrandingReason_MissingLocalStorageState = RejectionReason_CapabilityMissing"
| "reject_reason_for_stranding StrandingReason_MemoryInsufficient = RejectionReason_InsufficientMemory"
| "reject_reason_for_stranding StrandingReason_SiteRestriction = RejectionReason_SiteRestriction"
| "reject_reason_for_stranding StrandingReason_PolicyRestriction = RejectionReason_PolicyRejected"
| "reject_reason_for_stranding StrandingReason_Unknown = RejectionReason_Unknown"
| "reject_reason_for_stranding StrandingReason_None = RejectionReason_Unknown"

definition rejection_bit :: "RejectionReason \<Rightarrow> u32" where
  "rejection_bit reason = push_bit (enum_index RejectionReason_values reason) 1"

section \<open>Candidates\<close>

datatype CandidateStatus =
    CandidateStatus_Selected
  | CandidateStatus_Rejected
  | CandidateStatus_NotConsidered
  | CandidateStatus_Unattributed

definition CandidateStatus_values :: "CandidateStatus list" where
  "CandidateStatus_values =
     [CandidateStatus_Selected, CandidateStatus_Rejected, CandidateStatus_NotConsidered,
      CandidateStatus_Unattributed]"

fun CandidateStatus_to_string :: "CandidateStatus \<Rightarrow> string" where
  "CandidateStatus_to_string CandidateStatus_Selected = ''SELECTED''"
| "CandidateStatus_to_string CandidateStatus_Rejected = ''REJECTED''"
| "CandidateStatus_to_string CandidateStatus_NotConsidered = ''NOT_CONSIDERED''"
| "CandidateStatus_to_string CandidateStatus_Unattributed = ''UNATTRIBUTED''"

interpretation candidate_status_enum: named_enumeration CandidateStatus_values CandidateStatus_to_string
proof unfold_locales
  show "v \<in> set CandidateStatus_values" for v by (cases v) (simp_all add: CandidateStatus_values_def)
qed (simp_all add: CandidateStatus_values_def)

record CandidateObservation =
  co_cluster :: ClusterId
  co_cluster_generation :: ClusterGeneration
  co_cluster_epoch :: ClusterEpoch
  co_accelerator_class :: AcceleratorClassId
  co_status :: CandidateStatus
  co_reasons :: u32
  co_basis :: ReasonBasis
  co_precision :: Precision
  co_evidence_class :: EvidenceClass
  co_detail :: string
  co_evidence :: EvidenceList

definition CandidateObservation_init :: CandidateObservation where
  "CandidateObservation_init =
     \<lparr>co_cluster = no_id, co_cluster_generation = gen_unset, co_cluster_epoch = gen_unset,
      co_accelerator_class = no_id, co_status = CandidateStatus_Unattributed, co_reasons = 0,
      co_basis = ReasonBasis_Unattributed, co_precision = Precision_Unknown,
      co_evidence_class = EvidenceClass_Unknown, co_detail = [], co_evidence = no_evidence\<rparr>"

definition has_reason :: "CandidateObservation \<Rightarrow> RejectionReason \<Rightarrow> bool" where
  "has_reason c reason = (co_reasons c AND rejection_bit reason \<noteq> 0)"

definition reason_list :: "CandidateObservation \<Rightarrow> RejectionReason list" where
  "reason_list c =
     stable_sort (\<lambda>a b. rejection_reason_precedence a < rejection_reason_precedence b)
       (filter (has_reason c) RejectionReason_values)"

definition CandidateObservation_less :: "CandidateObservation \<Rightarrow> CandidateObservation \<Rightarrow> bool" where
  "CandidateObservation_less a b =
     (if co_cluster a \<noteq> co_cluster b then co_cluster a < co_cluster b
      else if co_status a \<noteq> co_status b then enum_lt CandidateStatus_values (co_status a) (co_status b)
      else co_accelerator_class a < co_accelerator_class b)"

datatype CandidateSetCompleteness =
    CandidateSetCompleteness_Unknown
  | CandidateSetCompleteness_SelectedOnly
  | CandidateSetCompleteness_Partial
  | CandidateSetCompleteness_Complete

definition CandidateSetCompleteness_values :: "CandidateSetCompleteness list" where
  "CandidateSetCompleteness_values =
     [CandidateSetCompleteness_Unknown, CandidateSetCompleteness_SelectedOnly,
      CandidateSetCompleteness_Partial, CandidateSetCompleteness_Complete]"

fun CandidateSetCompleteness_to_string :: "CandidateSetCompleteness \<Rightarrow> string" where
  "CandidateSetCompleteness_to_string CandidateSetCompleteness_Unknown = ''UNKNOWN''"
| "CandidateSetCompleteness_to_string CandidateSetCompleteness_SelectedOnly = ''SELECTED_ONLY''"
| "CandidateSetCompleteness_to_string CandidateSetCompleteness_Partial = ''PARTIAL''"
| "CandidateSetCompleteness_to_string CandidateSetCompleteness_Complete = ''COMPLETE''"

interpretation candidate_set_completeness_enum: named_enumeration CandidateSetCompleteness_values CandidateSetCompleteness_to_string
proof unfold_locales
  show "v \<in> set CandidateSetCompleteness_values" for v by (cases v) (simp_all add: CandidateSetCompleteness_values_def)
qed (simp_all add: CandidateSetCompleteness_values_def)

definition allows_rejection_attribution :: "CandidateSetCompleteness \<Rightarrow> bool" where
  "allows_rejection_attribution completeness =
     (completeness = CandidateSetCompleteness_Partial \<or>
      completeness = CandidateSetCompleteness_Complete)"

section \<open>Placements\<close>

record PlacementRecord =
  plr_id :: PlacementId
  plr_generation :: PlacementGeneration
  plr_workload :: WorkloadId
  plr_workload_generation :: WorkloadGeneration
  plr_federation :: FederationId
  plr_federation_generation :: FederationGeneration
  plr_workload_class :: WorkloadClassId
  plr_selected :: ClusterId
  plr_selected_generation :: ClusterGeneration
  plr_selected_epoch :: ClusterEpoch
  plr_selected_accelerator_class :: AcceleratorClassId
  plr_selected_accelerator_count :: u32
  plr_selected_memory_bytes :: u64
  plr_candidates :: "CandidateObservation list"
  plr_candidate_completeness :: CandidateSetCompleteness
  plr_policy_generation :: PolicyGeneration
  plr_capacity_generation :: CapacityGeneration
  plr_topology_generation :: TopologyGeneration
  plr_compatibility_generation :: CompatibilityGeneration
  plr_runtime_generation :: RuntimeGeneration
  plr_capacity_available :: bool
  plr_compatibility_constrained :: Tri
  plr_topology_constrained :: Tri
  plr_policy_constrained :: Tri
  plr_capability_constrained :: Tri
  plr_affinity_constrained :: Tri
  plr_fallback_required :: bool
  plr_fallback_detail :: string
  plr_cost_known :: bool
  plr_cost_estimate :: double
  plr_slo_class :: string
  plr_currentness :: Currentness
  plr_stamp :: ObservationStamp
  plr_evidence :: EvidenceList

definition PlacementRecord_init :: PlacementRecord where
  "PlacementRecord_init =
     \<lparr>plr_id = no_id, plr_generation = gen_unset, plr_workload = no_id,
      plr_workload_generation = gen_unset, plr_federation = no_id,
      plr_federation_generation = gen_unset, plr_workload_class = no_id, plr_selected = no_id,
      plr_selected_generation = gen_unset, plr_selected_epoch = gen_unset,
      plr_selected_accelerator_class = no_id, plr_selected_accelerator_count = 0,
      plr_selected_memory_bytes = 0, plr_candidates = [],
      plr_candidate_completeness = CandidateSetCompleteness_Unknown,
      plr_policy_generation = gen_unset, plr_capacity_generation = gen_unset,
      plr_topology_generation = gen_unset, plr_compatibility_generation = gen_unset,
      plr_runtime_generation = gen_unset, plr_capacity_available = False,
      plr_compatibility_constrained = Tri_Unknown, plr_topology_constrained = Tri_Unknown,
      plr_policy_constrained = Tri_Unknown, plr_capability_constrained = Tri_Unknown,
      plr_affinity_constrained = Tri_Unknown, plr_fallback_required = False,
      plr_fallback_detail = [], plr_cost_known = False, plr_cost_estimate = 0,
      plr_slo_class = [], plr_currentness = Currentness_Unknown,
      plr_stamp = ObservationStamp_init, plr_evidence = no_evidence\<rparr>"

definition candidate_check :: "PlacementRecord \<Rightarrow> CandidateObservation \<Rightarrow> Status" where
  "candidate_check r c =
     checks
       [refuse_if (id_empty (co_cluster c)) InvalidArgument ''candidate has no cluster'' (id_value (plr_id r)),
        refuse_if (co_status c = CandidateStatus_Selected \<and> co_cluster c \<noteq> plr_selected r)
          InvalidArgument ''selected candidate is not the selected cluster''
          (id_value (plr_id r) @ '' '' @ id_value (co_cluster c)),
        refuse_if (co_reasons c = 0 \<and> co_status c = CandidateStatus_Rejected)
          InvalidArgument ''rejected candidate carries no reason''
          (id_value (plr_id r) @ '' '' @ id_value (co_cluster c))]"

definition PlacementRecord_validate :: "PlacementRecord \<Rightarrow> Status" where
  "PlacementRecord_validate r =
     checks
       [refuse_if (id_empty (plr_id r)) InvalidArgument ''placement id is empty'' [],
        refuse_if (\<not> is_set (plr_generation r)) InvalidArgument ''placement generation is unset'' (id_value (plr_id r)),
        refuse_if (id_empty (plr_workload r)) InvalidArgument ''placement has no workload'' (id_value (plr_id r)),
        refuse_if (\<not> is_set (plr_workload_generation r)) InvalidArgument ''placement workload generation is unset'' (id_value (plr_id r)),
        refuse_if (id_empty (plr_federation r)) InvalidArgument ''placement has no federation'' (id_value (plr_id r)),
        refuse_if (id_empty (plr_selected r)) InvalidArgument ''placement has no selected cluster'' (id_value (plr_id r)),
        refuse_if (length (plr_candidates r) > kMaxCandidatesPerPlacement) BoundExceeded ''too many placement candidates'' (id_value (plr_id r)),
        first_failure (candidate_check r) (plr_candidates r),
        refuse_if (length (filter (\<lambda>c. co_status c = CandidateStatus_Selected) (plr_candidates r)) > 1)
          InvalidArgument ''placement has more than one selected candidate'' (id_value (plr_id r)),
        refuse_if (has_duplicates (map co_cluster (plr_candidates r))) InvalidArgument ''duplicate candidate cluster'' (id_value (plr_id r)),
        refuse_if (plr_candidate_completeness r = CandidateSetCompleteness_SelectedOnly \<and> length (plr_candidates r) > 1)
          InvalidArgument ''candidate set is marked SELECTED_ONLY but carries more than one candidate'' (id_value (plr_id r)),
        refuse_if (plr_candidate_completeness r = CandidateSetCompleteness_SelectedOnly \<and>
            list_ex (\<lambda>c. co_status c = CandidateStatus_Rejected) (plr_candidates r))
          InvalidArgument ''candidate set is marked SELECTED_ONLY but carries a rejection'' (id_value (plr_id r))]"

definition find_candidate :: "PlacementRecord \<Rightarrow> ClusterId \<Rightarrow> CandidateObservation option" where
  "find_candidate r cluster = find (\<lambda>c. co_cluster c = cluster) (plr_candidates r)"

definition rejected_count :: "PlacementRecord \<Rightarrow> nat" where
  "rejected_count r =
     length (filter (\<lambda>c. co_status c = CandidateStatus_Rejected \<or>
                         co_status c = CandidateStatus_NotConsidered) (plr_candidates r))"

section \<open>Order of candidates\<close>

interpretation candidate_order: comparator CandidateObservation_less
  by (rule comparator_key [where key = "\<lambda>c. (co_cluster c, enum_index CandidateStatus_values (co_status c),
        co_accelerator_class c)"])
     (auto simp: CandidateObservation_less_def enum_lt_def candidate_status_enum.enum_index_inject less_le)

end
