(* ===== verification/FO_Migration.thy ===== *)
theory FO_Migration
  imports FO_Model
begin

text \<open>
  Observed migrations (\<open>migration.hpp\<close>, \<open>migration.cpp\<close>): the stage machine, stage events, the
  migration record with its validation and the staleness test of incoming events. The analysis text
  built on them is not modelled.
\<close>

section \<open>The stage machine\<close>

datatype MigrationStage =
    MigrationStage_Planned
  | MigrationStage_SourceQuiescing
  | MigrationStage_StateCaptured
  | MigrationStage_TransferStarted
  | MigrationStage_TransferComplete
  | MigrationStage_DestinationPrepared
  | MigrationStage_RestoreStarted
  | MigrationStage_RestoreComplete
  | MigrationStage_RevalidationRequired
  | MigrationStage_Committed
  | MigrationStage_RolledBack
  | MigrationStage_Failed
  | MigrationStage_OutcomeUnknown

definition MigrationStage_values :: "MigrationStage list" where
  "MigrationStage_values =
     [MigrationStage_Planned, MigrationStage_SourceQuiescing, MigrationStage_StateCaptured,
      MigrationStage_TransferStarted, MigrationStage_TransferComplete,
      MigrationStage_DestinationPrepared, MigrationStage_RestoreStarted,
      MigrationStage_RestoreComplete, MigrationStage_RevalidationRequired,
      MigrationStage_Committed, MigrationStage_RolledBack, MigrationStage_Failed,
      MigrationStage_OutcomeUnknown]"

fun MigrationStage_to_string :: "MigrationStage \<Rightarrow> string" where
  "MigrationStage_to_string MigrationStage_Planned = ''PLANNED''"
| "MigrationStage_to_string MigrationStage_SourceQuiescing = ''SOURCE_QUIESCING''"
| "MigrationStage_to_string MigrationStage_StateCaptured = ''STATE_CAPTURED''"
| "MigrationStage_to_string MigrationStage_TransferStarted = ''TRANSFER_STARTED''"
| "MigrationStage_to_string MigrationStage_TransferComplete = ''TRANSFER_COMPLETE''"
| "MigrationStage_to_string MigrationStage_DestinationPrepared = ''DESTINATION_PREPARED''"
| "MigrationStage_to_string MigrationStage_RestoreStarted = ''RESTORE_STARTED''"
| "MigrationStage_to_string MigrationStage_RestoreComplete = ''RESTORE_COMPLETE''"
| "MigrationStage_to_string MigrationStage_RevalidationRequired = ''REVALIDATION_REQUIRED''"
| "MigrationStage_to_string MigrationStage_Committed = ''COMMITTED''"
| "MigrationStage_to_string MigrationStage_RolledBack = ''ROLLED_BACK''"
| "MigrationStage_to_string MigrationStage_Failed = ''FAILED''"
| "MigrationStage_to_string MigrationStage_OutcomeUnknown = ''OUTCOME_UNKNOWN''"

interpretation migration_stage_enum: named_enumeration MigrationStage_values MigrationStage_to_string
proof unfold_locales
  show "v \<in> set MigrationStage_values" for v by (cases v) (simp_all add: MigrationStage_values_def)
qed (simp_all add: MigrationStage_values_def)

definition parse_migration_stage :: "string \<Rightarrow> MigrationStage option" where
  "parse_migration_stage = parse_enum MigrationStage_values MigrationStage_to_string"

definition is_terminal_stage :: "MigrationStage \<Rightarrow> bool" where
  "is_terminal_stage stage =
     (stage = MigrationStage_Committed \<or> stage = MigrationStage_RolledBack \<or> stage = MigrationStage_Failed)"

fun migration_stage_rank :: "MigrationStage \<Rightarrow> int" where
  "migration_stage_rank MigrationStage_Planned = 0"
| "migration_stage_rank MigrationStage_SourceQuiescing = 1"
| "migration_stage_rank MigrationStage_StateCaptured = 2"
| "migration_stage_rank MigrationStage_TransferStarted = 3"
| "migration_stage_rank MigrationStage_TransferComplete = 4"
| "migration_stage_rank MigrationStage_DestinationPrepared = 5"
| "migration_stage_rank MigrationStage_RestoreStarted = 6"
| "migration_stage_rank MigrationStage_RestoreComplete = 7"
| "migration_stage_rank MigrationStage_RevalidationRequired = 8"
| "migration_stage_rank MigrationStage_Committed = 9"
| "migration_stage_rank MigrationStage_RolledBack = - 1"
| "migration_stage_rank MigrationStage_Failed = - 1"
| "migration_stage_rank MigrationStage_OutcomeUnknown = - 1"

fun is_valid_migration_transition :: "MigrationStage \<Rightarrow> MigrationStage \<Rightarrow> bool" where
  "is_valid_migration_transition MigrationStage_Planned to =
     (to \<in> {MigrationStage_SourceQuiescing, MigrationStage_Failed, MigrationStage_RolledBack, MigrationStage_OutcomeUnknown})"
| "is_valid_migration_transition MigrationStage_SourceQuiescing to =
     (to \<in> {MigrationStage_StateCaptured, MigrationStage_Failed, MigrationStage_RolledBack, MigrationStage_OutcomeUnknown})"
| "is_valid_migration_transition MigrationStage_StateCaptured to =
     (to \<in> {MigrationStage_TransferStarted, MigrationStage_DestinationPrepared, MigrationStage_Failed, MigrationStage_RolledBack, MigrationStage_OutcomeUnknown})"
| "is_valid_migration_transition MigrationStage_TransferStarted to =
     (to \<in> {MigrationStage_TransferComplete, MigrationStage_Failed, MigrationStage_RolledBack, MigrationStage_OutcomeUnknown})"
| "is_valid_migration_transition MigrationStage_TransferComplete to =
     (to \<in> {MigrationStage_DestinationPrepared, MigrationStage_RestoreStarted, MigrationStage_Failed, MigrationStage_RolledBack, MigrationStage_OutcomeUnknown})"
| "is_valid_migration_transition MigrationStage_DestinationPrepared to =
     (to \<in> {MigrationStage_RestoreStarted, MigrationStage_Failed, MigrationStage_RolledBack, MigrationStage_OutcomeUnknown})"
| "is_valid_migration_transition MigrationStage_RestoreStarted to =
     (to \<in> {MigrationStage_RestoreComplete, MigrationStage_Failed, MigrationStage_RolledBack, MigrationStage_OutcomeUnknown})"
| "is_valid_migration_transition MigrationStage_RestoreComplete to =
     (to \<in> {MigrationStage_RevalidationRequired, MigrationStage_Committed, MigrationStage_RolledBack, MigrationStage_Failed, MigrationStage_OutcomeUnknown})"
| "is_valid_migration_transition MigrationStage_RevalidationRequired to =
     (to \<in> {MigrationStage_Committed, MigrationStage_RolledBack, MigrationStage_Failed, MigrationStage_OutcomeUnknown})"
| "is_valid_migration_transition MigrationStage_Committed to =
     False"
| "is_valid_migration_transition MigrationStage_RolledBack to =
     False"
| "is_valid_migration_transition MigrationStage_Failed to =
     False"
| "is_valid_migration_transition MigrationStage_OutcomeUnknown to =
     (to \<in> {MigrationStage_Committed, MigrationStage_RolledBack, MigrationStage_Failed, MigrationStage_RevalidationRequired})"

definition is_acceptable_migration_event :: "MigrationStage \<Rightarrow> MigrationStage \<Rightarrow> bool" where
  "is_acceptable_migration_event from to = (from = to \<or> is_valid_migration_transition from to)"

datatype MigrationOutcome =
    MigrationOutcome_InProgress
  | MigrationOutcome_Committed
  | MigrationOutcome_RolledBack
  | MigrationOutcome_Failed
  | MigrationOutcome_Unknown

definition MigrationOutcome_values :: "MigrationOutcome list" where
  "MigrationOutcome_values =
     [MigrationOutcome_InProgress, MigrationOutcome_Committed, MigrationOutcome_RolledBack,
      MigrationOutcome_Failed, MigrationOutcome_Unknown]"

fun MigrationOutcome_to_string :: "MigrationOutcome \<Rightarrow> string" where
  "MigrationOutcome_to_string MigrationOutcome_InProgress = ''IN_PROGRESS''"
| "MigrationOutcome_to_string MigrationOutcome_Committed = ''COMMITTED''"
| "MigrationOutcome_to_string MigrationOutcome_RolledBack = ''ROLLED_BACK''"
| "MigrationOutcome_to_string MigrationOutcome_Failed = ''FAILED''"
| "MigrationOutcome_to_string MigrationOutcome_Unknown = ''UNKNOWN''"

interpretation migration_outcome_enum: named_enumeration MigrationOutcome_values MigrationOutcome_to_string
proof unfold_locales
  show "v \<in> set MigrationOutcome_values" for v by (cases v) (simp_all add: MigrationOutcome_values_def)
qed (simp_all add: MigrationOutcome_values_def)

definition parse_migration_outcome :: "string \<Rightarrow> MigrationOutcome option" where
  "parse_migration_outcome = parse_enum MigrationOutcome_values MigrationOutcome_to_string"

section \<open>Migration records\<close>

record MigrationStageEvent =
  mse_generation :: MigrationGeneration
  mse_stage :: MigrationStage
  mse_sequence :: Sequence
  mse_observed_at :: TimestampNanos
  mse_precision :: Precision
  mse_evidence_class :: EvidenceClass
  mse_detail :: string

definition MigrationStageEvent_init :: MigrationStageEvent where
  "MigrationStageEvent_init =
     \<lparr>mse_generation = gen_unset, mse_stage = MigrationStage_Planned, mse_sequence = Sequence 0,
      mse_observed_at = 0, mse_precision = Precision_Unknown,
      mse_evidence_class = EvidenceClass_Unknown, mse_detail = []\<rparr>"

record MigrationRecord =
  mr_id :: MigrationId
  mr_generation :: MigrationGeneration
  mr_workload :: WorkloadId
  mr_workload_generation :: WorkloadGeneration
  mr_federation :: FederationId
  mr_federation_generation :: FederationGeneration
  mr_workload_class :: WorkloadClassId
  mr_supersedes :: MigrationId
  mr_supersedes_generation :: MigrationGeneration
  mr_source :: ClusterId
  mr_source_generation :: ClusterGeneration
  mr_source_epoch :: ClusterEpoch
  mr_destination :: ClusterId
  mr_destination_generation :: ClusterGeneration
  mr_destination_epoch :: ClusterEpoch
  mr_artifact :: ArtifactId
  mr_artifact_generation :: ArtifactGeneration
  mr_source_runtime :: RuntimeId
  mr_source_runtime_generation :: RuntimeGeneration
  mr_destination_runtime :: RuntimeId
  mr_destination_runtime_generation :: RuntimeGeneration
  mr_compatibility_generation :: CompatibilityGeneration
  mr_policy_generation :: PolicyGeneration
  mr_capacity_generation :: CapacityGeneration
  mr_topology_generation :: TopologyGeneration
  mr_stage :: MigrationStage
  mr_outcome :: MigrationOutcome
  mr_stage_events :: "MigrationStageEvent list"
  mr_reason :: string
  mr_reason_observed :: bool
  mr_state_transfer_known :: bool
  mr_state_transfer_bytes :: u64
  mr_downtime_known :: bool
  mr_downtime_micros :: u64
  mr_requires_rebuild :: bool
  mr_requires_recompile :: bool
  mr_requires_conversion :: bool
  mr_requires_state_translation :: bool
  mr_revalidation_pending :: bool
  mr_destination_generation_changed :: bool
  mr_changed_effective_capability :: bool
  mr_changed_slo :: bool
  mr_fallback_detail :: string
  mr_currentness :: Currentness
  mr_stamp :: ObservationStamp
  mr_evidence :: EvidenceList

definition MigrationRecord_init :: MigrationRecord where
  "MigrationRecord_init =
     \<lparr>mr_id = no_id, mr_generation = gen_unset, mr_workload = no_id,
      mr_workload_generation = gen_unset, mr_federation = no_id,
      mr_federation_generation = gen_unset, mr_workload_class = no_id, mr_supersedes = no_id,
      mr_supersedes_generation = gen_unset, mr_source = no_id, mr_source_generation = gen_unset,
      mr_source_epoch = gen_unset, mr_destination = no_id, mr_destination_generation = gen_unset,
      mr_destination_epoch = gen_unset, mr_artifact = no_id, mr_artifact_generation = gen_unset,
      mr_source_runtime = no_id, mr_source_runtime_generation = gen_unset,
      mr_destination_runtime = no_id, mr_destination_runtime_generation = gen_unset,
      mr_compatibility_generation = gen_unset, mr_policy_generation = gen_unset,
      mr_capacity_generation = gen_unset, mr_topology_generation = gen_unset,
      mr_stage = MigrationStage_Planned, mr_outcome = MigrationOutcome_InProgress,
      mr_stage_events = [], mr_reason = [], mr_reason_observed = False,
      mr_state_transfer_known = False, mr_state_transfer_bytes = 0, mr_downtime_known = False,
      mr_downtime_micros = 0, mr_requires_rebuild = False, mr_requires_recompile = False,
      mr_requires_conversion = False, mr_requires_state_translation = False,
      mr_revalidation_pending = False, mr_destination_generation_changed = False,
      mr_changed_effective_capability = False, mr_changed_slo = False, mr_fallback_detail = [],
      mr_currentness = Currentness_Unknown, mr_stamp = ObservationStamp_init,
      mr_evidence = no_evidence\<rparr>"

definition expected_outcome :: "MigrationStage \<Rightarrow> MigrationOutcome" where
  "expected_outcome stage =
     (case stage of
        MigrationStage_Committed \<Rightarrow> MigrationOutcome_Committed
      | MigrationStage_RolledBack \<Rightarrow> MigrationOutcome_RolledBack
      | MigrationStage_Failed \<Rightarrow> MigrationOutcome_Failed
      | MigrationStage_OutcomeUnknown \<Rightarrow> MigrationOutcome_Unknown
      | _ \<Rightarrow> MigrationOutcome_InProgress)"

text \<open>The loop over the stage events; \<open>previous\<close> is the event before, none for the first one.\<close>

fun stage_events_check :: "MigrationRecord \<Rightarrow> MigrationStageEvent option \<Rightarrow> MigrationStageEvent list \<Rightarrow> Status" where
  "stage_events_check r previous [] = Success"
| "stage_events_check r previous (event # events) =
     checks
       [refuse_if (\<not> is_set (mse_generation event)) InvalidArgument ''stage event has no migration generation'' (id_value (mr_id r)),
        refuse_if (newer_than (mse_generation event) (mr_generation r)) InvalidArgument
          ''stage event carries a newer migration generation than the record'' (id_value (mr_id r)),
        (case previous of
           None \<Rightarrow> Success
         | Some p \<Rightarrow>
             checks
               [refuse_if (mse_sequence event \<le> mse_sequence p) SequenceRegression
                  ''stage event sequence does not increase''
                  (id_value (mr_id r) @ '' '' @ seq_to_string (mse_sequence event)),
                refuse_if (\<not> is_acceptable_migration_event (mse_stage p) (mse_stage event)) InvalidTransition
                  ''invalid migration stage transition''
                  (id_value (mr_id r) @ '' '' @ MigrationStage_to_string (mse_stage p) @ '' -> '' @
                   MigrationStage_to_string (mse_stage event))]),
        stage_events_check r (Some event) events]"

definition last_event :: "MigrationRecord \<Rightarrow> MigrationStageEvent option" where
  "last_event r = (if mr_stage_events r = [] then None else Some (last (mr_stage_events r)))"

definition MigrationRecord_validate :: "MigrationRecord \<Rightarrow> Status" where
  "MigrationRecord_validate r =
     checks
       [refuse_if (id_empty (mr_id r)) InvalidArgument ''migration id is empty'' [],
        refuse_if (\<not> is_set (mr_generation r)) InvalidArgument ''migration generation is unset'' (id_value (mr_id r)),
        refuse_if (id_empty (mr_workload r)) InvalidArgument ''migration has no workload'' (id_value (mr_id r)),
        refuse_if (\<not> is_set (mr_workload_generation r)) InvalidArgument ''migration workload generation is unset'' (id_value (mr_id r)),
        refuse_if (id_empty (mr_federation r)) InvalidArgument ''migration has no federation'' (id_value (mr_id r)),
        refuse_if (id_empty (mr_source r) \<or> id_empty (mr_destination r)) InvalidArgument
          ''migration must name a source and a destination'' (id_value (mr_id r)),
        refuse_if (mr_source r = mr_destination r) InvalidArgument
          ''migration source and destination are the same cluster'' (id_value (mr_id r)),
        refuse_if (length (mr_stage_events r) > kMaxStageEventsPerMigration) BoundExceeded
          ''too many migration stage events'' (id_value (mr_id r)),
        stage_events_check r None (mr_stage_events r),
        (case last_event r of
           None \<Rightarrow> Success
         | Some event \<Rightarrow>
             refuse_if (mse_stage event \<noteq> mr_stage r) InvalidTransition
               ''recorded migration stage does not match the last stage event''
               (id_value (mr_id r) @ '' record='' @ MigrationStage_to_string (mr_stage r) @ '' last_event='' @
                MigrationStage_to_string (mse_stage event))),
        refuse_if (mr_outcome r \<noteq> expected_outcome (mr_stage r)) InvalidTransition
          ''migration outcome does not match its stage''
          (id_value (mr_id r) @ '' stage='' @ MigrationStage_to_string (mr_stage r) @ '' outcome='' @
           MigrationOutcome_to_string (mr_outcome r)),
        refuse_if (mr_supersedes r = mr_id r \<and> \<not> id_empty (mr_supersedes r)) InvalidArgument
          ''migration supersedes itself'' (id_value (mr_id r))]"

definition is_stale_migration_event :: "MigrationRecord \<Rightarrow> MigrationGeneration \<Rightarrow> Sequence \<Rightarrow> bool" where
  "is_stale_migration_event current event_generation event_sequence =
     (if \<not> is_set event_generation then True
      else if older_than event_generation (mr_generation current) then True
      else if newer_than event_generation (mr_generation current) then False
      else case last_event current of
             Some l \<Rightarrow> event_sequence \<le> mse_sequence l
           | None \<Rightarrow> False)"

section \<open>Histories\<close>

text \<open>Two consecutive events of a migration.\<close>

definition stage_chain :: "MigrationStageEvent \<Rightarrow> MigrationStageEvent \<Rightarrow> bool" where
  "stage_chain a b \<longleftrightarrow> mse_sequence a < mse_sequence b \<and> is_acceptable_migration_event (mse_stage a) (mse_stage b)"

definition event_generation_ok :: "MigrationGeneration \<Rightarrow> MigrationStageEvent \<Rightarrow> bool" where
  "event_generation_ok g e \<longleftrightarrow> is_set (mse_generation e) \<and> \<not> newer_than (mse_generation e) g"

lemma stage_events_check_Success:
  "stage_events_check r previous events = Success \<longleftrightarrow>
     list_all (event_generation_ok (mr_generation r)) events \<and>
     successively stage_chain ((case previous of None \<Rightarrow> [] | Some p \<Rightarrow> [p]) @ events)"
proof (induction events arbitrary: previous)
  case (Cons e events)
  have IH: "stage_events_check r (Some e) events = Success \<longleftrightarrow>
      list_all (event_generation_ok (mr_generation r)) events \<and> successively stage_chain (e # events)"
    using Cons.IH [of "Some e"] by simp
  show ?case
    by (cases previous)
       (auto simp: checks_Success IH event_generation_ok_def [of _ e] stage_chain_def [of _ e] not_le
         simp del: checks_simps)
qed (auto split: option.split)

definition history_ok :: "MigrationRecord \<Rightarrow> bool" where
  "history_ok r \<longleftrightarrow>
     list_all (event_generation_ok (mr_generation r)) (mr_stage_events r) \<and> successively stage_chain (mr_stage_events r) \<and>
     length (mr_stage_events r) \<le> kMaxStageEventsPerMigration \<and>
     (mr_stage_events r \<noteq> [] \<longrightarrow> mse_stage (last (mr_stage_events r)) = mr_stage r)"

lemma MigrationRecord_validate_history: "MigrationRecord_validate r = Success \<Longrightarrow> history_ok r"
  by (auto simp: MigrationRecord_validate_def checks_Success stage_events_check_Success history_ok_def
      last_event_def simp del: checks_simps stage_events_check.simps split: if_splits)

lemma MigrationRecord_validate_ids:
  "MigrationRecord_validate r = Success \<Longrightarrow>
     \<not> id_empty (mr_id r) \<and> \<not> id_empty (mr_workload r) \<and> is_set (mr_generation r) \<and> mr_source r \<noteq> mr_destination r \<and>
     mr_outcome r = expected_outcome (mr_stage r)"
  by (auto simp: MigrationRecord_validate_def checks_Success simp del: checks_simps stage_events_check.simps)

lemma terminal_absorbing:
  "is_terminal_stage s \<Longrightarrow> is_acceptable_migration_event s t \<longleftrightarrow> t = s"
  by (cases s) (auto simp: is_terminal_stage_def is_acceptable_migration_event_def)

lemma transition_rank:
  "is_valid_migration_transition s t \<Longrightarrow> migration_stage_rank s \<ge> 0 \<Longrightarrow> migration_stage_rank t \<ge> 0 \<Longrightarrow>
     migration_stage_rank s < migration_stage_rank t"
  by (cases s) auto

lemma commit_predecessor:
  "is_valid_migration_transition s MigrationStage_Committed \<longleftrightarrow>
     s \<in> {MigrationStage_RestoreComplete, MigrationStage_RevalidationRequired, MigrationStage_OutcomeUnknown}"
  by (cases s) auto

lemma successively_step: "successively P xs \<Longrightarrow> Suc i < length xs \<Longrightarrow> P (xs ! i) (xs ! Suc i)"
proof (induction xs arbitrary: i)
  case (Cons x xs)
  then show ?case by (cases xs; cases i) auto
qed simp

lemma successively_terminal:
  assumes "successively stage_chain events" and "i \<le> j" and "j < length events"
    and "is_terminal_stage (mse_stage (events ! i))"
  shows "mse_stage (events ! j) = mse_stage (events ! i)"
  using assms(2,3)
proof (induction j rule: dec_induct)
  case (step j)
  then have "stage_chain (events ! j) (events ! Suc j)"
    using assms(1) by (simp add: successively_step)
  with step assms(4) show ?case by (simp add: stage_chain_def terminal_absorbing)
qed simp

lemma successively_sequences:
  assumes "successively stage_chain events"
  shows "sorted_wrt (\<lambda>a b. mse_sequence a < mse_sequence b) events"
proof -
  have "successively (\<lambda>a b. mse_sequence a < mse_sequence b) events"
    using assms by (rule successively_mono) (simp add: stage_chain_def)
  then show ?thesis
    by (subst (asm) successively_conv_sorted_wrt) (auto simp: transp_def)
qed

text \<open>
  A migration record that \<open>MigrationRecord::validate\<close> accepts has a legal history: the
  sequence numbers of its stage events strictly increase, every event is a legal transition from the one
  before, nothing follows a terminal stage but that stage again, a commit follows only a completed
  restore, a revalidation or an unknown outcome, and stage and outcome agree with the last event.
\<close>

lemma validated_migration_history:
  assumes "MigrationRecord_validate r = Success"
  shows "sorted_wrt (\<lambda>a b. mse_sequence a < mse_sequence b) (mr_stage_events r) \<and>
    (\<forall>i j. i < j \<and> j < length (mr_stage_events r) \<and> is_terminal_stage (mse_stage (mr_stage_events r ! i)) \<longrightarrow>
       mse_stage (mr_stage_events r ! j) = mse_stage (mr_stage_events r ! i)) \<and>
    (\<forall>i. Suc i < length (mr_stage_events r) \<and> mse_stage (mr_stage_events r ! Suc i) = MigrationStage_Committed \<longrightarrow>
       mse_stage (mr_stage_events r ! i) \<in> {MigrationStage_RestoreComplete, MigrationStage_RevalidationRequired,
         MigrationStage_OutcomeUnknown, MigrationStage_Committed}) \<and>
    (mr_stage_events r \<noteq> [] \<longrightarrow> mse_stage (last (mr_stage_events r)) = mr_stage r) \<and>
    mr_outcome r = expected_outcome (mr_stage r)"
proof -
  have h: "successively stage_chain (mr_stage_events r)"
    using MigrationRecord_validate_history [OF assms] by (simp add: history_ok_def)
  have "mse_stage (mr_stage_events r ! i) \<in> {MigrationStage_RestoreComplete, MigrationStage_RevalidationRequired,
         MigrationStage_OutcomeUnknown, MigrationStage_Committed}"
    if "Suc i < length (mr_stage_events r)" "mse_stage (mr_stage_events r ! Suc i) = MigrationStage_Committed" for i
    using successively_step [OF h that(1)] that(2)
    by (auto simp: stage_chain_def is_acceptable_migration_event_def commit_predecessor)
  then show ?thesis
    using MigrationRecord_validate_history [OF assms] MigrationRecord_validate_ids [OF assms] h
    by (auto simp: successively_sequences history_ok_def intro: successively_terminal)
qed

definition sample_history :: MigrationRecord where
  "sample_history = MigrationRecord_init
     \<lparr>mr_id := StrongId ''move'', mr_generation := Generation 2, mr_workload := StrongId ''job'',
      mr_workload_generation := Generation 1, mr_federation := StrongId ''fed'',
      mr_source := StrongId ''east'', mr_destination := StrongId ''west'',
      mr_stage := MigrationStage_Failed, mr_outcome := MigrationOutcome_Failed,
      mr_stage_events :=
        [MigrationStageEvent_init\<lparr>mse_generation := Generation 1, mse_stage := MigrationStage_Planned, mse_sequence := Sequence 3\<rparr>,
         MigrationStageEvent_init\<lparr>mse_generation := Generation 2, mse_stage := MigrationStage_Failed, mse_sequence := Sequence 5\<rparr>]\<rparr>"

end
