(* ===== verification/FO_Portability.thy ===== *)
theory FO_Portability
  imports FO_Model
begin

text \<open>
  Portability assessments (\<open>portability.hpp\<close>, \<open>portability.cpp\<close>): dimensions, outcomes and their
  severity, the assessment record and its validation. The assessor \<open>assess_portability\<close> is not
  modelled here.
\<close>

section \<open>Dimensions and outcomes\<close>

datatype PortabilityDimension =
    PortabilityDimension_Binary
  | PortabilityDimension_Artifact
  | PortabilityDimension_Model
  | PortabilityDimension_Checkpoint
  | PortabilityDimension_RuntimeApi
  | PortabilityDimension_Kernel
  | PortabilityDimension_DataFormat
  | PortabilityDimension_State
  | PortabilityDimension_NumericalSemantic
  | PortabilityDimension_Performance
  | PortabilityDimension_Operational

definition PortabilityDimension_values :: "PortabilityDimension list" where
  "PortabilityDimension_values =
     [PortabilityDimension_Binary, PortabilityDimension_Artifact, PortabilityDimension_Model,
      PortabilityDimension_Checkpoint, PortabilityDimension_RuntimeApi,
      PortabilityDimension_Kernel, PortabilityDimension_DataFormat,
      PortabilityDimension_State, PortabilityDimension_NumericalSemantic,
      PortabilityDimension_Performance, PortabilityDimension_Operational]"

fun PortabilityDimension_to_string :: "PortabilityDimension \<Rightarrow> string" where
  "PortabilityDimension_to_string PortabilityDimension_Binary = ''BINARY''"
| "PortabilityDimension_to_string PortabilityDimension_Artifact = ''ARTIFACT''"
| "PortabilityDimension_to_string PortabilityDimension_Model = ''MODEL''"
| "PortabilityDimension_to_string PortabilityDimension_Checkpoint = ''CHECKPOINT''"
| "PortabilityDimension_to_string PortabilityDimension_RuntimeApi = ''RUNTIME_API''"
| "PortabilityDimension_to_string PortabilityDimension_Kernel = ''KERNEL''"
| "PortabilityDimension_to_string PortabilityDimension_DataFormat = ''DATA_FORMAT''"
| "PortabilityDimension_to_string PortabilityDimension_State = ''STATE''"
| "PortabilityDimension_to_string PortabilityDimension_NumericalSemantic = ''NUMERICAL_SEMANTIC''"
| "PortabilityDimension_to_string PortabilityDimension_Performance = ''PERFORMANCE''"
| "PortabilityDimension_to_string PortabilityDimension_Operational = ''OPERATIONAL''"

interpretation portability_dimension_enum: named_enumeration PortabilityDimension_values PortabilityDimension_to_string
proof unfold_locales
  show "v \<in> set PortabilityDimension_values" for v by (cases v) (simp_all add: PortabilityDimension_values_def)
qed (simp_all add: PortabilityDimension_values_def)

datatype PortabilityOutcome =
    PortabilityOutcome_PortableDirect
  | PortabilityOutcome_PortableWithFallback
  | PortabilityOutcome_PortableWithRebuild
  | PortabilityOutcome_PortableWithRecompile
  | PortabilityOutcome_PortableWithConversion
  | PortabilityOutcome_PortableWithStateTranslation
  | PortabilityOutcome_NotPortableTopology
  | PortabilityOutcome_NotPortablePolicy
  | PortabilityOutcome_NotPortableArtifact
  | PortabilityOutcome_NotPortableRuntime
  | PortabilityOutcome_NotPortableState
  | PortabilityOutcome_NotPortableArchitecture
  | PortabilityOutcome_Unknown
  | PortabilityOutcome_Unsupported

definition PortabilityOutcome_values :: "PortabilityOutcome list" where
  "PortabilityOutcome_values =
     [PortabilityOutcome_PortableDirect, PortabilityOutcome_PortableWithFallback,
      PortabilityOutcome_PortableWithRebuild, PortabilityOutcome_PortableWithRecompile,
      PortabilityOutcome_PortableWithConversion,
      PortabilityOutcome_PortableWithStateTranslation,
      PortabilityOutcome_NotPortableTopology, PortabilityOutcome_NotPortablePolicy,
      PortabilityOutcome_NotPortableArtifact, PortabilityOutcome_NotPortableRuntime,
      PortabilityOutcome_NotPortableState, PortabilityOutcome_NotPortableArchitecture,
      PortabilityOutcome_Unknown, PortabilityOutcome_Unsupported]"

fun PortabilityOutcome_to_string :: "PortabilityOutcome \<Rightarrow> string" where
  "PortabilityOutcome_to_string PortabilityOutcome_PortableDirect = ''PORTABLE_DIRECT''"
| "PortabilityOutcome_to_string PortabilityOutcome_PortableWithFallback = ''PORTABLE_WITH_FALLBACK''"
| "PortabilityOutcome_to_string PortabilityOutcome_PortableWithRebuild = ''PORTABLE_WITH_REBUILD''"
| "PortabilityOutcome_to_string PortabilityOutcome_PortableWithRecompile = ''PORTABLE_WITH_RECOMPILE''"
| "PortabilityOutcome_to_string PortabilityOutcome_PortableWithConversion = ''PORTABLE_WITH_CONVERSION''"
| "PortabilityOutcome_to_string PortabilityOutcome_PortableWithStateTranslation = ''PORTABLE_WITH_STATE_TRANSLATION''"
| "PortabilityOutcome_to_string PortabilityOutcome_NotPortableTopology = ''NOT_PORTABLE_TOPOLOGY''"
| "PortabilityOutcome_to_string PortabilityOutcome_NotPortablePolicy = ''NOT_PORTABLE_POLICY''"
| "PortabilityOutcome_to_string PortabilityOutcome_NotPortableArtifact = ''NOT_PORTABLE_ARTIFACT''"
| "PortabilityOutcome_to_string PortabilityOutcome_NotPortableRuntime = ''NOT_PORTABLE_RUNTIME''"
| "PortabilityOutcome_to_string PortabilityOutcome_NotPortableState = ''NOT_PORTABLE_STATE''"
| "PortabilityOutcome_to_string PortabilityOutcome_NotPortableArchitecture = ''NOT_PORTABLE_ARCHITECTURE''"
| "PortabilityOutcome_to_string PortabilityOutcome_Unknown = ''UNKNOWN''"
| "PortabilityOutcome_to_string PortabilityOutcome_Unsupported = ''UNSUPPORTED''"

interpretation portability_outcome_enum: named_enumeration PortabilityOutcome_values PortabilityOutcome_to_string
proof unfold_locales
  show "v \<in> set PortabilityOutcome_values" for v by (cases v) (simp_all add: PortabilityOutcome_values_def)
qed (simp_all add: PortabilityOutcome_values_def)

definition kPortabilityDimensionCount :: nat where
  "kPortabilityDimensionCount = 11"

definition parse_portability_dimension :: "string \<Rightarrow> PortabilityDimension option" where
  "parse_portability_dimension = parse_enum PortabilityDimension_values PortabilityDimension_to_string"

definition parse_portability_outcome :: "string \<Rightarrow> PortabilityOutcome option" where
  "parse_portability_outcome = parse_enum PortabilityOutcome_values PortabilityOutcome_to_string"

fun portability_severity :: "PortabilityOutcome \<Rightarrow> nat" where
  "portability_severity PortabilityOutcome_PortableDirect = 0"
| "portability_severity PortabilityOutcome_PortableWithFallback = 1"
| "portability_severity PortabilityOutcome_PortableWithRebuild = 2"
| "portability_severity PortabilityOutcome_PortableWithRecompile = 3"
| "portability_severity PortabilityOutcome_PortableWithConversion = 4"
| "portability_severity PortabilityOutcome_PortableWithStateTranslation = 5"
| "portability_severity PortabilityOutcome_NotPortableTopology = 6"
| "portability_severity PortabilityOutcome_NotPortablePolicy = 7"
| "portability_severity PortabilityOutcome_NotPortableArtifact = 8"
| "portability_severity PortabilityOutcome_NotPortableRuntime = 9"
| "portability_severity PortabilityOutcome_NotPortableState = 10"
| "portability_severity PortabilityOutcome_NotPortableArchitecture = 11"
| "portability_severity PortabilityOutcome_Unknown = 12"
| "portability_severity PortabilityOutcome_Unsupported = 13"

definition weakest_outcome :: "PortabilityOutcome \<Rightarrow> PortabilityOutcome \<Rightarrow> PortabilityOutcome" where
  "weakest_outcome a b = (if portability_severity a \<ge> portability_severity b then a else b)"

definition requires_adaptation :: "PortabilityOutcome \<Rightarrow> bool" where
  "requires_adaptation outcome =
     (outcome \<in> {PortabilityOutcome_PortableWithRebuild, PortabilityOutcome_PortableWithRecompile,
                 PortabilityOutcome_PortableWithConversion, PortabilityOutcome_PortableWithStateTranslation,
                 PortabilityOutcome_PortableWithFallback})"

definition is_technical_failure :: "PortabilityOutcome \<Rightarrow> bool" where
  "is_technical_failure outcome =
     (outcome \<in> {PortabilityOutcome_NotPortableTopology, PortabilityOutcome_NotPortableArtifact,
                 PortabilityOutcome_NotPortableRuntime, PortabilityOutcome_NotPortableState,
                 PortabilityOutcome_NotPortableArchitecture})"

definition is_policy_failure :: "PortabilityOutcome \<Rightarrow> bool" where
  "is_policy_failure outcome = (outcome = PortabilityOutcome_NotPortablePolicy)"

definition is_undecided :: "PortabilityOutcome \<Rightarrow> bool" where
  "is_undecided outcome =
     (outcome = PortabilityOutcome_Unknown \<or> outcome = PortabilityOutcome_Unsupported)"

section \<open>Assessments\<close>

record PortabilityDimensionResult =
  pdr_dimension :: PortabilityDimension
  pdr_outcome :: PortabilityOutcome
  pdr_constrains_overall :: bool
  pdr_detail :: string
  pdr_basis :: ReasonBasis
  pdr_precision :: Precision
  pdr_evidence_class :: EvidenceClass
  pdr_evidence :: EvidenceList

definition PortabilityDimensionResult_init :: PortabilityDimensionResult where
  "PortabilityDimensionResult_init =
     \<lparr>pdr_dimension = PortabilityDimension_Binary, pdr_outcome = PortabilityOutcome_Unknown,
      pdr_constrains_overall = True, pdr_detail = [], pdr_basis = ReasonBasis_Derived,
      pdr_precision = Precision_Unknown, pdr_evidence_class = EvidenceClass_Unknown,
      pdr_evidence = no_evidence\<rparr>"

record PortabilityAssessment =
  pa_workload :: WorkloadId
  pa_workload_generation :: WorkloadGeneration
  pa_artifact :: ArtifactId
  pa_artifact_generation :: ArtifactGeneration
  pa_workload_class :: WorkloadClassId
  pa_source :: ClusterId
  pa_source_generation :: ClusterGeneration
  pa_source_epoch :: ClusterEpoch
  pa_destination :: ClusterId
  pa_destination_generation :: ClusterGeneration
  pa_destination_epoch :: ClusterEpoch
  pa_source_runtime :: RuntimeId
  pa_source_runtime_generation :: RuntimeGeneration
  pa_destination_runtime :: RuntimeId
  pa_destination_runtime_generation :: RuntimeGeneration
  pa_federation :: FederationId
  pa_federation_generation :: FederationGeneration
  pa_compatibility_generation :: CompatibilityGeneration
  pa_policy_generation :: PolicyGeneration
  pa_dimensions :: "PortabilityDimensionResult list"
  pa_overall :: PortabilityOutcome
  pa_requires_rebuild :: bool
  pa_requires_recompile :: bool
  pa_requires_conversion :: bool
  pa_requires_state_translation :: bool
  pa_requires_fallback :: bool
  pa_technically_blocked :: bool
  pa_policy_blocked :: bool
  pa_currentness :: Currentness
  pa_precision :: Precision
  pa_evidence_class :: EvidenceClass
  pa_stamp :: ObservationStamp
  pa_evidence :: EvidenceList

definition PortabilityAssessment_init :: PortabilityAssessment where
  "PortabilityAssessment_init =
     \<lparr>pa_workload = no_id, pa_workload_generation = gen_unset, pa_artifact = no_id,
      pa_artifact_generation = gen_unset, pa_workload_class = no_id, pa_source = no_id,
      pa_source_generation = gen_unset, pa_source_epoch = gen_unset, pa_destination = no_id,
      pa_destination_generation = gen_unset, pa_destination_epoch = gen_unset,
      pa_source_runtime = no_id, pa_source_runtime_generation = gen_unset,
      pa_destination_runtime = no_id, pa_destination_runtime_generation = gen_unset,
      pa_federation = no_id, pa_federation_generation = gen_unset,
      pa_compatibility_generation = gen_unset, pa_policy_generation = gen_unset,
      pa_dimensions = [], pa_overall = PortabilityOutcome_Unknown, pa_requires_rebuild = False,
      pa_requires_recompile = False, pa_requires_conversion = False,
      pa_requires_state_translation = False, pa_requires_fallback = False,
      pa_technically_blocked = False, pa_policy_blocked = False,
      pa_currentness = Currentness_Unknown, pa_precision = Precision_Unknown,
      pa_evidence_class = EvidenceClass_Unknown, pa_stamp = ObservationStamp_init,
      pa_evidence = no_evidence\<rparr>"

definition PortabilityDimensionResult_less ::
  "PortabilityDimensionResult \<Rightarrow> PortabilityDimensionResult \<Rightarrow> bool" where
  "PortabilityDimensionResult_less a b =
     (if pdr_dimension a \<noteq> pdr_dimension b then
        enum_lt PortabilityDimension_values (pdr_dimension a) (pdr_dimension b)
      else pdr_detail a < pdr_detail b)"

definition PortabilityAssessment_validate :: "PortabilityAssessment \<Rightarrow> Status" where
  "PortabilityAssessment_validate r =
     checks
       [refuse_if (id_empty (pa_workload r)) InvalidArgument ''portability assessment has no workload'' [],
        refuse_if (\<not> is_set (pa_workload_generation r)) InvalidArgument
          ''portability workload generation is unset'' (id_value (pa_workload r)),
        refuse_if (id_empty (pa_destination r)) InvalidArgument
          ''portability assessment has no destination'' (id_value (pa_workload r)),
        refuse_if (length (pa_dimensions r) > kPortabilityDimensionCount) BoundExceeded
          ''too many portability dimensions'' (id_value (pa_workload r)),
        refuse_if (has_duplicates (map (\<lambda>d. enum_index PortabilityDimension_values (pdr_dimension d)) (pa_dimensions r)))
          InvalidArgument ''duplicate portability dimension'' (id_value (pa_workload r))]"

definition PortabilityAssessment_find ::
  "PortabilityAssessment \<Rightarrow> PortabilityDimension \<Rightarrow> PortabilityDimensionResult option" where
  "PortabilityAssessment_find r dimension = find (\<lambda>d. pdr_dimension d = dimension) (pa_dimensions r)"

definition yes_no :: "bool \<Rightarrow> string" where
  "yes_no b = (if b then ''yes'' else ''no'')"

definition gen_or_dash :: "'tag Generation \<Rightarrow> string" where
  "gen_or_dash g = (if is_set g then gen_to_string g else ''-'')"

definition PortabilityAssessment_render :: "string \<Rightarrow> PortabilityAssessment \<Rightarrow> string" where
  "PortabilityAssessment_render indent r =
     indent @ ''portability:'' @ newline @
     render_table [''field'', ''value'']
       [[''workload'', render_id (id_value (pa_workload r))],
        [''workload_generation'', gen_or_dash (pa_workload_generation r)],
        [''artifact'', render_id (id_value (pa_artifact r))],
        [''artifact_generation'', gen_or_dash (pa_artifact_generation r)],
        [''source'', render_id (id_value (pa_source r))],
        [''source_generation'', gen_or_dash (pa_source_generation r)],
        [''destination'', render_id (id_value (pa_destination r))],
        [''destination_generation'', gen_or_dash (pa_destination_generation r)],
        [''source_runtime'', render_id (id_value (pa_source_runtime r))],
        [''destination_runtime'', render_id (id_value (pa_destination_runtime r))],
        [''overall'', PortabilityOutcome_to_string (pa_overall r)],
        [''requires_rebuild'', yes_no (pa_requires_rebuild r)],
        [''requires_recompile'', yes_no (pa_requires_recompile r)],
        [''requires_conversion'', yes_no (pa_requires_conversion r)],
        [''requires_state_translation'', yes_no (pa_requires_state_translation r)],
        [''requires_fallback'', yes_no (pa_requires_fallback r)],
        [''technically_blocked'', yes_no (pa_technically_blocked r)],
        [''policy_blocked'', yes_no (pa_policy_blocked r)],
        [''currentness'', Currentness_to_string (pa_currentness r)],
        [''precision'', Precision_to_string (pa_precision r)],
        [''evidence_class'', EvidenceClass_to_string (pa_evidence_class r)]]
       (indent @ ''  '') @
     (if pa_dimensions r = [] then []
      else newline @
        render_table [''dimension'', ''outcome'', ''basis'', ''precision'', ''detail'']
          (map (\<lambda>d. [PortabilityDimension_to_string (pdr_dimension d),
                      PortabilityOutcome_to_string (pdr_outcome d),
                      ReasonBasis_to_string (pdr_basis d),
                      Precision_to_string (pdr_precision d), pdr_detail d]) (pa_dimensions r))
          (indent @ ''  '') @ newline)"

definition PortabilityAssessment_digest :: "PortabilityAssessment \<Rightarrow> string" where
  "PortabilityAssessment_digest r = digest_text (PortabilityAssessment_render ''  '' r)"

section \<open>Combining outcomes\<close>

lemma weakest_outcome_severity:
  "portability_severity (weakest_outcome a b) = max (portability_severity a) (portability_severity b)"
  by (simp add: weakest_outcome_def max_def)

lemma portability_severity_index: "portability_severity = enum_index PortabilityOutcome_values"
proof
  show "portability_severity v = enum_index PortabilityOutcome_values v" for v
    by (cases v) (simp_all add: PortabilityOutcome_values_def)
qed

text \<open>Every outcome is in exactly one class, so an owner can be named for each.\<close>

lemma outcome_classes_disjoint:
  "is_technical_failure v \<Longrightarrow> \<not> is_policy_failure v \<and> \<not> is_undecided v \<and> \<not> requires_adaptation v"
  "is_policy_failure v \<Longrightarrow> \<not> is_undecided v \<and> \<not> requires_adaptation v"
  "is_undecided v \<Longrightarrow> \<not> requires_adaptation v"
  "v = PortabilityOutcome_PortableDirect \<or> requires_adaptation v \<or> is_technical_failure v \<or>
     is_policy_failure v \<or> is_undecided v"
  by (cases v; simp add: is_technical_failure_def is_policy_failure_def is_undecided_def requires_adaptation_def)+

end
