(* ===== verification/FO_WorkCodec.thy ===== *)
theory FO_WorkCodec
  imports FO_ValueCodec FO_Placement FO_Migration FO_Portability
begin

text \<open>
  The encoding of the records about workloads in flight (\<open>records_codec.cpp\<close>): placements with their
  candidates, migrations with their stage events, and portability assessments with their dimensions.
\<close>

unbundle bit_operations_syntax

definition valid_rejection_mask :: u32 where
  "valid_rejection_mask =
     (if kRejectionReasonCount \<ge> 32 then 0xFFFFFFFF else push_bit kRejectionReasonCount 1 - 1)"

lemma field_mask [fo_codec]: "a = 0 \<Longrightarrow> field_ok E D v \<Longrightarrow> field_ok E (if a \<noteq> 0 then X else D) v"
  by simp

section \<open>Encoders and decoders\<close>

definition encode_candidate :: "CandidateObservation \<Rightarrow> Encoder \<Rightarrow> Encoder" where
  "encode_candidate v =
     enc_seq
       [enc_id (co_cluster v),
        enc_gen (co_cluster_generation v),
        enc_gen (co_cluster_epoch v),
        enc_id (co_accelerator_class v),
        enc_enum CandidateStatus_values (co_status v),
        enc_u32 (co_reasons v),
        enc_enum ReasonBasis_values (co_basis v),
        enc_enum Precision_values (co_precision v),
        enc_enum EvidenceClass_values (co_evidence_class v),
        enc_str (co_detail v),
        encode_evidence_list (co_evidence v)]"

definition decode_candidate :: "CandidateObservation decoder" where
  "decode_candidate =
     dec_bind (dec_id ''ClusterIdTag'') (\<lambda>cluster.
     dec_bind dec_gen (\<lambda>cluster_generation.
     dec_bind dec_gen (\<lambda>cluster_epoch.
     dec_bind (dec_id ''AcceleratorClassIdTag'') (\<lambda>accelerator_class.
     dec_bind (dec_enum CandidateStatus_values ''candidate status'') (\<lambda>status.
     dec_bind dec_u32 (\<lambda>reasons.
     if reasons AND NOT valid_rejection_mask \<noteq> 0 then
       dec_error (Error ProtocolViolation ''encoded rejection mask has unknown bits set'' [])
     else
     dec_bind (dec_enum ReasonBasis_values ''reason basis'') (\<lambda>basis.
     dec_bind (dec_enum Precision_values ''precision'') (\<lambda>precision.
     dec_bind (dec_enum EvidenceClass_values ''evidence class'') (\<lambda>evidence_class.
     dec_bind dec_str (\<lambda>detail.
     dec_bind (decode_evidence_list kDefaultEvidencePerFinding) (\<lambda>evidence.
     dec_return
       \<lparr>co_cluster = cluster, co_cluster_generation = cluster_generation,
        co_cluster_epoch = cluster_epoch, co_accelerator_class = accelerator_class,
        co_status = status, co_reasons = reasons, co_basis = basis, co_precision = precision,
        co_evidence_class = evidence_class, co_detail = detail, co_evidence = evidence\<rparr>)))))))))))"

definition encode_placement :: "PlacementRecord \<Rightarrow> Encoder \<Rightarrow> Encoder" where
  "encode_placement v =
     enc_seq
       [enc_id (plr_id v),
        enc_gen (plr_generation v),
        enc_id (plr_workload v),
        enc_gen (plr_workload_generation v),
        enc_id (plr_federation v),
        enc_gen (plr_federation_generation v),
        enc_id (plr_workload_class v),
        enc_id (plr_selected v),
        enc_gen (plr_selected_generation v),
        enc_gen (plr_selected_epoch v),
        enc_id (plr_selected_accelerator_class v),
        enc_u32 (plr_selected_accelerator_count v),
        enc_u64 (plr_selected_memory_bytes v),
        enc_vector CandidateObservation_less encode_candidate (plr_candidates v),
        enc_enum CandidateSetCompleteness_values (plr_candidate_completeness v),
        enc_gen (plr_policy_generation v),
        enc_gen (plr_capacity_generation v),
        enc_gen (plr_topology_generation v),
        enc_gen (plr_compatibility_generation v),
        enc_gen (plr_runtime_generation v),
        enc_boolean (plr_capacity_available v),
        enc_enum Tri_values (plr_compatibility_constrained v),
        enc_enum Tri_values (plr_topology_constrained v),
        enc_enum Tri_values (plr_policy_constrained v),
        enc_enum Tri_values (plr_capability_constrained v),
        enc_enum Tri_values (plr_affinity_constrained v),
        enc_boolean (plr_fallback_required v),
        enc_str (plr_fallback_detail v),
        enc_boolean (plr_cost_known v),
        enc_f64 (plr_cost_estimate v),
        enc_str (plr_slo_class v),
        enc_enum Currentness_values (plr_currentness v),
        encode_stamp (plr_stamp v),
        encode_evidence_list (plr_evidence v)]"

definition decode_placement :: "PlacementRecord decoder" where
  "decode_placement =
     dec_bind (dec_id ''PlacementIdTag'') (\<lambda>id.
     dec_bind dec_gen (\<lambda>generation.
     dec_bind (dec_id ''WorkloadIdTag'') (\<lambda>workload.
     dec_bind dec_gen (\<lambda>workload_generation.
     dec_bind (dec_id ''FederationIdTag'') (\<lambda>federation.
     dec_bind dec_gen (\<lambda>federation_generation.
     dec_bind (dec_id ''WorkloadClassIdTag'') (\<lambda>workload_class.
     dec_bind (dec_id ''ClusterIdTag'') (\<lambda>selected.
     dec_bind dec_gen (\<lambda>selected_generation.
     dec_bind dec_gen (\<lambda>selected_epoch.
     dec_bind (dec_id ''AcceleratorClassIdTag'') (\<lambda>selected_accelerator_class.
     dec_bind dec_u32 (\<lambda>selected_accelerator_count.
     dec_bind dec_u64 (\<lambda>selected_memory_bytes.
     dec_bind (dec_vector kMaxCandidatesPerPlacement decode_candidate) (\<lambda>candidates.
     dec_bind (dec_enum CandidateSetCompleteness_values ''candidate set completeness'') (\<lambda>candidate_completeness.
     dec_bind dec_gen (\<lambda>policy_generation.
     dec_bind dec_gen (\<lambda>capacity_generation.
     dec_bind dec_gen (\<lambda>topology_generation.
     dec_bind dec_gen (\<lambda>compatibility_generation.
     dec_bind dec_gen (\<lambda>runtime_generation.
     dec_bind dec_boolean (\<lambda>capacity_available.
     dec_bind (dec_enum Tri_values ''tri-state'') (\<lambda>compatibility_constrained.
     dec_bind (dec_enum Tri_values ''tri-state'') (\<lambda>topology_constrained.
     dec_bind (dec_enum Tri_values ''tri-state'') (\<lambda>policy_constrained.
     dec_bind (dec_enum Tri_values ''tri-state'') (\<lambda>capability_constrained.
     dec_bind (dec_enum Tri_values ''tri-state'') (\<lambda>affinity_constrained.
     dec_bind dec_boolean (\<lambda>fallback_required.
     dec_bind dec_str (\<lambda>fallback_detail.
     dec_bind dec_boolean (\<lambda>cost_known.
     dec_bind dec_f64 (\<lambda>cost_estimate.
     dec_bind dec_str (\<lambda>slo_class.
     dec_bind (dec_enum Currentness_values ''currentness'') (\<lambda>currentness.
     dec_bind decode_stamp (\<lambda>stamp.
     dec_bind (decode_evidence_list kDefaultEvidencePerFinding) (\<lambda>evidence.
     dec_validated ''encoded placement is not valid'' PlacementRecord_validate
       \<lparr>plr_id = id, plr_generation = generation, plr_workload = workload,
        plr_workload_generation = workload_generation, plr_federation = federation,
        plr_federation_generation = federation_generation, plr_workload_class = workload_class,
        plr_selected = selected, plr_selected_generation = selected_generation,
        plr_selected_epoch = selected_epoch,
        plr_selected_accelerator_class = selected_accelerator_class,
        plr_selected_accelerator_count = selected_accelerator_count,
        plr_selected_memory_bytes = selected_memory_bytes, plr_candidates = candidates,
        plr_candidate_completeness = candidate_completeness,
        plr_policy_generation = policy_generation, plr_capacity_generation = capacity_generation,
        plr_topology_generation = topology_generation,
        plr_compatibility_generation = compatibility_generation,
        plr_runtime_generation = runtime_generation, plr_capacity_available = capacity_available,
        plr_compatibility_constrained = compatibility_constrained,
        plr_topology_constrained = topology_constrained, plr_policy_constrained = policy_constrained,
        plr_capability_constrained = capability_constrained,
        plr_affinity_constrained = affinity_constrained, plr_fallback_required = fallback_required,
        plr_fallback_detail = fallback_detail, plr_cost_known = cost_known,
        plr_cost_estimate = cost_estimate, plr_slo_class = slo_class, plr_currentness = currentness,
        plr_stamp = stamp, plr_evidence = evidence\<rparr>))))))))))))))))))))))))))))))))))"

definition encode_stage_event :: "MigrationStageEvent \<Rightarrow> Encoder \<Rightarrow> Encoder" where
  "encode_stage_event v =
     enc_seq
       [enc_gen (mse_generation v),
        enc_enum MigrationStage_values (mse_stage v),
        enc_sequence (mse_sequence v),
        enc_i64 (mse_observed_at v),
        enc_enum Precision_values (mse_precision v),
        enc_enum EvidenceClass_values (mse_evidence_class v),
        enc_str (mse_detail v)]"

definition decode_stage_event :: "MigrationStageEvent decoder" where
  "decode_stage_event =
     dec_bind dec_gen (\<lambda>generation.
     dec_bind (dec_enum MigrationStage_values ''migration stage'') (\<lambda>stage.
     dec_bind dec_sequence (\<lambda>sequence.
     dec_bind dec_i64 (\<lambda>observed_at.
     dec_bind (dec_enum Precision_values ''precision'') (\<lambda>precision.
     dec_bind (dec_enum EvidenceClass_values ''evidence class'') (\<lambda>evidence_class.
     dec_bind dec_str (\<lambda>detail.
     dec_return
       \<lparr>mse_generation = generation, mse_stage = stage, mse_sequence = sequence,
        mse_observed_at = observed_at, mse_precision = precision,
        mse_evidence_class = evidence_class, mse_detail = detail\<rparr>)))))))"

definition encode_migration :: "MigrationRecord \<Rightarrow> Encoder \<Rightarrow> Encoder" where
  "encode_migration v =
     enc_seq
       [enc_id (mr_id v),
        enc_gen (mr_generation v),
        enc_id (mr_workload v),
        enc_gen (mr_workload_generation v),
        enc_id (mr_federation v),
        enc_gen (mr_federation_generation v),
        enc_id (mr_workload_class v),
        enc_id (mr_supersedes v),
        enc_gen (mr_supersedes_generation v),
        enc_id (mr_source v),
        enc_gen (mr_source_generation v),
        enc_gen (mr_source_epoch v),
        enc_id (mr_destination v),
        enc_gen (mr_destination_generation v),
        enc_gen (mr_destination_epoch v),
        enc_id (mr_artifact v),
        enc_gen (mr_artifact_generation v),
        enc_id (mr_source_runtime v),
        enc_gen (mr_source_runtime_generation v),
        enc_id (mr_destination_runtime v),
        enc_gen (mr_destination_runtime_generation v),
        enc_gen (mr_compatibility_generation v),
        enc_gen (mr_policy_generation v),
        enc_gen (mr_capacity_generation v),
        enc_gen (mr_topology_generation v),
        enc_enum MigrationStage_values (mr_stage v),
        enc_enum MigrationOutcome_values (mr_outcome v),
        enc_counted encode_stage_event (mr_stage_events v),
        enc_str (mr_reason v),
        enc_boolean (mr_reason_observed v),
        enc_boolean (mr_state_transfer_known v),
        enc_u64 (mr_state_transfer_bytes v),
        enc_boolean (mr_downtime_known v),
        enc_u64 (mr_downtime_micros v),
        enc_boolean (mr_requires_rebuild v),
        enc_boolean (mr_requires_recompile v),
        enc_boolean (mr_requires_conversion v),
        enc_boolean (mr_requires_state_translation v),
        enc_boolean (mr_revalidation_pending v),
        enc_boolean (mr_destination_generation_changed v),
        enc_boolean (mr_changed_effective_capability v),
        enc_boolean (mr_changed_slo v),
        enc_str (mr_fallback_detail v),
        enc_enum Currentness_values (mr_currentness v),
        encode_stamp (mr_stamp v),
        encode_evidence_list (mr_evidence v)]"

definition decode_migration :: "MigrationRecord decoder" where
  "decode_migration =
     dec_bind (dec_id ''MigrationIdTag'') (\<lambda>id.
     dec_bind dec_gen (\<lambda>generation.
     dec_bind (dec_id ''WorkloadIdTag'') (\<lambda>workload.
     dec_bind dec_gen (\<lambda>workload_generation.
     dec_bind (dec_id ''FederationIdTag'') (\<lambda>federation.
     dec_bind dec_gen (\<lambda>federation_generation.
     dec_bind (dec_id ''WorkloadClassIdTag'') (\<lambda>workload_class.
     dec_bind (dec_id ''MigrationIdTag'') (\<lambda>supersedes.
     dec_bind dec_gen (\<lambda>supersedes_generation.
     dec_bind (dec_id ''ClusterIdTag'') (\<lambda>source.
     dec_bind dec_gen (\<lambda>source_generation.
     dec_bind dec_gen (\<lambda>source_epoch.
     dec_bind (dec_id ''ClusterIdTag'') (\<lambda>destination.
     dec_bind dec_gen (\<lambda>destination_generation.
     dec_bind dec_gen (\<lambda>destination_epoch.
     dec_bind (dec_id ''ArtifactIdTag'') (\<lambda>artifact.
     dec_bind dec_gen (\<lambda>artifact_generation.
     dec_bind (dec_id ''RuntimeIdTag'') (\<lambda>source_runtime.
     dec_bind dec_gen (\<lambda>source_runtime_generation.
     dec_bind (dec_id ''RuntimeIdTag'') (\<lambda>destination_runtime.
     dec_bind dec_gen (\<lambda>destination_runtime_generation.
     dec_bind dec_gen (\<lambda>compatibility_generation.
     dec_bind dec_gen (\<lambda>policy_generation.
     dec_bind dec_gen (\<lambda>capacity_generation.
     dec_bind dec_gen (\<lambda>topology_generation.
     dec_bind (dec_enum MigrationStage_values ''migration stage'') (\<lambda>stage.
     dec_bind (dec_enum MigrationOutcome_values ''migration outcome'') (\<lambda>outcome.
     dec_bind (dec_counted kMaxStageEventsPerMigration ''encoded migration has too many stage events'' decode_stage_event) (\<lambda>stage_events.
     dec_bind dec_str (\<lambda>reason.
     dec_bind dec_boolean (\<lambda>reason_observed.
     dec_bind dec_boolean (\<lambda>state_transfer_known.
     dec_bind dec_u64 (\<lambda>state_transfer_bytes.
     dec_bind dec_boolean (\<lambda>downtime_known.
     dec_bind dec_u64 (\<lambda>downtime_micros.
     dec_bind dec_boolean (\<lambda>requires_rebuild.
     dec_bind dec_boolean (\<lambda>requires_recompile.
     dec_bind dec_boolean (\<lambda>requires_conversion.
     dec_bind dec_boolean (\<lambda>requires_state_translation.
     dec_bind dec_boolean (\<lambda>revalidation_pending.
     dec_bind dec_boolean (\<lambda>destination_generation_changed.
     dec_bind dec_boolean (\<lambda>changed_effective_capability.
     dec_bind dec_boolean (\<lambda>changed_slo.
     dec_bind dec_str (\<lambda>fallback_detail.
     dec_bind (dec_enum Currentness_values ''currentness'') (\<lambda>currentness.
     dec_bind decode_stamp (\<lambda>stamp.
     dec_bind (decode_evidence_list kDefaultEvidencePerFinding) (\<lambda>evidence.
     dec_validated ''encoded migration is not valid'' MigrationRecord_validate
       \<lparr>mr_id = id, mr_generation = generation, mr_workload = workload,
        mr_workload_generation = workload_generation, mr_federation = federation,
        mr_federation_generation = federation_generation, mr_workload_class = workload_class,
        mr_supersedes = supersedes, mr_supersedes_generation = supersedes_generation,
        mr_source = source, mr_source_generation = source_generation, mr_source_epoch = source_epoch,
        mr_destination = destination, mr_destination_generation = destination_generation,
        mr_destination_epoch = destination_epoch, mr_artifact = artifact,
        mr_artifact_generation = artifact_generation, mr_source_runtime = source_runtime,
        mr_source_runtime_generation = source_runtime_generation,
        mr_destination_runtime = destination_runtime,
        mr_destination_runtime_generation = destination_runtime_generation,
        mr_compatibility_generation = compatibility_generation,
        mr_policy_generation = policy_generation, mr_capacity_generation = capacity_generation,
        mr_topology_generation = topology_generation, mr_stage = stage, mr_outcome = outcome,
        mr_stage_events = stage_events, mr_reason = reason, mr_reason_observed = reason_observed,
        mr_state_transfer_known = state_transfer_known,
        mr_state_transfer_bytes = state_transfer_bytes, mr_downtime_known = downtime_known,
        mr_downtime_micros = downtime_micros, mr_requires_rebuild = requires_rebuild,
        mr_requires_recompile = requires_recompile, mr_requires_conversion = requires_conversion,
        mr_requires_state_translation = requires_state_translation,
        mr_revalidation_pending = revalidation_pending,
        mr_destination_generation_changed = destination_generation_changed,
        mr_changed_effective_capability = changed_effective_capability, mr_changed_slo = changed_slo,
        mr_fallback_detail = fallback_detail, mr_currentness = currentness, mr_stamp = stamp,
        mr_evidence = evidence\<rparr>))))))))))))))))))))))))))))))))))))))))))))))"

definition encode_dimension :: "PortabilityDimensionResult \<Rightarrow> Encoder \<Rightarrow> Encoder" where
  "encode_dimension v =
     enc_seq
       [enc_enum PortabilityDimension_values (pdr_dimension v),
        enc_enum PortabilityOutcome_values (pdr_outcome v),
        enc_str (pdr_detail v),
        enc_enum ReasonBasis_values (pdr_basis v),
        enc_enum Precision_values (pdr_precision v),
        enc_enum EvidenceClass_values (pdr_evidence_class v),
        enc_boolean (pdr_constrains_overall v),
        encode_evidence_list (pdr_evidence v)]"

definition decode_dimension :: "PortabilityDimensionResult decoder" where
  "decode_dimension =
     dec_bind (dec_enum PortabilityDimension_values ''portability dimension'') (\<lambda>dimension.
     dec_bind (dec_enum PortabilityOutcome_values ''portability outcome'') (\<lambda>outcome.
     dec_bind dec_str (\<lambda>detail.
     dec_bind (dec_enum ReasonBasis_values ''reason basis'') (\<lambda>basis.
     dec_bind (dec_enum Precision_values ''precision'') (\<lambda>precision.
     dec_bind (dec_enum EvidenceClass_values ''evidence class'') (\<lambda>evidence_class.
     dec_bind dec_boolean (\<lambda>constrains_overall.
     dec_bind (decode_evidence_list kDefaultEvidencePerFinding) (\<lambda>evidence.
     dec_return
       \<lparr>pdr_dimension = dimension, pdr_outcome = outcome,
        pdr_constrains_overall = constrains_overall, pdr_detail = detail, pdr_basis = basis,
        pdr_precision = precision, pdr_evidence_class = evidence_class, pdr_evidence = evidence\<rparr>))))))))"

definition encode_portability :: "PortabilityAssessment \<Rightarrow> Encoder \<Rightarrow> Encoder" where
  "encode_portability v =
     enc_seq
       [enc_id (pa_workload v),
        enc_gen (pa_workload_generation v),
        enc_id (pa_artifact v),
        enc_gen (pa_artifact_generation v),
        enc_id (pa_workload_class v),
        enc_id (pa_source v),
        enc_gen (pa_source_generation v),
        enc_gen (pa_source_epoch v),
        enc_id (pa_destination v),
        enc_gen (pa_destination_generation v),
        enc_gen (pa_destination_epoch v),
        enc_id (pa_source_runtime v),
        enc_gen (pa_source_runtime_generation v),
        enc_id (pa_destination_runtime v),
        enc_gen (pa_destination_runtime_generation v),
        enc_id (pa_federation v),
        enc_gen (pa_federation_generation v),
        enc_gen (pa_compatibility_generation v),
        enc_gen (pa_policy_generation v),
        enc_counted encode_dimension (pa_dimensions v),
        enc_enum PortabilityOutcome_values (pa_overall v),
        enc_boolean (pa_requires_rebuild v),
        enc_boolean (pa_requires_recompile v),
        enc_boolean (pa_requires_conversion v),
        enc_boolean (pa_requires_state_translation v),
        enc_boolean (pa_requires_fallback v),
        enc_boolean (pa_technically_blocked v),
        enc_boolean (pa_policy_blocked v),
        enc_enum Currentness_values (pa_currentness v),
        enc_enum Precision_values (pa_precision v),
        enc_enum EvidenceClass_values (pa_evidence_class v),
        encode_stamp (pa_stamp v),
        encode_evidence_list (pa_evidence v)]"

definition decode_portability :: "PortabilityAssessment decoder" where
  "decode_portability =
     dec_bind (dec_id ''WorkloadIdTag'') (\<lambda>workload.
     dec_bind dec_gen (\<lambda>workload_generation.
     dec_bind (dec_id ''ArtifactIdTag'') (\<lambda>artifact.
     dec_bind dec_gen (\<lambda>artifact_generation.
     dec_bind (dec_id ''WorkloadClassIdTag'') (\<lambda>workload_class.
     dec_bind (dec_id ''ClusterIdTag'') (\<lambda>source.
     dec_bind dec_gen (\<lambda>source_generation.
     dec_bind dec_gen (\<lambda>source_epoch.
     dec_bind (dec_id ''ClusterIdTag'') (\<lambda>destination.
     dec_bind dec_gen (\<lambda>destination_generation.
     dec_bind dec_gen (\<lambda>destination_epoch.
     dec_bind (dec_id ''RuntimeIdTag'') (\<lambda>source_runtime.
     dec_bind dec_gen (\<lambda>source_runtime_generation.
     dec_bind (dec_id ''RuntimeIdTag'') (\<lambda>destination_runtime.
     dec_bind dec_gen (\<lambda>destination_runtime_generation.
     dec_bind (dec_id ''FederationIdTag'') (\<lambda>federation.
     dec_bind dec_gen (\<lambda>federation_generation.
     dec_bind dec_gen (\<lambda>compatibility_generation.
     dec_bind dec_gen (\<lambda>policy_generation.
     dec_bind (dec_counted kPortabilityDimensionCount ''encoded portability has too many dimensions'' decode_dimension) (\<lambda>dimensions.
     dec_bind (dec_enum PortabilityOutcome_values ''portability outcome'') (\<lambda>overall.
     dec_bind dec_boolean (\<lambda>requires_rebuild.
     dec_bind dec_boolean (\<lambda>requires_recompile.
     dec_bind dec_boolean (\<lambda>requires_conversion.
     dec_bind dec_boolean (\<lambda>requires_state_translation.
     dec_bind dec_boolean (\<lambda>requires_fallback.
     dec_bind dec_boolean (\<lambda>technically_blocked.
     dec_bind dec_boolean (\<lambda>policy_blocked.
     dec_bind (dec_enum Currentness_values ''currentness'') (\<lambda>currentness.
     dec_bind (dec_enum Precision_values ''precision'') (\<lambda>precision.
     dec_bind (dec_enum EvidenceClass_values ''evidence class'') (\<lambda>evidence_class.
     dec_bind decode_stamp (\<lambda>stamp.
     dec_bind (decode_evidence_list kDefaultEvidencePerFinding) (\<lambda>evidence.
     dec_validated ''encoded portability assessment is not valid'' PortabilityAssessment_validate
       \<lparr>pa_workload = workload, pa_workload_generation = workload_generation, pa_artifact = artifact,
        pa_artifact_generation = artifact_generation, pa_workload_class = workload_class,
        pa_source = source, pa_source_generation = source_generation, pa_source_epoch = source_epoch,
        pa_destination = destination, pa_destination_generation = destination_generation,
        pa_destination_epoch = destination_epoch, pa_source_runtime = source_runtime,
        pa_source_runtime_generation = source_runtime_generation,
        pa_destination_runtime = destination_runtime,
        pa_destination_runtime_generation = destination_runtime_generation,
        pa_federation = federation, pa_federation_generation = federation_generation,
        pa_compatibility_generation = compatibility_generation,
        pa_policy_generation = policy_generation, pa_dimensions = dimensions, pa_overall = overall,
        pa_requires_rebuild = requires_rebuild, pa_requires_recompile = requires_recompile,
        pa_requires_conversion = requires_conversion,
        pa_requires_state_translation = requires_state_translation,
        pa_requires_fallback = requires_fallback, pa_technically_blocked = technically_blocked,
        pa_policy_blocked = policy_blocked, pa_currentness = currentness, pa_precision = precision,
        pa_evidence_class = evidence_class, pa_stamp = stamp, pa_evidence = evidence\<rparr>)))))))))))))))))))))))))))))))))"

section \<open>Digests\<close>

definition digest_placement :: "PlacementRecord \<Rightarrow> string" where
  "digest_placement = digest_of encode_placement"

definition digest_migration :: "MigrationRecord \<Rightarrow> string" where
  "digest_migration = digest_of encode_migration"

definition digest_portability :: "PortabilityAssessment \<Rightarrow> string" where
  "digest_portability = digest_of encode_portability"

section \<open>Round trips\<close>

definition CandidateObservation_encodable :: "CandidateObservation \<Rightarrow> bool" where
  "CandidateObservation_encodable v \<longleftrightarrow>
     id_encodable (co_cluster v) \<and> id_encodable (co_accelerator_class v) \<and>
     text_ok (co_detail v) \<and>
     EvidenceList_encodable kDefaultEvidencePerFinding (co_evidence v) \<and>
     co_reasons v AND NOT valid_rejection_mask = 0"

lemma field_candidate:
  "CandidateObservation_encodable v \<Longrightarrow> field_ok (encode_candidate v) decode_candidate v"
  unfolding encode_candidate_def decode_candidate_def CandidateObservation_encodable_def
  by (elim conjE) ((rule fo_codec | assumption)+, simp_all)

interpretation candidate_codec: field_codec encode_candidate decode_candidate CandidateObservation_encodable
  by unfold_locales (rule field_candidate)

lemma field_candidates [fo_codec]:
  "vector_encodable kMaxCandidatesPerPlacement CandidateObservation_less CandidateObservation_encodable vs \<Longrightarrow>
     field_ok (enc_vector CandidateObservation_less encode_candidate vs) (dec_vector kMaxCandidatesPerPlacement decode_candidate) vs"
  by (rule candidate_codec.field_vector_encodable) (simp_all add: kMaxCandidatesPerPlacement_def)

definition PlacementRecord_encodable :: "PlacementRecord \<Rightarrow> bool" where
  "PlacementRecord_encodable v \<longleftrightarrow>
     id_encodable (plr_id v) \<and> id_encodable (plr_workload v) \<and>
     id_encodable (plr_federation v) \<and> id_encodable (plr_workload_class v) \<and>
     id_encodable (plr_selected v) \<and> id_encodable (plr_selected_accelerator_class v) \<and>
     vector_encodable kMaxCandidatesPerPlacement CandidateObservation_less CandidateObservation_encodable (plr_candidates v) \<and>
     text_ok (plr_fallback_detail v) \<and> text_ok (plr_slo_class v) \<and>
     ObservationStamp_encodable (plr_stamp v) \<and>
     EvidenceList_encodable kDefaultEvidencePerFinding (plr_evidence v) \<and>
     PlacementRecord_validate v = Success"

lemma field_placement:
  "PlacementRecord_encodable v \<Longrightarrow> field_ok (encode_placement v) decode_placement v"
  unfolding encode_placement_def decode_placement_def PlacementRecord_encodable_def
  by (elim conjE) ((rule fo_codec | assumption)+, simp_all)

interpretation placement_codec: field_codec encode_placement decode_placement PlacementRecord_encodable
  by unfold_locales (rule field_placement)

definition MigrationStageEvent_encodable :: "MigrationStageEvent \<Rightarrow> bool" where
  "MigrationStageEvent_encodable v \<longleftrightarrow>
     i64_range (mse_observed_at v) \<and> text_ok (mse_detail v)"

lemma field_stage_event:
  "MigrationStageEvent_encodable v \<Longrightarrow> field_ok (encode_stage_event v) decode_stage_event v"
  unfolding encode_stage_event_def decode_stage_event_def MigrationStageEvent_encodable_def
  by (elim conjE) ((rule fo_codec | assumption)+, simp_all)

interpretation stage_event_codec: field_codec encode_stage_event decode_stage_event MigrationStageEvent_encodable
  by unfold_locales (rule field_stage_event)

lemma field_stage_events [fo_codec]:
  "counted_encodable kMaxStageEventsPerMigration MigrationStageEvent_encodable vs \<Longrightarrow>
     field_ok (enc_counted encode_stage_event vs) (dec_counted kMaxStageEventsPerMigration m decode_stage_event) vs"
  by (rule stage_event_codec.field_counted_encodable) (simp_all add: kMaxStageEventsPerMigration_def)

definition MigrationRecord_encodable :: "MigrationRecord \<Rightarrow> bool" where
  "MigrationRecord_encodable v \<longleftrightarrow>
     id_encodable (mr_id v) \<and> id_encodable (mr_workload v) \<and>
     id_encodable (mr_federation v) \<and> id_encodable (mr_workload_class v) \<and>
     id_encodable (mr_supersedes v) \<and> id_encodable (mr_source v) \<and>
     id_encodable (mr_destination v) \<and> id_encodable (mr_artifact v) \<and>
     id_encodable (mr_source_runtime v) \<and> id_encodable (mr_destination_runtime v) \<and>
     counted_encodable kMaxStageEventsPerMigration MigrationStageEvent_encodable (mr_stage_events v) \<and>
     text_ok (mr_reason v) \<and> text_ok (mr_fallback_detail v) \<and>
     ObservationStamp_encodable (mr_stamp v) \<and>
     EvidenceList_encodable kDefaultEvidencePerFinding (mr_evidence v) \<and>
     MigrationRecord_validate v = Success"

lemma field_migration:
  "MigrationRecord_encodable v \<Longrightarrow> field_ok (encode_migration v) decode_migration v"
  unfolding encode_migration_def decode_migration_def MigrationRecord_encodable_def
  by (elim conjE) ((rule fo_codec | assumption)+, simp_all)

interpretation migration_codec: field_codec encode_migration decode_migration MigrationRecord_encodable
  by unfold_locales (rule field_migration)

definition PortabilityDimensionResult_encodable :: "PortabilityDimensionResult \<Rightarrow> bool" where
  "PortabilityDimensionResult_encodable v \<longleftrightarrow>
     text_ok (pdr_detail v) \<and>
     EvidenceList_encodable kDefaultEvidencePerFinding (pdr_evidence v)"

lemma field_dimension:
  "PortabilityDimensionResult_encodable v \<Longrightarrow> field_ok (encode_dimension v) decode_dimension v"
  unfolding encode_dimension_def decode_dimension_def PortabilityDimensionResult_encodable_def
  by (elim conjE) ((rule fo_codec | assumption)+, simp_all)

interpretation dimension_codec: field_codec encode_dimension decode_dimension PortabilityDimensionResult_encodable
  by unfold_locales (rule field_dimension)

lemma field_dimensions [fo_codec]:
  "counted_encodable kPortabilityDimensionCount PortabilityDimensionResult_encodable vs \<Longrightarrow>
     field_ok (enc_counted encode_dimension vs) (dec_counted kPortabilityDimensionCount m decode_dimension) vs"
  by (rule dimension_codec.field_counted_encodable) (simp_all add: kPortabilityDimensionCount_def)

definition PortabilityAssessment_encodable :: "PortabilityAssessment \<Rightarrow> bool" where
  "PortabilityAssessment_encodable v \<longleftrightarrow>
     id_encodable (pa_workload v) \<and> id_encodable (pa_artifact v) \<and>
     id_encodable (pa_workload_class v) \<and> id_encodable (pa_source v) \<and>
     id_encodable (pa_destination v) \<and> id_encodable (pa_source_runtime v) \<and>
     id_encodable (pa_destination_runtime v) \<and> id_encodable (pa_federation v) \<and>
     counted_encodable kPortabilityDimensionCount PortabilityDimensionResult_encodable (pa_dimensions v) \<and>
     ObservationStamp_encodable (pa_stamp v) \<and>
     EvidenceList_encodable kDefaultEvidencePerFinding (pa_evidence v) \<and>
     PortabilityAssessment_validate v = Success"

lemma field_portability:
  "PortabilityAssessment_encodable v \<Longrightarrow> field_ok (encode_portability v) decode_portability v"
  unfolding encode_portability_def decode_portability_def PortabilityAssessment_encodable_def
  by (elim conjE) ((rule fo_codec | assumption)+, simp_all)

interpretation portability_codec: field_codec encode_portability decode_portability PortabilityAssessment_encodable
  by unfold_locales (rule field_portability)

section \<open>Safety of the record decoders\<close>

lemma safe_candidate [fo_safe]: "dec_safe decode_candidate"
  unfolding decode_candidate_def by (intro fo_safe)

lemma safe_placement [fo_safe]: "dec_safe decode_placement"
  unfolding decode_placement_def by (intro fo_safe)

lemma safe_stage_event [fo_safe]: "dec_safe decode_stage_event"
  unfolding decode_stage_event_def by (intro fo_safe)

lemma safe_migration [fo_safe]: "dec_safe decode_migration"
  unfolding decode_migration_def by (intro fo_safe)

lemma safe_dimension [fo_safe]: "dec_safe decode_dimension"
  unfolding decode_dimension_def by (intro fo_safe)

lemma safe_portability [fo_safe]: "dec_safe decode_portability"
  unfolding decode_portability_def by (intro fo_safe)

lemma yields_placement: "dec_yields (\<lambda>v. PlacementRecord_validate v = Success) decode_placement"
  unfolding decode_placement_def by (intro fo_yields)

lemma yields_migration: "dec_yields (\<lambda>v. MigrationRecord_validate v = Success) decode_migration"
  unfolding decode_migration_def by (intro fo_yields)

lemma yields_portability: "dec_yields (\<lambda>v. PortabilityAssessment_validate v = Success) decode_portability"
  unfolding decode_portability_def by (intro fo_yields)

end
