(* ===== verification/FO_Engine.thy ===== *)
theory FO_Engine
  imports FO_StdMap FO_RecordCodec FO_WorkCodec
begin

text \<open>
  The observation state engine (\<open>observatory.hpp\<close>, \<open>observatory.cpp\<close>): publication contexts, publisher
  authority, the state of \<open>FederationObservatory::Impl\<close>, the authority gate every publication passes
  through, and the registration and fencing of publishers.

  Every operation runs under the engine's one mutex, so it is a function from the state before to its
  result and the state after. A reference into the publisher map (\<open>PublisherAuthority&\<close>) is the key of
  the entry together with the value read. \<open>clock i\<close> is the \<open>i\<close>-th reading of \<open>now_unix_nanos()\<close> inside
  an operation.
\<close>

section \<open>Contexts, results, counters\<close>

record PublicationContext =
  ctx_publisher :: PublisherId
  ctx_boot :: BootGeneration
  ctx_coordinator_epoch :: CoordinatorEpoch
  ctx_federation :: FederationId
  ctx_federation_generation :: FederationGeneration
  ctx_sequence :: Sequence
  ctx_observed_at :: TimestampNanos
  ctx_precision :: Precision
  ctx_evidence_class :: EvidenceClass
  ctx_provenance :: Provenance
  ctx_evidence_generation :: EvidenceGeneration

definition PublicationContext_validate :: "PublicationContext \<Rightarrow> Status" where
  "PublicationContext_validate ctx =
     checks
       [refuse_if (id_empty (ctx_publisher ctx)) InvalidArgument ''publication context has no publisher'' [],
        refuse_if (\<not> is_set (ctx_boot ctx)) InvalidArgument ''publication context has no publisher boot identity'' [],
        refuse_if (\<not> is_set (ctx_coordinator_epoch ctx)) InvalidArgument ''publication context has no coordinator epoch'' [],
        refuse_if (id_empty (ctx_federation ctx)) InvalidArgument ''publication context has no federation'' [],
        refuse_if (seq_is_zero (ctx_sequence ctx)) InvalidArgument
          ''publication sequence must be at least 1; sequence 0 is reserved'' [],
        refuse_if (\<not> is_valid_identifier (id_value (ctx_publisher ctx)) \<or>
                   \<not> is_valid_identifier (id_value (ctx_federation ctx))) InvalidArgument
          ''publication context carries a malformed identifier'' []]"

datatype IngestDisposition =
    IngestDisposition_Applied
  | IngestDisposition_Duplicate
  | IngestDisposition_Superseded
  | IngestDisposition_Deferred

fun IngestDisposition_to_string :: "IngestDisposition \<Rightarrow> string" where
  "IngestDisposition_to_string IngestDisposition_Applied = ''APPLIED''"
| "IngestDisposition_to_string IngestDisposition_Duplicate = ''DUPLICATE''"
| "IngestDisposition_to_string IngestDisposition_Superseded = ''SUPERSEDED''"
| "IngestDisposition_to_string IngestDisposition_Deferred = ''DEFERRED''"

record IngestResult =
  ir_disposition :: IngestDisposition
  ir_code :: ErrorCode
  ir_detail :: string
  ir_watermark :: Sequence
  ir_sequence_gap :: u64

record ObservatoryStats =
  stat_publications_applied :: u64
  stat_publications_duplicate :: u64
  stat_publications_superseded :: u64
  stat_publications_rejected :: u64
  stat_publications_fenced :: u64
  stat_sequence_gaps_observed :: u64
  stat_sequence_regressions_rejected :: u64
  stat_queue_rejections :: u64
  stat_snapshots_created :: u64
  stat_state_saves :: u64
  stat_state_loads :: u64
  stat_bounds_rejections :: u64
  stat_placements_recorded :: u64
  stat_migrations_recorded :: u64
  stat_clusters_registered :: u64
  stat_cluster_retirements :: u64
  stat_publisher_registrations :: u64
  stat_publisher_fences :: u64

definition ObservatoryStats_init :: ObservatoryStats where
  "ObservatoryStats_init =
     \<lparr>stat_publications_applied = 0, stat_publications_duplicate = 0, stat_publications_superseded = 0,
      stat_publications_rejected = 0, stat_publications_fenced = 0, stat_sequence_gaps_observed = 0,
      stat_sequence_regressions_rejected = 0, stat_queue_rejections = 0, stat_snapshots_created = 0,
      stat_state_saves = 0, stat_state_loads = 0, stat_bounds_rejections = 0,
      stat_placements_recorded = 0, stat_migrations_recorded = 0, stat_clusters_registered = 0,
      stat_cluster_retirements = 0, stat_publisher_registrations = 0, stat_publisher_fences = 0\<rparr>"

section \<open>The state\<close>

type_synonym PublisherKey = "PublisherId \<times> BootGeneration"

record PublisherAuthority =
  pau_publisher :: PublisherId
  pau_boot :: BootGeneration
  pau_epoch :: CoordinatorEpoch
  pau_federation :: FederationId
  pau_watermark :: Sequence
  pau_registered_at :: TimestampNanos
  pau_last_publication_at :: TimestampNanos
  pau_accepted :: u64
  pau_rejected :: u64
  pau_duplicates :: u64
  pau_gaps :: u64
  pau_live :: bool
  pau_fenced :: bool
  pau_fenced_reason :: string
  pau_evidence_class :: EvidenceClass

definition PublisherAuthority_init :: PublisherAuthority where
  "PublisherAuthority_init =
     \<lparr>pau_publisher = no_id, pau_boot = gen_unset, pau_epoch = gen_unset, pau_federation = no_id,
      pau_watermark = Sequence 0, pau_registered_at = 0, pau_last_publication_at = 0,
      pau_accepted = 0, pau_rejected = 0, pau_duplicates = 0, pau_gaps = 0, pau_live = False,
      pau_fenced = False, pau_fenced_reason = [], pau_evidence_class = EvidenceClass_Unknown\<rparr>"

type_synonym PortabilityKey = "WorkloadId \<times> ClusterId"

record AggregateFindingRecord =
  afr_kind :: string
  afr_subject :: string
  afr_digest :: string
  afr_generated_at :: TimestampNanos
  afr_snapshot_generation :: SnapshotGeneration
  afr_precision :: Precision
  afr_evidence_class :: EvidenceClass

record Observatory =
  ob_bounds :: Bounds
  ob_publishers :: "(PublisherKey, PublisherAuthority) std_map"
  ob_save_sequence :: u64
  ob_coordinator_epoch :: CoordinatorEpoch
  ob_snapshot_generation :: SnapshotGeneration
  ob_federations :: "(FederationId, FederationRecord) std_map"
  ob_sites :: "(SiteId, SiteRecord) std_map"
  ob_clusters :: "(ClusterId, ClusterRecord) std_map"
  ob_accelerator_classes :: "(AcceleratorClassId, AcceleratorClassRecord) std_map"
  ob_runtimes :: "(RuntimeId, RuntimeRecord) std_map"
  ob_backends :: "(BackendId, BackendRecord) std_map"
  ob_domains :: "(DomainId, DomainRecord) std_map"
  ob_policies :: "(PolicyId, PolicyRecord) std_map"
  ob_artifacts :: "(ArtifactId, ArtifactRecord) std_map"
  ob_workload_classes :: "(WorkloadClassId, WorkloadClassRecord) std_map"
  ob_workloads :: "(WorkloadId, WorkloadRecord) std_map"
  ob_placements :: "(PlacementId, PlacementRecord) std_map"
  ob_latest_placement :: "(WorkloadId, PlacementId) std_map"
  ob_migrations :: "(MigrationId, MigrationRecord) std_map"
  ob_latest_migration :: "(WorkloadId, MigrationId) std_map"
  ob_superseded_migrations :: "(WorkloadId, MigrationId) std_map"
  ob_portability :: "(PortabilityKey, PortabilityAssessment) std_map"
  ob_aggregate_findings :: "AggregateFindingRecord list"
  ob_stats :: ObservatoryStats

text \<open>The constructor: bounds that do not validate are replaced by the defaults.\<close>

definition Observatory_init :: "Bounds \<Rightarrow> Observatory" where
  "Observatory_init config_bounds =
     \<lparr>ob_bounds = (case Bounds_validate config_bounds of Success \<Rightarrow> config_bounds | Failure e \<Rightarrow> default_bounds),
      ob_publishers = [], ob_save_sequence = 0, ob_coordinator_epoch = Generation 1,
      ob_snapshot_generation = Generation 1, ob_federations = [], ob_sites = [], ob_clusters = [],
      ob_accelerator_classes = [], ob_runtimes = [], ob_backends = [], ob_domains = [],
      ob_policies = [], ob_artifacts = [], ob_workload_classes = [], ob_workloads = [],
      ob_placements = [], ob_latest_placement = [], ob_migrations = [], ob_latest_migration = [],
      ob_superseded_migrations = [], ob_portability = [], ob_aggregate_findings = [],
      ob_stats = ObservatoryStats_init\<rparr>"

text \<open>Taking a snapshot (\<open>build_snapshot\<close>) reads the engine and counts itself.\<close>

definition count_snapshot :: "Observatory \<Rightarrow> Observatory" where
  "count_snapshot ob =
     ob\<lparr>ob_stats := (ob_stats ob)\<lparr>stat_snapshots_created := stat_snapshots_created (ob_stats ob) + 1\<rparr>\<rparr>"

definition next_snapshot :: "Observatory \<Rightarrow> Observatory" where
  "next_snapshot ob = ob\<lparr>ob_snapshot_generation := gen_next (ob_snapshot_generation ob)\<rparr>"

section \<open>The authority gate\<close>

type_synonym authority_ref = "PublisherKey \<times> PublisherAuthority"
type_synonym outcome = "IngestResult result \<times> Observatory"

definition ctx_key :: "PublicationContext \<Rightarrow> PublisherKey" where
  "ctx_key ctx = (ctx_publisher ctx, ctx_boot ctx)"

definition read_time :: "TimestampNanos \<Rightarrow> PublicationContext \<Rightarrow> TimestampNanos" where
  "read_time now ctx = (if ctx_observed_at ctx \<noteq> 0 then ctx_observed_at ctx else now)"

definition stamp_for :: "TimestampNanos \<Rightarrow> PublicationContext \<Rightarrow> ObservationStamp" where
  "stamp_for now ctx =
     \<lparr>os_publisher = ctx_publisher ctx, os_publisher_boot = ctx_boot ctx,
      os_coordinator_epoch = ctx_coordinator_epoch ctx,
      os_evidence_generation = ctx_evidence_generation ctx, os_sequence = ctx_sequence ctx,
      os_observed_at = read_time now ctx, os_precision = ctx_precision ctx,
      os_evidence_class = ctx_evidence_class ctx, os_provenance = ctx_provenance ctx\<rparr>"

definition put_authority :: "authority_ref \<Rightarrow> Observatory \<Rightarrow> Observatory" where
  "put_authority r ob = ob\<lparr>ob_publishers := smap_put (fst r) (snd r) (ob_publishers ob)\<rparr>"

definition refuse ::
  "ErrorCode \<Rightarrow> string \<Rightarrow> authority_ref option \<Rightarrow> bool \<Rightarrow> Observatory \<Rightarrow> 'a result \<times> Observatory" where
  "refuse code detail authority fenced ob =
     (let ob1 = (case authority of
                   None \<Rightarrow> ob
                 | Some (k, a) \<Rightarrow> put_authority (k, a\<lparr>pau_rejected := pau_rejected a + 1\<rparr>) ob);
          s = ob_stats ob1;
          s1 = s\<lparr>stat_publications_rejected := stat_publications_rejected s + 1\<rparr>;
          s2 = (if fenced then s1\<lparr>stat_publications_fenced := stat_publications_fenced s1 + 1\<rparr> else s1)
      in (Inl (Error code detail []), ob1\<lparr>ob_stats := s2\<rparr>))"

definition count_regression :: "Observatory \<Rightarrow> Observatory" where
  "count_regression ob =
     ob\<lparr>ob_stats := (ob_stats ob)\<lparr>stat_sequence_regressions_rejected :=
        stat_sequence_regressions_rejected (ob_stats ob) + 1\<rparr>\<rparr>"

definition count_bounds_rejection :: "Observatory \<Rightarrow> Observatory" where
  "count_bounds_rejection ob =
     ob\<lparr>ob_stats := (ob_stats ob)\<lparr>stat_bounds_rejections := stat_bounds_rejections (ob_stats ob) + 1\<rparr>\<rparr>"

definition check_authority :: "PublicationContext \<Rightarrow> Observatory \<Rightarrow> (authority_ref \<times> bool) result \<times> Observatory" where
  "check_authority ctx ob =
     (case PublicationContext_validate ctx of
        Failure e \<Rightarrow> refuse (error_code e) (error_message e) None False ob
      | Success \<Rightarrow>
          (case smap_find (ob_publishers ob) (ctx_key ctx) of
             None \<Rightarrow>
               refuse StaleBoot
                 ''publisher boot identity is not registered with this coordinator incarnation; register it first''
                 None True ob
           | Some a \<Rightarrow>
               let authority = (ctx_key ctx, a)
               in if pau_fenced a then
                    refuse FencedPublisher
                      (if pau_fenced_reason a = [] then ''publisher boot identity has been fenced''
                       else ''publisher boot identity has been fenced: '' @ pau_fenced_reason a)
                      (Some authority) True ob
                  else if ctx_coordinator_epoch ctx \<noteq> ob_coordinator_epoch ob then
                    refuse StaleEpoch
                      (''publication carries coordinator epoch '' @ gen_to_string (ctx_coordinator_epoch ctx) @
                       ''; this coordinator is at epoch '' @ gen_to_string (ob_coordinator_epoch ob))
                      (Some authority) False ob
                  else if ctx_sequence ctx < pau_watermark a then
                    refuse SequenceRegression
                      (''sequence '' @ seq_to_string (ctx_sequence ctx) @
                       '' is older than the accepted watermark '' @ seq_to_string (pau_watermark a))
                      (Some authority) False (count_regression ob)
                  else (Inr (authority, ctx_sequence ctx = pau_watermark a \<and> \<not> seq_is_zero (pau_watermark a)), ob)))"

definition with_authority ::
  "PublicationContext \<Rightarrow> Observatory \<Rightarrow> (authority_ref \<Rightarrow> bool \<Rightarrow> Observatory \<Rightarrow> outcome) \<Rightarrow> outcome" where
  "with_authority ctx ob body =
     (case check_authority ctx ob of
        (Inl e, ob') \<Rightarrow> (Inl e, ob')
      | (Inr (authority, duplicate_sequence), ob') \<Rightarrow> body authority duplicate_sequence ob')"

definition finish ::
  "TimestampNanos \<Rightarrow> PublicationContext \<Rightarrow> authority_ref \<Rightarrow> IngestDisposition \<Rightarrow> string \<Rightarrow> Observatory \<Rightarrow> outcome" where
  "finish now ctx authority disposition detail ob =
     (let (k, a) = authority;
          gap = (if ctx_sequence ctx > pau_watermark a
                 then seq_value (ctx_sequence ctx) - seq_value (pau_watermark a) - 1 else 0);
          a1 = (if ctx_sequence ctx > pau_watermark a then a\<lparr>pau_watermark := ctx_sequence ctx\<rparr> else a);
          s = ob_stats ob;
          s1 = (if gap \<noteq> 0 then s\<lparr>stat_sequence_gaps_observed := stat_sequence_gaps_observed s + 1\<rparr> else s);
          a2 = (if gap \<noteq> 0 then a1\<lparr>pau_gaps := pau_gaps a1 + 1\<rparr> else a1);
          a3 = a2\<lparr>pau_last_publication_at := read_time now ctx\<rparr>;
          (a4, s2) =
            (case disposition of
               IngestDisposition_Applied \<Rightarrow>
                 (a3\<lparr>pau_accepted := pau_accepted a3 + 1\<rparr>,
                  s1\<lparr>stat_publications_applied := stat_publications_applied s1 + 1\<rparr>)
             | IngestDisposition_Duplicate \<Rightarrow>
                 (a3\<lparr>pau_duplicates := pau_duplicates a3 + 1\<rparr>,
                  s1\<lparr>stat_publications_duplicate := stat_publications_duplicate s1 + 1\<rparr>)
             | IngestDisposition_Superseded \<Rightarrow>
                 (a3, s1\<lparr>stat_publications_superseded := stat_publications_superseded s1 + 1\<rparr>)
             | IngestDisposition_Deferred \<Rightarrow> (a3, s1))
      in (Inr \<lparr>ir_disposition = disposition, ir_code = Ok, ir_detail = detail,
               ir_watermark = pau_watermark a3, ir_sequence_gap = gap\<rparr>,
          (put_authority (k, a4) ob)\<lparr>ob_stats := s2\<rparr>))"

definition check_federation :: "PublicationContext \<Rightarrow> Observatory \<Rightarrow> Status" where
  "check_federation ctx ob =
     (case smap_find (ob_federations ob) (ctx_federation ctx) of
        None \<Rightarrow> fail NotFound ''federation is not registered'' (id_value (ctx_federation ctx))
      | Some r \<Rightarrow>
          if is_set (ctx_federation_generation ctx) \<and> ctx_federation_generation ctx \<noteq> fr_generation r then
            fail StaleGeneration
              (''publication targets federation generation '' @ gen_to_string (ctx_federation_generation ctx) @
               '' but the current generation is '' @ gen_to_string (fr_generation r))
              (id_value (ctx_federation ctx))
          else Success)"

section \<open>Publisher authority\<close>

definition register_publisher :: "clock \<Rightarrow> PublicationContext \<Rightarrow> Observatory \<Rightarrow> outcome" where
  "register_publisher clock ctx ob =
     (case PublicationContext_validate ctx of
        Failure e \<Rightarrow> (Inl e, ob)
      | Success \<Rightarrow>
          (let key = ctx_key ctx in
           case smap_find (ob_publishers ob) key of
             Some a \<Rightarrow>
               if pau_fenced a then
                 refuse FencedPublisher
                   (''publisher boot identity '' @ gen_to_string (ctx_boot ctx) @ '' of publisher '' @
                    id_value (ctx_publisher ctx) @
                    '' was fenced and can never be re-registered; a replacement process must '' @
                    ''present a fresh boot identity'')
                   (Some (key, a)) True ob
               else if ctx_coordinator_epoch ctx \<noteq> ob_coordinator_epoch ob then
                 refuse StaleEpoch
                   (''registration carries coordinator epoch '' @ gen_to_string (ctx_coordinator_epoch ctx))
                   (Some (key, a)) False ob
               else if ctx_sequence ctx < pau_watermark a then
                 refuse SequenceRegression ''registration sequence regressed'' (Some (key, a)) False
                   (count_regression ob)
               else
                 finish (clock 0) ctx
                   (key, a\<lparr>pau_live := True, pau_epoch := ctx_coordinator_epoch ctx,
                           pau_federation := ctx_federation ctx,
                           pau_evidence_class := ctx_evidence_class ctx\<rparr>)
                   IngestDisposition_Duplicate
                   ''publisher boot identity was already registered and remains live'' ob
           | None \<Rightarrow>
               if smap_size (ob_publishers ob) \<ge> max_publishers (ob_bounds ob) then
                 (Inl (Error BoundExceeded ''publisher bound is exhausted'' []), count_bounds_rejection ob)
               else if length (filter (\<lambda>a. pau_federation a = ctx_federation ctx) (smap_values (ob_publishers ob)))
                       \<ge> max_publishers_per_federation (ob_bounds ob) then
                 (Inl (Error BoundExceeded ''per-federation publisher bound is exhausted''
                         (id_value (ctx_federation ctx))), count_bounds_rejection ob)
               else
                 let registered_at = read_time (clock 0) ctx;
                     stored = PublisherAuthority_init
                       \<lparr>pau_publisher := ctx_publisher ctx, pau_boot := ctx_boot ctx,
                        pau_epoch := ctx_coordinator_epoch ctx, pau_federation := ctx_federation ctx,
                        pau_watermark := max (Sequence 0) (ctx_sequence ctx),
                        pau_registered_at := registered_at, pau_last_publication_at := registered_at,
                        pau_accepted := 1, pau_live := True, pau_evidence_class := ctx_evidence_class ctx\<rparr>;
                     watermark = seq_value (pau_watermark stored);
                     s = ob_stats ob;
                     ob1 = put_authority (key, stored) ob
                 in (Inr \<lparr>ir_disposition = IngestDisposition_Applied, ir_code = Ok,
                          ir_detail = ''publisher boot identity registered'',
                          ir_watermark = pau_watermark stored,
                          ir_sequence_gap = (if watermark > 1 then watermark - 1 else 0)\<rparr>,
                     next_snapshot (ob1\<lparr>ob_stats := s
                       \<lparr>stat_publisher_registrations := stat_publisher_registrations s + 1,
                        stat_publications_applied := stat_publications_applied s + 1\<rparr>\<rparr>))))"

definition stale_if_from ::
  "PublisherKey \<Rightarrow> ('r \<Rightarrow> ObservationStamp) \<Rightarrow> ('r \<Rightarrow> Currentness) \<Rightarrow> ('r \<Rightarrow> 'r) \<Rightarrow> 'k \<Rightarrow> 'r \<Rightarrow> 'r" where
  "stale_if_from key stamp_of currentness_of mark k r =
     (if os_publisher (stamp_of r) = fst key \<and> os_publisher_boot (stamp_of r) = snd key \<and>
         currentness_of r = Currentness_Current then mark r else r)"

text \<open>Every record this boot identity produced stops being current (the four loops of the source).\<close>

definition stale_records_from :: "PublisherKey \<Rightarrow> Observatory \<Rightarrow> Observatory" where
  "stale_records_from key ob =
     ob\<lparr>ob_clusters := smap_transform
          (stale_if_from key clr_stamp clr_currentness (\<lambda>r. r\<lparr>clr_currentness := Currentness_Stale\<rparr>))
          (ob_clusters ob),
        ob_federations := smap_transform
          (stale_if_from key fr_stamp fr_currentness (\<lambda>r. r\<lparr>fr_currentness := Currentness_Stale\<rparr>))
          (ob_federations ob),
        ob_sites := smap_transform
          (stale_if_from key sr_stamp sr_currentness (\<lambda>r. r\<lparr>sr_currentness := Currentness_Stale\<rparr>))
          (ob_sites ob),
        ob_domains := smap_transform
          (stale_if_from key dr_stamp dr_currentness (\<lambda>r. r\<lparr>dr_currentness := Currentness_Stale\<rparr>))
          (ob_domains ob)\<rparr>"

definition fence_publisher :: "PublisherId \<Rightarrow> BootGeneration \<Rightarrow> string \<Rightarrow> Observatory \<Rightarrow> Status \<times> Observatory" where
  "fence_publisher publisher boot reason ob =
     (if id_empty publisher \<or> \<not> is_set boot then
        (fail InvalidArgument ''fence requires a publisher and a boot identity'' [], ob)
      else
        let key = (publisher, boot);
            count_fence = (\<lambda>ob. ob\<lparr>ob_stats := (ob_stats ob)
               \<lparr>stat_publisher_fences := stat_publisher_fences (ob_stats ob) + 1\<rparr>\<rparr>)
        in case smap_find (ob_publishers ob) key of
             None \<Rightarrow>
               (Success,
                count_fence (put_authority
                  (key, PublisherAuthority_init
                     \<lparr>pau_publisher := publisher, pau_boot := boot, pau_epoch := ob_coordinator_epoch ob,
                      pau_fenced := True, pau_fenced_reason := reason, pau_live := False\<rparr>) ob))
           | Some a \<Rightarrow>
               let ob1 = (if pau_fenced a then put_authority (key, a\<lparr>pau_live := False\<rparr>) ob
                          else count_fence (put_authority
                            (key, a\<lparr>pau_fenced := True, pau_fenced_reason := reason, pau_live := False\<rparr>) ob))
               in (Success,
                   next_snapshot (stale_records_from key ob1)))"

definition publisher_is_live :: "PublisherId \<Rightarrow> BootGeneration \<Rightarrow> Observatory \<Rightarrow> bool" where
  "publisher_is_live publisher boot ob =
     (case smap_find (ob_publishers ob) (publisher, boot) of
        None \<Rightarrow> False
      | Some a \<Rightarrow> pau_live a \<and> \<not> pau_fenced a)"

section \<open>What the gate guarantees\<close>

text \<open>Two states with the same content differ in publisher bookkeeping and counters only.\<close>

definition same_content :: "Observatory \<Rightarrow> Observatory \<Rightarrow> bool" where
  "same_content ob ob' \<longleftrightarrow>
     ob' = ob\<lparr>ob_publishers := ob_publishers ob', ob_stats := ob_stats ob'\<rparr>"

text \<open>The authority record after an operation that was let through the gate.\<close>

definition follows ::
  "PublicationContext \<Rightarrow> PublisherAuthority \<Rightarrow> PublisherAuthority \<Rightarrow> IngestResult result \<Rightarrow> bool" where
  "follows ctx a a' res \<longleftrightarrow>
     pau_publisher a' = pau_publisher a \<and> pau_boot a' = pau_boot a \<and> pau_epoch a' = pau_epoch a \<and>
     pau_federation a' = pau_federation a \<and> pau_live a' = pau_live a \<and> pau_fenced a' = pau_fenced a \<and>
     (case res of
        Inl e \<Rightarrow> pau_watermark a' = pau_watermark a \<and> pau_accepted a' = pau_accepted a
      | Inr ir \<Rightarrow> pau_watermark a' = max (pau_watermark a) (ctx_sequence ctx) \<and>
                 ir_watermark ir = pau_watermark a' \<and> ir_code ir = Ok \<and> pau_rejected a' = pau_rejected a)"

definition settles :: "PublicationContext \<Rightarrow> authority_ref \<Rightarrow> Observatory \<Rightarrow> outcome \<Rightarrow> bool" where
  "settles ctx r ob out \<longleftrightarrow>
     ob_bounds (snd out) = ob_bounds ob \<and> ob_coordinator_epoch (snd out) = ob_coordinator_epoch ob \<and>
     (\<exists>a'. ob_publishers (snd out) = smap_put (fst r) a' (ob_publishers ob) \<and> follows ctx (snd r) a' (fst out))"

lemma next_snapshot_simps [simp]:
  "ob_bounds (next_snapshot ob) = ob_bounds ob"
  "ob_publishers (next_snapshot ob) = ob_publishers ob"
  "ob_save_sequence (next_snapshot ob) = ob_save_sequence ob"
  "ob_coordinator_epoch (next_snapshot ob) = ob_coordinator_epoch ob"
  "ob_federations (next_snapshot ob) = ob_federations ob"
  "ob_sites (next_snapshot ob) = ob_sites ob"
  "ob_clusters (next_snapshot ob) = ob_clusters ob"
  "ob_accelerator_classes (next_snapshot ob) = ob_accelerator_classes ob"
  "ob_runtimes (next_snapshot ob) = ob_runtimes ob"
  "ob_backends (next_snapshot ob) = ob_backends ob"
  "ob_domains (next_snapshot ob) = ob_domains ob"
  "ob_policies (next_snapshot ob) = ob_policies ob"
  "ob_artifacts (next_snapshot ob) = ob_artifacts ob"
  "ob_workload_classes (next_snapshot ob) = ob_workload_classes ob"
  "ob_workloads (next_snapshot ob) = ob_workloads ob"
  "ob_placements (next_snapshot ob) = ob_placements ob"
  "ob_latest_placement (next_snapshot ob) = ob_latest_placement ob"
  "ob_migrations (next_snapshot ob) = ob_migrations ob"
  "ob_latest_migration (next_snapshot ob) = ob_latest_migration ob"
  "ob_superseded_migrations (next_snapshot ob) = ob_superseded_migrations ob"
  "ob_portability (next_snapshot ob) = ob_portability ob"
  "ob_aggregate_findings (next_snapshot ob) = ob_aggregate_findings ob"
  "ob_stats (next_snapshot ob) = ob_stats ob"
  by (simp_all add: next_snapshot_def)

lemma same_contentD:
  assumes "same_content ob ob'"
  shows
    "ob_bounds ob' = ob_bounds ob"
    "ob_save_sequence ob' = ob_save_sequence ob"
    "ob_coordinator_epoch ob' = ob_coordinator_epoch ob"
    "ob_federations ob' = ob_federations ob"
    "ob_sites ob' = ob_sites ob"
    "ob_clusters ob' = ob_clusters ob"
    "ob_accelerator_classes ob' = ob_accelerator_classes ob"
    "ob_runtimes ob' = ob_runtimes ob"
    "ob_backends ob' = ob_backends ob"
    "ob_domains ob' = ob_domains ob"
    "ob_policies ob' = ob_policies ob"
    "ob_artifacts ob' = ob_artifacts ob"
    "ob_workload_classes ob' = ob_workload_classes ob"
    "ob_workloads ob' = ob_workloads ob"
    "ob_placements ob' = ob_placements ob"
    "ob_latest_placement ob' = ob_latest_placement ob"
    "ob_migrations ob' = ob_migrations ob"
    "ob_latest_migration ob' = ob_latest_migration ob"
    "ob_superseded_migrations ob' = ob_superseded_migrations ob"
    "ob_portability ob' = ob_portability ob"
    "ob_aggregate_findings ob' = ob_aggregate_findings ob"
    "ob_snapshot_generation ob' = ob_snapshot_generation ob"
  using assms unfolding same_content_def by (cases ob; cases ob'; simp)+

lemma stale_records_publishers [simp]: "ob_publishers (stale_records_from key ob) = ob_publishers ob"
  by (simp add: stale_records_from_def)

lemma same_content_refl [simp]: "same_content ob ob"
  by (simp add: same_content_def)

lemma same_content_trans: "same_content a b \<Longrightarrow> same_content b c \<Longrightarrow> same_content a c"
  unfolding same_content_def by (cases a; cases b; cases c) simp

lemma same_content_counters [simp]:
  "same_content ob (count_regression ob)" "same_content ob (count_bounds_rejection ob)"
  "same_content ob (put_authority r ob)" "same_content ob (ob\<lparr>ob_stats := s\<rparr>)"
  by (simp_all add: same_content_def count_regression_def count_bounds_rejection_def put_authority_def)

lemma put_authority_simps [simp]:
  "ob_publishers (put_authority r ob) = smap_put (fst r) (snd r) (ob_publishers ob)"
  "ob_bounds (put_authority r ob) = ob_bounds ob"
  "ob_coordinator_epoch (put_authority r ob) = ob_coordinator_epoch ob"
  "ob_stats (put_authority r ob) = ob_stats ob"
  by (simp_all add: put_authority_def)

lemma counter_simps [simp]:
  "ob_publishers (count_regression ob) = ob_publishers ob"
  "ob_publishers (count_bounds_rejection ob) = ob_publishers ob"
  "ob_bounds (count_regression ob) = ob_bounds ob"
  "ob_bounds (count_bounds_rejection ob) = ob_bounds ob"
  "ob_coordinator_epoch (count_regression ob) = ob_coordinator_epoch ob"
  "ob_coordinator_epoch (count_bounds_rejection ob) = ob_coordinator_epoch ob"
  by (simp_all add: count_regression_def count_bounds_rejection_def)

lemma refuse_simps [simp]:
  "fst (refuse c d r f ob) = Inl (Error c d [])"
  "ob_bounds (snd (refuse c d r f ob)) = ob_bounds ob"
  "ob_coordinator_epoch (snd (refuse c d r f ob)) = ob_coordinator_epoch ob"
  by (simp_all add: refuse_def Let_def split: option.split prod.split)

lemma refuse_publishers:
  "ob_publishers (snd (refuse c d (Some (k, a)) f ob)) =
     smap_put k (a\<lparr>pau_rejected := pau_rejected a + 1\<rparr>) (ob_publishers ob)"
  "ob_publishers (snd (refuse c d None f ob)) = ob_publishers ob"
  by (simp_all add: refuse_def Let_def)

lemma refuse_content: "same_content ob (snd (refuse c d r f ob))"
proof -
  have "same_content ob (case r of None \<Rightarrow> ob | Some (k, a) \<Rightarrow> put_authority (k, a\<lparr>pau_rejected := pau_rejected a + 1\<rparr>) ob)"
    by (simp split: option.split prod.split)
  then show ?thesis
    unfolding refuse_def Let_def snd_conv by (rule same_content_trans) simp
qed

lemma finish_content: "same_content ob (snd (finish now ctx r disp detail ob))"
  unfolding finish_def Let_def
  by (cases r) (auto simp: same_content_def put_authority_def split: IngestDisposition.split)

lemma finish_simps [simp]:
  "\<exists>ir. fst (finish now ctx r disp detail ob) = Inr ir \<and> ir_disposition ir = disp \<and> ir_detail ir = detail"
  "fst (finish now ctx r disp detail ob) \<noteq> Inl e"
  "ob_bounds (snd (finish now ctx r disp detail ob)) = ob_bounds ob"
  "ob_coordinator_epoch (snd (finish now ctx r disp detail ob)) = ob_coordinator_epoch ob"
  by (cases r; simp add: finish_def Let_def split: IngestDisposition.split)+

lemma finish_Inr:
  "finish now ctx r disp detail ob = (res, ob') \<Longrightarrow>
     \<exists>ir. res = Inr ir \<and> ir_disposition ir = disp \<and> same_content ob ob'"
  using finish_simps(1) [of now ctx r disp detail ob] finish_content [of ob now ctx r disp detail] by auto

lemma refuse_Inl:
  "refuse c d r f ob = (res, ob') \<Longrightarrow> \<exists>e. res = Inl e \<and> same_content ob ob'"
  using refuse_content [of ob] refuse_simps(1) [of c d r f ob] by (metis fst_conv snd_conv)

lemma settles_refuse [fo_settles]:
  "ob_publishers ob2 = ob_publishers ob \<Longrightarrow> ob_bounds ob2 = ob_bounds ob \<Longrightarrow>
     ob_coordinator_epoch ob2 = ob_coordinator_epoch ob \<Longrightarrow> settles ctx r ob (refuse c d (Some r) f ob2)"
  by (cases r) (auto simp: settles_def refuse_publishers follows_def)

lemma settles_finish [fo_settles]:
  assumes "ob_publishers ob2 = ob_publishers ob" "ob_bounds ob2 = ob_bounds ob"
    "ob_coordinator_epoch ob2 = ob_coordinator_epoch ob"
  shows "settles ctx r ob (finish now ctx r disp detail ob2)"
proof (cases r)
  case (Pair k a)
  show ?thesis
    unfolding settles_def follows_def Pair finish_def Let_def
    using assms by (cases disp; auto simp: max_def)
qed

lemma settles_if [fo_settles]:
  "(b \<Longrightarrow> settles ctx r ob x) \<Longrightarrow> (\<not> b \<Longrightarrow> settles ctx r ob y) \<Longrightarrow> settles ctx r ob (if b then x else y)"
  by simp

lemma settles_option [fo_settles]:
  "(m = None \<Longrightarrow> settles ctx r ob x) \<Longrightarrow> (\<And>v. m = Some v \<Longrightarrow> settles ctx r ob (y v)) \<Longrightarrow>
     settles ctx r ob (case m of None \<Rightarrow> x | Some v \<Rightarrow> y v)"
  by (cases m) simp_all

lemma settles_status [fo_settles]:
  "(m = Success \<Longrightarrow> settles ctx r ob x) \<Longrightarrow> (\<And>e. m = Failure e \<Longrightarrow> settles ctx r ob (y e)) \<Longrightarrow>
     settles ctx r ob (case m of Success \<Rightarrow> x | Failure e \<Rightarrow> y e)"
  by (cases m) simp_all

section \<open>The gate\<close>

lemma check_authority_Inl:
  assumes "check_authority ctx ob = (Inl e, ob')"
  shows "same_content ob ob' \<and> ob_bounds ob' = ob_bounds ob \<and> ob_coordinator_epoch ob' = ob_coordinator_epoch ob \<and>
     (ob_publishers ob' = ob_publishers ob \<or>
      (\<exists>a. smap_find (ob_publishers ob) (ctx_key ctx) = Some a \<and>
           ob_publishers ob' = smap_put (ctx_key ctx) (a\<lparr>pau_rejected := pau_rejected a + 1\<rparr>) (ob_publishers ob)))"
proof -
  have ob': "ob' = snd (check_authority ctx ob)" using assms by simp
  show ?thesis
    using assms same_content_trans [OF same_content_counters(1) refuse_content]
    unfolding ob' check_authority_def Let_def
    by (auto simp: refuse_content refuse_publishers split: Status.splits option.splits if_splits)
qed

lemma check_authority_Inr:
  assumes "check_authority ctx ob = (Inr (r, d), ob')"
  shows "ob' = ob \<and> PublicationContext_validate ctx = Success \<and> fst r = ctx_key ctx \<and>
     smap_find (ob_publishers ob) (ctx_key ctx) = Some (snd r) \<and> \<not> pau_fenced (snd r) \<and>
     ctx_coordinator_epoch ctx = ob_coordinator_epoch ob \<and> pau_watermark (snd r) \<le> ctx_sequence ctx \<and>
     d = (ctx_sequence ctx = pau_watermark (snd r) \<and> \<not> seq_is_zero (pau_watermark (snd r)))"
  using assms
  by (auto simp: check_authority_def Let_def refuse_def split: Status.splits option.splits if_splits)

lemma check_authority_fenced:
  "PublicationContext_validate ctx = Success \<Longrightarrow> smap_find (ob_publishers ob) (ctx_key ctx) = Some a \<Longrightarrow>
     pau_fenced a \<Longrightarrow> \<exists>e. fst (check_authority ctx ob) = Inl e \<and> error_code e = FencedPublisher"
  by (simp add: check_authority_def Let_def)

text \<open>
  The contract of a publication: it does nothing but what the gate does when the gate refuses, and it
  settles with the publisher otherwise.
\<close>

locale gated_operation =
  fixes op :: "PublicationContext \<Rightarrow> Observatory \<Rightarrow> outcome"
  assumes gate_closed: "check_authority ctx ob = (Inl e, ob') \<Longrightarrow> op ctx ob = (Inl e, ob')"
    and gate_open: "check_authority ctx ob = (Inr (r, d), ob') \<Longrightarrow> settles ctx r ob (op ctx ob)"
begin

lemma fenced_refused:
  assumes "PublicationContext_validate ctx = Success"
    and "smap_find (ob_publishers ob) (ctx_key ctx) = Some a" "pau_fenced a"
  shows "(\<exists>e. fst (op ctx ob) = Inl e \<and> error_code e = FencedPublisher) \<and> same_content ob (snd (op ctx ob))"
proof -
  obtain e where e: "fst (check_authority ctx ob) = Inl e" "error_code e = FencedPublisher"
    using check_authority_fenced [OF assms] by blast
  then obtain ob' where "check_authority ctx ob = (Inl e, ob')"
    by (cases "check_authority ctx ob") simp
  with e(2) gate_closed check_authority_Inl show ?thesis by fastforce
qed

lemma accepted_authority:
  assumes "fst (op ctx ob) = Inr ir"
  shows "\<exists>a. PublicationContext_validate ctx = Success \<and> smap_find (ob_publishers ob) (ctx_key ctx) = Some a \<and>
     \<not> pau_fenced a \<and> ctx_coordinator_epoch ctx = ob_coordinator_epoch ob \<and>
     pau_watermark a \<le> ctx_sequence ctx \<and> ir_watermark ir = ctx_sequence ctx"
proof (cases "check_authority ctx ob")
  case (Pair res ob')
  show ?thesis
  proof (cases res)
    case (Inl e)
    with Pair gate_closed assms show ?thesis by fastforce
  next
    case (Inr rd)
    then obtain r d where rd: "check_authority ctx ob = (Inr (r, d), ob')" using Pair by (cases rd) simp
    note gate = check_authority_Inr [OF rd]
    from gate_open [OF rd] assms obtain a' where "follows ctx (snd r) a' (Inr ir)"
      unfolding settles_def by metis
    then have "ir_watermark ir = ctx_sequence ctx" using gate by (auto simp: follows_def max_def)
    with gate show ?thesis by blast
  qed
qed

lemma gate_frame:
  "ob_bounds (snd (op ctx ob)) = ob_bounds ob \<and>
   ob_coordinator_epoch (snd (op ctx ob)) = ob_coordinator_epoch ob"
proof (cases "check_authority ctx ob")
  case (Pair res ob')
  show ?thesis
  proof (cases res)
    case (Inl e)
    with Pair gate_closed have "op ctx ob = (Inl e, ob')" by simp
    with Inl Pair check_authority_Inl show ?thesis by auto
  next
    case (Inr rd)
    with Pair gate_open [of ctx ob "fst rd" "snd rd" ob'] show ?thesis by (simp add: settles_def)
  qed
qed

text \<open>Every authority record survives; its watermark never moves back and its fence never changes.\<close>

lemma publishers_after:
  "smap_find (ob_publishers ob) k = None \<Longrightarrow> smap_find (ob_publishers (snd (op ctx ob))) k = None"
  "smap_find (ob_publishers ob) k = Some a \<Longrightarrow>
     \<exists>a'. smap_find (ob_publishers (snd (op ctx ob))) k = Some a' \<and> pau_watermark a \<le> pau_watermark a' \<and>
          pau_fenced a' = pau_fenced a \<and> pau_live a' = pau_live a \<and>
          pau_publisher a' = pau_publisher a \<and> pau_boot a' = pau_boot a"
  "smap_ok (ob_publishers ob) \<Longrightarrow> smap_ok (ob_publishers (snd (op ctx ob)))"
proof -
  have "ob_publishers (snd (op ctx ob)) = ob_publishers ob \<or>
      (\<exists>a a'. smap_find (ob_publishers ob) (ctx_key ctx) = Some a \<and>
         ob_publishers (snd (op ctx ob)) = smap_put (ctx_key ctx) a' (ob_publishers ob) \<and>
         pau_watermark a \<le> pau_watermark a' \<and> pau_fenced a' = pau_fenced a \<and> pau_live a' = pau_live a \<and>
          pau_publisher a' = pau_publisher a \<and> pau_boot a' = pau_boot a)"
  proof (cases "check_authority ctx ob")
    case (Pair res ob')
    show ?thesis
    proof (cases res)
      case (Inl e)
      with Pair gate_closed have "op ctx ob = (Inl e, ob')" by simp
      with Inl Pair check_authority_Inl show ?thesis by fastforce
    next
      case (Inr rd)
      then have rd: "check_authority ctx ob = (Inr (fst rd, snd rd), ob')" using Pair by simp
      from gate_open [OF rd] obtain a' where
        "ob_publishers (snd (op ctx ob)) = smap_put (fst (fst rd)) a' (ob_publishers ob)"
        "follows ctx (snd (fst rd)) a' (fst (op ctx ob))"
        unfolding settles_def by blast
      with check_authority_Inr [OF rd] show ?thesis
        by (intro disjI2 exI [of _ "snd (fst rd)"] exI [of _ a'])
           (auto simp: follows_def split: sum.splits)
    qed
  qed
  note upd = this
  show "smap_find (ob_publishers ob) k = None \<Longrightarrow> smap_find (ob_publishers (snd (op ctx ob))) k = None"
    using upd by (auto simp: stdmap.find_put)
  show "smap_find (ob_publishers ob) k = Some a \<Longrightarrow>
     \<exists>a'. smap_find (ob_publishers (snd (op ctx ob))) k = Some a' \<and> pau_watermark a \<le> pau_watermark a' \<and>
          pau_fenced a' = pau_fenced a \<and> pau_live a' = pau_live a \<and>
          pau_publisher a' = pau_publisher a \<and> pau_boot a' = pau_boot a"
    using upd by (auto simp: stdmap.find_put)
  show "smap_ok (ob_publishers ob) \<Longrightarrow> smap_ok (ob_publishers (snd (op ctx ob)))"
    using upd by (auto simp: stdmap.ok_put)
qed

end

lemma with_authority_gated:
  assumes "\<And>ctx r d ob. settles ctx r ob (body ctx r d ob)"
  shows "gated_operation (\<lambda>ctx ob. with_authority ctx ob (body ctx))"
proof
  show "check_authority ctx ob = (Inl e, ob') \<Longrightarrow> with_authority ctx ob (body ctx) = (Inl e, ob')" for ctx ob e ob'
    by (simp add: with_authority_def)
next
  fix ctx ob r d ob'
  assume h: "check_authority ctx ob = (Inr (r, d), ob')"
  then have "ob' = ob" using check_authority_Inr by blast
  with h assms show "settles ctx r ob (with_authority ctx ob (body ctx))"
    by (simp add: with_authority_def)
qed

end
