(* ===== verification/FO_Registry.thy ===== *)
theory FO_Registry
  imports FO_Engine
begin

text \<open>
  Structural registration (\<open>observatory.cpp\<close>): \<open>register_structural\<close> and the eleven operations that
  instantiate it, with the reference checks each of them makes, and \<open>retire_cluster\<close>.

  The template parameters of \<open>register_structural\<close> are the fields of \<open>Structural\<close>: the map of the state
  the record goes to, and the record's identifier, validation, published digest, generation and the
  update that makes it current under a stamp. The locale \<open>structural_kind\<close> states what
  \<open>register_structural\<close> relies on and proves what it does once for all kinds; it is interpreted on
  every kind of record.
\<close>

section \<open>Kinds of structural records\<close>

record ('r, 'k, 'g) Structural =
  sk_map :: "Observatory \<Rightarrow> ('k StrongId, 'r) std_map"
  sk_set_map :: "('k StrongId, 'r) std_map \<Rightarrow> Observatory \<Rightarrow> Observatory"
  sk_label :: string
  sk_id :: "'r \<Rightarrow> 'k StrongId"
  sk_validate :: "'r \<Rightarrow> Status"
  sk_digest :: "'r \<Rightarrow> string"
  sk_mark_current :: "ObservationStamp \<Rightarrow> 'r \<Rightarrow> 'r"
  sk_generation :: "'r \<Rightarrow> 'g Generation"

text \<open>\<open>published_digest\<close>: the digest without the runtime's own annotations.\<close>

definition published_digest_federation :: "FederationRecord \<Rightarrow> string" where
  "published_digest_federation r =
     digest_federation (r\<lparr>fr_currentness := Currentness_Unknown, fr_stamp := ObservationStamp_init,
       fr_evidence := no_evidence\<rparr>)"

definition published_digest_site :: "SiteRecord \<Rightarrow> string" where
  "published_digest_site r =
     digest_site (r\<lparr>sr_currentness := Currentness_Unknown, sr_stamp := ObservationStamp_init,
       sr_evidence := no_evidence\<rparr>)"

definition published_digest_accelerator_class :: "AcceleratorClassRecord \<Rightarrow> string" where
  "published_digest_accelerator_class r =
     digest_accelerator_class (r\<lparr>ar_currentness := Currentness_Unknown, ar_stamp := ObservationStamp_init,
       ar_evidence := no_evidence\<rparr>)"

definition published_digest_runtime :: "RuntimeRecord \<Rightarrow> string" where
  "published_digest_runtime r =
     digest_runtime (r\<lparr>rr_currentness := Currentness_Unknown, rr_stamp := ObservationStamp_init,
       rr_evidence := no_evidence\<rparr>)"

definition published_digest_backend :: "BackendRecord \<Rightarrow> string" where
  "published_digest_backend r =
     digest_backend (r\<lparr>br_currentness := Currentness_Unknown, br_stamp := ObservationStamp_init,
       br_evidence := no_evidence\<rparr>)"

definition published_digest_domain :: "DomainRecord \<Rightarrow> string" where
  "published_digest_domain r =
     digest_domain (r\<lparr>dr_currentness := Currentness_Unknown, dr_stamp := ObservationStamp_init,
       dr_evidence := no_evidence\<rparr>)"

definition published_digest_policy :: "PolicyRecord \<Rightarrow> string" where
  "published_digest_policy r =
     digest_policy (r\<lparr>pr_currentness := Currentness_Unknown, pr_stamp := ObservationStamp_init,
       pr_evidence := no_evidence\<rparr>)"

definition published_digest_artifact :: "ArtifactRecord \<Rightarrow> string" where
  "published_digest_artifact r =
     digest_artifact (r\<lparr>art_currentness := Currentness_Unknown, art_stamp := ObservationStamp_init,
       art_evidence := no_evidence\<rparr>)"

definition published_digest_workload_class :: "WorkloadClassRecord \<Rightarrow> string" where
  "published_digest_workload_class r =
     digest_workload_class (r\<lparr>wcr_currentness := Currentness_Unknown, wcr_stamp := ObservationStamp_init,
       wcr_evidence := no_evidence\<rparr>)"

definition published_digest_workload :: "WorkloadRecord \<Rightarrow> string" where
  "published_digest_workload r =
     digest_workload (r\<lparr>wr_currentness := Currentness_Unknown, wr_stamp := ObservationStamp_init,
       wr_evidence := no_evidence\<rparr>)"

definition published_digest_cluster :: "ClusterRecord \<Rightarrow> string" where
  "published_digest_cluster r =
     digest_cluster (r\<lparr>clr_currentness := Currentness_Unknown, clr_stamp := ObservationStamp_init,
       clr_evidence := no_evidence\<rparr>)"

definition federation_kind :: "(FederationRecord, FederationIdTag, FederationGenerationTag) Structural" where
  "federation_kind =
     \<lparr>sk_map = ob_federations, sk_set_map = (\<lambda>m ob. ob\<lparr>ob_federations := m\<rparr>), sk_label = ''federation'',
      sk_id = fr_id, sk_validate = FederationRecord_validate, sk_digest = published_digest_federation,
      sk_mark_current = (\<lambda>stamp r. r\<lparr>fr_currentness := Currentness_Current, fr_stamp := stamp\<rparr>),
      sk_generation = fr_generation\<rparr>"

definition site_kind :: "(SiteRecord, SiteIdTag, SiteGenerationTag) Structural" where
  "site_kind =
     \<lparr>sk_map = ob_sites, sk_set_map = (\<lambda>m ob. ob\<lparr>ob_sites := m\<rparr>), sk_label = ''site'',
      sk_id = sr_id, sk_validate = SiteRecord_validate, sk_digest = published_digest_site,
      sk_mark_current = (\<lambda>stamp r. r\<lparr>sr_currentness := Currentness_Current, sr_stamp := stamp\<rparr>),
      sk_generation = sr_generation\<rparr>"

definition accelerator_class_kind :: "(AcceleratorClassRecord, AcceleratorClassIdTag, AcceleratorCapabilityGenerationTag) Structural" where
  "accelerator_class_kind =
     \<lparr>sk_map = ob_accelerator_classes, sk_set_map = (\<lambda>m ob. ob\<lparr>ob_accelerator_classes := m\<rparr>), sk_label = ''accelerator class'',
      sk_id = ar_id, sk_validate = AcceleratorClassRecord_validate, sk_digest = published_digest_accelerator_class,
      sk_mark_current = (\<lambda>stamp r. r\<lparr>ar_currentness := Currentness_Current, ar_stamp := stamp\<rparr>),
      sk_generation = ar_capability_generation\<rparr>"

definition runtime_kind :: "(RuntimeRecord, RuntimeIdTag, RuntimeGenerationTag) Structural" where
  "runtime_kind =
     \<lparr>sk_map = ob_runtimes, sk_set_map = (\<lambda>m ob. ob\<lparr>ob_runtimes := m\<rparr>), sk_label = ''runtime'',
      sk_id = rr_id, sk_validate = RuntimeRecord_validate, sk_digest = published_digest_runtime,
      sk_mark_current = (\<lambda>stamp r. r\<lparr>rr_currentness := Currentness_Current, rr_stamp := stamp\<rparr>),
      sk_generation = rr_generation\<rparr>"

definition backend_kind :: "(BackendRecord, BackendIdTag, BackendGenerationTag) Structural" where
  "backend_kind =
     \<lparr>sk_map = ob_backends, sk_set_map = (\<lambda>m ob. ob\<lparr>ob_backends := m\<rparr>), sk_label = ''backend'',
      sk_id = br_id, sk_validate = BackendRecord_validate, sk_digest = published_digest_backend,
      sk_mark_current = (\<lambda>stamp r. r\<lparr>br_currentness := Currentness_Current, br_stamp := stamp\<rparr>),
      sk_generation = br_generation\<rparr>"

definition domain_kind :: "(DomainRecord, DomainIdTag, TopologyGenerationTag) Structural" where
  "domain_kind =
     \<lparr>sk_map = ob_domains, sk_set_map = (\<lambda>m ob. ob\<lparr>ob_domains := m\<rparr>), sk_label = ''domain'',
      sk_id = dr_id, sk_validate = DomainRecord_validate, sk_digest = published_digest_domain,
      sk_mark_current = (\<lambda>stamp r. r\<lparr>dr_currentness := Currentness_Current, dr_stamp := stamp\<rparr>),
      sk_generation = dr_topology_generation\<rparr>"

definition policy_kind :: "(PolicyRecord, PolicyIdTag, PolicyGenerationTag) Structural" where
  "policy_kind =
     \<lparr>sk_map = ob_policies, sk_set_map = (\<lambda>m ob. ob\<lparr>ob_policies := m\<rparr>), sk_label = ''policy'',
      sk_id = pr_id, sk_validate = PolicyRecord_validate, sk_digest = published_digest_policy,
      sk_mark_current = (\<lambda>stamp r. r\<lparr>pr_currentness := Currentness_Current, pr_stamp := stamp\<rparr>),
      sk_generation = pr_generation\<rparr>"

definition artifact_kind :: "(ArtifactRecord, ArtifactIdTag, ArtifactGenerationTag) Structural" where
  "artifact_kind =
     \<lparr>sk_map = ob_artifacts, sk_set_map = (\<lambda>m ob. ob\<lparr>ob_artifacts := m\<rparr>), sk_label = ''artifact'',
      sk_id = art_id, sk_validate = ArtifactRecord_validate, sk_digest = published_digest_artifact,
      sk_mark_current = (\<lambda>stamp r. r\<lparr>art_currentness := Currentness_Current, art_stamp := stamp\<rparr>),
      sk_generation = art_generation\<rparr>"

definition workload_class_kind :: "(WorkloadClassRecord, WorkloadClassIdTag, FederationGenerationTag) Structural" where
  "workload_class_kind =
     \<lparr>sk_map = ob_workload_classes, sk_set_map = (\<lambda>m ob. ob\<lparr>ob_workload_classes := m\<rparr>), sk_label = ''workload class'',
      sk_id = wcr_id, sk_validate = WorkloadClassRecord_validate, sk_digest = published_digest_workload_class,
      sk_mark_current = (\<lambda>stamp r. r\<lparr>wcr_currentness := Currentness_Current, wcr_stamp := stamp\<rparr>),
      sk_generation = \<lambda>_. gen_unset\<rparr>"

definition workload_kind :: "(WorkloadRecord, WorkloadIdTag, WorkloadGenerationTag) Structural" where
  "workload_kind =
     \<lparr>sk_map = ob_workloads, sk_set_map = (\<lambda>m ob. ob\<lparr>ob_workloads := m\<rparr>), sk_label = ''workload'',
      sk_id = wr_id, sk_validate = WorkloadRecord_validate, sk_digest = published_digest_workload,
      sk_mark_current = (\<lambda>stamp r. r\<lparr>wr_currentness := Currentness_Current, wr_stamp := stamp\<rparr>),
      sk_generation = wr_generation\<rparr>"

definition cluster_kind :: "(ClusterRecord, ClusterIdTag, ClusterGenerationTag) Structural" where
  "cluster_kind =
     \<lparr>sk_map = ob_clusters, sk_set_map = (\<lambda>m ob. ob\<lparr>ob_clusters := m\<rparr>), sk_label = ''cluster'',
      sk_id = clr_id, sk_validate = ClusterRecord_validate, sk_digest = published_digest_cluster,
      sk_mark_current = (\<lambda>stamp r. r\<lparr>clr_currentness := Currentness_Current, clr_stamp := stamp\<rparr>),
      sk_generation = clr_generation\<rparr>"

section \<open>Registration\<close>

definition refuse_status :: "Error \<Rightarrow> authority_ref \<Rightarrow> Observatory \<Rightarrow> outcome" where
  "refuse_status e authority ob =
     refuse (error_code e) (error_message e @ '' ('' @ error_detail e @ '')'') (Some authority) False ob"

definition register_structural ::
  "('r, 'k, 'g) Structural \<Rightarrow> (Observatory \<Rightarrow> 'r \<Rightarrow> Status) \<Rightarrow> (Bounds \<Rightarrow> nat) \<Rightarrow> clock \<Rightarrow>
     PublicationContext \<Rightarrow> 'r \<Rightarrow> Observatory \<Rightarrow> outcome" where
  "register_structural K extra limit clock ctx record ob =
     with_authority ctx ob (\<lambda>authority duplicate_sequence ob.
       case sk_validate K record of
         Failure e \<Rightarrow> refuse_status e authority ob
       | Success \<Rightarrow>
           (case extra ob record of
              Failure e \<Rightarrow> refuse_status e authority ob
            | Success \<Rightarrow>
                let found = smap_find (sk_map K ob) (sk_id K record);
                    accepted = (\<lambda>_. finish (clock 1) ctx authority IngestDisposition_Applied []
                      (next_snapshot (sk_set_map K
                        (smap_put (sk_id K record) (sk_mark_current K (stamp_for (clock 0) ctx) record) (sk_map K ob)) ob)))
                in if (case found of None \<Rightarrow> False | Some stored \<Rightarrow> sk_digest K stored = sk_digest K record) then
                     finish (clock 1) ctx authority IngestDisposition_Duplicate
                       (''identical '' @ sk_label K @ '' re-publication was suppressed'') ob
                   else if duplicate_sequence then
                     refuse Conflict
                       (''sequence '' @ seq_to_string (ctx_sequence ctx) @ '' was already accepted with different '' @
                        sk_label K @ '' content'') (Some authority) False ob
                   else
                     (case found of
                        None \<Rightarrow>
                          if smap_size (sk_map K ob) \<ge> limit (ob_bounds ob) then
                            refuse BoundExceeded (''the '' @ sk_label K @ '' bound is exhausted'')
                              (Some authority) False (count_bounds_rejection ob)
                          else accepted ()
                      | Some stored \<Rightarrow>
                          if newer_than (sk_generation K stored) (sk_generation K record) then
                            finish (clock 1) ctx authority IngestDisposition_Superseded
                              (''stored '' @ sk_label K @ '' generation '' @ gen_to_string (sk_generation K stored) @
                               '' is newer than the published '' @ gen_to_string (sk_generation K record)) ob
                          else accepted ())))"

section \<open>The eleven registrations\<close>

abbreviation no_extra_check :: "Observatory \<Rightarrow> 'r \<Rightarrow> Status" where
  "no_extra_check \<equiv> \<lambda>_ _. Success"

definition unregistered :: "('k StrongId, 'v) std_map \<Rightarrow> 'k StrongId \<Rightarrow> bool" where
  "unregistered m i = (smap_find m i = None)"

definition site_extra :: "Observatory \<Rightarrow> SiteRecord \<Rightarrow> Status" where
  "site_extra ob r =
     refuse_if (unregistered (ob_federations ob) (sr_federation r)) NotFound
       ''site references an unregistered federation'' (id_value (sr_federation r))"

definition backend_extra :: "Observatory \<Rightarrow> BackendRecord \<Rightarrow> Status" where
  "backend_extra ob r =
     refuse_if (unregistered (ob_runtimes ob) (br_runtime r)) NotFound
       ''backend references an unregistered runtime'' (id_value (br_runtime r))"

definition domain_extra :: "Observatory \<Rightarrow> DomainRecord \<Rightarrow> Status" where
  "domain_extra ob r =
     checks
       [refuse_if (unregistered (ob_federations ob) (dr_federation r)) NotFound
          ''domain references an unregistered federation'' (id_value (dr_federation r)),
        first_failure (\<lambda>i. refuse_if (unregistered (ob_clusters ob) i) NotFound
          ''domain references an unregistered cluster'' (id_value i)) (dr_clusters r)]"

definition workload_extra :: "Observatory \<Rightarrow> WorkloadRecord \<Rightarrow> Status" where
  "workload_extra ob r =
     checks
       [refuse_if (unregistered (ob_workload_classes ob) (wr_workload_class r)) NotFound
          ''workload references an unregistered workload class'' (id_value (wr_workload_class r)),
        refuse_if (\<not> id_empty (wr_artifact r) \<and> unregistered (ob_artifacts ob) (wr_artifact r)) NotFound
          ''workload references an unregistered artifact'' (id_value (wr_artifact r)),
        refuse_if (\<not> id_empty (wr_policy r) \<and> unregistered (ob_policies ob) (wr_policy r)) NotFound
          ''workload references an unregistered policy'' (id_value (wr_policy r)),
        first_failure (\<lambda>i. refuse_if (unregistered (ob_accelerator_classes ob) i) NotFound
          ''workload references an unregistered accelerator class'' (id_value i))
          (wr_acceptable_accelerator_classes r)]"

definition cluster_extra :: "Observatory \<Rightarrow> ClusterRecord \<Rightarrow> Status" where
  "cluster_extra ob r =
     checks
       [refuse_if (unregistered (ob_federations ob) (clr_federation r)) NotFound
          ''cluster references an unregistered federation'' (id_value (clr_federation r)),
        refuse_if (unregistered (ob_sites ob) (clr_site r)) NotFound
          ''cluster references an unregistered site'' (id_value (clr_site r)),
        first_failure (\<lambda>i. refuse_if (unregistered (ob_accelerator_classes ob) i) NotFound
          ''cluster references an unregistered accelerator class'' (id_value i)) (clr_accelerator_classes r),
        first_failure (\<lambda>i. refuse_if (unregistered (ob_runtimes ob) i) NotFound
          ''cluster references an unregistered runtime'' (id_value i)) (clr_runtimes r),
        first_failure (\<lambda>i. refuse_if (unregistered (ob_backends ob) i) NotFound
          ''cluster references an unregistered backend'' (id_value i)) (clr_backends r),
        refuse_if (\<not> id_empty (clr_domain r) \<and> unregistered (ob_domains ob) (clr_domain r)) NotFound
          ''cluster references an unregistered domain'' (id_value (clr_domain r))]"

definition register_federation :: "clock \<Rightarrow> PublicationContext \<Rightarrow> FederationRecord \<Rightarrow> Observatory \<Rightarrow> outcome" where
  "register_federation = register_structural federation_kind no_extra_check max_federations"

definition register_site :: "clock \<Rightarrow> PublicationContext \<Rightarrow> SiteRecord \<Rightarrow> Observatory \<Rightarrow> outcome" where
  "register_site = register_structural site_kind site_extra max_sites"

definition register_accelerator_class :: "clock \<Rightarrow> PublicationContext \<Rightarrow> AcceleratorClassRecord \<Rightarrow> Observatory \<Rightarrow> outcome" where
  "register_accelerator_class = register_structural accelerator_class_kind no_extra_check max_accelerator_classes"

definition register_runtime :: "clock \<Rightarrow> PublicationContext \<Rightarrow> RuntimeRecord \<Rightarrow> Observatory \<Rightarrow> outcome" where
  "register_runtime = register_structural runtime_kind no_extra_check max_runtimes"

definition register_backend :: "clock \<Rightarrow> PublicationContext \<Rightarrow> BackendRecord \<Rightarrow> Observatory \<Rightarrow> outcome" where
  "register_backend = register_structural backend_kind backend_extra max_backends"

definition register_domain :: "clock \<Rightarrow> PublicationContext \<Rightarrow> DomainRecord \<Rightarrow> Observatory \<Rightarrow> outcome" where
  "register_domain = register_structural domain_kind domain_extra max_domains"

definition register_policy :: "clock \<Rightarrow> PublicationContext \<Rightarrow> PolicyRecord \<Rightarrow> Observatory \<Rightarrow> outcome" where
  "register_policy = register_structural policy_kind no_extra_check max_policies"

definition register_artifact :: "clock \<Rightarrow> PublicationContext \<Rightarrow> ArtifactRecord \<Rightarrow> Observatory \<Rightarrow> outcome" where
  "register_artifact = register_structural artifact_kind no_extra_check max_artifacts"

definition register_workload_class :: "clock \<Rightarrow> PublicationContext \<Rightarrow> WorkloadClassRecord \<Rightarrow> Observatory \<Rightarrow> outcome" where
  "register_workload_class = register_structural workload_class_kind no_extra_check max_workload_classes"

definition register_workload :: "clock \<Rightarrow> PublicationContext \<Rightarrow> WorkloadRecord \<Rightarrow> Observatory \<Rightarrow> outcome" where
  "register_workload = register_structural workload_kind workload_extra max_workloads"

text \<open>
  A cluster whose registration advances its generation is a new incarnation: its capacity pools and
  readiness are dropped.
\<close>

definition clear_dynamic :: "ClusterGeneration \<Rightarrow> ClusterGeneration \<Rightarrow> ClusterRecord \<Rightarrow> ClusterRecord" where
  "clear_dynamic previous incoming r =
     r\<lparr>clr_capacity_pools := [], clr_readiness := Readiness_Unknown,
       clr_evidence := snd (EvidenceList_add_fields Provenance_DerivedAnalysis
         (os_evidence_class (clr_stamp r)) ''observatory'' Precision_Derived
         (''cluster generation advanced from '' @ gen_to_string previous @ '' to '' @ gen_to_string incoming @
          ''; dynamic capacity and readiness evidence was cleared and must be republished'')
         (clr_evidence r))\<rparr>"

definition register_cluster :: "clock \<Rightarrow> PublicationContext \<Rightarrow> ClusterRecord \<Rightarrow> Observatory \<Rightarrow> outcome" where
  "register_cluster clock ctx record ob =
     (let previous = (case smap_find (ob_clusters ob) (clr_id record) of
                        None \<Rightarrow> gen_unset | Some r \<Rightarrow> clr_generation r);
          (res, ob1) = register_structural cluster_kind cluster_extra max_clusters clock ctx record ob
      in if (case res of Inl e \<Rightarrow> False | Inr ir \<Rightarrow> ir_disposition ir = IngestDisposition_Applied) \<and>
            is_set previous \<and> newer_than (clr_generation record) previous then
           (case smap_find (ob_clusters ob1) (clr_id record) of
              None \<Rightarrow> (res, ob1)
            | Some r \<Rightarrow>
                (res, next_snapshot (ob1\<lparr>ob_clusters :=
                   smap_put (clr_id record) (clear_dynamic previous (clr_generation record) r) (ob_clusters ob1)\<rparr>)))
         else (res, ob1))"

definition retire_cluster ::
  "clock \<Rightarrow> ClusterId \<Rightarrow> ClusterGeneration \<Rightarrow> string \<Rightarrow> PublicationContext \<Rightarrow> Observatory \<Rightarrow> outcome" where
  "retire_cluster clock cluster generation reason ctx ob =
     with_authority ctx ob (\<lambda>authority duplicate_sequence ob.
       case smap_find (ob_clusters ob) cluster of
         None \<Rightarrow> refuse NotFound ''cluster is not registered'' (Some authority) False ob
       | Some r \<Rightarrow>
           if is_set generation \<and> older_than generation (clr_generation r) then
             refuse StaleGeneration
               (''retirement targets cluster generation '' @ gen_to_string generation @
                '' but the current generation is '' @ gen_to_string (clr_generation r)) (Some authority) False ob
           else if clr_currentness r = Currentness_Retired then
             finish (clock 1) ctx authority IngestDisposition_Duplicate ''cluster was already retired'' ob
           else
             let r1 = r\<lparr>clr_generation := (if is_set generation then generation else gen_next (clr_generation r)),
                        clr_currentness := Currentness_Retired, clr_readiness := Readiness_Retired,
                        clr_capacity_generation := gen_next (clr_capacity_generation r),
                        clr_stamp := stamp_for (clock 0) ctx,
                        clr_evidence := snd (EvidenceList_add_fields Provenance_ClusterController
                          (ctx_evidence_class ctx) (id_value (ctx_publisher ctx)) (ctx_precision ctx)
                          (''cluster retired: '' @ reason) (clr_evidence r))\<rparr>;
                 ob1 = ob\<lparr>ob_clusters := smap_put cluster r1 (ob_clusters ob)\<rparr>;
                 s = ob_stats ob1
             in finish (clock 1) ctx authority IngestDisposition_Applied
                  (''cluster retired; its history is preserved and late evidence for the previous '' @
                   ''generation is refused'')
                  (next_snapshot (ob1\<lparr>ob_stats := s\<lparr>stat_cluster_retirements := stat_cluster_retirements s + 1\<rparr>\<rparr>)))"

section \<open>What a registration does\<close>

text \<open>The state in which an applied registration has stored its record.\<close>

definition stored_as ::
  "('r, 'k, 'g) Structural \<Rightarrow> clock \<Rightarrow> PublicationContext \<Rightarrow> 'r \<Rightarrow> Observatory \<Rightarrow> Observatory" where
  "stored_as K clock ctx record ob =
     next_snapshot (sk_set_map K
       (smap_put (sk_id K record) (sk_mark_current K (stamp_for (clock 0) ctx) record) (sk_map K ob)) ob)"

locale structural_kind =
  fixes K :: "('r, 'k, 'g) Structural"
    and extra :: "Observatory \<Rightarrow> 'r \<Rightarrow> Status"
    and limit :: "Bounds \<Rightarrow> nat"
  assumes map_set: "sk_map K (sk_set_map K m ob) = m"
    and set_publishers: "ob_publishers (sk_set_map K m ob) = ob_publishers ob"
    and set_bounds: "ob_bounds (sk_set_map K m ob) = ob_bounds ob"
    and set_epoch: "ob_coordinator_epoch (sk_set_map K m ob) = ob_coordinator_epoch ob"
    and map_content: "same_content ob ob' \<Longrightarrow> sk_map K ob' = sk_map K ob"
    and map_next: "sk_map K (next_snapshot ob) = sk_map K ob"
    and mark_id: "sk_id K (sk_mark_current K stamp r) = sk_id K r"
    and mark_validate: "sk_validate K (sk_mark_current K stamp r) = sk_validate K r"
    and mark_digest: "sk_digest K (sk_mark_current K stamp r) = sk_digest K r"
    and mark_generation: "sk_generation K (sk_mark_current K stamp r) = sk_generation K r"
    and extra_set: "extra (sk_set_map K m ob) r = extra ob r"
    and extra_content: "same_content ob ob' \<Longrightarrow> extra ob' r = extra ob r"
    and extra_next: "extra (next_snapshot ob) r = extra ob r"
begin

lemma register_gated: "gated_operation (\<lambda>ctx. register_structural K extra limit clock ctx record)"
  unfolding register_structural_def
  by (rule with_authority_gated, unfold refuse_status_def Let_def, intro fo_settles)
     (simp_all add: set_publishers set_bounds set_epoch)

lemma register_cases:
  assumes "register_structural K extra limit clock ctx record ob = (res, ob')"
  shows "same_content ob ob' \<and>
       (\<forall>ir. res = Inr ir \<longrightarrow> ir_disposition ir \<in> {IngestDisposition_Duplicate, IngestDisposition_Superseded})
     \<or> (\<exists>ir. res = Inr ir \<and> ir_disposition ir = IngestDisposition_Applied) \<and>
       same_content (stored_as K clock ctx record ob) ob' \<and>
       sk_validate K record = Success \<and> extra ob record = Success \<and>
       (case smap_find (sk_map K ob) (sk_id K record) of
          None \<Rightarrow> smap_size (sk_map K ob) < limit (ob_bounds ob)
        | Some stored \<Rightarrow> \<not> newer_than (sk_generation K stored) (sk_generation K record))"
proof (cases "check_authority ctx ob")
  case (Pair gate ob1)
  show ?thesis
  proof (cases gate)
    case (Inl e)
    with Pair assms check_authority_Inl [of ctx ob e ob1] show ?thesis
      by (auto simp: register_structural_def with_authority_def)
  next
    case (Inr rd)
    obtain r d where rd: "rd = (r, d)" by (cases rd)
    have "ob1 = ob" using Pair check_authority_Inr [of ctx ob r d ob1] by (simp add: Inr rd)
    with Pair Inr rd assms show ?thesis
      unfolding register_structural_def with_authority_def stored_as_def refuse_status_def Let_def
      by (auto split: Status.splits option.splits if_splits dest!: finish_Inr refuse_Inl
          dest: same_content_trans [OF same_content_counters(2)])
  qed
qed

lemma stored_map:
  "sk_map K (stored_as K clock ctx record ob) =
     smap_put (sk_id K record) (sk_mark_current K (stamp_for (clock 0) ctx) record) (sk_map K ob)"
  by (simp add: stored_as_def map_next map_set)

lemma register_map:
  assumes "register_structural K extra limit clock ctx record ob = (res, ob')"
  shows "sk_map K ob' = sk_map K ob \<or>
     (\<exists>ir. res = Inr ir \<and> ir_disposition ir = IngestDisposition_Applied) \<and>
     sk_map K ob' = smap_put (sk_id K record) (sk_mark_current K (stamp_for (clock 0) ctx) record) (sk_map K ob)"
  using register_cases [OF assms] map_content [of ob ob'] map_content [of "stored_as K clock ctx record ob" ob']
  by (auto simp: stored_map)

lemma refused_unchanged:
  assumes "register_structural K extra limit clock ctx record ob = (Inl e, ob')"
  shows "same_content ob ob'"
  using register_cases [OF assms] by auto

text \<open>A stored record is replaced by one of a generation that is not older, and is never removed.\<close>

lemma register_generation:
  assumes "register_structural K extra limit clock ctx record ob = (res, ob')"
    and "smap_find (sk_map K ob) k = Some stored"
  shows "\<exists>stored'. smap_find (sk_map K ob') k = Some stored' \<and>
     \<not> newer_than (sk_generation K stored) (sk_generation K stored')"
proof -
  consider "same_content ob ob'" | "same_content (stored_as K clock ctx record ob) ob'"
      "\<forall>s. smap_find (sk_map K ob) (sk_id K record) = Some s \<longrightarrow>
         \<not> newer_than (sk_generation K s) (sk_generation K record)"
    using register_cases [OF assms(1)] by (auto split: option.splits)
  then show ?thesis
  proof cases
    case 1
    then show ?thesis using assms(2) map_content [OF 1] by (simp add: newer_than_def)
  next
    case 2
    show ?thesis using assms(2) 2(2) map_content [OF 2(1)]
      by (auto simp: stored_map stdmap.find_put mark_generation newer_than_def)
  qed
qed

text \<open>The records of a kind: stored under their identifiers, valid, and within the bound.\<close>

lemma register_keeps_ok:
  assumes "register_structural K extra limit clock ctx record ob = (res, ob')"
    and "smap_ok (sk_map K ob)" "smap_size (sk_map K ob) \<le> limit (ob_bounds ob)"
    and "\<And>k r. smap_find (sk_map K ob) k = Some r \<Longrightarrow> sk_id K r = k \<and> sk_validate K r = Success"
  shows "smap_ok (sk_map K ob') \<and> smap_size (sk_map K ob') \<le> limit (ob_bounds ob') \<and>
     (\<forall>k r. smap_find (sk_map K ob') k = Some r \<longrightarrow> sk_id K r = k \<and> sk_validate K r = Success)"
  using register_cases [OF assms(1)]
proof (elim disjE conjE)
  assume "same_content ob ob'"
  then show ?thesis using assms(2-4) map_content [of ob ob'] by (auto simp: same_contentD(1))
next
  assume h: "same_content (stored_as K clock ctx record ob) ob'" "sk_validate K record = Success"
    "case smap_find (sk_map K ob) (sk_id K record) of
       None \<Rightarrow> smap_size (sk_map K ob) < limit (ob_bounds ob)
     | Some stored \<Rightarrow> \<not> newer_than (sk_generation K stored) (sk_generation K record)"
  have "smap_size (sk_map K (stored_as K clock ctx record ob)) \<le> limit (ob_bounds ob)"
    unfolding stored_map using assms(2,3) h(3) by (intro stdmap.size_put_within) (auto split: option.splits)
  moreover have "ob_bounds ob' = ob_bounds ob"
    using same_contentD(1) [OF h(1)] by (simp add: stored_as_def set_bounds)
  ultimately show ?thesis
    using assms(2,4) h(2) map_content [OF h(1)]
    by (auto simp: stored_map stdmap.find_put stdmap.ok_put mark_id mark_validate)
qed

text \<open>Publishing an accepted record once more is recognised as a duplicate.\<close>

lemma register_again:
  assumes "register_structural K extra limit clock ctx record ob = (Inr ir, ob1)"
    and "ir_disposition ir = IngestDisposition_Applied"
    and "check_authority ctx2 ob1 = (Inr (r, d), ob2)"
  shows "\<exists>ir2 ob3. register_structural K extra limit clock2 ctx2 record ob1 = (Inr ir2, ob3) \<and>
     ir_disposition ir2 = IngestDisposition_Duplicate \<and> same_content ob1 ob3"
proof -
  have c: "same_content (stored_as K clock ctx record ob) ob1" "sk_validate K record = Success" "extra ob record = Success"
    using register_cases [OF assms(1)] assms(2) by auto
  have "extra ob1 record = Success"
    using extra_content [OF c(1)] c(3) by (simp add: stored_as_def extra_next extra_set)
  moreover have "smap_find (sk_map K ob1) (sk_id K record) = Some (sk_mark_current K (stamp_for (clock 0) ctx) record)"
    using map_content [OF c(1)] by (simp add: stored_map stdmap.find_put)
  ultimately have "register_structural K extra limit clock2 ctx2 record ob1 =
      finish (clock2 1) ctx2 r IngestDisposition_Duplicate
        (''identical '' @ sk_label K @ '' re-publication was suppressed'') ob1"
    using assms(3) c(2) check_authority_Inr [OF assms(3)]
    by (simp add: register_structural_def with_authority_def mark_digest)
  then show ?thesis
    by (metis finish_Inr surj_pair)
qed

end

section \<open>Every kind of record satisfies the contract\<close>

interpretation federation_reg: structural_kind federation_kind no_extra_check max_federations
  by unfold_locales
     (simp_all add: federation_kind_def same_contentD FederationRecord_validate_def published_digest_federation_def )

interpretation site_reg: structural_kind site_kind site_extra max_sites
  by unfold_locales
     (simp_all add: site_kind_def same_contentD SiteRecord_validate_def published_digest_site_def site_extra_def unregistered_def)

interpretation accelerator_class_reg: structural_kind accelerator_class_kind no_extra_check max_accelerator_classes
  by unfold_locales
     (simp_all add: accelerator_class_kind_def same_contentD AcceleratorClassRecord_validate_def published_digest_accelerator_class_def )

interpretation runtime_reg: structural_kind runtime_kind no_extra_check max_runtimes
  by unfold_locales
     (simp_all add: runtime_kind_def same_contentD RuntimeRecord_validate_def published_digest_runtime_def )

interpretation backend_reg: structural_kind backend_kind backend_extra max_backends
  by unfold_locales
     (simp_all add: backend_kind_def same_contentD BackendRecord_validate_def published_digest_backend_def backend_extra_def unregistered_def)

interpretation domain_reg: structural_kind domain_kind domain_extra max_domains
  by unfold_locales
     (simp_all add: domain_kind_def same_contentD DomainRecord_validate_def published_digest_domain_def domain_extra_def unregistered_def)

interpretation policy_reg: structural_kind policy_kind no_extra_check max_policies
  by unfold_locales
     (simp_all add: policy_kind_def same_contentD PolicyRecord_validate_def published_digest_policy_def )

interpretation artifact_reg: structural_kind artifact_kind no_extra_check max_artifacts
  by unfold_locales
     (simp_all add: artifact_kind_def same_contentD ArtifactRecord_validate_def published_digest_artifact_def )

interpretation workload_class_reg: structural_kind workload_class_kind no_extra_check max_workload_classes
  by unfold_locales
     (simp_all add: workload_class_kind_def same_contentD WorkloadClassRecord_validate_def published_digest_workload_class_def )

interpretation workload_reg: structural_kind workload_kind workload_extra max_workloads
  by unfold_locales
     (simp_all add: workload_kind_def same_contentD WorkloadRecord_validate_def published_digest_workload_def workload_extra_def unregistered_def)

interpretation cluster_reg: structural_kind cluster_kind cluster_extra max_clusters
  by unfold_locales
     (simp_all add: cluster_kind_def same_contentD ClusterRecord_validate_def published_digest_cluster_def cluster_extra_def unregistered_def)

section \<open>Every registration passes the gate\<close>

interpretation federation_gate: gated_operation "\<lambda>ctx. register_federation clock ctx incoming" for clock incoming
  unfolding register_federation_def by (rule federation_reg.register_gated)

interpretation site_gate: gated_operation "\<lambda>ctx. register_site clock ctx incoming" for clock incoming
  unfolding register_site_def by (rule site_reg.register_gated)

interpretation accelerator_class_gate: gated_operation "\<lambda>ctx. register_accelerator_class clock ctx incoming" for clock incoming
  unfolding register_accelerator_class_def by (rule accelerator_class_reg.register_gated)

interpretation runtime_gate: gated_operation "\<lambda>ctx. register_runtime clock ctx incoming" for clock incoming
  unfolding register_runtime_def by (rule runtime_reg.register_gated)

interpretation backend_gate: gated_operation "\<lambda>ctx. register_backend clock ctx incoming" for clock incoming
  unfolding register_backend_def by (rule backend_reg.register_gated)

interpretation domain_gate: gated_operation "\<lambda>ctx. register_domain clock ctx incoming" for clock incoming
  unfolding register_domain_def by (rule domain_reg.register_gated)

interpretation policy_gate: gated_operation "\<lambda>ctx. register_policy clock ctx incoming" for clock incoming
  unfolding register_policy_def by (rule policy_reg.register_gated)

interpretation artifact_gate: gated_operation "\<lambda>ctx. register_artifact clock ctx incoming" for clock incoming
  unfolding register_artifact_def by (rule artifact_reg.register_gated)

interpretation workload_class_gate: gated_operation "\<lambda>ctx. register_workload_class clock ctx incoming" for clock incoming
  unfolding register_workload_class_def by (rule workload_class_reg.register_gated)

interpretation workload_gate: gated_operation "\<lambda>ctx. register_workload clock ctx incoming" for clock incoming
  unfolding register_workload_def by (rule workload_reg.register_gated)

text \<open>What \<open>register_cluster\<close> adds to the registration.\<close>

lemma register_cluster_cases:
  assumes "register_cluster clock ctx record ob = (res, ob2)"
  obtains ob1 where "register_structural cluster_kind cluster_extra max_clusters clock ctx record ob = (res, ob1)"
    and "ob2 = ob1 \<or> (\<exists>r previous. smap_find (ob_clusters ob1) (clr_id record) = Some r \<and>
       (\<exists>ir. res = Inr ir \<and> ir_disposition ir = IngestDisposition_Applied) \<and>
       ob2 = next_snapshot (ob1\<lparr>ob_clusters :=
         smap_put (clr_id record) (clear_dynamic previous (clr_generation record) r) (ob_clusters ob1)\<rparr>))"
proof (cases "register_structural cluster_kind cluster_extra max_clusters clock ctx record ob")
  case (Pair res1 ob1)
  with assms that show thesis
    unfolding register_cluster_def Let_def
    by (auto split: if_splits option.splits sum.splits)
qed

lemma settles_cong:
  "settles ctx r ob (res, ob1) \<Longrightarrow> ob_publishers ob2 = ob_publishers ob1 \<Longrightarrow> ob_bounds ob2 = ob_bounds ob1 \<Longrightarrow>
     ob_coordinator_epoch ob2 = ob_coordinator_epoch ob1 \<Longrightarrow> settles ctx r ob (res, ob2)"
  by (simp add: settles_def)

interpretation cluster_gate: gated_operation "\<lambda>ctx. register_cluster clock ctx incoming" for clock incoming
proof
  fix ctx ob e ob' assume "check_authority ctx ob = (Inl e, ob')"
  from gated_operation.gate_closed [OF cluster_reg.register_gated this]
  show "register_cluster clock ctx incoming ob = (Inl e, ob')"
    by (auto simp: register_cluster_def Let_def)
next
  fix ctx ob r d ob' assume gate: "check_authority ctx ob = (Inr (r, d), ob')"
  obtain res ob2 where out: "register_cluster clock ctx incoming ob = (res, ob2)" by fastforce
  then obtain ob1 where "register_structural cluster_kind cluster_extra max_clusters clock ctx incoming ob = (res, ob1)"
    and "ob_publishers ob2 = ob_publishers ob1" "ob_bounds ob2 = ob_bounds ob1"
        "ob_coordinator_epoch ob2 = ob_coordinator_epoch ob1"
    by (rule register_cluster_cases) auto
  with gated_operation.gate_open [OF cluster_reg.register_gated gate]
  show "settles ctx r ob (register_cluster clock ctx incoming ob)"
    unfolding out by (metis settles_cong)
qed

interpretation retire_gate: gated_operation "retire_cluster clock cluster generation reason"
  for clock cluster generation reason
  unfolding retire_cluster_def
  by (rule with_authority_gated, unfold Let_def, intro fo_settles) simp_all

end
