(* ===== verification/FO_Publish.thy ===== *)
theory FO_Publish
  imports FO_Registry
begin

text \<open>
  The dynamic publications (\<open>observatory.cpp\<close>): capability and capacity of a cluster, placements,
  migrations, migration stages and portability assessments.
\<close>

section \<open>Capability\<close>

definition CapabilityEntry_eq :: "CapabilityEntry \<Rightarrow> CapabilityEntry \<Rightarrow> bool" where
  "CapabilityEntry_eq a b =
     (ce_key a = ce_key b \<and> CapabilityValue_eq (ce_value a) (ce_value b) \<and>
      ce_precision a = ce_precision b \<and> ce_evidence_class a = ce_evidence_class b \<and>
      ce_generation a = ce_generation b \<and> ce_note a = ce_note b)"

definition raise_generation :: "ClusterGeneration \<Rightarrow> ClusterRecord \<Rightarrow> ClusterRecord" where
  "raise_generation cluster_generation r =
     (if is_set cluster_generation \<and> newer_than cluster_generation (clr_generation r)
      then r\<lparr>clr_generation := cluster_generation\<rparr> else r)"

definition put_cluster :: "ClusterId \<Rightarrow> ClusterRecord \<Rightarrow> Observatory \<Rightarrow> Observatory" where
  "put_cluster k r ob = ob\<lparr>ob_clusters := smap_put k r (ob_clusters ob)\<rparr>"

text \<open>The federation named by the context, checked before the publication itself.\<close>

definition with_federation ::
  "PublicationContext \<Rightarrow> authority_ref \<Rightarrow> Observatory \<Rightarrow> outcome \<Rightarrow> outcome" where
  "with_federation ctx authority ob continue =
     (case check_federation ctx ob of
        Failure e \<Rightarrow> refuse (error_code e) (error_message e) (Some authority) False ob
      | Success \<Rightarrow> continue)"

definition publish_capability ::
  "clock \<Rightarrow> ClusterId \<Rightarrow> ClusterGeneration \<Rightarrow> AcceleratorCapabilityGeneration \<Rightarrow> CapabilitySet \<Rightarrow>
     PublicationContext \<Rightarrow> Observatory \<Rightarrow> outcome" where
  "publish_capability clock cluster cluster_generation capability_generation capabilities ctx ob =
     with_authority ctx ob (\<lambda>authority duplicate_sequence ob.
     with_federation ctx authority ob
      (case smap_find (ob_clusters ob) cluster of
         None \<Rightarrow> refuse NotFound ''cluster is not registered'' (Some authority) False ob
       | Some r \<Rightarrow>
           if clr_currentness r = Currentness_Retired then
             refuse Conflict ''cluster is retired and cannot receive evidence'' (Some authority) False ob
           else if \<not> is_set capability_generation then
             refuse InvalidArgument ''capability publication requires a capability generation''
               (Some authority) False ob
           else if is_set cluster_generation \<and> older_than cluster_generation (clr_generation r) then
             refuse StaleGeneration
               (''capability publication targets cluster generation '' @ gen_to_string cluster_generation @
                '' but the current generation is '' @ gen_to_string (clr_generation r)) (Some authority) False ob
           else if older_than capability_generation (clr_capability_generation r) then
             refuse StaleGeneration
               (''capability generation '' @ gen_to_string capability_generation @
                '' is older than the published capability generation '' @
                gen_to_string (clr_capability_generation r)) (Some authority) False ob
           else if capability_generation = clr_capability_generation r \<and>
                   cset_entries (clr_capabilities r) \<noteq> [] then
             (if list_all2 CapabilityEntry_eq (cset_entries (clr_capabilities r)) (cset_entries capabilities) then
                finish (clock 1) ctx authority IngestDisposition_Duplicate
                  ''identical capability publication for the same generation'' ob
              else
                refuse Conflict
                  (''capability content changed without advancing the capability generation; a '' @
                   ''capability change must be published under a new generation so that dependent '' @
                   ''conclusions can be invalidated'') (Some authority) False ob)
           else
             let r1 = raise_generation cluster_generation r
             in if list_ex (\<lambda>entry. \<not> CapabilityRef_valid (ce_key entry)) (cset_entries capabilities) then
                  refuse InvalidArgument ''capability key is not valid'' (Some authority) False
                    (put_cluster cluster r1 ob)
                else
                  finish (clock 1) ctx authority IngestDisposition_Applied []
                    (next_snapshot (put_cluster cluster
                      (r1\<lparr>clr_capabilities := capabilities,
                          clr_capability_generation := capability_generation,
                          clr_evidence_generation := ctx_evidence_generation ctx,
                          clr_currentness := Currentness_Current,
                          clr_stamp := stamp_for (clock 0) ctx\<rparr>) ob))))"

section \<open>Capacity\<close>

definition capacity_pool_refusal :: "Observatory \<Rightarrow> CapacityPool \<Rightarrow> Status" where
  "capacity_pool_refusal ob pool =
     checks
       [refuse_if (id_empty (cp_pool_id pool)) InvalidArgument ''capacity pool has no identifier'' [],
        (case CapacityLedger_validate (cp_ledger pool) of
           Success \<Rightarrow> Success
         | Failure e \<Rightarrow> fail CapacityInconsistent
             (''capacity pool '' @ id_value (cp_pool_id pool) @ '' does not satisfy the accounting '' @
              ''identity: '' @ error_message e) []),
        refuse_if (cp_kind pool = ResourceKind_Accelerator \<and> id_empty (cp_accelerator_class pool)) InvalidArgument
          (''accelerator pool '' @ id_value (cp_pool_id pool) @ '' names no accelerator class'') [],
        refuse_if (\<not> id_empty (cp_accelerator_class pool) \<and>
                   unregistered (ob_accelerator_classes ob) (cp_accelerator_class pool)) NotFound
          ''capacity pool references an unregistered accelerator class'' []]"

definition accept_pool ::
  "PublicationContext \<Rightarrow> Bounds \<Rightarrow> CapacityGeneration \<Rightarrow> CapacityPool \<Rightarrow> CapacityPool" where
  "accept_pool ctx bounds capacity_generation pool =
     pool\<lparr>cp_precision := ctx_precision ctx, cp_evidence_class := ctx_evidence_class ctx,
          cp_generation := (if is_set (cp_generation pool) then cp_generation pool else capacity_generation),
          cp_evidence := snd (EvidenceList_add_fields (ctx_provenance ctx) (ctx_evidence_class ctx)
            (id_value (ctx_publisher ctx)) (ctx_precision ctx)
            (''capacity published under generation '' @ gen_to_string capacity_generation)
            ((cp_evidence pool)\<lparr>el_limit := max_evidence_per_finding bounds\<rparr>))\<rparr>"

definition nominal_total :: "CapacityPool list \<Rightarrow> u64 option" where
  "nominal_total pools = checked_sum_from 0 (map (\<lambda>p. cl_nominal (cp_ledger p)) pools)"

definition same_pools :: "CapacityPool list \<Rightarrow> CapacityPool list \<Rightarrow> bool" where
  "same_pools stored incoming =
     (nominal_total stored \<noteq> None \<and> nominal_total stored = nominal_total incoming \<and>
      length stored = length incoming \<and>
      list_all2 CapacityPool_eq (stable_sort CapacityPool_less incoming) (stable_sort CapacityPool_less stored))"

definition publish_capacity ::
  "clock \<Rightarrow> ClusterId \<Rightarrow> ClusterGeneration \<Rightarrow> CapacityGeneration \<Rightarrow> CapacityPool list \<Rightarrow>
     PublicationContext \<Rightarrow> Observatory \<Rightarrow> outcome" where
  "publish_capacity clock cluster cluster_generation capacity_generation pools ctx ob =
     with_authority ctx ob (\<lambda>authority duplicate_sequence ob.
     with_federation ctx authority ob
      (case smap_find (ob_clusters ob) cluster of
         None \<Rightarrow> refuse NotFound ''cluster is not registered'' (Some authority) False ob
       | Some r \<Rightarrow>
           if clr_currentness r = Currentness_Retired then
             refuse Conflict ''cluster is retired and cannot receive evidence'' (Some authority) False ob
           else if \<not> is_set capacity_generation then
             refuse InvalidArgument ''capacity publication requires a capacity generation'' (Some authority) False ob
           else if length pools > kMaxPoolsPerCluster then
             refuse BoundExceeded ''capacity publication carries too many pools'' (Some authority) False
               (count_bounds_rejection ob)
           else if is_set cluster_generation \<and> older_than cluster_generation (clr_generation r) then
             refuse StaleGeneration
               (''capacity publication targets cluster generation '' @ gen_to_string cluster_generation @
                '' but the current generation is '' @ gen_to_string (clr_generation r)) (Some authority) False ob
           else if older_than capacity_generation (clr_capacity_generation r) then
             refuse StaleGeneration
               (''capacity generation '' @ gen_to_string capacity_generation @
                '' is older than the published capacity generation '' @
                gen_to_string (clr_capacity_generation r)) (Some authority) False ob
           else
             (case first_failure (capacity_pool_refusal ob) pools of
                Failure e \<Rightarrow> refuse (error_code e) (error_message e) (Some authority) False ob
              | Success \<Rightarrow>
                  if has_duplicates (map cp_pool_id pools) then
                    refuse InvalidArgument ''capacity publication repeats a pool identifier'' (Some authority) False ob
                  else if nominal_total pools = None then
                    refuse CapacityInconsistent ''capacity total overflowed'' (Some authority) False ob
                  else if capacity_generation = clr_capacity_generation r \<and> clr_capacity_pools r \<noteq> [] then
                    (if same_pools (clr_capacity_pools r) pools then
                       finish (clock 1) ctx authority IngestDisposition_Duplicate
                         ''identical capacity publication for the same generation'' ob
                     else
                       refuse Conflict
                         (''capacity content changed without advancing the capacity generation; a capacity '' @
                          ''change must be published under a new generation so that stranded-capacity '' @
                          ''conclusions can be recomputed rather than quietly invalidated'')
                         (Some authority) False ob)
                  else
                    finish (clock 1) ctx authority IngestDisposition_Applied []
                      (next_snapshot (put_cluster cluster
                        ((raise_generation cluster_generation r)
                           \<lparr>clr_capacity_pools := stable_sort CapacityPool_less
                              (map (accept_pool ctx (ob_bounds ob) capacity_generation) pools),
                            clr_capacity_generation := capacity_generation,
                            clr_evidence_generation := ctx_evidence_generation ctx,
                            clr_currentness := Currentness_Current,
                            clr_stamp := stamp_for (clock 0) ctx\<rparr>) ob)))))"

section \<open>Placements\<close>

definition published_digest_placement :: "PlacementRecord \<Rightarrow> string" where
  "published_digest_placement r =
     digest_placement (r\<lparr>plr_currentness := Currentness_Unknown, plr_stamp := ObservationStamp_init,
       plr_evidence := no_evidence\<rparr>)"

text \<open>Whether the latest placement of the workload is newer than the one being published.\<close>

definition newer_placement_exists :: "Observatory \<Rightarrow> PlacementRecord \<Rightarrow> bool" where
  "newer_placement_exists ob r =
     (case smap_find (ob_latest_placement ob) (plr_workload r) of
        None \<Rightarrow> False
      | Some latest \<Rightarrow>
          (case smap_find (ob_placements ob) latest of
             None \<Rightarrow> False
           | Some stored \<Rightarrow>
               os_observed_at (plr_stamp stored) > os_observed_at (plr_stamp r) \<or>
               (os_observed_at (plr_stamp stored) = os_observed_at (plr_stamp r) \<and>
                newer_than (plr_generation stored) (plr_generation r))))"

definition store_placement :: "clock \<Rightarrow> PublicationContext \<Rightarrow> PlacementRecord \<Rightarrow> bool \<Rightarrow> Observatory \<Rightarrow> Observatory" where
  "store_placement clock ctx r supersedes_latest ob =
     (let r1 = r\<lparr>plr_stamp := stamp_for (clock 0) ctx,
                 plr_currentness := (if supersedes_latest then Currentness_Stale else Currentness_Current),
                 plr_evidence := snd (EvidenceList_add_fields (ctx_provenance ctx) (ctx_evidence_class ctx)
                   (id_value (ctx_publisher ctx)) (ctx_precision ctx)
                   (if supersedes_latest
                    then ''placement retained as history; a newer placement already exists for this workload''
                    else ''placement accepted as the current placement for this workload generation'')
                   (plr_evidence r))\<rparr>;
          s = ob_stats ob
      in next_snapshot (ob
           \<lparr>ob_placements := smap_put (plr_id r) r1 (ob_placements ob),
            ob_latest_placement :=
              (if supersedes_latest then smap_emplace (plr_workload r) (plr_id r) (ob_latest_placement ob)
               else smap_put (plr_workload r) (plr_id r) (ob_latest_placement ob)),
            ob_stats := s\<lparr>stat_placements_recorded := stat_placements_recorded s + 1\<rparr>\<rparr>))"

definition publish_placement :: "clock \<Rightarrow> PlacementRecord \<Rightarrow> PublicationContext \<Rightarrow> Observatory \<Rightarrow> outcome" where
  "publish_placement clock r ctx ob =
     with_authority ctx ob (\<lambda>authority duplicate_sequence ob.
     with_federation ctx authority ob
      (case PlacementRecord_validate r of
         Failure e \<Rightarrow> refuse_status e authority ob
       | Success \<Rightarrow>
           if plr_federation r \<noteq> ctx_federation ctx then
             refuse InvalidArgument
               (''placement names federation '' @ id_value (plr_federation r) @ '' but was published under '' @
                id_value (ctx_federation ctx)) (Some authority) False ob
           else if unregistered (ob_workloads ob) (plr_workload r) then
             refuse NotFound ''placement references an unregistered workload'' (Some authority) False ob
           else if unregistered (ob_clusters ob) (plr_selected r) then
             refuse NotFound ''placement references an unregistered cluster'' (Some authority) False ob
           else if list_ex (\<lambda>c. unregistered (ob_clusters ob) (co_cluster c)) (plr_candidates r) then
             refuse NotFound ''placement candidate references an unregistered cluster'' (Some authority) False ob
           else
             let existing = smap_find (ob_placements ob) (plr_id r)
             in if (case existing of None \<Rightarrow> False
                    | Some stored \<Rightarrow> published_digest_placement stored = published_digest_placement r) then
                  finish (clock 1) ctx authority IngestDisposition_Duplicate
                    ''identical placement re-publication was suppressed'' ob
                else if duplicate_sequence then
                  refuse Conflict
                    (''sequence '' @ seq_to_string (ctx_sequence ctx) @
                     '' was already accepted with different placement content'') (Some authority) False ob
                else if (case existing of None \<Rightarrow> False
                         | Some stored \<Rightarrow> newer_than (plr_generation stored) (plr_generation r)) then
                  finish (clock 1) ctx authority IngestDisposition_Superseded
                    (''stored placement generation '' @
                     (case existing of None \<Rightarrow> [] | Some stored \<Rightarrow> gen_to_string (plr_generation stored)) @
                     '' is newer than the published generation '' @ gen_to_string (plr_generation r) @
                     ''; the newer record was not overwritten'') ob
                else if (case existing of None \<Rightarrow> False
                         | Some stored \<Rightarrow> plr_generation stored = plr_generation r) then
                  refuse Conflict ''placement content changed without advancing the placement generation''
                    (Some authority) False ob
                else if smap_size (ob_placements ob) \<ge> max_placement_history (ob_bounds ob) then
                  refuse BoundExceeded ''placement history bound is exhausted'' (Some authority) False
                    (count_bounds_rejection ob)
                else
                  let supersedes_latest = newer_placement_exists ob r
                  in finish (clock 1) ctx authority
                       (if supersedes_latest then IngestDisposition_Superseded else IngestDisposition_Applied)
                       (if supersedes_latest
                        then ''placement stored as history; the newer placement remains current'' else [])
                       (store_placement clock ctx r supersedes_latest ob)))"

section \<open>Migrations\<close>

definition published_digest_migration :: "MigrationRecord \<Rightarrow> string" where
  "published_digest_migration r =
     digest_migration (r\<lparr>mr_currentness := Currentness_Unknown, mr_stamp := ObservationStamp_init,
       mr_evidence := no_evidence\<rparr>)"

definition store_migration :: "clock \<Rightarrow> PublicationContext \<Rightarrow> MigrationRecord \<Rightarrow> Observatory \<Rightarrow> Observatory" where
  "store_migration clock ctx r ob =
     (let r1 = r\<lparr>mr_stamp := stamp_for (clock 0) ctx, mr_currentness := Currentness_Current\<rparr>;
          m1 = smap_put (mr_id r) r1 (ob_migrations ob);
          m2 = (if id_empty (mr_supersedes r) then m1
                else case smap_find m1 (mr_supersedes r) of
                       None \<Rightarrow> m1
                     | Some previous \<Rightarrow>
                         if mr_currentness previous = Currentness_Current
                         then smap_put (mr_supersedes r) (previous\<lparr>mr_currentness := Currentness_Stale\<rparr>) m1
                         else m1);
          s = ob_stats ob
      in next_snapshot (ob
           \<lparr>ob_migrations := m2,
            ob_superseded_migrations :=
              (if id_empty (mr_supersedes r) then ob_superseded_migrations ob
               else smap_put (mr_workload r) (mr_supersedes r) (ob_superseded_migrations ob)),
            ob_latest_migration := smap_put (mr_workload r) (mr_id r) (ob_latest_migration ob),
            ob_stats := s\<lparr>stat_migrations_recorded := stat_migrations_recorded s + 1\<rparr>\<rparr>))"

definition publish_migration :: "clock \<Rightarrow> MigrationRecord \<Rightarrow> PublicationContext \<Rightarrow> Observatory \<Rightarrow> outcome" where
  "publish_migration clock r ctx ob =
     with_authority ctx ob (\<lambda>authority duplicate_sequence ob.
     with_federation ctx authority ob
      (case MigrationRecord_validate r of
         Failure e \<Rightarrow> refuse_status e authority ob
       | Success \<Rightarrow>
           if mr_federation r \<noteq> ctx_federation ctx then
             refuse InvalidArgument ''migration names a different federation than the publication context''
               (Some authority) False ob
           else if unregistered (ob_workloads ob) (mr_workload r) then
             refuse NotFound ''migration references an unregistered workload'' (Some authority) False ob
           else if unregistered (ob_clusters ob) (mr_source r) \<or> unregistered (ob_clusters ob) (mr_destination r) then
             refuse NotFound ''migration references an unregistered cluster'' (Some authority) False ob
           else
             let existing = smap_find (ob_migrations ob) (mr_id r)
             in if (case existing of None \<Rightarrow> False
                    | Some stored \<Rightarrow> published_digest_migration stored = published_digest_migration r) then
                  finish (clock 1) ctx authority IngestDisposition_Duplicate
                    ''identical migration re-publication was suppressed'' ob
                else if duplicate_sequence then
                  refuse Conflict
                    (''sequence '' @ seq_to_string (ctx_sequence ctx) @
                     '' was already accepted with different migration content'') (Some authority) False ob
                else if (case existing of None \<Rightarrow> False
                         | Some stored \<Rightarrow> newer_than (mr_generation stored) (mr_generation r)) then
                  finish (clock 1) ctx authority IngestDisposition_Superseded
                    (''stored migration generation '' @
                     (case existing of None \<Rightarrow> [] | Some stored \<Rightarrow> gen_to_string (mr_generation stored)) @
                     '' is newer than the published generation '' @ gen_to_string (mr_generation r)) ob
                else if (case existing of None \<Rightarrow> False
                         | Some stored \<Rightarrow> mr_generation stored = mr_generation r) then
                  refuse Conflict ''migration content changed without advancing the migration generation''
                    (Some authority) False ob
                else if smap_size (ob_migrations ob) \<ge> max_migration_history (ob_bounds ob) then
                  refuse BoundExceeded ''migration history bound is exhausted'' (Some authority) False
                    (count_bounds_rejection ob)
                else finish (clock 1) ctx authority IngestDisposition_Applied [] (store_migration clock ctx r ob)))"

fun outcome_after :: "MigrationStage \<Rightarrow> MigrationRecord \<Rightarrow> MigrationRecord" where
  "outcome_after MigrationStage_Committed r = r\<lparr>mr_outcome := MigrationOutcome_Committed\<rparr>"
| "outcome_after MigrationStage_RolledBack r = r\<lparr>mr_outcome := MigrationOutcome_RolledBack\<rparr>"
| "outcome_after MigrationStage_Failed r = r\<lparr>mr_outcome := MigrationOutcome_Failed\<rparr>"
| "outcome_after MigrationStage_OutcomeUnknown r = r\<lparr>mr_outcome := MigrationOutcome_Unknown\<rparr>"
| "outcome_after MigrationStage_RevalidationRequired r = r\<lparr>mr_revalidation_pending := True\<rparr>"
| "outcome_after _ r = r\<lparr>mr_outcome := MigrationOutcome_InProgress\<rparr>"

text \<open>The record with one more stage event.\<close>

definition append_stage ::
  "clock \<Rightarrow> PublicationContext \<Rightarrow> MigrationGeneration \<Rightarrow> MigrationStage \<Rightarrow> string \<Rightarrow> MigrationRecord \<Rightarrow> MigrationRecord" where
  "append_stage clock ctx generation stage detail r =
     (let event = \<lparr>mse_generation = generation, mse_stage = stage, mse_sequence = ctx_sequence ctx,
                   mse_observed_at = read_time (clock 0) ctx, mse_precision = ctx_precision ctx,
                   mse_evidence_class = ctx_evidence_class ctx, mse_detail = detail\<rparr>
      in (outcome_after stage (r\<lparr>mr_stage_events := mr_stage_events r @ [event], mr_stage := stage\<rparr>))
           \<lparr>mr_stamp := stamp_for (clock 1) ctx, mr_currentness := Currentness_Current\<rparr>)"

definition publish_migration_stage ::
  "clock \<Rightarrow> MigrationId \<Rightarrow> MigrationGeneration \<Rightarrow> MigrationStage \<Rightarrow> string \<Rightarrow>
     PublicationContext \<Rightarrow> Observatory \<Rightarrow> outcome" where
  "publish_migration_stage clock migration generation stage detail ctx ob =
     with_authority ctx ob (\<lambda>authority duplicate_sequence ob.
       case smap_find (ob_migrations ob) migration of
         None \<Rightarrow> refuse NotFound ''migration is not registered'' (Some authority) False ob
       | Some r \<Rightarrow>
           if \<not> is_set generation then
             refuse InvalidArgument ''migration stage event requires a generation'' (Some authority) False ob
           else if older_than generation (mr_generation r) then
             refuse StaleGeneration
               (''stage event carries migration generation '' @ gen_to_string generation @
                '' which is older than the current migration generation '' @ gen_to_string (mr_generation r) @
                ''; late events from a superseded generation are refused'') (Some authority) False ob
           else if newer_than generation (mr_generation r) then
             refuse InvalidArgument
               (''stage event carries migration generation '' @ gen_to_string generation @
                '' which has not been registered for this migration'') (Some authority) False ob
           else if mr_currentness r = Currentness_Retired then
             refuse Conflict ''migration is retired'' (Some authority) False ob
           else if smap_find (ob_superseded_migrations ob) (mr_workload r) = Some migration then
             refuse StaleGeneration ''this migration was superseded and no longer accepts stage events''
               (Some authority) False ob
           else if (case last_event r of None \<Rightarrow> False | Some l \<Rightarrow> ctx_sequence ctx \<le> mse_sequence l) then
             refuse SequenceRegression
               (''stage event sequence '' @ seq_to_string (ctx_sequence ctx) @
                '' does not follow the last recorded sequence '' @
                (case last_event r of None \<Rightarrow> [] | Some l \<Rightarrow> seq_to_string (mse_sequence l)))
               (Some authority) False (count_regression ob)
           else if \<not> is_acceptable_migration_event (mr_stage r) stage then
             refuse InvalidTransition
               (''illegal migration stage transition '' @ MigrationStage_to_string (mr_stage r) @ '' -> '' @
                MigrationStage_to_string stage) (Some authority) False ob
           else if is_terminal_stage (mr_stage r) then
             (if mr_stage r = stage then
                finish (clock 2) ctx authority IngestDisposition_Duplicate
                  ''terminal migration stage re-published; the commit is recorded once'' ob
              else
                refuse InvalidTransition
                  (''migration is already terminal at stage '' @ MigrationStage_to_string (mr_stage r))
                  (Some authority) False ob)
           else if length (mr_stage_events r) \<ge> kMaxStageEventsPerMigration then
             refuse BoundExceeded ''migration stage history bound is exhausted'' (Some authority) False
               (count_bounds_rejection ob)
           else
             finish (clock 2) ctx authority IngestDisposition_Applied []
               (next_snapshot (ob\<lparr>ob_migrations :=
                  smap_put migration (append_stage clock ctx generation stage detail r) (ob_migrations ob)\<rparr>)))"

section \<open>Portability\<close>

definition publish_portability ::
  "clock \<Rightarrow> PortabilityAssessment \<Rightarrow> PublicationContext \<Rightarrow> Observatory \<Rightarrow> outcome" where
  "publish_portability clock r ctx ob =
     with_authority ctx ob (\<lambda>authority duplicate_sequence ob.
       case PortabilityAssessment_validate r of
         Failure e \<Rightarrow> refuse_status e authority ob
       | Success \<Rightarrow>
           if unregistered (ob_workloads ob) (pa_workload r) then
             refuse NotFound ''portability record references an unregistered workload'' (Some authority) False ob
           else if unregistered (ob_clusters ob) (pa_destination r) then
             refuse NotFound ''portability record references an unregistered destination cluster''
               (Some authority) False ob
           else
             let key = (pa_workload r, pa_destination r);
                 existing = smap_find (ob_portability ob) key
             in if (case existing of None \<Rightarrow> False
                    | Some stored \<Rightarrow> PortabilityAssessment_digest r = PortabilityAssessment_digest stored) then
                  finish (clock 1) ctx authority IngestDisposition_Duplicate
                    ''identical portability assessment was suppressed'' ob
                else if (case existing of None \<Rightarrow> False
                         | Some stored \<Rightarrow>
                             os_observed_at (pa_stamp stored) > os_observed_at (pa_stamp r) \<or>
                             (os_observed_at (pa_stamp stored) = os_observed_at (pa_stamp r) \<and>
                              os_sequence (pa_stamp stored) > ctx_sequence ctx)) then
                  finish (clock 1) ctx authority IngestDisposition_Superseded
                    ''a newer portability assessment is already stored for this pair'' ob
                else if smap_size (ob_portability ob) \<ge> max_portability_records (ob_bounds ob) \<and> existing = None then
                  refuse BoundExceeded ''portability record bound is exhausted'' (Some authority) False
                    (count_bounds_rejection ob)
                else
                  finish (clock 1) ctx authority IngestDisposition_Applied []
                    (next_snapshot (ob\<lparr>ob_portability := smap_put key
                      (r\<lparr>pa_stamp := stamp_for (clock 0) ctx, pa_currentness := Currentness_Current,
                         pa_federation := (if id_empty (pa_federation r) then ctx_federation ctx else pa_federation r)\<rparr>)
                      (ob_portability ob)\<rparr>)))"

section \<open>Every publication passes the gate\<close>

lemma settles_federation [fo_settles]:
  "settles ctx r ob x \<Longrightarrow> settles ctx r ob (with_federation ctx r ob x)"
  unfolding with_federation_def by (intro fo_settles) simp_all

lemma store_frames [simp]:
  "ob_publishers (put_cluster k r ob) = ob_publishers ob"
  "ob_bounds (put_cluster k r ob) = ob_bounds ob"
  "ob_coordinator_epoch (put_cluster k r ob) = ob_coordinator_epoch ob"
  "ob_publishers (store_placement clock ctx p b ob) = ob_publishers ob"
  "ob_bounds (store_placement clock ctx p b ob) = ob_bounds ob"
  "ob_coordinator_epoch (store_placement clock ctx p b ob) = ob_coordinator_epoch ob"
  "ob_publishers (store_migration clock ctx m ob) = ob_publishers ob"
  "ob_bounds (store_migration clock ctx m ob) = ob_bounds ob"
  "ob_coordinator_epoch (store_migration clock ctx m ob) = ob_coordinator_epoch ob"
  by (simp_all add: put_cluster_def store_placement_def store_migration_def Let_def)

interpretation capability_gate: gated_operation
  "publish_capability clock cluster cluster_generation capability_generation capabilities"
  for clock cluster cluster_generation capability_generation capabilities
  unfolding publish_capability_def
  by (rule with_authority_gated, unfold Let_def, intro fo_settles) simp_all

interpretation capacity_gate: gated_operation
  "publish_capacity clock cluster cluster_generation capacity_generation pools"
  for clock cluster cluster_generation capacity_generation pools
  unfolding publish_capacity_def by (rule with_authority_gated, intro fo_settles) simp_all

interpretation placement_gate: gated_operation "publish_placement clock r" for clock r
  unfolding publish_placement_def
  by (rule with_authority_gated, unfold Let_def refuse_status_def, intro fo_settles) simp_all

interpretation migration_gate: gated_operation "publish_migration clock r" for clock r
  unfolding publish_migration_def
  by (rule with_authority_gated, unfold Let_def refuse_status_def, intro fo_settles) simp_all

interpretation stage_gate: gated_operation "publish_migration_stage clock migration generation stage detail"
  for clock migration generation stage detail
  unfolding publish_migration_stage_def by (rule with_authority_gated, intro fo_settles) simp_all

interpretation portability_gate: gated_operation "publish_portability clock r" for clock r
  unfolding publish_portability_def
  by (rule with_authority_gated, unfold Let_def refuse_status_def, intro fo_settles) simp_all

end
