(* ===== verification/FO_Durable.thy ===== *)
theory FO_Durable
  imports FO_Publish
begin

text \<open>
  Durable state (\<open>state_store.hpp\<close>, \<open>state_store.cpp\<close>, and the durable part of \<open>observatory.cpp\<close>): what
  the engine remembers across a restart, its validation, the shape it is brought into before it is
  written, the checksummed file image, and how the engine captures and restores it.

  \<open>std::sort\<close> orders placements and migrations by age and then identifier, watermarks by identity: total
  orders where identifiers are unique, as \<open>DurableState::validate\<close> demands. Findings with equal keys may be
  written in either order by the source; here they keep theirs.
\<close>

section \<open>State\<close>

definition kStateMagic :: string where
  "kStateMagic = ''FOSTATE1''"

definition kStateFormatVersion :: u32 where
  "kStateFormatVersion = 1"

definition kStateHeaderSize :: nat where
  "kStateHeaderSize = 48"

definition kStateFlagsNone :: u32 where
  "kStateFlagsNone = 0"

record PublisherWatermark =
  pwm_publisher :: PublisherId
  pwm_boot :: BootGeneration
  pwm_watermark :: Sequence
  pwm_fenced :: bool
  pwm_fenced_reason :: string
  pwm_last_seen :: TimestampNanos

definition PublisherWatermark_less :: "PublisherWatermark \<Rightarrow> PublisherWatermark \<Rightarrow> bool" where
  "PublisherWatermark_less a b =
     (if pwm_publisher a \<noteq> pwm_publisher b then pwm_publisher a < pwm_publisher b
      else pwm_boot a < pwm_boot b)"

definition AggregateFindingRecord_less :: "AggregateFindingRecord \<Rightarrow> AggregateFindingRecord \<Rightarrow> bool" where
  "AggregateFindingRecord_less a b =
     (if afr_kind a \<noteq> afr_kind b then afr_kind a < afr_kind b
      else if afr_subject a \<noteq> afr_subject b then afr_subject a < afr_subject b
      else afr_digest a < afr_digest b)"

record DurableState =
  ds_format_version :: u32
  ds_written_by_epoch :: CoordinatorEpoch
  ds_save_sequence :: u64
  ds_saved_at :: TimestampNanos
  ds_federations :: "FederationRecord list"
  ds_sites :: "SiteRecord list"
  ds_clusters :: "ClusterRecord list"
  ds_accelerator_classes :: "AcceleratorClassRecord list"
  ds_runtimes :: "RuntimeRecord list"
  ds_backends :: "BackendRecord list"
  ds_domains :: "DomainRecord list"
  ds_policies :: "PolicyRecord list"
  ds_artifacts :: "ArtifactRecord list"
  ds_workload_classes :: "WorkloadClassRecord list"
  ds_workloads :: "WorkloadRecord list"
  ds_placements :: "PlacementRecord list"
  ds_migrations :: "MigrationRecord list"
  ds_portability :: "PortabilityAssessment list"
  ds_publisher_watermarks :: "PublisherWatermark list"
  ds_aggregate_findings :: "AggregateFindingRecord list"

section \<open>The shape of a durable state\<close>

definition stale_currentness :: "Currentness \<Rightarrow> Currentness" where
  "stale_currentness c = (if c = Currentness_Current then Currentness_Stale else c)"

definition restored_currentness :: "Currentness \<Rightarrow> Currentness" where
  "restored_currentness c = (if c = Currentness_Retired then Currentness_Retired else Currentness_RevalidationRequired)"

definition normalize_cluster_for_persistence :: "ClusterRecord \<Rightarrow> ClusterRecord" where
  "normalize_cluster_for_persistence r =
     r\<lparr>clr_capacity_pools := [], clr_readiness := Readiness_Unknown,
       clr_currentness := restored_currentness (clr_currentness r)\<rparr>"

definition normalize_for_persistence :: "DurableState \<Rightarrow> DurableState" where
  "normalize_for_persistence s =
     s\<lparr>ds_format_version := kStateFormatVersion,
       ds_clusters := map normalize_cluster_for_persistence (ds_clusters s),
       ds_federations := map (\<lambda>r. r\<lparr>fr_currentness := stale_currentness (fr_currentness r)\<rparr>) (ds_federations s),
       ds_sites := map (\<lambda>r. r\<lparr>sr_currentness := stale_currentness (sr_currentness r)\<rparr>) (ds_sites s),
       ds_placements := map (\<lambda>r. r\<lparr>plr_currentness := stale_currentness (plr_currentness r)\<rparr>) (ds_placements s),
       ds_migrations := map (\<lambda>r. r\<lparr>mr_currentness := stale_currentness (mr_currentness r)\<rparr>) (ds_migrations s),
       ds_portability := map (\<lambda>r. r\<lparr>pa_currentness := stale_currentness (pa_currentness r)\<rparr>) (ds_portability s)\<rparr>"

text \<open>\<open>durable_state_is_normalized\<close>: nothing, or why the state is not normalized.\<close>

definition cluster_not_normalized :: "ClusterRecord \<Rightarrow> string option" where
  "cluster_not_normalized r =
     (if clr_capacity_pools r \<noteq> [] then Some (''cluster '' @ id_value (clr_id r) @ '' carries dynamic capacity pools'')
      else if clr_readiness r \<noteq> Readiness_Unknown \<and> clr_currentness r \<noteq> Currentness_Retired then
        Some (''cluster '' @ id_value (clr_id r) @ '' carries a live readiness value'')
      else if clr_currentness r = Currentness_Current \<or> clr_currentness r = Currentness_Stale then
        Some (''cluster '' @ id_value (clr_id r) @ '' carries non-structural currentness'')
      else None)"

definition marked_current :: "string \<Rightarrow> ('r \<Rightarrow> string) \<Rightarrow> ('r \<Rightarrow> Currentness) \<Rightarrow> 'r \<Rightarrow> string option" where
  "marked_current what name currentness r =
     (if currentness r = Currentness_Current then Some (what @ name r @ '' is marked current in a durable file'')
      else None)"

fun first_some :: "('r \<Rightarrow> 'a option) \<Rightarrow> 'r list \<Rightarrow> 'a option" where
  "first_some f [] = None"
| "first_some f (r # rs) = (case f r of Some a \<Rightarrow> Some a | None \<Rightarrow> first_some f rs)"

definition durable_state_is_normalized :: "DurableState \<Rightarrow> string option" where
  "durable_state_is_normalized s =
     first_some id
       [first_some cluster_not_normalized (ds_clusters s),
        first_some (marked_current ''federation '' (\<lambda>r. id_value (fr_id r)) fr_currentness) (ds_federations s),
        first_some (marked_current ''site '' (\<lambda>r. id_value (sr_id r)) sr_currentness) (ds_sites s),
        first_some (marked_current ''placement '' (\<lambda>r. id_value (plr_id r)) plr_currentness) (ds_placements s),
        first_some (marked_current ''migration '' (\<lambda>r. id_value (mr_id r)) mr_currentness) (ds_migrations s),
        first_some (marked_current ''portability record for workload '' (\<lambda>r. id_value (pa_workload r)) pa_currentness)
          (ds_portability s)]"

section \<open>Validation\<close>

definition durable_counts :: "DurableState \<Rightarrow> Bounds \<Rightarrow> (nat \<times> nat \<times> string) list" where
  "durable_counts s b =
     [(length (ds_federations s), max_federations b, ''federations''),
      (length (ds_sites s), max_sites b, ''sites''),
      (length (ds_clusters s), max_clusters b, ''clusters''),
      (length (ds_accelerator_classes s), max_accelerator_classes b, ''accelerator_classes''),
      (length (ds_runtimes s), max_runtimes b, ''runtimes''),
      (length (ds_backends s), max_backends b, ''backends''),
      (length (ds_domains s), max_domains b, ''domains''),
      (length (ds_policies s), max_policies b, ''policies''),
      (length (ds_artifacts s), max_artifacts b, ''artifacts''),
      (length (ds_workload_classes s), max_workload_classes b, ''workload_classes''),
      (length (ds_workloads s), max_workloads b, ''workloads''),
      (length (ds_placements s), max_placement_history b, ''placements''),
      (length (ds_migrations s), max_migration_history b, ''migrations''),
      (length (ds_portability s), max_portability_records b, ''portability''),
      (length (ds_publisher_watermarks s), max_publishers b, ''publisher_watermarks''),
      (length (ds_aggregate_findings s), max_aggregate_findings b, ''aggregate_findings'')]"

definition unique_ids :: "string \<Rightarrow> ('r \<Rightarrow> 't StrongId) \<Rightarrow> 'r list \<Rightarrow> Status" where
  "unique_ids what id_of rs =
     refuse_if (has_duplicates (map (\<lambda>r. id_value (id_of r)) rs)) CorruptState (''duplicate identifier in '' @ what) []"

fun adjacent_watermark :: "PublisherWatermark list \<Rightarrow> PublisherWatermark option" where
  "adjacent_watermark (a # b # ws) =
     (if pwm_publisher a = pwm_publisher b \<and> pwm_boot a = pwm_boot b then Some b else adjacent_watermark (b # ws))"
| "adjacent_watermark ws = None"

definition unique_watermarks :: "PublisherWatermark list \<Rightarrow> Status" where
  "unique_watermarks ws =
     (case adjacent_watermark (stable_sort PublisherWatermark_less ws) of
        None \<Rightarrow> Success
      | Some w \<Rightarrow> fail CorruptState ''duplicate publisher watermark'' (id_value (pwm_publisher w)))"

definition record_valid :: "string \<Rightarrow> Status \<Rightarrow> Status" where
  "record_valid what v =
     (case v of Success \<Rightarrow> Success
      | Failure e \<Rightarrow> fail CorruptState (''invalid '' @ what) (Error_to_string e))"

definition DurableState_validate :: "DurableState \<Rightarrow> Bounds \<Rightarrow> Status" where
  "DurableState_validate s b =
     (let federation = (\<lambda>i. i \<in> set (map fr_id (ds_federations s)));
          site = (\<lambda>i. i \<in> set (map sr_id (ds_sites s)));
          cluster = (\<lambda>i. i \<in> set (map clr_id (ds_clusters s)));
          accelerator_class = (\<lambda>i. i \<in> set (map ar_id (ds_accelerator_classes s)));
          runtime = (\<lambda>i. i \<in> set (map rr_id (ds_runtimes s)));
          workload_class = (\<lambda>i. i \<in> set (map wcr_id (ds_workload_classes s)));
          artifact = (\<lambda>i. i \<in> set (map art_id (ds_artifacts s)));
          policy = (\<lambda>i. i \<in> set (map pr_id (ds_policies s)));
          workload = (\<lambda>i. i \<in> set (map wr_id (ds_workloads s)))
      in checks
       [refuse_if (ds_format_version s \<noteq> kStateFormatVersion) UnsupportedVersion
          ''unsupported durable state format version'' (to_string_nat (unat (ds_format_version s))),
        first_failure (\<lambda>(n, limit, name). refuse_if (n > limit) BoundExceeded
          ''durable state exceeds a configured bound'' name) (durable_counts s b),
        unique_ids ''federations'' fr_id (ds_federations s),
        unique_ids ''sites'' sr_id (ds_sites s),
        unique_ids ''clusters'' clr_id (ds_clusters s),
        unique_ids ''accelerator_classes'' ar_id (ds_accelerator_classes s),
        unique_ids ''runtimes'' rr_id (ds_runtimes s),
        unique_ids ''backends'' br_id (ds_backends s),
        unique_ids ''domains'' dr_id (ds_domains s),
        unique_ids ''policies'' pr_id (ds_policies s),
        unique_ids ''artifacts'' art_id (ds_artifacts s),
        unique_ids ''workload_classes'' wcr_id (ds_workload_classes s),
        unique_ids ''workloads'' wr_id (ds_workloads s),
        unique_ids ''placements'' plr_id (ds_placements s),
        unique_ids ''migrations'' mr_id (ds_migrations s),
        unique_watermarks (ds_publisher_watermarks s),
        first_failure (\<lambda>r. record_valid ''federation record'' (FederationRecord_validate r)) (ds_federations s),
        first_failure (\<lambda>r. checks
          [record_valid ''site record'' (SiteRecord_validate r),
           refuse_if (\<not> federation (sr_federation r)) CorruptState ''site references an unknown federation'' (id_value (sr_id r))])
          (ds_sites s),
        first_failure (\<lambda>r. checks
          [record_valid ''cluster record'' (ClusterRecord_validate r),
           refuse_if (\<not> federation (clr_federation r)) CorruptState ''cluster references an unknown federation'' (id_value (clr_id r)),
           refuse_if (\<not> site (clr_site r)) CorruptState ''cluster references an unknown site'' (id_value (clr_id r))])
          (ds_clusters s),
        first_failure (\<lambda>r. checks
          [first_failure (\<lambda>i. refuse_if (\<not> accelerator_class i) CorruptState
             ''cluster references an unknown accelerator class'' (id_value (clr_id r) @ '' '' @ id_value i))
             (clr_accelerator_classes r),
           first_failure (\<lambda>i. refuse_if (\<not> runtime i) CorruptState
             ''cluster references an unknown runtime'' (id_value (clr_id r) @ '' '' @ id_value i)) (clr_runtimes r)])
          (ds_clusters s),
        first_failure (\<lambda>r. checks
          [record_valid ''workload record'' (WorkloadRecord_validate r),
           refuse_if (\<not> workload_class (wr_workload_class r)) CorruptState
             ''workload references an unknown workload class'' (id_value (wr_id r)),
           refuse_if (\<not> id_empty (wr_artifact r) \<and> \<not> artifact (wr_artifact r)) CorruptState
             ''workload references an unknown artifact'' (id_value (wr_id r)),
           refuse_if (\<not> id_empty (wr_policy r) \<and> \<not> policy (wr_policy r)) CorruptState
             ''workload references an unknown policy'' (id_value (wr_id r))])
          (ds_workloads s),
        first_failure (\<lambda>r. checks
          [record_valid ''placement record'' (PlacementRecord_validate r),
           refuse_if (\<not> workload (plr_workload r)) CorruptState ''placement references an unknown workload'' (id_value (plr_id r)),
           refuse_if (\<not> cluster (plr_selected r)) CorruptState
             ''placement references an unknown selected cluster'' (id_value (plr_id r)),
           first_failure (\<lambda>c. refuse_if (\<not> cluster (co_cluster c)) CorruptState
             ''placement candidate references an unknown cluster'' (id_value (plr_id r) @ '' '' @ id_value (co_cluster c)))
             (plr_candidates r)])
          (ds_placements s),
        first_failure (\<lambda>r. checks
          [record_valid ''migration record'' (MigrationRecord_validate r),
           refuse_if (\<not> workload (mr_workload r)) CorruptState ''migration references an unknown workload'' (id_value (mr_id r)),
           refuse_if (\<not> cluster (mr_source r) \<or> \<not> cluster (mr_destination r)) CorruptState
             ''migration references an unknown cluster'' (id_value (mr_id r))])
          (ds_migrations s),
        first_failure (\<lambda>r. checks
          [record_valid ''portability assessment'' (PortabilityAssessment_validate r),
           refuse_if (\<not> workload (pa_workload r)) CorruptState
             ''portability record references an unknown workload'' (id_value (pa_workload r))])
          (ds_portability s),
        (case durable_state_is_normalized s of
           None \<Rightarrow> Success
         | Some why \<Rightarrow> fail CorruptState
             ''durable state carries dynamic evidence that must not be restored as current'' why)])"

section \<open>The payload\<close>

definition encode_watermark :: "PublisherWatermark \<Rightarrow> Encoder \<Rightarrow> Encoder" where
  "encode_watermark v =
     enc_seq
       [enc_str (id_value (pwm_publisher v)),
        enc_u64 (gen_value (pwm_boot v)),
        enc_u64 (seq_value (pwm_watermark v)),
        enc_boolean (pwm_fenced v),
        enc_str (pwm_fenced_reason v),
        enc_i64 (pwm_last_seen v)]"

definition decode_watermark :: "PublisherWatermark decoder" where
  "decode_watermark =
     dec_bind dec_str (\<lambda>publisher.
     if publisher \<noteq> [] \<and> \<not> is_valid_identifier publisher then
       dec_error (Error CorruptState ''publisher watermark has an invalid publisher id'' [])
     else
     dec_bind dec_u64 (\<lambda>boot.
     dec_bind dec_u64 (\<lambda>watermark.
     dec_bind dec_boolean (\<lambda>fenced.
     dec_bind dec_str (\<lambda>reason.
     dec_bind dec_i64 (\<lambda>last_seen.
     dec_return \<lparr>pwm_publisher = StrongId publisher, pwm_boot = Generation boot, pwm_watermark = Sequence watermark,
       pwm_fenced = fenced, pwm_fenced_reason = reason, pwm_last_seen = last_seen\<rparr>))))))"

definition encode_finding :: "AggregateFindingRecord \<Rightarrow> Encoder \<Rightarrow> Encoder" where
  "encode_finding v =
     enc_seq
       [enc_str (afr_kind v),
        enc_str (afr_subject v),
        enc_str (afr_digest v),
        enc_i64 (afr_generated_at v),
        enc_u64 (gen_value (afr_snapshot_generation v)),
        enc_enum Precision_values (afr_precision v),
        enc_enum EvidenceClass_values (afr_evidence_class v)]"

definition decode_state_enum :: "'e list \<Rightarrow> string \<Rightarrow> 'e decoder" where
  "decode_state_enum enumerators what =
     dec_bind dec_u8 (\<lambda>v.
       if unat v > length enumerators - 1 then
         dec_error (Error CorruptState (''durable state carries an invalid '' @ what) [])
       else dec_return (enumerators ! unat v))"

definition decode_finding :: "AggregateFindingRecord decoder" where
  "decode_finding =
     dec_bind dec_str (\<lambda>kind.
     dec_bind dec_str (\<lambda>subject.
     dec_bind dec_str (\<lambda>digest.
     dec_bind dec_i64 (\<lambda>generated_at.
     dec_bind dec_u64 (\<lambda>snapshot_generation.
     dec_bind (decode_state_enum Precision_values ''precision'') (\<lambda>precision.
     dec_bind (decode_state_enum EvidenceClass_values ''evidence class'') (\<lambda>cls.
     dec_return \<lparr>afr_kind = kind, afr_subject = subject, afr_digest = digest, afr_generated_at = generated_at,
       afr_snapshot_generation = Generation snapshot_generation, afr_precision = precision,
       afr_evidence_class = cls\<rparr>)))))))"

definition read_records :: "nat \<Rightarrow> string \<Rightarrow> 'a decoder \<Rightarrow> 'a list decoder" where
  "read_records limit what dec =
     dec_bind dec_u32 (\<lambda>count.
       if unat count > limit then
         dec_error (Error BoundExceeded (''durable state declares too many '' @ what) (to_string_nat (unat count)))
       else dec_times (unat count) dec)"

definition PlacementRecord_older :: "PlacementRecord \<Rightarrow> PlacementRecord \<Rightarrow> bool" where
  "PlacementRecord_older a b =
     (if os_observed_at (plr_stamp a) \<noteq> os_observed_at (plr_stamp b)
      then os_observed_at (plr_stamp a) < os_observed_at (plr_stamp b) else plr_id a < plr_id b)"

definition MigrationRecord_older :: "MigrationRecord \<Rightarrow> MigrationRecord \<Rightarrow> bool" where
  "MigrationRecord_older a b =
     (if os_observed_at (mr_stamp a) \<noteq> os_observed_at (mr_stamp b)
      then os_observed_at (mr_stamp a) < os_observed_at (mr_stamp b) else mr_id a < mr_id b)"

text \<open>The state as it is written: normalized and in canonical order.\<close>

definition persisted_state :: "DurableState \<Rightarrow> DurableState" where
  "persisted_state s =
     (let n = normalize_for_persistence s
      in n\<lparr>ds_placements := stable_sort PlacementRecord_older (ds_placements n),
            ds_migrations := stable_sort MigrationRecord_older (ds_migrations n),
            ds_publisher_watermarks := stable_sort PublisherWatermark_less (ds_publisher_watermarks n),
            ds_aggregate_findings := stable_sort AggregateFindingRecord_less (ds_aggregate_findings n)\<rparr>)"

definition encode_payload :: "DurableState \<Rightarrow> Encoder \<Rightarrow> Encoder" where
  "encode_payload s =
     enc_seq
       [enc_u32 kStateFormatVersion,
        enc_u64 (gen_value (ds_written_by_epoch s)),
        enc_u64 (ds_save_sequence s),
        enc_i64 (ds_saved_at s),
        enc_counted encode_federation (ds_federations s),
        enc_counted encode_site (ds_sites s),
        enc_counted encode_cluster (ds_clusters s),
        enc_counted encode_accelerator_class (ds_accelerator_classes s),
        enc_counted encode_runtime (ds_runtimes s),
        enc_counted encode_backend (ds_backends s),
        enc_counted encode_domain (ds_domains s),
        enc_counted encode_policy (ds_policies s),
        enc_counted encode_artifact (ds_artifacts s),
        enc_counted encode_workload_class (ds_workload_classes s),
        enc_counted encode_workload (ds_workloads s),
        enc_counted encode_placement (ds_placements s),
        enc_counted encode_migration (ds_migrations s),
        enc_counted encode_portability (ds_portability s),
        enc_counted encode_watermark (ds_publisher_watermarks s),
        enc_counted encode_finding (ds_aggregate_findings s)]"

definition decode_fields :: "Bounds \<Rightarrow> DurableState decoder" where
  "decode_fields b =
     dec_bind dec_u32 (\<lambda>version.
     if version \<noteq> kStateFormatVersion then
       dec_error (Error UnsupportedVersion ''unsupported durable payload version'' [])
     else
     dec_bind dec_u64 (\<lambda>epoch.
     dec_bind dec_u64 (\<lambda>save_sequence.
     dec_bind dec_i64 (\<lambda>saved_at.
     dec_bind (read_records (max_federations b) ''federations'' decode_federation) (\<lambda>feds.
     dec_bind (read_records (max_sites b) ''sites'' decode_site) (\<lambda>sits.
     dec_bind (read_records (max_clusters b) ''clusters'' decode_cluster) (\<lambda>clus.
     dec_bind (read_records (max_accelerator_classes b) ''accelerator classes'' decode_accelerator_class) (\<lambda>accs.
     dec_bind (read_records (max_runtimes b) ''runtimes'' decode_runtime) (\<lambda>runs.
     dec_bind (read_records (max_backends b) ''backends'' decode_backend) (\<lambda>bacs.
     dec_bind (read_records (max_domains b) ''domains'' decode_domain) (\<lambda>doms.
     dec_bind (read_records (max_policies b) ''policies'' decode_policy) (\<lambda>pols.
     dec_bind (read_records (max_artifacts b) ''artifacts'' decode_artifact) (\<lambda>arts.
     dec_bind (read_records (max_workload_classes b) ''workload classes'' decode_workload_class) (\<lambda>wlcs.
     dec_bind (read_records (max_workloads b) ''workloads'' decode_workload) (\<lambda>wls.
     dec_bind (read_records (max_placement_history b) ''placements'' decode_placement) (\<lambda>plas.
     dec_bind (read_records (max_migration_history b) ''migrations'' decode_migration) (\<lambda>migs.
     dec_bind (read_records (max_portability_records b) ''portability records'' decode_portability) (\<lambda>pors.
     dec_bind (read_records (max_publishers b) ''publisher watermarks'' decode_watermark) (\<lambda>wms.
     dec_bind (read_records (max_aggregate_findings b) ''aggregate findings'' decode_finding) (\<lambda>fins.
     dec_return
       \<lparr>ds_format_version = kStateFormatVersion, ds_written_by_epoch = Generation epoch,
        ds_save_sequence = save_sequence, ds_saved_at = saved_at,
        ds_federations = feds, ds_sites = sits, ds_clusters = clus, ds_accelerator_classes = accs,
        ds_runtimes = runs, ds_backends = bacs, ds_domains = doms, ds_policies = pols,
        ds_artifacts = arts, ds_workload_classes = wlcs, ds_workloads = wls, ds_placements = plas,
        ds_migrations = migs, ds_portability = pors,
        ds_publisher_watermarks = wms, ds_aggregate_findings = fins\<rparr>))))))))))))))))))))"

text \<open>The end of the payload: nothing may follow, and the state must be valid.\<close>

definition payload_end :: "Bounds \<Rightarrow> DurableState \<Rightarrow> DurableState decoder" where
  "payload_end b s d =
     (if \<not> exhausted d then
        (Inl (Error CorruptState ''durable state carries trailing bytes'' (to_string_nat (dec_remaining d))), d)
      else case DurableState_validate s b of
             Success \<Rightarrow> (Inr s, d)
           | Failure e \<Rightarrow> (Inl e, d))"

definition decode_payload :: "Bounds \<Rightarrow> DurableState decoder" where
  "decode_payload b = dec_bind (decode_fields b) (payload_end b)"

section \<open>The file image\<close>

definition state_header :: "byte list \<Rightarrow> DurableState \<Rightarrow> byte list" where
  "state_header body s =
     map byte_of_char kStateMagic @ le_bytes 4 kStateFormatVersion @ le_bytes 4 kStateFlagsNone @
     le_bytes 8 (of_nat (length body) :: u64) @ le_bytes 4 (crc32 body) @ le_bytes 4 (0 :: u32) @
     le_bytes 8 (ds_save_sequence s) @ le_bytes 8 (gen_value (ds_written_by_epoch s))"

definition encode_durable_state :: "DurableState \<Rightarrow> Bounds \<Rightarrow> byte list result" where
  "encode_durable_state s b =
     (let normalized = persisted_state s;
          payload = encode_payload normalized Encoder_init;
          body = enc_buffer payload
      in if enc_failed payload then Inl (enc_error payload)
         else if length body > max_persistence_bytes b then
           Inl (Error BoundExceeded ''durable state exceeds the configured persistence bound''
             (to_string_nat (length body)))
         else Inr (state_header body normalized @ body))"

definition read_u32 :: "nat \<Rightarrow> byte list \<Rightarrow> u32" where
  "read_u32 offset data = le_value 0 (take 4 (drop offset data))"

definition read_u64 :: "nat \<Rightarrow> byte list \<Rightarrow> u64" where
  "read_u64 offset data = le_value 0 (take 8 (drop offset data))"

definition decode_durable_state :: "byte list \<Rightarrow> Bounds \<Rightarrow> DurableState result" where
  "decode_durable_state data b =
     (if data = [] then Inl (Error CorruptState ''durable state is empty'' [])
      else if length data < kStateHeaderSize then
        Inl (Error CorruptState ''durable state is truncated before the header'' [])
      else if take 8 data \<noteq> map byte_of_char kStateMagic then
        Inl (Error CorruptState ''durable state magic does not match'' [])
      else if length data > max_persistence_bytes b then
        Inl (Error BoundExceeded ''durable state exceeds the configured persistence bound'' [])
      else if read_u32 8 data \<noteq> kStateFormatVersion then
        Inl (Error UnsupportedVersion ''unsupported durable state format version''
          (to_string_nat (unat (read_u32 8 data))))
      else if read_u32 12 data \<noteq> kStateFlagsNone then
        Inl (Error CorruptState ''durable state carries unknown flags'' [])
      else if read_u32 28 data \<noteq> 0 then
        Inl (Error CorruptState ''durable state reserved field is not zero'' [])
      else if unat (read_u64 16 data) \<noteq> length data - kStateHeaderSize then
        Inl (Error CorruptState ''durable state payload length does not match the header''
          (''declared='' @ to_string_nat (unat (read_u64 16 data)) @ '' actual='' @
           to_string_nat (length data - kStateHeaderSize)))
      else
        let body = drop kStateHeaderSize data
        in if read_u32 24 data \<noteq> crc32 body then
             Inl (Error IntegrityFailure ''durable state checksum does not match''
               (''expected='' @ hex_digest64 (ucast (read_u32 24 data)) @ '' actual='' @
                hex_digest64 (ucast (crc32 body))))
           else fst (decode_payload b (Decoder_init body (max_persistence_bytes b))))"

definition DurableState_digest :: "DurableState \<Rightarrow> string" where
  "DurableState_digest s =
     (case encode_durable_state s default_bounds of
        Inl e \<Rightarrow> ''encode-failed''
      | Inr bytes \<Rightarrow> hex_digest64 (fnv1a64_bytes bytes))"

section \<open>Capture and restore\<close>

definition watermark_of :: "PublisherAuthority \<Rightarrow> PublisherWatermark" where
  "watermark_of a =
     \<lparr>pwm_publisher = pau_publisher a, pwm_boot = pau_boot a, pwm_watermark = pau_watermark a,
      pwm_fenced = pau_fenced a, pwm_fenced_reason = pau_fenced_reason a,
      pwm_last_seen = pau_last_publication_at a\<rparr>"

definition capture_durable_state :: "clock \<Rightarrow> Observatory \<Rightarrow> DurableState" where
  "capture_durable_state clock ob =
     \<lparr>ds_format_version = kStateFormatVersion, ds_written_by_epoch = ob_coordinator_epoch ob,
      ds_save_sequence = ob_save_sequence ob + 1, ds_saved_at = clock 0,
      ds_federations = smap_values (ob_federations ob),
      ds_sites = smap_values (ob_sites ob),
      ds_clusters = map normalize_cluster_for_persistence (smap_values (ob_clusters ob)),
      ds_accelerator_classes = smap_values (ob_accelerator_classes ob),
      ds_runtimes = smap_values (ob_runtimes ob),
      ds_backends = smap_values (ob_backends ob),
      ds_domains = smap_values (ob_domains ob),
      ds_policies = smap_values (ob_policies ob),
      ds_artifacts = smap_values (ob_artifacts ob),
      ds_workload_classes = smap_values (ob_workload_classes ob),
      ds_workloads = smap_values (ob_workloads ob),
      ds_placements = smap_values (ob_placements ob),
      ds_migrations = smap_values (ob_migrations ob),
      ds_portability = smap_values (ob_portability ob),
      ds_publisher_watermarks = map watermark_of (smap_values (ob_publishers ob)),
      ds_aggregate_findings = ob_aggregate_findings ob\<rparr>"

definition emplace_all :: "('r \<Rightarrow> 'k :: linorder) \<Rightarrow> 'r list \<Rightarrow> ('k, 'r) std_map" where
  "emplace_all key rs = foldl (\<lambda>m r. smap_emplace (key r) r m) [] rs"

text \<open>
  The two indexes of a restore. A placement becomes the latest of its workload unless one that is strictly
  newer was there; its identifier is always in the map of restored placements when it is looked up.
\<close>

definition restore_placement ::
  "(PlacementId, PlacementRecord) std_map \<times> (WorkloadId, PlacementId) std_map \<Rightarrow> PlacementRecord \<Rightarrow>
     (PlacementId, PlacementRecord) std_map \<times> (WorkloadId, PlacementId) std_map" where
  "restore_placement acc r =
     (let (placements, latest) = acc;
          becomes_latest = (case smap_find latest (plr_workload r) of
             None \<Rightarrow> True
           | Some i \<Rightarrow> (case smap_find placements i of
               None \<Rightarrow> 0 \<le> os_observed_at (plr_stamp r)
             | Some p \<Rightarrow> os_observed_at (plr_stamp p) \<le> os_observed_at (plr_stamp r)))
      in (smap_emplace (plr_id r) r placements,
          if becomes_latest then smap_put (plr_workload r) (plr_id r) latest else latest))"

definition restored_authority :: "CoordinatorEpoch \<Rightarrow> PublisherWatermark \<Rightarrow> PublisherAuthority" where
  "restored_authority epoch w = PublisherAuthority_init
     \<lparr>pau_publisher := pwm_publisher w, pau_boot := pwm_boot w, pau_epoch := epoch,
      pau_watermark := pwm_watermark w, pau_fenced := pwm_fenced w, pau_fenced_reason := pwm_fenced_reason w,
      pau_last_publication_at := pwm_last_seen w, pau_live := False\<rparr>"

definition apply_durable_state :: "DurableState \<Rightarrow> Observatory \<Rightarrow> Status \<times> Observatory" where
  "apply_durable_state s ob =
     (case DurableState_validate s (ob_bounds ob) of
        Failure e \<Rightarrow> (Failure e, ob)
      | Success \<Rightarrow>
          (let (placements, latest_placement) = foldl restore_placement ([], [])
                 (map (\<lambda>r. r\<lparr>plr_currentness := Currentness_Stale\<rparr>) (ds_placements s));
               migrations = map (\<lambda>r. r\<lparr>mr_currentness := Currentness_Stale\<rparr>) (ds_migrations s)
           in (Success, next_snapshot (ob
             \<lparr>ob_federations := emplace_all fr_id (map (\<lambda>r. r\<lparr>fr_currentness := stale_currentness (fr_currentness r)\<rparr>) (ds_federations s)),
              ob_sites := emplace_all sr_id (map (\<lambda>r. r\<lparr>sr_currentness := stale_currentness (sr_currentness r)\<rparr>) (ds_sites s)),
              ob_clusters := emplace_all clr_id (map normalize_cluster_for_persistence (ds_clusters s)),
              ob_accelerator_classes := emplace_all ar_id (map (\<lambda>r. r\<lparr>ar_currentness := stale_currentness (ar_currentness r)\<rparr>) (ds_accelerator_classes s)),
              ob_runtimes := emplace_all rr_id (map (\<lambda>r. r\<lparr>rr_currentness := stale_currentness (rr_currentness r)\<rparr>) (ds_runtimes s)),
              ob_backends := emplace_all br_id (map (\<lambda>r. r\<lparr>br_currentness := stale_currentness (br_currentness r)\<rparr>) (ds_backends s)),
              ob_domains := emplace_all dr_id (map (\<lambda>r. r\<lparr>dr_currentness := stale_currentness (dr_currentness r)\<rparr>) (ds_domains s)),
              ob_policies := emplace_all pr_id (map (\<lambda>r. r\<lparr>pr_currentness := stale_currentness (pr_currentness r)\<rparr>) (ds_policies s)),
              ob_artifacts := emplace_all art_id (map (\<lambda>r. r\<lparr>art_currentness := stale_currentness (art_currentness r)\<rparr>) (ds_artifacts s)),
              ob_workload_classes := emplace_all wcr_id (map (\<lambda>r. r\<lparr>wcr_currentness := stale_currentness (wcr_currentness r)\<rparr>) (ds_workload_classes s)),
              ob_workloads := emplace_all wr_id (map (\<lambda>r. r\<lparr>wr_currentness := stale_currentness (wr_currentness r)\<rparr>) (ds_workloads s)),
              ob_placements := placements, ob_latest_placement := latest_placement,
              ob_migrations := emplace_all mr_id migrations,
              ob_latest_migration := foldl (\<lambda>m r. smap_emplace (mr_workload r) (mr_id r) m) [] migrations,
              ob_superseded_migrations := foldl (\<lambda>m r. if id_empty (mr_supersedes r) then m
                else smap_put (mr_workload r) (mr_supersedes r) m) [] migrations,
              ob_portability := emplace_all (\<lambda>r. (pa_workload r, pa_destination r))
                (map (\<lambda>r. r\<lparr>pa_currentness := Currentness_Stale\<rparr>) (ds_portability s)),
              ob_publishers := emplace_all (\<lambda>a. (pau_publisher a, pau_boot a))
                (map (restored_authority (ds_written_by_epoch s)) (ds_publisher_watermarks s)),
              ob_aggregate_findings := ds_aggregate_findings s, ob_save_sequence := ds_save_sequence s,
              ob_coordinator_epoch := (if is_set (ds_written_by_epoch s) then gen_next (ds_written_by_epoch s)
                else Generation 1),
              ob_stats := (ob_stats ob)\<lparr>stat_state_loads := stat_state_loads (ob_stats ob) + 1\<rparr>\<rparr>))))"

definition invalidate_dynamic_evidence :: "string \<Rightarrow> Observatory \<Rightarrow> Status \<times> Observatory" where
  "invalidate_dynamic_evidence reason ob =
     (Success, next_snapshot (ob
        \<lparr>ob_clusters := smap_transform (\<lambda>k r.
           (normalize_cluster_for_persistence r)\<lparr>clr_evidence := snd (EvidenceList_add_fields Provenance_DerivedAnalysis
              EvidenceClass_Unknown ''observatory'' Precision_Derived (''dynamic evidence invalidated: '' @ reason)
              (clr_evidence r))\<rparr>) (ob_clusters ob),
         ob_publishers := smap_transform (\<lambda>k a. if pau_fenced a then a else a\<lparr>pau_live := False\<rparr>)
           (ob_publishers ob)\<rparr>))"

end
