(* ===== verification/FO_RoundTrips.thy ===== *)
theory FO_RoundTrips
  imports FO_RecordCodec FO_WorkCodec "HOL-Library.Code_Target_Nat"
begin

text \<open>
  The record codecs end to end: encoding then decoding gives the record back, decoders stay inside their
  input and accept only valid records. The sample records at the start are used wherever a property is
  applied to a concrete input; \<open>Code_Target_Nat\<close> keeps limits binary during evaluation.
\<close>

section \<open>Sample records\<close>

definition sample_federation :: FederationRecord where
  "sample_federation = FederationRecord_init
     \<lparr>fr_id := StrongId ''fed'', fr_generation := Generation 1, fr_coordinator_epoch := Generation 1\<rparr>"

definition sample_site :: SiteRecord where
  "sample_site = SiteRecord_init
     \<lparr>sr_id := StrongId ''site'', sr_generation := Generation 1, sr_federation := StrongId ''fed''\<rparr>"

definition sample_cluster :: "string \<Rightarrow> u64 \<Rightarrow> ClusterRecord" where
  "sample_cluster name g = ClusterRecord_init
     \<lparr>clr_id := StrongId name, clr_generation := Generation g, clr_epoch := Generation 1,
      clr_federation := StrongId ''fed'', clr_site := StrongId ''site''\<rparr>"

definition sample_workload_class :: WorkloadClassRecord where
  "sample_workload_class = WorkloadClassRecord_init\<lparr>wcr_id := StrongId ''batch''\<rparr>"

definition sample_workload :: WorkloadRecord where
  "sample_workload = WorkloadRecord_init
     \<lparr>wr_id := StrongId ''job'', wr_generation := Generation 1, wr_workload_class := StrongId ''batch'',
      wr_required_accelerators := 1\<rparr>"

definition sample_placement :: PlacementRecord where
  "sample_placement = PlacementRecord_init
     \<lparr>plr_id := StrongId ''place'', plr_generation := Generation 1, plr_workload := StrongId ''job'',
      plr_workload_generation := Generation 1, plr_federation := StrongId ''fed'', plr_selected := StrongId ''east''\<rparr>"

definition sample_migration :: MigrationRecord where
  "sample_migration = MigrationRecord_init
     \<lparr>mr_id := StrongId ''move'', mr_generation := Generation 1, mr_workload := StrongId ''job'',
      mr_workload_generation := Generation 1, mr_federation := StrongId ''fed'',
      mr_source := StrongId ''east'', mr_destination := StrongId ''west''\<rparr>"

section \<open>Round trips\<close>

context field_codec
begin

lemma round_trip:
  assumes "encodable v" and "length (enc_buffer (enc v Encoder_init)) \<le> max_bytes"
  shows "\<not> enc_failed (enc v Encoder_init) \<and>
    (\<exists>d. dec (Decoder_init (enc_buffer (enc v Encoder_init)) max_bytes) = (Inr v, d) \<and> exhausted d)"
  by (rule field_round_trip [of enc v dec, OF field [OF assms(1)] assms(2)])

end

text \<open>
  Round trip of a cluster: an encodable record is written without error, and decoding the
  bytes (under any limit they fit) gives the same record back and uses all of them.
\<close>

lemma cluster_round_trip:
  assumes "ClusterRecord_encodable r" and "length (enc_buffer (encode_cluster r Encoder_init)) \<le> max_bytes"
  shows "\<not> enc_failed (encode_cluster r Encoder_init) \<and>
    (\<exists>d. decode_cluster (Decoder_init (enc_buffer (encode_cluster r Encoder_init)) max_bytes) = (Inr r, d) \<and> exhausted d)"
  by (rule cluster_codec.round_trip [OF assms])

text \<open>
  Round trip of a placement: an encodable record is written without error, and decoding the
  bytes (under any limit they fit) gives the same record back and uses all of them.
\<close>

lemma placement_round_trip:
  assumes "PlacementRecord_encodable r" and "length (enc_buffer (encode_placement r Encoder_init)) \<le> max_bytes"
  shows "\<not> enc_failed (encode_placement r Encoder_init) \<and>
    (\<exists>d. decode_placement (Decoder_init (enc_buffer (encode_placement r Encoder_init)) max_bytes) = (Inr r, d) \<and> exhausted d)"
  by (rule placement_codec.round_trip [OF assms])

text \<open>
  Round trip of a migration: an encodable record is written without error, and decoding the
  bytes (under any limit they fit) gives the same record back and uses all of them.
\<close>

lemma migration_round_trip:
  assumes "MigrationRecord_encodable r" and "length (enc_buffer (encode_migration r Encoder_init)) \<le> max_bytes"
  shows "\<not> enc_failed (encode_migration r Encoder_init) \<and>
    (\<exists>d. decode_migration (Decoder_init (enc_buffer (encode_migration r Encoder_init)) max_bytes) = (Inr r, d) \<and> exhausted d)"
  by (rule migration_codec.round_trip [OF assms])

section \<open>Arbitrary input\<close>

text \<open>
  Whatever bytes they are given, the fourteen record decoders never read beyond the end of
  the input: the read position only moves forward, stays within the length, and nothing else of the
  decoder changes.
\<close>

lemma decoders_stay_in_bounds:
  "dec_safe decode_federation \<and>
   dec_safe decode_site \<and>
   dec_safe decode_accelerator_class \<and>
   dec_safe decode_runtime \<and>
   dec_safe decode_backend \<and>
   dec_safe decode_domain \<and>
   dec_safe decode_cluster \<and>
   dec_safe decode_policy \<and>
   dec_safe decode_artifact \<and>
   dec_safe decode_workload_class \<and>
   dec_safe decode_workload \<and>
   dec_safe decode_placement \<and>
   dec_safe decode_migration \<and>
   dec_safe decode_portability"
  by (intro conjI fo_safe)

text \<open>
  A record that a decoder accepts from arbitrary bytes passes the validation of its type.
\<close>

lemma decoded_records_are_valid:
  "dec_yields (\<lambda>v. FederationRecord_validate v = Success) decode_federation \<and>
   dec_yields (\<lambda>v. SiteRecord_validate v = Success) decode_site \<and>
   dec_yields (\<lambda>v. AcceleratorClassRecord_validate v = Success) decode_accelerator_class \<and>
   dec_yields (\<lambda>v. RuntimeRecord_validate v = Success) decode_runtime \<and>
   dec_yields (\<lambda>v. BackendRecord_validate v = Success) decode_backend \<and>
   dec_yields (\<lambda>v. DomainRecord_validate v = Success) decode_domain \<and>
   dec_yields (\<lambda>v. ClusterRecord_validate v = Success) decode_cluster \<and>
   dec_yields (\<lambda>v. PolicyRecord_validate v = Success) decode_policy \<and>
   dec_yields (\<lambda>v. ArtifactRecord_validate v = Success) decode_artifact \<and>
   dec_yields (\<lambda>v. WorkloadClassRecord_validate v = Success) decode_workload_class \<and>
   dec_yields (\<lambda>v. WorkloadRecord_validate v = Success) decode_workload \<and>
   dec_yields (\<lambda>v. PlacementRecord_validate v = Success) decode_placement \<and>
   dec_yields (\<lambda>v. MigrationRecord_validate v = Success) decode_migration \<and>
   dec_yields (\<lambda>v. PortabilityAssessment_validate v = Success) decode_portability"
  by (intro conjI yields_federation yields_site yields_accelerator_class yields_runtime yields_backend
    yields_domain yields_cluster yields_policy yields_artifact yields_workload_class
    yields_workload yields_placement yields_migration yields_portability)

end
