(* ===== verification/FO_Persist.thy ===== *)
theory FO_Persist
  imports FO_Durable FO_RoundTrips
begin

text \<open>
  The durable file image: what was written is read back, and what was damaged is not. A state is
  \<open>DurableState_encodable\<close> when each of its records is, its collections fit the bounds and its numbers
  fit the fields they are written into.
\<close>

section \<open>Field contracts\<close>

context enumeration
begin

lemma field_state_enum: "field_ok (enc_enum enumerators v) (decode_state_enum enumerators what) v"
proof -
  have lt: "enum_index enumerators v < length enumerators"
    by (rule enum_index_less [OF enumerators_all])
  then have small: "unat (of_nat (enum_index enumerators v) :: u8) = enum_index enumerators v"
    using enumerators_small by (simp add: unat_of_nat)
  have "\<not> enum_index enumerators v > length enumerators - 1" using lt by linarith
  then show ?thesis
    unfolding enc_enum_def decode_state_enum_def
    by (intro field_map [OF field_u8]) (simp only: small nth_enum_index [OF enumerators_all] if_False)
qed

end

definition records_encodable :: "nat \<Rightarrow> ('a \<Rightarrow> bool) \<Rightarrow> 'a list \<Rightarrow> bool" where
  "records_encodable limit encodable vs \<longleftrightarrow> list_all encodable vs \<and> length vs \<le> limit \<and> length vs < 2 ^ 32"

context field_codec
begin

lemma field_records:
  assumes "records_encodable limit encodable vs"
  shows "field_ok (enc_counted enc vs) (read_records limit what dec) vs"
proof -
  have n: "unat (of_nat (length vs) :: u32) = length vs"
    using assms by (simp add: unat_of_nat records_encodable_def)
  have "field_ok (enc_seq [enc_each enc vs]) (dec_times (length vs) dec) vs"
    using field_times assms by (simp add: field_seq enc_each_def records_encodable_def)
  then show ?thesis
    unfolding enc_counted_def read_records_def
    using assms by (intro field_Cons [OF field_u32]) (simp add: n records_encodable_def)
qed

end

definition PublisherWatermark_encodable :: "PublisherWatermark \<Rightarrow> bool" where
  "PublisherWatermark_encodable w \<longleftrightarrow>
     id_encodable (pwm_publisher w) \<and> text_ok (pwm_fenced_reason w) \<and> i64_range (pwm_last_seen w)"

lemma id_encodable_text: "id_encodable i \<Longrightarrow> text_ok (id_value i)"
  by (auto simp: id_encodable_def identifier_text_ok) (simp add: text_ok_def)

lemma field_id_guard:
  "id_encodable i \<Longrightarrow> field_ok E D v \<Longrightarrow>
     field_ok E (if id_value i \<noteq> [] \<and> \<not> is_valid_identifier (id_value i) then X else D) v"
  by (auto simp: id_encodable_def)

lemma field_watermark: "PublisherWatermark_encodable w \<Longrightarrow> field_ok (encode_watermark w) decode_watermark w"
  unfolding encode_watermark_def decode_watermark_def PublisherWatermark_encodable_def
  by (elim conjE) ((rule fo_codec field_id_guard id_encodable_text | assumption)+, simp)

interpretation watermark_codec: field_codec encode_watermark decode_watermark PublisherWatermark_encodable
  by unfold_locales (rule field_watermark)

definition AggregateFindingRecord_encodable :: "AggregateFindingRecord \<Rightarrow> bool" where
  "AggregateFindingRecord_encodable f \<longleftrightarrow>
     text_ok (afr_kind f) \<and> text_ok (afr_subject f) \<and> text_ok (afr_digest f) \<and> i64_range (afr_generated_at f)"

lemma field_finding: "AggregateFindingRecord_encodable f \<Longrightarrow> field_ok (encode_finding f) decode_finding f"
  unfolding encode_finding_def decode_finding_def AggregateFindingRecord_encodable_def
  by (elim conjE)
    ((rule fo_codec precision_enum.field_state_enum evidence_class_enum.field_state_enum | assumption)+, simp)

interpretation finding_codec: field_codec encode_finding decode_finding AggregateFindingRecord_encodable
  by unfold_locales (rule field_finding)

section \<open>Writing and reading a state\<close>

definition DurableState_encodable :: "Bounds \<Rightarrow> DurableState \<Rightarrow> bool" where
  "DurableState_encodable b s \<longleftrightarrow>
     ds_format_version s = kStateFormatVersion \<and> i64_range (ds_saved_at s) \<and>
     records_encodable (max_federations b) FederationRecord_encodable (ds_federations s) \<and>
     records_encodable (max_sites b) SiteRecord_encodable (ds_sites s) \<and>
     records_encodable (max_clusters b) ClusterRecord_encodable (ds_clusters s) \<and>
     records_encodable (max_accelerator_classes b) AcceleratorClassRecord_encodable (ds_accelerator_classes s) \<and>
     records_encodable (max_runtimes b) RuntimeRecord_encodable (ds_runtimes s) \<and>
     records_encodable (max_backends b) BackendRecord_encodable (ds_backends s) \<and>
     records_encodable (max_domains b) DomainRecord_encodable (ds_domains s) \<and>
     records_encodable (max_policies b) PolicyRecord_encodable (ds_policies s) \<and>
     records_encodable (max_artifacts b) ArtifactRecord_encodable (ds_artifacts s) \<and>
     records_encodable (max_workload_classes b) WorkloadClassRecord_encodable (ds_workload_classes s) \<and>
     records_encodable (max_workloads b) WorkloadRecord_encodable (ds_workloads s) \<and>
     records_encodable (max_placement_history b) PlacementRecord_encodable (ds_placements s) \<and>
     records_encodable (max_migration_history b) MigrationRecord_encodable (ds_migrations s) \<and>
     records_encodable (max_portability_records b) PortabilityAssessment_encodable (ds_portability s) \<and>
     records_encodable (max_publishers b) PublisherWatermark_encodable (ds_publisher_watermarks s) \<and>
     records_encodable (max_aggregate_findings b) AggregateFindingRecord_encodable (ds_aggregate_findings s)"

lemmas field_record_lists =
  federation_codec.field_records
  site_codec.field_records
  cluster_codec.field_records
  accelerator_class_codec.field_records
  runtime_codec.field_records
  backend_codec.field_records
  domain_codec.field_records
  policy_codec.field_records
  artifact_codec.field_records
  workload_class_codec.field_records
  workload_codec.field_records
  placement_codec.field_records
  migration_codec.field_records
  portability_codec.field_records
  watermark_codec.field_records
  finding_codec.field_records

lemma field_version: "field_ok (enc_u32 kStateFormatVersion) dec_u32 kStateFormatVersion"
  by (rule field_u32)

lemma field_payload: "DurableState_encodable b s \<Longrightarrow> field_ok (encode_payload s) (decode_fields b) s"
  unfolding encode_payload_def decode_fields_def DurableState_encodable_def
  by (elim conjE) (rule field_Cons [OF field_version], simp, (rule fo_codec field_record_lists | assumption)+, simp)

section \<open>The header\<close>

lemma le_bytes_le_value:
  assumes "length bs = n" and "LENGTH('a) = 8 * n"
  shows "le_bytes n (le_value 0 bs :: 'a :: len word) = bs"
proof (rule nth_equalityI)
  fix j assume "j < length (le_bytes n (le_value 0 bs :: 'a word))"
  then have j: "j < n" by simp
  have byte: "bit (bs ! i) p \<Longrightarrow> p < 8" for i p by (drule bit_imp_le_length) simp
  show "le_bytes n (le_value 0 bs :: 'a word) ! j = bs ! j"
  proof (rule bit_eqI)
    fix m assume "possible_bit TYPE(byte) m"
    then have m: "m < 8" by (simp add: possible_bit_def)
    have same: "8 * i \<le> 8 * j + m \<and> bit (bs ! i) (8 * j + m - 8 * i) \<longleftrightarrow> i = j \<and> bit (bs ! j) m" for i
      using byte [of i "8 * j + m - 8 * i"] m by (cases "i = j") auto
    show "bit (le_bytes n (le_value 0 bs :: 'a word) ! j) m = bit (bs ! j) m"
      using same m j assms by (auto simp: bit_le_bytes [OF j] bit_le_value)
  qed
qed (simp add: assms)

lemma le_bytes_eq: "LENGTH('a) = 8 * n \<Longrightarrow> le_bytes n v = le_bytes n w \<longleftrightarrow> v = w" for v w :: "'a :: len word"
  by (metis le_value_le_bytes)

lemma le_bytes_inject:
  "le_bytes 4 v = le_bytes 4 w \<longleftrightarrow> v = w" "le_bytes 8 x = le_bytes 8 y \<longleftrightarrow> x = y" for v w :: u32 and x y :: u64
  by (simp_all add: le_bytes_eq)

text \<open>The part of the header a reader checks, as it depends on the body.\<close>

definition checked_header :: "byte list \<Rightarrow> byte list" where
  "checked_header body =
     map byte_of_char kStateMagic @ le_bytes 4 kStateFormatVersion @ le_bytes 4 kStateFlagsNone @
     le_bytes 8 (of_nat (length body) :: u64) @ le_bytes 4 (crc32 body) @ le_bytes 4 (0 :: u32)"

lemma length_magic: "length kStateMagic = 8"
  by (simp add: kStateMagic_def)

lemma length_checked_header [simp]: "length (checked_header body) = 32"
  by (simp add: checked_header_def kStateMagic_def)

lemma state_header_checked:
  "state_header body s = checked_header body @ le_bytes 8 (ds_save_sequence s) @ le_bytes 8 (gen_value (ds_written_by_epoch s))"
  by (simp add: state_header_def checked_header_def)

lemma length_state_header [simp]: "length (state_header body s) = kStateHeaderSize"
  by (simp add: state_header_checked kStateHeaderSize_def)

definition header_accepted :: "byte list \<Rightarrow> bool" where
  "header_accepted data \<longleftrightarrow>
     kStateHeaderSize \<le> length data \<and> take 8 data = map byte_of_char kStateMagic \<and>
     read_u32 8 data = kStateFormatVersion \<and> read_u32 12 data = kStateFlagsNone \<and>
     unat (read_u64 16 data) = length data - kStateHeaderSize \<and>
     read_u32 24 data = crc32 (drop kStateHeaderSize data) \<and> read_u32 28 data = 0"

lemma decode_accepted: "decode_durable_state data b = Inr s \<Longrightarrow> header_accepted data"
  by (auto simp: decode_durable_state_def header_accepted_def Let_def split: if_splits)

lemma decode_of_accepted:
  assumes "header_accepted data" and "length data \<le> max_persistence_bytes b"
  shows "decode_durable_state data b =
     fst (decode_payload b (Decoder_init (drop kStateHeaderSize data) (max_persistence_bytes b)))"
  using assms by (auto simp: decode_durable_state_def header_accepted_def kStateHeaderSize_def Let_def)

lemma take_field: "le_bytes 4 (read_u32 i data) = take 4 (drop i data)" if "i + 4 \<le> length data"
  unfolding read_u32_def by (rule le_bytes_le_value) (use that in simp_all)

lemma take_wide_field: "le_bytes 8 (read_u64 i data) = take 8 (drop i data)" if "i + 8 \<le> length data"
  unfolding read_u64_def by (rule le_bytes_le_value) (use that in simp_all)

lemma header_accepted_iff:
  "header_accepted data \<longleftrightarrow> kStateHeaderSize \<le> length data \<and> length data - kStateHeaderSize < 2 ^ 64 \<and>
     take 32 data = checked_header (drop kStateHeaderSize data)"
  (is "?L \<longleftrightarrow> ?R")
proof (cases "kStateHeaderSize \<le> length data")
  case True
  then have n: "48 \<le> length data" by (simp add: kStateHeaderSize_def)
  have "take 32 data = take 8 data @ take 4 (drop 8 data) @ take 4 (drop 12 data) @ take 8 (drop 16 data) @
      take 4 (drop 24 data) @ take 4 (drop 28 data)"
    using take_add [of 8 24 data] take_add [of 4 20 "drop 8 data"] take_add [of 4 16 "drop 12 data"]
      take_add [of 8 8 "drop 16 data"] take_add [of 4 4 "drop 24 data"] by simp
  then have split: "take 32 data = take 8 data @ le_bytes 4 (read_u32 8 data) @ le_bytes 4 (read_u32 12 data) @
      le_bytes 8 (read_u64 16 data) @ le_bytes 4 (read_u32 24 data) @ le_bytes 4 (read_u32 28 data)"
    using n by (simp add: take_field take_wide_field)
  have count: "unat (read_u64 16 data) = m \<longleftrightarrow> m < 2 ^ 64 \<and> read_u64 16 data = of_nat m" for m
    using unsigned_less [of "read_u64 16 data", where 'a = nat] by (auto simp: unat_of_nat)
  show ?thesis
    using True n unfolding header_accepted_def checked_header_def split count
    by (auto simp: le_bytes_inject length_magic)
qed (simp add: header_accepted_def)

lemma encode_image:
  assumes "encode_durable_state s b = Inr img"
  shows "kStateHeaderSize \<le> length img" and "take 32 img = checked_header (drop kStateHeaderSize img)"
  using assms
  by (auto simp: encode_durable_state_def Let_def state_header_checked kStateHeaderSize_def split: if_splits)

section \<open>Properties\<close>

text \<open>A small state with a workload and a fenced publisher.\<close>

definition sample_durable :: DurableState where
  "sample_durable =
     \<lparr>ds_format_version = kStateFormatVersion, ds_written_by_epoch = Generation 3, ds_save_sequence = 5,
      ds_saved_at = 1000, ds_federations = [sample_federation], ds_sites = [sample_site],
      ds_clusters = [sample_cluster ''east'' 1], ds_accelerator_classes = [],
      ds_runtimes = [], ds_backends = [], ds_domains = [], ds_policies = [], ds_artifacts = [],
      ds_workload_classes = [sample_workload_class], ds_workloads = [sample_workload],
      ds_placements = [], ds_migrations = [], ds_portability = [],
      ds_publisher_watermarks =
        [\<lparr>pwm_publisher = StrongId ''agent'', pwm_boot = Generation 1, pwm_watermark = Sequence 7,
          pwm_fenced = True, pwm_fenced_reason = ''restarted'', pwm_last_seen = 900\<rparr>],
      ds_aggregate_findings = []\<rparr>"

lemma sample_encodable: "DurableState_encodable default_bounds (persisted_state sample_durable)"
  by code_simp

lemma sample_payload:
  "length (enc_buffer (encode_payload (persisted_state sample_durable) Encoder_init)) = 749"
  by code_simp

lemma durable_image:
  assumes "DurableState_encodable b (persisted_state s)" and "DurableState_validate (persisted_state s) b = Success"
    and "kStateHeaderSize + length (enc_buffer (encode_payload (persisted_state s) Encoder_init)) \<le> max_persistence_bytes b"
    and "max_persistence_bytes b < 2 ^ 64"
  shows "\<exists>img. encode_durable_state s b = Inr img \<and> length img \<le> max_persistence_bytes b \<and>
    decode_durable_state img b = Inr (persisted_state s)"
proof -
  let ?n = "persisted_state s"
  let ?body = "enc_buffer (encode_payload ?n Encoder_init)"
  let ?img = "state_header ?body ?n @ ?body"
  obtain d where d: "\<not> enc_failed (encode_payload ?n Encoder_init)" "exhausted d"
      "decode_fields b (Decoder_init ?body (max_persistence_bytes b)) = (Inr ?n, d)"
    using field_round_trip [of encode_payload ?n "decode_fields b", OF field_payload [OF assms(1)], of "max_persistence_bytes b"]
      assms(3) by auto
  then have "encode_durable_state s b = Inr ?img"
    using assms(3) by (simp add: encode_durable_state_def Let_def)
  moreover have "header_accepted ?img"
    using assms(3,4) by (simp add: header_accepted_iff state_header_checked kStateHeaderSize_def)
  then have "decode_durable_state ?img b = Inr ?n"
    using d assms(2,3) by (simp add: decode_of_accepted decode_payload_def dec_bind_def payload_end_def)
  moreover have "length ?img \<le> max_persistence_bytes b" using assms(3) by simp
  ultimately show ?thesis by blast
qed



text \<open>
  Property C14. A damaged file is refused: changing any one byte of a saved image makes loading it fail,
  outside the sixteen header bytes that repeat the save sequence and the epoch (offsets 32 to 47).
\<close>

theorem damaged_byte_refused:
  assumes "encode_durable_state s b = Inr img" and "i < 32 \<or> kStateHeaderSize \<le> i"
    and "i < length img" and "x \<noteq> img ! i"
  shows "\<exists>e. decode_durable_state (img[i := x]) b = Inl e"
proof (rule ccontr)
  note img = encode_image [OF assms(1)]
  assume "\<not> ?thesis"
  then obtain s' where "decode_durable_state (img[i := x]) b = Inr s'"
    by (cases "decode_durable_state (img[i := x]) b") auto
  then have head: "take 32 (img[i := x]) = checked_header (drop kStateHeaderSize (img[i := x]))"
    using decode_accepted header_accepted_iff by blast
  show False
  proof (cases "i < 32")
    case True
    then have "take 32 (img[i := x]) = take 32 img"
      using head img(2) by (simp add: kStateHeaderSize_def)
    then have "take 32 (img[i := x]) ! i = take 32 img ! i" by simp
    then show False using True assms(3,4) by simp
  next
    case False
    then obtain k where i: "i = kStateHeaderSize + k" using assms(2) le_Suc_ex by blast
    define body where "body = drop kStateHeaderSize img"
    have k: "k < length body" "body ! k \<noteq> x" using assms(3,4) i by (simp_all add: body_def)
    have "checked_header (body[k := x]) = checked_header body"
      using head img(2) False i by (simp add: body_def drop_update_swap)
    then have "crc32 (body[k := x]) = crc32 body"
      by (simp add: checked_header_def le_bytes_inject)
    moreover have "body[k := x] = take k body @ x # drop (Suc k) body" "body = take k body @ body ! k # drop (Suc k) body"
      using k(1) by (simp_all add: upd_conv_take_nth_drop id_take_nth_drop)
    ultimately show False using k(2) crc32_one_byte by metis
  qed
qed

theorem damaged_byte_refused_witness:
  "\<exists>img e. encode_durable_state sample_durable default_bounds = Inr img \<and>
     decode_durable_state (img[500 := img ! 500 + 1]) default_bounds = Inl e"
proof -
  let ?n = "persisted_state sample_durable"
  let ?body = "enc_buffer (encode_payload ?n Encoder_init)"
  let ?img = "state_header ?body ?n @ ?body"
  have "10000 \<le> max_persistence_bytes default_bounds" by code_simp
  moreover have "\<not> enc_failed (encode_payload ?n Encoder_init)"
    using field_round_trip [of encode_payload ?n, OF field_payload [OF sample_encodable]] by blast
  ultimately have "encode_durable_state sample_durable default_bounds = Inr ?img"
    using sample_payload by (simp add: encode_durable_state_def Let_def)
  moreover have "500 < length ?img" by (simp add: sample_payload kStateHeaderSize_def)
  ultimately show ?thesis
    using damaged_byte_refused [of sample_durable default_bounds ?img 500 "?img ! 500 + 1"]
    by (auto simp: kStateHeaderSize_def)
qed

text \<open>The header copies of the save sequence and the epoch are written but not read.\<close>

lemma header_copies_ignored:
  assumes "32 \<le> i" and "i < kStateHeaderSize"
  shows "decode_durable_state (data[i := x]) b = decode_durable_state data b"
proof -
  have fields: "k + 4 \<le> 32 \<Longrightarrow> read_u32 k (data[i := x]) = read_u32 k data"
    "k + 8 \<le> 32 \<Longrightarrow> read_u64 k (data[i := x]) = read_u64 k data" for k
    using assms by (simp_all add: read_u32_def read_u64_def take_drop)
  then show ?thesis
    using assms by (simp add: decode_durable_state_def kStateHeaderSize_def Let_def)
qed

text \<open>A body that fills the persistence bound is saved but can never be loaded: only loading counts the header.\<close>

lemma full_state_never_loads:
  assumes "encode_durable_state s b = Inr img" and "max_persistence_bytes b < length img"
  shows "\<exists>e. decode_durable_state img b = Inl e \<and> error_code e = BoundExceeded"
proof -
  note img = encode_image [OF assms(1)]
  have "take 8 img = take 8 (take 32 img)" by simp
  also have "\<dots> = map byte_of_char kStateMagic"
    unfolding img(2) by (simp add: checked_header_def kStateMagic_def)
  finally show ?thesis
    using img(1) assms(2) by (auto simp: decode_durable_state_def kStateHeaderSize_def)
qed

end
