(* ===== verification/FO_Files.thy ===== *)
theory FO_Files
  imports FO_Persist
begin

text \<open>
  Saving to and loading from disk (\<open>write_file\<close>, \<open>read_file_bounded\<close>, \<open>atomic_replace_file\<close>,
  \<open>save_durable_state\<close>, \<open>load_durable_state\<close> of \<open>state_store.cpp\<close>). A file system maps paths to contents.
  What the C library may refuse is a parameter: opening, writing short, flushing, closing, renaming,
  removing and reading can each fail, and a failed write leaves any prefix behind. \<open>rename\<close> either replaces
  the target in one step or changes nothing, as POSIX says.
\<close>

section \<open>Files\<close>

type_synonym file_system = "string \<rightharpoonup> byte list"

record file_faults =
  ff_open_fails :: bool
  ff_bytes_written :: nat
  ff_bytes_left :: nat
  ff_flush_fails :: bool
  ff_close_fails :: bool
  ff_rename_fails :: bool
  ff_remove_fails :: bool
  ff_read_stops_at :: "nat option"

definition write_file :: "file_faults \<Rightarrow> string \<Rightarrow> byte list \<Rightarrow> file_system \<Rightarrow> Status \<times> file_system" where
  "write_file f path data fs =
     (if ff_open_fails f then (fail Internal ''could not open file for writing'' path, fs)
      else
        let written = min (ff_bytes_written f) (length data)
        in if written \<noteq> length data \<or> ff_flush_fails f \<or> ff_close_fails f
           then (fail Internal ''could not write the complete file'' path, fs(path \<mapsto> take (ff_bytes_left f) data))
           else (Success, fs(path \<mapsto> data)))"

definition kReadChunk :: nat where
  "kReadChunk = 64 * 1024"

function read_chunks :: "nat \<Rightarrow> bool \<Rightarrow> string \<Rightarrow> byte list \<Rightarrow> byte list \<Rightarrow> byte list result" where
  "read_chunks max_bytes broken path buffer data =
     (let chunk = take kReadChunk data
      in if chunk \<noteq> [] \<and> length buffer + length chunk > max_bytes then
           Inl (Error BoundExceeded ''file exceeds the configured bound'' path)
         else if length chunk < kReadChunk then
           (if broken then Inl (Error Internal ''read error'' path) else Inr (buffer @ chunk))
         else read_chunks max_bytes broken path (buffer @ chunk) (drop kReadChunk data))"
  by pat_completeness auto
termination
  by (relation "measure (\<lambda>(max_bytes, broken, path, buffer, data). length data)") (auto simp: kReadChunk_def)

definition read_file_bounded :: "file_faults \<Rightarrow> string \<Rightarrow> nat \<Rightarrow> file_system \<Rightarrow> byte list result" where
  "read_file_bounded f path max_bytes fs =
     (case fs path of
        None \<Rightarrow> Inl (Error NotFound ''could not open file for reading'' path)
      | Some data \<Rightarrow>
          (case ff_read_stops_at f of
             None \<Rightarrow> read_chunks max_bytes False path [] data
           | Some n \<Rightarrow> read_chunks max_bytes True path [] (take n data)))"

definition atomic_replace_file :: "file_faults \<Rightarrow> string \<Rightarrow> string \<Rightarrow> file_system \<Rightarrow> Status \<times> file_system" where
  "atomic_replace_file f from_path to_path fs =
     (case fs from_path of
        Some data \<Rightarrow>
          if ff_rename_fails f then (fail Internal ''atomic replace failed'' (from_path @ '' -> '' @ to_path), fs)
          else (Success, fs(from_path := None, to_path \<mapsto> data))
      | None \<Rightarrow> (fail Internal ''atomic replace failed'' (from_path @ '' -> '' @ to_path), fs))"

definition remove_file_if_present :: "file_faults \<Rightarrow> string \<Rightarrow> file_system \<Rightarrow> Status \<times> file_system" where
  "remove_file_if_present f path fs = (Success, if ff_remove_fails f then fs else fs(path := None))"

definition temporary_path :: "string \<Rightarrow> string" where
  "temporary_path path = path @ ''.tmp''"

definition save_durable_state ::
  "file_faults \<Rightarrow> DurableState \<Rightarrow> string \<Rightarrow> Bounds \<Rightarrow> file_system \<Rightarrow> Status \<times> file_system" where
  "save_durable_state f s path b fs =
     (let normalized = normalize_for_persistence s
      in case DurableState_validate normalized b of
           Failure e \<Rightarrow> (Failure e, fs)
         | Success \<Rightarrow>
             (case encode_durable_state normalized b of
                Inl e \<Rightarrow> (Failure e, fs)
              | Inr img \<Rightarrow>
                  (case write_file f (temporary_path path) img fs of
                     (Failure e, fs1) \<Rightarrow> (Failure e, snd (remove_file_if_present f (temporary_path path) fs1))
                   | (Success, fs1) \<Rightarrow>
                       (case atomic_replace_file f (temporary_path path) path fs1 of
                          (Failure e, fs2) \<Rightarrow> (Failure e, snd (remove_file_if_present f (temporary_path path) fs2))
                        | (Success, fs2) \<Rightarrow> (Success, fs2)))))"

definition load_durable_state :: "file_faults \<Rightarrow> string \<Rightarrow> Bounds \<Rightarrow> file_system \<Rightarrow> DurableState result" where
  "load_durable_state f path b fs =
     (case read_file_bounded f path (max_persistence_bytes b) fs of
        Inl e \<Rightarrow> Inl e
      | Inr img \<Rightarrow> decode_durable_state img b)"

text \<open>The engine's own save and load; the save sequence counts attempts, the statistics successes.\<close>

definition save_state :: "file_faults \<Rightarrow> clock \<Rightarrow> string \<Rightarrow> Observatory \<Rightarrow> file_system \<Rightarrow> Status \<times> Observatory \<times> file_system" where
  "save_state f clock path ob fs =
     (let state = capture_durable_state clock ob;
          ob1 = ob\<lparr>ob_save_sequence := ob_save_sequence ob + 1\<rparr>
      in case save_durable_state f state path (ob_bounds ob) fs of
           (Failure e, fs') \<Rightarrow> (Failure e, ob1, fs')
         | (Success, fs') \<Rightarrow>
             (Success, ob1\<lparr>ob_stats := (ob_stats ob1)\<lparr>stat_state_saves := stat_state_saves (ob_stats ob1) + 1\<rparr>\<rparr>, fs'))"

definition load_state :: "file_faults \<Rightarrow> string \<Rightarrow> Observatory \<Rightarrow> file_system \<Rightarrow> Status \<times> Observatory" where
  "load_state f path ob fs =
     (case load_durable_state f path (ob_bounds ob) fs of
        Inl e \<Rightarrow> (Failure e, ob)
      | Inr state \<Rightarrow> apply_durable_state state ob)"

section \<open>Reading in chunks\<close>

declare read_chunks.simps [simp del]

lemma read_chunks_whole:
  "length buffer \<le> max_bytes \<Longrightarrow> read_chunks max_bytes broken path buffer data =
     (if length buffer + length data > max_bytes then Inl (Error BoundExceeded ''file exceeds the configured bound'' path)
      else if broken then Inl (Error Internal ''read error'' path) else Inr (buffer @ data))"
proof (induction max_bytes broken path buffer data rule: read_chunks.induct)
  case (1 max_bytes broken path buffer data)
  show ?case
  proof (cases "length data < kReadChunk")
    case True
    then show ?thesis using "1.prems" by (subst read_chunks.simps) auto
  next
    case False
    then have full: "length (take kReadChunk data) = kReadChunk" and ne: "take kReadChunk data \<noteq> []"
      by (auto simp: kReadChunk_def)
    show ?thesis
    proof (cases "length buffer + kReadChunk > max_bytes")
      case True
      then show ?thesis using False full ne by (subst read_chunks.simps) auto
    next
      case fits: False
      then show ?thesis
        using "1.IH" [OF refl] False full ne by (subst read_chunks.simps) auto
    qed
  qed
qed

text \<open>
  Reading a file in 64 KiB chunks with the bound checked per chunk is reading it whole: the
  contents when they fit the bound, \<open>BoundExceeded\<close> otherwise, and the loop always ends.
\<close>

lemma chunked_read_is_whole_read:
  "ff_read_stops_at f = None \<Longrightarrow> read_file_bounded f path max_bytes fs =
     (case fs path of
        None \<Rightarrow> Inl (Error NotFound ''could not open file for reading'' path)
      | Some data \<Rightarrow> if length data > max_bytes then Inl (Error BoundExceeded ''file exceeds the configured bound'' path)
                     else Inr data)"
  by (simp add: read_file_bounded_def read_chunks_whole split: option.split)

definition no_faults :: file_faults where
  "no_faults =
     \<lparr>ff_open_fails = False, ff_bytes_written = 18446744073709551615, ff_bytes_left = 0, ff_flush_fails = False,
      ff_close_fails = False, ff_rename_fails = False, ff_remove_fails = False, ff_read_stops_at = None\<rparr>"

section \<open>Saving\<close>

lemma temporary_differs: "temporary_path path \<noteq> path" "path \<noteq> temporary_path path"
  by (simp_all add: temporary_path_def)

lemma write_file_cases:
  "write_file f path data fs = (st, fs') \<Longrightarrow>
     (\<forall>p. p \<noteq> path \<longrightarrow> fs' p = fs p) \<and> (st = Success \<longrightarrow> fs' path = Some data)"
  by (auto simp: write_file_def Let_def fail_def split: if_splits)

lemma replace_cases:
  "atomic_replace_file f p q fs = (st, fs') \<Longrightarrow> p \<noteq> q \<Longrightarrow>
     (if st = Success then fs' = fs(p := None, q := fs p) \<and> fs p \<noteq> None else fs' = fs)"
  by (auto simp: atomic_replace_file_def fail_def split: if_splits option.splits)

lemma normalize_idem: "normalize_for_persistence (normalize_for_persistence s) = normalize_for_persistence s"
  by (auto simp: normalize_for_persistence_def normalize_cluster_for_persistence_def stale_currentness_def restored_currentness_def)

lemma persisted_normalized: "persisted_state (normalize_for_persistence s) = persisted_state s"
  by (simp add: persisted_state_def normalize_idem)

lemma first_some_None: "first_some f xs = None \<longleftrightarrow> (\<forall>x \<in> set xs. f x = None)"
  by (induction xs) (auto split: option.splits)

interpretation watermark_order: comparator PublisherWatermark_less
  by unfold_locales (auto simp: PublisherWatermark_less_def split: if_splits)

lemma unique_watermarks_sorted [simp]: "unique_watermarks (stable_sort PublisherWatermark_less ws) = unique_watermarks ws"
  by (simp add: unique_watermarks_def watermark_order.stable_sort_idem watermark_order.stable_sort_sorted)

lemma unique_ids_sorted [simp]: "unique_ids what f (stable_sort lt xs) = unique_ids what f xs"
  using distinct_map_stable_sort [of "\<lambda>r. id_value (f r)" lt xs] by (simp add: unique_ids_def refuse_if_def)

lemma first_failure_sorted [simp]:
  "first_failure check (stable_sort lt xs) = Success \<longleftrightarrow> first_failure check xs = Success"
  by (simp add: first_failure_Success)

lemma first_some_sorted [simp]: "first_some f (stable_sort lt xs) = None \<longleftrightarrow> first_some f xs = None"
  by (simp add: first_some_None)

lemma normal_Success:
  "(case durable_state_is_normalized s of None \<Rightarrow> Success | Some why \<Rightarrow> fail c m why) = Success \<longleftrightarrow>
     durable_state_is_normalized s = None"
  by (auto simp: fail_def split: option.splits)

lemma normalized_sorted:
  "durable_state_is_normalized (n\<lparr>ds_placements := stable_sort lt1 (ds_placements n),
     ds_migrations := stable_sort lt2 (ds_migrations n), ds_publisher_watermarks := ws, ds_aggregate_findings := fs\<rparr>) = None \<longleftrightarrow>
     durable_state_is_normalized n = None"
  unfolding durable_state_is_normalized_def first_some_None by simp

lemma validate_sorted:
  "DurableState_validate (n\<lparr>ds_placements := stable_sort lt1 (ds_placements n),
     ds_migrations := stable_sort lt2 (ds_migrations n),
     ds_publisher_watermarks := stable_sort PublisherWatermark_less (ds_publisher_watermarks n),
     ds_aggregate_findings := stable_sort lt3 (ds_aggregate_findings n)\<rparr>) b = Success \<longleftrightarrow>
   DurableState_validate n b = Success"
  unfolding DurableState_validate_def Let_def checks_Success list.pred_inject normal_Success normalized_sorted
  by (simp add: durable_counts_def)

lemma validate_persisted:
  "DurableState_validate (persisted_state s) b = Success \<longleftrightarrow> DurableState_validate (normalize_for_persistence s) b = Success"
  unfolding persisted_state_def Let_def by (rule validate_sorted)

lemma encodable_persisted:
  "DurableState_encodable b (persisted_state s) \<longleftrightarrow> DurableState_encodable b (normalize_for_persistence s)"
  by (simp add: DurableState_encodable_def persisted_state_def Let_def records_encodable_def list_all_iff)

lemma encode_normalized: "encode_durable_state (normalize_for_persistence s) b = encode_durable_state s b"
  by (simp add: encode_durable_state_def persisted_normalized)

lemma save_steps:
  assumes "save_durable_state f s path b fs = (st, fs')"
  obtains (early) "fs' = fs" "st \<noteq> Success"
    | (unwritten) img fs1 e where "write_file f (temporary_path path) img fs = (Failure e, fs1)" "st = Failure e"
        "fs' = snd (remove_file_if_present f (temporary_path path) fs1)"
    | (replace) img fs1 st2 fs2 where "encode_durable_state s b = Inr img"
        "write_file f (temporary_path path) img fs = (Success, fs1)"
        "atomic_replace_file f (temporary_path path) path fs1 = (st2, fs2)" "st = st2"
        "fs' = (if st2 = Success then fs2 else snd (remove_file_if_present f (temporary_path path) fs2))"
proof -
  note save = assms [unfolded save_durable_state_def encode_normalized Let_def]
  obtain ws fs1 where w: "\<And>img. encode_durable_state s b = Inr img \<Longrightarrow> write_file f (temporary_path path) img fs = (ws, fs1)"
    by (cases "encode_durable_state s b") (auto, metis surj_pair)
  obtain rs fs2 where r: "atomic_replace_file f (temporary_path path) path fs1 = (rs, fs2)" by fastforce
  show thesis
  proof (cases "DurableState_validate (normalize_for_persistence s) b")
    case (Failure e)
    with save have "st = Failure e" "fs' = fs" by simp_all
    then show thesis using early by blast
  next
    case Success
    show thesis
    proof (cases "encode_durable_state s b")
      case (Inl e)
      with save Success have "st = Failure e" "fs' = fs" by simp_all
      then show thesis using early by blast
    next
      case (Inr img)
      show thesis
      proof (cases ws)
        case Success
        then show thesis
          using save \<open>DurableState_validate _ b = Success\<close> Inr w [OF Inr] r replace by (cases rs) auto
      next
        case (Failure e)
        then show thesis using save Success Inr w [OF Inr] unwritten by auto
      qed
    qed
  qed
qed

lemma saved_image:
  "save_durable_state f s path b fs = (Success, fs') \<Longrightarrow> encode_durable_state s b = Inr (the (fs' path)) \<and> fs' path \<noteq> None"
  by (erule save_steps) (auto dest!: write_file_cases replace_cases simp: temporary_differs)

text \<open>
  Property C11. Saving is atomic whatever fails: no file but the state file and its temporary is touched;
  when the save succeeds the state file holds exactly the encoded image and no temporary is left; when any
  step fails (validation, encoding, opening, writing short, flushing, closing, renaming) the old state
  file is as it was.
\<close>

theorem save_is_atomic:
  assumes "save_durable_state f s path b fs = (st, fs')"
  shows "(\<forall>p. p \<noteq> path \<and> p \<noteq> temporary_path path \<longrightarrow> fs' p = fs p) \<and>
    (case st of
       Success \<Rightarrow> encode_durable_state s b = Inr (the (fs' path)) \<and> fs' path \<noteq> None \<and> fs' (temporary_path path) = None
     | Failure e \<Rightarrow> fs' path = fs path)"
using assms
proof (cases rule: save_steps)
  case early
  then show ?thesis by (cases st) auto
next
  case unwritten
  then show ?thesis
    using write_file_cases [OF unwritten(1)] temporary_differs [of path] by (auto simp: remove_file_if_present_def)
next
  case (replace img fs1 st2 fs2)
  then show ?thesis
    using write_file_cases [OF replace(2)] replace_cases [OF replace(3)] temporary_differs [of path]
    by (cases st2) (auto simp: remove_file_if_present_def)
qed

theorem save_is_atomic_witness:
  "let (st, fs') = save_durable_state (no_faults\<lparr>ff_open_fails := True\<rparr>) sample_durable ''state'' default_bounds [''state'' \<mapsto> [1, 2, 3]]
   in st \<noteq> Success \<and> fs' ''state'' = Some [1, 2, 3]"
proof -
  let ?save = "save_durable_state (no_faults\<lparr>ff_open_fails := True\<rparr>) sample_durable ''state'' default_bounds [''state'' \<mapsto> [1, 2, 3]]"
  have "fst ?save \<noteq> Success"
    by (simp add: save_durable_state_def write_file_def fail_def Let_def split: Status.split sum.split)
  then show ?thesis
    using save_is_atomic [of _ _ _ _ _ "fst ?save" "snd ?save", OF prod.collapse [symmetric]]
    by (cases "fst ?save") (auto simp: Let_def case_prod_beta)
qed

lemma saved_state_loads:
  assumes "save_durable_state f s path b fs = (Success, fs')"
    and "DurableState_encodable b (normalize_for_persistence s)"
    and "kStateHeaderSize + length (enc_buffer (encode_payload (persisted_state s) Encoder_init)) \<le> max_persistence_bytes b"
    and "max_persistence_bytes b < 2 ^ 64" and "ff_read_stops_at g = None"
  shows "load_durable_state g path b fs' = Inr (persisted_state s)"
proof -
  have valid: "DurableState_validate (persisted_state s) b = Success"
    using assms(1) by (auto simp: save_durable_state_def validate_persisted Let_def split: Status.splits)
  obtain img where img: "encode_durable_state s b = Inr img" "length img \<le> max_persistence_bytes b"
      "decode_durable_state img b = Inr (persisted_state s)"
    using durable_image [OF _ valid assms(3,4)] assms(2) by (auto simp: encodable_persisted)
  then have "fs' path = Some img" using saved_image [OF assms(1)] by auto
  then show ?thesis
    using img assms(5) by (simp add: load_durable_state_def read_file_bounded_def read_chunks_whole)
qed

lemma fault_free_save:
  assumes "DurableState_encodable b (persisted_state s)" and "DurableState_validate (normalize_for_persistence s) b = Success"
    and "kStateHeaderSize + length (enc_buffer (encode_payload (persisted_state s) Encoder_init)) \<le> max_persistence_bytes b"
    and "max_persistence_bytes b < 2 ^ 64"
  shows "\<exists>fs'. save_durable_state no_faults s path b fs = (Success, fs')"
proof -
  obtain img where img: "encode_durable_state s b = Inr img" "length img \<le> max_persistence_bytes b"
    using durable_image [OF assms(1) _ assms(3,4)] assms(2) by (auto simp: validate_persisted)
  then have "length img \<le> 18446744073709551615" using assms(4) by simp
  then show ?thesis
    using img(1) assms(2)
    by (auto simp: save_durable_state_def encode_normalized write_file_def atomic_replace_file_def no_faults_def min_def)
qed


end
