(* ===== verification/FO_Invariants.thy ===== *)
theory FO_Invariants
  imports FO_Publish
begin

text \<open>
  The state engine as a transition system: the publications, registrations of publishers and fences
  in any order, the states they reach, and what holds of all of them.

  \<open>publications\<close> are the operations behind the authority gate with all their arguments but the
  context fixed; \<open>engine_step\<close> is one operation on the engine; \<open>engine_ok\<close> is the invariant of the
  stored records: every map is ordered and within its bound, every record is stored under its own
  identifier, is valid, and refers only to records that are registered.
\<close>

section \<open>Steps\<close>

inductive_set publications :: "(PublicationContext \<Rightarrow> Observatory \<Rightarrow> outcome) set" where
  federation: "(\<lambda>ctx. register_federation clock ctx fed) \<in> publications"
| site: "(\<lambda>ctx. register_site clock ctx sit) \<in> publications"
| accelerator_class: "(\<lambda>ctx. register_accelerator_class clock ctx acc) \<in> publications"
| runtime: "(\<lambda>ctx. register_runtime clock ctx run) \<in> publications"
| backend: "(\<lambda>ctx. register_backend clock ctx bac) \<in> publications"
| domain: "(\<lambda>ctx. register_domain clock ctx domn) \<in> publications"
| policy: "(\<lambda>ctx. register_policy clock ctx pol) \<in> publications"
| artifact: "(\<lambda>ctx. register_artifact clock ctx art) \<in> publications"
| workload_class: "(\<lambda>ctx. register_workload_class clock ctx wlc) \<in> publications"
| workload: "(\<lambda>ctx. register_workload clock ctx wl) \<in> publications"
| cluster: "(\<lambda>ctx. register_cluster clock ctx clu) \<in> publications"
| retirement: "retire_cluster clock k cluster_generation reason \<in> publications"
| capability: "publish_capability clock k cluster_generation capability_generation caps \<in> publications"
| capacity: "publish_capacity clock k cluster_generation capacity_generation pools \<in> publications"
| placement: "publish_placement clock pla \<in> publications"
| migration: "publish_migration clock mig \<in> publications"
| stage: "publish_migration_stage clock m migration_generation stg detail \<in> publications"
| portability: "publish_portability clock por \<in> publications"

lemma publication_gated: "op \<in> publications \<Longrightarrow> gated_operation op"
  by (erule publications.cases; hypsubst)
     (rule federation_gate.gated_operation_axioms site_gate.gated_operation_axioms
        accelerator_class_gate.gated_operation_axioms runtime_gate.gated_operation_axioms
        backend_gate.gated_operation_axioms domain_gate.gated_operation_axioms
        policy_gate.gated_operation_axioms artifact_gate.gated_operation_axioms
        workload_class_gate.gated_operation_axioms workload_gate.gated_operation_axioms
        cluster_gate.gated_operation_axioms retire_gate.gated_operation_axioms
        capability_gate.gated_operation_axioms capacity_gate.gated_operation_axioms
        placement_gate.gated_operation_axioms migration_gate.gated_operation_axioms
        stage_gate.gated_operation_axioms portability_gate.gated_operation_axioms)+

inductive engine_step :: "Observatory \<Rightarrow> Observatory \<Rightarrow> bool" where
  publication: "op \<in> publications \<Longrightarrow> engine_step ob (snd (op ctx ob))"
| registration: "engine_step ob (snd (register_publisher clock ctx ob))"
| fencing: "engine_step ob (snd (fence_publisher publisher boot reason ob))"
| observation: "engine_step ob (count_snapshot ob)"

inductive reachable_from :: "Observatory \<Rightarrow> Observatory \<Rightarrow> bool" where
  refl: "reachable_from ob ob"
| step: "reachable_from ob ob1 \<Longrightarrow> engine_step ob1 ob2 \<Longrightarrow> reachable_from ob ob2"

inductive_cases engine_stepE: "engine_step ob ob'"

section \<open>Publisher authority over time\<close>

text \<open>How an authority record may change: fences stay, watermarks do not move back.\<close>

definition authority_kept :: "Observatory \<Rightarrow> Observatory \<Rightarrow> bool" where
  "authority_kept ob ob' \<longleftrightarrow>
     (\<forall>k a. smap_find (ob_publishers ob) k = Some a \<longrightarrow>
        (\<exists>a'. smap_find (ob_publishers ob') k = Some a' \<and> pau_watermark a \<le> pau_watermark a' \<and>
              (pau_fenced a \<longrightarrow> pau_fenced a')))"

lemma authority_kept_refl [simp]: "authority_kept ob ob"
  by (simp add: authority_kept_def)

lemma authority_kept_trans: "authority_kept a b \<Longrightarrow> authority_kept b c \<Longrightarrow> authority_kept a c"
  unfolding authority_kept_def by (meson order_trans)

lemma authority_kept_put:
  "ob_publishers ob' = smap_put k a' (ob_publishers ob) \<Longrightarrow>
     (\<And>a. smap_find (ob_publishers ob) k = Some a \<Longrightarrow>
        pau_watermark a \<le> pau_watermark a' \<and> (pau_fenced a \<longrightarrow> pau_fenced a')) \<Longrightarrow>
     authority_kept ob ob'"
  by (auto simp: authority_kept_def stdmap.find_put)

lemma finish_publishers:
  "\<exists>a'. ob_publishers (snd (finish now ctx (k, a) disp detail ob)) = smap_put k a' (ob_publishers ob) \<and>
     pau_watermark a \<le> pau_watermark a' \<and> pau_fenced a' = pau_fenced a"
  by (cases disp) (auto simp: finish_def Let_def)

lemma register_publisher_kept: "authority_kept ob (snd (register_publisher clock ctx ob))"
proof (cases "PublicationContext_validate ctx")
  case Success
  show ?thesis
  proof (cases "smap_find (ob_publishers ob) (ctx_key ctx)")
    case None
    then show ?thesis
      by (auto simp: register_publisher_def Success Let_def authority_kept_def stdmap.find_put)
  next
    case (Some a)
    have fin: "authority_kept ob (snd (finish now ctx (ctx_key ctx,
        a\<lparr>pau_live := True, pau_epoch := e, pau_federation := f, pau_evidence_class := c\<rparr>) disp detail ob))"
      for now disp detail e f c
      using finish_publishers [of now ctx "ctx_key ctx"
          "a\<lparr>pau_live := True, pau_epoch := e, pau_federation := f, pau_evidence_class := c\<rparr>" disp detail ob] Some
      by (auto intro: authority_kept_put)
    have ref: "authority_kept ob (snd (refuse c d (Some (ctx_key ctx, a)) f ob2))"
      if "ob_publishers ob2 = ob_publishers ob" for c d f ob2
      using Some that by (intro authority_kept_put [OF refuse_publishers(1) [of _ _ _ _ _ ob2, unfolded that]]) simp
    show ?thesis
      by (simp add: register_publisher_def Success Let_def Some fin ref)
  qed
qed (simp add: register_publisher_def)

lemma fence_publisher_kept: "authority_kept ob (snd (fence_publisher publisher boot reason ob))"
  by (auto simp: fence_publisher_def Let_def authority_kept_def stdmap.find_put split: option.splits)

lemma count_snapshot_kept: "authority_kept ob (count_snapshot ob)"
  by (simp add: authority_kept_def count_snapshot_def)

lemma engine_step_kept:
  assumes "engine_step ob ob'"
  shows "authority_kept ob ob'"
  using assms
proof (cases rule: engine_step.cases)
  case (publication op ctx)
  then show ?thesis
    using gated_operation.publishers_after(2) [OF publication_gated]
    unfolding authority_kept_def by metis
qed (simp_all add: register_publisher_kept fence_publisher_kept count_snapshot_kept)

lemma reachable_kept: "reachable_from ob ob' \<Longrightarrow> authority_kept ob ob'"
  by (induction rule: reachable_from.induct) (auto intro: authority_kept_trans engine_step_kept)

text \<open>
  Property C2. Once a boot identity has been fenced, then in every state the engine reaches by any
  further operations each publication under that identity is refused as fenced, changing nothing but
  counters, a renewed registration is refused too, and the identity is never reported live.
\<close>

theorem fenced_forever:
  assumes "fence_publisher publisher boot reason ob = (Success, ob1)" and "reachable_from ob1 ob2"
    and "op \<in> publications" and "ctx_key ctx = (publisher, boot)"
    and "PublicationContext_validate ctx = Success"
  shows "(\<exists>e. fst (op ctx ob2) = Inl e \<and> error_code e = FencedPublisher) \<and> same_content ob2 (snd (op ctx ob2)) \<and>
     (\<exists>e. fst (register_publisher clock ctx ob2) = Inl e \<and> error_code e = FencedPublisher) \<and>
     \<not> publisher_is_live publisher boot ob2"
proof -
  have "\<exists>a. smap_find (ob_publishers ob1) (publisher, boot) = Some a \<and> pau_fenced a"
    using assms(1)
    by (auto simp: fence_publisher_def Let_def stdmap.find_put split: if_splits option.splits)
  then obtain a where a: "smap_find (ob_publishers ob2) (publisher, boot) = Some a" "pau_fenced a"
    using reachable_kept [OF assms(2)] unfolding authority_kept_def by blast
  have "(\<exists>e. fst (op ctx ob2) = Inl e \<and> error_code e = FencedPublisher) \<and> same_content ob2 (snd (op ctx ob2))"
    using gated_operation.fenced_refused [OF publication_gated [OF assms(3)] assms(5)] a assms(4) by simp
  with a assms(4,5) show ?thesis
    by (simp add: register_publisher_def Let_def publisher_is_live_def)
qed

text \<open>
  Property C3. A publication is accepted only from a registered, unfenced boot identity, under the
  coordinator's current epoch and with a sequence number that is not behind the identity's watermark;
  the watermark reported back is the publication's own sequence number. Along any run watermarks never
  move back and no authority record disappears.
\<close>

theorem accepted_publications_authorised:
  assumes "reachable_from ob0 ob" and "op \<in> publications" and "fst (op ctx ob) = Inr ir"
  shows "\<exists>a. smap_find (ob_publishers ob) (ctx_key ctx) = Some a \<and> \<not> pau_fenced a \<and>
       ctx_coordinator_epoch ctx = ob_coordinator_epoch ob \<and> pau_watermark a \<le> ctx_sequence ctx \<and>
       ir_watermark ir = ctx_sequence ctx \<and>
       (\<forall>a0. smap_find (ob_publishers ob0) (ctx_key ctx) = Some a0 \<longrightarrow> pau_watermark a0 \<le> pau_watermark a)"
  using gated_operation.accepted_authority [OF publication_gated [OF assms(2)] assms(3)]
    reachable_kept [OF assms(1)]
  unfolding authority_kept_def by fastforce

section \<open>The invariant of the stored records\<close>

definition map_ok :: "('k :: linorder, 'v) std_map \<Rightarrow> nat \<Rightarrow> ('k \<Rightarrow> 'v \<Rightarrow> bool) \<Rightarrow> bool" where
  "map_ok m limit P \<longleftrightarrow>
     smap_ok m \<and> smap_size m \<le> limit \<and> (\<forall>k v. smap_find m k = Some v \<longrightarrow> P k v)"

lemma map_ok_put:
  "map_ok m limit P \<Longrightarrow> (smap_find m k = None \<Longrightarrow> smap_size m < limit) \<Longrightarrow> P k v \<Longrightarrow>
     map_ok (smap_put k v m) limit P"
  by (auto simp: map_ok_def stdmap.find_put stdmap.ok_put intro: stdmap.size_put_within)

lemma map_ok_mono: "map_ok m limit P \<Longrightarrow> (\<And>k v. P k v \<Longrightarrow> Q k v) \<Longrightarrow> map_ok m limit Q"
  by (simp add: map_ok_def)

lemma map_ok_transform:
  "map_ok m limit P \<Longrightarrow> (\<And>k v. P k v \<Longrightarrow> P k (f k v)) \<Longrightarrow> map_ok (smap_transform f m) limit P"
  by (auto simp: map_ok_def stdmap.find_transform stdmap.size_transform)

lemma map_ok_find: "map_ok m limit P \<Longrightarrow> smap_find m k = Some v \<Longrightarrow> P k v"
  by (simp add: map_ok_def)

definition pools_ok :: "CapacityPool list \<Rightarrow> bool" where
  "pools_ok ps \<longleftrightarrow>
     length ps \<le> kMaxPoolsPerCluster \<and> distinct (map cp_pool_id ps) \<and>
     (\<forall>p \<in> set ps. \<not> id_empty (cp_pool_id p) \<and> ledger_closes (cp_ledger p) \<and>
        (cp_kind p = ResourceKind_Accelerator \<longrightarrow> \<not> id_empty (cp_accelerator_class p)))"

definition optional_ref :: "('t StrongId, 'v) std_map \<Rightarrow> 't StrongId \<Rightarrow> bool" where
  "optional_ref m i \<longleftrightarrow> id_empty i \<or> smap_has m i"

definition federation_ok :: "FederationId \<Rightarrow> FederationRecord \<Rightarrow> bool" where
  "federation_ok k r \<longleftrightarrow> fr_id r = k \<and> FederationRecord_validate r = Success"

definition site_ok :: "Observatory \<Rightarrow> SiteId \<Rightarrow> SiteRecord \<Rightarrow> bool" where
  "site_ok ob k r \<longleftrightarrow> sr_id r = k \<and> SiteRecord_validate r = Success \<and> smap_has (ob_federations ob) (sr_federation r)"

definition backend_ok :: "Observatory \<Rightarrow> BackendId \<Rightarrow> BackendRecord \<Rightarrow> bool" where
  "backend_ok ob k r \<longleftrightarrow> br_id r = k \<and> BackendRecord_validate r = Success \<and> smap_has (ob_runtimes ob) (br_runtime r)"

definition domain_ok :: "Observatory \<Rightarrow> DomainId \<Rightarrow> DomainRecord \<Rightarrow> bool" where
  "domain_ok ob k r \<longleftrightarrow> dr_id r = k \<and> DomainRecord_validate r = Success \<and>
     smap_has (ob_federations ob) (dr_federation r) \<and> (\<forall>i \<in> set (dr_clusters r). smap_has (ob_clusters ob) i)"

definition workload_ok :: "Observatory \<Rightarrow> WorkloadId \<Rightarrow> WorkloadRecord \<Rightarrow> bool" where
  "workload_ok ob k r \<longleftrightarrow> wr_id r = k \<and> WorkloadRecord_validate r = Success \<and>
     smap_has (ob_workload_classes ob) (wr_workload_class r) \<and>
     optional_ref (ob_artifacts ob) (wr_artifact r) \<and> optional_ref (ob_policies ob) (wr_policy r) \<and>
     (\<forall>i \<in> set (wr_acceptable_accelerator_classes r). smap_has (ob_accelerator_classes ob) i)"

text \<open>
  The capacity pools of a cluster are checked one by one when they are published; a custom pool
  without a name is let through, so the validity of the whole record is stated without its pools.
\<close>

definition cluster_ok :: "Observatory \<Rightarrow> ClusterId \<Rightarrow> ClusterRecord \<Rightarrow> bool" where
  "cluster_ok ob k r \<longleftrightarrow> clr_id r = k \<and> ClusterRecord_validate (r\<lparr>clr_capacity_pools := []\<rparr>) = Success \<and>
     pools_ok (clr_capacity_pools r) \<and>
     smap_has (ob_federations ob) (clr_federation r) \<and> smap_has (ob_sites ob) (clr_site r) \<and>
     optional_ref (ob_domains ob) (clr_domain r) \<and>
     (\<forall>i \<in> set (clr_accelerator_classes r). smap_has (ob_accelerator_classes ob) i) \<and>
     (\<forall>i \<in> set (clr_runtimes r). smap_has (ob_runtimes ob) i) \<and>
     (\<forall>i \<in> set (clr_backends r). smap_has (ob_backends ob) i)"

definition placement_ok :: "Observatory \<Rightarrow> PlacementId \<Rightarrow> PlacementRecord \<Rightarrow> bool" where
  "placement_ok ob k r \<longleftrightarrow> plr_id r = k \<and> PlacementRecord_validate r = Success \<and>
     smap_has (ob_workloads ob) (plr_workload r) \<and> smap_has (ob_clusters ob) (plr_selected r) \<and>
     (\<forall>c \<in> set (plr_candidates r). smap_has (ob_clusters ob) (co_cluster c))"

text \<open>A stage event may leave the outcome of a migration behind its stage, so only the history is kept.\<close>

definition migration_ok :: "Observatory \<Rightarrow> MigrationId \<Rightarrow> MigrationRecord \<Rightarrow> bool" where
  "migration_ok ob k r \<longleftrightarrow> mr_id r = k \<and> history_ok r \<and> mr_source r \<noteq> mr_destination r \<and>
     smap_has (ob_workloads ob) (mr_workload r) \<and>
     smap_has (ob_clusters ob) (mr_source r) \<and> smap_has (ob_clusters ob) (mr_destination r)"

definition assessment_ok :: "Observatory \<Rightarrow> PortabilityKey \<Rightarrow> PortabilityAssessment \<Rightarrow> bool" where
  "assessment_ok ob k r \<longleftrightarrow> (pa_workload r, pa_destination r) = k \<and> PortabilityAssessment_validate r = Success \<and>
     smap_has (ob_workloads ob) (pa_workload r) \<and> smap_has (ob_clusters ob) (pa_destination r)"

text \<open>\<open>records_ok ref ob\<close>: the records of \<open>ob\<close> are well-formed with respect to the registrations of \<open>ref\<close>.\<close>

definition records_ok :: "Observatory \<Rightarrow> Observatory \<Rightarrow> bool" where
  "records_ok ref ob \<longleftrightarrow>
     map_ok (ob_federations ob) (max_federations (ob_bounds ob)) federation_ok \<and>
     map_ok (ob_sites ob) (max_sites (ob_bounds ob)) (site_ok ref) \<and>
     map_ok (ob_accelerator_classes ob) (max_accelerator_classes (ob_bounds ob))
       (\<lambda>k r. ar_id r = k \<and> AcceleratorClassRecord_validate r = Success) \<and>
     map_ok (ob_runtimes ob) (max_runtimes (ob_bounds ob)) (\<lambda>k r. rr_id r = k \<and> RuntimeRecord_validate r = Success) \<and>
     map_ok (ob_backends ob) (max_backends (ob_bounds ob)) (backend_ok ref) \<and>
     map_ok (ob_domains ob) (max_domains (ob_bounds ob)) (domain_ok ref) \<and>
     map_ok (ob_policies ob) (max_policies (ob_bounds ob)) (\<lambda>k r. pr_id r = k \<and> PolicyRecord_validate r = Success) \<and>
     map_ok (ob_artifacts ob) (max_artifacts (ob_bounds ob)) (\<lambda>k r. art_id r = k \<and> ArtifactRecord_validate r = Success) \<and>
     map_ok (ob_workload_classes ob) (max_workload_classes (ob_bounds ob))
       (\<lambda>k r. wcr_id r = k \<and> WorkloadClassRecord_validate r = Success) \<and>
     map_ok (ob_workloads ob) (max_workloads (ob_bounds ob)) (workload_ok ref) \<and>
     map_ok (ob_clusters ob) (max_clusters (ob_bounds ob)) (cluster_ok ref) \<and>
     map_ok (ob_placements ob) (max_placement_history (ob_bounds ob)) (placement_ok ref) \<and>
     map_ok (ob_migrations ob) (max_migration_history (ob_bounds ob)) (migration_ok ref) \<and>
     map_ok (ob_portability ob) (max_portability_records (ob_bounds ob)) (assessment_ok ref)"

definition engine_ok :: "Observatory \<Rightarrow> bool" where
  "engine_ok ob \<longleftrightarrow> records_ok ob ob"

text \<open>Registrations are never withdrawn.\<close>

definition extends :: "Observatory \<Rightarrow> Observatory \<Rightarrow> bool" where
  "extends ob ob' \<longleftrightarrow>
     (\<forall>i. smap_has (ob_federations ob) i \<longrightarrow> smap_has (ob_federations ob') i) \<and>
     (\<forall>i. smap_has (ob_sites ob) i \<longrightarrow> smap_has (ob_sites ob') i) \<and>
     (\<forall>i. smap_has (ob_accelerator_classes ob) i \<longrightarrow> smap_has (ob_accelerator_classes ob') i) \<and>
     (\<forall>i. smap_has (ob_runtimes ob) i \<longrightarrow> smap_has (ob_runtimes ob') i) \<and>
     (\<forall>i. smap_has (ob_backends ob) i \<longrightarrow> smap_has (ob_backends ob') i) \<and>
     (\<forall>i. smap_has (ob_domains ob) i \<longrightarrow> smap_has (ob_domains ob') i) \<and>
     (\<forall>i. smap_has (ob_policies ob) i \<longrightarrow> smap_has (ob_policies ob') i) \<and>
     (\<forall>i. smap_has (ob_artifacts ob) i \<longrightarrow> smap_has (ob_artifacts ob') i) \<and>
     (\<forall>i. smap_has (ob_workload_classes ob) i \<longrightarrow> smap_has (ob_workload_classes ob') i) \<and>
     (\<forall>i. smap_has (ob_workloads ob) i \<longrightarrow> smap_has (ob_workloads ob') i) \<and>
     (\<forall>i. smap_has (ob_clusters ob) i \<longrightarrow> smap_has (ob_clusters ob') i)"

lemma extends_mono:
  assumes "extends ob ob'"
  shows "site_ok ob k s \<Longrightarrow> site_ok ob' k s" "backend_ok ob l b \<Longrightarrow> backend_ok ob' l b"
    "domain_ok ob m d \<Longrightarrow> domain_ok ob' m d" "workload_ok ob n w \<Longrightarrow> workload_ok ob' n w"
    "cluster_ok ob i c \<Longrightarrow> cluster_ok ob' i c" "placement_ok ob p pl \<Longrightarrow> placement_ok ob' p pl"
    "migration_ok ob q mi \<Longrightarrow> migration_ok ob' q mi" "assessment_ok ob x a \<Longrightarrow> assessment_ok ob' x a"
  using assms unfolding extends_def site_ok_def backend_ok_def domain_ok_def workload_ok_def cluster_ok_def
    placement_ok_def migration_ok_def assessment_ok_def optional_ref_def by auto

lemma records_ok_extends: "records_ok ob ob2 \<Longrightarrow> extends ob ob' \<Longrightarrow> records_ok ob' ob2"
  unfolding records_ok_def
  by (auto elim: map_ok_mono intro: extends_mono)

lemma engine_okI: "records_ok ob ob' \<Longrightarrow> extends ob ob' \<Longrightarrow> engine_ok ob'"
  unfolding engine_ok_def by (rule records_ok_extends)

lemma engine_ok_content:
  assumes "same_content ob ob'"
  shows "engine_ok ob' \<longleftrightarrow> engine_ok ob"
  unfolding engine_ok_def records_ok_def site_ok_def backend_ok_def domain_ok_def workload_ok_def cluster_ok_def
    placement_ok_def migration_ok_def assessment_ok_def optional_ref_def
  by (simp add: same_contentD [OF assms])

section \<open>Properties of the content of the state\<close>

text \<open>
  A property of the stored content that the counters, the publisher bookkeeping and the snapshot
  generation do not touch is kept by every way an operation can end; what is left to prove of an
  operation is the property of the states in which it stored something.
\<close>

locale content_property =
  fixes P :: "Observatory \<Rightarrow> bool"
  assumes content: "same_content ob ob' \<Longrightarrow> P ob' \<longleftrightarrow> P ob"
    and snapshot [fo_keeps]: "P ob \<Longrightarrow> P (next_snapshot ob)"
begin

lemma keeps_counters [fo_keeps]:
  "P ob \<Longrightarrow> P (count_regression ob)" "P ob \<Longrightarrow> P (count_bounds_rejection ob)"
  "P ob \<Longrightarrow> P (ob\<lparr>ob_stats := st\<rparr>)" "P ob \<Longrightarrow> P (put_authority r ob)"
  using content same_content_counters by blast+

lemma keeps_count_snapshot: "P ob \<Longrightarrow> P (count_snapshot ob)"
  unfolding count_snapshot_def by (rule keeps_counters)

lemma keeps_refuse [fo_keeps]: "P ob \<Longrightarrow> P (snd (refuse c d r f ob))"
  using content refuse_content by blast

lemma keeps_finish [fo_keeps]: "P ob \<Longrightarrow> P (snd (finish now ctx r disp detail ob))"
  using content finish_content by blast

lemma keeps_if [fo_keeps]:
  "(b \<Longrightarrow> P (snd x)) \<Longrightarrow> (\<not> b \<Longrightarrow> P (snd y)) \<Longrightarrow> P (snd (if b then x else y))"
  by simp

lemma keeps_option [fo_keeps]:
  "(m = None \<Longrightarrow> P (snd x)) \<Longrightarrow> (\<And>v. m = Some v \<Longrightarrow> P (snd (y v))) \<Longrightarrow>
     P (snd (case m of None \<Rightarrow> x | Some v \<Rightarrow> y v))"
  by (cases m) simp_all

lemma keeps_status [fo_keeps]:
  "(m = Success \<Longrightarrow> P (snd x)) \<Longrightarrow> (\<And>e. m = Failure e \<Longrightarrow> P (snd (y e))) \<Longrightarrow>
     P (snd (case m of Success \<Rightarrow> x | Failure e \<Rightarrow> y e))"
  by (cases m) simp_all

lemma keeps_federation [fo_keeps]: "P ob \<Longrightarrow> P (snd x) \<Longrightarrow> P (snd (with_federation ctx r ob x))"
  unfolding with_federation_def by (rule keeps_status) (auto intro: keeps_refuse)

lemma keeps_gate [fo_keeps]:
  assumes "P ob" and "\<And>r d. P (snd (body r d ob))"
  shows "P (snd (with_authority ctx ob body))"
proof (cases "check_authority ctx ob")
  case (Pair gate ob')
  show ?thesis
  proof (cases gate)
    case (Inl e)
    with Pair check_authority_Inl [of ctx ob e ob'] assms(1) show ?thesis
      by (auto simp: with_authority_def content)
  next
    case (Inr rd)
    with Pair check_authority_Inr [of ctx ob "fst rd" "snd rd" ob'] assms(2) show ?thesis
      by (simp add: with_authority_def case_prod_beta)
  qed
qed

lemma register_publisher_keeps: "P ob \<Longrightarrow> P (snd (register_publisher clock ctx ob))"
  unfolding register_publisher_def Let_def
  by (auto intro!: keeps_if keeps_option keeps_status keeps_refuse keeps_finish keeps_counters snapshot)

end

context structural_kind
begin

lemma register_keeps:
  assumes "content_property P" and "P ob"
    and "\<lbrakk>sk_validate K record = Success; extra ob record = Success;
       \<And>stored. smap_find (sk_map K ob) (sk_id K record) = Some stored \<Longrightarrow>
         \<not> newer_than (sk_generation K stored) (sk_generation K record);
       smap_find (sk_map K ob) (sk_id K record) = None \<Longrightarrow> smap_size (sk_map K ob) < limit (ob_bounds ob)\<rbrakk> \<Longrightarrow>
       P (stored_as K clock ctx record ob)"
  shows "P (snd (register_structural K extra limit clock ctx record ob))"
proof (cases "register_structural K extra limit clock ctx record ob")
  case (Pair res ob')
  from register_cases [OF Pair] show ?thesis
    using assms(2,3) content_property.content [OF assms(1)] by (auto simp: Pair split: option.splits)
qed

end

section \<open>Registrations keep the invariant\<close>

interpretation engine_ok: content_property engine_ok
proof
  show "engine_ok ob \<Longrightarrow> engine_ok (next_snapshot ob)" for ob
    by (rule engine_okI [of ob]) (simp_all add: engine_ok_def records_ok_def extends_def)
qed (rule engine_ok_content)

lemma extends_refl [simp]: "extends ob ob"
  by (simp add: extends_def)

lemmas extra_defs = checks_Success first_failure_Success unregistered_def

lemma register_federation_ok: "engine_ok ob \<Longrightarrow> engine_ok (snd (register_federation clock ctx r ob))"
  unfolding register_federation_def
proof (rule federation_reg.register_keeps [OF engine_ok.content_property_axioms])
  assume "engine_ok ob" and "sk_validate federation_kind r = Success" and "no_extra_check ob r = Success"
    and "smap_find (sk_map federation_kind ob) (sk_id federation_kind r) = None \<Longrightarrow>
      smap_size (sk_map federation_kind ob) < max_federations (ob_bounds ob)"
  then show "engine_ok (stored_as federation_kind clock ctx r ob)"
    by (intro engine_okI [of ob])
       (auto simp: engine_ok_def records_ok_def extends_def stored_as_def federation_kind_def stdmap.find_put federation_ok_def 
         FederationRecord_validate_def extra_defs simp del: checks_simps intro!: map_ok_put)
qed

lemma register_site_ok: "engine_ok ob \<Longrightarrow> engine_ok (snd (register_site clock ctx r ob))"
  unfolding register_site_def
proof (rule site_reg.register_keeps [OF engine_ok.content_property_axioms])
  assume "engine_ok ob" and "sk_validate site_kind r = Success" and "site_extra ob r = Success"
    and "smap_find (sk_map site_kind ob) (sk_id site_kind r) = None \<Longrightarrow>
      smap_size (sk_map site_kind ob) < max_sites (ob_bounds ob)"
  then show "engine_ok (stored_as site_kind clock ctx r ob)"
    by (intro engine_okI [of ob])
       (auto simp: engine_ok_def records_ok_def extends_def stored_as_def site_kind_def stdmap.find_put site_ok_def site_extra_def
         SiteRecord_validate_def extra_defs simp del: checks_simps intro!: map_ok_put)
qed

lemma register_accelerator_class_ok: "engine_ok ob \<Longrightarrow> engine_ok (snd (register_accelerator_class clock ctx r ob))"
  unfolding register_accelerator_class_def
proof (rule accelerator_class_reg.register_keeps [OF engine_ok.content_property_axioms])
  assume "engine_ok ob" and "sk_validate accelerator_class_kind r = Success" and "no_extra_check ob r = Success"
    and "smap_find (sk_map accelerator_class_kind ob) (sk_id accelerator_class_kind r) = None \<Longrightarrow>
      smap_size (sk_map accelerator_class_kind ob) < max_accelerator_classes (ob_bounds ob)"
  then show "engine_ok (stored_as accelerator_class_kind clock ctx r ob)"
    by (intro engine_okI [of ob])
       (auto simp: engine_ok_def records_ok_def extends_def stored_as_def accelerator_class_kind_def stdmap.find_put  
         AcceleratorClassRecord_validate_def extra_defs simp del: checks_simps intro!: map_ok_put)
qed

lemma register_runtime_ok: "engine_ok ob \<Longrightarrow> engine_ok (snd (register_runtime clock ctx r ob))"
  unfolding register_runtime_def
proof (rule runtime_reg.register_keeps [OF engine_ok.content_property_axioms])
  assume "engine_ok ob" and "sk_validate runtime_kind r = Success" and "no_extra_check ob r = Success"
    and "smap_find (sk_map runtime_kind ob) (sk_id runtime_kind r) = None \<Longrightarrow>
      smap_size (sk_map runtime_kind ob) < max_runtimes (ob_bounds ob)"
  then show "engine_ok (stored_as runtime_kind clock ctx r ob)"
    by (intro engine_okI [of ob])
       (auto simp: engine_ok_def records_ok_def extends_def stored_as_def runtime_kind_def stdmap.find_put  
         RuntimeRecord_validate_def extra_defs simp del: checks_simps intro!: map_ok_put)
qed

lemma register_backend_ok: "engine_ok ob \<Longrightarrow> engine_ok (snd (register_backend clock ctx r ob))"
  unfolding register_backend_def
proof (rule backend_reg.register_keeps [OF engine_ok.content_property_axioms])
  assume "engine_ok ob" and "sk_validate backend_kind r = Success" and "backend_extra ob r = Success"
    and "smap_find (sk_map backend_kind ob) (sk_id backend_kind r) = None \<Longrightarrow>
      smap_size (sk_map backend_kind ob) < max_backends (ob_bounds ob)"
  then show "engine_ok (stored_as backend_kind clock ctx r ob)"
    by (intro engine_okI [of ob])
       (auto simp: engine_ok_def records_ok_def extends_def stored_as_def backend_kind_def stdmap.find_put backend_ok_def backend_extra_def
         BackendRecord_validate_def extra_defs simp del: checks_simps intro!: map_ok_put)
qed

lemma register_domain_ok: "engine_ok ob \<Longrightarrow> engine_ok (snd (register_domain clock ctx r ob))"
  unfolding register_domain_def
proof (rule domain_reg.register_keeps [OF engine_ok.content_property_axioms])
  assume "engine_ok ob" and "sk_validate domain_kind r = Success" and "domain_extra ob r = Success"
    and "smap_find (sk_map domain_kind ob) (sk_id domain_kind r) = None \<Longrightarrow>
      smap_size (sk_map domain_kind ob) < max_domains (ob_bounds ob)"
  then show "engine_ok (stored_as domain_kind clock ctx r ob)"
    by (intro engine_okI [of ob])
       (auto simp: engine_ok_def records_ok_def extends_def stored_as_def domain_kind_def stdmap.find_put domain_ok_def domain_extra_def
         DomainRecord_validate_def extra_defs simp del: checks_simps intro!: map_ok_put)
qed

lemma register_policy_ok: "engine_ok ob \<Longrightarrow> engine_ok (snd (register_policy clock ctx r ob))"
  unfolding register_policy_def
proof (rule policy_reg.register_keeps [OF engine_ok.content_property_axioms])
  assume "engine_ok ob" and "sk_validate policy_kind r = Success" and "no_extra_check ob r = Success"
    and "smap_find (sk_map policy_kind ob) (sk_id policy_kind r) = None \<Longrightarrow>
      smap_size (sk_map policy_kind ob) < max_policies (ob_bounds ob)"
  then show "engine_ok (stored_as policy_kind clock ctx r ob)"
    by (intro engine_okI [of ob])
       (auto simp: engine_ok_def records_ok_def extends_def stored_as_def policy_kind_def stdmap.find_put  
         PolicyRecord_validate_def extra_defs simp del: checks_simps intro!: map_ok_put)
qed

lemma register_artifact_ok: "engine_ok ob \<Longrightarrow> engine_ok (snd (register_artifact clock ctx r ob))"
  unfolding register_artifact_def
proof (rule artifact_reg.register_keeps [OF engine_ok.content_property_axioms])
  assume "engine_ok ob" and "sk_validate artifact_kind r = Success" and "no_extra_check ob r = Success"
    and "smap_find (sk_map artifact_kind ob) (sk_id artifact_kind r) = None \<Longrightarrow>
      smap_size (sk_map artifact_kind ob) < max_artifacts (ob_bounds ob)"
  then show "engine_ok (stored_as artifact_kind clock ctx r ob)"
    by (intro engine_okI [of ob])
       (auto simp: engine_ok_def records_ok_def extends_def stored_as_def artifact_kind_def stdmap.find_put  
         ArtifactRecord_validate_def extra_defs simp del: checks_simps intro!: map_ok_put)
qed

lemma register_workload_class_ok: "engine_ok ob \<Longrightarrow> engine_ok (snd (register_workload_class clock ctx r ob))"
  unfolding register_workload_class_def
proof (rule workload_class_reg.register_keeps [OF engine_ok.content_property_axioms])
  assume "engine_ok ob" and "sk_validate workload_class_kind r = Success" and "no_extra_check ob r = Success"
    and "smap_find (sk_map workload_class_kind ob) (sk_id workload_class_kind r) = None \<Longrightarrow>
      smap_size (sk_map workload_class_kind ob) < max_workload_classes (ob_bounds ob)"
  then show "engine_ok (stored_as workload_class_kind clock ctx r ob)"
    by (intro engine_okI [of ob])
       (auto simp: engine_ok_def records_ok_def extends_def stored_as_def workload_class_kind_def stdmap.find_put  
         WorkloadClassRecord_validate_def extra_defs simp del: checks_simps intro!: map_ok_put)
qed

lemma register_workload_ok: "engine_ok ob \<Longrightarrow> engine_ok (snd (register_workload clock ctx r ob))"
  unfolding register_workload_def
proof (rule workload_reg.register_keeps [OF engine_ok.content_property_axioms])
  assume "engine_ok ob" and "sk_validate workload_kind r = Success" and "workload_extra ob r = Success"
    and "smap_find (sk_map workload_kind ob) (sk_id workload_kind r) = None \<Longrightarrow>
      smap_size (sk_map workload_kind ob) < max_workloads (ob_bounds ob)"
  then show "engine_ok (stored_as workload_kind clock ctx r ob)"
    by (intro engine_okI [of ob])
       (auto simp: engine_ok_def records_ok_def extends_def stored_as_def workload_kind_def stdmap.find_put workload_ok_def optional_ref_def workload_extra_def
         WorkloadRecord_validate_def extra_defs simp del: checks_simps intro!: map_ok_put)
qed


end
