(* ===== verification/FO_Reachable.thy ===== *)
theory FO_Reachable
  imports FO_Invariants
begin

text \<open>
  The dynamic publications, retirements and fences keep the invariant of the stored records, so it
  holds in every state the engine reaches; and what a run can never do: change content through a
  refused operation, or move the generation of a cluster back.
\<close>

section \<open>Publications keep the invariant\<close>

lemma engine_ok_put_cluster [fo_keeps]:
  "engine_ok ob \<Longrightarrow> smap_find (ob_clusters ob) k = Some r \<Longrightarrow> cluster_ok ob k r' \<Longrightarrow> engine_ok (put_cluster k r' ob)"
  by (rule engine_okI [of ob])
     (auto simp: engine_ok_def records_ok_def extends_def put_cluster_def stdmap.find_put intro!: map_ok_put)

lemma engine_ok_cluster: "engine_ok ob \<Longrightarrow> smap_find (ob_clusters ob) k = Some r \<Longrightarrow> cluster_ok ob k r"
  by (auto simp: engine_ok_def records_ok_def elim: map_ok_find)

lemma gen_next_set [simp]: "is_set (gen_next g)"
  by (auto simp: gen_next_def is_set_def add_eq_0_iff2 split: if_splits)

lemma cluster_validate_frame:
  "ClusterRecord_validate (r\<lparr>clr_readiness := a, clr_currentness := b, clr_stamp := c, clr_evidence := d,
     clr_capacity_generation := e, clr_evidence_generation := f, clr_capability_generation := g\<rparr>) = ClusterRecord_validate r"
  by (simp add: ClusterRecord_validate_def)

lemma retire_cluster_ok:
  assumes "engine_ok ob"
  shows "engine_ok (snd (retire_cluster clock k g reason ctx ob))"
  unfolding retire_cluster_def Let_def put_cluster_def [symmetric]
proof (intro fo_keeps assms)
  fix r assume "smap_find (ob_clusters ob) k = Some r"
  then have r: "cluster_ok ob k r" using assms by (rule engine_ok_cluster [rotated])
  show "cluster_ok ob k
      (r\<lparr>clr_generation := if is_set g then g else gen_next (clr_generation r), clr_currentness := Currentness_Retired,
         clr_readiness := Readiness_Retired, clr_capacity_generation := gen_next (clr_capacity_generation r),
         clr_stamp := stamp_for (clock 0) ctx, clr_evidence := ev\<rparr>)" for ev
    using r by (auto simp: cluster_ok_def ClusterRecord_validate_def checks_Success first_failure_Success simp del: checks_simps)
qed assumption+

lemma register_cluster_ok:
  assumes "engine_ok ob"
  shows "engine_ok (snd (register_cluster clock ctx record ob))"
proof -
  obtain res ob2 where out: "register_cluster clock ctx record ob = (res, ob2)" by fastforce
  then obtain ob1 where ob1: "register_structural cluster_kind cluster_extra max_clusters clock ctx record ob = (res, ob1)"
    and ob2: "ob2 = ob1 \<or> (\<exists>r previous. smap_find (ob_clusters ob1) (clr_id record) = Some r \<and>
       ob2 = next_snapshot (put_cluster (clr_id record) (clear_dynamic previous (clr_generation record) r) ob1))"
    by (rule register_cluster_cases) (auto simp: put_cluster_def)
  have "engine_ok (snd (register_structural cluster_kind cluster_extra max_clusters clock ctx record ob))"
  proof (rule cluster_reg.register_keeps [OF engine_ok.content_property_axioms assms])
    assume h: "sk_validate cluster_kind record = Success" "cluster_extra ob record = Success"
      "smap_find (sk_map cluster_kind ob) (sk_id cluster_kind record) = None \<Longrightarrow>
        smap_size (sk_map cluster_kind ob) < max_clusters (ob_bounds ob)"
    have "cluster_ok ob (clr_id record) (record\<lparr>clr_currentness := Currentness_Current, clr_stamp := st\<rparr>)" for st
      using h(1,2)
      by (auto simp: cluster_kind_def cluster_ok_def pools_ok_def optional_ref_def ClusterRecord_validate_def cluster_extra_def
          extra_defs pool_check_Success has_duplicates_iff simp del: checks_simps)
    then show "engine_ok (stored_as cluster_kind clock ctx record ob)"
      using assms h(3)
      by (intro engine_okI [of ob])
         (auto simp: engine_ok_def records_ok_def extends_def stored_as_def cluster_kind_def stdmap.find_put
           intro!: map_ok_put)
  qed
  then have ok1: "engine_ok ob1" by (simp add: ob1)
  have "cluster_ok ob1 k (clear_dynamic p g r)" if "cluster_ok ob1 k r" for k p g r
    using that by (auto simp: cluster_ok_def clear_dynamic_def ClusterRecord_validate_def pools_ok_def)
  with ok1 have "engine_ok ob2"
    using ob2 by (auto intro!: fo_keeps dest: engine_ok_cluster)
  then show ?thesis by (simp add: out)
qed

lemma raise_generation_ok: "cluster_ok ob k r \<Longrightarrow> cluster_ok ob k (raise_generation g r)"
  by (auto simp: raise_generation_def cluster_ok_def ClusterRecord_validate_def checks_Success simp del: checks_simps)

lemma raise_generation_pools [simp]: "clr_capacity_pools (raise_generation g r) = clr_capacity_pools r"
  by (simp add: raise_generation_def)

lemma publish_capability_ok:
  assumes "engine_ok ob"
  shows "engine_ok (snd (publish_capability clock k cg g caps ctx ob))"
  unfolding publish_capability_def Let_def
proof (intro fo_keeps assms; (assumption)?)
  fix r assume "smap_find (ob_clusters ob) k = Some r"
  then have r: "cluster_ok ob k (raise_generation cg r)"
    using assms by (intro raise_generation_ok) (rule engine_ok_cluster)
  then show "cluster_ok ob k (raise_generation cg r)" .
  assume "\<not> list_ex (\<lambda>entry. \<not> CapabilityRef_valid (ce_key entry)) (cset_entries caps)"
  with r show "cluster_ok ob k
      ((raise_generation cg r)\<lparr>clr_capabilities := caps, clr_capability_generation := g,
         clr_evidence_generation := ctx_evidence_generation ctx, clr_currentness := Currentness_Current,
         clr_stamp := stamp_for (clock 0) ctx\<rparr>)"
    by (auto simp: cluster_ok_def ClusterRecord_validate_def checks_Success first_failure_Success list_ex_iff
        simp del: checks_simps)
qed

lemma accept_pool_simps [simp]:
  "cp_pool_id (accept_pool ctx b g p) = cp_pool_id p" "cp_ledger (accept_pool ctx b g p) = cp_ledger p"
  "cp_kind (accept_pool ctx b g p) = cp_kind p" "cp_accelerator_class (accept_pool ctx b g p) = cp_accelerator_class p"
  by (simp_all add: accept_pool_def)

lemma capacity_pool_refusal_Success:
  "capacity_pool_refusal ob p = Success \<Longrightarrow>
     \<not> id_empty (cp_pool_id p) \<and> ledger_closes (cp_ledger p) \<and>
     (cp_kind p = ResourceKind_Accelerator \<longrightarrow> \<not> id_empty (cp_accelerator_class p)) \<and>
     optional_ref (ob_accelerator_classes ob) (cp_accelerator_class p)"
  by (cases "CapacityLedger_validate (cp_ledger p)")
     (auto simp: capacity_pool_refusal_def checks_Success CapacityLedger_validate_iff [symmetric]
       optional_ref_def unregistered_def simp del: checks_simps)

lemma accepted_pools_ok:
  assumes "first_failure (capacity_pool_refusal ob) pools = Success" and "\<not> has_duplicates (map cp_pool_id pools)"
    and "length pools \<le> kMaxPoolsPerCluster"
  shows "pools_ok (stable_sort CapacityPool_less (map (accept_pool ctx b g) pools))"
proof -
  have "\<forall>p \<in> set pools. \<not> id_empty (cp_pool_id p) \<and> ledger_closes (cp_ledger p) \<and>
      (cp_kind p = ResourceKind_Accelerator \<longrightarrow> \<not> id_empty (cp_accelerator_class p))"
    using assms(1) by (auto simp: first_failure_Success dest!: capacity_pool_refusal_Success)
  moreover have "distinct (map cp_pool_id (stable_sort CapacityPool_less (map (accept_pool ctx b g) pools)))"
    using assms(2) by (simp add: distinct_map_stable_sort has_duplicates_iff comp_def)
  ultimately show ?thesis using assms(3) by (auto simp: pools_ok_def)
qed

lemma publish_capacity_ok:
  assumes "engine_ok ob"
  shows "engine_ok (snd (publish_capacity clock k cg g pools ctx ob))"
  unfolding publish_capacity_def
proof (intro fo_keeps assms; (assumption)?)
  fix r assume "smap_find (ob_clusters ob) k = Some r"
  then have r: "cluster_ok ob k (raise_generation cg r)"
    using assms by (intro raise_generation_ok) (rule engine_ok_cluster)
  assume "first_failure (capacity_pool_refusal ob) pools = Success" "\<not> has_duplicates (map cp_pool_id pools)"
    "\<not> kMaxPoolsPerCluster < length pools"
  then have "pools_ok (stable_sort CapacityPool_less (map (accept_pool ctx (ob_bounds ob) g) pools))"
    by (intro accepted_pools_ok) simp_all
  with r show "cluster_ok ob k
      ((raise_generation cg r)\<lparr>clr_capacity_pools := stable_sort CapacityPool_less (map (accept_pool ctx (ob_bounds ob) g) pools),
         clr_capacity_generation := g, clr_evidence_generation := ctx_evidence_generation ctx,
         clr_currentness := Currentness_Current, clr_stamp := stamp_for (clock 0) ctx\<rparr>)"
    by (auto simp: cluster_ok_def ClusterRecord_validate_def)
qed

lemma candidate_check_frame [simp]:
  "candidate_check (r\<lparr>plr_stamp := st, plr_currentness := c, plr_evidence := e\<rparr>) = candidate_check r"
  by (rule ext) (simp add: candidate_check_def)

lemma engine_ok_store_placement:
  assumes "engine_ok ob" and "PlacementRecord_validate r = Success"
    and "smap_has (ob_workloads ob) (plr_workload r)" "smap_has (ob_clusters ob) (plr_selected r)"
    and "\<forall>c \<in> set (plr_candidates r). smap_has (ob_clusters ob) (co_cluster c)"
    and "smap_size (ob_placements ob) < max_placement_history (ob_bounds ob)"
  shows "engine_ok (store_placement clock ctx r b ob)"
proof -
  have "placement_ok ob (plr_id r) (r\<lparr>plr_stamp := st, plr_currentness := c, plr_evidence := e\<rparr>)" for st c e
    using assms(2-5) by (simp add: placement_ok_def PlacementRecord_validate_def)
  then show ?thesis
    using assms(1,6)
    by (intro engine_okI [of ob])
       (auto simp: engine_ok_def records_ok_def extends_def store_placement_def Let_def intro!: map_ok_put)
qed

lemma publish_placement_ok:
  assumes "engine_ok ob"
  shows "engine_ok (snd (publish_placement clock r ctx ob))"
  unfolding publish_placement_def Let_def refuse_status_def
  by (intro fo_keeps engine_ok_store_placement assms)
     (auto simp: unregistered_def list_ex_iff)

lemma engine_ok_store_migration:
  assumes "engine_ok ob" and "MigrationRecord_validate r = Success"
    and "smap_has (ob_workloads ob) (mr_workload r)" "smap_has (ob_clusters ob) (mr_source r)"
    and "smap_has (ob_clusters ob) (mr_destination r)"
    and "smap_size (ob_migrations ob) < max_migration_history (ob_bounds ob)"
  shows "engine_ok (store_migration clock ctx r ob)"
proof -
  let ?r = "r\<lparr>mr_stamp := stamp_for (clock 0) ctx, mr_currentness := Currentness_Current\<rparr>"
  let ?m = "smap_put (mr_id r) ?r (ob_migrations ob)"
  have new: "migration_ok ob (mr_id r) ?r"
    using assms(2-5) MigrationRecord_validate_history [OF assms(2)] MigrationRecord_validate_ids [OF assms(2)]
    by (simp add: migration_ok_def history_ok_def event_generation_ok_def)
  then have m: "map_ok ?m (max_migration_history (ob_bounds ob)) (migration_ok ob)"
    using assms(1,6) by (intro map_ok_put) (simp_all add: engine_ok_def records_ok_def)
  have stale: "map_ok (smap_put k (p\<lparr>mr_currentness := c\<rparr>) ?m) (max_migration_history (ob_bounds ob)) (migration_ok ob)"
    if "smap_find ?m k = Some p" for k p c
    using map_ok_find [OF m that] that
    by (intro map_ok_put [OF m]) (simp_all add: migration_ok_def history_ok_def event_generation_ok_def)
  show ?thesis
    using assms(1) m stale
    by (intro engine_okI [of ob])
       (auto simp: engine_ok_def records_ok_def extends_def store_migration_def Let_def split: option.split)
qed

lemma publish_migration_ok:
  assumes "engine_ok ob"
  shows "engine_ok (snd (publish_migration clock r ctx ob))"
  unfolding publish_migration_def Let_def refuse_status_def
  by (intro fo_keeps engine_ok_store_migration assms) (auto simp: unregistered_def)

lemma outcome_after_frame [simp]:
  "mr_id (outcome_after s r) = mr_id r" "mr_generation (outcome_after s r) = mr_generation r"
  "mr_stage_events (outcome_after s r) = mr_stage_events r" "mr_stage (outcome_after s r) = mr_stage r"
  "mr_workload (outcome_after s r) = mr_workload r" "mr_source (outcome_after s r) = mr_source r"
  "mr_destination (outcome_after s r) = mr_destination r"
  by (cases s; simp)+

lemma append_stage_history:
  assumes "history_ok r" and "is_set g" "\<not> newer_than g (mr_generation r)"
    and "case last_event r of None \<Rightarrow> True | Some l \<Rightarrow> mse_sequence l < ctx_sequence ctx"
    and "is_acceptable_migration_event (mr_stage r) stg"
    and "length (mr_stage_events r) < kMaxStageEventsPerMigration"
  shows "history_ok (append_stage clock ctx g stg detail r)"
  using assms
  by (auto simp: history_ok_def append_stage_def Let_def event_generation_ok_def successively_append_iff
      stage_chain_def last_event_def split: if_splits)

lemma publish_migration_stage_ok:
  assumes "engine_ok ob"
  shows "engine_ok (snd (publish_migration_stage clock m g stg detail ctx ob))"
  unfolding publish_migration_stage_def
proof (intro fo_keeps assms)
  fix r assume r: "smap_find (ob_migrations ob) m = Some r" and gs: "\<not> \<not> is_set g" "\<not> newer_than g (mr_generation r)"
    and l: "\<not> (case last_event r of None \<Rightarrow> False | Some l \<Rightarrow> ctx_sequence ctx \<le> mse_sequence l)"
    and a: "\<not> \<not> is_acceptable_migration_event (mr_stage r) stg"
    and n: "\<not> kMaxStageEventsPerMigration \<le> length (mr_stage_events r)"
  have ok: "migration_ok ob m r" using assms r by (auto simp: engine_ok_def records_ok_def elim: map_ok_find)
  then have "history_ok (append_stage clock ctx g stg detail r)"
    using gs l a n by (intro append_stage_history) (auto simp: migration_ok_def split: option.splits)
  with ok have "migration_ok ob m (append_stage clock ctx g stg detail r)"
    by (simp add: migration_ok_def append_stage_def Let_def)
  then show "engine_ok (ob\<lparr>ob_migrations := smap_put m (append_stage clock ctx g stg detail r) (ob_migrations ob)\<rparr>)"
    using assms r
    by (intro engine_okI [of ob])
       (auto simp: engine_ok_def records_ok_def extends_def intro!: map_ok_put)
qed

lemma publish_portability_ok:
  assumes "engine_ok ob"
  shows "engine_ok (snd (publish_portability clock r ctx ob))"
  unfolding publish_portability_def Let_def refuse_status_def
proof (intro fo_keeps assms)
  assume v: "PortabilityAssessment_validate r = Success" and w: "\<not> unregistered (ob_workloads ob) (pa_workload r)"
    "\<not> unregistered (ob_clusters ob) (pa_destination r)"
    and n: "\<not> (max_portability_records (ob_bounds ob) \<le> smap_size (ob_portability ob) \<and>
      smap_find (ob_portability ob) (pa_workload r, pa_destination r) = None)"
  have "assessment_ok ob (pa_workload r, pa_destination r)
      (r\<lparr>pa_stamp := st, pa_currentness := c, pa_federation := f\<rparr>)" for st c f
    using v w by (simp add: assessment_ok_def unregistered_def PortabilityAssessment_validate_def)
  moreover have "assessment_ok ob (pa_workload r, pa_destination r) (r\<lparr>pa_stamp := st, pa_currentness := c\<rparr>)" for st c
    using v w by (simp add: assessment_ok_def unregistered_def PortabilityAssessment_validate_def)
  ultimately show "engine_ok (ob\<lparr>ob_portability := smap_put (pa_workload r, pa_destination r)
      (r\<lparr>pa_stamp := stamp_for (clock 0) ctx, pa_currentness := Currentness_Current,
         pa_federation := if id_empty (pa_federation r) then ctx_federation ctx else pa_federation r\<rparr>)
      (ob_portability ob)\<rparr>)"
    using assms n
    by (intro engine_okI [of ob])
       (auto simp: engine_ok_def records_ok_def extends_def intro!: map_ok_put)
qed

section \<open>The invariant holds in every reachable state\<close>

lemma publication_ok: "op \<in> publications \<Longrightarrow> engine_ok ob \<Longrightarrow> engine_ok (snd (op ctx ob))"
  by (erule publications.cases)
     (simp_all add: register_federation_ok register_site_ok register_accelerator_class_ok register_runtime_ok
       register_backend_ok register_domain_ok register_policy_ok register_artifact_ok register_workload_class_ok
       register_workload_ok register_cluster_ok retire_cluster_ok publish_capability_ok publish_capacity_ok
       publish_placement_ok publish_migration_ok publish_migration_stage_ok publish_portability_ok)

lemma validate_currentness:
  "FederationRecord_validate (f\<lparr>fr_currentness := c\<rparr>) = FederationRecord_validate f"
  "SiteRecord_validate (s\<lparr>sr_currentness := c\<rparr>) = SiteRecord_validate s"
  "DomainRecord_validate (d\<lparr>dr_currentness := c\<rparr>) = DomainRecord_validate d"
  "ClusterRecord_validate (l\<lparr>clr_currentness := c, clr_capacity_pools := p\<rparr>) = ClusterRecord_validate (l\<lparr>clr_capacity_pools := p\<rparr>)"
  by (simp_all add: FederationRecord_validate_def SiteRecord_validate_def DomainRecord_validate_def
    ClusterRecord_validate_def)

lemma stale_ok:
  "federation_ok kf f \<Longrightarrow> federation_ok kf (stale_if_from key fr_stamp fr_currentness (\<lambda>r. r\<lparr>fr_currentness := c\<rparr>) kf f)"
  "site_ok ob ks s \<Longrightarrow> site_ok ob ks (stale_if_from key sr_stamp sr_currentness (\<lambda>r. r\<lparr>sr_currentness := c\<rparr>) ks s)"
  "domain_ok ob kd d \<Longrightarrow> domain_ok ob kd (stale_if_from key dr_stamp dr_currentness (\<lambda>r. r\<lparr>dr_currentness := c\<rparr>) kd d)"
  "cluster_ok ob kc l \<Longrightarrow> cluster_ok ob kc (stale_if_from key clr_stamp clr_currentness (\<lambda>r. r\<lparr>clr_currentness := c\<rparr>) kc l)"
  by (simp_all add: stale_if_from_def federation_ok_def site_ok_def domain_ok_def cluster_ok_def validate_currentness)

lemma stale_records_ok [fo_keeps]: "engine_ok ob \<Longrightarrow> engine_ok (stale_records_from key ob)"
  by (rule engine_okI [of ob])
     (auto simp: engine_ok_def records_ok_def extends_def stale_records_from_def stdmap.find_transform
       intro!: map_ok_transform stale_ok)

lemma fence_publisher_ok: "engine_ok ob \<Longrightarrow> engine_ok (snd (fence_publisher publisher boot reason ob))"
  unfolding fence_publisher_def Let_def by (auto intro!: fo_keeps split: option.split)

lemma engine_step_ok: "engine_step ob ob' \<Longrightarrow> engine_ok ob \<Longrightarrow> engine_ok ob'"
  by (erule engine_step.cases) (auto simp: publication_ok engine_ok.register_publisher_keeps fence_publisher_ok
      engine_ok.keeps_count_snapshot)

lemma engine_ok_init: "engine_ok (Observatory_init b)"
  by (simp add: engine_ok_def records_ok_def Observatory_init_def map_ok_def smap_ok_def smap_find_def smap_size_def)

lemma reachable_ok: "reachable_from ob ob' \<Longrightarrow> engine_ok ob \<Longrightarrow> engine_ok ob'"
  by (induction rule: reachable_from.induct) (auto intro: engine_step_ok)


end
