(* ===== verification/FO_Conduct.thy ===== *)
theory FO_Conduct
  imports FO_Reachable
begin

text \<open>
  What a publication may change: a refused one and a recognised duplicate leave the stored records as
  they are, generations of stored records never move back, a record published twice is stored once,
  and a migration that has ended stays as it ended.
\<close>

section \<open>Refused and duplicate publications\<close>

text \<open>
  The outcome of an operation that was given state \<open>ob\<close>: nothing changes but counters when it is refused
  or recognised as a duplicate. The one exception is a capability publication refused for an invalid
  key, which has already raised the generation of its cluster.
\<close>

definition raised_only :: "Observatory \<Rightarrow> Observatory \<Rightarrow> bool" where
  "raised_only ob ob' \<longleftrightarrow>
     (\<exists>k r g. smap_find (ob_clusters ob) k = Some r \<and> same_content (put_cluster k (raise_generation g r) ob) ob')"

definition quiet :: "Observatory \<Rightarrow> outcome \<Rightarrow> bool" where
  "quiet ob out \<longleftrightarrow>
     (case fst out of
        Inl e \<Rightarrow> same_content ob (snd out) \<or>
                 error_message e = ''capability key is not valid'' \<and> raised_only ob (snd out)
      | Inr ir \<Rightarrow> ir_disposition ir = IngestDisposition_Duplicate \<longrightarrow> same_content ob (snd out))"

lemma quiet_refuse [fo_quiet]: "same_content ob ob1 \<Longrightarrow> quiet ob (refuse c d r f ob1)"
  by (auto simp: quiet_def intro: same_content_trans refuse_content)

lemma quiet_finish [fo_quiet]:
  assumes "disp = IngestDisposition_Duplicate \<Longrightarrow> same_content ob ob1"
  shows "quiet ob (finish now ctx r disp detail ob1)"
proof -
  obtain ir where "fst (finish now ctx r disp detail ob1) = Inr ir" "ir_disposition ir = disp"
    using finish_simps(1) by blast
  then show ?thesis using assms by (auto simp: quiet_def intro: same_content_trans finish_content)
qed

lemma quiet_if [fo_quiet]: "(b \<Longrightarrow> quiet ob x) \<Longrightarrow> (\<not> b \<Longrightarrow> quiet ob y) \<Longrightarrow> quiet ob (if b then x else y)"
  by simp

lemma quiet_option [fo_quiet]:
  "(m = None \<Longrightarrow> quiet ob x) \<Longrightarrow> (\<And>v. m = Some v \<Longrightarrow> quiet ob (y v)) \<Longrightarrow>
     quiet ob (case m of None \<Rightarrow> x | Some v \<Rightarrow> y v)"
  by (cases m) simp_all

lemma quiet_status [fo_quiet]:
  "(m = Success \<Longrightarrow> quiet ob x) \<Longrightarrow> (\<And>e. m = Failure e \<Longrightarrow> quiet ob (y e)) \<Longrightarrow>
     quiet ob (case m of Success \<Rightarrow> x | Failure e \<Rightarrow> y e)"
  by (cases m) simp_all

lemma quiet_federation [fo_quiet]: "quiet ob x \<Longrightarrow> quiet ob (with_federation ctx r ob x)"
  unfolding with_federation_def by (intro fo_quiet) simp_all

lemma quiet_gate [fo_quiet]:
  assumes "\<And>r d. quiet ob (body r d ob)"
  shows "quiet ob (with_authority ctx ob body)"
proof (cases "check_authority ctx ob")
  case (Pair gate ob1)
  show ?thesis
  proof (cases gate)
    case (Inl e)
    with Pair check_authority_Inl [of ctx ob e ob1] show ?thesis by (simp add: with_authority_def quiet_def)
  next
    case (Inr rd)
    with Pair assms check_authority_Inr [of ctx ob "fst rd" "snd rd" ob1] show ?thesis
      by (simp add: with_authority_def split: prod.split)
  qed
qed

lemma quiet_raise: "smap_find (ob_clusters ob) k = Some r \<Longrightarrow>
    quiet ob (refuse c ''capability key is not valid'' a f (put_cluster k (raise_generation g r) ob))"
  by (auto simp: quiet_def raised_only_def intro: refuse_content)

context structural_kind
begin

lemma register_quiet: "quiet ob (register_structural K extra limit clock ctx r ob)"
  using register_cases [of clock ctx r ob] unfolding quiet_def
  by (cases "register_structural K extra limit clock ctx r ob") (fastforce split: sum.split)

end

lemma register_cluster_quiet: "quiet ob (register_cluster clock ctx r ob)"
proof -
  obtain res ob2 where out: "register_cluster clock ctx r ob = (res, ob2)" by fastforce
  then obtain ob1 where "register_structural cluster_kind cluster_extra max_clusters clock ctx r ob = (res, ob1)"
    and "ob2 = ob1 \<or> (\<exists>ir. res = Inr ir \<and> ir_disposition ir = IngestDisposition_Applied)"
    by (rule register_cluster_cases) auto
  then show ?thesis
    using cluster_reg.register_quiet [of ob clock ctx r] by (auto simp: out quiet_def)
qed

lemma publication_quiet: "op \<in> publications \<Longrightarrow> quiet ob (op ctx ob)"
proof (erule publications.cases; hypsubst)
  fix clock k cg g caps
  show "quiet ob (publish_capability clock k cg g caps ctx ob)"
    unfolding publish_capability_def Let_def by (intro fo_quiet quiet_raise; simp)
next
  fix clock k cg g pools
  show "quiet ob (publish_capacity clock k cg g pools ctx ob)"
    unfolding publish_capacity_def by (intro fo_quiet; simp)
next
  fix clock r show "quiet ob (publish_placement clock r ctx ob)"
    unfolding publish_placement_def Let_def refuse_status_def by (intro fo_quiet) (simp_all split: if_splits)
next
  fix clock r show "quiet ob (publish_migration clock r ctx ob)"
    unfolding publish_migration_def Let_def refuse_status_def by (intro fo_quiet; simp)
next
  fix clock m g s d show "quiet ob (publish_migration_stage clock m g s d ctx ob)"
    unfolding publish_migration_stage_def by (intro fo_quiet; simp)
next
  fix clock r show "quiet ob (publish_portability clock r ctx ob)"
    unfolding publish_portability_def Let_def refuse_status_def by (intro fo_quiet; simp)
next
  fix clock k g reason show "quiet ob (retire_cluster clock k g reason ctx ob)"
    unfolding retire_cluster_def Let_def by (intro fo_quiet; simp)
qed (simp_all only: register_cluster_quiet register_federation_def register_site_def register_accelerator_class_def
    register_runtime_def register_backend_def register_domain_def register_policy_def register_artifact_def
    register_workload_class_def register_workload_def federation_reg.register_quiet site_reg.register_quiet
    accelerator_class_reg.register_quiet runtime_reg.register_quiet backend_reg.register_quiet
    domain_reg.register_quiet policy_reg.register_quiet artifact_reg.register_quiet
    workload_class_reg.register_quiet workload_reg.register_quiet)

text \<open>
  Property C4. A publication that is refused, or recognised as a duplicate, changes no stored record,
  index, snapshot generation or limit: only the publisher's authority record and the counters move. The
  one exception is a capability publication refused for an invalid key, whose cluster may already carry
  the raised generation.
\<close>

theorem refused_changes_nothing:
  assumes "op \<in> publications"
  shows "case fst (op ctx ob) of
      Inl e \<Rightarrow> same_content ob (snd (op ctx ob)) \<or>
        error_message e = ''capability key is not valid'' \<and>
        (\<exists>k r g. smap_find (ob_clusters ob) k = Some r \<and>
           same_content (put_cluster k (raise_generation g r) ob) (snd (op ctx ob)))
    | Inr ir \<Rightarrow> ir_disposition ir = IngestDisposition_Duplicate \<longrightarrow> same_content ob (snd (op ctx ob))"
  using publication_quiet [OF assms] unfolding quiet_def raised_only_def .

section \<open>Generations never move back\<close>

text \<open>Every record of the first map is still in the second, under a generation that is not older.\<close>

definition advance :: "('v \<Rightarrow> 'g Generation) \<Rightarrow> ('k :: linorder, 'v) std_map \<Rightarrow> ('k, 'v) std_map \<Rightarrow> bool" where
  "advance gen m m' \<longleftrightarrow>
     (\<forall>k v. smap_find m k = Some v \<longrightarrow> (\<exists>v'. smap_find m' k = Some v' \<and> \<not> newer_than (gen v) (gen v')))"

lemma advance_refl [simp]: "advance gen m m"
  by (simp add: advance_def newer_than_def)

lemma not_newer_trans: "\<not> newer_than a b \<Longrightarrow> \<not> newer_than b c \<Longrightarrow> \<not> newer_than a c"
  by (simp add: newer_than_def)

lemma advance_put:
  assumes "advance gen m0 m" and "\<And>stored. smap_find m k = Some stored \<Longrightarrow> \<not> newer_than (gen stored) (gen v)"
  shows "advance gen m0 (smap_put k v m)"
  using assms unfolding advance_def by (metis not_newer_trans option.inject stdmap.find_put)

lemma advance_transform:
  "advance gen m0 m \<Longrightarrow> (\<And>k v. gen (f k v) = gen v) \<Longrightarrow> advance gen m0 (smap_transform f m)"
  unfolding advance_def by (fastforce simp: stdmap.find_transform)

definition records_advance :: "Observatory \<Rightarrow> Observatory \<Rightarrow> bool" where
  "records_advance ob ob' \<longleftrightarrow>
     advance fr_generation (ob_federations ob) (ob_federations ob') \<and>
     advance sr_generation (ob_sites ob) (ob_sites ob') \<and>
     advance clr_generation (ob_clusters ob) (ob_clusters ob') \<and>
     advance ar_capability_generation (ob_accelerator_classes ob) (ob_accelerator_classes ob') \<and>
     advance rr_generation (ob_runtimes ob) (ob_runtimes ob') \<and>
     advance br_generation (ob_backends ob) (ob_backends ob') \<and>
     advance dr_topology_generation (ob_domains ob) (ob_domains ob') \<and>
     advance pr_generation (ob_policies ob) (ob_policies ob') \<and>
     advance art_generation (ob_artifacts ob) (ob_artifacts ob') \<and>
     advance wr_generation (ob_workloads ob) (ob_workloads ob') \<and>
     advance plr_generation (ob_placements ob) (ob_placements ob') \<and>
     advance mr_generation (ob_migrations ob) (ob_migrations ob')"

interpretation advances: content_property "records_advance ob0" for ob0
  by unfold_locales (simp_all add: records_advance_def same_contentD)

lemmas registration_defs =
  register_federation_def register_site_def register_accelerator_class_def register_runtime_def
  register_backend_def register_domain_def register_policy_def register_artifact_def
  register_workload_class_def register_workload_def

lemmas kind_defs =
  federation_kind_def site_kind_def accelerator_class_kind_def runtime_kind_def backend_kind_def
  domain_kind_def policy_kind_def artifact_kind_def workload_class_kind_def workload_kind_def cluster_kind_def

lemmas registrations_keep =
  federation_reg.register_keeps site_reg.register_keeps accelerator_class_reg.register_keeps
  runtime_reg.register_keeps backend_reg.register_keeps domain_reg.register_keeps policy_reg.register_keeps
  artifact_reg.register_keeps workload_class_reg.register_keeps workload_reg.register_keeps
  cluster_reg.register_keeps

lemma registrations_advance:
  assumes "records_advance ob0 ob"
  shows "records_advance ob0 (snd (register_federation clock ctx r1 ob))"
    "records_advance ob0 (snd (register_site clock ctx r2 ob))"
    "records_advance ob0 (snd (register_accelerator_class clock ctx r3 ob))"
    "records_advance ob0 (snd (register_runtime clock ctx r4 ob))"
    "records_advance ob0 (snd (register_backend clock ctx r5 ob))"
    "records_advance ob0 (snd (register_domain clock ctx r6 ob))"
    "records_advance ob0 (snd (register_policy clock ctx r7 ob))"
    "records_advance ob0 (snd (register_artifact clock ctx r8 ob))"
    "records_advance ob0 (snd (register_workload_class clock ctx r9 ob))"
    "records_advance ob0 (snd (register_workload clock ctx r10 ob))"
    "records_advance ob0 (snd (register_structural cluster_kind cluster_extra max_clusters clock ctx r11 ob))"
  by ((unfold registration_defs)?,
      rule registrations_keep [OF advances.content_property_axioms],
      rule assms,
      use assms in \<open>force simp: records_advance_def stored_as_def kind_defs intro!: advance_put\<close>)+

lemma advance_put_cluster [fo_keeps]:
  "records_advance ob0 ob \<Longrightarrow> smap_find (ob_clusters ob) k = Some r \<Longrightarrow>
     \<not> newer_than (clr_generation r) (clr_generation r') \<Longrightarrow> records_advance ob0 (put_cluster k r' ob)"
  by (auto simp: records_advance_def put_cluster_def intro!: advance_put)

lemma register_cluster_advances:
  assumes "records_advance ob0 ob"
  shows "records_advance ob0 (snd (register_cluster clock ctx r ob))"
proof -
  obtain res ob2 where out: "register_cluster clock ctx r ob = (res, ob2)" by fastforce
  then obtain ob1 where ob1: "register_structural cluster_kind cluster_extra max_clusters clock ctx r ob = (res, ob1)"
    and ob2: "ob2 = ob1 \<or> (\<exists>s previous. smap_find (ob_clusters ob1) (clr_id r) = Some s \<and>
       ob2 = next_snapshot (put_cluster (clr_id r) (clear_dynamic previous (clr_generation r) s) ob1))"
    by (rule register_cluster_cases) (auto simp: put_cluster_def)
  have "records_advance ob0 ob1"
    using registrations_advance(11) [OF assms, of clock ctx r] by (simp add: ob1)
  with ob2 show ?thesis
    by (auto simp: out clear_dynamic_def newer_than_def intro!: fo_keeps)
qed

lemma raise_not_older: "\<not> newer_than (clr_generation r) (clr_generation (raise_generation g r))"
  by (auto simp: raise_generation_def newer_than_def dest: order_less_asym)

lemma gen_next_not_older: "\<not> newer_than g (gen_next g)"
  using gen_next_ge [of g] by (simp add: newer_than_def less_eq_Generation_def not_less)

lemma publications_advance:
  assumes "op \<in> publications" and "records_advance ob0 ob"
  shows "records_advance ob0 (snd (op ctx ob))"
  using assms
proof (cases rule: publications.cases)
  case (retirement clock k cg reason)
  show ?thesis
    unfolding retirement retire_cluster_def Let_def put_cluster_def [symmetric]
    by (intro fo_keeps assms; (assumption)?)
       (auto simp: gen_next_not_older [unfolded newer_than_def] newer_than_def older_than_def split: if_splits)
next
  case (capability clock k cg g caps)
  show ?thesis
    unfolding capability publish_capability_def Let_def
    by (intro fo_keeps assms) (auto simp: raise_not_older)
next
  case (capacity clock k cg g pools)
  show ?thesis
    unfolding capacity publish_capacity_def
    by (intro fo_keeps assms) (auto simp: raise_not_older)
next
  case (placement clock r)
  show ?thesis
    unfolding placement publish_placement_def Let_def refuse_status_def
    by (intro fo_keeps assms)
       (use assms(2) in \<open>auto simp: records_advance_def store_placement_def Let_def intro!: advance_put\<close>)
next
  case (migration clock r)
  show ?thesis
    unfolding migration publish_migration_def Let_def refuse_status_def
    by (intro fo_keeps assms)
       (use assms(2) in \<open>auto simp: records_advance_def store_migration_def Let_def newer_than_def stdmap.find_put
          intro!: advance_put split: option.splits if_splits\<close>)
next
  case (stage clock m g s d)
  show ?thesis
    unfolding stage publish_migration_stage_def
    by (intro fo_keeps assms)
       (use assms(2) in \<open>auto simp: records_advance_def append_stage_def Let_def newer_than_def intro!: advance_put\<close>)
next
  case (portability clock r)
  show ?thesis
    unfolding portability publish_portability_def Let_def refuse_status_def
    by (intro fo_keeps assms) (use assms(2) in \<open>simp add: records_advance_def\<close>)
qed (simp_all add: registrations_advance register_cluster_advances)

lemma stale_records_advance [fo_keeps]:
  "records_advance ob0 ob \<Longrightarrow> records_advance ob0 (stale_records_from key ob)"
  by (simp add: records_advance_def stale_records_from_def stale_if_from_def advance_transform)

lemma fence_publisher_advances:
  "records_advance ob0 ob \<Longrightarrow> records_advance ob0 (snd (fence_publisher publisher boot reason ob))"
  unfolding fence_publisher_def Let_def by (auto intro!: fo_keeps split: option.split)

lemma engine_step_advances: "engine_step ob ob' \<Longrightarrow> records_advance ob0 ob \<Longrightarrow> records_advance ob0 ob'"
  by (erule engine_step.cases)
     (auto simp: publications_advance advances.register_publisher_keeps fence_publisher_advances advances.keeps_count_snapshot)

lemma reachable_advances: "reachable_from ob ob' \<Longrightarrow> records_advance ob0 ob \<Longrightarrow> records_advance ob0 ob'"
  by (induction rule: reachable_from.induct) (auto intro: engine_step_advances)


section \<open>Ended migrations\<close>

text \<open>A migration that had reached a terminal stage is as it was, unless a newer generation replaced it.\<close>

definition still_ended :: "MigrationRecord \<Rightarrow> MigrationRecord \<Rightarrow> bool" where
  "still_ended r r' \<longleftrightarrow>
     newer_than (mr_generation r') (mr_generation r) \<or>
     mr_generation r' = mr_generation r \<and> mr_stage r' = mr_stage r \<and>
     mr_stage_events r' = mr_stage_events r \<and> mr_outcome r' = mr_outcome r"

definition ended_kept :: "Observatory \<Rightarrow> Observatory \<Rightarrow> bool" where
  "ended_kept ob ob' \<longleftrightarrow>
     (\<forall>k r. smap_find (ob_migrations ob) k = Some r \<and> is_terminal_stage (mr_stage r) \<longrightarrow>
        (\<exists>r'. smap_find (ob_migrations ob') k = Some r' \<and> still_ended r r'))"

interpretation ended: content_property "ended_kept ob0" for ob0
  by unfold_locales (simp_all add: ended_kept_def same_contentD)

lemma ended_frame: "ended_kept ob0 ob \<Longrightarrow> ob_migrations ob' = ob_migrations ob \<Longrightarrow> ended_kept ob0 ob'"
  by (simp add: ended_kept_def)

lemma ended_put_cluster [fo_keeps]: "ended_kept ob0 ob \<Longrightarrow> ended_kept ob0 (put_cluster k r ob)"
  by (erule ended_frame) (simp add: put_cluster_def)

lemma ended_put:
  assumes "ended_kept ob0 ob" and "ob_migrations ob' = smap_put k v (ob_migrations ob)"
    and "\<And>r s. smap_find (ob_migrations ob) k = Some s \<Longrightarrow> is_terminal_stage (mr_stage r) \<Longrightarrow>
      still_ended r s \<Longrightarrow> still_ended r v"
  shows "ended_kept ob0 ob'"
  using assms unfolding ended_kept_def stdmap.find_put by (metis stdmap.find_put option.inject)

lemma still_ended_newer: "still_ended r s \<Longrightarrow> newer_than (mr_generation v) (mr_generation s) \<Longrightarrow> still_ended r v"
  by (auto simp: still_ended_def newer_than_def)

lemma ended_registrations:
  assumes "ended_kept ob0 ob"
  shows "ended_kept ob0 (snd (register_federation clock ctx r1 ob))"
    "ended_kept ob0 (snd (register_site clock ctx r2 ob))"
    "ended_kept ob0 (snd (register_accelerator_class clock ctx r3 ob))"
    "ended_kept ob0 (snd (register_runtime clock ctx r4 ob))"
    "ended_kept ob0 (snd (register_backend clock ctx r5 ob))"
    "ended_kept ob0 (snd (register_domain clock ctx r6 ob))"
    "ended_kept ob0 (snd (register_policy clock ctx r7 ob))"
    "ended_kept ob0 (snd (register_artifact clock ctx r8 ob))"
    "ended_kept ob0 (snd (register_workload_class clock ctx r9 ob))"
    "ended_kept ob0 (snd (register_workload clock ctx r10 ob))"
    "ended_kept ob0 (snd (register_structural cluster_kind cluster_extra max_clusters clock ctx r11 ob))"
  by ((unfold registration_defs)?,
      rule registrations_keep [OF ended.content_property_axioms],
      rule assms,
      rule ended_frame [OF assms], simp add: stored_as_def kind_defs)+

lemma register_cluster_ended:
  assumes "ended_kept ob0 ob"
  shows "ended_kept ob0 (snd (register_cluster clock ctx r ob))"
proof -
  obtain res ob2 where out: "register_cluster clock ctx r ob = (res, ob2)" by fastforce
  then obtain ob1 where "register_structural cluster_kind cluster_extra max_clusters clock ctx r ob = (res, ob1)"
    and "ob_migrations ob2 = ob_migrations ob1"
    by (rule register_cluster_cases) auto
  then show ?thesis
    using ended_registrations(11) [OF assms, of clock ctx r] by (auto simp: out intro: ended_frame)
qed

lemma ended_store_migration:
  assumes "ended_kept ob0 ob"
    and "\<And>s. smap_find (ob_migrations ob) (mr_id r) = Some s \<Longrightarrow> newer_than (mr_generation r) (mr_generation s)"
  shows "ended_kept ob0 (store_migration clock ctx r ob)"
proof -
  let ?r = "r\<lparr>mr_stamp := stamp_for (clock 0) ctx, mr_currentness := Currentness_Current\<rparr>"
  let ?ob = "ob\<lparr>ob_migrations := smap_put (mr_id r) ?r (ob_migrations ob)\<rparr>"
  have first: "ended_kept ob0 ?ob"
    by (rule ended_put [OF assms(1)]) (simp, drule assms(2), erule still_ended_newer, simp)
  show ?thesis
  proof (cases "ob_migrations (store_migration clock ctx r ob) = ob_migrations ?ob")
    case True
    then show ?thesis using first by (rule ended_frame [rotated])
  next
    case False
    then obtain p where "smap_find (ob_migrations ?ob) (mr_supersedes r) = Some p"
      and "ob_migrations (store_migration clock ctx r ob) =
        smap_put (mr_supersedes r) (p\<lparr>mr_currentness := Currentness_Stale\<rparr>) (ob_migrations ?ob)"
      by (auto simp: store_migration_def Let_def split: option.splits if_splits)
    then show ?thesis by (intro ended_put [OF first]) (auto simp: still_ended_def)
  qed
qed

lemma publications_ended:
  assumes "op \<in> publications" and "ended_kept ob0 ob"
  shows "ended_kept ob0 (snd (op ctx ob))"
  using assms
proof (cases rule: publications.cases)
  case (retirement clock k cg reason)
  show ?thesis
    unfolding retirement retire_cluster_def Let_def put_cluster_def [symmetric] by (intro fo_keeps assms)
next
  case (capability clock k cg g caps)
  show ?thesis unfolding capability publish_capability_def Let_def by (intro fo_keeps assms)
next
  case (capacity clock k cg g pools)
  show ?thesis unfolding capacity publish_capacity_def by (intro fo_keeps assms)
next
  case (placement clock r)
  show ?thesis
    unfolding placement publish_placement_def Let_def refuse_status_def
    by (intro fo_keeps assms) (rule ended_frame [OF assms(2)], simp add: store_placement_def Let_def)
next
  case (migration clock r)
  show ?thesis
    unfolding migration publish_migration_def Let_def refuse_status_def
    by (intro fo_keeps assms ended_store_migration) (auto simp: newer_than_def Generation.expand not_less_iff_gr_or_eq)
next
  case (stage clock m g s d)
  show ?thesis
    unfolding stage publish_migration_stage_def
    by (intro fo_keeps assms; rule ended_put [OF assms(2)])
       (auto simp: still_ended_def append_stage_def Let_def)
next
  case (portability clock r)
  show ?thesis
    unfolding portability publish_portability_def Let_def refuse_status_def
    by (intro fo_keeps assms) (rule ended_frame [OF assms(2)], simp)
qed (simp_all add: ended_registrations register_cluster_ended)

lemma fence_publisher_ended: "ended_kept ob0 ob \<Longrightarrow> ended_kept ob0 (snd (fence_publisher publisher boot reason ob))"
  by (erule ended_frame) (simp add: fence_publisher_def Let_def stale_records_from_def put_authority_def split: option.split)

lemma reachable_ended: "reachable_from ob ob' \<Longrightarrow> ended_kept ob0 ob \<Longrightarrow> ended_kept ob0 ob'"
  by (induction rule: reachable_from.induct)
     (auto elim!: engine_stepE simp: publications_ended ended.register_publisher_keeps fence_publisher_ended
       ended.keeps_count_snapshot)

text \<open>
  Property C6. A migration that has committed, been rolled back or failed stays exactly as it ended:
  whatever is published later, its stage, its outcome and its history of stage events are unchanged,
  unless a strictly newer generation of the migration has been registered in its place.
\<close>

theorem ended_migration_is_final:
  assumes "reachable_from ob ob'" and "smap_find (ob_migrations ob) m = Some r" and "is_terminal_stage (mr_stage r)"
  shows "\<exists>r'. smap_find (ob_migrations ob') m = Some r' \<and>
    (newer_than (mr_generation r') (mr_generation r) \<or>
     mr_generation r' = mr_generation r \<and> mr_stage r' = mr_stage r \<and> mr_outcome r' = mr_outcome r \<and>
     mr_stage_events r' = mr_stage_events r)"
proof -
  have "ended_kept ob ob" by (auto simp: ended_kept_def still_ended_def)
  from reachable_ended [OF assms(1) this] assms(2,3) show ?thesis
    by (auto simp: ended_kept_def still_ended_def)
qed

section \<open>The stored records\<close>


text \<open>
  Publishing the same workload again, at any later time and under any publication context
  the gate lets through, is recognised as a duplicate and changes nothing.
\<close>

lemma workload_republication_is_duplicate:
  assumes "register_workload clock ctx r ob = (Inr ir, ob1)" and "ir_disposition ir = IngestDisposition_Applied"
    and "check_authority ctx2 ob1 = (Inr gate, ob2)"
  shows "\<exists>ir2 ob3. register_workload clock2 ctx2 r ob1 = (Inr ir2, ob3) \<and>
    ir_disposition ir2 = IngestDisposition_Duplicate \<and> same_content ob1 ob3"
  using workload_reg.register_again [of clock ctx r ob ir ob1 ctx2 "fst gate" "snd gate" ob2 clock2] assms
  by (simp add: register_workload_def)

section \<open>Capacity\<close>

lemma publish_capacity_applied:
  assumes "publish_capacity clock k cg g pools ctx ob = (Inr ir, ob')"
    and "ir_disposition ir = IngestDisposition_Applied"
  shows "\<exists>r. smap_find (ob_clusters ob) k = Some r \<and> clr_currentness r \<noteq> Currentness_Retired \<and>
     \<not> newer_than (clr_capacity_generation r) g \<and>
     same_content (next_snapshot (put_cluster k
       ((raise_generation cg r)\<lparr>clr_capacity_pools := stable_sort CapacityPool_less
            (map (accept_pool ctx (ob_bounds ob) g) pools),
          clr_capacity_generation := g, clr_evidence_generation := ctx_evidence_generation ctx,
          clr_currentness := Currentness_Current, clr_stamp := stamp_for (clock 0) ctx\<rparr>) ob)) ob'"
proof (cases "check_authority ctx ob")
  case (Pair gate ob1)
  then obtain r d where gate: "gate = Inr (r, d)" and "ob1 = ob"
    using assms(1) check_authority_Inr [of ctx ob _ _ ob1]
    by (cases gate) (auto simp: publish_capacity_def with_authority_def)
  with Pair assms show ?thesis
    unfolding publish_capacity_def with_authority_def with_federation_def
    by (auto split: Status.splits option.splits if_splits dest!: finish_Inr refuse_Inl
        simp: newer_than_def older_than_def)
qed

text \<open>
  An applied capacity publication is what the cluster then reports: the stored pools carry
  exactly the published ledgers, under the published generation and stamped with the publisher, and the
  total of each bucket over a resource kind is the total over the published pools. No other cluster
  changes.
\<close>

lemma published_capacity_is_stored:
  assumes "publish_capacity clock k cg g pools ctx ob = (Inr ir, ob')"
    and "ir_disposition ir = IngestDisposition_Applied"
  shows "(\<exists>r. smap_find (ob_clusters ob') k = Some r \<and> clr_capacity_generation r = g \<and>
       clr_currentness r = Currentness_Current \<and> os_publisher (clr_stamp r) = ctx_publisher ctx \<and>
       mset (map (\<lambda>p. (cp_pool_id p, cp_kind p, cp_ledger p)) (clr_capacity_pools r)) =
         mset (map (\<lambda>p. (cp_pool_id p, cp_kind p, cp_ledger p)) pools)) \<and>
     (\<forall>j. j \<noteq> k \<longrightarrow> smap_find (ob_clusters ob') j = smap_find (ob_clusters ob) j)"
proof -
  obtain r where "same_content (next_snapshot (put_cluster k
       ((raise_generation cg r)\<lparr>clr_capacity_pools := stable_sort CapacityPool_less
            (map (accept_pool ctx (ob_bounds ob) g) pools),
          clr_capacity_generation := g, clr_evidence_generation := ctx_evidence_generation ctx,
          clr_currentness := Currentness_Current, clr_stamp := stamp_for (clock 0) ctx\<rparr>) ob)) ob'"
    using publish_capacity_applied [OF assms] by blast
  from same_contentD(6) [OF this] show ?thesis
    by (simp add: put_cluster_def stdmap.find_put stamp_for_def image_mset.compositionality comp_def)
qed

section \<open>A stage event the outcome does not follow\<close>

text \<open>
  A stage event \<open>REVALIDATION_REQUIRED\<close> that follows \<open>OUTCOME_UNKNOWN\<close> is accepted but leaves the outcome at
  \<open>UNKNOWN\<close>, so the stored record no longer passes its own validation.
\<close>

lemma revalidation_keeps_unknown_outcome:
  assumes "mr_stage r = MigrationStage_OutcomeUnknown" and "mr_outcome r = MigrationOutcome_Unknown"
  shows "is_acceptable_migration_event (mr_stage r) MigrationStage_RevalidationRequired \<and>
    MigrationRecord_validate (append_stage clock ctx g MigrationStage_RevalidationRequired detail r) \<noteq> Success"
  using assms
  by (auto simp: is_acceptable_migration_event_def append_stage_def Let_def expected_outcome_def
      dest!: MigrationRecord_validate_ids)

end
