(* ===== verification/FO_Restart.thy ===== *)
theory FO_Restart
  imports FO_Files FO_Conduct
begin

text \<open>
  A coordinator restart: what the engine captured, written and read back (\<open>persisted_state\<close>), applied to a
  fresh engine. Fences and watermarks survive, publications of the old epoch are refused, nothing comes
  back as current, and the records of the restored engine satisfy the engine's invariant again.
\<close>

section \<open>Restored maps\<close>

lemma emplace_all_snoc: "emplace_all key (xs @ [x]) = smap_emplace (key x) x (emplace_all key xs)"
  by (simp add: emplace_all_def)

lemma emplace_all_Nil [simp]: "emplace_all key [] = []"
  by (simp add: emplace_all_def)

lemma emplace_all_ok [simp]: "smap_ok (emplace_all key xs)"
  by (induction xs rule: rev_induct) (simp_all add: emplace_all_snoc stdmap.ok_emplace stdmap.ok_none)

lemma find_emplace_all_None: "smap_find (emplace_all key xs) k = None \<longleftrightarrow> k \<notin> key ` set xs"
  by (induction xs rule: rev_induct) (auto simp: emplace_all_snoc stdmap.find_emplace stdmap.find_none)

lemma emplace_all_has: "v \<in> set xs \<Longrightarrow> key v = k \<Longrightarrow> smap_has (emplace_all key xs) k"
  by (auto simp: find_emplace_all_None)

lemma find_emplace_all_mem: "smap_find (emplace_all key xs) k = Some v \<Longrightarrow> v \<in> set xs \<and> key v = k"
  by (induction xs rule: rev_induct)
    (auto simp: emplace_all_snoc stdmap.find_emplace stdmap.find_none split: if_splits)

lemma find_emplace_all:
  "distinct (map key xs) \<Longrightarrow> smap_find (emplace_all key xs) k = Some v \<longleftrightarrow> v \<in> set xs \<and> key v = k"
proof (induction xs rule: rev_induct)
  case (snoc x xs)
  have "key x \<notin> key ` set xs" using snoc.prems by simp
  then have "v \<in> set xs \<Longrightarrow> key v \<noteq> key x" by (metis image_eqI)
  then show ?case using snoc
    by (auto simp: emplace_all_snoc stdmap.find_emplace find_emplace_all_None)
qed (simp add: stdmap.find_none)

lemma size_emplace_all: "smap_size (emplace_all key xs) \<le> length xs"
proof (induction xs rule: rev_induct)
  case (snoc x xs)
  then show ?case
    using stdmap.size_put_bound [OF emplace_all_ok, of "key x" x key xs]
    by (auto simp: emplace_all_snoc stdmap.emplace_eq split: option.splits)
qed (simp add: stdmap.size_none)

text \<open>Records in a list, as a durable state holds them, and the map that is rebuilt from them.\<close>

definition listed_ok :: "('v \<Rightarrow> 'k) \<Rightarrow> nat \<Rightarrow> ('k \<Rightarrow> 'v \<Rightarrow> bool) \<Rightarrow> 'v list \<Rightarrow> bool" where
  "listed_ok key limit P xs \<longleftrightarrow> length xs \<le> limit \<and> (\<forall>v \<in> set xs. P (key v) v)"

lemma listed_values:
  assumes "map_ok m limit P" and "\<And>k v. P k v \<Longrightarrow> key v = k"
  shows "listed_ok key limit P (smap_values m)"
  using assms by (fastforce simp: listed_ok_def map_ok_def smap_values_mem)

lemma listed_map:
  "listed_ok key limit P xs \<Longrightarrow> (\<And>v. P (key v) v \<Longrightarrow> P (key (g v)) (g v)) \<Longrightarrow> listed_ok key limit P (map g xs)"
  by (simp add: listed_ok_def)

lemma listed_sort: "listed_ok key limit P xs \<Longrightarrow> listed_ok key limit P (stable_sort lt xs)"
  by (simp add: listed_ok_def)

lemma listed_restored: "listed_ok key limit P xs \<Longrightarrow> map_ok (emplace_all key xs) limit P"
  using size_emplace_all [of key xs] by (auto simp: listed_ok_def map_ok_def dest: find_emplace_all_mem)

lemma values_keys:
  assumes "map_ok m limit P" and "\<And>k v. P k v \<Longrightarrow> key v = k"
  shows "smap_has m k \<longleftrightarrow> k \<in> key ` set (smap_values m)"
  using assms by (force simp: map_ok_def smap_values_mem)

section \<open>Publisher authority over a restart\<close>

definition publishers_ok :: "Observatory \<Rightarrow> bool" where
  "publishers_ok ob \<longleftrightarrow> smap_ok (ob_publishers ob) \<and>
     (\<forall>k a. smap_find (ob_publishers ob) k = Some a \<longrightarrow> (pau_publisher a, pau_boot a) = k)"

lemma publishers_okD: "publishers_ok ob \<Longrightarrow> smap_find (ob_publishers ob) k = Some a \<Longrightarrow> (pau_publisher a, pau_boot a) = k"
  unfolding publishers_ok_def by blast

lemma publishers_ok_bounds [simp]: "publishers_ok (count_bounds_rejection ob) = publishers_ok ob"
  by (simp add: publishers_ok_def count_bounds_rejection_def)

lemma publishers_ok_put:
  "publishers_ok ob \<Longrightarrow> ob_publishers ob' = smap_put k a (ob_publishers ob) \<Longrightarrow>
     (pau_publisher a, pau_boot a) = k \<Longrightarrow> publishers_ok ob'"
  by (auto simp: publishers_ok_def stdmap.find_put stdmap.ok_put)

lemma finish_publisher_key:
  "\<exists>a'. ob_publishers (snd (finish now ctx (k, a) disp detail ob)) = smap_put k a' (ob_publishers ob) \<and>
     pau_publisher a' = pau_publisher a \<and> pau_boot a' = pau_boot a"
  by (cases disp) (auto simp: finish_def Let_def)

lemma register_publisher_keyed: "publishers_ok ob \<Longrightarrow> publishers_ok (snd (register_publisher clock ctx ob))"
proof (cases "PublicationContext_validate ctx")
  case Success
  assume ok: "publishers_ok ob"
  show ?thesis
  proof (cases "smap_find (ob_publishers ob) (ctx_key ctx)")
    case None
    have stored: "publishers_ok (next_snapshot (put_authority (ctx_key ctx, a) ob\<lparr>ob_stats := st\<rparr>))"
      if "(pau_publisher a, pau_boot a) = ctx_key ctx" for a st
      using that by (intro publishers_ok_put [OF ok, of _ "ctx_key ctx" a]) (simp_all add: put_authority_def)
    show ?thesis
      by (simp add: register_publisher_def Success Let_def None ok) (intro impI stored, simp add: ctx_key_def)
  next
    case (Some a)
    then have key: "(pau_publisher a, pau_boot a) = ctx_key ctx" by (rule publishers_okD [OF ok])
    have fin: "publishers_ok (snd (finish now ctx (ctx_key ctx, a') disp detail ob))"
      if "pau_publisher a' = pau_publisher a" "pau_boot a' = pau_boot a" for now disp detail a'
      using finish_publisher_key [of now ctx "ctx_key ctx" a' disp detail ob] that key
      by (auto intro: publishers_ok_put [OF ok])
    have ref: "publishers_ok (snd (refuse c d (Some (ctx_key ctx, a)) f ob2))"
      if "ob_publishers ob2 = ob_publishers ob" for c d f ob2
      using key that by (intro publishers_ok_put [OF ok refuse_publishers(1) [of _ _ _ _ _ ob2, unfolded that]]) simp
    show ?thesis
      by (simp add: register_publisher_def Success Let_def Some fin ref)
  qed
qed (simp add: register_publisher_def)

lemma fence_publisher_keyed: "publishers_ok ob \<Longrightarrow> publishers_ok (snd (fence_publisher publisher boot reason ob))"
  by (auto simp: fence_publisher_def Let_def publishers_ok_def stdmap.find_put stdmap.ok_put split: option.splits)

lemma count_snapshot_keyed: "publishers_ok ob \<Longrightarrow> publishers_ok (count_snapshot ob)"
  by (simp add: count_snapshot_def publishers_ok_def)

lemma engine_step_keyed:
  assumes "engine_step ob ob'" and "publishers_ok ob"
  shows "publishers_ok ob'"
  using assms
proof (cases rule: engine_step.cases)
  case (publication op ctx)
  note after = gated_operation.publishers_after [OF publication_gated [OF publication(2)], where ctx = ctx and ob = ob]
  show ?thesis
    unfolding publishers_ok_def publication(1)
  proof (intro conjI allI impI)
    show "smap_ok (ob_publishers (snd (op ctx ob)))" using after(3) assms(2) by (simp add: publishers_ok_def)
  next
    fix k a' assume a': "smap_find (ob_publishers (snd (op ctx ob))) k = Some a'"
    then obtain a where a: "smap_find (ob_publishers ob) k = Some a" using after(1) by fastforce
    then have "(pau_publisher a, pau_boot a) = k" by (rule publishers_okD [OF assms(2)])
    with after(2) [OF a] a' show "(pau_publisher a', pau_boot a') = k" by auto
  qed
qed (simp_all add: register_publisher_keyed fence_publisher_keyed count_snapshot_keyed)

lemma reachable_keyed: "reachable_from ob ob' \<Longrightarrow> publishers_ok ob \<Longrightarrow> publishers_ok ob'"
  by (induction rule: reachable_from.induct) (auto intro: engine_step_keyed)


text \<open>What applying a durable state does to the publishers and the epoch.\<close>

lemma applied:
  assumes "apply_durable_state s ob = (Success, ob')"
  shows "DurableState_validate s (ob_bounds ob) = Success" and "ob_bounds ob' = ob_bounds ob"
    and "ob_publishers ob' = emplace_all (\<lambda>a. (pau_publisher a, pau_boot a))
      (map (restored_authority (ds_written_by_epoch s)) (ds_publisher_watermarks s))"
    and "ob_coordinator_epoch ob' = (if is_set (ds_written_by_epoch s) then gen_next (ds_written_by_epoch s) else Generation 1)"
  using assms
  by (auto simp: apply_durable_state_def Let_def case_prod_beta split: Status.splits)

lemma applied_publishers_ok: "apply_durable_state s ob = (Success, ob') \<Longrightarrow> publishers_ok ob'"
  by (auto simp: publishers_ok_def applied(3) dest!: find_emplace_all_mem)

lemma persisted_publishers:
  "set (ds_publisher_watermarks (persisted_state (capture_durable_state clock ob))) =
     watermark_of ` set (smap_values (ob_publishers ob))"
  "ds_written_by_epoch (persisted_state (capture_durable_state clock ob)) = ob_coordinator_epoch ob"
  by (simp_all add: persisted_state_def Let_def normalize_for_persistence_def capture_durable_state_def)

lemma restored_authority_simps [simp]:
  "pau_publisher (restored_authority e w) = pwm_publisher w" "pau_boot (restored_authority e w) = pwm_boot w"
  "pau_watermark (restored_authority e w) = pwm_watermark w" "pau_fenced (restored_authority e w) = pwm_fenced w"
  "pau_fenced_reason (restored_authority e w) = pwm_fenced_reason w" "pau_live (restored_authority e w) = False"
  "pau_epoch (restored_authority e w) = e"
  by (simp_all add: restored_authority_def)

lemma restarted_authority:
  assumes "publishers_ok ob" and "apply_durable_state (persisted_state (capture_durable_state clock ob)) ob0 = (Success, ob1)"
    and "smap_find (ob_publishers ob) k = Some a"
  shows "\<exists>a'. smap_find (ob_publishers ob1) k = Some a' \<and> pau_watermark a' = pau_watermark a \<and>
    pau_fenced a' = pau_fenced a \<and> \<not> pau_live a'"
proof -
  let ?s = "persisted_state (capture_durable_state clock ob)"
  let ?key = "\<lambda>a. (pau_publisher a, pau_boot a)"
  let ?xs = "map (restored_authority (ds_written_by_epoch ?s)) (ds_publisher_watermarks ?s)"
  have mem: "a \<in> set (smap_values (ob_publishers ob))" using assms(1,3) smap_values_mem [of "ob_publishers ob" a] unfolding publishers_ok_def by blast
  then have "restored_authority (ds_written_by_epoch ?s) (watermark_of a) \<in> set ?xs"
    by (simp add: persisted_publishers)
  moreover have "?key (restored_authority (ds_written_by_epoch ?s) (watermark_of a)) = k"
    using publishers_okD [OF assms(1,3)] by (simp add: watermark_of_def)
  ultimately have "smap_has (ob_publishers ob1) k"
    unfolding applied(3) [OF assms(2)] by (rule emplace_all_has)
  then obtain a' where a': "smap_find (ob_publishers ob1) k = Some a'" by blast
  then have "a' \<in> set ?xs \<and> ?key a' = k"
    unfolding applied(3) [OF assms(2)] by (rule find_emplace_all_mem)
  then obtain b where b: "b \<in> set (smap_values (ob_publishers ob))" "a' = restored_authority (ds_written_by_epoch ?s) (watermark_of b)"
    by (auto simp: persisted_publishers)
  then have "?key b = k" using \<open>a' \<in> set ?xs \<and> ?key a' = k\<close> by (simp add: watermark_of_def)
  moreover obtain k' where "smap_find (ob_publishers ob) k' = Some b"
    using b(1) assms(1) smap_values_mem [of "ob_publishers ob" b] unfolding publishers_ok_def by blast
  ultimately have "b = a" using publishers_okD [OF assms(1)] assms(3) by (metis option.inject)
  with b a' show ?thesis by (auto simp: watermark_of_def)
qed

lemma engine_step_epoch:
  assumes "engine_step ob ob'"
  shows "ob_coordinator_epoch ob' = ob_coordinator_epoch ob"
  using assms
proof (cases rule: engine_step.cases)
  case (publication op ctx)
  then show ?thesis using gated_operation.gate_frame [OF publication_gated] by blast
next
  case (registration clock ctx)
  have "ob_coordinator_epoch (snd (register_publisher clock ctx ob)) = ob_coordinator_epoch ob"
    by (simp add: register_publisher_def Let_def count_regression_def count_bounds_rejection_def put_authority_def
      split: Status.split option.split)
  then show ?thesis using registration by simp
next
  case (fencing publisher boot reason)
  then show ?thesis
    by (simp add: fence_publisher_def Let_def put_authority_def stale_records_from_def split: option.split)
qed (simp add: count_snapshot_def)

lemma reachable_epoch: "reachable_from ob ob' \<Longrightarrow> ob_coordinator_epoch ob' = ob_coordinator_epoch ob"
  by (induction rule: reachable_from.induct) (simp_all add: engine_step_epoch)

text \<open>
  Property C7. A restart does not weaken authority. Let an engine whose publisher records are keyed by
  identity be captured, written and read back, and restored into any engine; then in every state the
  restored engine reaches, each publication of a boot identity fenced before the restart is refused as
  fenced, a publication is accepted only with a sequence number not behind the identity's watermark from
  before the restart, and a publication that carries the epoch from before the restart is refused (unless
  the epoch counter was exhausted).
\<close>

theorem restart_keeps_authority:
  assumes "publishers_ok ob"
    and "apply_durable_state (persisted_state (capture_durable_state clock ob)) ob0 = (Success, ob1)"
    and "reachable_from ob1 ob2" and "smap_find (ob_publishers ob) (ctx_key ctx) = Some a"
    and "op \<in> publications" and "PublicationContext_validate ctx = Success"
  shows "(pau_fenced a \<longrightarrow> (\<exists>e. fst (op ctx ob2) = Inl e \<and> error_code e = FencedPublisher)) \<and>
    (\<forall>ir. fst (op ctx ob2) = Inr ir \<longrightarrow> pau_watermark a \<le> ctx_sequence ctx) \<and>
    (ctx_coordinator_epoch ctx = ob_coordinator_epoch ob \<and> gen_value (ob_coordinator_epoch ob) \<noteq> UINT64_MAX \<longrightarrow>
       (\<exists>e. fst (op ctx ob2) = Inl e))"
proof -
  obtain a1 where a1: "smap_find (ob_publishers ob1) (ctx_key ctx) = Some a1"
      "pau_watermark a1 = pau_watermark a" "pau_fenced a1 = pau_fenced a"
    using restarted_authority [OF assms(1,2,4)] by blast
  then obtain a2 where a2: "smap_find (ob_publishers ob2) (ctx_key ctx) = Some a2"
      "pau_watermark a \<le> pau_watermark a2" "pau_fenced a \<longrightarrow> pau_fenced a2"
    using reachable_kept [OF assms(3)] unfolding authority_kept_def by metis
  note gate = publication_gated [OF assms(5)]
  have epoch: "ob_coordinator_epoch ob2 \<noteq> ob_coordinator_epoch ob" if "gen_value (ob_coordinator_epoch ob) \<noteq> UINT64_MAX"
  proof -
    let ?e = "ob_coordinator_epoch ob"
    have "ob_coordinator_epoch ob2 = (if is_set ?e then gen_next ?e else Generation 1)"
      using reachable_epoch [OF assms(3)] applied(4) [OF assms(2)] by (simp add: persisted_publishers)
    moreover have "gen_next ?e \<noteq> ?e" using gen_next_newer [OF that] by (auto simp: newer_than_def)
    moreover have "\<not> is_set ?e \<Longrightarrow> Generation 1 \<noteq> ?e" by (cases ?e) (simp add: is_set_def)
    ultimately show ?thesis by auto
  qed
  show ?thesis
    using gated_operation.fenced_refused [OF gate assms(6) a2(1)] a2 epoch
      gated_operation.accepted_authority [OF gate, of ctx ob2]
    by (cases "fst (op ctx ob2)") auto
qed

section \<open>Records over a restart\<close>

lemma normalize_cluster_idem:
  "normalize_cluster_for_persistence (normalize_cluster_for_persistence r) = normalize_cluster_for_persistence r"
  "normalize_cluster_for_persistence \<circ> normalize_cluster_for_persistence = normalize_cluster_for_persistence"
  by (auto simp: normalize_cluster_for_persistence_def restored_currentness_def fun_eq_iff)

lemma fst_restore_placements:
  "fst (foldl restore_placement (m, l) rs) = foldl (\<lambda>m r. smap_emplace (plr_id r) r m) m rs"
proof (induction rs arbitrary: m l)
  case (Cons r rs)
  obtain m1 l1 where "restore_placement (m, l) r = (m1, l1)" by fastforce
  moreover then have "m1 = smap_emplace (plr_id r) r m" by (auto simp: restore_placement_def Let_def)
  ultimately show ?case using Cons by simp
qed simp

lemma applied_records:
  assumes "apply_durable_state s ob = (Success, ob')"
  shows
    "ob_federations ob' = emplace_all fr_id (map (\<lambda>r. r\<lparr>fr_currentness := stale_currentness (fr_currentness r)\<rparr>) (ds_federations s))"
    "ob_sites ob' = emplace_all sr_id (map (\<lambda>r. r\<lparr>sr_currentness := stale_currentness (sr_currentness r)\<rparr>) (ds_sites s))"
    "ob_accelerator_classes ob' = emplace_all ar_id (map (\<lambda>r. r\<lparr>ar_currentness := stale_currentness (ar_currentness r)\<rparr>) (ds_accelerator_classes s))"
    "ob_runtimes ob' = emplace_all rr_id (map (\<lambda>r. r\<lparr>rr_currentness := stale_currentness (rr_currentness r)\<rparr>) (ds_runtimes s))"
    "ob_backends ob' = emplace_all br_id (map (\<lambda>r. r\<lparr>br_currentness := stale_currentness (br_currentness r)\<rparr>) (ds_backends s))"
    "ob_domains ob' = emplace_all dr_id (map (\<lambda>r. r\<lparr>dr_currentness := stale_currentness (dr_currentness r)\<rparr>) (ds_domains s))"
    "ob_policies ob' = emplace_all pr_id (map (\<lambda>r. r\<lparr>pr_currentness := stale_currentness (pr_currentness r)\<rparr>) (ds_policies s))"
    "ob_artifacts ob' = emplace_all art_id (map (\<lambda>r. r\<lparr>art_currentness := stale_currentness (art_currentness r)\<rparr>) (ds_artifacts s))"
    "ob_workload_classes ob' = emplace_all wcr_id (map (\<lambda>r. r\<lparr>wcr_currentness := stale_currentness (wcr_currentness r)\<rparr>) (ds_workload_classes s))"
    "ob_workloads ob' = emplace_all wr_id (map (\<lambda>r. r\<lparr>wr_currentness := stale_currentness (wr_currentness r)\<rparr>) (ds_workloads s))"
    "ob_clusters ob' = emplace_all clr_id (map normalize_cluster_for_persistence (ds_clusters s))"
    "ob_placements ob' = emplace_all plr_id (map (\<lambda>r. r\<lparr>plr_currentness := Currentness_Stale\<rparr>) (ds_placements s))"
    "ob_migrations ob' = emplace_all mr_id (map (\<lambda>r. r\<lparr>mr_currentness := Currentness_Stale\<rparr>) (ds_migrations s))"
    "ob_portability ob' = emplace_all (\<lambda>r. (pa_workload r, pa_destination r))
       (map (\<lambda>r. r\<lparr>pa_currentness := Currentness_Stale\<rparr>) (ds_portability s))"
  using assms fst_restore_placements
  by (auto simp: apply_durable_state_def Let_def case_prod_beta emplace_all_def split: Status.splits)

definition none_current :: "('k, 'r) std_map \<Rightarrow> ('r \<Rightarrow> Currentness) \<Rightarrow> bool" where
  "none_current m currentness \<longleftrightarrow> (\<forall>k r. smap_find m k = Some r \<longrightarrow> currentness r \<noteq> Currentness_Current)"

lemma none_current_emplace_all:
  "(\<And>r. currentness (f r) \<noteq> Currentness_Current) \<Longrightarrow> none_current (emplace_all key (map f rs)) currentness"
  by (auto simp: none_current_def dest!: find_emplace_all_mem)

lemma restored_not_current [simp]:
  "stale_currentness c \<noteq> Currentness_Current" "restored_currentness c \<noteq> Currentness_Current"
  by (simp_all add: stale_currentness_def restored_currentness_def)

text \<open>
  Property C10. Nothing comes back as current: whatever durable state is restored, no record of any kind in
  the restored engine is current, no cluster has a capacity pool or a known readiness, and no publisher
  is live until it registers again.
\<close>

theorem nothing_restored_as_current:
  assumes "apply_durable_state s ob = (Success, ob')"
  shows "none_current (ob_federations ob') fr_currentness \<and>
    none_current (ob_sites ob') sr_currentness \<and>
    none_current (ob_accelerator_classes ob') ar_currentness \<and>
    none_current (ob_runtimes ob') rr_currentness \<and>
    none_current (ob_backends ob') br_currentness \<and>
    none_current (ob_domains ob') dr_currentness \<and>
    none_current (ob_policies ob') pr_currentness \<and>
    none_current (ob_artifacts ob') art_currentness \<and>
    none_current (ob_workload_classes ob') wcr_currentness \<and>
    none_current (ob_workloads ob') wr_currentness \<and>
    none_current (ob_clusters ob') clr_currentness \<and>
    none_current (ob_placements ob') plr_currentness \<and>
    none_current (ob_migrations ob') mr_currentness \<and>
    none_current (ob_portability ob') pa_currentness \<and>
    (\<forall>k r. smap_find (ob_clusters ob') k = Some r \<longrightarrow> clr_capacity_pools r = [] \<and> clr_readiness r = Readiness_Unknown) \<and>
    (\<forall>publisher boot. \<not> publisher_is_live publisher boot ob')"
proof -
  have "\<not> publisher_is_live publisher boot ob'" for publisher boot
    by (auto simp: publisher_is_live_def applied(3) [OF assms] split: option.splits dest!: find_emplace_all_mem)
  moreover have "clr_capacity_pools r = [] \<and> clr_readiness r = Readiness_Unknown"
    if "smap_find (ob_clusters ob') k = Some r" for k r
    using that unfolding applied_records [OF assms]
    by (auto simp: normalize_cluster_for_persistence_def dest!: find_emplace_all_mem)
  ultimately show ?thesis
    unfolding applied_records [OF assms]
    by (intro conjI allI impI none_current_emplace_all) (simp_all add: normalize_cluster_for_persistence_def)
qed

text \<open>The lists of the written form of a captured engine.\<close>

lemma captured:
  fixes clock :: clock and ob :: Observatory
  defines "s \<equiv> persisted_state (capture_durable_state clock ob)"
  shows
    "ds_federations s = map (\<lambda>r. r\<lparr>fr_currentness := stale_currentness (fr_currentness r)\<rparr>) (smap_values (ob_federations ob))"
    "ds_sites s = map (\<lambda>r. r\<lparr>sr_currentness := stale_currentness (sr_currentness r)\<rparr>) (smap_values (ob_sites ob))"
    "ds_accelerator_classes s = smap_values (ob_accelerator_classes ob)"
    "ds_runtimes s = smap_values (ob_runtimes ob)"
    "ds_backends s = smap_values (ob_backends ob)"
    "ds_domains s = smap_values (ob_domains ob)"
    "ds_policies s = smap_values (ob_policies ob)"
    "ds_artifacts s = smap_values (ob_artifacts ob)"
    "ds_workload_classes s = smap_values (ob_workload_classes ob)"
    "ds_workloads s = smap_values (ob_workloads ob)"
    "ds_clusters s = map normalize_cluster_for_persistence (smap_values (ob_clusters ob))"
    "ds_placements s = stable_sort PlacementRecord_older (map (\<lambda>r. r\<lparr>plr_currentness := stale_currentness (plr_currentness r)\<rparr>)
       (smap_values (ob_placements ob)))"
    "ds_migrations s = stable_sort MigrationRecord_older (map (\<lambda>r. r\<lparr>mr_currentness := stale_currentness (mr_currentness r)\<rparr>)
       (smap_values (ob_migrations ob)))"
    "ds_portability s = map (\<lambda>r. r\<lparr>pa_currentness := stale_currentness (pa_currentness r)\<rparr>) (smap_values (ob_portability ob))"
    "ds_format_version s = kStateFormatVersion"
    "ds_aggregate_findings s = stable_sort AggregateFindingRecord_less (ob_aggregate_findings ob)"
    "ds_publisher_watermarks s = stable_sort PublisherWatermark_less (map watermark_of (smap_values (ob_publishers ob)))"
  unfolding s_def
  by (simp_all add: persisted_state_def Let_def normalize_for_persistence_def capture_durable_state_def normalize_cluster_idem)

text \<open>No validator looks at the currentness of a record, or at the readiness of a cluster.\<close>

lemma checks_currentness [simp]:
  "candidate_check (r\<lparr>plr_currentness := c\<rparr>) = candidate_check r"
  "stage_events_check (m\<lparr>mr_currentness := c\<rparr>) p es = stage_events_check m p es"
  "last_event (m\<lparr>mr_currentness := c\<rparr>) = last_event m"
  by (simp_all add: candidate_check_def fun_eq_iff last_event_def) (induction es arbitrary: p; simp del: checks_simps cong: option.case_cong)

lemma validate_any_currentness [simp]:
  "FederationRecord_validate (r0\<lparr>fr_currentness := c\<rparr>) = FederationRecord_validate r0"
  "SiteRecord_validate (r1\<lparr>sr_currentness := c\<rparr>) = SiteRecord_validate r1"
  "AcceleratorClassRecord_validate (r2\<lparr>ar_currentness := c\<rparr>) = AcceleratorClassRecord_validate r2"
  "RuntimeRecord_validate (r3\<lparr>rr_currentness := c\<rparr>) = RuntimeRecord_validate r3"
  "BackendRecord_validate (r4\<lparr>br_currentness := c\<rparr>) = BackendRecord_validate r4"
  "DomainRecord_validate (r5\<lparr>dr_currentness := c\<rparr>) = DomainRecord_validate r5"
  "PolicyRecord_validate (r6\<lparr>pr_currentness := c\<rparr>) = PolicyRecord_validate r6"
  "ArtifactRecord_validate (r7\<lparr>art_currentness := c\<rparr>) = ArtifactRecord_validate r7"
  "WorkloadClassRecord_validate (r8\<lparr>wcr_currentness := c\<rparr>) = WorkloadClassRecord_validate r8"
  "WorkloadRecord_validate (r9\<lparr>wr_currentness := c\<rparr>) = WorkloadRecord_validate r9"
  "PlacementRecord_validate (r10\<lparr>plr_currentness := c\<rparr>) = PlacementRecord_validate r10"
  "MigrationRecord_validate (r11\<lparr>mr_currentness := c\<rparr>) = MigrationRecord_validate r11"
  "PortabilityAssessment_validate (r12\<lparr>pa_currentness := c\<rparr>) = PortabilityAssessment_validate r12"
  by (simp_all add: FederationRecord_validate_def SiteRecord_validate_def AcceleratorClassRecord_validate_def RuntimeRecord_validate_def BackendRecord_validate_def DomainRecord_validate_def PolicyRecord_validate_def ArtifactRecord_validate_def WorkloadClassRecord_validate_def WorkloadRecord_validate_def PlacementRecord_validate_def MigrationRecord_validate_def PortabilityAssessment_validate_def
    cong: option.case_cong del: checks_simps)

lemma validate_normalized_cluster:
  "ClusterRecord_validate (r\<lparr>clr_capacity_pools := []\<rparr>) = Success \<Longrightarrow>
     ClusterRecord_validate (normalize_cluster_for_persistence r) = Success"
  by (simp add: ClusterRecord_validate_def normalize_cluster_for_persistence_def)

lemma history_currentness [simp]: "history_ok (r\<lparr>mr_currentness := c\<rparr>) = history_ok r"
  by (simp add: history_ok_def)

lemma pools_ok_Nil [simp]: "pools_ok []"
  by (simp add: pools_ok_def)

lemma cluster_ok_normalized: "cluster_ok ob k r \<Longrightarrow> cluster_ok ob k (normalize_cluster_for_persistence r)"
proof -
  have "ClusterRecord_validate ((normalize_cluster_for_persistence r)\<lparr>clr_capacity_pools := []\<rparr>) =
      ClusterRecord_validate (r\<lparr>clr_capacity_pools := []\<rparr>)"
    by (simp add: ClusterRecord_validate_def normalize_cluster_for_persistence_def del: checks_simps)
  then show "cluster_ok ob k r \<Longrightarrow> ?thesis"
    by (simp add: cluster_ok_def) (simp add: normalize_cluster_for_persistence_def)
qed

lemma cluster_ok_id: "cluster_ok ob k r \<Longrightarrow> clr_id r = k"
  by (simp add: cluster_ok_def)

lemma normalized_cluster [simp]:
  "clr_id (normalize_cluster_for_persistence r) = clr_id r"
  "clr_federation (normalize_cluster_for_persistence r) = clr_federation r"
  "clr_site (normalize_cluster_for_persistence r) = clr_site r"
  "clr_accelerator_classes (normalize_cluster_for_persistence r) = clr_accelerator_classes r"
  "clr_runtimes (normalize_cluster_for_persistence r) = clr_runtimes r"
  by (simp_all add: normalize_cluster_for_persistence_def)

lemmas record_ok_defs = federation_ok_def site_ok_def backend_ok_def domain_ok_def workload_ok_def
  placement_ok_def migration_ok_def assessment_ok_def

lemma engine_okD:
  assumes "engine_ok ob"
  shows "map_ok (ob_federations ob) (max_federations (ob_bounds ob)) federation_ok"
    "map_ok (ob_sites ob) (max_sites (ob_bounds ob)) (site_ok ob)"
    "map_ok (ob_accelerator_classes ob) (max_accelerator_classes (ob_bounds ob))
       (\<lambda>k r. ar_id r = k \<and> AcceleratorClassRecord_validate r = Success)"
    "map_ok (ob_runtimes ob) (max_runtimes (ob_bounds ob)) (\<lambda>k r. rr_id r = k \<and> RuntimeRecord_validate r = Success)"
    "map_ok (ob_backends ob) (max_backends (ob_bounds ob)) (backend_ok ob)"
    "map_ok (ob_domains ob) (max_domains (ob_bounds ob)) (domain_ok ob)"
    "map_ok (ob_policies ob) (max_policies (ob_bounds ob)) (\<lambda>k r. pr_id r = k \<and> PolicyRecord_validate r = Success)"
    "map_ok (ob_artifacts ob) (max_artifacts (ob_bounds ob)) (\<lambda>k r. art_id r = k \<and> ArtifactRecord_validate r = Success)"
    "map_ok (ob_workload_classes ob) (max_workload_classes (ob_bounds ob))
       (\<lambda>k r. wcr_id r = k \<and> WorkloadClassRecord_validate r = Success)"
    "map_ok (ob_workloads ob) (max_workloads (ob_bounds ob)) (workload_ok ob)"
    "map_ok (ob_clusters ob) (max_clusters (ob_bounds ob)) (cluster_ok ob)"
    "map_ok (ob_placements ob) (max_placement_history (ob_bounds ob)) (placement_ok ob)"
    "map_ok (ob_migrations ob) (max_migration_history (ob_bounds ob)) (migration_ok ob)"
    "map_ok (ob_portability ob) (max_portability_records (ob_bounds ob)) (assessment_ok ob)"
  using assms unfolding engine_ok_def records_ok_def by simp_all

text \<open>Each map of the restored engine holds well-formed records, with respect to the engine that was captured.\<close>

lemma restored_records_ok:
  assumes "engine_ok ob" and "apply_durable_state (persisted_state (capture_durable_state clock ob)) ob0 = (Success, ob1)"
    and "ob_bounds ob0 = ob_bounds ob"
  shows "records_ok ob ob1"
proof -
  have bounds: "ob_bounds ob1 = ob_bounds ob" using applied(2) [OF assms(2)] assms(3) by simp
  show ?thesis
    unfolding records_ok_def bounds applied_records [OF assms(2)] captured
    by (intro conjI; rule listed_restored; intro listed_map listed_sort listed_values; (rule engine_okD [OF assms(1)])?;
      auto simp: record_ok_defs cluster_ok_normalized dest: cluster_ok_id)
qed

lemma restored_has:
  assumes "map_ok m limit P" and "\<And>k v. P k v \<Longrightarrow> key v = k" and "key ` set xs = key ` set (smap_values m)"
    and "smap_has m k"
  shows "smap_has (emplace_all key xs) k"
  using values_keys [OF assms(1,2)] assms(3,4) by (simp add: find_emplace_all_None)

lemma restored_extends:
  assumes "engine_ok ob" and "apply_durable_state (persisted_state (capture_durable_state clock ob)) ob0 = (Success, ob1)"
  shows "extends ob ob1"
  unfolding extends_def applied_records [OF assms(2)] captured
  by (intro conjI allI impI; rule restored_has, rule engine_okD [OF assms(1)];
    auto simp: record_ok_defs image_image dest: cluster_ok_id)

text \<open>
  Property C8. The engine's invariant survives a restart: capturing an engine whose records satisfy it,
  writing and reading the state back and restoring it into an engine with the same bounds gives an engine
  whose records satisfy it: every map in order and within its bound, every record valid, stored under its
  own identifier and referring only to registered records.
\<close>

theorem restart_keeps_invariant:
  assumes "engine_ok ob" and "ob_bounds ob0 = ob_bounds ob"
    and "apply_durable_state (persisted_state (capture_durable_state clock ob)) ob0 = (Success, ob1)"
  shows "engine_ok ob1"
  using restored_records_ok [OF assms(1,3,2)] restored_extends [OF assms(1,3)] by (rule engine_okI)

section \<open>A captured state is valid\<close>

lemma distinct_ids:
  assumes "map_ok m limit P" and "\<And>k v. P k v \<Longrightarrow> key v = k"
  shows "distinct (map key (smap_values m))"
proof -
  have "key v = k" if "(k, v) \<in> set m" for k v
  proof -
    have "smap_find m k = Some v"
      using that assms(1) map_of_is_SomeI [OF smap_ok_distinct] by (auto simp: map_ok_def smap_find_def)
    then show ?thesis using map_ok_find [OF assms(1)] assms(2) by blast
  qed
  then have "map key (smap_values m) = map fst m" by (auto simp: smap_values_def)
  then show ?thesis using assms(1) smap_ok_distinct by (auto simp: map_ok_def)
qed

lemma distinct_id_values: "distinct (map (\<lambda>r. id_value (f r)) xs) \<longleftrightarrow> distinct (map f xs)"
  for f :: "'r \<Rightarrow> 't StrongId"
proof -
  have "inj_on id_value A" for A :: "'t StrongId set" by (auto simp: inj_on_def StrongId.expand)
  then show ?thesis using distinct_map [of id_value "map f xs"] by (simp add: comp_def)
qed

lemma unique_ids_values:
  assumes "map_ok m limit P" and "\<And>k v. P k v \<Longrightarrow> key v = k" and "\<And>v. key (f v) = key v"
  shows "unique_ids what key (map f (smap_values m)) = Success"
  using distinct_ids [OF assms(1,2)] by (simp add: unique_ids_def distinct_id_values comp_def assms(3))

lemma adjacent_watermark_None:
  "distinct (map (\<lambda>w. (pwm_publisher w, pwm_boot w)) ws) \<Longrightarrow> adjacent_watermark ws = None"
  by (induction ws rule: adjacent_watermark.induct) auto

lemma unique_watermarks_captured:
  assumes "publishers_ok ob"
  shows "unique_watermarks (map watermark_of (smap_values (ob_publishers ob))) = Success"
proof -
  have "map (\<lambda>a. (pau_publisher a, pau_boot a)) (smap_values (ob_publishers ob)) = map fst (ob_publishers ob)"
    using assms map_of_is_SomeI [OF smap_ok_distinct] publishers_okD [OF assms]
    by (fastforce simp: smap_values_def publishers_ok_def smap_find_def)
  then have "distinct (map (\<lambda>w. (pwm_publisher w, pwm_boot w)) (map watermark_of (smap_values (ob_publishers ob))))"
    using assms smap_ok_distinct by (auto simp: publishers_ok_def comp_def watermark_of_def)
  then show ?thesis
    by (simp add: unique_watermarks_def adjacent_watermark_None del: map_map)
qed

lemma normalized_persisted: "durable_state_is_normalized (persisted_state s) = None"
  unfolding durable_state_is_normalized_def first_some_None
  by (auto simp: persisted_state_def normalize_for_persistence_def Let_def first_some_None marked_current_def
    cluster_not_normalized_def normalize_cluster_for_persistence_def restored_currentness_def)

lemma record_valid_Success [simp]: "record_valid what v = Success \<longleftrightarrow> v = Success"
  by (simp add: record_valid_def fail_def split: Status.split)

lemma values_ok:
  assumes "map_ok m limit P" and "\<And>k v. P k v \<Longrightarrow> key v = k" and "v \<in> set (smap_values m)"
  shows "P (key v) v"
  using listed_values [of m limit P key, OF assms(1,2)] assms(3) by (simp add: listed_ok_def)

lemma captured_registered:
  assumes "engine_ok ob"
  shows "fi \<in> fr_id ` set (smap_values (ob_federations ob)) \<longleftrightarrow> smap_has (ob_federations ob) fi"
    "si \<in> sr_id ` set (smap_values (ob_sites ob)) \<longleftrightarrow> smap_has (ob_sites ob) si"
    "ci \<in> clr_id ` set (smap_values (ob_clusters ob)) \<longleftrightarrow> smap_has (ob_clusters ob) ci"
    "ai \<in> ar_id ` set (smap_values (ob_accelerator_classes ob)) \<longleftrightarrow> smap_has (ob_accelerator_classes ob) ai"
    "ri \<in> rr_id ` set (smap_values (ob_runtimes ob)) \<longleftrightarrow> smap_has (ob_runtimes ob) ri"
    "wi \<in> wcr_id ` set (smap_values (ob_workload_classes ob)) \<longleftrightarrow> smap_has (ob_workload_classes ob) wi"
    "ti \<in> art_id ` set (smap_values (ob_artifacts ob)) \<longleftrightarrow> smap_has (ob_artifacts ob) ti"
    "pi \<in> pr_id ` set (smap_values (ob_policies ob)) \<longleftrightarrow> smap_has (ob_policies ob) pi"
    "li \<in> wr_id ` set (smap_values (ob_workloads ob)) \<longleftrightarrow> smap_has (ob_workloads ob) li"
  by (rule values_keys [symmetric], rule engine_okD [OF assms]; auto simp: record_ok_defs dest: cluster_ok_id)+

lemma captured_ok:
  assumes "engine_ok ob"
  shows "f \<in> set (smap_values (ob_federations ob)) \<Longrightarrow> federation_ok (fr_id f) f"
    "s \<in> set (smap_values (ob_sites ob)) \<Longrightarrow> site_ok ob (sr_id s) s"
    "c \<in> set (smap_values (ob_clusters ob)) \<Longrightarrow> cluster_ok ob (clr_id c) c"
    "w \<in> set (smap_values (ob_workloads ob)) \<Longrightarrow> workload_ok ob (wr_id w) w"
    "p \<in> set (smap_values (ob_placements ob)) \<Longrightarrow> placement_ok ob (plr_id p) p"
    "m \<in> set (smap_values (ob_migrations ob)) \<Longrightarrow> migration_ok ob (mr_id m) m"
    "a \<in> set (smap_values (ob_portability ob)) \<Longrightarrow> assessment_ok ob (pa_workload a, pa_destination a) a"
  by (rule values_ok, rule engine_okD [OF assms]; auto simp: record_ok_defs dest: cluster_ok_id)+

lemma captured_within:
  assumes "engine_ok ob" and "smap_size (ob_publishers ob) \<le> max_publishers (ob_bounds ob)"
    and "length (ob_aggregate_findings ob) \<le> max_aggregate_findings (ob_bounds ob)"
  shows "first_failure (\<lambda>(n, limit, name). refuse_if (n > limit) BoundExceeded msg name)
    (durable_counts (persisted_state (capture_durable_state clock ob)) (ob_bounds ob)) = Success"
  using engine_okD [OF assms(1)] assms(2,3)
  unfolding durable_counts_def captured first_failure_Success by (simp add: map_ok_def)

lemma captured_unique:
  assumes "engine_ok ob"
  shows "unique_ids what fr_id (map (\<lambda>r. r\<lparr>fr_currentness := stale_currentness (fr_currentness r)\<rparr>) (smap_values (ob_federations ob))) = Success"
    "unique_ids what sr_id (map (\<lambda>r. r\<lparr>sr_currentness := stale_currentness (sr_currentness r)\<rparr>) (smap_values (ob_sites ob))) = Success"
    "unique_ids what clr_id (map normalize_cluster_for_persistence (smap_values (ob_clusters ob))) = Success"
    "unique_ids what ar_id (smap_values (ob_accelerator_classes ob)) = Success"
    "unique_ids what rr_id (smap_values (ob_runtimes ob)) = Success"
    "unique_ids what br_id (smap_values (ob_backends ob)) = Success"
    "unique_ids what dr_id (smap_values (ob_domains ob)) = Success"
    "unique_ids what pr_id (smap_values (ob_policies ob)) = Success"
    "unique_ids what art_id (smap_values (ob_artifacts ob)) = Success"
    "unique_ids what wcr_id (smap_values (ob_workload_classes ob)) = Success"
    "unique_ids what wr_id (smap_values (ob_workloads ob)) = Success"
    "unique_ids what plr_id (map (\<lambda>r. r\<lparr>plr_currentness := stale_currentness (plr_currentness r)\<rparr>) (smap_values (ob_placements ob))) = Success"
    "unique_ids what mr_id (map (\<lambda>r. r\<lparr>mr_currentness := stale_currentness (mr_currentness r)\<rparr>) (smap_values (ob_migrations ob))) = Success"
  by (rule unique_ids_values unique_ids_values [where f = "\<lambda>r. r", unfolded map_ident], rule engine_okD [OF assms];
    auto simp: record_ok_defs dest: cluster_ok_id)+

lemma captured_state_valid:
  assumes "engine_ok ob" and "publishers_ok ob" and "smap_size (ob_publishers ob) \<le> max_publishers (ob_bounds ob)"
    and "length (ob_aggregate_findings ob) \<le> max_aggregate_findings (ob_bounds ob)"
    and "\<forall>r \<in> set (smap_values (ob_migrations ob)). MigrationRecord_validate r = Success"
  shows "DurableState_validate (persisted_state (capture_durable_state clock ob)) (ob_bounds ob) = Success"
proof -
  let ?s = "persisted_state (capture_durable_state clock ob)"
  note maps = engine_okD [OF assms(1)]
  show ?thesis
    unfolding DurableState_validate_def Let_def checks_Success list.pred_inject normal_Success normalized_persisted captured
      unique_ids_sorted unique_watermarks_sorted first_failure_sorted unique_watermarks_captured [OF assms(2)]
      captured_unique [OF assms(1)] captured_within [OF assms(1,3,4)]
      first_failure_Success set_stable_sort set_map image_image ball_simps
    using assms(5)
    by (intro conjI ballI; simp only: list.pred_inject simp_thms refuse_if_Success record_valid_Success option.case)
      (auto simp: captured_registered [OF assms(1)] record_ok_defs cluster_ok_def optional_ref_def validate_normalized_cluster
        dest!: captured_ok [OF assms(1)])
qed

text \<open>
  Property C9. An engine can be saved and restored: applying the written form of the state captured from
  an engine whose records satisfy the invariant succeeds on every engine with the same bounds, provided the
  publisher records and findings fit their bounds and every stored migration is itself valid (stage events
  may have left the outcome of one behind its stage).
\<close>

theorem captured_state_restores:
  assumes "engine_ok ob" and "publishers_ok ob" and "smap_size (ob_publishers ob) \<le> max_publishers (ob_bounds ob)"
    and "length (ob_aggregate_findings ob) \<le> max_aggregate_findings (ob_bounds ob)"
    and "\<forall>r \<in> set (smap_values (ob_migrations ob)). MigrationRecord_validate r = Success"
    and "ob_bounds ob0 = ob_bounds ob"
  shows "\<exists>ob1. apply_durable_state (persisted_state (capture_durable_state clock ob)) ob0 = (Success, ob1)"
  using captured_state_valid [OF assms(1-5), of clock] assms(6)
  by (simp add: apply_durable_state_def Let_def case_prod_beta)

section \<open>Invalidating dynamic evidence\<close>

lemma cluster_ok_evidence: "cluster_ok ob k (r\<lparr>clr_evidence := e\<rparr>) = cluster_ok ob k r"
proof -
  have "ClusterRecord_validate (r\<lparr>clr_evidence := e, clr_capacity_pools := []\<rparr>) = ClusterRecord_validate (r\<lparr>clr_capacity_pools := []\<rparr>)"
    by (simp add: ClusterRecord_validate_def del: checks_simps)
  then show ?thesis by (simp add: cluster_ok_def)
qed

text \<open>
  Invalidating dynamic evidence leaves no cluster current and no unfenced publisher live, and
  keeps the engine's invariant.
\<close>

lemma invalidation_keeps_invariant:
  assumes "engine_ok ob"
  shows "engine_ok (snd (invalidate_dynamic_evidence reason ob)) \<and>
    none_current (ob_clusters (snd (invalidate_dynamic_evidence reason ob))) clr_currentness \<and>
    (\<forall>publisher boot. \<not> publisher_is_live publisher boot (snd (invalidate_dynamic_evidence reason ob)))"
proof -
  let ?ob = "snd (invalidate_dynamic_evidence reason ob)"
  have "records_ok ob ?ob"
    using assms unfolding engine_ok_def records_ok_def invalidate_dynamic_evidence_def
    by (auto intro!: map_ok_transform simp: cluster_ok_evidence cluster_ok_normalized)
  moreover have "extends ob ?ob"
    by (simp add: extends_def invalidate_dynamic_evidence_def)
  ultimately have "engine_ok ?ob" by (rule engine_okI)
  moreover have "none_current (ob_clusters ?ob) clr_currentness"
    by (auto simp: none_current_def invalidate_dynamic_evidence_def stdmap.find_transform
      normalize_cluster_for_persistence_def)
  moreover have "\<not> publisher_is_live publisher boot ?ob" for publisher boot
    by (auto simp: publisher_is_live_def invalidate_dynamic_evidence_def stdmap.find_transform split: option.splits)
  ultimately show ?thesis by blast
qed

end
