(* ===== verification/FO_Scenario.thy ===== *)
theory FO_Scenario
  imports FO_Restart
begin

text \<open>
  A concrete state of the engine: one registered publisher, a federation with a site and two clusters, a
  workload and a migration that has failed. The properties of the engine are applied to it, and those of a
  restart to a run from the empty engine.
\<close>

definition sample_clock :: clock where
  "sample_clock i = 7"

definition sample_ctx :: "u64 \<Rightarrow> PublicationContext" where
  "sample_ctx n =
     \<lparr>ctx_publisher = StrongId ''agent'', ctx_boot = Generation 1, ctx_coordinator_epoch = Generation 1,
      ctx_federation = StrongId ''fed'', ctx_federation_generation = Generation 1, ctx_sequence = Sequence n,
      ctx_observed_at = 5, ctx_precision = Precision_Exact, ctx_evidence_class = EvidenceClass_Real,
      ctx_provenance = Provenance_Unknown, ctx_evidence_generation = Generation 1\<rparr>"

definition sample_state :: Observatory where
  "sample_state = (Observatory_init default_bounds)
     \<lparr>ob_publishers := [(ctx_key (sample_ctx 1), PublisherAuthority_init
        \<lparr>pau_publisher := StrongId ''agent'', pau_boot := Generation 1, pau_epoch := Generation 1,
         pau_federation := StrongId ''fed'', pau_watermark := Sequence 9, pau_live := True\<rparr>)],
      ob_federations := [(StrongId ''fed'', sample_federation)],
      ob_sites := [(StrongId ''site'', sample_site)],
      ob_clusters := [(StrongId ''east'', sample_cluster ''east'' 1), (StrongId ''west'', sample_cluster ''west'' 1)],
      ob_workload_classes := [(StrongId ''batch'', sample_workload_class)],
      ob_migrations := [(StrongId ''move'', sample_history)]\<rparr>"

abbreviation register_sample :: "PublicationContext \<Rightarrow> Observatory \<Rightarrow> outcome" where
  "register_sample ctx \<equiv> register_workload sample_clock ctx sample_workload"

lemma sample_publications: "register_sample \<in> publications"
  "publish_capacity sample_clock (StrongId ''east'') gen_unset (Generation 1) pools \<in> publications"
  by (rule publications.intros)+

theorem fenced_forever_witness:
  "let ob = snd (fence_publisher (StrongId ''agent'') (Generation 1) ''lost lease'' sample_state)
   in (\<exists>e. fst (register_sample (sample_ctx 10) ob) = Inl e \<and> error_code e = FencedPublisher) \<and>
      \<not> publisher_is_live (StrongId ''agent'') (Generation 1) ob"
proof -
  let ?out = "fence_publisher (StrongId ''agent'') (Generation 1) ''lost lease'' sample_state"
  have "fst ?out = Success" by code_simp
  then have ob: "?out = (Success, snd ?out)" by (metis prod.collapse)
  have "ctx_key (sample_ctx 10) = (StrongId ''agent'', Generation 1)" "PublicationContext_validate (sample_ctx 10) = Success"
    by code_simp+
  then show ?thesis
    using fenced_forever [OF ob reachable_from.refl sample_publications(1)] by simp
qed

theorem accepted_publications_authorised_witness:
  "(\<exists>ir. fst (register_sample (sample_ctx 11) sample_state) = Inr ir \<and> ir_sequence_gap ir = 1 \<and>
      ir_watermark ir = Sequence 11) \<and>
   ctx_coordinator_epoch (sample_ctx 11) = ob_coordinator_epoch sample_state"
proof -
  have "case fst (register_sample (sample_ctx 11) sample_state) of Inl e \<Rightarrow> False | Inr ir \<Rightarrow> ir_sequence_gap ir = 1"
    by code_simp
  then obtain ir where ir: "fst (register_sample (sample_ctx 11) sample_state) = Inr ir" "ir_sequence_gap ir = 1"
    by (auto split: sum.splits)
  moreover have "ctx_sequence (sample_ctx 11) = Sequence 11" by code_simp
  ultimately show ?thesis
    using accepted_publications_authorised [OF reachable_from.refl sample_publications(1) ir(1)] by auto
qed

theorem refused_changes_nothing_witness:
  "\<exists>e. fst (register_sample (sample_ctx 3) sample_state) = Inl e \<and> error_code e = SequenceRegression \<and>
     same_content sample_state (snd (register_sample (sample_ctx 3) sample_state))"
proof -
  have "case fst (register_sample (sample_ctx 3) sample_state) of
      Inl e \<Rightarrow> error_code e = SequenceRegression \<and> error_message e \<noteq> ''capability key is not valid'' | Inr ir \<Rightarrow> False"
    by code_simp
  then show ?thesis
    using refused_changes_nothing [OF sample_publications(1), where ctx = "sample_ctx 3" and ob = sample_state]
    by (auto split: sum.splits)
qed

text \<open>One applied publication of capacity.\<close>

definition sample_publish :: "Observatory \<Rightarrow> outcome" where
  "sample_publish = publish_capacity sample_clock (StrongId ''east'') gen_unset (Generation 1)
     [CapacityPool_init\<lparr>cp_pool_id := StrongId ''mem'', cp_kind := ResourceKind_MemoryBytes,
        cp_ledger := CapacityLedger_init\<lparr>cl_nominal := 8, cl_idle := 8\<rparr>\<rparr>] (sample_ctx 10)"

lemma sample_step: "engine_step ob (snd (sample_publish ob))"
  unfolding sample_publish_def by (rule engine_step.publication, rule sample_publications)

lemma sample_reachable: "reachable_from ob (snd (sample_publish ob))"
  by (rule reachable_from.step [OF reachable_from.refl sample_step])


theorem ended_migration_is_final_witness:
  "\<exists>r. smap_find (ob_migrations (snd (publish_migration_stage sample_clock (StrongId ''move'') (Generation 2)
        MigrationStage_Committed [] (sample_ctx 10) sample_state))) (StrongId ''move'') = Some r \<and>
     (newer_than (mr_generation r) (Generation 2) \<or>
      mr_stage r = MigrationStage_Failed \<and> mr_stage_events r = mr_stage_events sample_history)"
proof -
  let ?ob = "snd (publish_migration_stage sample_clock (StrongId ''move'') (Generation 2)
    MigrationStage_Committed [] (sample_ctx 10) sample_state)"
  have "reachable_from sample_state ?ob"
    by (rule reachable_from.step [OF reachable_from.refl engine_step.publication]) (rule publications.stage)
  moreover have "smap_find (ob_migrations sample_state) (StrongId ''move'') = Some sample_history"
    by (simp add: sample_state_def smap_find_def)
  moreover have "mr_stage sample_history = MigrationStage_Failed" "mr_generation sample_history = Generation 2"
    "is_terminal_stage MigrationStage_Failed"
    by code_simp+
  ultimately show ?thesis using ended_migration_is_final [of sample_state ?ob "StrongId ''move''" sample_history] by auto
qed


section \<open>A restart\<close>

text \<open>A run from the empty engine: a publisher registers, publishes a federation and is fenced.\<close>

definition sample_run :: Observatory where
  "sample_run = snd (fence_publisher (StrongId ''agent'') (Generation 1) ''lost lease''
     (snd (register_federation sample_clock (sample_ctx 2) sample_federation
       (snd (register_publisher sample_clock (sample_ctx 1) (Observatory_init default_bounds))))))"

abbreviation sample_saved :: DurableState where
  "sample_saved \<equiv> persisted_state (capture_durable_state sample_clock sample_run)"

lemma sample_run_reachable: "reachable_from (Observatory_init default_bounds) sample_run"
  unfolding sample_run_def
  by (intro reachable_from.step [OF _ engine_step.fencing] reachable_from.step [OF _ engine_step.registration]
    reachable_from.step [OF _ engine_step.publication [OF publications.federation]] reachable_from.refl)

lemma sample_run_restores:
  "apply_durable_state sample_saved (Observatory_init default_bounds) =
     (Success, snd (apply_durable_state sample_saved (Observatory_init default_bounds)))"
proof -
  have "fst (apply_durable_state sample_saved (Observatory_init default_bounds)) = Success" by code_simp
  then show ?thesis by (metis prod.collapse)
qed

lemma sample_run_ok: "engine_ok sample_run" "publishers_ok sample_run" "ob_bounds (Observatory_init default_bounds) = ob_bounds sample_run"
proof -
  show "engine_ok sample_run" by (rule reachable_ok [OF sample_run_reachable engine_ok_init])
  show "publishers_ok sample_run"
    by (rule reachable_keyed [OF sample_run_reachable]) (simp add: publishers_ok_def Observatory_init_def smap_ok_def smap_find_def)
  show "ob_bounds (Observatory_init default_bounds) = ob_bounds sample_run" by code_simp
qed

theorem restart_keeps_authority_witness:
  "let ob1 = snd (apply_durable_state sample_saved (Observatory_init default_bounds))
   in (\<exists>e. fst (register_sample (sample_ctx 10) ob1) = Inl e \<and> error_code e = FencedPublisher)"
proof -
  have "case smap_find (ob_publishers sample_run) (ctx_key (sample_ctx 10)) of None \<Rightarrow> False | Some a \<Rightarrow> pau_fenced a"
    by code_simp
  then obtain a where a: "smap_find (ob_publishers sample_run) (ctx_key (sample_ctx 10)) = Some a" "pau_fenced a"
    by (auto split: option.splits)
  have "PublicationContext_validate (sample_ctx 10) = Success" by code_simp
  from restart_keeps_authority [OF sample_run_ok(2) sample_run_restores reachable_from.refl a(1) sample_publications(1) this]
  show ?thesis using a(2) by simp
qed

theorem nothing_restored_as_current_witness:
  "let ob1 = snd (apply_durable_state sample_saved (Observatory_init default_bounds))
   in smap_size (ob_federations ob1) = 1 \<and> none_current (ob_federations ob1) fr_currentness"
proof -
  have "smap_size (ob_federations (snd (apply_durable_state sample_saved (Observatory_init default_bounds)))) = 1" by code_simp
  then show ?thesis using nothing_restored_as_current [OF sample_run_restores] by simp
qed

theorem restart_keeps_invariant_witness:
  "engine_ok sample_run \<and> engine_ok (snd (apply_durable_state sample_saved (Observatory_init default_bounds)))"
  using restart_keeps_invariant [OF sample_run_ok(1,3) sample_run_restores] sample_run_ok(1) by blast

theorem captured_state_restores_witness:
  "\<exists>ob1. apply_durable_state sample_saved (Observatory_init default_bounds) = (Success, ob1)"
proof (rule captured_state_restores [OF sample_run_ok(1,2) _ _ _ sample_run_ok(3)])
  show "smap_size (ob_publishers sample_run) \<le> max_publishers (ob_bounds sample_run)" by code_simp
  show "length (ob_aggregate_findings sample_run) \<le> max_aggregate_findings (ob_bounds sample_run)" by code_simp
  show "\<forall>r \<in> set (smap_values (ob_migrations sample_run)). MigrationRecord_validate r = Success" by code_simp
qed

lemma sample_run_saved: "length (enc_buffer (encode_payload sample_saved Encoder_init)) = 288"
  "DurableState_encodable (ob_bounds sample_run) (normalize_for_persistence (capture_durable_state sample_clock sample_run))"
  "DurableState_validate (normalize_for_persistence (capture_durable_state sample_clock sample_run)) (ob_bounds sample_run) = Success"
  by code_simp+


end
