(* ===== verification/FO_Compatibility.thy ===== *)
theory FO_Compatibility
  imports FO_Portability
begin

text \<open>
  Compatibility of a workload generation with a target (\<open>compatibility.hpp\<close>, \<open>compatibility.cpp\<close>): named
  outcomes ordered by severity, the relationships that are checked, and the assessment. The checks of each
  numbered section of \<open>assess_compatibility\<close> are a list in the order the source adds them; \<open>builder_add\<close> is
  \<open>Builder::add\<close>. A pointer of the inputs is an option.
\<close>

section \<open>Outcomes\<close>

datatype CompatibilityOutcome =
    CompatibilityOutcome_Compatible
  | CompatibilityOutcome_CompatibleWithFallback
  | CompatibilityOutcome_CompatibleAfterReconfiguration
  | CompatibilityOutcome_CompatibleAfterRebuild
  | CompatibilityOutcome_CapabilityMissing
  | CompatibilityOutcome_IncompatibleMemory
  | CompatibilityOutcome_IncompatibleTopology
  | CompatibilityOutcome_IncompatibleIsolation
  | CompatibilityOutcome_IncompatibleArtifact
  | CompatibilityOutcome_IncompatibleAbi
  | CompatibilityOutcome_IncompatibleDriver
  | CompatibilityOutcome_IncompatibleRuntime
  | CompatibilityOutcome_IncompatibleArchitecture
  | CompatibilityOutcome_StaleEvidence
  | CompatibilityOutcome_UnknownCompatibility
  | CompatibilityOutcome_Unsupported

definition CompatibilityOutcome_values :: "CompatibilityOutcome list" where
  "CompatibilityOutcome_values =
     [CompatibilityOutcome_Compatible, CompatibilityOutcome_CompatibleWithFallback,
      CompatibilityOutcome_CompatibleAfterReconfiguration,
      CompatibilityOutcome_CompatibleAfterRebuild, CompatibilityOutcome_CapabilityMissing,
      CompatibilityOutcome_IncompatibleMemory, CompatibilityOutcome_IncompatibleTopology,
      CompatibilityOutcome_IncompatibleIsolation, CompatibilityOutcome_IncompatibleArtifact,
      CompatibilityOutcome_IncompatibleAbi, CompatibilityOutcome_IncompatibleDriver,
      CompatibilityOutcome_IncompatibleRuntime,
      CompatibilityOutcome_IncompatibleArchitecture, CompatibilityOutcome_StaleEvidence,
      CompatibilityOutcome_UnknownCompatibility, CompatibilityOutcome_Unsupported]"

fun CompatibilityOutcome_to_string :: "CompatibilityOutcome \<Rightarrow> string" where
  "CompatibilityOutcome_to_string CompatibilityOutcome_Compatible = ''COMPATIBLE''"
| "CompatibilityOutcome_to_string CompatibilityOutcome_CompatibleWithFallback = ''COMPATIBLE_WITH_FALLBACK''"
| "CompatibilityOutcome_to_string CompatibilityOutcome_CompatibleAfterReconfiguration = ''COMPATIBLE_AFTER_RECONFIGURATION''"
| "CompatibilityOutcome_to_string CompatibilityOutcome_CompatibleAfterRebuild = ''COMPATIBLE_AFTER_REBUILD''"
| "CompatibilityOutcome_to_string CompatibilityOutcome_CapabilityMissing = ''CAPABILITY_MISSING''"
| "CompatibilityOutcome_to_string CompatibilityOutcome_IncompatibleMemory = ''INCOMPATIBLE_MEMORY''"
| "CompatibilityOutcome_to_string CompatibilityOutcome_IncompatibleTopology = ''INCOMPATIBLE_TOPOLOGY''"
| "CompatibilityOutcome_to_string CompatibilityOutcome_IncompatibleIsolation = ''INCOMPATIBLE_ISOLATION''"
| "CompatibilityOutcome_to_string CompatibilityOutcome_IncompatibleArtifact = ''INCOMPATIBLE_ARTIFACT''"
| "CompatibilityOutcome_to_string CompatibilityOutcome_IncompatibleAbi = ''INCOMPATIBLE_ABI''"
| "CompatibilityOutcome_to_string CompatibilityOutcome_IncompatibleDriver = ''INCOMPATIBLE_DRIVER''"
| "CompatibilityOutcome_to_string CompatibilityOutcome_IncompatibleRuntime = ''INCOMPATIBLE_RUNTIME''"
| "CompatibilityOutcome_to_string CompatibilityOutcome_IncompatibleArchitecture = ''INCOMPATIBLE_ARCHITECTURE''"
| "CompatibilityOutcome_to_string CompatibilityOutcome_StaleEvidence = ''STALE_EVIDENCE''"
| "CompatibilityOutcome_to_string CompatibilityOutcome_UnknownCompatibility = ''UNKNOWN_COMPATIBILITY''"
| "CompatibilityOutcome_to_string CompatibilityOutcome_Unsupported = ''UNSUPPORTED''"

interpretation compatibility_outcome_enum: named_enumeration CompatibilityOutcome_values CompatibilityOutcome_to_string
proof unfold_locales
  show "v \<in> set CompatibilityOutcome_values" for v by (cases v) (simp_all add: CompatibilityOutcome_values_def)
qed (simp_all add: CompatibilityOutcome_values_def)

definition parse_compatibility_outcome :: "string \<Rightarrow> CompatibilityOutcome option" where
  "parse_compatibility_outcome = parse_enum CompatibilityOutcome_values CompatibilityOutcome_to_string"

fun compatibility_severity :: "CompatibilityOutcome \<Rightarrow> nat" where
  "compatibility_severity CompatibilityOutcome_Compatible = 0"
| "compatibility_severity CompatibilityOutcome_CompatibleWithFallback = 1"
| "compatibility_severity CompatibilityOutcome_CompatibleAfterReconfiguration = 2"
| "compatibility_severity CompatibilityOutcome_CompatibleAfterRebuild = 3"
| "compatibility_severity CompatibilityOutcome_CapabilityMissing = 4"
| "compatibility_severity CompatibilityOutcome_IncompatibleMemory = 5"
| "compatibility_severity CompatibilityOutcome_IncompatibleTopology = 6"
| "compatibility_severity CompatibilityOutcome_IncompatibleIsolation = 7"
| "compatibility_severity CompatibilityOutcome_IncompatibleArtifact = 8"
| "compatibility_severity CompatibilityOutcome_IncompatibleAbi = 9"
| "compatibility_severity CompatibilityOutcome_IncompatibleDriver = 10"
| "compatibility_severity CompatibilityOutcome_IncompatibleRuntime = 11"
| "compatibility_severity CompatibilityOutcome_IncompatibleArchitecture = 12"
| "compatibility_severity CompatibilityOutcome_StaleEvidence = 13"
| "compatibility_severity CompatibilityOutcome_UnknownCompatibility = 14"
| "compatibility_severity CompatibilityOutcome_Unsupported = 15"

definition weakest_compatibility :: "CompatibilityOutcome \<Rightarrow> CompatibilityOutcome \<Rightarrow> CompatibilityOutcome" where
  "weakest_compatibility a b = (if compatibility_severity a \<ge> compatibility_severity b then a else b)"

definition is_compatible_family :: "CompatibilityOutcome \<Rightarrow> bool" where
  "is_compatible_family outcome = (compatibility_severity outcome \<le> 3)"

definition is_hard_incompatible :: "CompatibilityOutcome \<Rightarrow> bool" where
  "is_hard_incompatible outcome = (compatibility_severity outcome \<ge> 4 \<and> compatibility_severity outcome \<le> 12)"

definition compatibility_undecided :: "CompatibilityOutcome \<Rightarrow> bool" where
  "compatibility_undecided outcome = (compatibility_severity outcome \<ge> 13)"

datatype CompatibilitySubject =
    CompatibilitySubject_WorkloadAccelerator
  | CompatibilitySubject_ArtifactArchitecture
  | CompatibilitySubject_ArtifactFormatSupport
  | CompatibilitySubject_ArtifactRuntime
  | CompatibilitySubject_ArtifactDriver
  | CompatibilitySubject_RuntimeDriver
  | CompatibilitySubject_RuntimeOperatingSystem
  | CompatibilitySubject_RuntimeAbi
  | CompatibilitySubject_CompilerAbi
  | CompatibilitySubject_KernelArchitecture
  | CompatibilitySubject_ModelFormatBackend
  | CompatibilitySubject_AdapterModelGeneration
  | CompatibilitySubject_CollectiveTopology
  | CompatibilitySubject_PartitionRequirement
  | CompatibilitySubject_IsolationRequirement
  | CompatibilitySubject_MemoryRequirement
  | CompatibilitySubject_PrecisionRequirement
  | CompatibilitySubject_CapabilityRequirement
  | CompatibilitySubject_PortabilityClassDestination
  | CompatibilitySubject_PolicyAdmissibility
  | CompatibilitySubject_ClusterCurrentness

definition CompatibilitySubject_values :: "CompatibilitySubject list" where
  "CompatibilitySubject_values =
     [CompatibilitySubject_WorkloadAccelerator, CompatibilitySubject_ArtifactArchitecture,
      CompatibilitySubject_ArtifactFormatSupport, CompatibilitySubject_ArtifactRuntime,
      CompatibilitySubject_ArtifactDriver, CompatibilitySubject_RuntimeDriver,
      CompatibilitySubject_RuntimeOperatingSystem, CompatibilitySubject_RuntimeAbi,
      CompatibilitySubject_CompilerAbi, CompatibilitySubject_KernelArchitecture,
      CompatibilitySubject_ModelFormatBackend, CompatibilitySubject_AdapterModelGeneration,
      CompatibilitySubject_CollectiveTopology, CompatibilitySubject_PartitionRequirement,
      CompatibilitySubject_IsolationRequirement, CompatibilitySubject_MemoryRequirement,
      CompatibilitySubject_PrecisionRequirement, CompatibilitySubject_CapabilityRequirement,
      CompatibilitySubject_PortabilityClassDestination,
      CompatibilitySubject_PolicyAdmissibility, CompatibilitySubject_ClusterCurrentness]"

fun CompatibilitySubject_to_string :: "CompatibilitySubject \<Rightarrow> string" where
  "CompatibilitySubject_to_string CompatibilitySubject_WorkloadAccelerator = ''WORKLOAD_ACCELERATOR''"
| "CompatibilitySubject_to_string CompatibilitySubject_ArtifactArchitecture = ''ARTIFACT_ARCHITECTURE''"
| "CompatibilitySubject_to_string CompatibilitySubject_ArtifactFormatSupport = ''ARTIFACT_FORMAT_SUPPORT''"
| "CompatibilitySubject_to_string CompatibilitySubject_ArtifactRuntime = ''ARTIFACT_RUNTIME''"
| "CompatibilitySubject_to_string CompatibilitySubject_ArtifactDriver = ''ARTIFACT_DRIVER''"
| "CompatibilitySubject_to_string CompatibilitySubject_RuntimeDriver = ''RUNTIME_DRIVER''"
| "CompatibilitySubject_to_string CompatibilitySubject_RuntimeOperatingSystem = ''RUNTIME_OPERATING_SYSTEM''"
| "CompatibilitySubject_to_string CompatibilitySubject_RuntimeAbi = ''RUNTIME_ABI''"
| "CompatibilitySubject_to_string CompatibilitySubject_CompilerAbi = ''COMPILER_ABI''"
| "CompatibilitySubject_to_string CompatibilitySubject_KernelArchitecture = ''KERNEL_ARCHITECTURE''"
| "CompatibilitySubject_to_string CompatibilitySubject_ModelFormatBackend = ''MODEL_FORMAT_BACKEND''"
| "CompatibilitySubject_to_string CompatibilitySubject_AdapterModelGeneration = ''ADAPTER_MODEL_GENERATION''"
| "CompatibilitySubject_to_string CompatibilitySubject_CollectiveTopology = ''COLLECTIVE_TOPOLOGY''"
| "CompatibilitySubject_to_string CompatibilitySubject_PartitionRequirement = ''PARTITION_REQUIREMENT''"
| "CompatibilitySubject_to_string CompatibilitySubject_IsolationRequirement = ''ISOLATION_REQUIREMENT''"
| "CompatibilitySubject_to_string CompatibilitySubject_MemoryRequirement = ''MEMORY_REQUIREMENT''"
| "CompatibilitySubject_to_string CompatibilitySubject_PrecisionRequirement = ''PRECISION_REQUIREMENT''"
| "CompatibilitySubject_to_string CompatibilitySubject_CapabilityRequirement = ''CAPABILITY_REQUIREMENT''"
| "CompatibilitySubject_to_string CompatibilitySubject_PortabilityClassDestination = ''PORTABILITY_CLASS_DESTINATION''"
| "CompatibilitySubject_to_string CompatibilitySubject_PolicyAdmissibility = ''POLICY_ADMISSIBILITY''"
| "CompatibilitySubject_to_string CompatibilitySubject_ClusterCurrentness = ''CLUSTER_CURRENTNESS''"

interpretation compatibility_subject_enum: named_enumeration CompatibilitySubject_values CompatibilitySubject_to_string
proof unfold_locales
  show "v \<in> set CompatibilitySubject_values" for v by (cases v) (simp_all add: CompatibilitySubject_values_def)
qed (simp_all add: CompatibilitySubject_values_def)

section \<open>Checks and assessments\<close>

record CompatibilityCheck =
  cck_subject :: CompatibilitySubject
  cck_requirement :: string
  cck_observed :: string
  cck_outcome :: CompatibilityOutcome
  cck_basis :: ReasonBasis
  cck_precision :: Precision
  cck_evidence_class :: EvidenceClass
  cck_detail :: string

definition CompatibilityCheck_less :: "CompatibilityCheck \<Rightarrow> CompatibilityCheck \<Rightarrow> bool" where
  "CompatibilityCheck_less a b =
     (if cck_subject a \<noteq> cck_subject b then enum_lt CompatibilitySubject_values (cck_subject a) (cck_subject b)
      else if cck_requirement a \<noteq> cck_requirement b then cck_requirement a < cck_requirement b
      else cck_detail a < cck_detail b)"

record CompatibilityAssessment =
  ca_overall :: CompatibilityOutcome
  ca_target_cluster :: ClusterId
  ca_target_cluster_generation :: ClusterGeneration
  ca_target_cluster_epoch :: ClusterEpoch
  ca_target_accelerator_class :: AcceleratorClassId
  ca_workload :: WorkloadId
  ca_workload_generation :: WorkloadGeneration
  ca_artifact :: ArtifactId
  ca_artifact_generation :: ArtifactGeneration
  ca_runtime :: RuntimeId
  ca_runtime_generation :: RuntimeGeneration
  ca_compatibility_generation :: CompatibilityGeneration
  ca_target_currentness :: Currentness
  ca_policy_admissible :: Tri
  ca_policy_detail :: string
  ca_precision :: Precision
  ca_evidence_class :: EvidenceClass
  ca_checks :: "CompatibilityCheck list"
  ca_evidence :: EvidenceList

definition CompatibilityAssessment_init :: CompatibilityAssessment where
  "CompatibilityAssessment_init =
     \<lparr>ca_overall = CompatibilityOutcome_UnknownCompatibility, ca_target_cluster = no_id,
      ca_target_cluster_generation = gen_unset, ca_target_cluster_epoch = gen_unset,
      ca_target_accelerator_class = no_id, ca_workload = no_id,
      ca_workload_generation = gen_unset, ca_artifact = no_id,
      ca_artifact_generation = gen_unset, ca_runtime = no_id, ca_runtime_generation = gen_unset,
      ca_compatibility_generation = gen_unset, ca_target_currentness = Currentness_Unknown,
      ca_policy_admissible = Tri_Unknown, ca_policy_detail = [],
      ca_precision = Precision_Unknown, ca_evidence_class = EvidenceClass_Unknown,
      ca_checks = [], ca_evidence = no_evidence\<rparr>"

definition admits_placement :: "CompatibilityAssessment \<Rightarrow> bool" where
  "admits_placement a = (is_compatible_family (ca_overall a) \<and> ca_policy_admissible a \<noteq> Tri_No)"

definition compatibility_requires_adaptation :: "CompatibilityAssessment \<Rightarrow> bool" where
  "compatibility_requires_adaptation a =
     (ca_overall a \<in> set [CompatibilityOutcome_CompatibleWithFallback, CompatibilityOutcome_CompatibleAfterReconfiguration,
        CompatibilityOutcome_CompatibleAfterRebuild])"

text \<open>The loop of \<open>primary_failure\<close>: the first check of the greatest severity, among those that failed.\<close>

fun worst_check :: "CompatibilityCheck option \<Rightarrow> CompatibilityCheck list \<Rightarrow> CompatibilityCheck option" where
  "worst_check worst [] = worst"
| "worst_check worst (c # cs) =
     (if compatibility_severity (cck_outcome c) \<le> 3 then worst_check worst cs
      else case worst of
             None \<Rightarrow> worst_check (Some c) cs
           | Some w \<Rightarrow> worst_check (if compatibility_severity (cck_outcome c) > compatibility_severity (cck_outcome w)
                                   then Some c else Some w) cs)"

definition primary_failure :: "CompatibilityAssessment \<Rightarrow> CompatibilityCheck option" where
  "primary_failure a = worst_check None (ca_checks a)"

definition CompatibilityAssessment_render :: "string \<Rightarrow> CompatibilityAssessment \<Rightarrow> string" where
  "CompatibilityAssessment_render indent a =
     indent @ ''compatibility:'' @ newline @
     render_table [''field'', ''value'']
       [[''overall'', CompatibilityOutcome_to_string (ca_overall a)],
        [''admits_placement'', yes_no (admits_placement a)],
        [''requires_adaptation'', yes_no (compatibility_requires_adaptation a)],
        [''target_cluster'', render_id (id_value (ca_target_cluster a))],
        [''target_cluster_generation'', gen_or_dash (ca_target_cluster_generation a)],
        [''target_cluster_epoch'', gen_or_dash (ca_target_cluster_epoch a)],
        [''target_accelerator_class'', render_id (id_value (ca_target_accelerator_class a))],
        [''workload'', render_id (id_value (ca_workload a))],
        [''workload_generation'', gen_or_dash (ca_workload_generation a)],
        [''artifact'', render_id (id_value (ca_artifact a))],
        [''artifact_generation'', gen_or_dash (ca_artifact_generation a)],
        [''runtime'', render_id (id_value (ca_runtime a))],
        [''compatibility_generation'', gen_or_dash (ca_compatibility_generation a)],
        [''target_currentness'', Currentness_to_string (ca_target_currentness a)],
        [''policy_admissible'', Tri_to_string (ca_policy_admissible a)],
        [''policy_detail'', if ca_policy_detail a = [] then ''-'' else ca_policy_detail a],
        [''precision'', Precision_to_string (ca_precision a)],
        [''evidence_class'', EvidenceClass_to_string (ca_evidence_class a)]]
       (indent @ ''  '') @
     (if ca_checks a = [] then []
      else newline @
        render_table [''relationship'', ''outcome'', ''requirement'', ''observed'', ''detail'']
          (map (\<lambda>c. [CompatibilitySubject_to_string (cck_subject c), CompatibilityOutcome_to_string (cck_outcome c),
                      cck_requirement c, cck_observed c, cck_detail c]) (ca_checks a))
          (indent @ ''  '') @ newline)"

section \<open>The assessment\<close>

record CompatibilityInputs =
  ci_workload :: "WorkloadRecord option"
  ci_artifact :: "ArtifactRecord option"
  ci_cluster :: "ClusterRecord option"
  ci_accelerator_class :: "AcceleratorClassRecord option"
  ci_cluster_runtime :: "RuntimeRecord option"
  ci_policy :: "PolicyRecord option"
  ci_effective_capabilities :: "CapabilitySet option"
  ci_compatibility_generation :: CompatibilityGeneration
  ci_target_currentness :: Currentness

definition is_code_bearing :: "ArtifactKind \<Rightarrow> bool" where
  "is_code_bearing kind =
     (kind \<in> set [ArtifactKind_ExecutableBinary, ArtifactKind_SharedLibrary, ArtifactKind_DeviceImage, ArtifactKind_ContainerImage])"

definition outcome_for_failed_requirement :: "CapabilityKey \<Rightarrow> CompatibilityOutcome" where
  "outcome_for_failed_requirement key =
     (if key \<in> set [CapabilityKey_MemoryBytes, CapabilityKey_MemoryBandwidthGbps] then CompatibilityOutcome_IncompatibleMemory
      else if key \<in> set [CapabilityKey_PartitionSupport, CapabilityKey_PartitionModes, CapabilityKey_PartitionGeometry, CapabilityKey_PartitionMaxInstances] then CompatibilityOutcome_IncompatibleTopology
      else if key \<in> set [CapabilityKey_SecurityIsolation] then CompatibilityOutcome_IncompatibleIsolation
      else if key \<in> set [CapabilityKey_ArtifactFormat, CapabilityKey_ArtifactFormats, CapabilityKey_QuantizationSupport, CapabilityKey_QuantizationFormats, CapabilityKey_SparseExecutionSupport, CapabilityKey_InferenceServingBackend] then CompatibilityOutcome_IncompatibleArtifact
      else if key \<in> set [CapabilityKey_RuntimeApi, CapabilityKey_RuntimeVersion, CapabilityKey_RuntimeGeneration] then CompatibilityOutcome_IncompatibleRuntime
      else if key \<in> set [CapabilityKey_RuntimeAbi, CapabilityKey_CompilerTarget, CapabilityKey_CompilerVersion] then CompatibilityOutcome_IncompatibleAbi
      else if key \<in> set [CapabilityKey_DriverApi, CapabilityKey_DriverVersion, CapabilityKey_DriverAbi, CapabilityKey_DriverGeneration] then CompatibilityOutcome_IncompatibleDriver
      else if key \<in> set [CapabilityKey_KernelFormat, CapabilityKey_KernelArchitectures] then CompatibilityOutcome_IncompatibleArtifact
      else if key \<in> set [CapabilityKey_AcceleratorArchitecture] then CompatibilityOutcome_IncompatibleArchitecture
      else CompatibilityOutcome_CapabilityMissing)"

definition CapabilitySubjectFor :: "CapabilityRequirement \<Rightarrow> CompatibilitySubject" where
  "CapabilitySubjectFor requirement =
     (let key = cr_key (req_key requirement) in
      if key \<in> set [CapabilityKey_MemoryBytes, CapabilityKey_MemoryBandwidthGbps] then CompatibilitySubject_MemoryRequirement
      else if key \<in> set [CapabilityKey_PartitionSupport, CapabilityKey_PartitionModes, CapabilityKey_PartitionGeometry, CapabilityKey_PartitionMaxInstances] then CompatibilitySubject_PartitionRequirement
      else if key \<in> set [CapabilityKey_SecurityIsolation] then CompatibilitySubject_IsolationRequirement
      else if key \<in> set [CapabilityKey_CollectiveSupport, CapabilityKey_CollectiveBackend, CapabilityKey_CollectiveMaxGroupSize] then CompatibilitySubject_CollectiveTopology
      else if key \<in> set [CapabilityKey_KernelFormat, CapabilityKey_KernelArchitectures] then CompatibilitySubject_KernelArchitecture
      else if key \<in> set [CapabilityKey_ArtifactFormat, CapabilityKey_ArtifactFormats] then CompatibilitySubject_ArtifactFormatSupport
      else if key \<in> set [CapabilityKey_RuntimeAbi, CapabilityKey_CompilerTarget, CapabilityKey_CompilerVersion] then CompatibilitySubject_CompilerAbi
      else if key \<in> set [CapabilityKey_RuntimeApi, CapabilityKey_RuntimeVersion, CapabilityKey_RuntimeGeneration] then CompatibilitySubject_ArtifactRuntime
      else if key \<in> set [CapabilityKey_DriverApi, CapabilityKey_DriverVersion, CapabilityKey_DriverAbi, CapabilityKey_DriverGeneration] then CompatibilitySubject_ArtifactDriver
      else if key \<in> set [CapabilityKey_AcceleratorArchitecture] then CompatibilitySubject_ArtifactArchitecture
      else CompatibilitySubject_CapabilityRequirement)"

definition compare_runtime_versions :: "string \<Rightarrow> string \<Rightarrow> string \<Rightarrow> string \<Rightarrow> CompatibilityOutcome" where
  "compare_runtime_versions required_runtime_abi observed_runtime_abi required_driver_abi observed_driver_abi =
     (if required_runtime_abi \<noteq> [] \<and> observed_runtime_abi = [] then CompatibilityOutcome_UnknownCompatibility
      else if required_runtime_abi \<noteq> [] \<and> required_runtime_abi \<noteq> observed_runtime_abi then CompatibilityOutcome_IncompatibleAbi
      else if required_driver_abi \<noteq> [] \<and> observed_driver_abi = [] then CompatibilityOutcome_UnknownCompatibility
      else if required_driver_abi \<noteq> [] \<and> required_driver_abi \<noteq> observed_driver_abi then CompatibilityOutcome_IncompatibleDriver
      else CompatibilityOutcome_Compatible)"

type_synonym relation_check = "CompatibilitySubject \<times> string \<times> string \<times> CompatibilityOutcome \<times> string"

text \<open>The evidence class every check of an assessment carries.\<close>

definition check_evidence_class :: "CompatibilityInputs \<Rightarrow> EvidenceClass" where
  "check_evidence_class inputs =
     (let c = (case ci_effective_capabilities inputs of Some s \<Rightarrow> cset_combined_class s | None \<Rightarrow> EvidenceClass_Unknown)
      in case ci_cluster inputs of
           Some k \<Rightarrow> if c = EvidenceClass_Unknown then os_evidence_class (clr_stamp k) else c
         | None \<Rightarrow> c)"

text \<open>Both branches of \<open>Builder::add\<close> combine the outcomes in the same way.\<close>

definition builder_add :: "CompatibilityInputs \<Rightarrow> CompatibilityAssessment \<Rightarrow> relation_check \<Rightarrow> CompatibilityAssessment" where
  "builder_add inputs a c =
     (case c of (subject, requirement, observed, outcome, detail) \<Rightarrow>
        a\<lparr>ca_checks := ca_checks a @
            [\<lparr>cck_subject = subject, cck_requirement = requirement, cck_observed = observed, cck_outcome = outcome,
              cck_basis = ReasonBasis_Derived, cck_precision = Precision_Derived,
              cck_evidence_class = check_evidence_class inputs, cck_detail = detail\<rparr>],
          ca_overall := weakest_compatibility (ca_overall a) outcome\<rparr>)"

definition capability_requirement_check :: "CompatibilityInputs \<Rightarrow> bool \<Rightarrow> CapabilityRequirement \<Rightarrow> relation_check" where
  "capability_requirement_check inputs from_artifact requirement =
     (case ci_effective_capabilities inputs of
        None \<Rightarrow> (CapabilitySubjectFor requirement, CapabilityRequirement_to_string requirement, ''UNKNOWN'',
                 CompatibilityOutcome_UnknownCompatibility, ''no capability evidence is available for the target'')
      | Some s \<Rightarrow>
          (let check = evaluate_requirement requirement s;
               outcome = (case chk_satisfied check of
                  Tri_No \<Rightarrow> if req_optional requirement then CompatibilityOutcome_CompatibleWithFallback
                           else outcome_for_failed_requirement (cr_key (req_key requirement))
                | Tri_Unknown \<Rightarrow> CompatibilityOutcome_UnknownCompatibility
                | Tri_Yes \<Rightarrow> CompatibilityOutcome_Compatible);
               detail = chk_detail check @
                 (if req_optional requirement \<and> chk_satisfied check = Tri_No
                  then '' (optional requirement; recorded as a fallback, not a rejection)'' else []) @
                 (if from_artifact then '' [artifact-declared requirement]'' else [])
           in (CapabilitySubjectFor requirement, CapabilityRequirement_to_string requirement,
               if value_known (chk_observed check) then CapabilityValue_to_string (chk_observed check) else ''UNKNOWN'',
               outcome, detail)))"

definition freshness_check :: "CompatibilityInputs \<Rightarrow> relation_check" where
  "freshness_check inputs =
     (case ci_target_currentness inputs of
        Currentness_Current \<Rightarrow> (CompatibilitySubject_ClusterCurrentness, ''evidence current'', ''CURRENT'',
          CompatibilityOutcome_Compatible, ''target evidence is current'')
      | Currentness_RevalidationRequired \<Rightarrow> (CompatibilitySubject_ClusterCurrentness, ''evidence current'',
          ''REVALIDATION_REQUIRED'', CompatibilityOutcome_StaleEvidence,
          ''target was restored from persistence and has not republished evidence'')
      | Currentness_Stale \<Rightarrow> (CompatibilitySubject_ClusterCurrentness, ''evidence current'', ''STALE'',
          CompatibilityOutcome_StaleEvidence, ''target evidence is stale; a conclusion cannot be asserted'')
      | Currentness_Retired \<Rightarrow> (CompatibilitySubject_ClusterCurrentness, ''evidence current'', ''RETIRED'',
          CompatibilityOutcome_Unsupported, ''target cluster is retired'')
      | Currentness_Unknown \<Rightarrow> (CompatibilitySubject_ClusterCurrentness, ''evidence current'', ''UNKNOWN'',
          CompatibilityOutcome_UnknownCompatibility, ''freshness of the target evidence is unknown''))"

definition architecture_checks :: "AcceleratorClassRecord option \<Rightarrow> ArtifactRecord \<Rightarrow> relation_check list" where
  "architecture_checks cls artifact =
     (let architecture = (case cls of None \<Rightarrow> [] | Some k \<Rightarrow> ar_architecture k);
          compute = (case cls of None \<Rightarrow> [] | Some k \<Rightarrow> ar_compute_capability k);
          targets = join_strings (art_target_architectures artifact) '','';
          minimum = art_minimum_compute_capability artifact
      in if \<not> is_code_bearing (art_kind artifact) then []
         else
          [if art_target_architectures artifact = [] then
             (CompatibilitySubject_ArtifactArchitecture, ''artifact declares a target architecture'', ''UNKNOWN'',
              CompatibilityOutcome_UnknownCompatibility, ''the artifact does not declare any target architecture'')
           else if architecture = [] then
             (CompatibilitySubject_ArtifactArchitecture, targets, ''UNKNOWN'', CompatibilityOutcome_UnknownCompatibility,
              ''the target accelerator architecture is unpublished'')
           else if \<not> targets_architecture artifact architecture then
             (CompatibilitySubject_ArtifactArchitecture, targets, architecture, CompatibilityOutcome_IncompatibleArchitecture,
              ''the artifact targets no binary compatible with this accelerator architecture'')
           else
             (CompatibilitySubject_ArtifactArchitecture, targets, architecture, CompatibilityOutcome_Compatible,
              ''the artifact declares this accelerator architecture as a target'')] @
          (if minimum = [] then []
           else if compute = [] then
             [(CompatibilitySubject_ArtifactArchitecture, ''compute capability >= '' @ minimum, ''UNKNOWN'',
               CompatibilityOutcome_UnknownCompatibility, ''the target compute capability is unpublished'')]
           else if compare_version_strings compute minimum \<ge> 0 then
             [(CompatibilitySubject_ArtifactArchitecture, ''compute capability >= '' @ minimum, compute,
               CompatibilityOutcome_Compatible, ''the target meets the artifact minimum compute capability'')]
           else
             [(CompatibilitySubject_ArtifactArchitecture, ''compute capability >= '' @ minimum, compute,
               CompatibilityOutcome_IncompatibleArchitecture, ''the target is below the artifact minimum compute capability'')]))"

definition derived_requirement :: "CapabilityKey \<Rightarrow> CapabilityComparator \<Rightarrow> CapabilityValue \<Rightarrow> string \<Rightarrow> CapabilityRequirement" where
  "derived_requirement key cmp v rationale =
     \<lparr>req_key = \<lparr>cr_key = key, cr_custom = no_id\<rparr>, req_comparator = cmp, req_value = v,
      req_optional = False, req_rationale = rationale\<rparr>"

definition artifact_requirement_checks :: "CompatibilityInputs \<Rightarrow> ArtifactRecord \<Rightarrow> relation_check list" where
  "artifact_requirement_checks inputs artifact =
     map (capability_requirement_check inputs True)
       ((if art_format artifact = [] then []
         else case value_text_set [art_format artifact] of
                Inl e \<Rightarrow> []
              | Inr v \<Rightarrow> [derived_requirement CapabilityKey_ArtifactFormats CapabilityComparator_AnyOf v ''artifact format'']) @
        (if art_kernel_format artifact = [] then []
         else [derived_requirement CapabilityKey_KernelFormat CapabilityComparator_Equals
                 (value_text (art_kernel_format artifact)) ''artifact kernel format'']) @
        (if art_compiler_target artifact = [] then []
         else [derived_requirement CapabilityKey_CompilerTarget CapabilityComparator_Equals
                 (value_text (art_compiler_target artifact)) ''artifact compiler target'']))"

definition abi_checks :: "RuntimeRecord option \<Rightarrow> ArtifactRecord \<Rightarrow> relation_check list" where
  "abi_checks cluster_runtime artifact =
     (if art_runtime_abi artifact = [] \<and> art_driver_abi artifact = [] then []
      else
        let observed_runtime = (case cluster_runtime of Some r \<Rightarrow> rr_abi r | None \<Rightarrow> []);
            observed_driver = (case cluster_runtime of Some r \<Rightarrow> rr_driver_abi r | None \<Rightarrow> []);
            outcome = compare_runtime_versions (art_runtime_abi artifact) observed_runtime (art_driver_abi artifact) observed_driver;
            detail =
              (if outcome = CompatibilityOutcome_Compatible then ''runtime and driver ABIs match the artifact declaration''
               else if outcome = CompatibilityOutcome_IncompatibleAbi then
                 ''the artifact requires runtime ABI '' @ art_runtime_abi artifact @ '', the target publishes '' @ render_id observed_runtime
               else if outcome = CompatibilityOutcome_IncompatibleDriver then
                 ''the artifact requires driver ABI '' @ art_driver_abi artifact @ '', the target publishes '' @ render_id observed_driver
               else ''the target does not publish an ABI to compare'')
        in [(CompatibilitySubject_ArtifactRuntime, art_runtime_abi artifact, render_id observed_runtime, outcome, detail),
            (CompatibilitySubject_ArtifactDriver, art_driver_abi artifact, render_id observed_driver, outcome, detail)])"

definition memory_checks :: "AcceleratorClassRecord option \<Rightarrow> WorkloadRecord \<Rightarrow> relation_check list" where
  "memory_checks cls workload =
     (let required = wr_required_memory_bytes_per_accelerator workload;
          provided = (case cls of None \<Rightarrow> 0 | Some k \<Rightarrow> ar_memory_bytes_per_device k);
          bytes = (\<lambda>n. to_string_nat (unat n) @ '' bytes'')
      in if required = 0 then []
         else if provided = 0 then
           [(CompatibilitySubject_MemoryRequirement, bytes required, ''UNKNOWN'', CompatibilityOutcome_UnknownCompatibility,
             ''per-device memory capacity is unpublished for the target'')]
         else if required > provided then
           [(CompatibilitySubject_MemoryRequirement, bytes required, bytes provided, CompatibilityOutcome_IncompatibleMemory,
             ''the workload requires more per-device memory than the target provides'')]
         else
           [(CompatibilitySubject_MemoryRequirement, bytes required, bytes provided, CompatibilityOutcome_Compatible,
             ''per-device memory is sufficient for this workload generation'')])"

definition isolation_checks :: "CompatibilityInputs \<Rightarrow> WorkloadRecord \<Rightarrow> relation_check list" where
  "isolation_checks inputs workload =
     (if wr_isolation_requirement workload = [] then []
      else case value_text_set [wr_isolation_requirement workload] of
             Inl e \<Rightarrow> []
           | Inr v \<Rightarrow> [capability_requirement_check inputs False (derived_requirement CapabilityKey_SecurityIsolation
               CapabilityComparator_AnyOf v ''workload isolation requirement'')])"

definition policy_verdict :: "PolicyRecord option \<Rightarrow> ClusterRecord \<Rightarrow> Tri \<times> string" where
  "policy_verdict policy cluster =
     (case policy of
        None \<Rightarrow> (Tri_Unknown, ''no policy record was supplied; admissibility is not evaluated here'')
      | Some p \<Rightarrow>
          (let admissible = tri_and (permits_site p (clr_site cluster)) (permits_cluster p (clr_id cluster));
               named = ''policy '' @ id_value (pr_id p) @ '' generation '' @ gen_to_string (pr_generation p)
           in (admissible,
               case admissible of
                 Tri_Yes \<Rightarrow> named @ '' permits this target''
               | Tri_No \<Rightarrow> named @ '' does not permit this target''
               | Tri_Unknown \<Rightarrow> ''policy admissibility could not be decided from the supplied evidence'')))"

definition policy_checks :: "PolicyRecord option \<Rightarrow> ClusterRecord \<Rightarrow> relation_check list" where
  "policy_checks policy cluster =
     (case policy of
        Some p \<Rightarrow> if fst (policy_verdict policy cluster) = Tri_Yes then
            [(CompatibilitySubject_PolicyAdmissibility, ''policy permits the target'', id_value (pr_id p),
              CompatibilityOutcome_Compatible, snd (policy_verdict policy cluster))] else []
      | None \<Rightarrow> [])"

text \<open>\<open>consider\<close>: the first source of evidence is taken over, every further one weakens it.\<close>

definition combine_evidence :: "(Precision \<times> EvidenceClass) list \<Rightarrow> Precision \<times> EvidenceClass" where
  "combine_evidence sources =
     (case sources of
        [] \<Rightarrow> (Precision_Derived, EvidenceClass_Unknown)
      | s # ss \<Rightarrow> foldl (\<lambda>(p, c) (p', c'). (weakest_precision p p', weaker_class c c')) s ss)"

definition stamp_evidence :: "ObservationStamp \<Rightarrow> Precision \<times> EvidenceClass" where
  "stamp_evidence s = (os_precision s, os_evidence_class s)"

definition option_list :: "'a option \<Rightarrow> 'a list" where
  "option_list x = (case x of None \<Rightarrow> [] | Some v \<Rightarrow> [v])"

definition relation_checks :: "CompatibilityInputs \<Rightarrow> ClusterRecord \<Rightarrow> relation_check list" where
  "relation_checks inputs cluster =
     freshness_check inputs #
     concat (map (architecture_checks (ci_accelerator_class inputs)) (option_list (ci_artifact inputs))) @
     concat (map (artifact_requirement_checks inputs) (option_list (ci_artifact inputs))) @
     concat (map (abi_checks (ci_cluster_runtime inputs)) (option_list (ci_artifact inputs))) @
     concat (map (\<lambda>w. map (capability_requirement_check inputs False) (wr_requirements w)) (option_list (ci_workload inputs))) @
     concat (map (memory_checks (ci_accelerator_class inputs)) (option_list (ci_workload inputs))) @
     concat (map (isolation_checks inputs) (option_list (ci_workload inputs))) @
     policy_checks (ci_policy inputs) cluster"

definition assessment_start :: "CompatibilityInputs \<Rightarrow> CompatibilityAssessment" where
  "assessment_start inputs =
     (let a0 = CompatibilityAssessment_init\<lparr>ca_overall := CompatibilityOutcome_Compatible,
            ca_compatibility_generation := ci_compatibility_generation inputs,
            ca_target_currentness := ci_target_currentness inputs, ca_policy_admissible := Tri_Unknown\<rparr>;
          a1 = (case ci_workload inputs of None \<Rightarrow> a0
                | Some w \<Rightarrow> a0\<lparr>ca_workload := wr_id w, ca_workload_generation := wr_generation w\<rparr>);
          a2 = (case ci_artifact inputs of None \<Rightarrow> a1
                | Some r \<Rightarrow> a1\<lparr>ca_artifact := art_id r, ca_artifact_generation := art_generation r\<rparr>);
          a3 = (case ci_cluster inputs of None \<Rightarrow> a2
                | Some c \<Rightarrow> a2\<lparr>ca_target_cluster := clr_id c, ca_target_cluster_generation := clr_generation c,
                    ca_target_cluster_epoch := clr_epoch c\<rparr>);
          a4 = (case ci_accelerator_class inputs of None \<Rightarrow> a3
                | Some k \<Rightarrow> a3\<lparr>ca_target_accelerator_class := ar_id k\<rparr>)
      in case ci_cluster_runtime inputs of None \<Rightarrow> a4
         | Some r \<Rightarrow> a4\<lparr>ca_runtime := rr_id r, ca_runtime_generation := rr_generation r\<rparr>)"

definition assess_compatibility :: "CompatibilityInputs \<Rightarrow> CompatibilityAssessment" where
  "assess_compatibility inputs =
     (case ci_cluster inputs of
        None \<Rightarrow>
          (builder_add inputs (assessment_start inputs)
             (CompatibilitySubject_ClusterCurrentness, ''target cluster record'', ''absent'',
              CompatibilityOutcome_UnknownCompatibility, ''no cluster record was supplied; compatibility cannot be assessed''))
            \<lparr>ca_precision := Precision_Unknown, ca_evidence_class := EvidenceClass_Unknown\<rparr>
      | Some cluster \<Rightarrow>
          (let a = foldl (builder_add inputs) (assessment_start inputs) (relation_checks inputs cluster);
               sources = stamp_evidence (clr_stamp cluster) #
                 map (\<lambda>k. stamp_evidence (ar_stamp k)) (option_list (ci_accelerator_class inputs)) @
                 map (\<lambda>r. stamp_evidence (art_stamp r)) (option_list (ci_artifact inputs)) @
                 map (\<lambda>w. stamp_evidence (wr_stamp w)) (option_list (ci_workload inputs)) @
                 map (\<lambda>s. (cset_combined_precision s, cset_combined_class s))
                   (filter (\<lambda>s. cset_entries s \<noteq> []) (option_list (ci_effective_capabilities inputs)));
               (precision, cls) = combine_evidence sources
           in a\<lparr>ca_policy_admissible := fst (policy_verdict (ci_policy inputs) cluster),
                ca_policy_detail := snd (policy_verdict (ci_policy inputs) cluster),
                ca_precision := precision, ca_evidence_class := cls,
                ca_evidence := snd (EvidenceList_add_fields Provenance_DerivedAnalysis cls ''compatibility-assessor''
                  Precision_Derived
                  (''assessed '' @ to_string_nat (length (ca_checks a)) @ '' relationships for cluster '' @
                   id_value (ca_target_cluster a) @ '' workload generation '' @ gen_or_dash (ca_workload_generation a))
                  (ca_evidence a))\<rparr>))"

section \<open>The verdict\<close>

lemma weakest_compatibility_severity:
  "compatibility_severity (weakest_compatibility a b) = max (compatibility_severity a) (compatibility_severity b)"
  by (simp add: weakest_compatibility_def max_def)

lemma compatibility_severity_inject: "compatibility_severity a = compatibility_severity b \<longleftrightarrow> a = b"
  by (cases a; cases b) simp_all

lemma builder_add_simps:
  "compatibility_severity (ca_overall (builder_add i a c)) =
     max (compatibility_severity (ca_overall a)) (compatibility_severity (fst (snd (snd (snd c)))))"
  "map cck_outcome (ca_checks (builder_add i a c)) = map cck_outcome (ca_checks a) @ [fst (snd (snd (snd c)))]"
  by (cases c; simp add: builder_add_def weakest_compatibility_severity)+

abbreviation check_outcome :: "relation_check \<Rightarrow> CompatibilityOutcome" where
  "check_outcome c \<equiv> fst (snd (snd (snd c)))"

lemma assessed_outcomes:
  "map cck_outcome (ca_checks (foldl (builder_add i) a cs)) = map cck_outcome (ca_checks a) @ map check_outcome cs"
  by (induction cs arbitrary: a) (simp_all add: builder_add_simps)

lemma assessed_overall:
  "compatibility_severity (ca_overall (foldl (builder_add i) a cs)) =
     fold max (map (\<lambda>c. compatibility_severity (check_outcome c)) cs) (compatibility_severity (ca_overall a))"
  by (induction cs arbitrary: a) (simp_all add: builder_add_simps max.commute)

lemma fold_max_ge: "(m :: nat) \<le> fold max ns m" "n \<in> set ns \<Longrightarrow> n \<le> fold max ns m"
proof -
  show ge: "m \<le> fold max ns m" for ns and m :: nat
  proof (induction ns arbitrary: m)
    case (Cons a ns)
    show ?case using Cons [of "max a m"] by simp
  qed simp
  show "n \<in> set ns \<Longrightarrow> n \<le> fold max ns m"
  proof (induction ns arbitrary: m)
    case (Cons a ns)
    then show ?case using ge [of "max a m" ns] by auto
  qed simp
qed

lemma fold_max_in: "fold max ns (m :: nat) = m \<or> fold max ns m \<in> set ns"
proof (induction ns arbitrary: m)
  case (Cons n ns)
  show ?case using Cons [of "max n m"] by (auto simp: max_def split: if_splits)
qed simp

lemma assessment_start_simps [simp]:
  "ca_overall (assessment_start i) = CompatibilityOutcome_Compatible" "ca_checks (assessment_start i) = []"
  by (simp_all add: assessment_start_def CompatibilityAssessment_init_def Let_def split: option.split)

text \<open>The checks an assessment is built from; without a cluster record there is just one.\<close>

definition assessed_relations :: "CompatibilityInputs \<Rightarrow> relation_check list" where
  "assessed_relations i =
     (case ci_cluster i of
        None \<Rightarrow> [(CompatibilitySubject_ClusterCurrentness, ''target cluster record'', ''absent'',
                  CompatibilityOutcome_UnknownCompatibility, ''no cluster record was supplied; compatibility cannot be assessed'')]
      | Some cluster \<Rightarrow> relation_checks i cluster)"

lemma assess_relations:
  "ca_overall (assess_compatibility i) = ca_overall (foldl (builder_add i) (assessment_start i) (assessed_relations i))"
  "ca_checks (assess_compatibility i) = ca_checks (foldl (builder_add i) (assessment_start i) (assessed_relations i))"
  by (simp_all add: assess_compatibility_def assessed_relations_def Let_def case_prod_beta split: option.split)

lemma assess_outcomes: "map cck_outcome (ca_checks (assess_compatibility i)) = map check_outcome (assessed_relations i)"
  by (simp add: assess_relations assessed_outcomes)

lemma overall_bound:
  "c \<in> set (assessed_relations i) \<Longrightarrow>
     compatibility_severity (check_outcome c) \<le> compatibility_severity (ca_overall (assess_compatibility i))"
  unfolding assess_relations assessed_overall by (rule fold_max_ge(2)) simp

lemma overall_attained:
  "\<exists>c \<in> set (assessed_relations i). check_outcome c = ca_overall (assess_compatibility i)"
proof -
  have ne: "assessed_relations i \<noteq> []"
    by (simp add: assessed_relations_def relation_checks_def split: option.split)
  let ?ns = "map (\<lambda>c. compatibility_severity (check_outcome c)) (assessed_relations i)"
  have overall: "compatibility_severity (ca_overall (assess_compatibility i)) = fold max ?ns 0"
    by (simp add: assess_relations assessed_overall)
  obtain n where "n \<in> set ?ns" using ne by (cases ?ns) auto
  moreover have "fold max ?ns 0 = 0 \<Longrightarrow> n = 0" using fold_max_ge(2) [OF \<open>n \<in> set ?ns\<close>, of 0] by simp
  ultimately have "fold max ?ns 0 \<in> set ?ns" using fold_max_in [of ?ns 0] by metis
  then obtain c where c: "c \<in> set (assessed_relations i)" and "compatibility_severity (check_outcome c) = fold max ?ns 0"
    by (metis (no_types, lifting) imageE list.set_map)
  then have "check_outcome c = ca_overall (assess_compatibility i)"
    using overall compatibility_severity_inject by metis
  with c show ?thesis by (rule bexI [rotated])
qed

lemma worst_check_spec:
  assumes "\<And>w. worst = Some w \<Longrightarrow> 3 < compatibility_severity (cck_outcome w)"
  shows "case worst_check worst cs of
      None \<Rightarrow> worst = None \<and> (\<forall>c \<in> set cs. compatibility_severity (cck_outcome c) \<le> 3)
    | Some w \<Rightarrow> (worst = Some w \<or> w \<in> set cs) \<and> 3 < compatibility_severity (cck_outcome w) \<and>
        (\<forall>c \<in> set cs. compatibility_severity (cck_outcome c) \<le> compatibility_severity (cck_outcome w)) \<and>
        (\<forall>v. worst = Some v \<longrightarrow> compatibility_severity (cck_outcome v) \<le> compatibility_severity (cck_outcome w))"
  using assms
proof (induction worst cs rule: worst_check.induct)
  case (1 worst)
  then show ?case by (cases worst) auto
next
  case (2 worst c cs)
  show ?case
  proof (cases "compatibility_severity (cck_outcome c) \<le> 3")
    case True
    then show ?thesis using "2.IH"(1) "2.prems" by (fastforce split: option.splits)
  next
    case failed: False
    show ?thesis
    proof (cases worst)
      case None
      then show ?thesis using "2.IH"(2) [OF failed None] failed by (fastforce split: option.splits)
    next
      case (Some w)
      then show ?thesis using "2.IH"(3) [OF failed Some] "2.prems" failed
        by (fastforce split: option.splits if_splits)
    qed
  qed
qed

lemma assessed_checks_outcomes: "cck_outcome ` set (ca_checks (assess_compatibility i)) = check_outcome ` set (assessed_relations i)"
  using assess_outcomes by (metis list.set_map)

lemma overall_is_worst:
  "compatibility_severity (ca_overall (assess_compatibility i)) =
     Max (compatibility_severity ` cck_outcome ` set (ca_checks (assess_compatibility i)))"
proof -
  obtain c where c: "c \<in> set (assessed_relations i)" "check_outcome c = ca_overall (assess_compatibility i)"
    using overall_attained by blast
  show ?thesis unfolding assessed_checks_outcomes
  proof (rule Max_eqI [symmetric])
    show "compatibility_severity (ca_overall (assess_compatibility i))
        \<in> compatibility_severity ` check_outcome ` set (assessed_relations i)"
      using c by (metis imageI)
  qed (use overall_bound in \<open>force+\<close>)
qed

text \<open>C15: the verdict of a compatibility assessment is exactly its worst check. The severity of the overall outcome is
  the greatest severity among the checks it records; \<open>primary_failure\<close> names a check exactly when the verdict is not
  of the compatible family, and the check it names is one of the recorded ones and carries the overall outcome.\<close>

theorem compatibility_verdict:
  "compatibility_severity (ca_overall (assess_compatibility i)) =
     Max (compatibility_severity ` cck_outcome ` set (ca_checks (assess_compatibility i))) \<and>
   (case primary_failure (assess_compatibility i) of
      None \<Rightarrow> is_compatible_family (ca_overall (assess_compatibility i))
    | Some c \<Rightarrow> c \<in> set (ca_checks (assess_compatibility i)) \<and> cck_outcome c = ca_overall (assess_compatibility i) \<and>
        \<not> is_compatible_family (ca_overall (assess_compatibility i)))"
proof
  let ?a = "assess_compatibility i"
  obtain c where c: "c \<in> set (ca_checks ?a)" "cck_outcome c = ca_overall ?a"
    using overall_attained assessed_checks_outcomes [of i] by (metis (no_types, lifting) image_iff)
  have bound: "compatibility_severity (cck_outcome d) \<le> compatibility_severity (ca_overall ?a)" if "d \<in> set (ca_checks ?a)" for d
    using that assessed_checks_outcomes [of i] overall_bound by (metis (no_types, lifting) image_iff)
  show "case primary_failure ?a of
      None \<Rightarrow> is_compatible_family (ca_overall ?a)
    | Some c \<Rightarrow> c \<in> set (ca_checks ?a) \<and> cck_outcome c = ca_overall ?a \<and> \<not> is_compatible_family (ca_overall ?a)"
  proof (cases "primary_failure ?a")
    case None
    then show ?thesis using worst_check_spec [of None "ca_checks ?a"] c
      by (auto simp: primary_failure_def is_compatible_family_def)
  next
    case (Some w)
    then have "w \<in> set (ca_checks ?a)" "3 < compatibility_severity (cck_outcome w)"
      "compatibility_severity (cck_outcome c) \<le> compatibility_severity (cck_outcome w)"
      using worst_check_spec [of None "ca_checks ?a"] c by (auto simp: primary_failure_def)
    then show ?thesis using Some bound [of w] c compatibility_severity_inject [of "cck_outcome w" "ca_overall ?a"]
      by (simp add: is_compatible_family_def)
  qed
qed (rule overall_is_worst)

section \<open>What an admitted placement guarantees\<close>

lemma admitted_check:
  "admits_placement (assess_compatibility i) \<Longrightarrow> c \<in> set (assessed_relations i) \<Longrightarrow> is_compatible_family (check_outcome c)"
  using overall_bound [of c i] by (simp add: admits_placement_def is_compatible_family_def)

lemma failed_requirement_rejected: "\<not> is_compatible_family (outcome_for_failed_requirement key)"
  by (simp add: outcome_for_failed_requirement_def is_compatible_family_def)

lemma unknown_rejected:
  "\<not> is_compatible_family CompatibilityOutcome_UnknownCompatibility"
  "\<not> is_compatible_family CompatibilityOutcome_StaleEvidence"
  "\<not> is_compatible_family CompatibilityOutcome_Unsupported"
  "\<not> is_compatible_family CompatibilityOutcome_IncompatibleMemory"
  "\<not> is_compatible_family CompatibilityOutcome_IncompatibleArchitecture"
  "\<not> is_compatible_family CompatibilityOutcome_IncompatibleAbi"
  "\<not> is_compatible_family CompatibilityOutcome_IncompatibleDriver"
  by (simp_all add: is_compatible_family_def)

lemma requirement_check_admits:
  assumes "is_compatible_family (check_outcome (capability_requirement_check i b r))"
  shows "\<exists>s. ci_effective_capabilities i = Some s \<and>
    (chk_satisfied (evaluate_requirement r s) = Tri_Yes \<or> (req_optional r \<and> chk_satisfied (evaluate_requirement r s) = Tri_No))"
  using assms
  by (cases "ci_effective_capabilities i")
    (auto simp: capability_requirement_check_def Let_def unknown_rejected failed_requirement_rejected
       split: if_splits Tri.splits)

lemma memory_check_admits:
  assumes "\<forall>c \<in> set (memory_checks cls w). is_compatible_family (check_outcome c)"
    and "wr_required_memory_bytes_per_accelerator w \<noteq> 0"
  shows "\<exists>k. cls = Some k \<and> wr_required_memory_bytes_per_accelerator w \<le> ar_memory_bytes_per_device k"
  using assms by (cases cls) (auto simp: memory_checks_def Let_def unknown_rejected split: if_splits)

lemma architecture_check_admits:
  assumes "\<forall>c \<in> set (architecture_checks cls art). is_compatible_family (check_outcome c)" and "is_code_bearing (art_kind art)"
  shows "\<exists>k. cls = Some k \<and> targets_architecture art (ar_architecture k) \<and>
    (art_minimum_compute_capability art \<noteq> [] \<longrightarrow>
       0 \<le> compare_version_strings (ar_compute_capability k) (art_minimum_compute_capability art))"
  using assms by (cases cls) (auto simp: architecture_checks_def Let_def unknown_rejected split: if_splits)

lemma abi_check_admits:
  assumes "\<forall>c \<in> set (abi_checks rt art). is_compatible_family (check_outcome c)"
  shows "art_runtime_abi art \<noteq> [] \<Longrightarrow> \<exists>r. rt = Some r \<and> rr_abi r = art_runtime_abi art"
    and "art_driver_abi art \<noteq> [] \<Longrightarrow> \<exists>r. rt = Some r \<and> rr_driver_abi r = art_driver_abi art"
  using assms
  by (cases rt; auto simp: abi_checks_def Let_def compare_runtime_versions_def unknown_rejected split: if_splits)+

lemma admitted_target:
  assumes "admits_placement (assess_compatibility i)"
  obtains cluster where "ci_cluster i = Some cluster" "ci_target_currentness i = Currentness_Current"
    "fst (policy_verdict (ci_policy i) cluster) \<noteq> Tri_No"
    "\<And>c. c \<in> set (relation_checks i cluster) \<Longrightarrow> is_compatible_family (check_outcome c)"
proof (cases "ci_cluster i")
  case None
  then show ?thesis using admitted_check [OF assms, of "hd (assessed_relations i)"]
    by (simp add: assessed_relations_def unknown_rejected)
next
  case (Some cluster)
  have checks: "is_compatible_family (check_outcome c)" if "c \<in> set (relation_checks i cluster)" for c
    using admitted_check [OF assms, of c] that Some by (simp add: assessed_relations_def)
  then have "is_compatible_family (check_outcome (freshness_check i))" by (simp add: relation_checks_def)
  then have "ci_target_currentness i = Currentness_Current"
    by (cases "ci_target_currentness i") (simp_all add: freshness_check_def unknown_rejected)
  moreover have "fst (policy_verdict (ci_policy i) cluster) \<noteq> Tri_No"
    using assms Some by (simp add: admits_placement_def assess_compatibility_def Let_def case_prod_beta)
  ultimately show ?thesis using that Some checks by blast
qed


end
