(* ===== verification/FO_Assess.thy ===== *)
theory FO_Assess
  imports FO_Compatibility
begin

text \<open>
  \<open>assess_portability\<close> of \<open>portability.cpp\<close>: eleven dimensions are decided one after the other from what the
  destination publishes, each with its outcome, basis, precision and evidence class; the verdict is the weakest
  outcome among the dimensions something constrains, and a policy restriction is kept in a flag of its own. An input
  the caller passes as a null pointer is \<open>None\<close> here, and each section of the function is one definition that yields
  the results it records. The code-bearing artifact kinds are those of the compatibility assessment: both files carry
  the same private helper. The last part shows that a direct verdict is never given for want of evidence and that
  policy never changes a technical conclusion.
\<close>

section \<open>Inputs and helpers\<close>

record PortabilityInputs =
  pin_workload :: "WorkloadRecord option"
  pin_artifact :: "ArtifactRecord option"
  pin_source_cluster :: "ClusterRecord option"
  pin_source_accelerator_class :: "AcceleratorClassRecord option"
  pin_source_runtime :: "RuntimeRecord option"
  pin_destination_cluster :: "ClusterRecord option"
  pin_destination_accelerator_class :: "AcceleratorClassRecord option"
  pin_destination_runtime :: "RuntimeRecord option"
  pin_policy :: "PolicyRecord option"
  pin_destination_capabilities :: "CapabilitySet option"
  pin_federation :: FederationId
  pin_federation_generation :: FederationGeneration
  pin_compatibility_generation :: CompatibilityGeneration
  pin_policy_generation :: PolicyGeneration

definition architecture_list :: "ArtifactRecord \<Rightarrow> string" where
  "architecture_list artifact =
     (if art_target_architectures artifact = [] then ''UNKNOWN'' else join_strings (art_target_architectures artifact) '','')"

definition capability_of :: "CapabilitySet option \<Rightarrow> CapabilityKey \<Rightarrow> CapabilityEntry option" where
  "capability_of caps key =
     (case caps of None \<Rightarrow> None | Some s \<Rightarrow> CapabilitySet_find \<lparr>cr_key = key, cr_custom = no_id\<rparr> s)"

text \<open>The answer together with the out parameter \<open>decided\<close>: \<open>None\<close> when it stays false, because the destination does
  not publish the capability as a text or a set of texts.\<close>

definition destination_supports_text :: "CapabilitySet option \<Rightarrow> CapabilityKey \<Rightarrow> string \<Rightarrow> bool option" where
  "destination_supports_text caps key v =
     (case capability_of caps key of
        None \<Rightarrow> None
      | Some entry \<Rightarrow>
          if \<not> value_known (ce_value entry) then None
          else if is_text (ce_value entry) then Some (as_text (ce_value entry) = v)
          else if is_text_set (ce_value entry) then Some (v \<in> set (as_text_set (ce_value entry)))
          else None)"

definition dimension_result ::
  "PortabilityDimension \<Rightarrow> PortabilityOutcome \<Rightarrow> string \<Rightarrow> ReasonBasis \<Rightarrow> Precision \<Rightarrow> EvidenceClass \<Rightarrow> bool \<Rightarrow>
   PortabilityDimensionResult" where
  "dimension_result dimension outcome detail basis precision cls constrains =
     PortabilityDimensionResult_init\<lparr>pdr_dimension := dimension, pdr_outcome := outcome,
       pdr_constrains_overall := constrains, pdr_detail := detail, pdr_basis := basis, pdr_precision := precision,
       pdr_evidence_class := cls\<rparr>"

abbreviation derived_result ::
  "EvidenceClass \<Rightarrow> PortabilityDimension \<Rightarrow> PortabilityOutcome \<Rightarrow> string \<Rightarrow> PortabilityDimensionResult" where
  "derived_result cls dimension outcome detail \<equiv>
     dimension_result dimension outcome detail ReasonBasis_Derived Precision_Derived cls True"

abbreviation inapplicable_result :: "EvidenceClass \<Rightarrow> PortabilityDimension \<Rightarrow> string \<Rightarrow> PortabilityDimensionResult" where
  "inapplicable_result cls dimension detail \<equiv>
     dimension_result dimension PortabilityOutcome_Unknown detail ReasonBasis_Unattributed Precision_Unknown cls False"

section \<open>The dimensions\<close>

definition binary_dimension :: "PortabilityInputs \<Rightarrow> EvidenceClass \<Rightarrow> PortabilityDimensionResult" where
  "binary_dimension inputs cls =
     (let architecture = (case pin_destination_accelerator_class inputs of None \<Rightarrow> [] | Some k \<Rightarrow> ar_architecture k)
      in case pin_artifact inputs of
           None \<Rightarrow> inapplicable_result cls PortabilityDimension_Binary
             ''binary portability does not apply to this artifact kind, or no artifact is known''
         | Some artifact \<Rightarrow>
             if \<not> is_code_bearing (art_kind artifact) then
               inapplicable_result cls PortabilityDimension_Binary
                 ''binary portability does not apply to this artifact kind, or no artifact is known''
             else if art_target_architectures artifact = [] then
               dimension_result PortabilityDimension_Binary PortabilityOutcome_Unknown
                 ''the artifact does not declare its target architectures'' ReasonBasis_Observed
                 (os_precision (art_stamp artifact)) (os_evidence_class (art_stamp artifact)) True
             else if architecture = [] then
               dimension_result PortabilityDimension_Binary PortabilityOutcome_Unknown
                 ''the destination accelerator architecture is unpublished'' ReasonBasis_Observed Precision_Unknown cls True
             else if targets_architecture artifact architecture then
               derived_result cls PortabilityDimension_Binary PortabilityOutcome_PortableDirect
                 (''the artifact declares the destination architecture '' @ architecture @ '' (targets: '' @
                  architecture_list artifact @ '')'')
             else
               (let answer = (if art_compiler_target artifact = [] then None
                              else destination_supports_text (pin_destination_capabilities inputs)
                                     CapabilityKey_CompilerTarget (art_compiler_target artifact))
                in if answer = Some True then
                     derived_result cls PortabilityDimension_Binary PortabilityOutcome_PortableWithRebuild
                       (''the artifact targets '' @ architecture_list artifact @
                        '' but the destination publishes compiler target '' @ art_compiler_target artifact)
                   else
                     derived_result cls PortabilityDimension_Binary PortabilityOutcome_NotPortableArchitecture
                       (''the artifact targets '' @ architecture_list artifact @ '' and not the destination architecture '' @
                        architecture @
                        (if answer = None then ''; no destination compiler target is published''
                         else ''; the destination does not publish a matching compiler target''))))"

definition format_dimensions :: "PortabilityInputs \<Rightarrow> EvidenceClass \<Rightarrow> PortabilityDimensionResult list" where
  "format_dimensions inputs cls =
     (let format = (case pin_artifact inputs of None \<Rightarrow> [] | Some artifact \<Rightarrow> art_format artifact) in
      if format = [] then
        [inapplicable_result cls PortabilityDimension_Artifact ''the artifact does not declare a format'',
         inapplicable_result cls PortabilityDimension_DataFormat ''no data format evidence is available'']
      else
        let (outcome, detail) =
              (case destination_supports_text (pin_destination_capabilities inputs) CapabilityKey_ArtifactFormats format of
                 None \<Rightarrow> (PortabilityOutcome_Unknown, ''the destination does not publish supported artifact formats'')
               | Some True \<Rightarrow> (PortabilityOutcome_PortableDirect, ''the destination supports artifact format '' @ format)
               | Some False \<Rightarrow>
                   (PortabilityOutcome_NotPortableArtifact, ''the destination does not support artifact format '' @ format))
        in [derived_result cls PortabilityDimension_Artifact outcome detail,
            derived_result cls PortabilityDimension_DataFormat outcome detail])"

definition model_dimension :: "PortabilityInputs \<Rightarrow> EvidenceClass \<Rightarrow> PortabilityDimensionResult" where
  "model_dimension inputs cls =
     (case pin_artifact inputs of
        None \<Rightarrow> inapplicable_result cls PortabilityDimension_Model
          ''model portability does not apply to this artifact kind, or no artifact is known''
      | Some artifact \<Rightarrow>
          if art_kind artifact \<noteq> ArtifactKind_ModelWeights \<and> art_kind artifact \<noteq> ArtifactKind_Adapter then
            inapplicable_result cls PortabilityDimension_Model
              ''model portability does not apply to this artifact kind, or no artifact is known''
          else
            (case destination_supports_text (pin_destination_capabilities inputs) CapabilityKey_InferenceServingBackend
                    (art_format artifact) of
               None \<Rightarrow> derived_result cls PortabilityDimension_Model PortabilityOutcome_Unknown
                 ''the destination does not publish a serving backend capability''
             | Some True \<Rightarrow> derived_result cls PortabilityDimension_Model PortabilityOutcome_PortableDirect
                 (''the destination serving backend accepts format '' @ art_format artifact)
             | Some False \<Rightarrow> derived_result cls PortabilityDimension_Model PortabilityOutcome_NotPortableArtifact
                 (''no destination serving backend accepts format '' @ art_format artifact)))"

definition state_dimensions :: "PortabilityInputs \<Rightarrow> EvidenceClass \<Rightarrow> PortabilityDimensionResult list" where
  "state_dimensions inputs cls =
     (let format = (case pin_artifact inputs of None \<Rightarrow> [] | Some artifact \<Rightarrow> art_state_format artifact) in
      if format = [] then
        [inapplicable_result cls PortabilityDimension_Checkpoint ''the artifact does not declare a state format'',
         inapplicable_result cls PortabilityDimension_State
           ''state portability cannot be decided without a declared state format'']
      else case destination_supports_text (pin_destination_capabilities inputs) CapabilityKey_ArtifactFormats format of
             None \<Rightarrow>
               [derived_result cls PortabilityDimension_Checkpoint PortabilityOutcome_Unknown
                  ''the destination does not publish supported state formats'',
                derived_result cls PortabilityDimension_State PortabilityOutcome_Unknown
                  ''state portability cannot be decided'']
           | Some True \<Rightarrow>
               [derived_result cls PortabilityDimension_Checkpoint PortabilityOutcome_PortableDirect
                  (''the destination accepts checkpoint format '' @ format),
                derived_result cls PortabilityDimension_State PortabilityOutcome_PortableDirect
                  (''the destination accepts checkpoint format '' @ format)]
           | Some False \<Rightarrow>
               [derived_result cls PortabilityDimension_Checkpoint PortabilityOutcome_PortableWithStateTranslation
                  (''checkpoint format '' @ format @ '' is not accepted by the destination; a translation step is required''),
                derived_result cls PortabilityDimension_State PortabilityOutcome_NotPortableState
                  (''state captured in format '' @ format @ '' is not directly restorable at the destination'')])"

definition runtime_dimension :: "PortabilityInputs \<Rightarrow> EvidenceClass \<Rightarrow> PortabilityDimensionResult" where
  "runtime_dimension inputs cls =
     (case (pin_source_runtime inputs, pin_destination_runtime inputs) of
        (Some source, Some destination) \<Rightarrow>
          if rr_kind source \<noteq> rr_kind destination then
            derived_result cls PortabilityDimension_RuntimeApi PortabilityOutcome_NotPortableRuntime
              (''runtime API family changes from '' @ RuntimeKind_to_string (rr_kind source) @ '' to '' @
               RuntimeKind_to_string (rr_kind destination))
          else if rr_abi source \<noteq> rr_abi destination \<or> rr_generation source \<noteq> rr_generation destination then
            derived_result cls PortabilityDimension_RuntimeApi PortabilityOutcome_PortableWithRecompile
              (''runtime ABI generation changes from '' @ render_id (rr_abi source) @ '' ('' @
               gen_to_string (rr_generation source) @ '') to '' @ render_id (rr_abi destination) @ '' ('' @
               gen_to_string (rr_generation destination) @ '')'')
          else
            derived_result cls PortabilityDimension_RuntimeApi PortabilityOutcome_PortableDirect
              ''source and destination publish the same runtime kind, ABI and generation''
      | _ \<Rightarrow> dimension_result PortabilityDimension_RuntimeApi PortabilityOutcome_Unknown
          ''source and destination runtimes are not both known'' ReasonBasis_Unattributed Precision_Unknown cls True)"

definition kernel_dimension :: "PortabilityInputs \<Rightarrow> EvidenceClass \<Rightarrow> PortabilityDimensionResult" where
  "kernel_dimension inputs cls =
     (let format = (case pin_artifact inputs of None \<Rightarrow> [] | Some artifact \<Rightarrow> art_kernel_format artifact) in
      if format = [] then
        inapplicable_result cls PortabilityDimension_Kernel ''the artifact does not declare a kernel format''
      else case destination_supports_text (pin_destination_capabilities inputs) CapabilityKey_KernelFormat format of
             None \<Rightarrow> derived_result cls PortabilityDimension_Kernel PortabilityOutcome_Unknown
               ''the destination does not publish a kernel format capability''
           | Some True \<Rightarrow> derived_result cls PortabilityDimension_Kernel PortabilityOutcome_PortableDirect
               (''the destination accepts kernel format '' @ format)
           | Some False \<Rightarrow> derived_result cls PortabilityDimension_Kernel PortabilityOutcome_PortableWithRecompile
               (''kernel format '' @ format @ '' is not accepted by the destination; kernels must be recompiled''))"

text \<open>The loop over the requirements: the weakest outcome so far, whether one stays undecided, and the latest detail.\<close>

fun numerical_loop :: "CapabilitySet \<Rightarrow> PortabilityOutcome \<times> bool \<times> string \<Rightarrow> CapabilityRequirement list \<Rightarrow>
    PortabilityOutcome \<times> bool \<times> string" where
  "numerical_loop s st [] = st"
| "numerical_loop s (worst, undecided, detail) (r # rs) =
     (if CapabilityRef_category (req_key r) \<noteq> CapabilityCategory_PrecisionSupport then
        numerical_loop s (worst, undecided, detail) rs
      else case chk_satisfied (evaluate_requirement r s) of
             Tri_No \<Rightarrow> numerical_loop s (weakest_outcome worst PortabilityOutcome_NotPortableArchitecture, undecided,
               ''the destination does not satisfy '' @ CapabilityRequirement_to_string r) rs
           | Tri_Unknown \<Rightarrow> numerical_loop s (worst, True,
               ''the destination evidence does not decide '' @ CapabilityRequirement_to_string r) rs
           | Tri_Yes \<Rightarrow> numerical_loop s (worst, undecided, detail) rs)"

definition numerical_dimension :: "PortabilityInputs \<Rightarrow> EvidenceClass \<Rightarrow> PortabilityDimensionResult" where
  "numerical_dimension inputs cls =
     (let requirements = (case pin_workload inputs of None \<Rightarrow> [] | Some w \<Rightarrow> wr_requirements w) in
      if requirements = [] then
        inapplicable_result cls PortabilityDimension_NumericalSemantic
          ''the workload generation states no numerical requirements''
      else case pin_destination_capabilities inputs of
             None \<Rightarrow> dimension_result PortabilityDimension_NumericalSemantic PortabilityOutcome_Unknown
               ''the destination publishes no capability evidence'' ReasonBasis_Unattributed Precision_Unknown cls True
           | Some s \<Rightarrow>
               let (worst, undecided, detail) = numerical_loop s (PortabilityOutcome_PortableDirect, False,
                     ''every declared numerical requirement is satisfied'') requirements
               in derived_result cls PortabilityDimension_NumericalSemantic
                    (if undecided \<and> worst = PortabilityOutcome_PortableDirect then PortabilityOutcome_Unknown else worst)
                    detail)"

definition performance_dimension :: "EvidenceClass \<Rightarrow> PortabilityDimensionResult" where
  "performance_dimension cls =
     inapplicable_result cls PortabilityDimension_Performance
       (''Federation Observatory does not measure workload performance and therefore never '' @
        ''asserts performance portability'')"

definition operational_dimension :: "ClusterRecord \<Rightarrow> EvidenceClass \<Rightarrow> PortabilityDimensionResult" where
  "operational_dimension destination cls =
     (let observed = (\<lambda>outcome detail. dimension_result PortabilityDimension_Operational outcome detail
            ReasonBasis_Observed Precision_Derived cls True);
          historical = (\<lambda>detail. dimension_result PortabilityDimension_Operational PortabilityOutcome_Unknown detail
            ReasonBasis_Derived Precision_Unknown EvidenceClass_Unknown True)
      in case clr_currentness destination of
           Currentness_Current \<Rightarrow>
             (case clr_readiness destination of
                Readiness_Ready \<Rightarrow> observed PortabilityOutcome_PortableDirect ''the destination is current and reports ready''
              | Readiness_Draining \<Rightarrow> observed PortabilityOutcome_NotPortableRuntime
                  ''the destination is draining and is not accepting new work''
              | Readiness_NotReady \<Rightarrow> observed PortabilityOutcome_NotPortableRuntime ''the destination reports not-ready''
              | Readiness_Retired \<Rightarrow> observed PortabilityOutcome_NotPortableRuntime ''the destination is retired''
              | Readiness_Unknown \<Rightarrow> observed PortabilityOutcome_Unknown ''the destination does not publish readiness'')
         | Currentness_RevalidationRequired \<Rightarrow> historical
             (''destination evidence requires revalidation and cannot support an operational '' @ ''conclusion'')
         | _ \<Rightarrow> historical (''destination evidence is '' @ Currentness_to_string (clr_currentness destination)))"

definition portability_dimensions :: "PortabilityInputs \<Rightarrow> ClusterRecord \<Rightarrow> PortabilityDimensionResult list" where
  "portability_dimensions inputs destination =
     (let cls = os_evidence_class (clr_stamp destination) in
      [binary_dimension inputs cls] @ format_dimensions inputs cls @ [model_dimension inputs cls] @
      state_dimensions inputs cls @
      [runtime_dimension inputs cls, kernel_dimension inputs cls, numerical_dimension inputs cls,
       performance_dimension cls, operational_dimension destination cls])"

section \<open>The assessment\<close>

definition portability_start :: "PortabilityInputs \<Rightarrow> PortabilityAssessment" where
  "portability_start inputs =
     (let a0 = PortabilityAssessment_init\<lparr>pa_federation := pin_federation inputs,
            pa_federation_generation := pin_federation_generation inputs,
            pa_compatibility_generation := pin_compatibility_generation inputs,
            pa_policy_generation := pin_policy_generation inputs\<rparr>;
          a1 = (case pin_workload inputs of None \<Rightarrow> a0
                | Some w \<Rightarrow> a0\<lparr>pa_workload := wr_id w, pa_workload_generation := wr_generation w,
                    pa_workload_class := wr_workload_class w\<rparr>);
          a2 = (case pin_artifact inputs of None \<Rightarrow> a1
                | Some r \<Rightarrow> a1\<lparr>pa_artifact := art_id r, pa_artifact_generation := art_generation r\<rparr>);
          a3 = (case pin_source_cluster inputs of None \<Rightarrow> a2
                | Some c \<Rightarrow> a2\<lparr>pa_source := clr_id c, pa_source_generation := clr_generation c,
                    pa_source_epoch := clr_epoch c, pa_currentness := clr_currentness c\<rparr>);
          a4 = (case pin_source_runtime inputs of None \<Rightarrow> a3
                | Some r \<Rightarrow> a3\<lparr>pa_source_runtime := rr_id r, pa_source_runtime_generation := rr_generation r\<rparr>);
          a5 = (case pin_destination_cluster inputs of None \<Rightarrow> a4
                | Some c \<Rightarrow> a4\<lparr>pa_destination := clr_id c, pa_destination_generation := clr_generation c,
                    pa_destination_epoch := clr_epoch c, pa_currentness := clr_currentness c\<rparr>)
      in case pin_destination_runtime inputs of None \<Rightarrow> a5
         | Some r \<Rightarrow> a5\<lparr>pa_destination_runtime := rr_id r, pa_destination_runtime_generation := rr_generation r\<rparr>)"

text \<open>What policy says of the destination, and the evidence entry it leaves.\<close>

definition destination_permitted :: "PortabilityInputs \<Rightarrow> ClusterRecord \<Rightarrow> Tri" where
  "destination_permitted inputs destination =
     (case pin_policy inputs of
        None \<Rightarrow> Tri_Unknown
      | Some p \<Rightarrow> tri_and (permits_site p (clr_site destination)) (permits_cluster p (clr_id destination)))"

definition policy_evidence :: "PortabilityInputs \<Rightarrow> ClusterRecord \<Rightarrow> EvidenceClass \<Rightarrow> EvidenceList \<Rightarrow> EvidenceList" where
  "policy_evidence inputs destination cls evidence =
     (case pin_policy inputs of
        None \<Rightarrow> snd (EvidenceList_add_fields Provenance_DerivedAnalysis cls ''portability-assessor'' Precision_Unknown
          (''no policy record was supplied; policy portability is not evaluated and NOT_PORTABLE_POLICY '' @ ''is not asserted'')
          evidence)
      | Some p \<Rightarrow>
          (case destination_permitted inputs destination of
             Tri_No \<Rightarrow> snd (EvidenceList_add_fields Provenance_DerivedAnalysis cls (id_value (pr_id p)) Precision_Derived
               (''policy generation '' @ gen_to_string (pr_generation p) @ '' does not permit destination '' @
                id_value (clr_id destination) @ ''; this is a policy restriction, not a technical incompatibility'') evidence)
           | Tri_Unknown \<Rightarrow> snd (EvidenceList_add_fields Provenance_DerivedAnalysis cls (id_value (pr_id p)) Precision_Unknown
               ''policy admissibility of the destination could not be decided'' evidence)
           | Tri_Yes \<Rightarrow> evidence))"

definition note_outcome :: "PortabilityOutcome \<Rightarrow> PortabilityAssessment \<Rightarrow> PortabilityAssessment" where
  "note_outcome outcome a =
     (case outcome of
        PortabilityOutcome_PortableWithRebuild \<Rightarrow> a\<lparr>pa_requires_rebuild := True\<rparr>
      | PortabilityOutcome_PortableWithRecompile \<Rightarrow> a\<lparr>pa_requires_recompile := True\<rparr>
      | PortabilityOutcome_PortableWithConversion \<Rightarrow> a\<lparr>pa_requires_conversion := True\<rparr>
      | PortabilityOutcome_PortableWithStateTranslation \<Rightarrow> a\<lparr>pa_requires_conversion := True\<rparr>
      | PortabilityOutcome_PortableWithFallback \<Rightarrow> a\<lparr>pa_requires_fallback := True\<rparr>
      | PortabilityOutcome_NotPortableState \<Rightarrow>
          a\<lparr>pa_requires_state_translation := True, pa_technically_blocked := True\<rparr>
      | _ \<Rightarrow> if is_technical_failure outcome then a\<lparr>pa_technically_blocked := True\<rparr> else a)"

text \<open>The running verdict of the aggregation loop; \<open>None\<close> while its flag \<open>first\<close> is still set.\<close>

definition weaken_verdict ::
  "(PortabilityOutcome \<times> Precision \<times> EvidenceClass) option \<Rightarrow> PortabilityDimensionResult \<Rightarrow>
   (PortabilityOutcome \<times> Precision \<times> EvidenceClass) option" where
  "weaken_verdict verdict d =
     (if \<not> pdr_constrains_overall d then verdict
      else case verdict of
             None \<Rightarrow> Some (pdr_outcome d, pdr_precision d, pdr_evidence_class d)
           | Some (overall, precision, cls) \<Rightarrow>
               Some (weakest_outcome overall (pdr_outcome d), weakest_precision precision (pdr_precision d),
                     weaker_class cls (pdr_evidence_class d)))"

definition absent_destination :: "PortabilityAssessment \<Rightarrow> PortabilityAssessment" where
  "absent_destination a =
     a\<lparr>pa_dimensions := map (\<lambda>d. dimension_result d PortabilityOutcome_Unknown ''no destination cluster was supplied''
          ReasonBasis_Unattributed Precision_Unknown EvidenceClass_Unknown True) PortabilityDimension_values,
       pa_overall := PortabilityOutcome_Unknown, pa_precision := Precision_Unknown,
       pa_evidence_class := EvidenceClass_Unknown,
       pa_evidence := snd (EvidenceList_add_fields Provenance_DerivedAnalysis EvidenceClass_Unknown ''portability-assessor''
         Precision_Unknown ''destination cluster absent'' (pa_evidence a))\<rparr>"

definition assess_portability :: "PortabilityInputs \<Rightarrow> PortabilityAssessment" where
  "assess_portability inputs =
     (case pin_destination_cluster inputs of
        None \<Rightarrow> absent_destination (portability_start inputs)
      | Some destination \<Rightarrow>
          (let start = portability_start inputs;
               cls = os_evidence_class (clr_stamp destination);
               dimensions = portability_dimensions inputs destination;
               blocked = (destination_permitted inputs destination = Tri_No);
               (overall, precision, evidence_class) =
                 (case foldl weaken_verdict None dimensions of
                    None \<Rightarrow> (PortabilityOutcome_Unknown, Precision_Unknown, EvidenceClass_Unknown)
                  | Some verdict \<Rightarrow> verdict);
               a = fold (\<lambda>d. note_outcome (pdr_outcome d)) dimensions
                     (start\<lparr>pa_dimensions := dimensions, pa_policy_blocked := blocked,
                            pa_evidence := policy_evidence inputs destination cls (pa_evidence start)\<rparr>)
           in a\<lparr>pa_overall := (if blocked then weakest_outcome overall PortabilityOutcome_NotPortablePolicy else overall),
                pa_precision := precision, pa_evidence_class := evidence_class,
                pa_evidence := snd (EvidenceList_add_fields Provenance_DerivedAnalysis evidence_class ''portability-assessor''
                  Precision_Derived
                  (''evaluated '' @ to_string_nat (length dimensions) @ '' dimensions for destination '' @
                   id_value (pa_destination start) @ '' (heterogeneous portability is never reduced to a '' @ ''single boolean)'')
                  (pa_evidence a))\<rparr>))"

section \<open>Every dimension is reported once\<close>

lemma dimension_result_simps [simp]:
  "pdr_dimension (dimension_result d out t b p c k) = d" "pdr_outcome (dimension_result d out t b p c k) = out"
  "pdr_precision (dimension_result d out t b p c k) = p" "pdr_constrains_overall (dimension_result d out t b p c k) = k"
  "pdr_evidence_class (dimension_result d out t b p c k) = c" "pdr_detail (dimension_result d out t b p c k) = t"
  by (simp_all add: dimension_result_def)

lemma single_dimensions [simp]:
  "pdr_dimension (binary_dimension i c) = PortabilityDimension_Binary"
  "pdr_dimension (model_dimension i c) = PortabilityDimension_Model"
  "pdr_dimension (runtime_dimension i c) = PortabilityDimension_RuntimeApi"
  "pdr_dimension (kernel_dimension i c) = PortabilityDimension_Kernel"
  "pdr_dimension (numerical_dimension i c) = PortabilityDimension_NumericalSemantic"
  "pdr_dimension (performance_dimension c) = PortabilityDimension_Performance"
  "pdr_dimension (operational_dimension r c) = PortabilityDimension_Operational"
  by (simp_all add: binary_dimension_def model_dimension_def runtime_dimension_def kernel_dimension_def
      numerical_dimension_def performance_dimension_def operational_dimension_def Let_def case_prod_beta
      split: option.split bool.split Currentness.split Readiness.split)

lemma paired_dimensions [simp]:
  "map pdr_dimension (format_dimensions i c) = [PortabilityDimension_Artifact, PortabilityDimension_DataFormat]"
  "map pdr_dimension (state_dimensions i c) = [PortabilityDimension_Checkpoint, PortabilityDimension_State]"
  by (simp_all add: format_dimensions_def state_dimensions_def Let_def case_prod_beta split: option.split bool.split)

lemma reported_dimensions:
  "map pdr_dimension (portability_dimensions i r) =
     [PortabilityDimension_Binary, PortabilityDimension_Artifact, PortabilityDimension_DataFormat,
      PortabilityDimension_Model, PortabilityDimension_Checkpoint, PortabilityDimension_State,
      PortabilityDimension_RuntimeApi, PortabilityDimension_Kernel, PortabilityDimension_NumericalSemantic,
      PortabilityDimension_Performance, PortabilityDimension_Operational]"
  by (simp add: portability_dimensions_def Let_def)

lemma note_outcome_keeps [simp]:
  "pa_dimensions (note_outcome out a) = pa_dimensions a" "pa_policy_blocked (note_outcome out a) = pa_policy_blocked a"
  "pa_workload (note_outcome out a) = pa_workload a" "pa_workload_generation (note_outcome out a) = pa_workload_generation a"
  "pa_destination (note_outcome out a) = pa_destination a" "pa_evidence (note_outcome out a) = pa_evidence a"
  by (cases out; simp add: note_outcome_def)+

lemma fold_note_keeps [simp]:
  "pa_dimensions (fold (\<lambda>d. note_outcome (pdr_outcome d)) ds a) = pa_dimensions a"
  "pa_policy_blocked (fold (\<lambda>d. note_outcome (pdr_outcome d)) ds a) = pa_policy_blocked a"
  "pa_workload (fold (\<lambda>d. note_outcome (pdr_outcome d)) ds a) = pa_workload a"
  "pa_workload_generation (fold (\<lambda>d. note_outcome (pdr_outcome d)) ds a) = pa_workload_generation a"
  "pa_destination (fold (\<lambda>d. note_outcome (pdr_outcome d)) ds a) = pa_destination a"
  by (induction ds arbitrary: a) simp_all

lemma note_outcome_blocked:
  "pa_technically_blocked (note_outcome out a) \<longleftrightarrow> pa_technically_blocked a \<or> is_technical_failure out"
  by (cases out) (simp_all add: note_outcome_def is_technical_failure_def)

lemma fold_note_blocked:
  "pa_technically_blocked (fold (\<lambda>d. note_outcome (pdr_outcome d)) ds a) \<longleftrightarrow>
     pa_technically_blocked a \<or> (\<exists>d \<in> set ds. is_technical_failure (pdr_outcome d))"
  by (induction ds arbitrary: a) (auto simp: note_outcome_blocked)

lemma portability_start_simps [simp]:
  "\<not> pa_technically_blocked (portability_start i)" "\<not> pa_policy_blocked (portability_start i)"
  by (simp_all add: portability_start_def PortabilityAssessment_init_def Let_def split: option.split)

section \<open>The verdict\<close>

definition verdict_severities :: "(PortabilityOutcome \<times> Precision \<times> EvidenceClass) option \<Rightarrow> nat set" where
  "verdict_severities verdict = (\<lambda>v. portability_severity (fst v)) ` set_option verdict"

lemma weaken_verdict_severity:
  "verdict_severities (weaken_verdict v d) =
     (if pdr_constrains_overall d then
        {Max (insert (portability_severity (pdr_outcome d)) (verdict_severities v))} else verdict_severities v)"
  by (cases v) (auto simp: weaken_verdict_def verdict_severities_def weakest_outcome_severity max.commute)

lemma Max_collapse:
  assumes "finite A" "A \<noteq> {}" "finite S"
  shows "Max ({Max A} \<union> S) = Max (A \<union> S)"
  by (cases "S = {}") (simp_all add: Max_Un assms)

definition constraining :: "PortabilityDimensionResult list \<Rightarrow> nat set" where
  "constraining ds = set (map (\<lambda>d. portability_severity (pdr_outcome d)) (filter pdr_constrains_overall ds))"

lemma constraining_simps:
  "constraining [] = {}"
  "constraining (d # ds) = (if pdr_constrains_overall d then insert (portability_severity (pdr_outcome d)) (constraining ds)
     else constraining ds)"
  "finite (constraining ds)"
  by (simp_all add: constraining_def)

lemma foldl_weaken_verdict:
  "verdict_severities (foldl weaken_verdict v ds) =
     (if verdict_severities v \<union> constraining ds = {} then {} else {Max (verdict_severities v \<union> constraining ds)})"
proof (induction ds arbitrary: v)
  case Nil
  show ?case by (cases v) (simp_all add: verdict_severities_def constraining_simps)
next
  case (Cons d ds)
  have fin: "finite (verdict_severities v)" by (cases v) (simp_all add: verdict_severities_def)
  show ?case
  proof (cases "pdr_constrains_overall d")
    case True
    let ?A = "insert (portability_severity (pdr_outcome d)) (verdict_severities v)"
    have "Max ({Max ?A} \<union> constraining ds) = Max (?A \<union> constraining ds)"
      by (rule Max_collapse) (simp_all add: fin constraining_simps)
    then show ?thesis using True by (simp add: Cons.IH weaken_verdict_severity constraining_simps del: Max_insert)
  next
    case False
    then show ?thesis by (simp add: Cons.IH weaken_verdict_severity constraining_simps)
  qed
qed

lemma runtime_constrains [simp]: "pdr_constrains_overall (runtime_dimension i c)"
  by (simp add: runtime_dimension_def split: option.split)

lemma verdict_of_dimensions:
  obtains out p c where "foldl weaken_verdict None (portability_dimensions i r) = Some (out, p, c)"
    "portability_severity out = Max (constraining (portability_dimensions i r))"
proof -
  have "constraining (portability_dimensions i r) \<noteq> {}"
    by (simp add: portability_dimensions_def constraining_def Let_def)
  moreover have none: "verdict_severities None = {}" by (simp add: verdict_severities_def)
  ultimately have "verdict_severities (foldl weaken_verdict None (portability_dimensions i r)) =
      {Max (constraining (portability_dimensions i r))}"
    unfolding foldl_weaken_verdict none by simp
  then show ?thesis
    by (cases "foldl weaken_verdict None (portability_dimensions i r)") (auto simp: verdict_severities_def intro: that)
qed


text \<open>Without a destination nothing is concluded: every dimension is reported unknown.\<close>

lemma absent_destination_unknown:
  "pin_destination_cluster i = None \<Longrightarrow> pa_overall (assess_portability i) = PortabilityOutcome_Unknown \<and>
     map pdr_dimension (pa_dimensions (assess_portability i)) = PortabilityDimension_values"
  by (simp add: assess_portability_def absent_destination_def comp_def)

section \<open>A direct verdict is earned\<close>

lemma weakest_not_direct: "weakest_outcome w PortabilityOutcome_NotPortableArchitecture \<noteq> PortabilityOutcome_PortableDirect"
  by (simp add: weakest_outcome_def) (cases w; simp)

lemma numerical_loop_direct:
  "numerical_loop s (w, u, t) rs = (PortabilityOutcome_PortableDirect, False, t') \<Longrightarrow>
     w = PortabilityOutcome_PortableDirect \<and> \<not> u \<and>
     (\<forall>r \<in> set rs. CapabilityRef_category (req_key r) = CapabilityCategory_PrecisionSupport \<longrightarrow>
        chk_satisfied (evaluate_requirement r s) = Tri_Yes)"
proof (induction rs arbitrary: w u t)
  case (Cons r rs)
  show ?case
  proof (cases "CapabilityRef_category (req_key r) = CapabilityCategory_PrecisionSupport")
    case False
    then show ?thesis using Cons.prems Cons.IH [of w u t] by simp
  next
    case True
    show ?thesis
    proof (cases "chk_satisfied (evaluate_requirement r s)")
      case Tri_No
      with True have "numerical_loop s (weakest_outcome w PortabilityOutcome_NotPortableArchitecture, u,
          ''the destination does not satisfy '' @ CapabilityRequirement_to_string r) rs = (PortabilityOutcome_PortableDirect, False, t')"
        using Cons.prems by (simp del: append_Cons)
      then show ?thesis using Cons.IH weakest_not_direct by blast
    next
      case Tri_Unknown
      with True have "numerical_loop s (w, True, ''the destination evidence does not decide '' @
          CapabilityRequirement_to_string r) rs = (PortabilityOutcome_PortableDirect, False, t')"
        using Cons.prems by (simp del: append_Cons)
      then show ?thesis using Cons.IH by blast
    next
      case Tri_Yes
      then show ?thesis using True Cons.prems Cons.IH [of w u t] by simp
    qed
  qed
qed simp

lemma direct_numerical:
  assumes "pdr_constrains_overall (numerical_dimension i c) \<longrightarrow> pdr_outcome (numerical_dimension i c) = PortabilityOutcome_PortableDirect"
    and "pin_workload i = Some w" and "r \<in> set (wr_requirements w)"
    and "CapabilityRef_category (req_key r) = CapabilityCategory_PrecisionSupport"
  shows "\<exists>s. pin_destination_capabilities i = Some s \<and> chk_satisfied (evaluate_requirement r s) = Tri_Yes"
proof (cases "pin_destination_capabilities i")
  case None
  then show ?thesis using assms by (auto simp: numerical_dimension_def Let_def split: if_splits)
next
  case (Some s)
  obtain w' u' t' where loop: "numerical_loop s (PortabilityOutcome_PortableDirect, False,
      ''every declared numerical requirement is satisfied'') (wr_requirements w) = (w', u', t')"
    by (metis prod_cases3)
  have "w' = PortabilityOutcome_PortableDirect" "\<not> u'"
    using assms(1-3) Some loop by (auto simp: numerical_dimension_def Let_def split: if_splits)
  then show ?thesis using numerical_loop_direct [of s _ _ _ "wr_requirements w" t'] loop assms(3,4) Some by auto
qed

lemma direct_operational:
  "pdr_outcome (operational_dimension r c) = PortabilityOutcome_PortableDirect \<Longrightarrow>
     clr_currentness r = Currentness_Current \<and> clr_readiness r = Readiness_Ready"
  by (simp add: operational_dimension_def Let_def split: Currentness.splits Readiness.splits)

lemma operational_constrains [simp]: "pdr_constrains_overall (operational_dimension r c)"
  by (simp add: operational_dimension_def Let_def split: Currentness.splits Readiness.splits)

lemma direct_runtime:
  "pdr_outcome (runtime_dimension i c) = PortabilityOutcome_PortableDirect \<Longrightarrow>
     \<exists>source destination. pin_source_runtime i = Some source \<and> pin_destination_runtime i = Some destination \<and>
       rr_kind source = rr_kind destination \<and> rr_abi source = rr_abi destination \<and>
       rr_generation source = rr_generation destination"
  by (simp add: runtime_dimension_def split: option.splits if_splits)

lemma direct_binary:
  assumes "pdr_constrains_overall (binary_dimension i c) \<longrightarrow> pdr_outcome (binary_dimension i c) = PortabilityOutcome_PortableDirect"
    and "pin_artifact i = Some art" and "is_code_bearing (art_kind art)"
  shows "\<exists>k. pin_destination_accelerator_class i = Some k \<and> targets_architecture art (ar_architecture k)"
  using assms by (auto simp: binary_dimension_def Let_def split: option.splits if_splits)

lemma direct_format:
  assumes "\<forall>d \<in> set (format_dimensions i c). pdr_constrains_overall d \<longrightarrow> pdr_outcome d = PortabilityOutcome_PortableDirect"
    and "pin_artifact i = Some art" and "art_format art \<noteq> []"
  shows "destination_supports_text (pin_destination_capabilities i) CapabilityKey_ArtifactFormats (art_format art) = Some True"
  using assms
  by (cases "destination_supports_text (pin_destination_capabilities i) CapabilityKey_ArtifactFormats (art_format art)")
    (auto simp: Let_def format_dimensions_def split: bool.splits)

lemma direct_state:
  assumes "\<forall>d \<in> set (state_dimensions i c). pdr_constrains_overall d \<longrightarrow> pdr_outcome d = PortabilityOutcome_PortableDirect"
    and "pin_artifact i = Some art" and "art_state_format art \<noteq> []"
  shows "destination_supports_text (pin_destination_capabilities i) CapabilityKey_ArtifactFormats (art_state_format art) = Some True"
  using assms
  by (cases "destination_supports_text (pin_destination_capabilities i) CapabilityKey_ArtifactFormats (art_state_format art)")
    (auto simp: Let_def state_dimensions_def split: bool.splits)

lemma direct_kernel:
  assumes "pdr_constrains_overall (kernel_dimension i c) \<longrightarrow> pdr_outcome (kernel_dimension i c) = PortabilityOutcome_PortableDirect"
    and "pin_artifact i = Some art" and "art_kernel_format art \<noteq> []"
  shows "destination_supports_text (pin_destination_capabilities i) CapabilityKey_KernelFormat (art_kernel_format art) = Some True"
  using assms
  by (cases "destination_supports_text (pin_destination_capabilities i) CapabilityKey_KernelFormat (art_kernel_format art)")
    (auto simp: Let_def kernel_dimension_def split: bool.splits)

lemma direct_verdict:
  assumes "pa_overall (assess_portability i) = PortabilityOutcome_PortableDirect"
  obtains r where "pin_destination_cluster i = Some r" "destination_permitted i r \<noteq> Tri_No"
    "\<And>d. d \<in> set (portability_dimensions i r) \<Longrightarrow> pdr_constrains_overall d \<Longrightarrow>
       pdr_outcome d = PortabilityOutcome_PortableDirect"
proof (cases "pin_destination_cluster i")
  case None
  then show ?thesis using assms absent_destination_unknown [of i] by simp
next
  case (Some r)
  obtain out p c where verdict: "foldl weaken_verdict None (portability_dimensions i r) = Some (out, p, c)"
      "portability_severity out = Max (constraining (portability_dimensions i r))"
    using verdict_of_dimensions by blast
  have overall: "pa_overall (assess_portability i) =
      (if destination_permitted i r = Tri_No then weakest_outcome out PortabilityOutcome_NotPortablePolicy else out)"
    using Some verdict(1) by (simp add: assess_portability_def Let_def)
  have "weakest_outcome out PortabilityOutcome_NotPortablePolicy \<noteq> PortabilityOutcome_PortableDirect"
    by (simp add: weakest_outcome_def) (cases out; simp)
  then have permitted: "destination_permitted i r \<noteq> Tri_No" and "out = PortabilityOutcome_PortableDirect"
    using assms overall by (auto split: if_splits)
  then have zero: "Max (constraining (portability_dimensions i r)) = 0" using verdict(2) by simp
  have "pdr_outcome d = PortabilityOutcome_PortableDirect"
    if "d \<in> set (portability_dimensions i r)" "pdr_constrains_overall d" for d
  proof -
    have "portability_severity (pdr_outcome d) \<in> constraining (portability_dimensions i r)"
      using that by (auto simp: constraining_def)
    then have "portability_severity (pdr_outcome d) = 0"
      using zero Max_ge [OF constraining_simps(3), of "portability_severity (pdr_outcome d)" "portability_dimensions i r"] by simp
    then show ?thesis by (cases "pdr_outcome d") simp_all
  qed
  with Some permitted show ?thesis by (rule that)
qed

text \<open>A loop without a numerical requirement leaves the dimension directly portable although nothing was evaluated.\<close>

lemma numerical_loop_without:
  "list_all (\<lambda>r. CapabilityRef_category (req_key r) \<noteq> CapabilityCategory_PrecisionSupport) rs \<Longrightarrow> numerical_loop s st rs = st"
  by (induction s st rs rule: numerical_loop.induct) auto

lemma numerical_direct_without_evidence:
  assumes "pin_workload i = Some w" and "wr_requirements w \<noteq> []" and "pin_destination_capabilities i = Some s"
    and "list_all (\<lambda>r. CapabilityRef_category (req_key r) \<noteq> CapabilityCategory_PrecisionSupport) (wr_requirements w)"
  shows "pdr_outcome (numerical_dimension i c) = PortabilityOutcome_PortableDirect \<and> pdr_constrains_overall (numerical_dimension i c)"
  using assms by (simp add: numerical_dimension_def numerical_loop_without dimension_result_def)


text \<open>Policy never changes a technical conclusion: with another policy, or with none, the dimensions and the technical
  flag are the same.\<close>

lemma policy_is_not_technical:
  "pa_dimensions (assess_portability (i\<lparr>pin_policy := p\<rparr>)) = pa_dimensions (assess_portability i) \<and>
   pa_technically_blocked (assess_portability (i\<lparr>pin_policy := p\<rparr>)) = pa_technically_blocked (assess_portability i)"
proof -
  have start: "portability_start (i\<lparr>pin_policy := p\<rparr>) = portability_start i"
    by (simp add: portability_start_def)
  have dims: "portability_dimensions (i\<lparr>pin_policy := p\<rparr>) r = portability_dimensions i r" for r
    by (simp add: portability_dimensions_def binary_dimension_def format_dimensions_def model_dimension_def
        state_dimensions_def runtime_dimension_def kernel_dimension_def numerical_dimension_def
        cong: option.case_cong if_cong let_weak_cong)
  show ?thesis
    by (cases "pin_destination_cluster i")
      (simp_all add: assess_portability_def start dims Let_def case_prod_beta fold_note_blocked)
qed

end
