(* ===== verification/FO_Explain.thy ===== *)
theory FO_Explain
  imports FO_Assess FO_Placement
begin

text \<open>
  Placement explanations (\<open>placement.hpp\<close>, \<open>placement.cpp\<close>): the findings \<open>explain_placement\<close> derives from a
  placement record and the compatibility assessments of its candidates, and the explanation of one rejected candidate.
  Each block of the function that appends findings is one definition; the findings are then sorted by aspect, subject and
  statement. The theorems say what the explanation never does: it never claims a reason the source did not expose, and it
  is never more precise or of a better evidence class than its weakest finding.
\<close>

section \<open>Findings\<close>

datatype AttributionAspect =
    AttributionAspect_Selection
  | AttributionAspect_Eligibility
  | AttributionAspect_Capability
  | AttributionAspect_Compatibility
  | AttributionAspect_Capacity
  | AttributionAspect_Topology
  | AttributionAspect_Policy
  | AttributionAspect_Affinity
  | AttributionAspect_Fallback
  | AttributionAspect_Rejection
  | AttributionAspect_CandidateCoverage
  | AttributionAspect_Currentness

definition AttributionAspect_values :: "AttributionAspect list" where
  "AttributionAspect_values =
     [AttributionAspect_Selection, AttributionAspect_Eligibility, AttributionAspect_Capability,
      AttributionAspect_Compatibility, AttributionAspect_Capacity, AttributionAspect_Topology,
      AttributionAspect_Policy, AttributionAspect_Affinity, AttributionAspect_Fallback,
      AttributionAspect_Rejection, AttributionAspect_CandidateCoverage, AttributionAspect_Currentness]"

fun AttributionAspect_to_string :: "AttributionAspect \<Rightarrow> string" where
  "AttributionAspect_to_string AttributionAspect_Selection = ''SELECTION''"
| "AttributionAspect_to_string AttributionAspect_Eligibility = ''ELIGIBILITY''"
| "AttributionAspect_to_string AttributionAspect_Capability = ''CAPABILITY''"
| "AttributionAspect_to_string AttributionAspect_Compatibility = ''COMPATIBILITY''"
| "AttributionAspect_to_string AttributionAspect_Capacity = ''CAPACITY''"
| "AttributionAspect_to_string AttributionAspect_Topology = ''TOPOLOGY''"
| "AttributionAspect_to_string AttributionAspect_Policy = ''POLICY''"
| "AttributionAspect_to_string AttributionAspect_Affinity = ''AFFINITY''"
| "AttributionAspect_to_string AttributionAspect_Fallback = ''FALLBACK''"
| "AttributionAspect_to_string AttributionAspect_Rejection = ''REJECTION''"
| "AttributionAspect_to_string AttributionAspect_CandidateCoverage = ''CANDIDATE_COVERAGE''"
| "AttributionAspect_to_string AttributionAspect_Currentness = ''CURRENTNESS''"

interpretation attribution_aspect_enum: named_enumeration AttributionAspect_values AttributionAspect_to_string
proof unfold_locales
  show "v \<in> set AttributionAspect_values" for v by (cases v) (simp_all add: AttributionAspect_values_def)
qed (simp_all add: AttributionAspect_values_def)

record AttributionFinding =
  af_aspect :: AttributionAspect
  af_subject :: string
  af_statement :: string
  af_basis :: ReasonBasis
  af_precision :: Precision
  af_evidence_class :: EvidenceClass
  af_evidence :: EvidenceList

definition AttributionFinding_less :: "AttributionFinding \<Rightarrow> AttributionFinding \<Rightarrow> bool" where
  "AttributionFinding_less a b =
     (if af_aspect a \<noteq> af_aspect b then enum_lt AttributionAspect_values (af_aspect a) (af_aspect b)
      else if af_subject a \<noteq> af_subject b then af_subject a < af_subject b
      else af_statement a < af_statement b)"

definition AttributionFinding_render :: "string \<Rightarrow> AttributionFinding \<Rightarrow> string" where
  "AttributionFinding_render indent f =
     indent @ ''['' @ AttributionAspect_to_string (af_aspect f) @ ''] '' @
     (if af_subject f = [] then [] else af_subject f @ '': '') @ af_statement f @ ''  <'' @
     ReasonBasis_to_string (af_basis f) @ '', '' @ Precision_to_string (af_precision f) @ '', '' @
     EvidenceClass_to_string (af_evidence_class f) @ ''>''"

definition make_finding ::
  "AttributionAspect \<Rightarrow> string \<Rightarrow> string \<Rightarrow> ReasonBasis \<Rightarrow> Precision \<Rightarrow> EvidenceClass \<Rightarrow> AttributionFinding" where
  "make_finding aspect subject statement basis precision cls =
     \<lparr>af_aspect = aspect, af_subject = subject, af_statement = statement, af_basis = basis, af_precision = precision,
      af_evidence_class = cls, af_evidence = no_evidence\<rparr>"

text \<open>The loop that copies evidence references one by one, ignoring a full list.\<close>

definition add_all_evidence :: "EvidenceList \<Rightarrow> EvidenceList \<Rightarrow> EvidenceList" where
  "add_all_evidence source target = fold (\<lambda>r l. snd (EvidenceList_add r l)) (el_items source) target"

record PlacementExplanation =
  pe_placement :: PlacementId
  pe_placement_generation :: PlacementGeneration
  pe_workload :: WorkloadId
  pe_workload_generation :: WorkloadGeneration
  pe_selected :: ClusterId
  pe_candidate_completeness :: CandidateSetCompleteness
  pe_findings :: "AttributionFinding list"
  pe_precision :: Precision
  pe_evidence_class :: EvidenceClass
  pe_currentness :: Currentness
  pe_snapshot_generation :: SnapshotGeneration

definition PlacementExplanation_init :: PlacementExplanation where
  "PlacementExplanation_init =
     \<lparr>pe_placement = no_id, pe_placement_generation = gen_unset, pe_workload = no_id,
      pe_workload_generation = gen_unset, pe_selected = no_id,
      pe_candidate_completeness = CandidateSetCompleteness_Unknown, pe_findings = [],
      pe_precision = Precision_Unknown, pe_evidence_class = EvidenceClass_Unknown,
      pe_currentness = Currentness_Unknown, pe_snapshot_generation = gen_unset\<rparr>"

record PlacementExplanationInputs =
  pei_placement :: "PlacementRecord option"
  pei_assessments :: "CompatibilityAssessment list"
  pei_snapshot_generation :: SnapshotGeneration

definition find_assessment :: "PlacementExplanationInputs \<Rightarrow> ClusterId \<Rightarrow> CompatibilityAssessment option" where
  "find_assessment inputs cluster = find (\<lambda>a. ca_target_cluster a = cluster) (pei_assessments inputs)"

section \<open>The blocks of an explanation\<close>

definition coverage_finding :: "PlacementRecord \<Rightarrow> AttributionFinding" where
  "coverage_finding p =
     (let count = to_string_nat (length (plr_candidates p));
          own = os_precision (plr_stamp p); cls = os_evidence_class (plr_stamp p);
          (statement, basis, precision) =
            (case plr_candidate_completeness p of
               CandidateSetCompleteness_Complete \<Rightarrow>
                 (''the source exposed the complete evaluated candidate set ('' @ count @ '' candidates)'',
                  ReasonBasis_Observed, own)
             | CandidateSetCompleteness_Partial \<Rightarrow>
                 (''the source exposed a partial candidate set ('' @ count @
                  '' candidates); unlisted candidates are unknown, not eligible'', ReasonBasis_Observed, own)
             | CandidateSetCompleteness_SelectedOnly \<Rightarrow>
                 (''only the selected cluster was exposed; rejection attribution for alternatives '' @ ''is unavailable'',
                  ReasonBasis_Observed, weakest_precision own Precision_Ambiguous)
             | CandidateSetCompleteness_Unknown \<Rightarrow>
                 (''the completeness of the exposed candidate set is unknown'', ReasonBasis_Unattributed, Precision_Unknown))
      in (make_finding AttributionAspect_CandidateCoverage [] statement basis precision cls)
           \<lparr>af_evidence := snd (EvidenceList_add_fields Provenance_Scheduler cls (id_value (os_publisher (plr_stamp p))) own
              ''candidate set published by the upstream scheduler'' no_evidence)\<rparr>)"

definition gen_or_unset :: "'tag Generation \<Rightarrow> string" where
  "gen_or_unset g = (if is_set g then gen_to_string g else ''UNSET'')"

definition selection_finding :: "PlacementRecord \<Rightarrow> AttributionFinding" where
  "selection_finding p =
     (make_finding AttributionAspect_Selection (id_value (plr_selected p))
        (''workload '' @ id_value (plr_workload p) @ '' generation '' @ gen_to_string (plr_workload_generation p) @
         '' was placed on cluster '' @ id_value (plr_selected p) @ '' generation '' @ gen_or_unset (plr_selected_generation p) @
         '' under federation generation '' @ gen_or_unset (plr_federation_generation p))
        ReasonBasis_Observed (os_precision (plr_stamp p)) (os_evidence_class (plr_stamp p)))
       \<lparr>af_evidence := add_all_evidence (plr_evidence p) no_evidence\<rparr>"

definition constraint_finding :: "PlacementRecord \<Rightarrow> AttributionAspect \<times> Tri \<times> string \<Rightarrow> AttributionFinding" where
  "constraint_finding p constraint =
     (let (aspect, value, label) = constraint; cls = os_evidence_class (plr_stamp p);
          subject = id_value (plr_selected p); own = os_precision (plr_stamp p)
      in case value of
           Tri_Yes \<Rightarrow> make_finding aspect subject label ReasonBasis_Observed own cls
         | Tri_No \<Rightarrow> make_finding aspect subject (label @ '': no'') ReasonBasis_Observed own cls
         | Tri_Unknown \<Rightarrow> make_finding aspect subject (label @ '': not exposed by the source'')
             ReasonBasis_Unattributed Precision_Unknown cls)"

definition placement_constraints :: "PlacementRecord \<Rightarrow> (AttributionAspect \<times> Tri \<times> string) list" where
  "placement_constraints p =
     [(AttributionAspect_Compatibility, plr_compatibility_constrained p, ''compatibility constrained the placement''),
      (AttributionAspect_Topology, plr_topology_constrained p, ''topology or locality constrained the placement''),
      (AttributionAspect_Policy, plr_policy_constrained p, ''policy constrained the placement''),
      (AttributionAspect_Capability, plr_capability_constrained p, ''capability mismatch constrained the placement''),
      (AttributionAspect_Affinity, plr_affinity_constrained p, ''affinity or anti-affinity constrained the placement'')]"

definition capacity_finding :: "PlacementRecord \<Rightarrow> AttributionFinding" where
  "capacity_finding p =
     (if plr_capacity_available p then
        make_finding AttributionAspect_Capacity (id_value (plr_selected p))
          ''the source reported capacity available on the selected cluster''
          ReasonBasis_Observed (os_precision (plr_stamp p)) (os_evidence_class (plr_stamp p))
      else
        make_finding AttributionAspect_Capacity (id_value (plr_selected p))
          (''the source did not report capacity availability on the selected cluster; '' @ ''capacity is not asserted'')
          ReasonBasis_Unattributed Precision_Unknown (os_evidence_class (plr_stamp p)))"

definition fallback_findings :: "PlacementRecord \<Rightarrow> AttributionFinding list" where
  "fallback_findings p =
     (if \<not> plr_fallback_required p then []
      else if plr_fallback_detail p = [] then
        [make_finding AttributionAspect_Fallback (id_value (plr_selected p))
           ''the placement required a fallback; the source did not state which one''
           ReasonBasis_Unattributed Precision_Unknown (os_evidence_class (plr_stamp p))]
      else
        [make_finding AttributionAspect_Fallback (id_value (plr_selected p))
           (''the placement required a fallback: '' @ plr_fallback_detail p)
           ReasonBasis_Observed (os_precision (plr_stamp p)) (os_evidence_class (plr_stamp p))])"

definition assessment_findings :: "PlacementRecord \<Rightarrow> CompatibilityAssessment \<Rightarrow> AttributionFinding list" where
  "assessment_findings p a =
     (let subject = id_value (plr_selected p) in
      (make_finding AttributionAspect_Compatibility subject
         (''compatibility with the selected cluster is '' @ CompatibilityOutcome_to_string (ca_overall a))
         ReasonBasis_Derived (ca_precision a) (ca_evidence_class a))
        \<lparr>af_evidence := add_all_evidence (ca_evidence a) no_evidence\<rparr> #
      map (\<lambda>c. make_finding AttributionAspect_Eligibility subject
             (CompatibilityOutcome_to_string (cck_outcome c) @ '' for '' @ CompatibilitySubject_to_string (cck_subject c) @
              '': '' @ cck_detail c) (cck_basis c) (cck_precision c) (cck_evidence_class c)) (ca_checks a) @
      (if ca_policy_admissible a = Tri_No then
         [make_finding AttributionAspect_Policy subject (''policy admissibility: '' @ ca_policy_detail a)
            ReasonBasis_Derived (ca_precision a) (ca_evidence_class a)] else []))"

definition reason_names :: "RejectionReason list \<Rightarrow> string" where
  "reason_names reasons = (if reasons = [] then ''no reason stated'' else join_strings (map RejectionReason_to_string reasons) '','')"

definition was_rejected :: "CandidateObservation \<Rightarrow> bool" where
  "was_rejected c = (co_status c = CandidateStatus_Rejected \<or> co_status c = CandidateStatus_NotConsidered)"

definition rejection_finding :: "PlacementRecord \<Rightarrow> CandidateObservation \<Rightarrow> AttributionFinding" where
  "rejection_finding p c =
     (make_finding AttributionAspect_Rejection (id_value (co_cluster c))
        ((if co_status c = CandidateStatus_NotConsidered then ''was not considered: '' else ''was rejected: '') @
         reason_names (reason_list c) @ (if co_detail c = [] then [] else '' - '' @ co_detail c) @
         (if allows_rejection_attribution (plr_candidate_completeness p) then []
          else '' (candidate set not fully exposed; this row is what the source published)''))
        (co_basis c) (co_precision c) (co_evidence_class c))
       \<lparr>af_evidence := add_all_evidence (co_evidence c) no_evidence\<rparr>"

definition currentness_finding :: "PlacementRecord \<Rightarrow> AttributionFinding" where
  "currentness_finding p =
     (let (statement, basis) =
            (case plr_currentness p of
               Currentness_Current \<Rightarrow> (''the placement evidence is current'', ReasonBasis_Observed)
             | Currentness_Stale \<Rightarrow> (''the placement evidence is stale; this explanation is historical'', ReasonBasis_Observed)
             | Currentness_RevalidationRequired \<Rightarrow> (''the placement evidence requires revalidation'', ReasonBasis_Observed)
             | Currentness_Retired \<Rightarrow> (''the placement evidence belongs to a retired cluster'', ReasonBasis_Observed)
             | Currentness_Unknown \<Rightarrow> (''the currentness of the placement evidence is unknown'', ReasonBasis_Unattributed))
      in make_finding AttributionAspect_Currentness [] statement basis
           (if plr_currentness p = Currentness_Current then os_precision (plr_stamp p) else Precision_Unknown)
           (os_evidence_class (plr_stamp p)))"

definition placement_findings :: "PlacementExplanationInputs \<Rightarrow> PlacementRecord \<Rightarrow> AttributionFinding list" where
  "placement_findings inputs p =
     [coverage_finding p, selection_finding p] @ map (constraint_finding p) (placement_constraints p) @
     [capacity_finding p] @ fallback_findings p @
     (case find_assessment inputs (plr_selected p) of None \<Rightarrow> [] | Some a \<Rightarrow> assessment_findings p a) @
     map (rejection_finding p) (filter was_rejected (plr_candidates p)) @ [currentness_finding p]"

definition combine_findings :: "AttributionFinding list \<Rightarrow> Precision \<times> EvidenceClass" where
  "combine_findings findings =
     (case findings of
        [] \<Rightarrow> (Precision_Unknown, EvidenceClass_Unknown)
      | f # fs \<Rightarrow> foldl (\<lambda>(p, c) g. (weakest_precision p (af_precision g), weaker_class c (af_evidence_class g)))
                    (af_precision f, af_evidence_class f) fs)"

definition explain_placement :: "PlacementExplanationInputs \<Rightarrow> PlacementExplanation" where
  "explain_placement inputs =
     (let start = PlacementExplanation_init\<lparr>pe_snapshot_generation := pei_snapshot_generation inputs\<rparr> in
      case pei_placement inputs of
        None \<Rightarrow> start\<lparr>pe_findings := [make_finding AttributionAspect_CandidateCoverage [] ''no placement record was supplied''
            ReasonBasis_Unattributed Precision_Unknown EvidenceClass_Unknown],
          pe_precision := Precision_Unknown, pe_evidence_class := EvidenceClass_Unknown\<rparr>
      | Some p \<Rightarrow>
          (let findings = stable_sort AttributionFinding_less (placement_findings inputs p);
               (precision, cls) = combine_findings findings
           in start\<lparr>pe_placement := plr_id p, pe_placement_generation := plr_generation p, pe_workload := plr_workload p,
                pe_workload_generation := plr_workload_generation p, pe_selected := plr_selected p,
                pe_candidate_completeness := plr_candidate_completeness p, pe_currentness := plr_currentness p,
                pe_findings := findings, pe_precision := precision, pe_evidence_class := cls\<rparr>))"

definition has_rejection_attribution :: "PlacementExplanation \<Rightarrow> bool" where
  "has_rejection_attribution e = allows_rejection_attribution (pe_candidate_completeness e)"

definition PlacementExplanation_render :: "PlacementExplanation \<Rightarrow> string" where
  "PlacementExplanation_render e =
     ''placement explanation:'' @ newline @
     render_table [''field'', ''value'']
       [[''placement'', render_id (id_value (pe_placement e))],
        [''placement_generation'', gen_or_dash (pe_placement_generation e)],
        [''workload'', render_id (id_value (pe_workload e))],
        [''workload_generation'', gen_or_dash (pe_workload_generation e)],
        [''selected'', render_id (id_value (pe_selected e))],
        [''candidate_completeness'', CandidateSetCompleteness_to_string (pe_candidate_completeness e)],
        [''rejection_attribution_available'', yes_no (has_rejection_attribution e)],
        [''currentness'', Currentness_to_string (pe_currentness e)],
        [''snapshot_generation'', gen_or_dash (pe_snapshot_generation e)],
        [''precision'', Precision_to_string (pe_precision e)],
        [''evidence_class'', EvidenceClass_to_string (pe_evidence_class e)]] ''  '' @
     newline @ ''  findings:'' @ concat (map (\<lambda>f. newline @ AttributionFinding_render ''    '' f) (pe_findings e))"

definition PlacementExplanation_digest :: "PlacementExplanation \<Rightarrow> string" where
  "PlacementExplanation_digest e = digest_text (PlacementExplanation_render e)"

section \<open>One rejected candidate\<close>

record RejectionExplanation =
  re_placement :: PlacementId
  re_placement_generation :: PlacementGeneration
  re_candidate :: ClusterId
  re_candidate_generation :: ClusterGeneration
  re_status :: CandidateStatus
  re_reasons :: "RejectionReason list"
  re_basis :: ReasonBasis
  re_precision :: Precision
  re_evidence_class :: EvidenceClass
  re_attribution_available :: bool
  re_summary :: string
  re_evidence :: EvidenceList

definition RejectionExplanation_init :: RejectionExplanation where
  "RejectionExplanation_init =
     \<lparr>re_placement = no_id, re_placement_generation = gen_unset, re_candidate = no_id,
      re_candidate_generation = gen_unset, re_status = CandidateStatus_Unattributed, re_reasons = [],
      re_basis = ReasonBasis_Unattributed, re_precision = Precision_Unknown, re_evidence_class = EvidenceClass_Unknown,
      re_attribution_available = False, re_summary = [], re_evidence = no_evidence\<rparr>"

definition build_rejection_explanation :: "PlacementRecord \<Rightarrow> ClusterId \<Rightarrow> RejectionExplanation" where
  "build_rejection_explanation p candidate =
     (let start = RejectionExplanation_init\<lparr>re_placement := plr_id p, re_placement_generation := plr_generation p,
            re_candidate := candidate,
            re_attribution_available := allows_rejection_attribution (plr_candidate_completeness p)\<rparr>
      in case find_candidate p candidate of
           None \<Rightarrow>
             start\<lparr>re_status := CandidateStatus_Unattributed, re_basis := ReasonBasis_Unattributed,
               re_precision := Precision_Unknown, re_evidence_class := os_evidence_class (plr_stamp p),
               re_summary := ''cluster '' @ id_value candidate @
                 '' does not appear in the exposed candidate set; its outcome is unknown rather than rejected'',
               re_evidence := snd (EvidenceList_add_fields Provenance_Scheduler (os_evidence_class (plr_stamp p))
                 (id_value (os_publisher (plr_stamp p))) Precision_Unknown ''candidate absent from the exposed set'' no_evidence)\<rparr>
         | Some row \<Rightarrow>
             (let e = start\<lparr>re_status := co_status row, re_candidate_generation := co_cluster_generation row,
                    re_reasons := reason_list row, re_basis := co_basis row, re_precision := co_precision row,
                    re_evidence_class := co_evidence_class row, re_evidence := add_all_evidence (co_evidence row) no_evidence\<rparr>
              in if co_status row = CandidateStatus_Selected then
                   e\<lparr>re_summary := ''cluster '' @ id_value candidate @ '' received the placement''\<rparr>
                 else if \<not> re_attribution_available e then
                   e\<lparr>re_summary := ''the upstream scheduler exposed only the selected cluster; rejection attribution for '' @
                       id_value candidate @ '' is unavailable'',
                     re_basis := ReasonBasis_Unattributed, re_precision := Precision_Unknown\<rparr>
                 else
                   e\<lparr>re_summary := ''cluster '' @ id_value candidate @ '' was '' @
                       (if co_status row = CandidateStatus_NotConsidered then ''not considered'' else ''rejected'') @ '': '' @
                       reason_names (re_reasons e)\<rparr>))"

definition RejectionExplanation_render :: "RejectionExplanation \<Rightarrow> string" where
  "RejectionExplanation_render e =
     ''rejection explanation:'' @ newline @
     render_table [''field'', ''value'']
       [[''placement'', render_id (id_value (re_placement e))],
        [''candidate'', render_id (id_value (re_candidate e))],
        [''candidate_generation'', gen_or_dash (re_candidate_generation e)],
        [''status'', CandidateStatus_to_string (re_status e)],
        [''reasons'', if re_reasons e = [] then ''-'' else join_strings (map RejectionReason_to_string (re_reasons e)) '',''],
        [''attribution_available'', yes_no (re_attribution_available e)],
        [''basis'', ReasonBasis_to_string (re_basis e)],
        [''precision'', Precision_to_string (re_precision e)],
        [''evidence_class'', EvidenceClass_to_string (re_evidence_class e)],
        [''summary'', re_summary e]] ''  ''"

definition RejectionExplanation_digest :: "RejectionExplanation \<Rightarrow> string" where
  "RejectionExplanation_digest e = digest_text (RejectionExplanation_render e)"

section \<open>The order of the findings\<close>

definition finding_key :: "AttributionFinding \<Rightarrow> nat \<times> string \<times> string" where
  "finding_key f = (enum_index AttributionAspect_values (af_aspect f), af_subject f, af_statement f)"

lemma AttributionFinding_less_key: "AttributionFinding_less a b \<longleftrightarrow> finding_key a < finding_key b"
  by (auto simp: AttributionFinding_less_def finding_key_def enum_lt_def less_prod_simp less_le
      attribution_aspect_enum.enum_index_inject)

interpretation finding_order: comparator AttributionFinding_less
  by (rule comparator_key) (rule AttributionFinding_less_key)

lemma stable_sort_key:
  assumes "\<And>x y. lt x y \<longleftrightarrow> key x < (key y :: 'b :: linorder)"
  shows "stable_sort lt xs = sort_key key xs"
proof -
  have "insert_lt lt x ys = insort_key key x ys" for x ys by (induction ys) (auto simp: assms)
  then show ?thesis by (induction xs) simp_all
qed

text \<open>Two lists sort alike when they hold the same elements and list the elements of each key in the same order.\<close>

lemma sort_key_cong_mset:
  assumes "mset xs = mset ys" and "\<And>k. filter (\<lambda>x. key x = k) xs = filter (\<lambda>x. key x = k) ys"
  shows "sort_key key xs = sort_key key ys"
proof (rule properties_for_sort_key)
  show "filter (\<lambda>x. key k = key x) (sort_key key ys) = filter (\<lambda>x. key k = key x) xs" for k
    using assms(2) [of "key k"] sort_key_stable [of key "key k" ys] by (simp add: eq_commute)
qed (simp_all add: assms(1))

lemma filter_unique_key:
  assumes "distinct (map key xs)" "mset xs = mset ys"
  shows "filter (\<lambda>x. key x = k) xs = filter (\<lambda>x. key x = k) ys"
proof -
  have short: "length (filter (\<lambda>x. key x = k) zs) \<le> 1" if "distinct (map key zs)" for zs
    using that by (induction zs) (auto simp: filter_empty_conv image_iff)
  have "distinct (map key ys)" using assms by (metis distinct_map mset_eq_imp_distinct_iff set_mset_mset)
  have mset: "mset (filter (\<lambda>x. key x = k) xs) = mset (filter (\<lambda>x. key x = k) ys)" using assms(2) by simp
  show ?thesis
  proof (cases "filter (\<lambda>x. key x = k) xs")
    case Nil
    then show ?thesis using mset by simp
  next
    case (Cons x rest)
    then have "rest = []" using short [OF assms(1)] by simp
    have "mset (filter (\<lambda>x. key x = k) ys) = {#x#}" unfolding mset [symmetric] Cons \<open>rest = []\<close> by simp
    then have "filter (\<lambda>x. key x = k) ys = [x]" by (simp only: mset_single_iff)
    then show ?thesis using Cons \<open>rest = []\<close> by simp
  qed
qed

lemma rejection_finding_simps [simp]:
  "af_aspect (rejection_finding p c) = AttributionAspect_Rejection"
  "af_subject (rejection_finding p c) = id_value (co_cluster c)"
  "af_basis (rejection_finding p c) = co_basis c" "af_precision (rejection_finding p c) = co_precision c"
  "af_evidence_class (rejection_finding p c) = co_evidence_class c"
  by (simp_all add: rejection_finding_def make_finding_def)

lemma other_findings:
  "af_aspect (coverage_finding p) \<noteq> AttributionAspect_Rejection" "af_aspect (selection_finding p) \<noteq> AttributionAspect_Rejection"
  "af_aspect (capacity_finding p) \<noteq> AttributionAspect_Rejection" "af_aspect (currentness_finding p) \<noteq> AttributionAspect_Rejection"
  "f \<in> set (fallback_findings p) \<Longrightarrow> af_aspect f \<noteq> AttributionAspect_Rejection"
  "f \<in> set (assessment_findings p a) \<Longrightarrow> af_aspect f \<noteq> AttributionAspect_Rejection"
  "x \<in> set (placement_constraints p) \<Longrightarrow> af_aspect (constraint_finding p x) \<noteq> AttributionAspect_Rejection"
  by (auto simp: coverage_finding_def selection_finding_def capacity_finding_def currentness_finding_def make_finding_def
      fallback_findings_def assessment_findings_def constraint_finding_def placement_constraints_def case_prod_beta Let_def
      split: if_splits Tri.splits)

text \<open>The findings before and after the rejections.\<close>

definition findings_before :: "PlacementExplanationInputs \<Rightarrow> PlacementRecord \<Rightarrow> AttributionFinding list" where
  "findings_before inputs p =
     [coverage_finding p, selection_finding p] @ map (constraint_finding p) (placement_constraints p) @
     [capacity_finding p] @ fallback_findings p @
     (case find_assessment inputs (plr_selected p) of None \<Rightarrow> [] | Some a \<Rightarrow> assessment_findings p a)"

lemma placement_findings_split:
  "placement_findings inputs p =
     findings_before inputs p @ map (rejection_finding p) (filter was_rejected (plr_candidates p)) @ [currentness_finding p]"
  by (simp add: placement_findings_def findings_before_def)

lemma findings_before_no_rejection: "f \<in> set (findings_before inputs p) \<Longrightarrow> af_aspect f \<noteq> AttributionAspect_Rejection"
  by (auto simp: findings_before_def other_findings split: option.splits)

lemma combine_findings_rank:
  assumes "fs \<noteq> []"
  shows "precision_rank (fst (combine_findings fs)) = Max ((\<lambda>f. precision_rank (af_precision f)) ` set fs) \<and>
    evidence_class_rank (snd (combine_findings fs)) = Max ((\<lambda>f. evidence_class_rank (af_evidence_class f)) ` set fs)"
proof -
  let ?step = "\<lambda>(p, c) g. (weakest_precision p (af_precision g), weaker_class c (af_evidence_class g))"
  have fold: "precision_rank (fst (foldl ?step (p, c) gs)) =
        Max (insert (precision_rank p) ((\<lambda>f. precision_rank (af_precision f)) ` set gs)) \<and>
      evidence_class_rank (snd (foldl ?step (p, c) gs)) =
        Max (insert (evidence_class_rank c) ((\<lambda>f. evidence_class_rank (af_evidence_class f)) ` set gs))" for p c gs
  proof (induction gs arbitrary: p c)
    case (Cons g gs)
    have collapse: "Max (insert (max a b) S) = Max (insert a (insert b S))" if "finite S" for a b :: nat and S
      using that by (cases "S = {}") (simp_all add: max.assoc)
    show ?case by (simp add: Cons.IH weakest_precision_rank weaker_class_rank collapse del: Max_insert)
  qed simp
  show ?thesis using assms fold by (cases fs) (simp_all add: combine_findings_def)
qed

section \<open>What an explanation says\<close>

lemma explained:
  assumes "pei_placement i = Some p"
  shows "pe_findings (explain_placement i) = stable_sort AttributionFinding_less (placement_findings i p)"
    and "pe_precision (explain_placement i) = fst (combine_findings (pe_findings (explain_placement i)))"
    and "pe_evidence_class (explain_placement i) = snd (combine_findings (pe_findings (explain_placement i)))"
  using assms by (simp_all add: explain_placement_def Let_def case_prod_beta)

lemma precision_unknown_top: "precision_rank Precision_Unknown \<le> precision_rank q \<Longrightarrow> q = Precision_Unknown"
  by (cases q) (simp_all add: precision_rank_def Precision_values_def)

text \<open>C19: an explanation is grounded in the record it explains. Its findings are in the order of aspect, subject and
  statement; its rejections are exactly the rows the source published as rejected or not considered, each once and with
  the basis, precision and evidence class of the row; its own precision and evidence class are those of its weakest
  finding; and a constraint the source did not expose leaves the whole explanation with unknown precision.\<close>

theorem explanation_is_grounded:
  assumes p: "pei_placement i = Some p"
  shows "lt_sorted AttributionFinding_less (pe_findings (explain_placement i)) \<and>
    filter_mset (\<lambda>f. af_aspect f = AttributionAspect_Rejection) (mset (pe_findings (explain_placement i))) =
      image_mset (rejection_finding p) (filter_mset was_rejected (mset (plr_candidates p))) \<and>
    precision_rank (pe_precision (explain_placement i)) =
      Max ((\<lambda>f. precision_rank (af_precision f)) ` set (pe_findings (explain_placement i))) \<and>
    evidence_class_rank (pe_evidence_class (explain_placement i)) =
      Max ((\<lambda>f. evidence_class_rank (af_evidence_class f)) ` set (pe_findings (explain_placement i))) \<and>
    (Tri_Unknown \<in> (\<lambda>c. fst (snd c)) ` set (placement_constraints p) \<longrightarrow>
      pe_precision (explain_placement i) = Precision_Unknown)"
proof -
  let ?fs = "pe_findings (explain_placement i)"
  have set: "set ?fs = set (placement_findings i p)" by (simp add: explained(1) [OF p])
  then have "?fs \<noteq> []" by (auto simp: placement_findings_def)
  note rank = combine_findings_rank [OF this, folded explained(2,3) [OF p]]
  have "filter (\<lambda>f. af_aspect f = AttributionAspect_Rejection) (findings_before i p) = []"
    using findings_before_no_rejection by (auto simp: filter_empty_conv)
  moreover have "filter (\<lambda>f. af_aspect f = AttributionAspect_Rejection) (map (rejection_finding p) cs) = map (rejection_finding p) cs" for cs
    by (induction cs) simp_all
  ultimately have "filter (\<lambda>f. af_aspect f = AttributionAspect_Rejection) (placement_findings i p) =
      map (rejection_finding p) (filter was_rejected (plr_candidates p))"
    by (simp add: placement_findings_split other_findings)
  then have "filter_mset (\<lambda>f. af_aspect f = AttributionAspect_Rejection) (mset ?fs) =
      image_mset (rejection_finding p) (filter_mset was_rejected (mset (plr_candidates p)))"
    unfolding explained(1) [OF p] mset_stable_sort by (metis mset_filter mset_map)
  moreover have "pe_precision (explain_placement i) = Precision_Unknown"
    if unknown: "Tri_Unknown \<in> (\<lambda>c. fst (snd c)) ` set (placement_constraints p)"
  proof -
    obtain c where c: "Tri_Unknown = fst (snd c)" "c \<in> set (placement_constraints p)" using unknown by (rule imageE)
    let ?f = "constraint_finding p c"
    have "?f \<in> set ?fs" using c(2) unfolding set placement_findings_def by simp
    moreover have "af_precision ?f = Precision_Unknown"
      by (simp add: constraint_finding_def make_finding_def case_prod_beta c(1) [symmetric])
    ultimately have "precision_rank Precision_Unknown \<le> precision_rank (pe_precision (explain_placement i))"
      using rank by (metis (mono_tags, lifting) Max_ge finite_imageI finite_set imageI)
    then show ?thesis by (rule precision_unknown_top)
  qed
  ultimately show ?thesis using rank finding_order.stable_sort_sorted by (simp add: explained(1) [OF p])
qed

text \<open>An explanation does not depend on the order in which the source listed its candidates: any permutation of the
  candidate rows of a placement, whose clusters are distinct, gives the same explanation and the same digest.\<close>

lemma explanation_order_irrelevant:
  assumes p: "pei_placement i = Some p" and distinct: "distinct (map co_cluster (plr_candidates p))"
    and perm: "mset cs = mset (plr_candidates p)"
  shows "explain_placement (i\<lparr>pei_placement := Some (p\<lparr>plr_candidates := cs\<rparr>)\<rparr>) = explain_placement i"
proof -
  let ?p = "p\<lparr>plr_candidates := cs\<rparr>" and ?i = "i\<lparr>pei_placement := Some (p\<lparr>plr_candidates := cs\<rparr>)\<rparr>"
  let ?R = "map (rejection_finding p) (filter was_rejected (plr_candidates p))"
  let ?R' = "map (rejection_finding p) (filter was_rejected cs)"
  have len: "length cs = length (plr_candidates p)" using perm by (metis size_mset)
  have "coverage_finding ?p = coverage_finding p" by (simp add: coverage_finding_def len)
  then have before: "findings_before ?i ?p = findings_before i p"
    by (simp add: findings_before_def selection_finding_def constraint_finding_def placement_constraints_def
        capacity_finding_def fallback_findings_def find_assessment_def assessment_findings_def case_prod_beta
        cong: option.case_cong)
  have rejection: "rejection_finding ?p = rejection_finding p"
    by (rule ext) (simp add: rejection_finding_def)
  have after: "currentness_finding ?p = currentness_finding p" by (simp add: currentness_finding_def)
  have mset: "mset ?R' = mset ?R" using perm by (simp add: mset_filter)
  have inj: "inj_on (\<lambda>c. finding_key (rejection_finding p c)) (set (filter was_rejected (plr_candidates p)))"
    using distinct by (auto simp: inj_on_def finding_key_def distinct_map intro: StrongId.expand)
  have dist: "distinct (map finding_key ?R)"
    using inj distinct by (simp add: distinct_map comp_inj_on_iff [symmetric] inj_on_def)
  have same: "filter (\<lambda>f. finding_key f = k) (findings_before i p @ ?R' @ [currentness_finding p]) =
      filter (\<lambda>f. finding_key f = k) (findings_before i p @ ?R @ [currentness_finding p])" for k
    using filter_unique_key [OF dist, of ?R' k] mset by simp
  have findings: "placement_findings ?i ?p = findings_before i p @ ?R' @ [currentness_finding p]"
    by (simp add: placement_findings_split before rejection after)
  have "sort_key finding_key (findings_before i p @ ?R' @ [currentness_finding p]) =
      sort_key finding_key (findings_before i p @ ?R @ [currentness_finding p])"
    by (rule sort_key_cong_mset [OF _ same]) (use mset in simp)
  then have "stable_sort AttributionFinding_less (placement_findings ?i ?p) =
      stable_sort AttributionFinding_less (placement_findings i p)"
    unfolding stable_sort_key [of AttributionFinding_less finding_key, OF AttributionFinding_less_key] findings
    by (simp add: placement_findings_split)
  then show ?thesis using p by (simp add: explain_placement_def)
qed

section \<open>Rejections\<close>

text \<open>The explanation of one candidate invents nothing. A cluster the source did not list has unknown outcome and no
  reasons; a listed one has the status of its row and exactly the reasons whose bits are set there, in order of precedence;
  and when the source did not expose its candidate set nothing but a selection is given a basis or a precision.\<close>

lemma rejection_explanation_exact:
  "(find_candidate p c = None \<longrightarrow>
      re_status (build_rejection_explanation p c) = CandidateStatus_Unattributed \<and>
      re_reasons (build_rejection_explanation p c) = [] \<and> re_precision (build_rejection_explanation p c) = Precision_Unknown) \<and>
   (\<forall>row. find_candidate p c = Some row \<longrightarrow>
      re_status (build_rejection_explanation p c) = co_status row \<and>
      set (re_reasons (build_rejection_explanation p c)) = {r. has_reason row r} \<and>
      sorted (map rejection_reason_precedence (re_reasons (build_rejection_explanation p c)))) \<and>
   (\<not> allows_rejection_attribution (plr_candidate_completeness p) \<and>
      re_status (build_rejection_explanation p c) \<noteq> CandidateStatus_Selected \<longrightarrow>
      re_basis (build_rejection_explanation p c) = ReasonBasis_Unattributed \<and>
      re_precision (build_rejection_explanation p c) = Precision_Unknown)"
proof (cases "find_candidate p c")
  case None
  then show ?thesis by (simp add: build_rejection_explanation_def RejectionExplanation_init_def)
next
  case (Some row)
  have status: "re_status (build_rejection_explanation p c) = co_status row"
    and reasons: "re_reasons (build_rejection_explanation p c) = reason_list row"
    using Some by (simp_all add: build_rejection_explanation_def Let_def)
  have "set (reason_list row) = {r. has_reason row r}"
    using rejection_reason_enum.enumerators_all by (auto simp: reason_list_def)
  moreover have "sorted (map rejection_reason_precedence (reason_list row))"
    unfolding reason_list_def by (subst stable_sort_key [of _ rejection_reason_precedence]) simp_all
  moreover have "re_basis (build_rejection_explanation p c) = ReasonBasis_Unattributed \<and>
      re_precision (build_rejection_explanation p c) = Precision_Unknown"
    if "\<not> allows_rejection_attribution (plr_candidate_completeness p)" "co_status row \<noteq> CandidateStatus_Selected"
    using that Some by (simp add: build_rejection_explanation_def Let_def)
  ultimately show ?thesis using Some status reasons by simp
qed

definition unattributed_placement :: PlacementRecord where
  "unattributed_placement = PlacementRecord_init
     \<lparr>plr_id := StrongId ''p'', plr_generation := Generation 1, plr_workload := StrongId ''w'',
      plr_workload_generation := Generation 1, plr_federation := StrongId ''f'', plr_selected := StrongId ''east'',
      plr_candidates := [CandidateObservation_init\<lparr>co_cluster := StrongId ''west''\<rparr>],
      plr_candidate_completeness := CandidateSetCompleteness_Complete\<rparr>"

text \<open>A candidate the source left unattributed is summarised as rejected. The row is valid, its status stays
  unattributed in the explanation, no rejection is found for it by \<open>explain_placement\<close>, and yet the summary says it
  was rejected.\<close>

lemma unattributed_summarised_as_rejected:
  "PlacementRecord_validate unattributed_placement = Success \<and>
   re_status (build_rejection_explanation unattributed_placement (StrongId ''west'')) = CandidateStatus_Unattributed \<and>
   re_summary (build_rejection_explanation unattributed_placement (StrongId ''west'')) =
     ''cluster west was rejected: no reason stated'' \<and>
   filter was_rejected (plr_candidates unattributed_placement) = []"
  by code_simp

end
