(* ===== verification/FO_Verdicts.thy ===== *)
theory FO_Verdicts
  imports FO_Explain FO_RoundTrips
begin

text \<open>
  Concrete inputs of the assessments: a workload with one memory requirement, an executable built for one architecture and
  two clusters that publish what it needs. The properties of compatibility, portability and placement explanations are
  applied to them.
\<close>

definition sample_class :: AcceleratorClassRecord where
  "sample_class = AcceleratorClassRecord_init
     \<lparr>ar_id := StrongId ''gpu'', ar_architecture := ''sm90'', ar_compute_capability := ''9.0'', ar_memory_bytes_per_device := 80\<rparr>"

definition sample_runtime :: RuntimeRecord where
  "sample_runtime = RuntimeRecord_init\<lparr>rr_id := StrongId ''cuda'', rr_generation := Generation 2, rr_abi := ''abi12''\<rparr>"

definition sample_artifact :: ArtifactRecord where
  "sample_artifact = ArtifactRecord_init
     \<lparr>art_id := StrongId ''image'', art_generation := Generation 1, art_kind := ArtifactKind_ExecutableBinary,
      art_target_architectures := [''sm90''], art_minimum_compute_capability := ''8.0'', art_runtime_abi := ''abi12''\<rparr>"

definition sample_demand :: WorkloadRecord where
  "sample_demand = sample_workload\<lparr>wr_requirements := [sample_requirement], wr_required_memory_bytes_per_accelerator := 40\<rparr>"

definition sample_target :: ClusterRecord where
  "sample_target = (sample_cluster ''east'' 1)\<lparr>clr_currentness := Currentness_Current, clr_readiness := Readiness_Ready\<rparr>"

definition sample_inputs :: CompatibilityInputs where
  "sample_inputs =
     \<lparr>ci_workload = Some sample_demand, ci_artifact = Some sample_artifact, ci_cluster = Some sample_target,
      ci_accelerator_class = Some sample_class, ci_cluster_runtime = Some sample_runtime, ci_policy = None,
      ci_effective_capabilities = Some sample_set, ci_compatibility_generation = Generation 1,
      ci_target_currentness = Currentness_Current\<rparr>"


definition sample_move :: PortabilityInputs where
  "sample_move =
     \<lparr>pin_workload = Some sample_demand, pin_artifact = Some sample_artifact, pin_source_cluster = None,
      pin_source_accelerator_class = None, pin_source_runtime = Some sample_runtime,
      pin_destination_cluster = Some sample_target, pin_destination_accelerator_class = Some sample_class,
      pin_destination_runtime = Some sample_runtime, pin_policy = None,
      pin_destination_capabilities = Some sample_set, pin_federation = StrongId ''fed'',
      pin_federation_generation = Generation 1, pin_compatibility_generation = Generation 1,
      pin_policy_generation = gen_unset\<rparr>"


text \<open>The same move for a workload that demands half precision, which the destination publishes.\<close>

definition half_precision :: CapabilityRequirement where
  "half_precision = sample_requirement\<lparr>req_key := \<lparr>cr_key = CapabilityKey_PrecisionFp16, cr_custom = no_id\<rparr>,
     req_comparator := CapabilityComparator_Present\<rparr>"

definition half_precision_set :: CapabilitySet where
  "half_precision_set = \<lparr>cset_entries =
     [sample_entry\<lparr>ce_key := \<lparr>cr_key = CapabilityKey_PrecisionFp16, cr_custom = no_id\<rparr>, ce_value := CapabilityValue_Boolean True\<rparr>],
     cset_limit = 8\<rparr>"

definition half_precision_move :: PortabilityInputs where
  "half_precision_move = sample_move\<lparr>pin_workload := Some (sample_demand\<lparr>wr_requirements := [half_precision]\<rparr>),
     pin_destination_capabilities := Some half_precision_set\<rparr>"


definition sample_rejections :: "CandidateObservation list" where
  "sample_rejections =
     [CandidateObservation_init\<lparr>co_cluster := StrongId ''west'', co_status := CandidateStatus_Rejected, co_reasons := 8\<rparr>,
      CandidateObservation_init\<lparr>co_cluster := StrongId ''north'', co_status := CandidateStatus_NotConsidered\<rparr>]"

definition sample_explained :: PlacementExplanationInputs where
  "sample_explained =
     \<lparr>pei_placement = Some (sample_placement\<lparr>plr_candidates := sample_rejections\<rparr>),
      pei_assessments = [assess_compatibility sample_inputs], pei_snapshot_generation = Generation 3\<rparr>"

theorem explanation_is_grounded_witness:
  "pe_precision (explain_placement sample_explained) = Precision_Unknown"
proof -
  have "pei_placement sample_explained = Some (sample_placement\<lparr>plr_candidates := sample_rejections\<rparr>)"
    by (simp add: sample_explained_def)
  moreover have "plr_topology_constrained sample_placement = Tri_Unknown" by (simp add: sample_placement_def PlacementRecord_init_def)
  ultimately show ?thesis
    using explanation_is_grounded [of sample_explained] by (simp add: placement_constraints_def)
qed

end
