(* ===== verification/FO_Snapshot.thy ===== *)
theory FO_Snapshot
  imports FO_Invariants FO_Explain FO_Assess
begin

text \<open>
  Snapshots (\<open>snapshot.hpp\<close>, \<open>snapshot.cpp\<close>, \<open>build_snapshot\<close> and the query methods of \<open>observatory.cpp\<close>): the immutable
  picture of the engine that every query reads, its census of freshness, the binary search of its accessors, and the
  queries that explain placements and rejections and assess compatibility and portability. The theorems: the binary
  search finds what a scan finds, a complete snapshot shows exactly the stored records, the census adds up, and a
  query answers from the stored records.
\<close>

section \<open>Data\<close>

record PublisherStatus =
  pst_id :: PublisherId
  pst_boot :: BootGeneration
  pst_coordinator_epoch :: CoordinatorEpoch
  pst_federation :: FederationId
  pst_watermark :: Sequence
  pst_registered_at :: TimestampNanos
  pst_last_publication_at :: TimestampNanos
  pst_publications_accepted :: u64
  pst_publications_rejected :: u64
  pst_duplicates_suppressed :: u64
  pst_sequence_gaps :: u64
  pst_live :: bool
  pst_fenced :: bool
  pst_fenced_reason :: string
  pst_evidence_class :: EvidenceClass

record SnapshotHealth =
  sh_clusters_total :: nat
  sh_clusters_current :: nat
  sh_clusters_stale :: nat
  sh_clusters_revalidation_required :: nat
  sh_clusters_retired :: nat
  sh_clusters_unknown :: nat
  sh_sites_total :: nat
  sh_sites_current :: nat
  sh_publishers_total :: nat
  sh_publishers_live :: nat
  sh_publishers_fenced :: nat
  sh_revalidation_pending :: bool
  sh_degraded :: bool

definition SnapshotHealth_init :: SnapshotHealth where
  "SnapshotHealth_init =
     \<lparr>sh_clusters_total = 0, sh_clusters_current = 0, sh_clusters_stale = 0, sh_clusters_revalidation_required = 0,
      sh_clusters_retired = 0, sh_clusters_unknown = 0, sh_sites_total = 0, sh_sites_current = 0, sh_publishers_total = 0,
      sh_publishers_live = 0, sh_publishers_fenced = 0, sh_revalidation_pending = False, sh_degraded = True\<rparr>"

record FederationSnapshot =
  fs_federation :: FederationId
  fs_generation :: FederationGeneration
  fs_coordinator_epoch :: CoordinatorEpoch
  fs_snapshot_generation :: SnapshotGeneration
  fs_created_at :: TimestampNanos
  fs_federations :: "FederationRecord list"
  fs_sites :: "SiteRecord list"
  fs_clusters :: "ClusterRecord list"
  fs_accelerator_classes :: "AcceleratorClassRecord list"
  fs_runtimes :: "RuntimeRecord list"
  fs_backends :: "BackendRecord list"
  fs_domains :: "DomainRecord list"
  fs_policies :: "PolicyRecord list"
  fs_artifacts :: "ArtifactRecord list"
  fs_workload_classes :: "WorkloadClassRecord list"
  fs_workloads :: "WorkloadRecord list"
  fs_placements :: "PlacementRecord list"
  fs_migrations :: "MigrationRecord list"
  fs_portability :: "PortabilityAssessment list"
  fs_publishers :: "PublisherStatus list"
  fs_health :: SnapshotHealth
  fs_precision :: Precision
  fs_evidence_class :: EvidenceClass
  fs_evidence :: EvidenceList
  fs_truncated :: bool
  fs_records_total :: nat
  fs_records_included :: nat

section \<open>Accessors\<close>

text \<open>\<open>std::lower_bound\<close>: the first position in a range of \<open>n\<close> elements from \<open>first\<close> that does not satisfy the test.\<close>

function lower_bound_loop :: "('a \<Rightarrow> bool) \<Rightarrow> 'a list \<Rightarrow> nat \<Rightarrow> nat \<Rightarrow> nat" where
  "lower_bound_loop test xs first n =
     (if n = 0 then first
      else let step = n div 2; it = first + step
           in if test (xs ! it) then lower_bound_loop test xs (Suc it) (n - (step + 1))
              else lower_bound_loop test xs first step)"
  by pat_completeness auto
termination by (relation "measure (\<lambda>(test, xs, first, n). n)") auto

declare lower_bound_loop.simps [simp del]

definition find_by_id :: "('r \<Rightarrow> 'i :: linorder) \<Rightarrow> 'r list \<Rightarrow> 'i \<Rightarrow> 'r option" where
  "find_by_id key records i =
     (let it = lower_bound_loop (\<lambda>r. key r < i) records 0 (length records)
      in if it = length records \<or> key (records ! it) \<noteq> i then None else Some (records ! it))"

definition find_federation :: "FederationSnapshot \<Rightarrow> FederationId \<Rightarrow> FederationRecord option" where
  "find_federation snapshot = find_by_id fr_id (fs_federations snapshot)"

definition find_site :: "FederationSnapshot \<Rightarrow> SiteId \<Rightarrow> SiteRecord option" where
  "find_site snapshot = find_by_id sr_id (fs_sites snapshot)"

definition find_cluster :: "FederationSnapshot \<Rightarrow> ClusterId \<Rightarrow> ClusterRecord option" where
  "find_cluster snapshot = find_by_id clr_id (fs_clusters snapshot)"

definition find_accelerator_class :: "FederationSnapshot \<Rightarrow> AcceleratorClassId \<Rightarrow> AcceleratorClassRecord option" where
  "find_accelerator_class snapshot = find_by_id ar_id (fs_accelerator_classes snapshot)"

definition find_runtime :: "FederationSnapshot \<Rightarrow> RuntimeId \<Rightarrow> RuntimeRecord option" where
  "find_runtime snapshot = find_by_id rr_id (fs_runtimes snapshot)"

definition find_domain :: "FederationSnapshot \<Rightarrow> DomainId \<Rightarrow> DomainRecord option" where
  "find_domain snapshot = find_by_id dr_id (fs_domains snapshot)"

definition find_policy :: "FederationSnapshot \<Rightarrow> PolicyId \<Rightarrow> PolicyRecord option" where
  "find_policy snapshot = find_by_id pr_id (fs_policies snapshot)"

definition find_artifact :: "FederationSnapshot \<Rightarrow> ArtifactId \<Rightarrow> ArtifactRecord option" where
  "find_artifact snapshot = find_by_id art_id (fs_artifacts snapshot)"

definition find_workload_class :: "FederationSnapshot \<Rightarrow> WorkloadClassId \<Rightarrow> WorkloadClassRecord option" where
  "find_workload_class snapshot = find_by_id wcr_id (fs_workload_classes snapshot)"

definition find_workload :: "FederationSnapshot \<Rightarrow> WorkloadId \<Rightarrow> WorkloadRecord option" where
  "find_workload snapshot = find_by_id wr_id (fs_workloads snapshot)"

definition find_placement :: "FederationSnapshot \<Rightarrow> PlacementId \<Rightarrow> PlacementRecord option" where
  "find_placement snapshot = find_by_id plr_id (fs_placements snapshot)"

definition find_migration :: "FederationSnapshot \<Rightarrow> MigrationId \<Rightarrow> MigrationRecord option" where
  "find_migration snapshot = find_by_id mr_id (fs_migrations snapshot)"

section \<open>Building a snapshot\<close>

text \<open>The locals of \<open>build_snapshot\<close>: the estimated size, whether records are still taken, and whether some were dropped.\<close>

record snapshot_budget =
  sb_estimate :: nat
  sb_compatible :: bool
  sb_truncated :: bool

definition account :: "nat \<Rightarrow> snapshot_budget \<Rightarrow> snapshot_budget" where
  "account budget st =
     (let estimate = sb_estimate st + 192
      in if estimate \<le> budget then st\<lparr>sb_estimate := estimate\<rparr>
         else \<lparr>sb_estimate = estimate, sb_compatible = False, sb_truncated = True\<rparr>)"

fun append_matching :: "nat \<Rightarrow> ('r \<Rightarrow> bool) \<Rightarrow> 'r list \<Rightarrow> snapshot_budget \<Rightarrow> 'r list \<times> snapshot_budget" where
  "append_matching budget keep [] st = ([], st)"
| "append_matching budget keep (r # rs) st =
     (if \<not> keep r \<or> \<not> sb_compatible st then append_matching budget keep rs st
      else let (taken, st') = append_matching budget keep rs (account budget st) in (r # taken, st'))"

definition publisher_status :: "PublisherAuthority \<Rightarrow> PublisherStatus" where
  "publisher_status a =
     \<lparr>pst_id = pau_publisher a, pst_boot = pau_boot a, pst_coordinator_epoch = pau_epoch a,
      pst_federation = pau_federation a, pst_watermark = pau_watermark a, pst_registered_at = pau_registered_at a,
      pst_last_publication_at = pau_last_publication_at a, pst_publications_accepted = pau_accepted a,
      pst_publications_rejected = pau_rejected a, pst_duplicates_suppressed = pau_duplicates a,
      pst_sequence_gaps = pau_gaps a, pst_live = pau_live a, pst_fenced = pau_fenced a,
      pst_fenced_reason = pau_fenced_reason a, pst_evidence_class = pau_evidence_class a\<rparr>"

definition by_id :: "('r \<Rightarrow> 'i :: linorder) \<Rightarrow> 'r list \<Rightarrow> 'r list" where
  "by_id key = stable_sort (\<lambda>a b. key a < key b)"

definition count_if :: "('a \<Rightarrow> bool) \<Rightarrow> 'a list \<Rightarrow> nat" where
  "count_if P xs = length (filter P xs)"

definition snapshot_health :: "ClusterRecord list \<Rightarrow> SiteRecord list \<Rightarrow> PublisherStatus list \<Rightarrow> SnapshotHealth" where
  "snapshot_health clusters sites publishers =
     (let current = count_if (\<lambda>c. clr_currentness c = Currentness_Current) clusters;
          revalidation = count_if (\<lambda>c. clr_currentness c = Currentness_RevalidationRequired) clusters
      in \<lparr>sh_clusters_total = length clusters, sh_clusters_current = current,
          sh_clusters_stale = count_if (\<lambda>c. clr_currentness c = Currentness_Stale) clusters,
          sh_clusters_revalidation_required = revalidation,
          sh_clusters_retired = count_if (\<lambda>c. clr_currentness c = Currentness_Retired) clusters,
          sh_clusters_unknown = count_if (\<lambda>c. clr_currentness c = Currentness_Unknown) clusters,
          sh_sites_total = length sites,
          sh_sites_current = count_if (\<lambda>s. sr_currentness s = Currentness_Current) sites,
          sh_publishers_total = length publishers, sh_publishers_live = count_if pst_live publishers,
          sh_publishers_fenced = count_if pst_fenced publishers, sh_revalidation_pending = revalidation > 0,
          sh_degraded = (current \<noteq> length clusters \<or> revalidation > 0)\<rparr>)"

definition records_total :: "Observatory \<Rightarrow> nat" where
  "records_total ob =
     smap_size (ob_federations ob) +
     smap_size (ob_sites ob) +
     smap_size (ob_clusters ob) +
     smap_size (ob_accelerator_classes ob) +
     smap_size (ob_runtimes ob) +
     smap_size (ob_backends ob) +
     smap_size (ob_domains ob) +
     smap_size (ob_policies ob) +
     smap_size (ob_artifacts ob) +
     smap_size (ob_workload_classes ob) +
     smap_size (ob_workloads ob) +
     smap_size (ob_placements ob) +
     smap_size (ob_migrations ob) +
     smap_size (ob_portability ob) + smap_size (ob_publishers ob)"

text \<open>The classification of the snapshot itself, before and after the weakest of its clusters is taken into account.\<close>

definition snapshot_identity ::
  "FederationId \<Rightarrow> Observatory \<Rightarrow> FederationId \<times> FederationGeneration \<times> Precision \<times> EvidenceClass" where
  "snapshot_identity restrict_to ob =
     (if id_empty restrict_to \<and> smap_size (ob_federations ob) = 1 then
        let r = snd (hd (ob_federations ob))
        in (fst (hd (ob_federations ob)), fr_generation r, os_precision (fr_stamp r), os_evidence_class (fr_stamp r))
      else if \<not> id_empty restrict_to then
        (case smap_find (ob_federations ob) restrict_to of
           None \<Rightarrow> (no_id, gen_unset, Precision_Unknown, EvidenceClass_Unknown)
         | Some r \<Rightarrow> (restrict_to, fr_generation r, os_precision (fr_stamp r), os_evidence_class (fr_stamp r)))
      else (no_id, gen_unset, Precision_Derived, EvidenceClass_Unknown))"

definition weaken_by_clusters ::
  "FederationId \<Rightarrow> ClusterRecord list \<Rightarrow> Precision \<times> EvidenceClass \<Rightarrow> Precision \<times> EvidenceClass" where
  "weaken_by_clusters restrict_to clusters p =
     (case clusters of
        [] \<Rightarrow> p
      | c # _ \<Rightarrow>
          if id_empty restrict_to then
            (weakest_precision (fst p)
               (foldl (\<lambda>w x. weakest_precision w (os_precision (clr_stamp x))) (os_precision (clr_stamp c)) clusters),
             weaker_class (snd p)
               (foldl (\<lambda>w x. weaker_class w (os_evidence_class (clr_stamp x))) (os_evidence_class (clr_stamp c)) clusters))
          else p)"

definition build_snapshot :: "TimestampNanos \<Rightarrow> FederationId \<Rightarrow> Observatory \<Rightarrow> FederationSnapshot" where
  "build_snapshot now restrict_to ob =
     (let budget = max_snapshot_bytes (ob_bounds ob);
          matches = (\<lambda>i. id_empty restrict_to \<or> i = restrict_to);
          st0 = \<lparr>sb_estimate = 0, sb_compatible = True, sb_truncated = False\<rparr>;
          (federations, st1) = append_matching budget (\<lambda>r. matches (fr_id r)) (smap_values (ob_federations ob)) st0;
          (sites, st2) = append_matching budget (\<lambda>r. matches (sr_federation r)) (smap_values (ob_sites ob)) st1;
          (clusters, st3) = append_matching budget (\<lambda>r. matches (clr_federation r)) (smap_values (ob_clusters ob)) st2;
          (accelerator_classes, st4) = append_matching budget (\<lambda>_. True) (smap_values (ob_accelerator_classes ob)) st3;
          (runtimes, st5) = append_matching budget (\<lambda>_. True) (smap_values (ob_runtimes ob)) st4;
          (backends, st6) = append_matching budget (\<lambda>_. True) (smap_values (ob_backends ob)) st5;
          (domains, st7) = append_matching budget (\<lambda>r. matches (dr_federation r)) (smap_values (ob_domains ob)) st6;
          (policies, st8) = append_matching budget (\<lambda>_. True) (smap_values (ob_policies ob)) st7;
          (artifacts, st9) = append_matching budget (\<lambda>_. True) (smap_values (ob_artifacts ob)) st8;
          (workload_classes, st10) = append_matching budget (\<lambda>_. True) (smap_values (ob_workload_classes ob)) st9;
          (workloads, st11) = append_matching budget (\<lambda>_. True) (smap_values (ob_workloads ob)) st10;
          (placements, st12) = append_matching budget (\<lambda>r. matches (plr_federation r)) (smap_values (ob_placements ob)) st11;
          (migrations, st13) = append_matching budget (\<lambda>r. matches (mr_federation r)) (smap_values (ob_migrations ob)) st12;
          (portability, st14) = append_matching budget
            (\<lambda>a. id_empty restrict_to \<or> id_empty (pa_federation a) \<or> pa_federation a = restrict_to)
            (smap_values (ob_portability ob)) st13;
          publishers = map publisher_status (smap_values (ob_publishers ob));
          (federation, generation, precision, cls) = snapshot_identity restrict_to ob;
          (precision', cls') = weaken_by_clusters restrict_to (by_id clr_id clusters) (precision, cls)
      in \<lparr>fs_federation = federation, fs_generation = generation, fs_coordinator_epoch = ob_coordinator_epoch ob,
          fs_snapshot_generation = ob_snapshot_generation ob, fs_created_at = now,
          fs_federations = by_id fr_id federations, fs_sites = by_id sr_id sites, fs_clusters = by_id clr_id
          clusters, fs_accelerator_classes = by_id ar_id accelerator_classes, fs_runtimes = by_id rr_id runtimes,
          fs_backends = by_id br_id backends, fs_domains = by_id dr_id domains, fs_policies = by_id pr_id policies,
          fs_artifacts = by_id art_id artifacts, fs_workload_classes = by_id wcr_id workload_classes, fs_workloads
          = by_id wr_id workloads, fs_placements = by_id plr_id placements, fs_migrations = by_id mr_id migrations,
          fs_portability = portability, fs_publishers = publishers,
          fs_health = snapshot_health (by_id clr_id clusters) (by_id sr_id sites) publishers,
          fs_precision = precision', fs_evidence_class = cls',
          fs_evidence =
            (if sb_truncated st14 then
               snd (EvidenceList_add_fields Provenance_DerivedAnalysis cls' ''snapshot'' Precision_Derived
                 ''snapshot truncated at the configured snapshot byte bound; the federation is NOT fully represented'' no_evidence)
             else no_evidence),
          fs_truncated = sb_truncated st14, fs_records_total = records_total ob,
          fs_records_included =
            length federations + length sites + length clusters + length accelerator_classes + length runtimes + length backends + length domains +
            length policies + length artifacts + length workload_classes + length workloads + length placements + length migrations + length portability\<rparr>)"

section \<open>The binary search\<close>

text \<open>\<open>std::lower_bound\<close> on a range in which the test holds up to some point and never after it.\<close>

lemma lower_bound_loop_spec:
  assumes "\<And>i j. first \<le> i \<Longrightarrow> i \<le> j \<Longrightarrow> j < first + n \<Longrightarrow> test (xs ! j) \<Longrightarrow> test (xs ! i)"
  shows "first \<le> lower_bound_loop test xs first n \<and> lower_bound_loop test xs first n \<le> first + n \<and>
    (\<forall>i. first \<le> i \<and> i < lower_bound_loop test xs first n \<longrightarrow> test (xs ! i)) \<and>
    (\<forall>i. lower_bound_loop test xs first n \<le> i \<and> i < first + n \<longrightarrow> \<not> test (xs ! i))"
  using assms
proof (induction test xs first n rule: lower_bound_loop.induct)
  case (1 test xs first n)
  show ?case
  proof (cases "n = 0")
    case True
    then show ?thesis by (auto simp: lower_bound_loop.simps [of test xs first 0])
  next
    case n: False
    let ?step = "n div 2" and ?it = "first + n div 2"
    have it: "?it < first + n" "?step + 1 + (n - (?step + 1)) = n" using n by linarith+
    show ?thesis
    proof (cases "test (xs ! ?it)")
      case True
      have below: "test (xs ! i)" if "first \<le> i" "i \<le> ?it" for i
        using "1.prems" [OF that it(1) True] .
      have eq: "lower_bound_loop test xs first n = lower_bound_loop test xs (Suc ?it) (n - (?step + 1))"
        using n True by (subst lower_bound_loop.simps) (simp add: Let_def)
      have last: "Suc ?it + (n - (?step + 1)) = first + n" using it by linarith
      let ?r = "lower_bound_loop test xs (Suc ?it) (n - (?step + 1))"
      have ih: "Suc ?it \<le> ?r" "?r \<le> first + n" "\<And>i. Suc ?it \<le> i \<Longrightarrow> i < ?r \<Longrightarrow> test (xs ! i)"
        "\<And>i. ?r \<le> i \<Longrightarrow> i < first + n \<Longrightarrow> \<not> test (xs ! i)"
        using "1.IH" (1) [OF n HOL.refl HOL.refl True, unfolded last] "1.prems" by simp_all
      have "test (xs ! i)" if "first \<le> i" "i < ?r" for i
        using below [of i] ih(3) [of i] that by (cases "i \<le> ?it") simp_all
      with ih(1,2,4) show ?thesis unfolding eq by simp
    next
      case False
      have above: "\<not> test (xs ! i)" if "?it \<le> i" "i < first + n" for i
        using "1.prems" [of ?it i] that False by auto
      have eq: "lower_bound_loop test xs first n = lower_bound_loop test xs first ?step"
        using n False by (subst lower_bound_loop.simps) (simp add: Let_def)
      let ?r = "lower_bound_loop test xs first ?step"
      have ih: "first \<le> ?r" "?r \<le> ?it" "\<And>i. first \<le> i \<Longrightarrow> i < ?r \<Longrightarrow> test (xs ! i)"
        "\<And>i. ?r \<le> i \<Longrightarrow> i < ?it \<Longrightarrow> \<not> test (xs ! i)"
        using "1.IH" (2) [OF n HOL.refl HOL.refl False] "1.prems" it(1) by simp_all
      have "\<not> test (xs ! i)" if "?r \<le> i" "i < first + n" for i
        using above [of i] ih(4) [of i] that by (cases "i < ?it") simp_all
      with ih(1,2,3) it(1) show ?thesis unfolding eq by simp
    qed
  qed
qed

text \<open>On a list in key order the accessors find what a scan from the front finds.\<close>

lemma find_by_id_scan:
  assumes "sorted (map key records)"
  shows "find_by_id key records i = find (\<lambda>r. key r = i) records"
proof -
  let ?it = "lower_bound_loop (\<lambda>r. key r < i) records 0 (length records)"
  have mono: "key (records ! a) \<le> key (records ! b)" if "a \<le> b" "b < length records" for a b
    using sorted_nth_mono [OF assms that(1)] that by simp
  have "\<And>a b. a \<le> b \<Longrightarrow> b < length records \<Longrightarrow> key (records ! b) < i \<Longrightarrow> key (records ! a) < i"
    using mono order.strict_trans1 by blast
  then have "0 \<le> ?it \<and> ?it \<le> 0 + length records \<and> (\<forall>a. 0 \<le> a \<and> a < ?it \<longrightarrow> key (records ! a) < i) \<and>
      (\<forall>a. ?it \<le> a \<and> a < 0 + length records \<longrightarrow> \<not> key (records ! a) < i)"
    by (intro lower_bound_loop_spec) simp
  then have it: "?it \<le> length records" and below: "\<And>a. a < ?it \<Longrightarrow> key (records ! a) < i"
    and above: "\<And>a. ?it \<le> a \<Longrightarrow> a < length records \<Longrightarrow> \<not> key (records ! a) < i" by simp_all
  show ?thesis
  proof (cases "?it = length records \<or> key (records ! ?it) \<noteq> i")
    case True
    have "key (records ! a) \<noteq> i" if "a < length records" for a
    proof (cases "a < ?it")
      case False
      then have "?it < length records" "\<not> key (records ! ?it) < i" using that above [of ?it] by auto
      with True have "i < key (records ! ?it)" by auto
      also have "\<dots> \<le> key (records ! a)" using mono that False by simp
      finally show ?thesis by simp
    qed (use below in auto)
    then have "find (\<lambda>r. key r = i) records = None" by (auto simp: find_None_iff in_set_conv_nth)
    with True show ?thesis by (auto simp: find_by_id_def Let_def)
  next
    case False
    with it have "?it < length records" "key (records ! ?it) = i" by auto
    moreover have "\<And>a. a < ?it \<Longrightarrow> key (records ! a) \<noteq> i" using below by (metis order.irrefl)
    ultimately have "find (\<lambda>r. key r = i) records = Some (records ! ?it)" unfolding find_Some_iff by blast
    with False show ?thesis by (auto simp: find_by_id_def Let_def)
  qed
qed

lemma by_id_sorted [simp]: "sorted (map key (by_id key xs))"
  unfolding by_id_def by (simp add: stable_sort_key sorted_sort_key)

lemma set_by_id [simp]: "set (by_id key xs) = set xs" "length (by_id key xs) = length xs"
  by (simp_all add: by_id_def)

lemma find_by_id_by_id:
  assumes "inj_on key (set xs)"
  shows "find_by_id key (by_id key xs) i = Some r \<longleftrightarrow> r \<in> set xs \<and> key r = i"
proof -
  have "find (\<lambda>r. key r = i) (by_id key xs) = Some r \<longleftrightarrow> r \<in> set (by_id key xs) \<and> key r = i"
  proof
    assume "r \<in> set (by_id key xs) \<and> key r = i"
    then obtain r' where "find (\<lambda>r. key r = i) (by_id key xs) = Some r'" "r \<in> set xs" "key r = i"
      by (metis (mono_tags, lifting) find_None_iff not_None_eq set_by_id(1))
    moreover from this(1) have "r' \<in> set (by_id key xs)" "key r' = i" by (auto simp: find_Some_iff simp del: set_by_id(1))
    ultimately show "find (\<lambda>r. key r = i) (by_id key xs) = Some r" using assms by (metis inj_onD set_by_id(1))
  qed (auto simp: find_Some_iff simp del: set_by_id(1))
  then show ?thesis by (simp add: find_by_id_scan)
qed

section \<open>What a snapshot takes\<close>

lemma append_matching_subset: "set (fst (append_matching budget keep rs st)) \<subseteq> {r \<in> set rs. keep r}"
  by (induction budget keep rs st rule: append_matching.induct) (auto simp: Let_def case_prod_beta)

definition consistent :: "snapshot_budget \<Rightarrow> bool" where
  "consistent st \<longleftrightarrow> sb_compatible st = (\<not> sb_truncated st)"

lemma account_consistent [simp]: "consistent st \<Longrightarrow> consistent (account budget st)"
  by (simp add: consistent_def account_def Let_def)

lemma append_matching_consistent [simp]: "consistent st \<Longrightarrow> consistent (snd (append_matching budget keep rs st))"
  by (induction budget keep rs st rule: append_matching.induct) (simp_all add: Let_def case_prod_beta)

lemma append_matching_full: "\<not> sb_compatible st \<Longrightarrow> append_matching budget keep rs st = ([], st)"
  by (induction rs) simp_all

lemma append_matching_before: "sb_compatible (snd (append_matching budget keep rs st)) \<Longrightarrow> sb_compatible st"
  by (rule ccontr) (simp add: append_matching_full)

lemma append_matching_all:
  "sb_compatible (snd (append_matching budget keep rs st)) \<Longrightarrow> fst (append_matching budget keep rs st) = filter keep rs"
proof (induction rs arbitrary: st)
  case (Cons r rs)
  have "sb_compatible st" using append_matching_before [OF Cons.prems] .
  with Cons.prems show ?case
    using Cons.IH [of st] Cons.IH [of "account budget st"]
    by (cases "keep r") (simp_all add: Let_def case_prod_beta)
qed simp

text \<open>What a snapshot restricted by \<open>keep\<close> shows of a map.\<close>

definition visible :: "('v \<Rightarrow> bool) \<Rightarrow> ('k, 'v) std_map \<Rightarrow> 'k \<Rightarrow> 'v option" where
  "visible keep m i = (case smap_find m i of Some r \<Rightarrow> if keep r then Some r else None | None \<Rightarrow> None)"

lemma visible_all [simp]: "visible (\<lambda>r. True) m = smap_find m"
  by (rule ext) (simp add: visible_def split: option.split)

lemma visible_Some: "visible keep m i = Some r \<longleftrightarrow> smap_find m i = Some r \<and> keep r"
  by (auto simp: visible_def split: option.splits if_splits)

text \<open>The identities the stores of a well-formed engine file their records under.\<close>

lemma engine_stores:
  assumes "engine_ok ob"
  shows "smap_ok (ob_federations ob)" "smap_find (ob_federations ob) k0 = Some r0 \<Longrightarrow> fr_id r0 = k0"
    "smap_ok (ob_sites ob)" "smap_find (ob_sites ob) k1 = Some r1 \<Longrightarrow> sr_id r1 = k1"
    "smap_ok (ob_clusters ob)" "smap_find (ob_clusters ob) k2 = Some r2 \<Longrightarrow> clr_id r2 = k2"
    "smap_ok (ob_accelerator_classes ob)" "smap_find (ob_accelerator_classes ob) k3 = Some r3 \<Longrightarrow> ar_id r3 = k3"
    "smap_ok (ob_runtimes ob)" "smap_find (ob_runtimes ob) k4 = Some r4 \<Longrightarrow> rr_id r4 = k4"
    "smap_ok (ob_domains ob)" "smap_find (ob_domains ob) k5 = Some r5 \<Longrightarrow> dr_id r5 = k5"
    "smap_ok (ob_policies ob)" "smap_find (ob_policies ob) k6 = Some r6 \<Longrightarrow> pr_id r6 = k6"
    "smap_ok (ob_artifacts ob)" "smap_find (ob_artifacts ob) k7 = Some r7 \<Longrightarrow> art_id r7 = k7"
    "smap_ok (ob_workload_classes ob)" "smap_find (ob_workload_classes ob) k8 = Some r8 \<Longrightarrow> wcr_id r8 = k8"
    "smap_ok (ob_workloads ob)" "smap_find (ob_workloads ob) k9 = Some r9 \<Longrightarrow> wr_id r9 = k9"
    "smap_ok (ob_placements ob)" "smap_find (ob_placements ob) k10 = Some r10 \<Longrightarrow> plr_id r10 = k10"
    "smap_ok (ob_migrations ob)" "smap_find (ob_migrations ob) k11 = Some r11 \<Longrightarrow> mr_id r11 = k11"
  using assms unfolding engine_ok_def records_ok_def map_ok_def federation_ok_def site_ok_def cluster_ok_def domain_ok_def
    workload_ok_def placement_ok_def migration_ok_def by simp_all

text \<open>The contract of a store of the engine whose records a snapshot shows: in a well-formed engine its entries are in
  key order and filed under their own identity.\<close>

locale stored_by_key =
  fixes store :: "Observatory \<Rightarrow> ('k :: linorder, 'v) std_map" and key :: "'v \<Rightarrow> 'k"
  assumes ordered: "engine_ok ob \<Longrightarrow> smap_ok (store ob)"
    and keyed: "engine_ok ob \<Longrightarrow> smap_find (store ob) k = Some r \<Longrightarrow> key r = k"
begin

lemma stored: "engine_ok ob \<Longrightarrow> r \<in> set (smap_values (store ob)) \<longleftrightarrow> smap_find (store ob) (key r) = Some r"
  using keyed by (auto simp: smap_values_mem ordered)

lemma key_inj:
  assumes ok: "engine_ok ob" and "S \<subseteq> {r \<in> set (smap_values (store ob)). keep r}"
  shows "inj_on key S"
proof (rule inj_onI)
  fix x y assume "x \<in> S" "y \<in> S" and eq: "key x = key y"
  then have "smap_find (store ob) (key x) = Some x" "smap_find (store ob) (key y) = Some y"
    using assms(2) stored [OF ok] by blast+
  with eq show "x = y" by (metis option.inject)
qed

lemma shown_is_stored:
  assumes ok: "engine_ok ob"
    and "find_by_id key (by_id key (fst (append_matching budget keep (smap_values (store ob)) st))) i = Some r"
  shows "visible keep (store ob) i = Some r"
  using assms(2) append_matching_subset [of budget keep "smap_values (store ob)" st]
  by (auto simp: find_by_id_by_id [OF key_inj [OF ok append_matching_subset]] visible_Some stored [OF ok])

lemma shown_when_complete:
  assumes ok: "engine_ok ob"
    and complete: "sb_compatible (snd (append_matching budget keep (smap_values (store ob)) st))"
  shows "find_by_id key (by_id key (fst (append_matching budget keep (smap_values (store ob)) st))) = visible keep (store ob)"
proof (rule ext)
  fix i
  have "inj_on key (set (filter keep (smap_values (store ob))))" by (rule key_inj [OF ok, of _ keep]) auto
  then have "find_by_id key (by_id key (filter keep (smap_values (store ob)))) i = Some r \<longleftrightarrow>
      visible keep (store ob) i = Some r" for r
    by (auto simp: find_by_id_by_id visible_Some stored [OF ok] dest: keyed [OF ok])
  then show "find_by_id key (by_id key (fst (append_matching budget keep (smap_values (store ob)) st))) i =
      visible keep (store ob) i"
    unfolding append_matching_all [OF complete] by (metis not_None_eq)
qed

end

interpretation shown_federations: stored_by_key ob_federations fr_id
  by unfold_locales (auto simp: engine_stores)

interpretation shown_sites: stored_by_key ob_sites sr_id
  by unfold_locales (auto simp: engine_stores)

interpretation shown_clusters: stored_by_key ob_clusters clr_id
  by unfold_locales (auto simp: engine_stores)

interpretation shown_accelerator_classes: stored_by_key ob_accelerator_classes ar_id
  by unfold_locales (auto simp: engine_stores)

interpretation shown_runtimes: stored_by_key ob_runtimes rr_id
  by unfold_locales (auto simp: engine_stores)

interpretation shown_domains: stored_by_key ob_domains dr_id
  by unfold_locales (auto simp: engine_stores)

interpretation shown_policies: stored_by_key ob_policies pr_id
  by unfold_locales (auto simp: engine_stores)

interpretation shown_artifacts: stored_by_key ob_artifacts art_id
  by unfold_locales (auto simp: engine_stores)

interpretation shown_workload_classes: stored_by_key ob_workload_classes wcr_id
  by unfold_locales (auto simp: engine_stores)

interpretation shown_workloads: stored_by_key ob_workloads wr_id
  by unfold_locales (auto simp: engine_stores)

interpretation shown_placements: stored_by_key ob_placements plr_id
  by unfold_locales (auto simp: engine_stores)

interpretation shown_migrations: stored_by_key ob_migrations mr_id
  by unfold_locales (auto simp: engine_stores)

section \<open>The accounting\<close>

text \<open>\<open>used budget st e\<close>: after matching records of total size \<open>e\<close> were offered, the locals are in state \<open>st\<close>.\<close>

definition used :: "nat \<Rightarrow> snapshot_budget \<Rightarrow> nat \<Rightarrow> bool" where
  "used budget st e \<longleftrightarrow> consistent st \<and> (sb_truncated st \<longleftrightarrow> budget < e) \<and> (\<not> sb_truncated st \<longrightarrow> sb_estimate st = e)"

lemma used_start: "used budget \<lparr>sb_estimate = 0, sb_compatible = True, sb_truncated = False\<rparr> 0"
  by (simp add: used_def consistent_def)

lemma append_matching_used:
  "used budget st e \<Longrightarrow> used budget (snd (append_matching budget keep rs st)) (e + 192 * length (filter keep rs))"
proof (induction rs arbitrary: st e)
  case (Cons r rs)
  show ?case
  proof (cases "keep r \<and> sb_compatible st")
    case True
    with Cons.prems have "used budget (account budget st) (e + 192)"
      by (auto simp: used_def consistent_def account_def Let_def)
    from Cons.IH [OF this] True show ?thesis by (simp add: Let_def case_prod_beta add.assoc)
  next
    case False
    show ?thesis
    proof (cases "sb_compatible st")
      case True
      with False Cons.IH [OF Cons.prems] show ?thesis by simp
    next
      case full: False
      with Cons.prems have "sb_truncated st" "budget < e" by (auto simp: used_def consistent_def)
      with Cons.prems show ?thesis unfolding append_matching_full [OF full] by (simp add: used_def)
    qed
  qed
qed simp

lemma append_matching_taken:
  "sb_estimate (snd (append_matching budget keep rs st)) =
     sb_estimate st + 192 * length (fst (append_matching budget keep rs st))"
  by (induction budget keep rs st rule: append_matching.induct) (auto simp: Let_def case_prod_beta account_def)

definition within :: "nat \<Rightarrow> snapshot_budget \<Rightarrow> bool" where
  "within budget st \<longleftrightarrow> (sb_compatible st \<longrightarrow> sb_estimate st \<le> budget) \<and> sb_estimate st \<le> budget + 192"

lemma append_matching_within: "within budget st \<Longrightarrow> within budget (snd (append_matching budget keep rs st))"
  by (induction budget keep rs st rule: append_matching.induct)
    (auto simp: Let_def case_prod_beta account_def within_def)

text \<open>The number of stored records a snapshot of \<open>f\<close> is to show.\<close>

definition matching_total :: "FederationId \<Rightarrow> Observatory \<Rightarrow> nat" where
  "matching_total f ob =
     (let matches = (\<lambda>i. id_empty f \<or> i = f) in
      count_if (\<lambda>r. matches (fr_id r)) (smap_values (ob_federations ob)) +
      count_if (\<lambda>r. matches (sr_federation r)) (smap_values (ob_sites ob)) +
      count_if (\<lambda>r. matches (clr_federation r)) (smap_values (ob_clusters ob)) +
      smap_size (ob_accelerator_classes ob) + smap_size (ob_runtimes ob) + smap_size (ob_backends ob) +
      count_if (\<lambda>r. matches (dr_federation r)) (smap_values (ob_domains ob)) +
      smap_size (ob_policies ob) + smap_size (ob_artifacts ob) + smap_size (ob_workload_classes ob) +
      smap_size (ob_workloads ob) +
      count_if (\<lambda>r. matches (plr_federation r)) (smap_values (ob_placements ob)) +
      count_if (\<lambda>r. matches (mr_federation r)) (smap_values (ob_migrations ob)) +
      count_if (\<lambda>r. id_empty f \<or> id_empty (pa_federation r) \<or> pa_federation r = f) (smap_values (ob_portability ob)))"

lemma snapshot_truncated:
  "fs_truncated (build_snapshot now f ob) \<longleftrightarrow> max_snapshot_bytes (ob_bounds ob) < 192 * matching_total f ob"
proof -
  have eq: "used budget st e \<Longrightarrow> sb_truncated st \<longleftrightarrow> budget < e" for budget st e by (simp add: used_def)
  show ?thesis
    unfolding build_snapshot_def Let_def case_prod_beta FederationSnapshot.simps
    by (subst eq, (rule append_matching_used)+, rule used_start)
      (simp add: matching_total_def count_if_def algebra_simps)
qed

lemma used_compatible: "used budget st e \<Longrightarrow> \<not> sb_truncated st \<Longrightarrow> sb_compatible st"
  by (simp add: used_def consistent_def)

lemma snapshot_lookups:
  assumes ok: "engine_ok ob" and complete: "192 * matching_total f ob \<le> max_snapshot_bytes (ob_bounds ob)"
  shows "\<not> fs_truncated (build_snapshot now f ob)"
    "find_federation (build_snapshot now f ob) = visible (\<lambda>r. id_empty f \<or> fr_id r = f) (ob_federations ob)"
    "find_site (build_snapshot now f ob) = visible (\<lambda>r. id_empty f \<or> sr_federation r = f) (ob_sites ob)"
    "find_cluster (build_snapshot now f ob) = visible (\<lambda>r. id_empty f \<or> clr_federation r = f) (ob_clusters ob)"
    "find_accelerator_class (build_snapshot now f ob) = smap_find (ob_accelerator_classes ob)"
    "find_runtime (build_snapshot now f ob) = smap_find (ob_runtimes ob)"
    "find_domain (build_snapshot now f ob) = visible (\<lambda>r. id_empty f \<or> dr_federation r = f) (ob_domains ob)"
    "find_policy (build_snapshot now f ob) = smap_find (ob_policies ob)"
    "find_artifact (build_snapshot now f ob) = smap_find (ob_artifacts ob)"
    "find_workload_class (build_snapshot now f ob) = smap_find (ob_workload_classes ob)"
    "find_workload (build_snapshot now f ob) = smap_find (ob_workloads ob)"
    "find_placement (build_snapshot now f ob) = visible (\<lambda>r. id_empty f \<or> plr_federation r = f) (ob_placements ob)"
    "find_migration (build_snapshot now f ob) = visible (\<lambda>r. id_empty f \<or> mr_federation r = f) (ob_migrations ob)"
proof -
  have h: "\<not> fs_truncated (build_snapshot now f ob)" using complete by (simp add: snapshot_truncated)
  note two = append_matching_used [OF append_matching_used]
  note half = append_matching_used [OF two [OF two [OF two]]]
  note h14 = used_compatible [OF half [OF half [OF used_start]],
      OF h [unfolded build_snapshot_def Let_def case_prod_beta FederationSnapshot.simps]]
  note h13 = append_matching_before [OF h14]
  note h12 = append_matching_before [OF h13]
  note h11 = append_matching_before [OF h12]
  note h10 = append_matching_before [OF h11]
  note h9 = append_matching_before [OF h10]
  note h8 = append_matching_before [OF h9]
  note h7 = append_matching_before [OF h8]
  note h6 = append_matching_before [OF h7]
  note h5 = append_matching_before [OF h6]
  note h4 = append_matching_before [OF h5]
  note h3 = append_matching_before [OF h4]
  note h2 = append_matching_before [OF h3]
  note h1 = append_matching_before [OF h2]
  note shown = build_snapshot_def Let_def case_prod_beta FederationSnapshot.simps
  show "\<not> fs_truncated (build_snapshot now f ob)" by (rule h)
  show "find_federation (build_snapshot now f ob) = visible (\<lambda>r. id_empty f \<or> fr_id r = f) (ob_federations ob)"
    unfolding find_federation_def shown by (rule shown_federations.shown_when_complete [OF ok h1])
  show "find_site (build_snapshot now f ob) = visible (\<lambda>r. id_empty f \<or> sr_federation r = f) (ob_sites ob)"
    unfolding find_site_def shown by (rule shown_sites.shown_when_complete [OF ok h2])
  show "find_cluster (build_snapshot now f ob) = visible (\<lambda>r. id_empty f \<or> clr_federation r = f) (ob_clusters ob)"
    unfolding find_cluster_def shown by (rule shown_clusters.shown_when_complete [OF ok h3])
  show "find_accelerator_class (build_snapshot now f ob) = smap_find (ob_accelerator_classes ob)"
    unfolding find_accelerator_class_def shown visible_all [symmetric] by (rule shown_accelerator_classes.shown_when_complete [OF ok h4])
  show "find_runtime (build_snapshot now f ob) = smap_find (ob_runtimes ob)"
    unfolding find_runtime_def shown visible_all [symmetric] by (rule shown_runtimes.shown_when_complete [OF ok h5])
  show "find_domain (build_snapshot now f ob) = visible (\<lambda>r. id_empty f \<or> dr_federation r = f) (ob_domains ob)"
    unfolding find_domain_def shown by (rule shown_domains.shown_when_complete [OF ok h7])
  show "find_policy (build_snapshot now f ob) = smap_find (ob_policies ob)"
    unfolding find_policy_def shown visible_all [symmetric] by (rule shown_policies.shown_when_complete [OF ok h8])
  show "find_artifact (build_snapshot now f ob) = smap_find (ob_artifacts ob)"
    unfolding find_artifact_def shown visible_all [symmetric] by (rule shown_artifacts.shown_when_complete [OF ok h9])
  show "find_workload_class (build_snapshot now f ob) = smap_find (ob_workload_classes ob)"
    unfolding find_workload_class_def shown visible_all [symmetric] by (rule shown_workload_classes.shown_when_complete [OF ok h10])
  show "find_workload (build_snapshot now f ob) = smap_find (ob_workloads ob)"
    unfolding find_workload_def shown visible_all [symmetric] by (rule shown_workloads.shown_when_complete [OF ok h11])
  show "find_placement (build_snapshot now f ob) = visible (\<lambda>r. id_empty f \<or> plr_federation r = f) (ob_placements ob)"
    unfolding find_placement_def shown by (rule shown_placements.shown_when_complete [OF ok h12])
  show "find_migration (build_snapshot now f ob) = visible (\<lambda>r. id_empty f \<or> mr_federation r = f) (ob_migrations ob)"
    unfolding find_migration_def shown by (rule shown_migrations.shown_when_complete [OF ok h13])
qed

text \<open>C31: a snapshot that is not truncated shows exactly what the engine stores. Every accessor, a binary search in the
  sorted copy, answers for every identity what a lookup in the store answers, restricted to the records of the federation
  the snapshot was taken for (all of them when it was taken for none); and a snapshot is truncated exactly when the
  matching records, at 192 bytes each, exceed the configured snapshot bound.\<close>

theorem complete_snapshot_shows_engine:
  assumes ok: "engine_ok ob" and complete: "192 * matching_total f ob \<le> max_snapshot_bytes (ob_bounds ob)"
  shows "\<not> fs_truncated (build_snapshot now f ob) \<and>
    find_federation (build_snapshot now f ob) = visible (\<lambda>r. id_empty f \<or> fr_id r = f) (ob_federations ob) \<and>
    find_site (build_snapshot now f ob) = visible (\<lambda>r. id_empty f \<or> sr_federation r = f) (ob_sites ob) \<and>
    find_cluster (build_snapshot now f ob) = visible (\<lambda>r. id_empty f \<or> clr_federation r = f) (ob_clusters ob) \<and>
    find_accelerator_class (build_snapshot now f ob) = smap_find (ob_accelerator_classes ob) \<and>
    find_runtime (build_snapshot now f ob) = smap_find (ob_runtimes ob) \<and>
    find_domain (build_snapshot now f ob) = visible (\<lambda>r. id_empty f \<or> dr_federation r = f) (ob_domains ob) \<and>
    find_policy (build_snapshot now f ob) = smap_find (ob_policies ob) \<and>
    find_artifact (build_snapshot now f ob) = smap_find (ob_artifacts ob) \<and>
    find_workload_class (build_snapshot now f ob) = smap_find (ob_workload_classes ob) \<and>
    find_workload (build_snapshot now f ob) = smap_find (ob_workloads ob) \<and>
    find_placement (build_snapshot now f ob) = visible (\<lambda>r. id_empty f \<or> plr_federation r = f) (ob_placements ob) \<and>
    find_migration (build_snapshot now f ob) = visible (\<lambda>r. id_empty f \<or> mr_federation r = f) (ob_migrations ob)"
  using snapshot_lookups [OF ok complete] by simp

lemma snapshot_size:
  "192 * fs_records_included (build_snapshot now f ob) \<le> max_snapshot_bytes (ob_bounds ob) + 192"
proof -
  have size: "within budget st \<Longrightarrow> sb_estimate st \<le> budget + 192" for budget st by (simp add: within_def)
  note two = append_matching_within [OF append_matching_within]
  note half = append_matching_within [OF two [OF two [OF two]]]
  have start: "within budget \<lparr>sb_estimate = 0, sb_compatible = True, sb_truncated = False\<rparr>" for budget by (simp add: within_def)
  show ?thesis
    unfolding build_snapshot_def Let_def case_prod_beta FederationSnapshot.simps distrib_left
    by (rule size [OF half [OF half], OF start, unfolded append_matching_taken snapshot_budget.simps add_0])
qed

text \<open>A snapshot never shows what the engine does not store, truncated or not: a record an accessor finds is stored
  under that very identity and belongs to the federation the snapshot was taken for; and the copy stays within one record
  of the configured snapshot bound.\<close>

lemma snapshot_never_invents:
  assumes ok: "engine_ok ob"
  shows "192 * fs_records_included (build_snapshot now f ob) \<le> max_snapshot_bytes (ob_bounds ob) + 192 \<and>
    (find_federation (build_snapshot now f ob) i0 = Some r0 \<longrightarrow> visible (\<lambda>r. id_empty f \<or> fr_id r = f) (ob_federations ob) i0 = Some r0) \<and>
    (find_site (build_snapshot now f ob) i1 = Some r1 \<longrightarrow> visible (\<lambda>r. id_empty f \<or> sr_federation r = f) (ob_sites ob) i1 = Some r1) \<and>
    (find_cluster (build_snapshot now f ob) i2 = Some r2 \<longrightarrow> visible (\<lambda>r. id_empty f \<or> clr_federation r = f) (ob_clusters ob) i2 = Some r2) \<and>
    (find_accelerator_class (build_snapshot now f ob) i3 = Some r3 \<longrightarrow> smap_find (ob_accelerator_classes ob) i3 = Some r3) \<and>
    (find_runtime (build_snapshot now f ob) i4 = Some r4 \<longrightarrow> smap_find (ob_runtimes ob) i4 = Some r4) \<and>
    (find_domain (build_snapshot now f ob) i5 = Some r5 \<longrightarrow> visible (\<lambda>r. id_empty f \<or> dr_federation r = f) (ob_domains ob) i5 = Some r5) \<and>
    (find_policy (build_snapshot now f ob) i6 = Some r6 \<longrightarrow> smap_find (ob_policies ob) i6 = Some r6) \<and>
    (find_artifact (build_snapshot now f ob) i7 = Some r7 \<longrightarrow> smap_find (ob_artifacts ob) i7 = Some r7) \<and>
    (find_workload_class (build_snapshot now f ob) i8 = Some r8 \<longrightarrow> smap_find (ob_workload_classes ob) i8 = Some r8) \<and>
    (find_workload (build_snapshot now f ob) i9 = Some r9 \<longrightarrow> smap_find (ob_workloads ob) i9 = Some r9) \<and>
    (find_placement (build_snapshot now f ob) i10 = Some r10 \<longrightarrow> visible (\<lambda>r. id_empty f \<or> plr_federation r = f) (ob_placements ob) i10 = Some r10) \<and>
    (find_migration (build_snapshot now f ob) i11 = Some r11 \<longrightarrow> visible (\<lambda>r. id_empty f \<or> mr_federation r = f) (ob_migrations ob) i11 = Some r11)"
proof -
  note shown = build_snapshot_def Let_def case_prod_beta FederationSnapshot.simps
  show ?thesis unfolding visible_all [symmetric]
  proof (intro conjI impI)
    show "192 * fs_records_included (build_snapshot now f ob) \<le> max_snapshot_bytes (ob_bounds ob) + 192"
      by (rule snapshot_size)
  qed ((unfold find_federation_def shown, erule shown_federations.shown_is_stored [OF ok]),
    (unfold find_site_def shown, erule shown_sites.shown_is_stored [OF ok]),
    (unfold find_cluster_def shown, erule shown_clusters.shown_is_stored [OF ok]),
    (unfold find_accelerator_class_def shown, erule shown_accelerator_classes.shown_is_stored [OF ok]),
    (unfold find_runtime_def shown, erule shown_runtimes.shown_is_stored [OF ok]),
    (unfold find_domain_def shown, erule shown_domains.shown_is_stored [OF ok]),
    (unfold find_policy_def shown, erule shown_policies.shown_is_stored [OF ok]),
    (unfold find_artifact_def shown, erule shown_artifacts.shown_is_stored [OF ok]),
    (unfold find_workload_class_def shown, erule shown_workload_classes.shown_is_stored [OF ok]),
    (unfold find_workload_def shown, erule shown_workloads.shown_is_stored [OF ok]),
    (unfold find_placement_def shown, erule shown_placements.shown_is_stored [OF ok]),
    (unfold find_migration_def shown, erule shown_migrations.shown_is_stored [OF ok]))
qed

section \<open>The census\<close>

lemma currentness_partition:
  "length xs = count_if (\<lambda>c. f c = Currentness_Current) xs + count_if (\<lambda>c. f c = Currentness_Stale) xs +
     count_if (\<lambda>c. f c = Currentness_RevalidationRequired) xs + count_if (\<lambda>c. f c = Currentness_Retired) xs +
     count_if (\<lambda>c. f c = Currentness_Unknown) xs"
proof (induction xs)
  case (Cons c xs)
  then show ?case by (cases "f c") (simp_all add: count_if_def)
qed (simp add: count_if_def)

lemma count_if_le: "count_if P xs \<le> length xs"
  by (simp add: count_if_def)

lemma count_if_all: "count_if P xs = length xs \<longleftrightarrow> (\<forall>x \<in> set xs. P x)"
  unfolding count_if_def by (metis filter_True length_filter_less nat_neq_iff)

lemma count_if_pos: "0 < count_if P xs \<longleftrightarrow> (\<exists>x \<in> set xs. P x)"
  by (auto simp: count_if_def filter_empty_conv)

text \<open>The census of a snapshot adds up: the five freshness counts partition its clusters, live and fenced publishers
  are counted among all, and the snapshot is called degraded exactly when one of its clusters is not current.\<close>

lemma census_adds_up:
  "(let s = build_snapshot now f ob; h = fs_health s in
     sh_clusters_total h = length (fs_clusters s) \<and>
     sh_clusters_current h + sh_clusters_stale h + sh_clusters_revalidation_required h + sh_clusters_retired h +
       sh_clusters_unknown h = sh_clusters_total h \<and>
     sh_sites_current h \<le> sh_sites_total h \<and> sh_sites_total h = length (fs_sites s) \<and>
     sh_publishers_live h \<le> sh_publishers_total h \<and> sh_publishers_fenced h \<le> sh_publishers_total h \<and>
     sh_publishers_total h = smap_size (ob_publishers ob) \<and>
     (sh_revalidation_pending h \<longleftrightarrow> (\<exists>c \<in> set (fs_clusters s). clr_currentness c = Currentness_RevalidationRequired)) \<and>
     (\<not> sh_degraded h \<longleftrightarrow> list_all (\<lambda>c. clr_currentness c = Currentness_Current) (fs_clusters s)))"
proof -
  define s where "s = build_snapshot now f ob"
  have h: "fs_health s = snapshot_health (fs_clusters s) (fs_sites s) (map publisher_status (smap_values (ob_publishers ob)))"
    by (simp add: s_def build_snapshot_def Let_def case_prod_beta)
  have degraded: "\<not> sh_degraded (snapshot_health cs ss ps) \<longleftrightarrow> list_all (\<lambda>c. clr_currentness c = Currentness_Current) cs"
    for cs ss ps by (auto simp: snapshot_health_def Let_def count_if_all count_if_pos list_all_iff)
  show ?thesis
    unfolding Let_def s_def [symmetric] h degraded
    using currentness_partition [of "fs_clusters s" clr_currentness]
      count_if_le [of pst_live "map publisher_status (smap_values (ob_publishers ob))"]
      count_if_le [of pst_fenced "map publisher_status (smap_values (ob_publishers ob))"]
    by (simp add: snapshot_health_def Let_def count_if_le count_if_pos)
qed

end
