(* ===== verification/FO_Query.thy ===== *)
theory FO_Query
  imports FO_Snapshot
begin

text \<open>
  The queries of the observatory (the \<open>const\<close> methods of \<open>FederationObservatory\<close> at the end of \<open>observatory.cpp\<close>) and
  the analysis of one migration (\<open>analyze_migration\<close> of \<open>migration.cpp\<close>). A query takes a snapshot, resolves the records
  it needs through the accessors of the snapshot, assembles the inputs of an assessment and returns its result. Taking a
  snapshot is counted in the statistics, so a query returns its answer together with the engine after it. Each query is
  one step: no publication is applied between the two snapshots that \<open>explain_latest_placement\<close> and
  \<open>migration_analysis\<close> may take.
\<close>

section \<open>Reading the engine\<close>

definition observe :: "TimestampNanos \<Rightarrow> FederationId \<Rightarrow> Observatory \<Rightarrow> FederationSnapshot \<times> Observatory" where
  "observe now f ob = (build_snapshot now f ob, count_snapshot ob)"

definition not_found :: "string \<Rightarrow> 't StrongId \<Rightarrow> 'a result" where
  "not_found message i = Inl (Error NotFound message (id_value i))"

definition Observatory_federation :: "TimestampNanos \<Rightarrow> FederationId \<Rightarrow> Observatory \<Rightarrow> FederationRecord result \<times> Observatory" where
  "Observatory_federation now i ob =
     (let (snapshot, ob') = observe now no_id ob
      in case find_federation snapshot i of
           None \<Rightarrow> (not_found ''federation is not registered'' i, ob')
         | Some r \<Rightarrow> (Inr r, ob'))"

section \<open>Assembling the inputs of an assessment\<close>

definition CompatibilityInputs_init :: CompatibilityInputs where
  "CompatibilityInputs_init =
     \<lparr>ci_workload = None, ci_artifact = None, ci_cluster = None, ci_accelerator_class = None, ci_cluster_runtime = None,
      ci_policy = None, ci_effective_capabilities = None, ci_compatibility_generation = gen_unset,
      ci_target_currentness = Currentness_Unknown\<rparr>"

text \<open>The loops that put the entries of one set into another and ignore the status.\<close>

definition put_entries :: "CapabilitySet \<Rightarrow> CapabilitySet \<Rightarrow> CapabilitySet" where
  "put_entries source effective = foldl (\<lambda>s e. snd (CapabilitySet_put e s)) effective (cset_entries source)"

definition put_optional :: "('a \<Rightarrow> CapabilitySet) \<Rightarrow> 'a option \<Rightarrow> CapabilitySet \<Rightarrow> CapabilitySet" where
  "put_optional capabilities r effective =
     (case r of None \<Rightarrow> effective | Some x \<Rightarrow> put_entries (capabilities x) effective)"

fun first_found :: "('i \<Rightarrow> 'r option) \<Rightarrow> 'i list \<Rightarrow> 'r option" where
  "first_found look [] = None"
| "first_found look (i # is) = (case look i of Some r \<Rightarrow> Some r | None \<Rightarrow> first_found look is)"

definition front_found :: "('i \<Rightarrow> 'r option) \<Rightarrow> 'i list \<Rightarrow> 'r option" where
  "front_found look is = (case is of [] \<Rightarrow> None | i # _ \<Rightarrow> look i)"

definition workload_policy :: "(PolicyId \<Rightarrow> PolicyRecord option) \<Rightarrow> WorkloadRecord \<Rightarrow> PolicyRecord option" where
  "workload_policy look w = (if id_empty (wr_policy w) then None else look (wr_policy w))"

text \<open>The class the workload asks for first, or else the first one of the cluster that is on record.\<close>

definition assessed_class ::
  "(AcceleratorClassId \<Rightarrow> AcceleratorClassRecord option) \<Rightarrow> WorkloadRecord option \<Rightarrow> ClusterRecord \<Rightarrow>
   AcceleratorClassRecord option" where
  "assessed_class look workload cluster =
     (case (case workload of None \<Rightarrow> None | Some w \<Rightarrow> front_found look (wr_acceptable_accelerator_classes w)) of
        Some k \<Rightarrow> Some k
      | None \<Rightarrow> first_found look (clr_accelerator_classes cluster))"

definition effective_capabilities ::
  "AcceleratorClassRecord option \<Rightarrow> ClusterRecord \<Rightarrow> RuntimeRecord option \<Rightarrow> CapabilitySet \<Rightarrow> CapabilitySet" where
  "effective_capabilities k cluster runtime effective =
     put_optional rr_capabilities runtime
       (put_entries (clr_capabilities cluster) (put_optional ar_capabilities k effective))"

text \<open>\<open>collect_assessment_inputs\<close>: \<open>inputs\<close> and \<open>effective\<close> are its out parameters. \<open>policy_storage\<close> only holds the
  copy that \<open>inputs.policy\<close> points to, and \<open>policy_present\<close> is never read.\<close>

definition collect_assessment_inputs ::
  "FederationSnapshot \<Rightarrow> ClusterId \<Rightarrow> WorkloadId \<Rightarrow> CompatibilityInputs \<Rightarrow> CapabilitySet \<Rightarrow> CompatibilityInputs \<times> CapabilitySet" where
  "collect_assessment_inputs snapshot cluster_id workload_id inputs effective =
     (case find_cluster snapshot cluster_id of
        None \<Rightarrow> (inputs\<lparr>ci_cluster := None\<rparr>, effective)
      | Some cluster \<Rightarrow>
          (let workload = find_workload snapshot workload_id;
               inputs1 = inputs\<lparr>ci_cluster := Some cluster, ci_target_currentness := clr_currentness cluster,
                                ci_workload := workload\<rparr>;
               inputs2 = (case workload of
                            None \<Rightarrow> inputs1
                          | Some w \<Rightarrow>
                              (let i = inputs1\<lparr>ci_artifact := find_artifact snapshot (wr_artifact w)\<rparr>
                               in case workload_policy (find_policy snapshot) w of None \<Rightarrow> i | Some p \<Rightarrow> i\<lparr>ci_policy := Some p\<rparr>));
               k = assessed_class (find_accelerator_class snapshot) workload cluster;
               inputs3 = inputs2\<lparr>ci_accelerator_class := k\<rparr>;
               inputs4 = (if clr_runtimes cluster = [] then inputs3
                          else inputs3\<lparr>ci_cluster_runtime := front_found (find_runtime snapshot) (clr_runtimes cluster)\<rparr>);
               effective' = effective_capabilities k cluster (ci_cluster_runtime inputs4) effective
           in (inputs4\<lparr>ci_effective_capabilities := Some effective',
                       ci_compatibility_generation := clr_compatibility_generation cluster\<rparr>, effective')))"

definition Observatory_compatibility ::
  "TimestampNanos \<Rightarrow> ClusterId \<Rightarrow> WorkloadId \<Rightarrow> Observatory \<Rightarrow> CompatibilityAssessment result \<times> Observatory" where
  "Observatory_compatibility now cluster workload ob =
     (let (snapshot, ob') = observe now no_id ob
      in if find_cluster snapshot cluster = None then (not_found ''cluster is not registered'' cluster, ob')
         else if find_workload snapshot workload = None then (not_found ''workload is not registered'' workload, ob')
         else (Inr (assess_compatibility
                 (fst (collect_assessment_inputs snapshot cluster workload CompatibilityInputs_init no_capabilities))), ob'))"

section \<open>Explanations\<close>

text \<open>The lambda \<open>assess\<close> of \<open>explain_placement\<close>: the assessments so far and the set that its calls share.\<close>

definition assess_candidate ::
  "FederationSnapshot \<Rightarrow> WorkloadId \<Rightarrow> ClusterId \<Rightarrow> CompatibilityAssessment list \<times> CapabilitySet \<Rightarrow>
   CompatibilityAssessment list \<times> CapabilitySet" where
  "assess_candidate snapshot workload cluster st =
     (if find_cluster snapshot cluster = None then st
      else let (inputs, effective) =
                 collect_assessment_inputs snapshot cluster workload CompatibilityInputs_init (snd st)
           in (fst st @ [assess_compatibility inputs], effective))"

definition explain_recorded :: "FederationSnapshot \<Rightarrow> PlacementRecord \<Rightarrow> PlacementExplanation" where
  "explain_recorded snapshot r =
     (let also_selected = filter (\<lambda>c. co_status c = CandidateStatus_Selected \<and> co_cluster c \<noteq> plr_selected r) (plr_candidates r);
          (assessments, _) = fold (assess_candidate snapshot (plr_workload r))
            (plr_selected r # map co_cluster also_selected) ([], no_capabilities)
      in explain_placement \<lparr>pei_placement = Some r, pei_assessments = assessments,
           pei_snapshot_generation = fs_snapshot_generation snapshot\<rparr>)"

definition Observatory_explain_placement ::
  "TimestampNanos \<Rightarrow> PlacementId \<Rightarrow> Observatory \<Rightarrow> PlacementExplanation result \<times> Observatory" where
  "Observatory_explain_placement now placement ob =
     (let (snapshot, ob') = observe now no_id ob
      in case find_placement snapshot placement of
           None \<Rightarrow> (not_found ''placement is not registered'' placement, ob')
         | Some r \<Rightarrow> (Inr (explain_recorded snapshot r), ob'))"

text \<open>The loop that keeps the last of the latest current placements of a workload.\<close>

definition latest_current :: "WorkloadId \<Rightarrow> PlacementRecord list \<Rightarrow> PlacementRecord option" where
  "latest_current workload =
     foldl (\<lambda>latest r.
       if plr_workload r \<noteq> workload \<or> plr_currentness r \<noteq> Currentness_Current then latest
       else case latest of
              None \<Rightarrow> Some r
            | Some l \<Rightarrow> if os_observed_at (plr_stamp l) \<le> os_observed_at (plr_stamp r) then Some r else Some l) None"

definition Observatory_explain_latest_placement ::
  "TimestampNanos \<Rightarrow> TimestampNanos \<Rightarrow> WorkloadId \<Rightarrow> Observatory \<Rightarrow> PlacementExplanation result \<times> Observatory" where
  "Observatory_explain_latest_placement now now' workload ob =
     (let (snapshot, ob') = observe now no_id ob
      in case latest_current workload (fs_placements snapshot) of
           None \<Rightarrow> (not_found ''no current placement is registered for this workload'' workload, ob')
         | Some r \<Rightarrow> Observatory_explain_placement now' (plr_id r) ob')"

definition Observatory_explain_rejection ::
  "TimestampNanos \<Rightarrow> PlacementId \<Rightarrow> ClusterId \<Rightarrow> Observatory \<Rightarrow> RejectionExplanation result \<times> Observatory" where
  "Observatory_explain_rejection now placement candidate ob =
     (let (snapshot, ob') = observe now no_id ob
      in case find_placement snapshot placement of
           None \<Rightarrow> (not_found ''placement is not registered'' placement, ob')
         | Some r \<Rightarrow> (Inr (build_rejection_explanation r candidate), ob'))"

section \<open>Portability\<close>

definition PortabilityInputs_init :: PortabilityInputs where
  "PortabilityInputs_init =
     \<lparr>pin_workload = None, pin_artifact = None, pin_source_cluster = None, pin_source_accelerator_class = None,
      pin_source_runtime = None, pin_destination_cluster = None, pin_destination_accelerator_class = None,
      pin_destination_runtime = None, pin_policy = None, pin_destination_capabilities = None, pin_federation = no_id,
      pin_federation_generation = gen_unset, pin_compatibility_generation = gen_unset, pin_policy_generation = gen_unset\<rparr>"

text \<open>The source side: the cluster that hosts the workload according to its latest current placement.\<close>

definition portability_source :: "FederationSnapshot \<Rightarrow> WorkloadId \<Rightarrow> PortabilityInputs \<Rightarrow> PortabilityInputs" where
  "portability_source snapshot workload_id inputs =
     (case latest_current workload_id (fs_placements snapshot) of
        None \<Rightarrow> inputs
      | Some latest \<Rightarrow>
          (case find_cluster snapshot (plr_selected latest) of
             None \<Rightarrow> inputs
           | Some cluster \<Rightarrow>
               inputs\<lparr>pin_source_cluster := Some cluster,
                      pin_source_runtime := front_found (find_runtime snapshot) (clr_runtimes cluster),
                      pin_source_accelerator_class :=
                        first_found (find_accelerator_class snapshot) (clr_accelerator_classes cluster)\<rparr>))"

definition portability_destination ::
  "FederationSnapshot \<Rightarrow> WorkloadRecord option \<Rightarrow> ClusterId \<Rightarrow> CapabilitySet \<Rightarrow> PortabilityInputs \<Rightarrow> PortabilityInputs" where
  "portability_destination snapshot workload destination_id effective inputs =
     (case find_cluster snapshot destination_id of
        None \<Rightarrow> inputs\<lparr>pin_destination_cluster := None\<rparr>
      | Some destination \<Rightarrow>
          (let runtime = front_found (find_runtime snapshot) (clr_runtimes destination);
               k = assessed_class (find_accelerator_class snapshot) workload destination
           in inputs\<lparr>pin_destination_cluster := Some destination, pin_destination_runtime := runtime,
                     pin_destination_accelerator_class := k,
                     pin_destination_capabilities := Some (effective_capabilities k destination runtime effective),
                     pin_federation := clr_federation destination, pin_federation_generation := fs_generation snapshot\<rparr>))"

definition portability_inputs_for ::
  "FederationSnapshot \<Rightarrow> WorkloadId \<Rightarrow> ClusterId \<Rightarrow> CapabilitySet \<Rightarrow> PortabilityInputs" where
  "portability_inputs_for snapshot workload_id destination_id effective =
     (let workload = find_workload snapshot workload_id;
          inputs = (case workload of
                      None \<Rightarrow> PortabilityInputs_init
                    | Some w \<Rightarrow> PortabilityInputs_init\<lparr>pin_workload := Some w,
                        pin_artifact := find_artifact snapshot (wr_artifact w), pin_policy := workload_policy (find_policy snapshot) w\<rparr>)
      in portability_destination snapshot workload destination_id effective
           (portability_source snapshot workload_id inputs))"

definition Observatory_portability ::
  "TimestampNanos \<Rightarrow> WorkloadId \<Rightarrow> ClusterId \<Rightarrow> Observatory \<Rightarrow> PortabilityAssessment result \<times> Observatory" where
  "Observatory_portability now workload destination ob =
     (let (snapshot, ob') = observe now no_id ob
      in if find_workload snapshot workload = None then (not_found ''workload is not registered'' workload, ob')
         else case find (\<lambda>a. pa_workload a = workload \<and> pa_destination a = destination) (fs_portability snapshot) of
                Some a \<Rightarrow> (Inr a, ob')
              | None \<Rightarrow> (Inl (Error NotFound ''no portability assessment has been published for this pair''
                          (id_value workload @ '' -> '' @ id_value destination)), ob'))"

definition Observatory_evaluate_portability ::
  "TimestampNanos \<Rightarrow> WorkloadId \<Rightarrow> ClusterId \<Rightarrow> Observatory \<Rightarrow> PortabilityAssessment result \<times> Observatory" where
  "Observatory_evaluate_portability now workload destination ob =
     (let (snapshot, ob') = observe now no_id ob
      in if find_workload snapshot workload = None then (not_found ''workload is not registered'' workload, ob')
         else if find_cluster snapshot destination = None then
           (not_found ''destination cluster is not registered'' destination, ob')
         else (Inr (assess_portability (portability_inputs_for snapshot workload destination no_capabilities)), ob'))"

section \<open>Migration analysis\<close>

record MigrationAnalysis =
  ma_migration :: MigrationId
  ma_generation :: MigrationGeneration
  ma_workload :: WorkloadId
  ma_workload_generation :: WorkloadGeneration
  ma_stage :: MigrationStage
  ma_outcome :: MigrationOutcome
  ma_superseded :: bool
  ma_superseded_by :: MigrationId
  ma_portability :: PortabilityAssessment
  ma_requires_adaptation :: bool
  ma_adaptation_observed :: bool
  ma_revalidation_outstanding :: bool
  ma_destination_changed_mid_migration :: bool
  ma_capability_delta_observed :: bool
  ma_capability_delta :: string
  ma_slo_delta_observed :: bool
  ma_state_portability_proven :: Tri
  ma_performance_portability_proven :: Tri
  ma_precision :: Precision
  ma_evidence_class :: EvidenceClass
  ma_currentness :: Currentness
  ma_snapshot_generation :: SnapshotGeneration
  ma_conclusions :: "string list"
  ma_evidence :: EvidenceList

definition MigrationAnalysis_init :: MigrationAnalysis where
  "MigrationAnalysis_init =
     \<lparr>ma_migration = no_id, ma_generation = gen_unset, ma_workload = no_id, ma_workload_generation = gen_unset,
      ma_stage = MigrationStage_Planned, ma_outcome = MigrationOutcome_InProgress, ma_superseded = False,
      ma_superseded_by = no_id, ma_portability = PortabilityAssessment_init, ma_requires_adaptation = False,
      ma_adaptation_observed = False, ma_revalidation_outstanding = False, ma_destination_changed_mid_migration = False,
      ma_capability_delta_observed = False, ma_capability_delta = [], ma_slo_delta_observed = False,
      ma_state_portability_proven = Tri_Unknown, ma_performance_portability_proven = Tri_Unknown,
      ma_precision = Precision_Unknown, ma_evidence_class = EvidenceClass_Unknown, ma_currentness = Currentness_Unknown,
      ma_snapshot_generation = gen_unset, ma_conclusions = [], ma_evidence = no_evidence\<rparr>"

record MigrationAnalysisInputs =
  mai_migration :: "MigrationRecord option"
  mai_portability :: "PortabilityAssessment option"
  mai_superseded_by :: MigrationId
  mai_snapshot_generation :: SnapshotGeneration

definition adaptation_required :: "PortabilityAssessment \<Rightarrow> bool" where
  "adaptation_required p \<longleftrightarrow> pa_requires_rebuild p \<or> pa_requires_recompile p \<or> pa_requires_conversion p \<or>
     pa_requires_state_translation p \<or> pa_requires_fallback p"

definition capability_delta_observed :: "MigrationRecord \<Rightarrow> bool" where
  "capability_delta_observed m \<longleftrightarrow>
     (\<not> id_empty (mr_source_runtime m) \<or> \<not> id_empty (mr_destination_runtime m)) \<and>
     (mr_source_runtime m \<noteq> mr_destination_runtime m \<or>
      mr_source_runtime_generation m \<noteq> mr_destination_runtime_generation m \<or>
      mr_source_generation m \<noteq> mr_destination_generation m)"

definition capability_delta :: "MigrationRecord \<Rightarrow> string" where
  "capability_delta m =
     ''runtime '' @ render_id (id_value (mr_source_runtime m)) @ '' gen '' @
     gen_or_dash (mr_source_runtime_generation m) @ '' -> '' @
     render_id (id_value (mr_destination_runtime m)) @ '' gen '' @
     gen_or_dash (mr_destination_runtime_generation m) @ ''; cluster generation '' @
     gen_or_dash (mr_source_generation m) @ '' -> '' @ gen_or_dash (mr_destination_generation m)"

definition state_portability_proven :: "MigrationRecord \<Rightarrow> PortabilityAssessment \<Rightarrow> Tri" where
  "state_portability_proven m p =
     (case PortabilityAssessment_find p PortabilityDimension_State of
        None \<Rightarrow> Tri_Unknown
      | Some d \<Rightarrow>
          if pdr_outcome d = PortabilityOutcome_PortableDirect \<and> pdr_precision d = Precision_Exact \<and>
             mr_outcome m = MigrationOutcome_Committed then Tri_Yes
          else if pdr_outcome d = PortabilityOutcome_NotPortableState then Tri_No
          else Tri_Unknown)"

text \<open>The conclusions, in the order in which they are appended.\<close>

definition migration_conclusions ::
  "MigrationRecord \<Rightarrow> PortabilityAssessment \<Rightarrow> MigrationId \<Rightarrow> Tri \<Rightarrow> string list" where
  "migration_conclusions m p superseded_by proven =
     [''migration '' @ id_value (mr_id m) @ '' generation '' @ gen_to_string (mr_generation m) @ '' is at stage '' @
        MigrationStage_to_string (mr_stage m) @ '' with outcome '' @ MigrationOutcome_to_string (mr_outcome m),
      (if mr_reason_observed m \<and> mr_reason m \<noteq> [] then
         ''the source stated the reason for this migration: '' @ mr_reason m
       else ''no reason for this migration was observed; the runtime does not infer one'')] @
     (if id_empty superseded_by then []
      else [''this migration was superseded by '' @ id_value superseded_by @
              ''; late events bearing its generation are refused'']) @
     (if mr_destination_generation_changed m then
        [''the destination cluster generation changed during the migration, which forces '' @
           ''revalidation of the destination evidence'']
      else []) @
     (if adaptation_required p then
        [''the source/destination pair requires adaptation: '' @
           (if pa_requires_rebuild p then ''rebuild '' else []) @
           (if pa_requires_recompile p then ''recompile '' else []) @
           (if pa_requires_conversion p then ''conversion '' else []) @
           (if pa_requires_state_translation p then ''state-translation '' else []) @
           (if pa_requires_fallback p then ''fallback'' else [])]
      else if pa_dimensions p = [] then
        [''no portability assessment accompanies this migration, so adaptation needs are unknown'']
      else []) @
     (if mr_revalidation_pending m \<or> mr_stage m = MigrationStage_RevalidationRequired then
        [''revalidation is outstanding: the destination'' @ CHR 0x27 # ''s post-migration evidence has not been confirmed'']
      else []) @
     [(case proven of
         Tri_Yes \<Rightarrow>
           ''the state dimension of the accompanying portability assessment is directly portable with exact evidence; '' @
           ''this is the only basis on which state portability is asserted''
       | Tri_No \<Rightarrow>
           ''state portability failed: the captured state format is not restorable at the destination''
       | Tri_Unknown \<Rightarrow>
           ''state portability is not proven: a workload running after migration does not demonstrate byte-for-byte '' @
           ''state portability''),
      ''performance portability is never asserted by Federation Observatory; it is not measured here'']"

definition analyze_migration :: "MigrationAnalysisInputs \<Rightarrow> MigrationAnalysis" where
  "analyze_migration inputs =
     (let start = MigrationAnalysis_init\<lparr>ma_snapshot_generation := mai_snapshot_generation inputs\<rparr>
      in case mai_migration inputs of
           None \<Rightarrow> start\<lparr>ma_conclusions := [''no migration record was supplied''], ma_precision := Precision_Unknown,
             ma_evidence_class := EvidenceClass_Unknown\<rparr>
         | Some m \<Rightarrow>
             (let p = (case mai_portability inputs of None \<Rightarrow> PortabilityAssessment_init | Some a \<Rightarrow> a);
                  proven = state_portability_proven m p;
                  superseded_by = mai_superseded_by inputs
              in start\<lparr>ma_migration := mr_id m, ma_generation := mr_generation m, ma_workload := mr_workload m,
                   ma_workload_generation := mr_workload_generation m, ma_stage := mr_stage m, ma_outcome := mr_outcome m,
                   ma_superseded := \<not> id_empty superseded_by, ma_superseded_by := superseded_by,
                   ma_currentness := mr_currentness m, ma_portability := p,
                   ma_requires_adaptation := adaptation_required p,
                   ma_adaptation_observed := (adaptation_required p \<and> 7 \<le> migration_stage_rank (mr_stage m)),
                   ma_revalidation_outstanding :=
                     (mr_revalidation_pending m \<or> mr_stage m = MigrationStage_RevalidationRequired),
                   ma_destination_changed_mid_migration := mr_destination_generation_changed m,
                   ma_capability_delta_observed := capability_delta_observed m,
                   ma_capability_delta := (if capability_delta_observed m then capability_delta m else []),
                   ma_slo_delta_observed := mr_changed_slo m, ma_state_portability_proven := proven,
                   ma_performance_portability_proven := Tri_Unknown,
                   ma_precision := weakest_precision (os_precision (mr_stamp m)) (pa_precision p),
                   ma_evidence_class := weaker_class (os_evidence_class (mr_stamp m)) (pa_evidence_class p),
                   ma_evidence := foldl (\<lambda>l e. snd (EvidenceList_add e l)) no_evidence
                     (el_items (mr_evidence m) @ el_items (pa_evidence p)),
                   ma_conclusions := migration_conclusions m p superseded_by proven\<rparr>))"

definition Observatory_migration_analysis ::
  "TimestampNanos \<Rightarrow> TimestampNanos \<Rightarrow> MigrationId \<Rightarrow> Observatory \<Rightarrow> MigrationAnalysis result \<times> Observatory" where
  "Observatory_migration_analysis now now' migration ob =
     (let (snapshot, ob') = observe now no_id ob
      in case find_migration snapshot migration of
           None \<Rightarrow> (not_found ''migration is not registered'' migration, ob')
         | Some r \<Rightarrow>
             (let published = find (\<lambda>a. pa_workload a = mr_workload r \<and> pa_destination a = mr_destination r \<and>
                      pa_source a = mr_source r) (fs_portability snapshot);
                  (portability, ob'') =
                    (case published of
                       Some a \<Rightarrow> (Some a, ob')
                     | None \<Rightarrow>
                         (case Observatory_evaluate_portability now' (mr_workload r) (mr_destination r) ob' of
                            (Inr a, ob2) \<Rightarrow> (Some a, ob2)
                          | (Inl _, ob2) \<Rightarrow> (None, ob2)));
                  superseded_by =
                    (case find (\<lambda>c. mr_workload c = mr_workload r \<and> mr_supersedes c = mr_id r) (fs_migrations snapshot) of
                       None \<Rightarrow> no_id | Some c \<Rightarrow> mr_id c)
              in (Inr (analyze_migration
                    \<lparr>mai_migration = Some r, mai_portability = portability, mai_superseded_by = superseded_by,
                     mai_snapshot_generation = fs_snapshot_generation snapshot\<rparr>), ob'')))"

section \<open>Queries read\<close>

lemma visible_no_id: "visible (\<lambda>r. id_empty no_id \<or> P r) m = smap_find m"
  by (simp add: visible_def fun_eq_iff id_empty_def split: option.split)

text \<open>A workload is copied after the clusters, accelerator classes, runtimes, policies and artifacts; a snapshot that shows
  one dropped none of those.\<close>

lemma lookups_before_workloads:
  assumes ok: "engine_ok ob" and found: "find_workload (build_snapshot now no_id ob) w = Some wl"
  shows "smap_find (ob_workloads ob) w = Some wl"
    "find_cluster (build_snapshot now no_id ob) = smap_find (ob_clusters ob)"
    "find_accelerator_class (build_snapshot now no_id ob) = smap_find (ob_accelerator_classes ob)"
    "find_runtime (build_snapshot now no_id ob) = smap_find (ob_runtimes ob)"
    "find_policy (build_snapshot now no_id ob) = smap_find (ob_policies ob)"
    "find_artifact (build_snapshot now no_id ob) = smap_find (ob_artifacts ob)"
proof -
  note shown = build_snapshot_def Let_def case_prod_beta FederationSnapshot.simps
  have nonempty: "find_by_id key (by_id key (fst (append_matching budget keep rs st))) i = Some r \<Longrightarrow> sb_compatible st"
    for key :: "WorkloadRecord \<Rightarrow> WorkloadId" and budget keep rs st i r
    by (rule ccontr) (simp add: append_matching_full find_by_id_def lower_bound_loop.simps by_id_def)
  note h10 = nonempty [OF found [unfolded find_workload_def shown]]
  note h9 = append_matching_before [OF h10]
  note h8 = append_matching_before [OF h9]
  note h5 = append_matching_before [OF append_matching_before [OF append_matching_before [OF h8]]]
  note h4 = append_matching_before [OF h5]
  note h3 = append_matching_before [OF h4]
  show "smap_find (ob_workloads ob) w = Some wl"
    using shown_workloads.shown_is_stored [OF ok found [unfolded find_workload_def shown]] by simp
  show "find_cluster (build_snapshot now no_id ob) = smap_find (ob_clusters ob)"
    unfolding find_cluster_def shown using shown_clusters.shown_when_complete [OF ok h3] unfolding visible_no_id .
  show "find_accelerator_class (build_snapshot now no_id ob) = smap_find (ob_accelerator_classes ob)"
    unfolding find_accelerator_class_def shown using shown_accelerator_classes.shown_when_complete [OF ok h4] unfolding visible_all .
  show "find_runtime (build_snapshot now no_id ob) = smap_find (ob_runtimes ob)"
    unfolding find_runtime_def shown using shown_runtimes.shown_when_complete [OF ok h5] unfolding visible_all .
  show "find_policy (build_snapshot now no_id ob) = smap_find (ob_policies ob)"
    unfolding find_policy_def shown using shown_policies.shown_when_complete [OF ok h8] unfolding visible_all .
  show "find_artifact (build_snapshot now no_id ob) = smap_find (ob_artifacts ob)"
    unfolding find_artifact_def shown using shown_artifacts.shown_when_complete [OF ok h9] unfolding visible_all .
qed

text \<open>What the assessment of a registered workload on a registered cluster is given.\<close>

lemma collected_inputs:
  assumes "find_cluster s c = Some cl" and "find_workload s w = Some wl"
  shows "fst (collect_assessment_inputs s c w CompatibilityInputs_init effective) =
    (let k = assessed_class (find_accelerator_class s) (Some wl) cl; rt = front_found (find_runtime s) (clr_runtimes cl)
     in \<lparr>ci_workload = Some wl, ci_artifact = find_artifact s (wr_artifact wl), ci_cluster = Some cl,
         ci_accelerator_class = k, ci_cluster_runtime = rt, ci_policy = workload_policy (find_policy s) wl,
         ci_effective_capabilities = Some (effective_capabilities k cl rt effective),
         ci_compatibility_generation = clr_compatibility_generation cl, ci_target_currentness = clr_currentness cl\<rparr>)"
  using assms
  by (simp add: collect_assessment_inputs_def CompatibilityInputs_init_def Let_def front_found_def
      split: option.split list.split)

lemma admitted_checks:
  assumes checks: "\<And>x. x \<in> set (relation_checks i cl) \<Longrightarrow> is_compatible_family (check_outcome x)"
    and w: "ci_workload i = Some wl"
  shows "r \<in> set (wr_requirements wl) \<Longrightarrow> \<exists>s. ci_effective_capabilities i = Some s \<and>
      (chk_satisfied (evaluate_requirement r s) = Tri_Yes \<or> (req_optional r \<and> chk_satisfied (evaluate_requirement r s) = Tri_No))"
    "wr_required_memory_bytes_per_accelerator wl \<noteq> 0 \<Longrightarrow> \<exists>k. ci_accelerator_class i = Some k \<and>
      wr_required_memory_bytes_per_accelerator wl \<le> ar_memory_bytes_per_device k"
    "ci_artifact i = Some art \<Longrightarrow> is_code_bearing (art_kind art) \<Longrightarrow>
      \<exists>k. ci_accelerator_class i = Some k \<and> targets_architecture art (ar_architecture k)"
    "ci_artifact i = Some art \<Longrightarrow> art_runtime_abi art \<noteq> [] \<Longrightarrow> \<exists>r. ci_cluster_runtime i = Some r \<and> rr_abi r = art_runtime_abi art"
    "ci_artifact i = Some art \<Longrightarrow> art_driver_abi art \<noteq> [] \<Longrightarrow> \<exists>r. ci_cluster_runtime i = Some r \<and> rr_driver_abi r = art_driver_abi art"
proof -
  note member = relation_checks_def option_list_def w
  show "\<exists>s. ci_effective_capabilities i = Some s \<and>
      (chk_satisfied (evaluate_requirement r s) = Tri_Yes \<or> (req_optional r \<and> chk_satisfied (evaluate_requirement r s) = Tri_No))"
    if "r \<in> set (wr_requirements wl)"
  proof -
    have "capability_requirement_check i False r \<in> set (relation_checks i cl)" using that by (simp add: member)
    from requirement_check_admits [OF checks [OF this]] show ?thesis .
  qed
  have memory: "\<forall>c \<in> set (memory_checks (ci_accelerator_class i) wl). is_compatible_family (check_outcome c)"
    by (rule ballI, rule checks, simp add: member)
  show "\<exists>k. ci_accelerator_class i = Some k \<and> wr_required_memory_bytes_per_accelerator wl \<le> ar_memory_bytes_per_device k"
    if "wr_required_memory_bytes_per_accelerator wl \<noteq> 0" by (rule memory_check_admits [OF memory that])
  show "\<exists>k. ci_accelerator_class i = Some k \<and> targets_architecture art (ar_architecture k)"
    if art: "ci_artifact i = Some art" and "is_code_bearing (art_kind art)"
  proof -
    have "\<forall>c \<in> set (architecture_checks (ci_accelerator_class i) art). is_compatible_family (check_outcome c)"
      by (rule ballI, rule checks, simp add: member art)
    from architecture_check_admits [OF this that(2)] show ?thesis by blast
  qed
  have abi: "\<forall>c \<in> set (abi_checks (ci_cluster_runtime i) art). is_compatible_family (check_outcome c)"
    if art: "ci_artifact i = Some art" by (rule ballI, rule checks, simp add: member art)
  show "\<exists>r. ci_cluster_runtime i = Some r \<and> rr_abi r = art_runtime_abi art"
    if "ci_artifact i = Some art" "art_runtime_abi art \<noteq> []" by (rule abi_check_admits(1) [OF abi [OF that(1)] that(2)])
  show "\<exists>r. ci_cluster_runtime i = Some r \<and> rr_driver_abi r = art_driver_abi art"
    if "ci_artifact i = Some art" "art_driver_abi art \<noteq> []" by (rule abi_check_admits(2) [OF abi [OF that(1)] that(2)])
qed

text \<open>C32: an admission that the compatibility query answers rests on the records the engine stores, whatever the size of the
  snapshot. The cluster and the workload are registered, the cluster is current and the policy the workload names is
  stored and does not refuse it; every mandatory requirement of the workload evaluates to yes on the capabilities of the
  assessed accelerator class, the cluster and its first runtime, the per-device memory it asks for fits that class, and a
  stored artifact of the workload targets the class and finds the ABIs it declares on that runtime.\<close>

theorem admitted_query_is_grounded:
  assumes ok: "engine_ok ob" and answer: "fst (Observatory_compatibility now c w ob) = Inr a" and admitted: "admits_placement a"
  shows "\<exists>cl wl. smap_find (ob_clusters ob) c = Some cl \<and> smap_find (ob_workloads ob) w = Some wl \<and>
    clr_currentness cl = Currentness_Current \<and>
    (id_empty (wr_policy wl) \<or>
      (\<exists>p. smap_find (ob_policies ob) (wr_policy wl) = Some p \<and> fst (policy_verdict (Some p) cl) \<noteq> Tri_No)) \<and>
    (let k = assessed_class (smap_find (ob_accelerator_classes ob)) (Some wl) cl;
         rt = front_found (smap_find (ob_runtimes ob)) (clr_runtimes cl);
         s = effective_capabilities k cl rt no_capabilities
     in (\<forall>r \<in> set (wr_requirements wl). chk_satisfied (evaluate_requirement r s) = Tri_Yes \<or>
          (req_optional r \<and> chk_satisfied (evaluate_requirement r s) = Tri_No)) \<and>
        (wr_required_memory_bytes_per_accelerator wl \<noteq> 0 \<longrightarrow> (\<exists>x. k = Some x \<and>
          wr_required_memory_bytes_per_accelerator wl \<le> ar_memory_bytes_per_device x)) \<and>
        (\<forall>art. smap_find (ob_artifacts ob) (wr_artifact wl) = Some art \<longrightarrow>
          (is_code_bearing (art_kind art) \<longrightarrow> (\<exists>x. k = Some x \<and> targets_architecture art (ar_architecture x))) \<and>
          (art_runtime_abi art \<noteq> [] \<longrightarrow> (\<exists>r. rt = Some r \<and> rr_abi r = art_runtime_abi art)) \<and>
          (art_driver_abi art \<noteq> [] \<longrightarrow> (\<exists>r. rt = Some r \<and> rr_driver_abi r = art_driver_abi art))))"
proof -
  let ?s = "build_snapshot now no_id ob"
  obtain cl wl where cl: "find_cluster ?s c = Some cl" and wl: "find_workload ?s w = Some wl"
    and a: "a = assess_compatibility (fst (collect_assessment_inputs ?s c w CompatibilityInputs_init no_capabilities))"
    using answer by (auto simp: Observatory_compatibility_def observe_def not_found_def split: if_splits)
  note stored = lookups_before_workloads [OF ok wl]
  define i where "i = fst (collect_assessment_inputs ?s c w CompatibilityInputs_init no_capabilities)"
  note i = i_def [unfolded collected_inputs [OF cl wl] Let_def stored]
  have sel: "ci_workload i = Some wl" "ci_artifact i = smap_find (ob_artifacts ob) (wr_artifact wl)" "ci_cluster i = Some cl"
    "ci_accelerator_class i = assessed_class (smap_find (ob_accelerator_classes ob)) (Some wl) cl"
    "ci_cluster_runtime i = front_found (smap_find (ob_runtimes ob)) (clr_runtimes cl)"
    "ci_policy i = workload_policy (smap_find (ob_policies ob)) wl" "ci_target_currentness i = clr_currentness cl"
    "ci_effective_capabilities i = Some (effective_capabilities
       (assessed_class (smap_find (ob_accelerator_classes ob)) (Some wl) cl) cl
       (front_found (smap_find (ob_runtimes ob)) (clr_runtimes cl)) no_capabilities)" by (simp_all add: i)
  have adm: "admits_placement (assess_compatibility i)" using admitted by (simp add: a i_def)
  obtain current: "clr_currentness cl = Currentness_Current" and policy: "fst (policy_verdict (ci_policy i) cl) \<noteq> Tri_No"
    and checks: "\<And>x. x \<in> set (relation_checks i cl) \<Longrightarrow> is_compatible_family (check_outcome x)"
    using admitted_target [OF adm] sel by (metis option.inject)
  have wok: "workload_ok ob w wl" and cluster: "smap_find (ob_clusters ob) c = Some cl"
    using ok stored(1) cl stored(2) map_ok_find by (fastforce simp: engine_ok_def records_ok_def)+
  have "id_empty (wr_policy wl) \<or>
      (\<exists>p. smap_find (ob_policies ob) (wr_policy wl) = Some p \<and> fst (policy_verdict (Some p) cl) \<noteq> Tri_No)"
    using wok policy by (auto simp: workload_ok_def optional_ref_def sel(6) workload_policy_def)
  moreover note checked = admitted_checks [OF checks sel(1)]
  ultimately show ?thesis
    using cluster stored(1) current unfolding sel Let_def by (intro exI [of _ cl] exI [of _ wl]) simp
qed

section \<open>What a migration analysis claims\<close>

lemma assessed_state_not_exact:
  assumes "d \<in> set (pa_dimensions (assess_portability i))" and "pdr_dimension d = PortabilityDimension_State"
  shows "pdr_precision d \<noteq> Precision_Exact"
proof (cases "pin_destination_cluster i")
  case None
  with assms show ?thesis by (auto simp: assess_portability_def absent_destination_def Let_def)
next
  case (Some r)
  have format: "pdr_dimension x \<noteq> PortabilityDimension_State" if "x \<in> set (format_dimensions j c)" for x j c
  proof -
    have "pdr_dimension x \<in> set (map pdr_dimension (format_dimensions j c))" unfolding set_map using that by (rule imageI)
    then show ?thesis unfolding paired_dimensions by auto
  qed
  have "d \<in> set (portability_dimensions i r)" using assms(1) Some by (simp add: assess_portability_def Let_def case_prod_beta)
  with assms(2) format have "d \<in> set (state_dimensions i (os_evidence_class (clr_stamp r)))"
    by (auto simp: portability_dimensions_def Let_def)
  then show ?thesis by (auto simp: state_dimensions_def Let_def split: option.splits bool.splits if_splits)
qed

lemma snapshot_lists_stored:
  assumes ok: "engine_ok ob"
  shows "a \<in> set (fs_portability (build_snapshot now f ob)) \<Longrightarrow>
      smap_find (ob_portability ob) (pa_workload a, pa_destination a) = Some a"
    "m \<in> set (fs_migrations (build_snapshot now f ob)) \<Longrightarrow> smap_find (ob_migrations ob) (mr_id m) = Some m"
    "find_migration (build_snapshot now f ob) i = Some m \<Longrightarrow> smap_find (ob_migrations ob) i = Some m"
    "r \<in> set (fs_placements (build_snapshot now f ob)) \<Longrightarrow> smap_find (ob_placements ob) (plr_id r) = Some r"
proof -
  note shown = build_snapshot_def Let_def case_prod_beta FederationSnapshot.simps
  have taken: "set (fst (append_matching budget keep rs st)) \<subseteq> set rs" for budget keep rs st
    using append_matching_subset [of budget keep rs st] by auto
  have key: "map_ok (ob_portability ob) (max_portability_records (ob_bounds ob)) (assessment_ok ob)"
    using ok by (simp add: engine_ok_def records_ok_def)
  show "smap_find (ob_portability ob) (pa_workload a, pa_destination a) = Some a"
    if "a \<in> set (fs_portability (build_snapshot now f ob))"
  proof -
    have "a \<in> set (smap_values (ob_portability ob))"
      by (rule subsetD [OF taken that [unfolded shown]])
    then obtain k where k: "smap_find (ob_portability ob) k = Some a" using key by (auto simp: map_ok_def smap_values_mem)
    with map_ok_find [OF key k] show ?thesis by (simp add: assessment_ok_def)
  qed
  show "smap_find (ob_migrations ob) (mr_id m) = Some m" if "m \<in> set (fs_migrations (build_snapshot now f ob))"
  proof -
    have "m \<in> set (smap_values (ob_migrations ob))" by (rule subsetD [OF taken that [unfolded shown set_by_id]])
    then show ?thesis by (simp add: shown_migrations.stored [OF ok])
  qed
  show "smap_find (ob_placements ob) (plr_id r) = Some r" if "r \<in> set (fs_placements (build_snapshot now f ob))"
  proof -
    have "r \<in> set (smap_values (ob_placements ob))" by (rule subsetD [OF taken that [unfolded shown set_by_id]])
    then show ?thesis by (simp add: shown_placements.stored [OF ok])
  qed
  show "smap_find (ob_migrations ob) i = Some m" if "find_migration (build_snapshot now f ob) i = Some m"
    using shown_migrations.shown_is_stored [OF ok that [unfolded find_migration_def shown]] by (simp add: visible_Some)
qed

lemma state_claim:
  assumes "state_portability_proven m p = Tri_Yes"
  shows "mr_outcome m = MigrationOutcome_Committed"
    "\<exists>d \<in> set (pa_dimensions p). pdr_dimension d = PortabilityDimension_State \<and>
       pdr_outcome d = PortabilityOutcome_PortableDirect \<and> pdr_precision d = Precision_Exact"
  using assms
  by (auto simp: state_portability_proven_def PortabilityAssessment_find_def find_Some_iff split: option.splits if_splits)

lemma migration_answer:
  assumes "fst (Observatory_migration_analysis now now' i ob) = Inr a"
  shows "\<exists>m p superseded_by. find_migration (build_snapshot now no_id ob) i = Some m \<and>
    a = analyze_migration \<lparr>mai_migration = Some m, mai_portability = p, mai_superseded_by = superseded_by,
      mai_snapshot_generation = fs_snapshot_generation (build_snapshot now no_id ob)\<rparr> \<and>
    ((\<exists>x. p = Some x \<and> x \<in> set (fs_portability (build_snapshot now no_id ob)) \<and> pa_workload x = mr_workload m \<and>
        pa_destination x = mr_destination m \<and> pa_source x = mr_source m) \<or>
      p = None \<or> (\<exists>j. p = Some (assess_portability j))) \<and>
    (superseded_by = no_id \<or> (\<exists>n \<in> set (fs_migrations (build_snapshot now no_id ob)). superseded_by = mr_id n \<and>
        mr_workload n = mr_workload m \<and> mr_supersedes n = mr_id m))"
proof -
  let ?s = "build_snapshot now no_id ob"
  obtain m where m: "find_migration ?s i = Some m"
    using assms by (auto simp: Observatory_migration_analysis_def observe_def not_found_def split: option.splits)
  have found: "find P xs = Some x \<Longrightarrow> x \<in> set xs \<and> P x" for P and xs :: "'x list" and x
    by (auto simp: find_Some_iff)
  show ?thesis
    using assms m
    by (auto simp: Observatory_migration_analysis_def Observatory_evaluate_portability_def observe_def not_found_def Let_def
        split: option.splits if_splits dest!: found)
qed

text \<open>C33: a migration analysis claims no more than the engine has evidence for, whatever the size of the snapshot. It is about
  the stored migration of that identity and repeats its stage and outcome; performance portability is never asserted;
  state portability is asserted only for a committed migration for which a stored, published assessment of the very pair
  reports the state dimension as directly portable with exact precision (an assessment computed on the spot never
  suffices); a migration is called superseded only when a stored migration of the same workload names it.\<close>

theorem migration_claims_are_backed:
  assumes ok: "engine_ok ob" and answer: "fst (Observatory_migration_analysis now now' i ob) = Inr a"
  shows "\<exists>m. smap_find (ob_migrations ob) i = Some m \<and>
    ma_migration a = i \<and> ma_stage a = mr_stage m \<and> ma_outcome a = mr_outcome m \<and>
    ma_performance_portability_proven a = Tri_Unknown \<and>
    (ma_state_portability_proven a = Tri_Yes \<longrightarrow> mr_outcome m = MigrationOutcome_Committed \<and>
      (\<exists>p. smap_find (ob_portability ob) (mr_workload m, mr_destination m) = Some p \<and> pa_source p = mr_source m \<and>
        (\<exists>d \<in> set (pa_dimensions p). pdr_dimension d = PortabilityDimension_State \<and>
          pdr_outcome d = PortabilityOutcome_PortableDirect \<and> pdr_precision d = Precision_Exact))) \<and>
    (ma_superseded a \<longrightarrow> (\<exists>n. smap_find (ob_migrations ob) (ma_superseded_by a) = Some n \<and>
      mr_workload n = mr_workload m \<and> mr_supersedes n = i))"
proof -
  let ?s = "build_snapshot now no_id ob"
  obtain m p by_id where m: "find_migration ?s i = Some m"
    and a: "a = analyze_migration \<lparr>mai_migration = Some m, mai_portability = p, mai_superseded_by = by_id,
      mai_snapshot_generation = fs_snapshot_generation ?s\<rparr>"
    and p: "(\<exists>x. p = Some x \<and> x \<in> set (fs_portability ?s) \<and> pa_workload x = mr_workload m \<and>
        pa_destination x = mr_destination m \<and> pa_source x = mr_source m) \<or>
      p = None \<or> (\<exists>j. p = Some (assess_portability j))"
    and by_id: "by_id = no_id \<or> (\<exists>n \<in> set (fs_migrations ?s). by_id = mr_id n \<and> mr_workload n = mr_workload m \<and>
        mr_supersedes n = mr_id m)"
    using migration_answer [OF answer] by blast
  note stored = snapshot_lists_stored [OF ok]
  have mr: "smap_find (ob_migrations ob) i = Some m" by (rule stored(3) [OF m])
  then have "mr_id m = i" by (rule shown_migrations.keyed [OF ok])
  have state: "mr_outcome m = MigrationOutcome_Committed \<and>
      (\<exists>x. smap_find (ob_portability ob) (mr_workload m, mr_destination m) = Some x \<and> pa_source x = mr_source m \<and>
        (\<exists>d \<in> set (pa_dimensions x). pdr_dimension d = PortabilityDimension_State \<and>
          pdr_outcome d = PortabilityOutcome_PortableDirect \<and> pdr_precision d = Precision_Exact))"
    if "ma_state_portability_proven a = Tri_Yes"
  proof -
    have yes: "state_portability_proven m (case p of None \<Rightarrow> PortabilityAssessment_init | Some x \<Rightarrow> x) = Tri_Yes"
      using that by (simp add: a analyze_migration_def Let_def)
    note claim = state_claim [OF yes]
    from p claim(2) obtain x where "p = Some x" "x \<in> set (fs_portability ?s)" "pa_workload x = mr_workload m"
      "pa_destination x = mr_destination m" "pa_source x = mr_source m"
      using assessed_state_not_exact by (auto simp: PortabilityAssessment_init_def)
    with claim stored(1) [of x] show ?thesis by auto
  qed
  have "\<exists>n. smap_find (ob_migrations ob) (ma_superseded_by a) = Some n \<and> mr_workload n = mr_workload m \<and> mr_supersedes n = i"
    if "ma_superseded a"
    using by_id that \<open>mr_id m = i\<close> stored(2) by (auto simp: a analyze_migration_def Let_def id_empty_def)
  with state mr \<open>mr_id m = i\<close> show ?thesis
    by (intro exI [of _ m]) (simp add: a analyze_migration_def Let_def)
qed

section \<open>What an explanation rests on\<close>

lemma snapshot_generation_of: "fs_snapshot_generation (build_snapshot now f ob) = ob_snapshot_generation ob"
  by (simp add: build_snapshot_def Let_def case_prod_beta)

text \<open>Snapshots of one state taken at different times differ in their time stamp only.\<close>

lemma snapshot_time: "build_snapshot now' f ob = (build_snapshot now f ob)\<lparr>fs_created_at := now'\<rparr>"
  by (simp add: build_snapshot_def Let_def case_prod_beta)

lemma same_lookups:
  "find_cluster (s\<lparr>fs_created_at := t\<rparr>) = find_cluster s" "find_workload (s\<lparr>fs_created_at := t\<rparr>) = find_workload s"
  "find_accelerator_class (s\<lparr>fs_created_at := t\<rparr>) = find_accelerator_class s"
  "find_runtime (s\<lparr>fs_created_at := t\<rparr>) = find_runtime s" "find_policy (s\<lparr>fs_created_at := t\<rparr>) = find_policy s"
  "find_artifact (s\<lparr>fs_created_at := t\<rparr>) = find_artifact s" "find_placement (s\<lparr>fs_created_at := t\<rparr>) = find_placement s"
  by (rule ext, simp add: find_cluster_def find_workload_def find_accelerator_class_def find_runtime_def find_policy_def
      find_artifact_def find_placement_def)+

lemma collect_time: "collect_assessment_inputs (s\<lparr>fs_created_at := t\<rparr>) = collect_assessment_inputs s"
  by (intro ext) (simp only: collect_assessment_inputs_def same_lookups)

text \<open>A placement is copied after every workload and cluster; a snapshot that shows one dropped none of those.\<close>

lemma lookups_before_placements:
  assumes ok: "engine_ok ob" and found: "find_placement (build_snapshot now no_id ob) i = Some r"
  shows "smap_find (ob_placements ob) i = Some r"
    "find_workload (build_snapshot now no_id ob) = smap_find (ob_workloads ob)"
    "find_cluster (build_snapshot now no_id ob) = smap_find (ob_clusters ob)"
proof -
  note shown = build_snapshot_def Let_def case_prod_beta FederationSnapshot.simps
  have nonempty: "find_by_id key (by_id key (fst (append_matching budget keep rs st))) j = Some x \<Longrightarrow> sb_compatible st"
    for key :: "PlacementRecord \<Rightarrow> PlacementId" and budget keep rs st j x
    by (rule ccontr) (simp add: append_matching_full find_by_id_def lower_bound_loop.simps by_id_def)
  note previous = append_matching_before
  note h11 = nonempty [OF found [unfolded find_placement_def shown]]
  note h7 = previous [OF previous [OF previous [OF previous [OF h11]]]]
  note h3 = previous [OF previous [OF previous [OF previous [OF h7]]]]
  show "smap_find (ob_placements ob) i = Some r"
    using shown_placements.shown_is_stored [OF ok found [unfolded find_placement_def shown]] by (simp add: visible_Some)
  show "find_workload (build_snapshot now no_id ob) = smap_find (ob_workloads ob)"
    unfolding find_workload_def shown using shown_workloads.shown_when_complete [OF ok h11] unfolding visible_all .
  show "find_cluster (build_snapshot now no_id ob) = smap_find (ob_clusters ob)"
    unfolding find_cluster_def shown using shown_clusters.shown_when_complete [OF ok h3] unfolding visible_no_id .
qed

lemma only_selected_selected:
  assumes "placement_ok ob i r"
  shows "filter (\<lambda>c. co_status c = CandidateStatus_Selected \<and> co_cluster c \<noteq> plr_selected r) (plr_candidates r) = []"
  using assms
  by (auto simp: placement_ok_def PlacementRecord_validate_def checks_Success first_failure_Success candidate_check_def
      filter_empty_conv simp del: checks_simps)

lemma explained_by_compatibility:
  assumes ok: "engine_ok ob" and found: "find_placement (build_snapshot now no_id ob) i = Some r"
  shows "\<exists>a. fst (Observatory_compatibility now' (plr_selected r) (plr_workload r) ob) = Inr a \<and>
    explain_recorded (build_snapshot now no_id ob) r = explain_placement
      \<lparr>pei_placement = Some r, pei_assessments = [a], pei_snapshot_generation = ob_snapshot_generation ob\<rparr>"
proof -
  let ?s = "build_snapshot now no_id ob" and ?t = "build_snapshot now' no_id ob"
  note stored = lookups_before_placements [OF ok found]
  have r: "placement_ok ob i r" using ok stored(1) map_ok_find by (fastforce simp: engine_ok_def records_ok_def)
  then obtain cl wl where cl: "find_cluster ?s (plr_selected r) = Some cl" and wl: "find_workload ?s (plr_workload r) = Some wl"
    by (auto simp: placement_ok_def stored)
  have same: "find_cluster ?t = find_cluster ?s" "find_workload ?t = find_workload ?s"
    "collect_assessment_inputs ?t = collect_assessment_inputs ?s"
    unfolding snapshot_time [of now' _ _ now] by (simp_all only: same_lookups collect_time)
  let ?a = "assess_compatibility (fst (collect_assessment_inputs ?s (plr_selected r) (plr_workload r)
      CompatibilityInputs_init no_capabilities))"
  have "fst (Observatory_compatibility now' (plr_selected r) (plr_workload r) ob) = Inr ?a"
    by (simp add: Observatory_compatibility_def observe_def same cl wl)
  moreover have "explain_recorded ?s r = explain_placement
      \<lparr>pei_placement = Some r, pei_assessments = [?a], pei_snapshot_generation = ob_snapshot_generation ob\<rparr>"
    by (simp add: explain_recorded_def only_selected_selected [OF r] assess_candidate_def cl case_prod_beta snapshot_generation_of)
  ultimately show ?thesis by blast
qed

lemma latest_current_spec:
  "case latest_current w rs of
     None \<Rightarrow> \<forall>r \<in> set rs. plr_workload r \<noteq> w \<or> plr_currentness r \<noteq> Currentness_Current
   | Some r \<Rightarrow> r \<in> set rs \<and> plr_workload r = w \<and> plr_currentness r = Currentness_Current \<and>
       (\<forall>r' \<in> set rs. plr_workload r' = w \<and> plr_currentness r' = Currentness_Current \<longrightarrow>
          os_observed_at (plr_stamp r') \<le> os_observed_at (plr_stamp r))"
proof (induction rs rule: rev_induct)
  case (snoc r rs)
  then show ?case by (auto simp: latest_current_def split: option.splits if_splits)
qed (simp add: latest_current_def)

lemma found_is_listed:
  assumes "find_placement (build_snapshot now f ob) i = Some r"
  shows "r \<in> set (fs_placements (build_snapshot now f ob))"
proof -
  have "sorted (map plr_id (fs_placements (build_snapshot now f ob)))"
    by (simp add: build_snapshot_def Let_def case_prod_beta)
  from assms [unfolded find_placement_def find_by_id_scan [OF this]] show ?thesis by (auto simp: find_Some_iff)
qed

lemma snapshot_counted: "build_snapshot now f (count_snapshot ob) = build_snapshot now f ob"
  by (simp add: build_snapshot_def count_snapshot_def records_total_def snapshot_identity_def)

lemma explain_recorded_time: "explain_recorded (s\<lparr>fs_created_at := t\<rparr>) r = explain_recorded s r"
proof -
  have "assess_candidate (s\<lparr>fs_created_at := t\<rparr>) = assess_candidate s"
    by (intro ext) (simp only: assess_candidate_def collect_time same_lookups)
  then show ?thesis by (simp add: explain_recorded_def)
qed


end
