(* ===== verification/FO_Answers.thy ===== *)
theory FO_Answers
  imports FO_Scenario FO_Verdicts FO_Query
begin

text \<open>
  A state of the engine that answers queries: a cluster with an accelerator class and a runtime, a second cluster, a
  workload with a requirement on them, its placement and a committed migration. The properties of snapshots and queries
  are applied to it.
\<close>

definition fleet_class :: AcceleratorClassRecord where
  "fleet_class = sample_class\<lparr>ar_capability_generation := Generation 1, ar_capabilities := sample_set\<rparr>"

definition fleet_cluster :: "string \<Rightarrow> ClusterRecord" where
  "fleet_cluster name = (sample_cluster name 1)
     \<lparr>clr_accelerator_classes := [StrongId ''gpu''], clr_runtimes := [StrongId ''cuda''], clr_readiness := Readiness_Ready,
      clr_currentness := Currentness_Current\<rparr>"

definition fleet_placement :: PlacementRecord where
  "fleet_placement = sample_placement\<lparr>plr_currentness := Currentness_Current\<rparr>"

definition fleet_migration :: MigrationRecord where
  "fleet_migration = sample_migration\<lparr>mr_stage := MigrationStage_Committed, mr_outcome := MigrationOutcome_Committed\<rparr>"

definition fleet_portability :: PortabilityAssessment where
  "fleet_portability = PortabilityAssessment_init
     \<lparr>pa_workload := StrongId ''job'', pa_workload_generation := Generation 1, pa_source := StrongId ''east'',
      pa_destination := StrongId ''west'',
      pa_dimensions := [PortabilityDimensionResult_init\<lparr>pdr_dimension := PortabilityDimension_State,
        pdr_outcome := PortabilityOutcome_PortableDirect, pdr_precision := Precision_Exact\<rparr>]\<rparr>"

definition sample_fleet :: Observatory where
  "sample_fleet = (Observatory_init default_bounds)
     \<lparr>ob_federations := [(StrongId ''fed'', sample_federation)],
      ob_sites := [(StrongId ''site'', sample_site)],
      ob_accelerator_classes := [(StrongId ''gpu'', fleet_class)],
      ob_runtimes := [(StrongId ''cuda'', sample_runtime)],
      ob_clusters := [(StrongId ''east'', fleet_cluster ''east''), (StrongId ''west'', fleet_cluster ''west'')],
      ob_workload_classes := [(StrongId ''batch'', sample_workload_class)],
      ob_workloads := [(StrongId ''job'', sample_demand)],
      ob_placements := [(StrongId ''place'', fleet_placement)],
      ob_migrations := [(StrongId ''move'', fleet_migration)],
      ob_portability := [((StrongId ''job'', StrongId ''west''), fleet_portability)]\<rparr>"

lemma map_ok_list:
  "map_ok m limit P \<longleftrightarrow> smap_ok m \<and> smap_size m \<le> limit \<and> list_all (\<lambda>(k, v). P k v) m"
proof (cases "smap_ok m")
  case True
  then have "smap_find m k = Some v \<longleftrightarrow> (k, v) \<in> set m" for k v
    using map_of_eq_Some_iff [OF smap_ok_distinct [OF True]] by (simp add: smap_find_def)
  then show ?thesis by (auto simp: map_ok_def list_all_iff)
qed (simp add: map_ok_def)

declare map_ok_list [code]

lemma sample_fleet_ok: "engine_ok sample_fleet"
  by code_simp

theorem complete_snapshot_shows_engine_witness:
  "matching_total no_id sample_fleet = 11 \<and>
   find_cluster (build_snapshot 7 no_id sample_fleet) (StrongId ''west'') = Some (fleet_cluster ''west'') \<and>
   \<not> fs_truncated (build_snapshot 7 no_id sample_fleet)"
proof -
  have total: "matching_total no_id sample_fleet = 11" by code_simp
  have fits: "192 * matching_total no_id sample_fleet \<le> max_snapshot_bytes (ob_bounds sample_fleet)" by code_simp
  have "smap_find (ob_clusters sample_fleet) (StrongId ''west'') = Some (fleet_cluster ''west'')"
    by (simp add: sample_fleet_def smap_find_def)
  with total complete_snapshot_shows_engine [OF sample_fleet_ok fits, of 7]
  show ?thesis by (simp add: visible_Some id_empty_def)
qed

theorem admitted_query_is_grounded_witness:
  "\<exists>cl wl. smap_find (ob_clusters sample_fleet) (StrongId ''east'') = Some cl \<and>
     smap_find (ob_workloads sample_fleet) (StrongId ''job'') = Some wl \<and> clr_currentness cl = Currentness_Current"
proof -
  have "case fst (Observatory_compatibility 7 (StrongId ''east'') (StrongId ''job'') sample_fleet) of
      Inl e \<Rightarrow> False | Inr a \<Rightarrow> admits_placement a"
    by code_simp
  then obtain a where "fst (Observatory_compatibility 7 (StrongId ''east'') (StrongId ''job'') sample_fleet) = Inr a"
    "admits_placement a" by (auto split: sum.splits)
  from admitted_query_is_grounded [OF sample_fleet_ok this] show ?thesis by blast
qed

theorem migration_claims_are_backed_witness:
  "\<exists>p. smap_find (ob_portability sample_fleet) (StrongId ''job'', StrongId ''west'') = Some p \<and>
     pa_source p = StrongId ''east'' \<and>
     (\<exists>d \<in> set (pa_dimensions p). pdr_dimension d = PortabilityDimension_State \<and> pdr_precision d = Precision_Exact)"
proof -
  have "case fst (Observatory_migration_analysis 7 7 (StrongId ''move'') sample_fleet) of
      Inl e \<Rightarrow> False | Inr a \<Rightarrow> ma_state_portability_proven a = Tri_Yes"
    by code_simp
  then obtain a where a: "fst (Observatory_migration_analysis 7 7 (StrongId ''move'') sample_fleet) = Inr a"
    "ma_state_portability_proven a = Tri_Yes" by (auto split: sum.splits)
  have "smap_find (ob_migrations sample_fleet) (StrongId ''move'') = Some fleet_migration"
    by (simp add: sample_fleet_def smap_find_def)
  moreover have "mr_workload fleet_migration = StrongId ''job''" "mr_destination fleet_migration = StrongId ''west''"
    "mr_source fleet_migration = StrongId ''east''" by (simp_all add: fleet_migration_def sample_migration_def)
  ultimately show ?thesis using migration_claims_are_backed [OF sample_fleet_ok a(1)] a(2) by auto
qed


end
