(* ===== verification/FO_Protocol.thy ===== *)
theory FO_Protocol
  imports FO_Persist
begin

text \<open>
  Framing (\<open>protocol.hpp\<close>, \<open>protocol.cpp\<close>): message types, frames, their encoding and decoding, and the incremental
  \<open>FrameReader\<close> over a socket. The operating system behind \<open>Socket::read_some\<close> is the list of its answers: each
  call of \<open>select\<close> and \<open>recv\<close> takes the next one. The theorems say that the decoder accepts exactly the images the
  encoder writes, that damage to the protected bytes is refused, and that the reader recovers the frames of a
  stream whatever the pieces it arrives in.
\<close>

section \<open>Message types\<close>

definition kProtocolVersion :: u32 where
  "kProtocolVersion = 1"

definition kFrameHeaderSize :: nat where
  "kFrameHeaderSize = 28"

definition kProtocolMagic :: string where
  "kProtocolMagic = ''FOBS''"

definition kMaxBannerLength :: nat where
  "kMaxBannerLength = 128"

datatype FrameFlags = FrameFlags_None | FrameFlags_Request | FrameFlags_Reply | FrameFlags_Urgent

fun frame_flag :: "FrameFlags \<Rightarrow> u8" where
  "frame_flag FrameFlags_None = 0"
| "frame_flag FrameFlags_Request = 1"
| "frame_flag FrameFlags_Reply = 2"
| "frame_flag FrameFlags_Urgent = 4"

text \<open>An enumeration with gaps: any 16-bit code is a value of the type, as a cast makes it in the source.\<close>

datatype MessageType = MessageType (message_code: u16)

abbreviation MessageType_Invalid :: MessageType where
  "MessageType_Invalid \<equiv> MessageType 0"

abbreviation MessageType_Hello :: MessageType where
  "MessageType_Hello \<equiv> MessageType 1"

abbreviation MessageType_HelloAck :: MessageType where
  "MessageType_HelloAck \<equiv> MessageType 2"

abbreviation MessageType_Heartbeat :: MessageType where
  "MessageType_Heartbeat \<equiv> MessageType 3"

abbreviation MessageType_HeartbeatAck :: MessageType where
  "MessageType_HeartbeatAck \<equiv> MessageType 4"

abbreviation MessageType_RegisterPublisher :: MessageType where
  "MessageType_RegisterPublisher \<equiv> MessageType 10"

abbreviation MessageType_RegisterFederation :: MessageType where
  "MessageType_RegisterFederation \<equiv> MessageType 11"

abbreviation MessageType_RegisterSite :: MessageType where
  "MessageType_RegisterSite \<equiv> MessageType 12"

abbreviation MessageType_RegisterCluster :: MessageType where
  "MessageType_RegisterCluster \<equiv> MessageType 13"

abbreviation MessageType_RegisterAcceleratorClass :: MessageType where
  "MessageType_RegisterAcceleratorClass \<equiv> MessageType 14"

abbreviation MessageType_RegisterRuntime :: MessageType where
  "MessageType_RegisterRuntime \<equiv> MessageType 15"

abbreviation MessageType_RegisterBackend :: MessageType where
  "MessageType_RegisterBackend \<equiv> MessageType 16"

abbreviation MessageType_RegisterDomain :: MessageType where
  "MessageType_RegisterDomain \<equiv> MessageType 17"

abbreviation MessageType_RegisterPolicy :: MessageType where
  "MessageType_RegisterPolicy \<equiv> MessageType 18"

abbreviation MessageType_RegisterArtifact :: MessageType where
  "MessageType_RegisterArtifact \<equiv> MessageType 19"

abbreviation MessageType_RegisterWorkloadClass :: MessageType where
  "MessageType_RegisterWorkloadClass \<equiv> MessageType 20"

abbreviation MessageType_RegisterWorkload :: MessageType where
  "MessageType_RegisterWorkload \<equiv> MessageType 21"

abbreviation MessageType_PublishCapability :: MessageType where
  "MessageType_PublishCapability \<equiv> MessageType 30"

abbreviation MessageType_PublishCapacity :: MessageType where
  "MessageType_PublishCapacity \<equiv> MessageType 31"

abbreviation MessageType_PublishPlacement :: MessageType where
  "MessageType_PublishPlacement \<equiv> MessageType 32"

abbreviation MessageType_PublishMigration :: MessageType where
  "MessageType_PublishMigration \<equiv> MessageType 33"

abbreviation MessageType_PublishMigrationStage :: MessageType where
  "MessageType_PublishMigrationStage \<equiv> MessageType 34"

abbreviation MessageType_PublishPortability :: MessageType where
  "MessageType_PublishPortability \<equiv> MessageType 35"

abbreviation MessageType_RetireCluster :: MessageType where
  "MessageType_RetireCluster \<equiv> MessageType 36"

abbreviation MessageType_FencePublisher :: MessageType where
  "MessageType_FencePublisher \<equiv> MessageType 37"

abbreviation MessageType_QuerySnapshot :: MessageType where
  "MessageType_QuerySnapshot \<equiv> MessageType 50"

abbreviation MessageType_QueryPlacement :: MessageType where
  "MessageType_QueryPlacement \<equiv> MessageType 51"

abbreviation MessageType_QueryRejection :: MessageType where
  "MessageType_QueryRejection \<equiv> MessageType 52"

abbreviation MessageType_QueryStrandedCapacity :: MessageType where
  "MessageType_QueryStrandedCapacity \<equiv> MessageType 53"

abbreviation MessageType_QueryFragmentation :: MessageType where
  "MessageType_QueryFragmentation \<equiv> MessageType 54"

abbreviation MessageType_QueryCompatibility :: MessageType where
  "MessageType_QueryCompatibility \<equiv> MessageType 55"

abbreviation MessageType_QueryPortability :: MessageType where
  "MessageType_QueryPortability \<equiv> MessageType 56"

abbreviation MessageType_QueryMigration :: MessageType where
  "MessageType_QueryMigration \<equiv> MessageType 57"

abbreviation MessageType_QueryMismatch :: MessageType where
  "MessageType_QueryMismatch \<equiv> MessageType 58"

abbreviation MessageType_QueryDrift :: MessageType where
  "MessageType_QueryDrift \<equiv> MessageType 59"

abbreviation MessageType_QueryHealth :: MessageType where
  "MessageType_QueryHealth \<equiv> MessageType 60"

abbreviation MessageType_QueryBounds :: MessageType where
  "MessageType_QueryBounds \<equiv> MessageType 61"

abbreviation MessageType_Reply :: MessageType where
  "MessageType_Reply \<equiv> MessageType 100"

abbreviation MessageType_Failure :: MessageType where
  "MessageType_Failure \<equiv> MessageType 101"

abbreviation MessageType_Shutdown :: MessageType where
  "MessageType_Shutdown \<equiv> MessageType 102"

definition message_names :: "(MessageType \<times> string) list" where
  "message_names =
     [(MessageType_Invalid, ''INVALID''), (MessageType_Hello, ''HELLO''), (MessageType_HelloAck, ''HELLO_ACK''),
      (MessageType_Heartbeat, ''HEARTBEAT''), (MessageType_HeartbeatAck, ''HEARTBEAT_ACK''),
      (MessageType_RegisterPublisher, ''REGISTER_PUBLISHER''),
      (MessageType_RegisterFederation, ''REGISTER_FEDERATION''), (MessageType_RegisterSite, ''REGISTER_SITE''),
      (MessageType_RegisterCluster, ''REGISTER_CLUSTER''),
      (MessageType_RegisterAcceleratorClass, ''REGISTER_ACCELERATOR_CLASS''),
      (MessageType_RegisterRuntime, ''REGISTER_RUNTIME''), (MessageType_RegisterBackend, ''REGISTER_BACKEND''),
      (MessageType_RegisterDomain, ''REGISTER_DOMAIN''), (MessageType_RegisterPolicy, ''REGISTER_POLICY''),
      (MessageType_RegisterArtifact, ''REGISTER_ARTIFACT''),
      (MessageType_RegisterWorkloadClass, ''REGISTER_WORKLOAD_CLASS''),
      (MessageType_RegisterWorkload, ''REGISTER_WORKLOAD''), (MessageType_PublishCapability, ''PUBLISH_CAPABILITY''),
      (MessageType_PublishCapacity, ''PUBLISH_CAPACITY''), (MessageType_PublishPlacement, ''PUBLISH_PLACEMENT''),
      (MessageType_PublishMigration, ''PUBLISH_MIGRATION''),
      (MessageType_PublishMigrationStage, ''PUBLISH_MIGRATION_STAGE''),
      (MessageType_PublishPortability, ''PUBLISH_PORTABILITY''), (MessageType_RetireCluster, ''RETIRE_CLUSTER''),
      (MessageType_FencePublisher, ''FENCE_PUBLISHER''), (MessageType_QuerySnapshot, ''QUERY_SNAPSHOT''),
      (MessageType_QueryPlacement, ''QUERY_PLACEMENT''), (MessageType_QueryRejection, ''QUERY_REJECTION''),
      (MessageType_QueryStrandedCapacity, ''QUERY_STRANDED_CAPACITY''),
      (MessageType_QueryFragmentation, ''QUERY_FRAGMENTATION''),
      (MessageType_QueryCompatibility, ''QUERY_COMPATIBILITY''),
      (MessageType_QueryPortability, ''QUERY_PORTABILITY''), (MessageType_QueryMigration, ''QUERY_MIGRATION''),
      (MessageType_QueryMismatch, ''QUERY_MISMATCH''), (MessageType_QueryDrift, ''QUERY_DRIFT''),
      (MessageType_QueryHealth, ''QUERY_HEALTH''), (MessageType_QueryBounds, ''QUERY_BOUNDS''),
      (MessageType_Reply, ''REPLY''), (MessageType_Failure, ''FAILURE''), (MessageType_Shutdown, ''SHUTDOWN'')]"

definition MessageType_to_string :: "MessageType \<Rightarrow> string" where
  "MessageType_to_string type = (case map_of message_names type of None \<Rightarrow> ''INVALID'' | Some name \<Rightarrow> name)"

definition is_publication :: "MessageType \<Rightarrow> bool" where
  "is_publication type =
     (type \<in> set
       [MessageType_RegisterFederation, MessageType_RegisterSite, MessageType_RegisterCluster,
        MessageType_RegisterAcceleratorClass, MessageType_RegisterRuntime, MessageType_RegisterBackend,
        MessageType_RegisterDomain, MessageType_RegisterPolicy, MessageType_RegisterArtifact,
        MessageType_RegisterWorkloadClass, MessageType_RegisterWorkload, MessageType_PublishCapability,
        MessageType_PublishCapacity, MessageType_PublishPlacement, MessageType_PublishMigration,
        MessageType_PublishMigrationStage, MessageType_PublishPortability, MessageType_RetireCluster])"

definition is_registration :: "MessageType \<Rightarrow> bool" where
  "is_registration type =
     (type \<in> set
       [MessageType_RegisterPublisher, MessageType_RegisterFederation, MessageType_RegisterSite,
        MessageType_RegisterCluster, MessageType_RegisterAcceleratorClass, MessageType_RegisterRuntime,
        MessageType_RegisterBackend, MessageType_RegisterDomain, MessageType_RegisterPolicy,
        MessageType_RegisterArtifact, MessageType_RegisterWorkloadClass, MessageType_RegisterWorkload])"

definition is_query :: "MessageType \<Rightarrow> bool" where
  "is_query type =
     (message_code type \<ge> message_code MessageType_QuerySnapshot \<and> message_code type \<le> message_code MessageType_QueryBounds)"

definition known_message_type :: "u16 \<Rightarrow> bool" where
  "known_message_type raw =
     (raw \<ge> message_code MessageType_Hello \<and> raw \<le> message_code MessageType_Shutdown \<and>
      raw \<noteq> message_code MessageType_Invalid)"

section \<open>Frames\<close>

record Frame =
  fm_type :: MessageType
  fm_flags :: u8
  fm_request_id :: u64
  fm_payload :: "byte list"

definition Frame_init :: Frame where
  "Frame_init = \<lparr>fm_type = MessageType_Invalid, fm_flags = 0, fm_request_id = 0, fm_payload = []\<rparr>"

definition is_request :: "Frame \<Rightarrow> bool" where
  "is_request f = (fm_flags f AND frame_flag FrameFlags_Request \<noteq> 0)"

definition is_reply :: "Frame \<Rightarrow> bool" where
  "is_reply f = (fm_flags f AND frame_flag FrameFlags_Reply \<noteq> 0)"

definition frame_header :: "Frame \<Rightarrow> byte list" where
  "frame_header f =
     map byte_of_char kProtocolMagic @ le_bytes 2 (ucast kProtocolVersion :: u16) @ le_bytes 2 (message_code (fm_type f)) @
     [fm_flags f, 0, 0, 0] @ le_bytes 8 (fm_request_id f) @ le_bytes 4 (of_nat (length (fm_payload f)) :: u32) @
     le_bytes 4 (crc32 (fm_payload f))"

definition encode_frame :: "Frame \<Rightarrow> Bounds \<Rightarrow> byte list result" where
  "encode_frame f b =
     (if \<not> known_message_type (message_code (fm_type f)) then
        Inl (Error ProtocolViolation ''unknown message type in outgoing frame'' [])
      else if length (fm_payload f) > max_frame_bytes b then
        Inl (Error OversizedPayload ''outgoing frame payload exceeds the frame bound'' (to_string_nat (length (fm_payload f))))
      else Inr (frame_header f @ fm_payload f))"

definition read_u16 :: "nat \<Rightarrow> byte list \<Rightarrow> u16" where
  "read_u16 offset data = le_value 0 (take 2 (drop offset data))"

definition decode_frame :: "byte list \<Rightarrow> Bounds \<Rightarrow> Frame result" where
  "decode_frame data b =
     (if length data < kFrameHeaderSize then
        Inl (Error ProtocolViolation ''frame is truncated before the header'' (to_string_nat (length data)))
      else if take 4 data \<noteq> map byte_of_char kProtocolMagic then
        Inl (Error ProtocolViolation ''frame magic does not match'' [])
      else if read_u16 4 data \<noteq> ucast kProtocolVersion then
        Inl (Error UnsupportedVersion ''unsupported protocol version'' (to_string_nat (unat (read_u16 4 data))))
      else if \<not> known_message_type (read_u16 6 data) then
        Inl (Error ProtocolViolation ''unknown message type'' (to_string_nat (unat (read_u16 6 data))))
      else if data ! 9 \<noteq> 0 \<or> data ! 10 \<noteq> 0 \<or> data ! 11 \<noteq> 0 then
        Inl (Error ProtocolViolation ''frame reserved bytes are not zero'' [])
      else
        let payload_length = unat (read_u32 20 data) in
        if payload_length > max_frame_bytes b then
          Inl (Error OversizedPayload ''frame declares a payload beyond the frame bound'' (to_string_nat payload_length))
        else if length data \<noteq> kFrameHeaderSize + payload_length then
          Inl (Error ProtocolViolation ''frame length does not match the declared payload''
            (''declared='' @ to_string_nat payload_length @ '' available='' @
             to_string_nat (length data - kFrameHeaderSize)))
        else if read_u32 24 data \<noteq> crc32 (take payload_length (drop kFrameHeaderSize data)) then
          Inl (Error IntegrityFailure ''frame payload checksum does not match'' [])
        else
          Inr \<lparr>fm_type = MessageType (read_u16 6 data), fm_flags = data ! 8, fm_request_id = read_u64 12 data,
               fm_payload = take payload_length (drop kFrameHeaderSize data)\<rparr>)"

section \<open>The socket\<close>

text \<open>
  What the operating system answers when a read is attempted: nothing within the poll interval (or an interrupted or
  would-block call), the bytes that have arrived, an orderly close by the peer, or a failure with the system's text.
  Bytes beyond the length asked for stay for the next call; after the last answer nothing arrives any more.
\<close>

datatype arrival =
    Quiet
  | Arrived "byte list"
  | PeerClosed
  | PeerReset string
  | SelectFailed string
  | RecvFailed string

definition kMaxTransferChunk :: nat where
  "kMaxTransferChunk = 2 ^ 20"

fun read_some :: "nat \<Rightarrow> arrival list \<Rightarrow> byte list result \<times> arrival list" where
  "read_some n [] = (Inr [], [])"
| "read_some n (Quiet # es) = (Inr [], if n = 0 then Quiet # es else es)"
| "read_some n (Arrived bs # es) =
     (let chunk = min n kMaxTransferChunk
      in (Inr (take chunk bs), if drop chunk bs = [] then es else Arrived (drop chunk bs) # es))"
| "read_some n (PeerClosed # es) =
     (if n = 0 then Inr [] else Inl (Error ConnectionClosed ''peer closed the connection'' []), PeerClosed # es)"
| "read_some n (PeerReset t # es) =
     (if n = 0 then (Inr [], PeerReset t # es) else (Inl (Error ConnectionClosed ''connection reset by peer'' t), es))"
| "read_some n (SelectFailed t # es) =
     (if n = 0 then (Inr [], SelectFailed t # es) else (Inl (Error ProtocolViolation ''select failed on read'' t), es))"
| "read_some n (RecvFailed t # es) =
     (if n = 0 then (Inr [], RecvFailed t # es) else (Inl (Error ProtocolViolation ''recv failed'' t), es))"

section \<open>The frame reader\<close>

record FrameReader =
  rd_buffer :: "byte list"
  rd_buffered :: nat

definition FrameReader_init :: FrameReader where
  "FrameReader_init = \<lparr>rd_buffer = [], rd_buffered = 0\<rparr>"

definition grow :: "nat \<Rightarrow> byte list \<Rightarrow> byte list" where
  "grow n buffer = (if length buffer < n then buffer @ replicate (n - length buffer) 0 else buffer)"

definition write_at :: "nat \<Rightarrow> byte list \<Rightarrow> byte list \<Rightarrow> byte list" where
  "write_at offset bs buffer = take offset buffer @ bs @ drop (offset + length bs) buffer"

text \<open>A loop of \<open>next\<close>: read until \<open>goal\<close> bytes are buffered. The answer is whether it got there; nothing read ends it.\<close>

function fill :: "nat \<Rightarrow> FrameReader \<Rightarrow> arrival list \<Rightarrow> bool result \<times> FrameReader \<times> arrival list" where
  "fill goal r es =
     (if rd_buffered r \<ge> goal then (Inr True, r, es)
      else case read_some (goal - rd_buffered r) es of
             (Inl e, es') \<Rightarrow> (Inl e, r, es')
           | (Inr bs, es') \<Rightarrow>
               if bs = [] then (Inr False, r, es')
               else fill goal \<lparr>rd_buffer = write_at (rd_buffered r) bs (rd_buffer r),
                                rd_buffered = rd_buffered r + length bs\<rparr> es')"
  by pat_completeness auto
termination
  by (relation "measure (\<lambda>(goal, r, es). goal - rd_buffered r)") (auto simp: length_greater_0_conv [symmetric] simp del: length_greater_0_conv)

declare fill.simps [simp del]

definition next_frame :: "Bounds \<Rightarrow> FrameReader \<Rightarrow> arrival list \<Rightarrow> Frame result \<times> FrameReader \<times> arrival list" where
  "next_frame b r0 es0 =
     (let r1 = r0\<lparr>rd_buffer := grow kFrameHeaderSize (rd_buffer r0)\<rparr> in
      case fill kFrameHeaderSize r1 es0 of
        (Inl e, r, es) \<Rightarrow> (Inl e, r, es)
      | (Inr False, r, es) \<Rightarrow> (Inr Frame_init, r, es)
      | (Inr True, r, es) \<Rightarrow>
          let payload_length = unat (read_u32 20 (rd_buffer r)); goal = kFrameHeaderSize + payload_length in
          if payload_length > max_frame_bytes b then
            (Inl (Error OversizedPayload ''frame declares a payload beyond the frame bound'' (to_string_nat payload_length)), r, es)
          else
            (case fill goal (r\<lparr>rd_buffer := grow goal (rd_buffer r)\<rparr>) es of
               (Inl e, r', es') \<Rightarrow> (Inl e, r', es')
             | (Inr False, r', es') \<Rightarrow> (Inr Frame_init, r', es')
             | (Inr True, r', es') \<Rightarrow> (decode_frame (take goal (rd_buffer r')) b, r'\<lparr>rd_buffered := 0\<rparr>, es')))"

section \<open>The decoder accepts exactly what the encoder writes\<close>

lemma length_frame_header [simp]: "length (frame_header f) = kFrameHeaderSize"
  by (simp add: frame_header_def kProtocolMagic_def kFrameHeaderSize_def)

lemma take_short_field: "le_bytes 2 (read_u16 i data) = take 2 (drop i data)" if "i + 2 \<le> length data"
  unfolding read_u16_def by (rule le_bytes_le_value) (use that in simp_all)

lemma header_fields:
  "take 4 (frame_header f @ p) = map byte_of_char kProtocolMagic" "read_u16 4 (frame_header f @ p) = ucast kProtocolVersion"
  "read_u16 6 (frame_header f @ p) = message_code (fm_type f)" "(frame_header f @ p) ! 8 = fm_flags f"
  "(frame_header f @ p) ! 9 = 0" "(frame_header f @ p) ! 10 = 0" "(frame_header f @ p) ! 11 = 0"
  "read_u64 12 (frame_header f @ p) = fm_request_id f" "read_u32 20 (frame_header f @ p) = of_nat (length (fm_payload f))"
  "read_u32 24 (frame_header f @ p) = crc32 (fm_payload f)"
  by (simp_all add: frame_header_def kProtocolMagic_def read_u16_def read_u32_def read_u64_def le_value_le_bytes nth_append)

lemma frame_header_split:
  assumes "kFrameHeaderSize \<le> length data"
  shows "take kFrameHeaderSize data =
    take 4 data @ le_bytes 2 (read_u16 4 data) @ le_bytes 2 (read_u16 6 data) @ [data ! 8, data ! 9, data ! 10, data ! 11] @
    le_bytes 8 (read_u64 12 data) @ le_bytes 4 (read_u32 20 data) @ le_bytes 4 (read_u32 24 data)"
proof -
  have n: "28 \<le> length data" using assms by (simp add: kFrameHeaderSize_def)
  have four: "take 4 (drop 8 data) = [data ! 8, data ! 9, data ! 10, data ! 11]"
    using n by (simp add: take_Suc_conv_app_nth numeral_eq_Suc)
  have "take 28 data = take 4 data @ take 2 (drop 4 data) @ take 2 (drop 6 data) @ take 4 (drop 8 data) @
      take 8 (drop 12 data) @ take 4 (drop 20 data) @ take 4 (drop 24 data)"
    using take_add [of 4 24 data] take_add [of 2 22 "drop 4 data"] take_add [of 2 20 "drop 6 data"]
      take_add [of 4 16 "drop 8 data"] take_add [of 8 8 "drop 12 data"] take_add [of 4 4 "drop 20 data"] by simp
  then show ?thesis
    using n by (simp add: kFrameHeaderSize_def take_short_field take_field take_wide_field four)
qed

lemma decode_of_encoded:
  assumes "known_message_type (message_code (fm_type f))" and "length (fm_payload f) \<le> max_frame_bytes b"
    and "max_frame_bytes b < 2 ^ 32"
  shows "decode_frame (frame_header f @ fm_payload f) b = Inr f"
proof -
  have "unat (of_nat (length (fm_payload f)) :: u32) = length (fm_payload f)"
    using assms(2,3) by (simp add: unat_of_nat)
  moreover have "drop kFrameHeaderSize (frame_header f @ fm_payload f) = fm_payload f" by simp
  ultimately show ?thesis
    using assms(1,2) by (simp add: decode_frame_def header_fields Let_def del: take_append drop_append)
qed

lemma encode_of_decoded:
  assumes "decode_frame data b = Inr f"
  shows "encode_frame f b = Inr data"
proof -
  let ?n = "unat (read_u32 20 data)"
  have d: "kFrameHeaderSize \<le> length data" "take 4 data = map byte_of_char kProtocolMagic" "read_u16 4 data = ucast kProtocolVersion"
      "known_message_type (read_u16 6 data)" "data ! 9 = 0" "data ! 10 = 0" "data ! 11 = 0" "?n \<le> max_frame_bytes b"
      "length data = kFrameHeaderSize + ?n" "read_u32 24 data = crc32 (drop kFrameHeaderSize data)"
    and f: "f = \<lparr>fm_type = MessageType (read_u16 6 data), fm_flags = data ! 8, fm_request_id = read_u64 12 data,
      fm_payload = drop kFrameHeaderSize data\<rparr>"
    using assms by (auto simp: decode_frame_def Let_def split: if_splits)
  have len: "length (fm_payload f) = ?n" using d(9) f by simp
  have "frame_header f = take kFrameHeaderSize data"
    unfolding frame_header_split [OF d(1)] frame_header_def len using d(2,3,5-7,10) f by simp
  then have "frame_header f @ fm_payload f = data" using f by simp
  then show ?thesis using d(4,8) len f by (simp add: encode_frame_def)
qed

lemma valid_frame_bound: "Bounds_validate b = Success \<Longrightarrow> max_frame_bytes b < 2 ^ 32"
  by (simp add: Bounds_validate_Success bound_ranges_def limit_defs)

text \<open>C25: framing is exact. A buffer decodes to a frame exactly when encoding that frame gives the buffer back: every
  frame the encoder emits is read back unchanged, and no other bytes are accepted.\<close>

theorem frame_codec_exact:
  assumes "Bounds_validate b = Success"
  shows "decode_frame data b = Inr f \<longleftrightarrow> encode_frame f b = Inr data"
proof
  assume "encode_frame f b = Inr data"
  then have "known_message_type (message_code (fm_type f))" "length (fm_payload f) \<le> max_frame_bytes b"
      "data = frame_header f @ fm_payload f"
    by (auto simp: encode_frame_def split: if_splits)
  then show "decode_frame data b = Inr f" using decode_of_encoded valid_frame_bound [OF assms] by simp
qed (rule encode_of_decoded)

lemma header_protected_bytes:
  assumes "fm_payload f = fm_payload g" and "i < 6 \<or> 9 \<le> i \<and> i < 12 \<or> 20 \<le> i" and "i < kFrameHeaderSize"
  shows "frame_header f ! i = frame_header g ! i"
proof -
  consider "i < 6" | "9 \<le> i" "i < 12" | "20 \<le> i" using assms(2) by blast
  then show ?thesis
  proof cases
    case 1
    then show ?thesis by (simp add: frame_header_def kProtocolMagic_def nth_append nth_Cons split: nat.split)
  next
    case 2
    then have "i = 9 \<or> i = 10 \<or> i = 11" by arith
    then show ?thesis using header_fields(5-7) [of f "[]"] header_fields(5-7) [of g "[]"] by auto
  next
    case 3
    then show ?thesis using assms(1) by (simp add: frame_header_def kProtocolMagic_def nth_append)
  qed
qed

lemma encode_frame_image: "encode_frame f b = Inr img \<Longrightarrow> img = frame_header f @ fm_payload f"
  by (simp add: encode_frame_def split: if_splits)

lemma same_crc_update:
  assumes "crc32 (xs[k := x]) = crc32 xs" and "k < length xs"
  shows "x = xs ! k"
  using assms crc32_one_byte by (metis id_take_nth_drop upd_conv_take_nth_drop)

text \<open>A damaged frame is refused. Changing one byte of a frame, other than those of its type, its flags and its request
  identifier, which no checksum covers, makes decoding fail.\<close>

lemma damaged_frame_refused:
  assumes img: "encode_frame f b = Inr img"
    and i: "i < length img" "i < 6 \<or> 9 \<le> i \<and> i < 12 \<or> 20 \<le> i" and x: "x \<noteq> img ! i"
  shows "\<exists>e. decode_frame (img[i := x]) b = Inl e"
proof (cases "decode_frame (img[i := x]) b")
  case (Inr g)
  let ?data = "img[i := x]" and ?k = "i - kFrameHeaderSize"
  have old: "img = frame_header f @ fm_payload f" and new: "?data = frame_header g @ fm_payload g"
    using encode_frame_image img encode_of_decoded [OF Inr] by blast+
  show ?thesis
  proof (cases "i < kFrameHeaderSize")
    case True
    then have "drop kFrameHeaderSize ?data = drop kFrameHeaderSize img" by simp
    then have "fm_payload f = fm_payload g" using old new by simp
    then have "?data ! i = img ! i"
      using header_protected_bytes i(2) True old new by (metis length_frame_header nth_append)
    then show ?thesis using i(1) x by simp
  next
    case False
    then have "take kFrameHeaderSize ?data = take kFrameHeaderSize img" by simp
    then have "frame_header g = frame_header f" using old new by simp
    then have crc: "crc32 (fm_payload g) = crc32 (fm_payload f)"
      using header_fields(10) [of f "[]"] header_fields(10) [of g "[]"] by simp
    have "fm_payload g = drop kFrameHeaderSize ?data" by (simp add: new)
    also have "\<dots> = (fm_payload f)[?k := x]" using False by (simp add: old list_update_append)
    finally have "x = fm_payload f ! ?k" using crc same_crc_update i(1) False old by simp
    then show ?thesis using x False old by (simp add: nth_append)
  qed
qed simp

section \<open>The reader recovers the frames of a stream\<close>

text \<open>The bytes a reader has and will have, and a peer that stays connected.\<close>

fun arrived :: "arrival \<Rightarrow> byte list" where
  "arrived (Arrived bs) = bs"
| "arrived _ = []"

fun connected :: "arrival \<Rightarrow> bool" where
  "connected Quiet = True"
| "connected (Arrived bs) = (bs \<noteq> [])"
| "connected _ = False"

abbreviation stream :: "FrameReader \<Rightarrow> arrival list \<Rightarrow> byte list" where
  "stream r es \<equiv> take (rd_buffered r) (rd_buffer r) @ concat (map arrived es)"

abbreviation pauses :: "arrival list \<Rightarrow> nat" where
  "pauses es \<equiv> length (filter (\<lambda>e. e = Quiet) es)"

definition reader_ok :: "FrameReader \<Rightarrow> bool" where
  "reader_ok r = (rd_buffered r \<le> length (rd_buffer r))"

text \<open>A client that calls \<open>next\<close> a number of times and keeps the frames, an invalid one being no frame yet.\<close>

fun poll :: "Bounds \<Rightarrow> nat \<Rightarrow> FrameReader \<Rightarrow> arrival list \<Rightarrow> Frame list result" where
  "poll b 0 r es = Inr []"
| "poll b (Suc n) r es =
     (case next_frame b r es of
        (Inl e, _, _) \<Rightarrow> Inl e
      | (Inr f, r', es') \<Rightarrow>
          (case poll b n r' es' of
             Inl e \<Rightarrow> Inl e
           | Inr fs \<Rightarrow> Inr (if fm_type f = MessageType_Invalid then fs else f # fs)))"

lemma read_some_connected:
  assumes "list_all connected es" and "0 < n"
  obtains bs es' where "read_some n es = (Inr bs, es')" "list_all connected es'" "length bs \<le> n"
    "bs @ concat (map arrived es') = concat (map arrived es)" "pauses es' \<le> pauses es"
    "bs = [] \<Longrightarrow> es' = [] \<or> pauses es' < pauses es"
proof (cases es)
  case (Cons e es1)
  then show ?thesis
  proof (cases e)
    case (Arrived xs)
    have "0 < kMaxTransferChunk" by (simp add: kMaxTransferChunk_def)
    then show ?thesis
      using that assms Cons Arrived by (auto simp: Let_def split: if_splits)
  qed (use that assms Cons in auto)
qed (use that in auto)

lemma write_at_take:
  assumes "k + length bs \<le> length buf"
  shows "take (k + length bs) (write_at k bs buf) = take k buf @ bs" and "length (write_at k bs buf) = length buf"
  using assms by (simp_all add: write_at_def)

lemma fill_connected:
  assumes "list_all connected es" and "goal \<le> length (rd_buffer r)" and "rd_buffered r \<le> length (rd_buffer r)"
  shows "\<exists>got r' es'. fill goal r es = (Inr got, r', es') \<and> list_all connected es' \<and>
    length (rd_buffer r') = length (rd_buffer r) \<and>
    rd_buffered r \<le> rd_buffered r' \<and> rd_buffered r' \<le> max goal (rd_buffered r) \<and> stream r' es' = stream r es \<and>
    pauses es' \<le> pauses es \<and> (got \<longleftrightarrow> goal \<le> rd_buffered r') \<and> (got \<or> es' = [] \<or> pauses es' < pauses es)"
  using assms
proof (induction goal r es rule: fill.induct)
  case (1 goal r es)
  show ?case
  proof (cases "goal \<le> rd_buffered r")
    case False
    then obtain bs es1 where read: "read_some (goal - rd_buffered r) es = (Inr bs, es1)" "list_all connected es1"
        "length bs \<le> goal - rd_buffered r" "bs @ concat (map arrived es1) = concat (map arrived es)"
        "pauses es1 \<le> pauses es" "bs = [] \<Longrightarrow> es1 = [] \<or> pauses es1 < pauses es"
      using read_some_connected [OF "1.prems"(1)] by (metis not_le zero_less_diff)
    show ?thesis
    proof (cases "bs = []")
      case True
      then show ?thesis using False read by (subst fill.simps) auto
    next
      case more: False
      let ?r = "\<lparr>rd_buffer = write_at (rd_buffered r) bs (rd_buffer r), rd_buffered = rd_buffered r + length bs\<rparr>"
      have room: "rd_buffered r + length bs \<le> goal" using read(3) False by simp
      then have fits: "rd_buffered r + length bs \<le> length (rd_buffer r)" using "1.prems"(2) by simp
      note w = write_at_take [OF fits]
      have step: "fill goal r es = fill goal ?r es1" using False read(1) more by (subst fill.simps) simp
      have str: "stream ?r es1 = stream r es" using w(1) read(4) by simp
      obtain got r' es' where "fill goal ?r es1 = (Inr got, r', es')" "list_all connected es'"
          "length (rd_buffer r') = length (rd_buffer r)" "rd_buffered r \<le> rd_buffered r'" "rd_buffered r' \<le> max goal (rd_buffered r)"
          "stream r' es' = stream r es" "pauses es' \<le> pauses es1" "got \<longleftrightarrow> goal \<le> rd_buffered r'"
          "got \<or> es' = [] \<or> pauses es' < pauses es1"
        using "1.IH" [OF False read(1) [symmetric] refl more read(2)] w(2) fits "1.prems"(2) room
        unfolding str by auto
      then show ?thesis using step read(5) by auto
    qed
  qed (use "1.prems" in \<open>auto simp: fill.simps\<close>)
qed

lemma grow_take: "k \<le> length buf \<Longrightarrow> take k (grow n buf) = take k buf" "n \<le> length (grow n buf)"
    "length buf \<le> length (grow n buf)"
  by (simp_all add: grow_def)

lemma stream_prefix:
  assumes "reader_ok r" and "stream r es = xs" and "k \<le> rd_buffered r"
  shows "take k (rd_buffer r) = take k xs"
  using assms by (auto simp: reader_ok_def min_def)

lemma fill_stream:
  assumes "list_all connected es" and "reader_ok r" and "n \<le> length (stream r es)"
  obtains got r' es' where "fill n (r\<lparr>rd_buffer := grow n (rd_buffer r)\<rparr>) es = (Inr got, r', es')"
    "list_all connected es'" "reader_ok r'" "stream r' es' = stream r es" "pauses es' \<le> pauses es"
    "got \<Longrightarrow> rd_buffered r' = max n (rd_buffered r)"
    "\<not> got \<Longrightarrow> pauses es' < pauses es \<and> rd_buffered r' < n"
proof -
  let ?r = "r\<lparr>rd_buffer := grow n (rd_buffer r)\<rparr>"
  have ok: "rd_buffered r \<le> length (grow n (rd_buffer r))"
    using assms(2) grow_take(3) [of "rd_buffer r" n] by (simp add: reader_ok_def)
  have same: "stream ?r es = stream r es" using assms(2) by (simp add: reader_ok_def grow_take(1))
  obtain got r' es' where f: "fill n ?r es = (Inr got, r', es')" "list_all connected es'"
      "length (rd_buffer r') = length (grow n (rd_buffer r))" "rd_buffered r \<le> rd_buffered r'"
      "rd_buffered r' \<le> max n (rd_buffered r)" "stream r' es' = stream r es" "pauses es' \<le> pauses es"
      "got \<longleftrightarrow> n \<le> rd_buffered r'" "got \<or> es' = [] \<or> pauses es' < pauses es"
    using fill_connected [OF assms(1), of n ?r] ok same grow_take(2) by auto
  have ok': "reader_ok r'"
    using f(3,5) ok grow_take(2) [of n "rd_buffer r"] by (simp add: reader_ok_def)
  have "n \<le> rd_buffered r'" if "es' = []"
  proof -
    have "length (stream r' es') \<le> rd_buffered r'" using that by simp
    then show ?thesis using assms(3) unfolding f(6) by (rule le_trans [rotated])
  qed
  then show ?thesis using that [OF f(1,2) ok' f(6,7)] f(4,5,8,9) by fastforce
qed

lemma next_frame_step:
  assumes es: "list_all connected es" and r: "reader_ok r" "rd_buffered r \<le> length img"
    and b: "max_frame_bytes b < 2 ^ 32" and enc: "encode_frame f b = Inr img" and str: "stream r es = img @ rest"
  obtains g r' es' where "next_frame b r es = (Inr g, r', es')" "list_all connected es'" "reader_ok r'"
    "g = f \<and> rd_buffered r' = 0 \<and> stream r' es' = rest \<and> pauses es' \<le> pauses es \<or>
     g = Frame_init \<and> rd_buffered r' \<le> length img \<and> stream r' es' = img @ rest \<and> pauses es' < pauses es"
proof -
  let ?n = "length (fm_payload f)" and ?goal = "kFrameHeaderSize + length (fm_payload f)"
  have img: "img = frame_header f @ fm_payload f" using enc by (rule encode_frame_image)
  have fits: "?n \<le> max_frame_bytes b" using enc by (simp add: encode_frame_def split: if_splits)
  have len: "length img = ?goal" by (simp add: img)
  have decoded: "decode_frame img b = Inr f"
    using enc b decode_of_encoded fits by (simp add: img encode_frame_def split: if_splits)
  obtain got r1 es1 where h: "fill kFrameHeaderSize (r\<lparr>rd_buffer := grow kFrameHeaderSize (rd_buffer r)\<rparr>) es = (Inr got, r1, es1)"
      "list_all connected es1" "reader_ok r1" "stream r1 es1 = stream r es" "pauses es1 \<le> pauses es"
      "got \<Longrightarrow> rd_buffered r1 = max kFrameHeaderSize (rd_buffered r)"
      "\<not> got \<Longrightarrow> pauses es1 < pauses es \<and> rd_buffered r1 < kFrameHeaderSize"
    by (rule fill_stream [OF es r(1), of kFrameHeaderSize]) (use str len in auto)
  show ?thesis
  proof (cases got)
    case False
    then show ?thesis using that [of Frame_init r1 es1] h str len by (simp add: next_frame_def)
  next
    case True
    have "take kFrameHeaderSize (rd_buffer r1) = take kFrameHeaderSize (img @ rest)"
      by (rule stream_prefix [OF h(3)]) (use h(4,6) True str in auto)
    then have "rd_buffer r1 = frame_header f @ drop kFrameHeaderSize (rd_buffer r1)"
      by (metis append_take_drop_id img append.assoc append_eq_conv_conj length_frame_header)
    then have "read_u32 20 (rd_buffer r1) = of_nat ?n" using header_fields(9) by metis
    then have n: "unat (read_u32 20 (rd_buffer r1)) = ?n" using fits b by (simp add: unat_of_nat)
    obtain all r2 es2 where p: "fill ?goal (r1\<lparr>rd_buffer := grow ?goal (rd_buffer r1)\<rparr>) es1 = (Inr all, r2, es2)"
        "list_all connected es2" "reader_ok r2" "stream r2 es2 = stream r1 es1" "pauses es2 \<le> pauses es1"
        "all \<Longrightarrow> rd_buffered r2 = max ?goal (rd_buffered r1)"
        "\<not> all \<Longrightarrow> pauses es2 < pauses es1 \<and> rd_buffered r2 < ?goal"
      by (rule fill_stream [OF h(2,3), of ?goal]) (use h(4) str len in auto)
    show ?thesis
    proof (cases all)
      case False
      then show ?thesis
        using that [of Frame_init r2 es2] h p True n fits str len by (simp add: next_frame_def Let_def)
    next
      case all: True
      have full: "rd_buffered r2 = ?goal" using p(6) all h(6) True r(2) len by simp
      have "take ?goal (rd_buffer r2) = take ?goal (img @ rest)"
        by (rule stream_prefix [OF p(3)]) (use p(4) h(4) str full in auto)
      then have buf: "take ?goal (rd_buffer r2) = img" using len by simp
      then have "concat (map arrived es2) = rest" using p(4) h(4) str full by simp
      then show ?thesis
        using that [of f "r2\<lparr>rd_buffered := 0\<rparr>" es2] h p True all n fits buf decoded
        by (simp add: next_frame_def Let_def reader_ok_def)
    qed
  qed
qed

lemma next_frame_idle:
  assumes "list_all connected es" and "reader_ok r" and "stream r es = []"
  obtains r' es' where "next_frame b r es = (Inr Frame_init, r', es')" "list_all connected es'" "reader_ok r'" "stream r' es' = []"
proof -
  let ?r = "r\<lparr>rd_buffer := grow kFrameHeaderSize (rd_buffer r)\<rparr>"
  have len: "rd_buffered r \<le> length (grow kFrameHeaderSize (rd_buffer r))" "kFrameHeaderSize \<le> length (grow kFrameHeaderSize (rd_buffer r))"
    using assms(2) grow_take(2,3) le_trans unfolding reader_ok_def by blast+
  have same: "stream ?r es = stream r es" using assms(2) by (simp add: reader_ok_def grow_take(1))
  then obtain got r' es' where f: "fill kFrameHeaderSize ?r es = (Inr got, r', es')" "list_all connected es'"
      "length (rd_buffer r') = length (rd_buffer ?r)" "stream r' es' = stream r es" "got \<longleftrightarrow> kFrameHeaderSize \<le> rd_buffered r'"
    using fill_connected [OF assms(1), of kFrameHeaderSize ?r] len by auto
  have "rd_buffer r' \<noteq> []" using f(3) len(2) by (auto simp: kFrameHeaderSize_def)
  then have "rd_buffered r' = 0" using f(4) assms(3) by auto
  then show ?thesis using that [of r' es'] f assms(3) by (simp add: next_frame_def reader_ok_def kFrameHeaderSize_def)
qed

lemma poll_idle: "list_all connected es \<Longrightarrow> reader_ok r \<Longrightarrow> stream r es = [] \<Longrightarrow> poll b n r es = Inr []"
proof (induction n arbitrary: r es)
  case (Suc n)
  obtain r' es' where "next_frame b r es = (Inr Frame_init, r', es')" "list_all connected es'" "reader_ok r'" "stream r' es' = []"
    using next_frame_idle [OF Suc.prems] by blast
  then show ?case using Suc.IH by (simp add: Frame_init_def)
qed simp

lemma encoded_frame_valid: "encode_frame f b = Inr img \<Longrightarrow> fm_type f \<noteq> MessageType_Invalid"
  by (auto simp: encode_frame_def known_message_type_def split: if_splits)

lemma poll_reassembles:
  assumes "max_frame_bytes b < 2 ^ 32" and "list_all2 (\<lambda>f img. encode_frame f b = Inr img) fs imgs"
    and "list_all connected es" and "reader_ok r" and "stream r es = concat imgs"
    and "case imgs of [] \<Rightarrow> True | img # _ \<Rightarrow> rd_buffered r \<le> length img" and "pauses es + length fs \<le> n"
  shows "poll b n r es = Inr fs"
  using assms(2-)
proof (induction n arbitrary: fs imgs r es)
  case (Suc n)
  show ?case
  proof (cases fs)
    case Nil
    then show ?thesis using Suc.prems poll_idle [of es r b "Suc n"] by (simp del: poll.simps)
  next
    case (Cons f fs')
    then obtain img imgs' where imgs: "imgs = img # imgs'" "encode_frame f b = Inr img"
        "list_all2 (\<lambda>f img. encode_frame f b = Inr img) fs' imgs'"
      using Suc.prems(1) by (auto simp: list_all2_Cons1)
    obtain g r' es' where s: "next_frame b r es = (Inr g, r', es')" "list_all connected es'" "reader_ok r'"
        "g = f \<and> rd_buffered r' = 0 \<and> stream r' es' = concat imgs' \<and> pauses es' \<le> pauses es \<or>
         g = Frame_init \<and> rd_buffered r' \<le> length img \<and> stream r' es' = img @ concat imgs' \<and> pauses es' < pauses es"
      by (rule next_frame_step [OF Suc.prems(2,3) _ assms(1) imgs(2), of "concat imgs'"]) (use Suc.prems imgs in auto)
    from s(4) show ?thesis
    proof (elim disjE conjE)
      assume "g = f" "rd_buffered r' = 0" "stream r' es' = concat imgs'" "pauses es' \<le> pauses es"
      then have "poll b n r' es' = Inr fs'"
        using Suc.prems(6) Cons by (intro Suc.IH [OF imgs(3) s(2,3)]) (auto split: list.split)
      then show ?thesis using s(1) \<open>g = f\<close> encoded_frame_valid [OF imgs(2)] Cons by simp
    next
      assume "g = Frame_init" "rd_buffered r' \<le> length img" "stream r' es' = img @ concat imgs'" "pauses es' < pauses es"
      then have "poll b n r' es' = Inr fs"
        using Suc.prems(1,6) imgs(1) by (intro Suc.IH [OF Suc.prems(1) s(2,3)]) auto
      then show ?thesis using s(1) \<open>g = Frame_init\<close> by (simp add: Frame_init_def)
    qed
  qed
qed simp

text \<open>C26: the reader recovers the frames of a stream. When the bytes that arrive are those of encoded frames, in pieces
  of any size with pauses anywhere, calling \<open>next\<close> once per pause and once per frame yields exactly the frames, in
  order.\<close>

theorem reader_reassembles_stream:
  assumes "Bounds_validate b = Success"
    and "list_all2 (\<lambda>f img. encode_frame f b = Inr img) fs imgs"
    and "list_all connected es" and "concat (map arrived es) = concat imgs"
    and "length (filter (\<lambda>e. e = Quiet) es) + length fs \<le> n"
  shows "poll b n FrameReader_init es = Inr fs"
  by (rule poll_reassembles [OF valid_frame_bound [OF assms(1)] assms(2,3) _ _ _ assms(5)])
    (simp_all add: assms(4) FrameReader_init_def reader_ok_def split: list.split)

section \<open>The reader under any peer\<close>

lemma read_some_length: "read_some n es = (Inr bs, es') \<Longrightarrow> length bs \<le> n"
  by (cases "(n, es)" rule: read_some.cases) (auto simp: Let_def split: if_splits)

lemma fill_room:
  assumes "fill goal r es = (res, r', es')" and "goal \<le> length (rd_buffer r)" and "reader_ok r"
  shows "length (rd_buffer r') = length (rd_buffer r) \<and> reader_ok r'"
  using assms
proof (induction goal r es rule: fill.induct)
  case (1 goal r es)
  show ?case
  proof (cases "goal \<le> rd_buffered r")
    case True
    then show ?thesis using "1.prems" by (simp add: fill.simps)
  next
    case False
    obtain rs es1 where read: "read_some (goal - rd_buffered r) es = (rs, es1)" by force
    show ?thesis
    proof (cases rs)
      case (Inr bs)
      have fits: "rd_buffered r + length bs \<le> length (rd_buffer r)"
        using read_some_length [of _ es bs es1] read Inr False "1.prems"(2) by force
      note w = write_at_take [OF fits]
      show ?thesis
      proof (cases "bs = []")
        case more: False
        let ?r = "\<lparr>rd_buffer = write_at (rd_buffered r) bs (rd_buffer r), rd_buffered = rd_buffered r + length bs\<rparr>"
        have "fill goal ?r es1 = (res, r', es')"
          using "1.prems"(1) False read Inr more by (subst (asm) fill.simps) simp
        then show ?thesis
          using "1.IH" [OF False read [symmetric] Inr more] w(2) fits "1.prems"(2) by (simp add: reader_ok_def)
      qed (use "1.prems" False read Inr in \<open>simp add: fill.simps\<close>)
    qed (use "1.prems" False read in \<open>simp add: fill.simps\<close>)
  qed
qed

lemma grown_room:
  assumes "fill n (r\<lparr>rd_buffer := grow n (rd_buffer r)\<rparr>) es = (res, r', es')" and "reader_ok r"
  shows "length (rd_buffer r') = max n (length (rd_buffer r)) \<and> reader_ok r'"
proof -
  have "reader_ok (r\<lparr>rd_buffer := grow n (rd_buffer r)\<rparr>)"
    using assms(2) grow_take(3) [of "rd_buffer r" n] by (simp add: reader_ok_def)
  then show ?thesis using fill_room [OF assms(1)] grow_take(2) by (simp add: grow_def)
qed

lemma decoded_frame_valid:
  assumes "decode_frame data b = Inr f"
  shows "known_message_type (message_code (fm_type f))" and "length (fm_payload f) \<le> max_frame_bytes b"
  using encode_of_decoded [OF assms] by (auto simp: encode_frame_def split: if_splits)

text \<open>C27: the reader withstands any peer. Whatever arrives, a call of \<open>next\<close> ends with a buffer no longer than the
  header and the largest admissible payload, and what it returns is an error, no frame yet, or a frame the encoder could
  have written: a known type and a payload within the bound.\<close>

theorem reader_withstands_any_peer:
  assumes "next_frame b r es = (res, r', es')" and "reader_ok r"
    and "length (rd_buffer r) \<le> kFrameHeaderSize + max_frame_bytes b"
  shows "reader_ok r' \<and> length (rd_buffer r') \<le> kFrameHeaderSize + max_frame_bytes b \<and>
    (case res of Inl e \<Rightarrow> True | Inr f \<Rightarrow> f = Frame_init \<or>
       known_message_type (message_code (fm_type f)) \<and> length (fm_payload f) \<le> max_frame_bytes b)"
proof -
  obtain res1 r1 es1 where h: "fill kFrameHeaderSize (r\<lparr>rd_buffer := grow kFrameHeaderSize (rd_buffer r)\<rparr>) es = (res1, r1, es1)"
    by (metis prod_cases3)
  have r1: "length (rd_buffer r1) \<le> kFrameHeaderSize + max_frame_bytes b" "reader_ok r1"
    using grown_room [OF h assms(2)] assms(3) by auto
  let ?goal = "kFrameHeaderSize + unat (read_u32 20 (rd_buffer r1))"
  obtain res2 r2 es2 where p: "fill ?goal (r1\<lparr>rd_buffer := grow ?goal (rd_buffer r1)\<rparr>) es1 = (res2, r2, es2)"
    by (metis prod_cases3)
  have r2: "length (rd_buffer r2) \<le> max ?goal (length (rd_buffer r1))" "reader_ok r2"
    using grown_room [OF p r1(2)] by auto
  show ?thesis
    using assms(1) h p r1 r2
    by (auto simp: next_frame_def Let_def reader_ok_def dest: decoded_frame_valid split: sum.splits bool.splits if_splits)
qed

section \<open>Instances\<close>

definition sample_frame :: Frame where
  "sample_frame = \<lparr>fm_type = MessageType_Heartbeat, fm_flags = frame_flag FrameFlags_Request, fm_request_id = 7, fm_payload = [1, 2, 3]\<rparr>"

definition sample_image :: "byte list" where
  "sample_image = frame_header sample_frame @ fm_payload sample_frame"

lemma sample_encodes: "encode_frame sample_frame default_bounds = Inr sample_image"
  by (simp add: encode_frame_def sample_image_def sample_frame_def known_message_type_def default_bounds_def limit_defs)

theorem frame_codec_exact_witness: "decode_frame sample_image default_bounds = Inr sample_frame"
  using frame_codec_exact [OF default_bounds_valid] sample_encodes by blast

theorem reader_reassembles_stream_witness:
  "poll default_bounds 4 FrameReader_init
     [Arrived (take 10 sample_image), Quiet, Arrived (drop 10 sample_image @ take 30 sample_image), Quiet,
      Arrived (drop 30 sample_image)] = Inr [sample_frame, sample_frame]"
proof (rule reader_reassembles_stream [OF default_bounds_valid, where imgs = "[sample_image, sample_image]"])
  have "length sample_image = 31" by (simp add: sample_image_def sample_frame_def kFrameHeaderSize_def)
  then show "list_all connected
     [Arrived (take 10 sample_image), Quiet, Arrived (drop 10 sample_image @ take 30 sample_image), Quiet,
      Arrived (drop 30 sample_image)]"
    by (auto simp: list_all_iff)
qed (simp_all add: sample_encodes)

theorem reader_withstands_any_peer_witness:
  "case next_frame default_bounds FrameReader_init [Arrived (replicate 28 255), PeerClosed] of
     (res, r', _) \<Rightarrow> reader_ok r' \<and> length (rd_buffer r') \<le> kFrameHeaderSize + max_frame_bytes default_bounds \<and>
       (case res of Inl e \<Rightarrow> True | Inr f \<Rightarrow> f = Frame_init \<or>
          known_message_type (message_code (fm_type f)) \<and> length (fm_payload f) \<le> max_frame_bytes default_bounds)"
proof -
  obtain res r' es' where "next_frame default_bounds FrameReader_init [Arrived (replicate 28 255), PeerClosed] = (res, r', es')"
    by (metis prod_cases3)
  then show ?thesis
    using reader_withstands_any_peer [of default_bounds FrameReader_init] by (simp add: FrameReader_init_def reader_ok_def)
qed

text \<open>The range test of \<open>known_message_type\<close> admits the codes between the groups, which name no message.\<close>

lemma unnamed_types_are_known:
  "known_message_type 5" "known_message_type 99" "map_of message_names (MessageType 5) = None"
  "map_of message_names (MessageType 99) = None"
  by (simp_all add: known_message_type_def message_names_def)

text \<open>What is no frame at all is recognised as such: the type of an empty frame is never a known one.\<close>

lemma no_frame_is_not_known: "\<not> known_message_type (message_code (fm_type Frame_init))"
  by (simp add: Frame_init_def known_message_type_def)

end
