(* ===== verification/FO_Messages.thy ===== *)
theory FO_Messages
  imports FO_Protocol FO_Engine
begin

text \<open>
  The payloads of the wire protocol (\<open>protocol.hpp\<close>, \<open>protocol.cpp\<close>): publication contexts, requests, replies,
  queries and record publications, each with its encoder and decoder. Every decoder reads the fields in the order of
  the source and refuses what the source refuses. The theorems: payloads are read back as they were written, decoders
  never leave their input, and what they accept has a valid context, well-formed identifiers and bounded collections.
\<close>

section \<open>Fields of a message\<close>

text \<open>An identifier that may be absent, one that must be there, and an enumerator, each with the message's own error text.\<close>

definition dec_opt_id :: "string \<Rightarrow> 'tag StrongId decoder" where
  "dec_opt_id message =
     dec_bind dec_str (\<lambda>text.
       if text \<noteq> [] \<and> \<not> is_valid_identifier text then dec_error (Error ProtocolViolation message [])
       else dec_return (StrongId text))"

definition dec_req_id :: "string \<Rightarrow> 'tag StrongId decoder" where
  "dec_req_id message =
     dec_bind dec_str (\<lambda>text.
       if text = [] \<or> \<not> is_valid_identifier text then dec_error (Error ProtocolViolation message [])
       else dec_return (StrongId text))"

definition dec_choice :: "'e list \<Rightarrow> string \<Rightarrow> 'e decoder" where
  "dec_choice enumerators message =
     dec_bind dec_u8 (\<lambda>v.
       if unat v > length enumerators - 1 then dec_error (Error ProtocolViolation message [])
       else dec_return (enumerators ! unat v))"

definition IngestDisposition_values :: "IngestDisposition list" where
  "IngestDisposition_values =
     [IngestDisposition_Applied, IngestDisposition_Duplicate, IngestDisposition_Superseded, IngestDisposition_Deferred]"

definition ErrorCode_values :: "ErrorCode list" where
  "ErrorCode_values =
     [Ok, InvalidArgument, NotFound, AlreadyExists, Conflict, BoundExceeded, CapacityInconsistent, StaleGeneration,
      StaleEpoch, StaleBoot, FencedPublisher, SequenceRegression, SequenceGap, ProtocolViolation, ConnectionClosed,
      OversizedPayload, IntegrityFailure, UnsupportedVersion, UnsupportedOperation, InvalidTransition, CorruptState,
      NotReady, Backpressure, ShuttingDown, Internal]"

section \<open>Publication contexts\<close>

definition encode_publication_context :: "PublicationContext \<Rightarrow> Encoder \<Rightarrow> Encoder" where
  "encode_publication_context v =
     enc_seq
       [enc_id (ctx_publisher v), enc_gen (ctx_boot v), enc_gen (ctx_coordinator_epoch v), enc_id (ctx_federation v),
        enc_gen (ctx_federation_generation v), enc_sequence (ctx_sequence v), enc_i64 (ctx_observed_at v),
        enc_enum Precision_values (ctx_precision v), enc_enum EvidenceClass_values (ctx_evidence_class v),
        enc_enum Provenance_values (ctx_provenance v), enc_gen (ctx_evidence_generation v)]"

definition decode_publication_context :: "PublicationContext decoder" where
  "decode_publication_context =
     dec_bind (dec_opt_id ''publication context carries a malformed publisher'') (\<lambda>publisher.
     dec_bind dec_gen (\<lambda>boot.
     dec_bind dec_gen (\<lambda>epoch.
     dec_bind (dec_opt_id ''publication context carries a malformed federation'') (\<lambda>federation.
     dec_bind dec_gen (\<lambda>federation_generation.
     dec_bind dec_sequence (\<lambda>sequence.
     dec_bind dec_i64 (\<lambda>observed_at.
     dec_bind (dec_choice Precision_values ''publication context carries an invalid precision'') (\<lambda>precision.
     dec_bind (dec_choice EvidenceClass_values ''publication context carries an invalid evidence class'') (\<lambda>cls.
     dec_bind (dec_choice Provenance_values ''publication context carries an invalid provenance'') (\<lambda>provenance.
     dec_bind dec_gen (\<lambda>evidence_generation.
     dec_validated ''publication context is not valid'' PublicationContext_validate
       \<lparr>ctx_publisher = publisher, ctx_boot = boot, ctx_coordinator_epoch = epoch, ctx_federation = federation,
        ctx_federation_generation = federation_generation, ctx_sequence = sequence, ctx_observed_at = observed_at,
        ctx_precision = precision, ctx_evidence_class = cls, ctx_provenance = provenance,
        ctx_evidence_generation = evidence_generation\<rparr>)))))))))))"

section \<open>Requests, acknowledgements and queries\<close>

record HelloRequest =
  hq_protocol :: u16
  hq_client_version :: string
  hq_publisher :: PublisherId

definition encode_hello :: "HelloRequest \<Rightarrow> Encoder \<Rightarrow> Encoder" where
  "encode_hello v = enc_seq [enc_u16 (hq_protocol v), enc_str (hq_client_version v), enc_id (hq_publisher v)]"

definition decode_hello :: "HelloRequest decoder" where
  "decode_hello =
     dec_bind dec_u16 (\<lambda>protocol.
     dec_bind dec_str (\<lambda>version.
     if length version > kMaxBannerLength then dec_error (Error BoundExceeded ''client version banner is too long'' [])
     else
     dec_bind (dec_opt_id ''HELLO carries a malformed publisher identifier'') (\<lambda>publisher.
     if protocol \<noteq> ucast kProtocolVersion then
       dec_error (Error UnsupportedVersion ''unsupported protocol version'' (to_string_nat (unat protocol)))
     else dec_return \<lparr>hq_protocol = protocol, hq_client_version = version, hq_publisher = publisher\<rparr>)))"

record HelloReply =
  hre_protocol :: u16
  hre_server_version :: string
  hre_epoch :: CoordinatorEpoch
  hre_coordinator_id :: string

definition encode_hello_reply :: "HelloReply \<Rightarrow> Encoder \<Rightarrow> Encoder" where
  "encode_hello_reply v =
     enc_seq
       [enc_u16 (hre_protocol v), enc_str (hre_server_version v), enc_gen (hre_epoch v),
       enc_str (hre_coordinator_id v)]"

definition decode_hello_reply :: "HelloReply decoder" where
  "decode_hello_reply =
     dec_bind dec_u16 (\<lambda>protocol.
     dec_bind dec_str (\<lambda>server_version.
     dec_bind dec_gen (\<lambda>epoch.
     dec_bind dec_str (\<lambda>coordinator_id.
     dec_return
       \<lparr>hre_protocol = protocol, hre_server_version = server_version, hre_epoch = epoch,
       hre_coordinator_id = coordinator_id\<rparr>))))"

record RegisterPublisherRequest =
  rpq_context :: PublicationContext
  rpq_role :: string

definition encode_register_publisher :: "RegisterPublisherRequest \<Rightarrow> Encoder \<Rightarrow> Encoder" where
  "encode_register_publisher v =
     enc_seq
       [encode_publication_context (rpq_context v), enc_str (rpq_role v)]"

definition decode_register_publisher :: "RegisterPublisherRequest decoder" where
  "decode_register_publisher =
     dec_bind decode_publication_context (\<lambda>context.
     dec_bind dec_str (\<lambda>role.
     dec_return
       \<lparr>rpq_context = context, rpq_role = role\<rparr>))"

record PublicationAck =
  ack_disposition :: IngestDisposition
  ack_code :: ErrorCode
  ack_detail :: string
  ack_watermark :: Sequence
  ack_sequence_gap :: u64

definition encode_publication_ack :: "PublicationAck \<Rightarrow> Encoder \<Rightarrow> Encoder" where
  "encode_publication_ack v =
     enc_seq
       [enc_enum IngestDisposition_values (ack_disposition v), enc_enum ErrorCode_values (ack_code v),
       enc_str (ack_detail v), enc_sequence (ack_watermark v), enc_u64 (ack_sequence_gap v)]"

definition decode_publication_ack :: "PublicationAck decoder" where
  "decode_publication_ack =
     dec_bind (dec_choice IngestDisposition_values ''reply carries an invalid ingest disposition'') (\<lambda>disposition.
     dec_bind (dec_choice ErrorCode_values ''reply carries an invalid error code'') (\<lambda>code.
     dec_bind dec_str (\<lambda>detail.
     dec_bind dec_sequence (\<lambda>watermark.
     dec_bind dec_u64 (\<lambda>sequence_gap.
     dec_return
       \<lparr>ack_disposition = disposition, ack_code = code, ack_detail = detail, ack_watermark = watermark,
       ack_sequence_gap = sequence_gap\<rparr>)))))"

record FenceRequest =
  fq_publisher :: PublisherId
  fq_boot :: BootGeneration
  fq_reason :: string
  fq_token :: string

definition encode_fence :: "FenceRequest \<Rightarrow> Encoder \<Rightarrow> Encoder" where
  "encode_fence v =
     enc_seq
       [enc_id (fq_publisher v), enc_gen (fq_boot v), enc_str (fq_reason v), enc_str (fq_token v)]"

definition decode_fence :: "FenceRequest decoder" where
  "decode_fence =
     dec_bind (dec_opt_id ''FENCE carries a malformed publisher identifier'') (\<lambda>publisher.
     dec_bind dec_gen (\<lambda>boot.
     dec_bind dec_str (\<lambda>reason.
     dec_bind dec_str (\<lambda>token.
     dec_return
       \<lparr>fq_publisher = publisher, fq_boot = boot, fq_reason = reason, fq_token = token\<rparr>))))"

record RetireClusterRequest =
  rtc_context :: PublicationContext
  rtc_cluster :: ClusterId
  rtc_generation :: ClusterGeneration
  rtc_reason :: string

definition encode_retire_cluster :: "RetireClusterRequest \<Rightarrow> Encoder \<Rightarrow> Encoder" where
  "encode_retire_cluster v =
     enc_seq
       [encode_publication_context (rtc_context v), enc_id (rtc_cluster v), enc_gen (rtc_generation v),
       enc_str (rtc_reason v)]"

definition decode_retire_cluster :: "RetireClusterRequest decoder" where
  "decode_retire_cluster =
     dec_bind decode_publication_context (\<lambda>context.
     dec_bind (dec_req_id ''RETIRE_CLUSTER carries a malformed cluster id'') (\<lambda>cluster.
     dec_bind dec_gen (\<lambda>generation.
     dec_bind dec_str (\<lambda>reason.
     dec_return
       \<lparr>rtc_context = context, rtc_cluster = cluster, rtc_generation = generation, rtc_reason = reason\<rparr>))))"

record MigrationStageRequest =
  msq_context :: PublicationContext
  msq_migration :: MigrationId
  msq_generation :: MigrationGeneration
  msq_stage :: MigrationStage
  msq_detail :: string

definition encode_migration_stage :: "MigrationStageRequest \<Rightarrow> Encoder \<Rightarrow> Encoder" where
  "encode_migration_stage v =
     enc_seq
       [encode_publication_context (msq_context v), enc_id (msq_migration v), enc_gen (msq_generation v),
       enc_enum MigrationStage_values (msq_stage v), enc_str (msq_detail v)]"

definition decode_migration_stage :: "MigrationStageRequest decoder" where
  "decode_migration_stage =
     dec_bind decode_publication_context (\<lambda>context.
     dec_bind (dec_req_id ''migration stage carries a malformed migration id'') (\<lambda>migration.
     dec_bind dec_gen (\<lambda>generation.
     dec_bind (dec_choice MigrationStage_values ''migration stage event carries an invalid stage'') (\<lambda>stage.
     dec_bind dec_str (\<lambda>detail.
     dec_return
       \<lparr>msq_context = context, msq_migration = migration, msq_generation = generation, msq_stage = stage,
       msq_detail = detail\<rparr>)))))"

record CapabilityPublicationRequest =
  cbq_context :: PublicationContext
  cbq_cluster :: ClusterId
  cbq_cluster_generation :: ClusterGeneration
  cbq_capability_generation :: AcceleratorCapabilityGeneration
  cbq_capabilities :: CapabilitySet

definition encode_capability_publication :: "CapabilityPublicationRequest \<Rightarrow> Encoder \<Rightarrow> Encoder" where
  "encode_capability_publication v =
     enc_seq
       [encode_publication_context (cbq_context v), enc_id (cbq_cluster v), enc_gen (cbq_cluster_generation v),
       enc_gen (cbq_capability_generation v), encode_capability_set (cbq_capabilities v)]"

definition decode_capability_publication :: "CapabilityPublicationRequest decoder" where
  "decode_capability_publication =
     dec_bind decode_publication_context (\<lambda>context.
     dec_bind (dec_req_id ''capability publication carries a malformed cluster'') (\<lambda>cluster.
     dec_bind dec_gen (\<lambda>cluster_generation.
     dec_bind dec_gen (\<lambda>capability_generation.
     dec_bind (decode_capability_set kMaxCapabilityEntriesPerPublication) (\<lambda>capabilities.
     dec_return
       \<lparr>cbq_context = context, cbq_cluster = cluster, cbq_cluster_generation = cluster_generation,
       cbq_capability_generation = capability_generation, cbq_capabilities = capabilities\<rparr>)))))"

record CapacityPublicationRequest =
  cpq_context :: PublicationContext
  cpq_cluster :: ClusterId
  cpq_cluster_generation :: ClusterGeneration
  cpq_capacity_generation :: CapacityGeneration
  cpq_pools :: "CapacityPool list"

definition encode_capacity_publication :: "CapacityPublicationRequest \<Rightarrow> Encoder \<Rightarrow> Encoder" where
  "encode_capacity_publication v =
     enc_seq
       [encode_publication_context (cpq_context v), enc_id (cpq_cluster v), enc_gen (cpq_cluster_generation v),
       enc_gen (cpq_capacity_generation v), enc_counted encode_capacity_pool (cpq_pools v)]"

definition decode_capacity_publication :: "CapacityPublicationRequest decoder" where
  "decode_capacity_publication =
     dec_bind decode_publication_context (\<lambda>context.
     dec_bind (dec_req_id ''capacity publication carries a malformed cluster'') (\<lambda>cluster.
     dec_bind dec_gen (\<lambda>cluster_generation.
     dec_bind dec_gen (\<lambda>capacity_generation.
     dec_bind (dec_counted kMaxPoolsPerCluster ''capacity publication declares too many pools'' decode_capacity_pool) (\<lambda>pools.
     dec_return
       \<lparr>cpq_context = context, cpq_cluster = cluster, cpq_cluster_generation = cluster_generation,
       cpq_capacity_generation = capacity_generation, cpq_pools = pools\<rparr>)))))"

record SnapshotQuery =
  snq_federation :: FederationId
  snq_max_records :: u64
  snq_include_history :: bool

definition encode_snapshot_query :: "SnapshotQuery \<Rightarrow> Encoder \<Rightarrow> Encoder" where
  "encode_snapshot_query v =
     enc_seq
       [enc_id (snq_federation v), enc_u64 (snq_max_records v), enc_boolean (snq_include_history v)]"

definition decode_snapshot_query :: "SnapshotQuery decoder" where
  "decode_snapshot_query =
     dec_bind (dec_opt_id ''snapshot query carries a malformed federation'') (\<lambda>federation.
     dec_bind dec_u64 (\<lambda>max_records.
     dec_bind dec_boolean (\<lambda>include_history.
     dec_return
       \<lparr>snq_federation = federation, snq_max_records = max_records, snq_include_history = include_history\<rparr>)))"

record PlacementQuery =
  plq_placement :: PlacementId
  plq_workload :: WorkloadId
  plq_latest_by_workload :: bool

definition encode_placement_query :: "PlacementQuery \<Rightarrow> Encoder \<Rightarrow> Encoder" where
  "encode_placement_query v =
     enc_seq
       [enc_id (plq_placement v), enc_id (plq_workload v), enc_boolean (plq_latest_by_workload v)]"

definition decode_placement_query :: "PlacementQuery decoder" where
  "decode_placement_query =
     dec_bind (dec_opt_id ''placement query carries a malformed placement id'') (\<lambda>placement.
     dec_bind (dec_opt_id ''placement query carries a malformed workload id'') (\<lambda>workload.
     dec_bind dec_boolean (\<lambda>latest_by_workload.
     dec_return
       \<lparr>plq_placement = placement, plq_workload = workload, plq_latest_by_workload = latest_by_workload\<rparr>)))"

record RejectionQuery =
  rjq_placement :: PlacementId
  rjq_candidate :: ClusterId

definition encode_rejection_query :: "RejectionQuery \<Rightarrow> Encoder \<Rightarrow> Encoder" where
  "encode_rejection_query v =
     enc_seq
       [enc_id (rjq_placement v), enc_id (rjq_candidate v)]"

definition decode_rejection_query :: "RejectionQuery decoder" where
  "decode_rejection_query =
     dec_bind (dec_req_id ''rejection query carries a malformed placement id'') (\<lambda>placement.
     dec_bind (dec_req_id ''rejection query carries a malformed cluster id'') (\<lambda>candidate.
     dec_return
       \<lparr>rjq_placement = placement, rjq_candidate = candidate\<rparr>))"

record StrandedCapacityRequest =
  scr_federation :: FederationId
  scr_workload_class :: WorkloadClassId
  scr_kind :: ResourceKind
  scr_cluster :: ClusterId
  scr_accelerator_class :: AcceleratorClassId
  scr_include_stale :: bool

definition encode_stranded_query :: "StrandedCapacityRequest \<Rightarrow> Encoder \<Rightarrow> Encoder" where
  "encode_stranded_query v =
     enc_seq
       [enc_id (scr_federation v), enc_id (scr_workload_class v), enc_enum ResourceKind_values (scr_kind v),
       enc_id (scr_cluster v), enc_id (scr_accelerator_class v), enc_boolean (scr_include_stale v)]"

definition decode_stranded_query :: "StrandedCapacityRequest decoder" where
  "decode_stranded_query =
     dec_bind (dec_opt_id ''stranded query carries a malformed federation'') (\<lambda>federation.
     dec_bind (dec_opt_id ''stranded query carries a malformed workload class'') (\<lambda>workload_class.
     dec_bind (dec_choice ResourceKind_values ''stranded query carries an invalid resource kind'') (\<lambda>kind.
     dec_bind (dec_opt_id ''stranded query carries a malformed cluster'') (\<lambda>cluster.
     dec_bind (dec_opt_id ''stranded query carries a malformed accelerator class'') (\<lambda>accelerator_class.
     dec_bind dec_boolean (\<lambda>include_stale.
     dec_return
       \<lparr>scr_federation = federation, scr_workload_class = workload_class, scr_kind = kind,
       scr_cluster = cluster, scr_accelerator_class = accelerator_class, scr_include_stale = include_stale\<rparr>))))))"

record FragmentationQuery =
  fgq_federation :: FederationId
  fgq_workload_class :: WorkloadClassId
  fgq_kind :: ResourceKind

definition encode_fragmentation_query :: "FragmentationQuery \<Rightarrow> Encoder \<Rightarrow> Encoder" where
  "encode_fragmentation_query v =
     enc_seq
       [enc_id (fgq_federation v), enc_id (fgq_workload_class v), enc_enum ResourceKind_values (fgq_kind v)]"

definition decode_fragmentation_query :: "FragmentationQuery decoder" where
  "decode_fragmentation_query =
     dec_bind (dec_opt_id ''fragmentation query carries a malformed federation'') (\<lambda>federation.
     dec_bind (dec_req_id ''fragmentation query carries a malformed workload class'') (\<lambda>workload_class.
     dec_bind (dec_choice ResourceKind_values ''fragmentation query carries an invalid resource kind'') (\<lambda>kind.
     dec_return
       \<lparr>fgq_federation = federation, fgq_workload_class = workload_class, fgq_kind = kind\<rparr>)))"

record CompatibilityQuery =
  cmq_cluster :: ClusterId
  cmq_workload :: WorkloadId

definition encode_compatibility_query :: "CompatibilityQuery \<Rightarrow> Encoder \<Rightarrow> Encoder" where
  "encode_compatibility_query v =
     enc_seq
       [enc_id (cmq_cluster v), enc_id (cmq_workload v)]"

definition decode_compatibility_query :: "CompatibilityQuery decoder" where
  "decode_compatibility_query =
     dec_bind (dec_req_id ''compatibility query carries a malformed cluster'') (\<lambda>cluster.
     dec_bind (dec_req_id ''compatibility query carries a malformed workload'') (\<lambda>workload.
     dec_return
       \<lparr>cmq_cluster = cluster, cmq_workload = workload\<rparr>))"

record PortabilityQuery =
  ptq_workload :: WorkloadId
  ptq_destination :: ClusterId
  ptq_evaluate :: bool

definition encode_portability_query :: "PortabilityQuery \<Rightarrow> Encoder \<Rightarrow> Encoder" where
  "encode_portability_query v =
     enc_seq
       [enc_id (ptq_workload v), enc_id (ptq_destination v), enc_boolean (ptq_evaluate v)]"

definition decode_portability_query :: "PortabilityQuery decoder" where
  "decode_portability_query =
     dec_bind (dec_req_id ''portability query carries a malformed workload'') (\<lambda>workload.
     dec_bind (dec_req_id ''portability query carries a malformed destination'') (\<lambda>destination.
     dec_bind dec_boolean (\<lambda>evaluate.
     dec_return
       \<lparr>ptq_workload = workload, ptq_destination = destination, ptq_evaluate = evaluate\<rparr>)))"

record MigrationQuery =
  mgq_migration :: MigrationId

definition encode_migration_query :: "MigrationQuery \<Rightarrow> Encoder \<Rightarrow> Encoder" where
  "encode_migration_query v =
     enc_seq
       [enc_id (mgq_migration v)]"

definition decode_migration_query :: "MigrationQuery decoder" where
  "decode_migration_query =
     dec_bind (dec_req_id ''migration query carries a malformed migration id'') (\<lambda>migration.
     dec_return
       \<lparr>mgq_migration = migration\<rparr>)"

section \<open>Replies\<close>

record WireField =
  wf_name :: string
  wf_value :: string

type_synonym WireRow = "WireField list"

record ReplyPayload =
  rpl_code :: ErrorCode
  rpl_message :: string
  rpl_detail :: string
  rpl_digest :: string
  rpl_text :: string
  rpl_rows :: "WireRow list"

definition encode_wire_field :: "WireField \<Rightarrow> Encoder \<Rightarrow> Encoder" where
  "encode_wire_field v = enc_seq [enc_str (wf_name v), enc_str (wf_value v)]"

definition encode_reply :: "ReplyPayload \<Rightarrow> Encoder \<Rightarrow> Encoder" where
  "encode_reply v =
     enc_seq
       [enc_enum ErrorCode_values (rpl_code v), enc_str (rpl_message v), enc_text_block (rpl_detail v),
        enc_str (rpl_digest v), enc_text_block (rpl_text v), enc_counted (enc_counted encode_wire_field) (rpl_rows v)]"

definition decode_wire_field :: "WireField decoder" where
  "decode_wire_field =
     dec_bind dec_str (\<lambda>name.
     dec_bind dec_str (\<lambda>field_value.
     dec_return \<lparr>wf_name = name, wf_value = field_value\<rparr>))"

definition decode_wire_row :: "WireRow decoder" where
  "decode_wire_row = dec_counted 64 ''reply row carries too many fields'' decode_wire_field"

definition decode_reply :: "ReplyPayload decoder" where
  "decode_reply =
     dec_bind (dec_choice ErrorCode_values ''reply carries an invalid error code'') (\<lambda>code.
     dec_bind dec_str (\<lambda>message.
     dec_bind dec_text_block (\<lambda>detail.
     dec_bind dec_str (\<lambda>digest.
     dec_bind dec_text_block (\<lambda>txt.
     dec_bind (dec_counted 65536 ''reply carries too many rows'' decode_wire_row) (\<lambda>rows.
     dec_return
       \<lparr>rpl_code = code, rpl_message = message, rpl_detail = detail, rpl_digest = digest, rpl_text = txt,
        rpl_rows = rows\<rparr>))))))"

section \<open>Mismatch queries\<close>

record TimeWindow =
  tw_from :: TimestampNanos
  tw_to :: TimestampNanos

definition TimeWindow_unbounded :: "TimeWindow \<Rightarrow> bool" where
  "TimeWindow_unbounded w = (tw_from w = 0 \<and> tw_to w = 0)"

definition TimeWindow_contains :: "TimeWindow \<Rightarrow> TimestampNanos \<Rightarrow> bool" where
  "TimeWindow_contains w t =
     (if tw_from w \<noteq> 0 \<and> t < tw_from w then False
      else if tw_to w \<noteq> 0 \<and> t \<ge> tw_to w then False
      else True)"

record MismatchAnalysisRequest =
  maq_federation :: FederationId
  maq_capability_key :: CapabilityRef
  maq_window :: TimeWindow
  maq_kind :: ResourceKind
  maq_include_stale :: bool

definition encode_mismatch_query :: "MismatchAnalysisRequest \<Rightarrow> Encoder \<Rightarrow> Encoder" where
  "encode_mismatch_query v =
     enc_seq
       [enc_id (maq_federation v), enc_u16 (key_code (cr_key (maq_capability_key v))),
        enc_id (cr_custom (maq_capability_key v)), enc_i64 (tw_from (maq_window v)), enc_i64 (tw_to (maq_window v)),
        enc_enum ResourceKind_values (maq_kind v), enc_boolean (maq_include_stale v)]"

definition decode_mismatch_query :: "MismatchAnalysisRequest decoder" where
  "decode_mismatch_query =
     dec_bind (dec_opt_id ''mismatch query carries a malformed federation'') (\<lambda>federation.
     dec_bind dec_u16 (\<lambda>key.
     dec_bind dec_str (\<lambda>custom.
     if key > key_code CapabilityKey_Custom then
       dec_error (Error ProtocolViolation ''mismatch query carries an invalid capability key'' [])
     else if custom \<noteq> [] \<and> \<not> is_valid_identifier custom then
       dec_error (Error ProtocolViolation ''mismatch query carries a malformed custom capability key'' [])
     else
     dec_bind dec_i64 (\<lambda>from.
     dec_bind dec_i64 (\<lambda>to.
     if from \<noteq> 0 \<and> to \<noteq> 0 \<and> to < from then
       dec_error (Error ProtocolViolation ''mismatch query window is inverted'' [])
     else
     dec_bind (dec_choice ResourceKind_values ''mismatch query carries an invalid resource kind'') (\<lambda>kind.
     dec_bind dec_boolean (\<lambda>include_stale.
     dec_return
       \<lparr>maq_federation = federation, maq_capability_key = \<lparr>cr_key = CapabilityKey key, cr_custom = StrongId custom\<rparr>,
        maq_window = \<lparr>tw_from = from, tw_to = to\<rparr>, maq_kind = kind, maq_include_stale = include_stale\<rparr>)))))))"

section \<open>Drift queries\<close>

record ExpectedCapability =
  exc_cluster :: ClusterId
  exc_key :: CapabilityRef
  exc_value :: CapabilityValue
  exc_comparator :: CapabilityComparator

record IntendedFederationState =
  ifs_federation :: FederationId
  ifs_generation :: FederationGeneration
  ifs_expected_sites :: "SiteId list"
  ifs_expected_clusters :: "ClusterId list"
  ifs_expected_capabilities :: "ExpectedCapability list"
  ifs_expected_runtime_versions :: "(ClusterId \<times> string) list"
  ifs_expected_capacity :: "(ClusterId \<times> CapacityLedger) list"
  ifs_expected_policy_generation :: PolicyGeneration
  ifs_precision :: Precision
  ifs_evidence_class :: EvidenceClass
  ifs_evidence :: EvidenceList

definition IntendedFederationState_validate :: "IntendedFederationState \<Rightarrow> Status" where
  "IntendedFederationState_validate s =
     (let fed = id_value (ifs_federation s) in
      checks
       [refuse_if (id_empty (ifs_federation s)) InvalidArgument ''intended federation state has no federation'' [],
        refuse_if (\<not> is_set (ifs_generation s)) InvalidArgument ''intended federation state has no generation'' fed,
        refuse_if (adjacent_dup (sort (ifs_expected_sites s))) InvalidArgument ''intended state repeats a site'' fed,
        refuse_if (adjacent_dup (sort (ifs_expected_clusters s))) InvalidArgument ''intended state repeats a cluster'' fed,
        first_failure
          (\<lambda>e. checks
             [refuse_if (id_empty (exc_cluster e)) InvalidArgument ''intended capability has no cluster'' fed,
              refuse_if (\<not> CapabilityRef_valid (exc_key e)) InvalidArgument ''intended capability key is not valid''
                (CapabilityRef_to_string (exc_key e))])
          (ifs_expected_capabilities s),
        first_failure
          (\<lambda>(cluster, version). checks
             [refuse_if (id_empty cluster) InvalidArgument ''intended runtime version has no cluster'' fed,
              refuse_if (version = []) InvalidArgument ''intended runtime version is empty'' (id_value cluster)])
          (ifs_expected_runtime_versions s),
        first_failure
          (\<lambda>(cluster, ledger).
             if id_empty cluster then fail InvalidArgument ''intended capacity has no cluster'' fed
             else case CapacityLedger_validate ledger of
                    Success \<Rightarrow> Success
                  | Failure e \<Rightarrow> fail CapacityInconsistent ''intended capacity ledger does not satisfy the accounting identity''
                      (id_value cluster @ '': '' @ error_message e))
          (ifs_expected_capacity s),
        refuse_if (length (ifs_expected_clusters s) > 65536 \<or> length (ifs_expected_sites s) > 65536 \<or>
                   length (ifs_expected_capabilities s) > 65536) BoundExceeded
          ''intended federation state exceeds a configured bound'' fed])"

record DriftQuery =
  dq_federation :: FederationId
  dq_have_intended :: bool
  dq_intended :: IntendedFederationState
  dq_behavior_window_supplied :: bool
  dq_before_window :: TimeWindow
  dq_after_window :: TimeWindow

definition encode_expected_capability :: "ExpectedCapability \<Rightarrow> Encoder \<Rightarrow> Encoder" where
  "encode_expected_capability v =
     enc_seq
       [enc_id (exc_cluster v), encode_capability_ref (exc_key v), encode_capability_value (exc_value v),
        enc_enum CapabilityComparator_values (exc_comparator v)]"

definition decode_expected_capability :: "ExpectedCapability decoder" where
  "decode_expected_capability =
     dec_bind (dec_req_id ''drift query carries a malformed cluster id'') (\<lambda>cluster.
     dec_bind decode_capability_ref (\<lambda>key.
     dec_bind decode_capability_value (\<lambda>cap_value.
     dec_bind (dec_choice CapabilityComparator_values ''drift query carries an invalid capability comparator'') (\<lambda>comparator.
     dec_return
       \<lparr>exc_cluster = cluster, exc_key = key, exc_value = cap_value, exc_comparator = comparator\<rparr>))))"

definition enc_expected :: "('a \<Rightarrow> Encoder \<Rightarrow> Encoder) \<Rightarrow> ClusterId \<times> 'a \<Rightarrow> Encoder \<Rightarrow> Encoder" where
  "enc_expected enc entry = enc_seq [enc_id (fst entry), enc (snd entry)]"

definition dec_expected :: "'a decoder \<Rightarrow> (ClusterId \<times> 'a) decoder" where
  "dec_expected dec =
     dec_bind (dec_req_id ''drift query carries a malformed cluster id'') (\<lambda>cluster.
     dec_bind dec (\<lambda>v.
     dec_return (cluster, v)))"

definition encode_drift_query :: "DriftQuery \<Rightarrow> Encoder \<Rightarrow> Encoder" where
  "encode_drift_query v =
     enc_seq
       [enc_id (dq_federation v), enc_boolean (dq_have_intended v), enc_id (ifs_federation (dq_intended v)),
        enc_gen (ifs_generation (dq_intended v)), enc_counted enc_id (ifs_expected_sites (dq_intended v)),
        enc_counted enc_id (ifs_expected_clusters (dq_intended v)),
        enc_counted encode_expected_capability (ifs_expected_capabilities (dq_intended v)),
        enc_counted (enc_expected enc_str) (ifs_expected_runtime_versions (dq_intended v)),
        enc_counted (enc_expected encode_ledger) (ifs_expected_capacity (dq_intended v)),
        enc_gen (ifs_expected_policy_generation (dq_intended v)), enc_enum Precision_values (ifs_precision (dq_intended v)),
        enc_enum EvidenceClass_values (ifs_evidence_class (dq_intended v)), enc_boolean (dq_behavior_window_supplied v),
        enc_i64 (tw_from (dq_before_window v)), enc_i64 (tw_to (dq_before_window v)),
        enc_i64 (tw_from (dq_after_window v)), enc_i64 (tw_to (dq_after_window v))]"

definition DriftQuery_check :: "DriftQuery \<Rightarrow> Status" where
  "DriftQuery_check v = (if dq_have_intended v then IntendedFederationState_validate (dq_intended v) else Success)"

definition decode_drift_query :: "DriftQuery decoder" where
  "decode_drift_query =
     dec_bind (dec_opt_id ''drift query carries a malformed federation'') (\<lambda>federation.
     dec_bind dec_boolean (\<lambda>have_intended.
     dec_bind (dec_opt_id ''drift query carries a malformed intended federation'') (\<lambda>intended_federation.
     dec_bind dec_gen (\<lambda>generation.
     dec_bind (dec_counted 65536 ''drift query declares too many site ids''
       (dec_req_id ''drift query carries a malformed site id'')) (\<lambda>sites.
     dec_bind (dec_counted 65536 ''drift query declares too many cluster ids''
       (dec_req_id ''drift query carries a malformed cluster id'')) (\<lambda>clusters.
     dec_bind (dec_counted 4096 ''drift query declares too many expected capabilities'' decode_expected_capability) (\<lambda>capabilities.
     dec_bind (dec_counted 65536 ''drift query declares too many runtime expectations'' (dec_expected dec_str)) (\<lambda>runtimes.
     dec_bind (dec_counted 65536 ''drift query declares too many capacity expectations'' (dec_expected decode_ledger)) (\<lambda>capacity.
     dec_bind dec_gen (\<lambda>policy_generation.
     dec_bind (dec_choice Precision_values ''drift query carries an invalid precision'') (\<lambda>precision.
     dec_bind (dec_choice EvidenceClass_values ''drift query carries an invalid evidence class'') (\<lambda>cls.
     dec_bind dec_boolean (\<lambda>behavior.
     dec_bind dec_i64 (\<lambda>from.
     dec_bind dec_i64 (\<lambda>to.
     dec_bind dec_i64 (\<lambda>after_from.
     dec_bind dec_i64 (\<lambda>after_to.
     dec_validated ''drift query intended state is not valid'' DriftQuery_check
       \<lparr>dq_federation = federation, dq_have_intended = have_intended,
        dq_intended =
          \<lparr>ifs_federation = intended_federation, ifs_generation = generation, ifs_expected_sites = sites,
           ifs_expected_clusters = clusters, ifs_expected_capabilities = capabilities,
           ifs_expected_runtime_versions = runtimes, ifs_expected_capacity = capacity,
           ifs_expected_policy_generation = policy_generation, ifs_precision = precision, ifs_evidence_class = cls,
           ifs_evidence = no_evidence\<rparr>,
        dq_behavior_window_supplied = behavior, dq_before_window = \<lparr>tw_from = from, tw_to = to\<rparr>,
        dq_after_window = \<lparr>tw_from = after_from, tw_to = after_to\<rparr>\<rparr>)))))))))))))))))"

section \<open>Record publications\<close>

definition encode_publication :: "('a \<Rightarrow> Encoder \<Rightarrow> Encoder) \<Rightarrow> PublicationContext \<Rightarrow> 'a \<Rightarrow> Encoder \<Rightarrow> Encoder" where
  "encode_publication enc ctx r = enc_seq [encode_publication_context ctx, enc r]"

definition decode_publication :: "'a decoder \<Rightarrow> (PublicationContext \<times> 'a) decoder" where
  "decode_publication dec =
     dec_bind decode_publication_context (\<lambda>ctx.
     dec_bind dec (\<lambda>r.
     dec_return (ctx, r)))"

definition encode_federation_publication :: "PublicationContext \<Rightarrow> FederationRecord \<Rightarrow> Encoder \<Rightarrow> Encoder" where
  "encode_federation_publication = encode_publication encode_federation"

definition encode_site_publication :: "PublicationContext \<Rightarrow> SiteRecord \<Rightarrow> Encoder \<Rightarrow> Encoder" where
  "encode_site_publication = encode_publication encode_site"

definition encode_cluster_publication :: "PublicationContext \<Rightarrow> ClusterRecord \<Rightarrow> Encoder \<Rightarrow> Encoder" where
  "encode_cluster_publication = encode_publication encode_cluster"

definition encode_accelerator_class_publication :: "PublicationContext \<Rightarrow> AcceleratorClassRecord \<Rightarrow> Encoder \<Rightarrow> Encoder" where
  "encode_accelerator_class_publication = encode_publication encode_accelerator_class"

definition encode_runtime_publication :: "PublicationContext \<Rightarrow> RuntimeRecord \<Rightarrow> Encoder \<Rightarrow> Encoder" where
  "encode_runtime_publication = encode_publication encode_runtime"

definition encode_backend_publication :: "PublicationContext \<Rightarrow> BackendRecord \<Rightarrow> Encoder \<Rightarrow> Encoder" where
  "encode_backend_publication = encode_publication encode_backend"

definition encode_domain_publication :: "PublicationContext \<Rightarrow> DomainRecord \<Rightarrow> Encoder \<Rightarrow> Encoder" where
  "encode_domain_publication = encode_publication encode_domain"

definition encode_policy_publication :: "PublicationContext \<Rightarrow> PolicyRecord \<Rightarrow> Encoder \<Rightarrow> Encoder" where
  "encode_policy_publication = encode_publication encode_policy"

definition encode_artifact_publication :: "PublicationContext \<Rightarrow> ArtifactRecord \<Rightarrow> Encoder \<Rightarrow> Encoder" where
  "encode_artifact_publication = encode_publication encode_artifact"

definition encode_workload_class_publication :: "PublicationContext \<Rightarrow> WorkloadClassRecord \<Rightarrow> Encoder \<Rightarrow> Encoder" where
  "encode_workload_class_publication = encode_publication encode_workload_class"

definition encode_workload_publication :: "PublicationContext \<Rightarrow> WorkloadRecord \<Rightarrow> Encoder \<Rightarrow> Encoder" where
  "encode_workload_publication = encode_publication encode_workload"

definition encode_placement_publication :: "PublicationContext \<Rightarrow> PlacementRecord \<Rightarrow> Encoder \<Rightarrow> Encoder" where
  "encode_placement_publication = encode_publication encode_placement"

definition encode_migration_publication :: "PublicationContext \<Rightarrow> MigrationRecord \<Rightarrow> Encoder \<Rightarrow> Encoder" where
  "encode_migration_publication = encode_publication encode_migration"

definition encode_portability_publication :: "PublicationContext \<Rightarrow> PortabilityAssessment \<Rightarrow> Encoder \<Rightarrow> Encoder" where
  "encode_portability_publication = encode_publication encode_portability"

definition decode_federation_publication :: "(PublicationContext \<times> FederationRecord) decoder" where
  "decode_federation_publication = decode_publication decode_federation"

definition decode_site_publication :: "(PublicationContext \<times> SiteRecord) decoder" where
  "decode_site_publication = decode_publication decode_site"

definition decode_cluster_publication :: "(PublicationContext \<times> ClusterRecord) decoder" where
  "decode_cluster_publication = decode_publication decode_cluster"

definition decode_accelerator_class_publication :: "(PublicationContext \<times> AcceleratorClassRecord) decoder" where
  "decode_accelerator_class_publication = decode_publication decode_accelerator_class"

definition decode_runtime_publication :: "(PublicationContext \<times> RuntimeRecord) decoder" where
  "decode_runtime_publication = decode_publication decode_runtime"

definition decode_backend_publication :: "(PublicationContext \<times> BackendRecord) decoder" where
  "decode_backend_publication = decode_publication decode_backend"

definition decode_domain_publication :: "(PublicationContext \<times> DomainRecord) decoder" where
  "decode_domain_publication = decode_publication decode_domain"

definition decode_policy_publication :: "(PublicationContext \<times> PolicyRecord) decoder" where
  "decode_policy_publication = decode_publication decode_policy"

definition decode_artifact_publication :: "(PublicationContext \<times> ArtifactRecord) decoder" where
  "decode_artifact_publication = decode_publication decode_artifact"

definition decode_workload_class_publication :: "(PublicationContext \<times> WorkloadClassRecord) decoder" where
  "decode_workload_class_publication = decode_publication decode_workload_class"

definition decode_workload_publication :: "(PublicationContext \<times> WorkloadRecord) decoder" where
  "decode_workload_publication = decode_publication decode_workload"

definition decode_placement_publication :: "(PublicationContext \<times> PlacementRecord) decoder" where
  "decode_placement_publication = decode_publication decode_placement"

definition decode_migration_publication :: "(PublicationContext \<times> MigrationRecord) decoder" where
  "decode_migration_publication = decode_publication decode_migration"

definition decode_portability_publication :: "(PublicationContext \<times> PortabilityAssessment) decoder" where
  "decode_portability_publication = decode_publication decode_portability"

section \<open>Fields are read back\<close>

interpretation ingest_disposition_enum: named_enumeration IngestDisposition_values IngestDisposition_to_string
proof unfold_locales
  show "v \<in> set IngestDisposition_values" for v by (cases v) (simp_all add: IngestDisposition_values_def)
qed (simp_all add: IngestDisposition_values_def)

interpretation error_code_enum: enumeration ErrorCode_values
proof unfold_locales
  show "v \<in> set ErrorCode_values" for v by (cases v) (simp_all add: ErrorCode_values_def)
qed (simp_all add: ErrorCode_values_def)

lemma id_text_ok: "id_encodable i \<Longrightarrow> text_ok (id_value i)"
  by (auto simp: id_encodable_def identifier_text_ok) (simp add: text_ok_def)

lemma field_opt_id [fo_codec]: "id_encodable i \<Longrightarrow> field_ok (enc_id i) (dec_opt_id m) i"
  unfolding enc_id_def dec_opt_id_def
  by (cases i) (rule field_map [OF field_str [OF id_text_ok]], auto simp: id_encodable_def)

lemma field_req_id [fo_codec]: "is_valid_identifier (id_value i) \<Longrightarrow> field_ok (enc_id i) (dec_req_id m) i"
  unfolding enc_id_def dec_req_id_def
  by (cases i) (intro field_map [OF field_str], auto simp: identifier_text_ok is_valid_identifier_def)

context enumeration
begin

lemma field_choice [fo_codec]: "field_ok (enc_enum enumerators v) (dec_choice enumerators m) v"
proof -
  have lt: "enum_index enumerators v < length enumerators" by (rule enum_index_less [OF enumerators_all])
  then have small: "unat (of_nat (enum_index enumerators v) :: u8) = enum_index enumerators v"
    using enumerators_small by (simp add: unat_of_nat)
  have "\<not> enum_index enumerators v > length enumerators - 1" using lt by linarith
  then show ?thesis
    unfolding enc_enum_def dec_choice_def
    by (intro field_map [OF field_u8]) (simp only: small nth_enum_index [OF enumerators_all] if_False)
qed

end

interpretation req_id_codec: field_codec enc_id "dec_req_id m" "\<lambda>i. is_valid_identifier (id_value i)" for m
  by unfold_locales (rule field_req_id)

definition PublicationContext_encodable :: "PublicationContext \<Rightarrow> bool" where
  "PublicationContext_encodable v \<longleftrightarrow> i64_range (ctx_observed_at v) \<and> PublicationContext_validate v = Success"

lemma valid_context_ids:
  "PublicationContext_validate v = Success \<Longrightarrow> id_encodable (ctx_publisher v) \<and> id_encodable (ctx_federation v)"
  by (simp add: PublicationContext_validate_def checks_Success id_encodable_def del: checks_simps)

lemma field_publication_context [fo_codec]:
  assumes "PublicationContext_encodable v"
  shows "field_ok (encode_publication_context v) decode_publication_context v"
proof -
  have c: "id_encodable (ctx_publisher v)" "id_encodable (ctx_federation v)" "i64_range (ctx_observed_at v)"
      "PublicationContext_validate v = Success"
    using assms valid_context_ids by (simp_all add: PublicationContext_encodable_def)
  show ?thesis
    unfolding encode_publication_context_def decode_publication_context_def by ((rule fo_codec | rule c)+, simp_all add: c)
qed

definition HelloRequest_encodable :: "HelloRequest \<Rightarrow> bool" where
  "HelloRequest_encodable v \<longleftrightarrow>
     hq_protocol v = ucast kProtocolVersion \<and> length (hq_client_version v) \<le> kMaxBannerLength \<and> id_encodable (hq_publisher v)"

lemma field_hello: "HelloRequest_encodable v \<Longrightarrow> field_ok (encode_hello v) decode_hello v"
  unfolding encode_hello_def decode_hello_def HelloRequest_encodable_def
  by (elim conjE)
    (rule field_Cons [OF field_u16] field_Cons [OF field_str] field_Cons [OF field_opt_id] field_guard field_rebuilt |
      simp add: text_ok_def kMaxBannerLength_def kMaxStringFieldBytes_def)+

interpretation hello_codec: field_codec encode_hello decode_hello HelloRequest_encodable
  by unfold_locales (rule field_hello)

lemma field_pools_counted [fo_codec]:
  "counted_encodable kMaxPoolsPerCluster CapacityPool_encodable ps \<Longrightarrow>
     field_ok (enc_counted encode_capacity_pool ps) (dec_counted kMaxPoolsPerCluster m decode_capacity_pool) ps"
  by (rule pool_codec.field_counted_encodable) (simp_all add: kMaxPoolsPerCluster_def)

definition HelloReply_encodable :: "HelloReply \<Rightarrow> bool" where
  "HelloReply_encodable v \<longleftrightarrow>
     text_ok (hre_server_version v) \<and> text_ok (hre_coordinator_id v)"

lemma field_hello_reply: "HelloReply_encodable v \<Longrightarrow> field_ok (encode_hello_reply v) decode_hello_reply v"
  unfolding encode_hello_reply_def decode_hello_reply_def HelloReply_encodable_def
  by ((elim conjE)?, (rule fo_codec | assumption)+, simp_all)

interpretation hello_reply_codec: field_codec encode_hello_reply decode_hello_reply HelloReply_encodable
  by unfold_locales (rule field_hello_reply)

definition RegisterPublisherRequest_encodable :: "RegisterPublisherRequest \<Rightarrow> bool" where
  "RegisterPublisherRequest_encodable v \<longleftrightarrow>
     PublicationContext_encodable (rpq_context v) \<and> text_ok (rpq_role v)"

lemma field_register_publisher: "RegisterPublisherRequest_encodable v \<Longrightarrow> field_ok (encode_register_publisher v) decode_register_publisher v"
  unfolding encode_register_publisher_def decode_register_publisher_def RegisterPublisherRequest_encodable_def
  by ((elim conjE)?, (rule fo_codec | assumption)+, simp_all)

interpretation register_publisher_codec: field_codec encode_register_publisher decode_register_publisher RegisterPublisherRequest_encodable
  by unfold_locales (rule field_register_publisher)

definition PublicationAck_encodable :: "PublicationAck \<Rightarrow> bool" where
  "PublicationAck_encodable v \<longleftrightarrow>
     text_ok (ack_detail v)"

lemma field_publication_ack: "PublicationAck_encodable v \<Longrightarrow> field_ok (encode_publication_ack v) decode_publication_ack v"
  unfolding encode_publication_ack_def decode_publication_ack_def PublicationAck_encodable_def
  by ((elim conjE)?, (rule fo_codec | assumption)+, simp_all)

interpretation publication_ack_codec: field_codec encode_publication_ack decode_publication_ack PublicationAck_encodable
  by unfold_locales (rule field_publication_ack)

definition FenceRequest_encodable :: "FenceRequest \<Rightarrow> bool" where
  "FenceRequest_encodable v \<longleftrightarrow>
     id_encodable (fq_publisher v) \<and> text_ok (fq_reason v) \<and> text_ok (fq_token v)"

lemma field_fence: "FenceRequest_encodable v \<Longrightarrow> field_ok (encode_fence v) decode_fence v"
  unfolding encode_fence_def decode_fence_def FenceRequest_encodable_def
  by ((elim conjE)?, (rule fo_codec | assumption)+, simp_all)

interpretation fence_codec: field_codec encode_fence decode_fence FenceRequest_encodable
  by unfold_locales (rule field_fence)

definition RetireClusterRequest_encodable :: "RetireClusterRequest \<Rightarrow> bool" where
  "RetireClusterRequest_encodable v \<longleftrightarrow>
     PublicationContext_encodable (rtc_context v) \<and> is_valid_identifier (id_value (rtc_cluster v)) \<and>
     text_ok (rtc_reason v)"

lemma field_retire_cluster: "RetireClusterRequest_encodable v \<Longrightarrow> field_ok (encode_retire_cluster v) decode_retire_cluster v"
  unfolding encode_retire_cluster_def decode_retire_cluster_def RetireClusterRequest_encodable_def
  by ((elim conjE)?, (rule fo_codec | assumption)+, simp_all)

interpretation retire_cluster_codec: field_codec encode_retire_cluster decode_retire_cluster RetireClusterRequest_encodable
  by unfold_locales (rule field_retire_cluster)

definition MigrationStageRequest_encodable :: "MigrationStageRequest \<Rightarrow> bool" where
  "MigrationStageRequest_encodable v \<longleftrightarrow>
     PublicationContext_encodable (msq_context v) \<and> is_valid_identifier (id_value (msq_migration v)) \<and>
     text_ok (msq_detail v)"

lemma field_migration_stage: "MigrationStageRequest_encodable v \<Longrightarrow> field_ok (encode_migration_stage v) decode_migration_stage v"
  unfolding encode_migration_stage_def decode_migration_stage_def MigrationStageRequest_encodable_def
  by ((elim conjE)?, (rule fo_codec | assumption)+, simp_all)

interpretation migration_stage_codec: field_codec encode_migration_stage decode_migration_stage MigrationStageRequest_encodable
  by unfold_locales (rule field_migration_stage)

definition CapabilityPublicationRequest_encodable :: "CapabilityPublicationRequest \<Rightarrow> bool" where
  "CapabilityPublicationRequest_encodable v \<longleftrightarrow>
     PublicationContext_encodable (cbq_context v) \<and> is_valid_identifier (id_value (cbq_cluster v)) \<and>
     CapabilitySet_encodable kMaxCapabilityEntriesPerPublication (cbq_capabilities v)"

lemma field_capability_publication: "CapabilityPublicationRequest_encodable v \<Longrightarrow> field_ok (encode_capability_publication v) decode_capability_publication v"
  unfolding encode_capability_publication_def decode_capability_publication_def CapabilityPublicationRequest_encodable_def
  by ((elim conjE)?, (rule fo_codec | assumption)+, simp_all)

interpretation capability_publication_codec: field_codec encode_capability_publication decode_capability_publication CapabilityPublicationRequest_encodable
  by unfold_locales (rule field_capability_publication)

definition CapacityPublicationRequest_encodable :: "CapacityPublicationRequest \<Rightarrow> bool" where
  "CapacityPublicationRequest_encodable v \<longleftrightarrow>
     PublicationContext_encodable (cpq_context v) \<and> is_valid_identifier (id_value (cpq_cluster v)) \<and>
     counted_encodable kMaxPoolsPerCluster CapacityPool_encodable (cpq_pools v)"

lemma field_capacity_publication: "CapacityPublicationRequest_encodable v \<Longrightarrow> field_ok (encode_capacity_publication v) decode_capacity_publication v"
  unfolding encode_capacity_publication_def decode_capacity_publication_def CapacityPublicationRequest_encodable_def
  by ((elim conjE)?, (rule fo_codec | assumption)+, simp_all)

interpretation capacity_publication_codec: field_codec encode_capacity_publication decode_capacity_publication CapacityPublicationRequest_encodable
  by unfold_locales (rule field_capacity_publication)

definition SnapshotQuery_encodable :: "SnapshotQuery \<Rightarrow> bool" where
  "SnapshotQuery_encodable v \<longleftrightarrow>
     id_encodable (snq_federation v)"

lemma field_snapshot_query: "SnapshotQuery_encodable v \<Longrightarrow> field_ok (encode_snapshot_query v) decode_snapshot_query v"
  unfolding encode_snapshot_query_def decode_snapshot_query_def SnapshotQuery_encodable_def
  by ((elim conjE)?, (rule fo_codec | assumption)+, simp_all)

interpretation snapshot_query_codec: field_codec encode_snapshot_query decode_snapshot_query SnapshotQuery_encodable
  by unfold_locales (rule field_snapshot_query)

definition PlacementQuery_encodable :: "PlacementQuery \<Rightarrow> bool" where
  "PlacementQuery_encodable v \<longleftrightarrow>
     id_encodable (plq_placement v) \<and> id_encodable (plq_workload v)"

lemma field_placement_query: "PlacementQuery_encodable v \<Longrightarrow> field_ok (encode_placement_query v) decode_placement_query v"
  unfolding encode_placement_query_def decode_placement_query_def PlacementQuery_encodable_def
  by ((elim conjE)?, (rule fo_codec | assumption)+, simp_all)

interpretation placement_query_codec: field_codec encode_placement_query decode_placement_query PlacementQuery_encodable
  by unfold_locales (rule field_placement_query)

definition RejectionQuery_encodable :: "RejectionQuery \<Rightarrow> bool" where
  "RejectionQuery_encodable v \<longleftrightarrow>
     is_valid_identifier (id_value (rjq_placement v)) \<and> is_valid_identifier (id_value (rjq_candidate v))"

lemma field_rejection_query: "RejectionQuery_encodable v \<Longrightarrow> field_ok (encode_rejection_query v) decode_rejection_query v"
  unfolding encode_rejection_query_def decode_rejection_query_def RejectionQuery_encodable_def
  by ((elim conjE)?, (rule fo_codec | assumption)+, simp_all)

interpretation rejection_query_codec: field_codec encode_rejection_query decode_rejection_query RejectionQuery_encodable
  by unfold_locales (rule field_rejection_query)

definition StrandedCapacityRequest_encodable :: "StrandedCapacityRequest \<Rightarrow> bool" where
  "StrandedCapacityRequest_encodable v \<longleftrightarrow>
     id_encodable (scr_federation v) \<and> id_encodable (scr_workload_class v) \<and>
     id_encodable (scr_cluster v) \<and> id_encodable (scr_accelerator_class v)"

lemma field_stranded_query: "StrandedCapacityRequest_encodable v \<Longrightarrow> field_ok (encode_stranded_query v) decode_stranded_query v"
  unfolding encode_stranded_query_def decode_stranded_query_def StrandedCapacityRequest_encodable_def
  by ((elim conjE)?, (rule fo_codec | assumption)+, simp_all)

interpretation stranded_query_codec: field_codec encode_stranded_query decode_stranded_query StrandedCapacityRequest_encodable
  by unfold_locales (rule field_stranded_query)

definition FragmentationQuery_encodable :: "FragmentationQuery \<Rightarrow> bool" where
  "FragmentationQuery_encodable v \<longleftrightarrow>
     id_encodable (fgq_federation v) \<and> is_valid_identifier (id_value (fgq_workload_class v))"

lemma field_fragmentation_query: "FragmentationQuery_encodable v \<Longrightarrow> field_ok (encode_fragmentation_query v) decode_fragmentation_query v"
  unfolding encode_fragmentation_query_def decode_fragmentation_query_def FragmentationQuery_encodable_def
  by ((elim conjE)?, (rule fo_codec | assumption)+, simp_all)

interpretation fragmentation_query_codec: field_codec encode_fragmentation_query decode_fragmentation_query FragmentationQuery_encodable
  by unfold_locales (rule field_fragmentation_query)

definition CompatibilityQuery_encodable :: "CompatibilityQuery \<Rightarrow> bool" where
  "CompatibilityQuery_encodable v \<longleftrightarrow>
     is_valid_identifier (id_value (cmq_cluster v)) \<and> is_valid_identifier (id_value (cmq_workload v))"

lemma field_compatibility_query: "CompatibilityQuery_encodable v \<Longrightarrow> field_ok (encode_compatibility_query v) decode_compatibility_query v"
  unfolding encode_compatibility_query_def decode_compatibility_query_def CompatibilityQuery_encodable_def
  by ((elim conjE)?, (rule fo_codec | assumption)+, simp_all)

interpretation compatibility_query_codec: field_codec encode_compatibility_query decode_compatibility_query CompatibilityQuery_encodable
  by unfold_locales (rule field_compatibility_query)

definition PortabilityQuery_encodable :: "PortabilityQuery \<Rightarrow> bool" where
  "PortabilityQuery_encodable v \<longleftrightarrow>
     is_valid_identifier (id_value (ptq_workload v)) \<and> is_valid_identifier (id_value (ptq_destination v))"

lemma field_portability_query: "PortabilityQuery_encodable v \<Longrightarrow> field_ok (encode_portability_query v) decode_portability_query v"
  unfolding encode_portability_query_def decode_portability_query_def PortabilityQuery_encodable_def
  by ((elim conjE)?, (rule fo_codec | assumption)+, simp_all)

interpretation portability_query_codec: field_codec encode_portability_query decode_portability_query PortabilityQuery_encodable
  by unfold_locales (rule field_portability_query)

definition MigrationQuery_encodable :: "MigrationQuery \<Rightarrow> bool" where
  "MigrationQuery_encodable v \<longleftrightarrow>
     is_valid_identifier (id_value (mgq_migration v))"

lemma field_migration_query: "MigrationQuery_encodable v \<Longrightarrow> field_ok (encode_migration_query v) decode_migration_query v"
  unfolding encode_migration_query_def decode_migration_query_def MigrationQuery_encodable_def
  by ((elim conjE)?, (rule fo_codec | assumption)+, simp_all)

interpretation migration_query_codec: field_codec encode_migration_query decode_migration_query MigrationQuery_encodable
  by unfold_locales (rule field_migration_query)

definition WireField_encodable :: "WireField \<Rightarrow> bool" where
  "WireField_encodable v \<longleftrightarrow> text_ok (wf_name v) \<and> text_ok (wf_value v)"

lemma field_wire_field: "WireField_encodable v \<Longrightarrow> field_ok (encode_wire_field v) decode_wire_field v"
  unfolding encode_wire_field_def decode_wire_field_def WireField_encodable_def
  by ((elim conjE)?, (rule fo_codec | assumption)+, simp_all)

interpretation wire_field_codec: field_codec encode_wire_field decode_wire_field WireField_encodable
  by unfold_locales (rule field_wire_field)

interpretation wire_row_codec: field_codec "enc_counted encode_wire_field" decode_wire_row "counted_encodable 64 WireField_encodable"
  by unfold_locales (simp add: decode_wire_row_def wire_field_codec.field_counted_encodable)

definition ReplyPayload_encodable :: "ReplyPayload \<Rightarrow> bool" where
  "ReplyPayload_encodable v \<longleftrightarrow>
     text_ok (rpl_message v) \<and> length (rpl_detail v) \<le> kMaxFrameBytes \<and> text_ok (rpl_digest v) \<and>
     length (rpl_text v) \<le> kMaxFrameBytes \<and> counted_encodable 65536 (counted_encodable 64 WireField_encodable) (rpl_rows v)"

lemma field_wire_rows [fo_codec]:
  "counted_encodable 65536 (counted_encodable 64 WireField_encodable) rows \<Longrightarrow>
     field_ok (enc_counted (enc_counted encode_wire_field) rows) (dec_counted 65536 m decode_wire_row) rows"
  by (rule wire_row_codec.field_counted_encodable) simp_all

lemma field_reply: "ReplyPayload_encodable v \<Longrightarrow> field_ok (encode_reply v) decode_reply v"
  unfolding encode_reply_def decode_reply_def ReplyPayload_encodable_def
  by ((elim conjE)?, (rule fo_codec field_text_block | assumption)+, simp_all)

interpretation reply_codec: field_codec encode_reply decode_reply ReplyPayload_encodable
  by unfold_locales (rule field_reply)

definition TimeWindow_encodable :: "TimeWindow \<Rightarrow> bool" where
  "TimeWindow_encodable w \<longleftrightarrow> i64_range (tw_from w) \<and> i64_range (tw_to w)"

definition MismatchAnalysisRequest_encodable :: "MismatchAnalysisRequest \<Rightarrow> bool" where
  "MismatchAnalysisRequest_encodable v \<longleftrightarrow>
     id_encodable (maq_federation v) \<and> key_code (cr_key (maq_capability_key v)) \<le> key_code CapabilityKey_Custom \<and>
     id_encodable (cr_custom (maq_capability_key v)) \<and> TimeWindow_encodable (maq_window v) \<and>
     (tw_from (maq_window v) = 0 \<or> tw_to (maq_window v) = 0 \<or> tw_from (maq_window v) \<le> tw_to (maq_window v))"

lemma field_id_text: "id_encodable i \<Longrightarrow> field_ok (enc_id i) dec_str (id_value i)"
  unfolding enc_id_def by (rule field_str [OF id_text_ok])

lemma field_mismatch_query:
  assumes "MismatchAnalysisRequest_encodable v"
  shows "field_ok (encode_mismatch_query v) decode_mismatch_query v"
proof -
  have c: "id_encodable (maq_federation v)" "\<not> key_code (cr_key (maq_capability_key v)) > key_code CapabilityKey_Custom"
      "id_encodable (cr_custom (maq_capability_key v))" "i64_range (tw_from (maq_window v))" "i64_range (tw_to (maq_window v))"
      "\<not> (tw_from (maq_window v) \<noteq> 0 \<and> tw_to (maq_window v) \<noteq> 0 \<and> tw_to (maq_window v) < tw_from (maq_window v))"
      "\<not> (id_value (cr_custom (maq_capability_key v)) \<noteq> [] \<and> \<not> is_valid_identifier (id_value (cr_custom (maq_capability_key v))))"
    using assms by (auto simp: MismatchAnalysisRequest_encodable_def TimeWindow_encodable_def id_encodable_def)
  show ?thesis
    unfolding encode_mismatch_query_def decode_mismatch_query_def
    by (rule field_Cons [OF field_opt_id [OF c(1)]] field_Cons [OF field_u16] field_Cons [OF field_id_text [OF c(3)]]
        field_guard [OF c(2)] field_guard [OF c(6)] field_guard [OF c(7)] field_Cons [OF field_i64 [OF c(4)]]
        field_Cons [OF field_i64 [OF c(5)]] fo_codec)+ simp
qed

interpretation mismatch_query_codec: field_codec encode_mismatch_query decode_mismatch_query MismatchAnalysisRequest_encodable
  by unfold_locales (rule field_mismatch_query)

definition ExpectedCapability_encodable :: "ExpectedCapability \<Rightarrow> bool" where
  "ExpectedCapability_encodable v \<longleftrightarrow>
     is_valid_identifier (id_value (exc_cluster v)) \<and> CapabilityRef_encodable (exc_key v) \<and>
     CapabilityValue_encodable (exc_value v)"

lemma field_expected_capability:
  "ExpectedCapability_encodable v \<Longrightarrow> field_ok (encode_expected_capability v) decode_expected_capability v"
  unfolding encode_expected_capability_def decode_expected_capability_def ExpectedCapability_encodable_def
  by ((elim conjE)?, (rule fo_codec | assumption)+, simp_all)

interpretation expected_capability_codec:
  field_codec encode_expected_capability decode_expected_capability ExpectedCapability_encodable
  by unfold_locales (rule field_expected_capability)

definition expected_encodable :: "('a \<Rightarrow> bool) \<Rightarrow> ClusterId \<times> 'a \<Rightarrow> bool" where
  "expected_encodable encodable entry \<longleftrightarrow> is_valid_identifier (id_value (fst entry)) \<and> encodable (snd entry)"

context field_codec
begin

lemma field_expected: "expected_encodable encodable e \<Longrightarrow> field_ok (enc_expected enc e) (dec_expected dec) e"
  unfolding enc_expected_def dec_expected_def expected_encodable_def
  by (rule field_Cons [OF field_req_id] field_Cons [OF field] field_rebuilt | simp)+

end

interpretation ledger_codec: field_codec encode_ledger decode_ledger "\<lambda>l. CapacityLedger_validate l = Success"
  by unfold_locales (rule field_ledger)

interpretation runtime_expectation_codec: field_codec "enc_expected enc_str" "dec_expected dec_str" "expected_encodable text_ok"
  by unfold_locales (rule str_codec.field_expected)

interpretation capacity_expectation_codec:
  field_codec "enc_expected encode_ledger" "dec_expected decode_ledger" "expected_encodable (\<lambda>l. CapacityLedger_validate l = Success)"
  by unfold_locales (rule ledger_codec.field_expected)

definition DriftQuery_encodable :: "DriftQuery \<Rightarrow> bool" where
  "DriftQuery_encodable v \<longleftrightarrow>
     id_encodable (dq_federation v) \<and> id_encodable (ifs_federation (dq_intended v)) \<and>
     counted_encodable 65536 (\<lambda>i. is_valid_identifier (id_value i)) (ifs_expected_sites (dq_intended v)) \<and>
     counted_encodable 65536 (\<lambda>i. is_valid_identifier (id_value i)) (ifs_expected_clusters (dq_intended v)) \<and>
     counted_encodable 4096 ExpectedCapability_encodable (ifs_expected_capabilities (dq_intended v)) \<and>
     counted_encodable 65536 (expected_encodable text_ok) (ifs_expected_runtime_versions (dq_intended v)) \<and>
     counted_encodable 65536 (expected_encodable (\<lambda>l. CapacityLedger_validate l = Success)) (ifs_expected_capacity (dq_intended v)) \<and>
     ifs_evidence (dq_intended v) = no_evidence \<and> TimeWindow_encodable (dq_before_window v) \<and>
     TimeWindow_encodable (dq_after_window v) \<and> DriftQuery_check v = Success"

lemma field_drift_query:
  assumes "DriftQuery_encodable v"
  shows "field_ok (encode_drift_query v) decode_drift_query v"
proof -
  note c = assms [unfolded DriftQuery_encodable_def TimeWindow_encodable_def]
  note counted = req_id_codec.field_counted_encodable expected_capability_codec.field_counted_encodable
    runtime_expectation_codec.field_counted_encodable capacity_expectation_codec.field_counted_encodable
  show ?thesis
    unfolding encode_drift_query_def decode_drift_query_def
    by (rule field_Cons | rule fo_codec counted | simp add: c)+
qed

interpretation drift_query_codec: field_codec encode_drift_query decode_drift_query DriftQuery_encodable
  by unfold_locales (rule field_drift_query)

section \<open>Publications are read back\<close>

definition publication_encodable :: "('a \<Rightarrow> bool) \<Rightarrow> PublicationContext \<times> 'a \<Rightarrow> bool" where
  "publication_encodable encodable v \<longleftrightarrow> PublicationContext_encodable (fst v) \<and> encodable (snd v)"

context field_codec
begin

lemma field_publication:
  "publication_encodable encodable v \<Longrightarrow> field_ok (encode_publication enc (fst v) (snd v)) (decode_publication dec) v"
  unfolding encode_publication_def decode_publication_def publication_encodable_def
  by (rule field_Cons [OF field_publication_context] field_Cons [OF field] field_rebuilt | simp)+

end

section \<open>What decoders accept\<close>

lemma safe_message_fields [fo_safe]: "dec_safe (dec_opt_id m)" "dec_safe (dec_req_id m)" "dec_safe (dec_choice vs m)"
  unfolding dec_opt_id_def dec_req_id_def dec_choice_def by (intro fo_safe)+

lemma safe_publication_context [fo_safe]: "dec_safe decode_publication_context"
  unfolding decode_publication_context_def by (intro fo_safe)

lemma safe_publication [fo_safe]: "dec_safe D \<Longrightarrow> dec_safe (decode_publication D)"
  unfolding decode_publication_def by (intro fo_safe)

lemma safe_message_parts [fo_safe]:
  "dec_safe decode_wire_row" "dec_safe decode_expected_capability" "dec_safe D \<Longrightarrow> dec_safe (dec_expected D)"
  unfolding decode_wire_row_def decode_wire_field_def decode_expected_capability_def dec_expected_def
  by (intro fo_safe; assumption?)+

lemma yields_step: "dec_yields Q D \<Longrightarrow> (\<And>v. Q v \<Longrightarrow> dec_yields P (K v)) \<Longrightarrow> dec_yields P (dec_bind D K)"
  by (fastforce simp: dec_yields_def dec_bind_def split: prod.splits sum.splits)

lemma yields_return: "dec_yields P (dec_return v) \<longleftrightarrow> P v"
  by (simp add: dec_yields_def dec_return_def)

lemma yields_error: "dec_yields P (dec_error e)"
  by (simp add: dec_yields_def dec_error_def)

lemma yields_guard: "(\<not> b \<Longrightarrow> dec_yields P D) \<Longrightarrow> dec_yields P (if b then dec_error e else D)"
  by (simp add: yields_error)

lemma yields_any: "dec_yields (\<lambda>_. True) D"
  by (simp add: dec_yields_def)

lemma yields_checked: "(validate w = Success \<Longrightarrow> P w) \<Longrightarrow> dec_yields P (dec_validated m validate w)"
  by (auto simp: dec_yields_def dec_validated_def dec_return_def dec_error_def split: Status.splits)

lemma yields_bytes: "(\<And>bs. length bs \<le> n \<Longrightarrow> P (f bs)) \<Longrightarrow> dec_yields P (dec_bytes n f)"
  by (auto simp: dec_yields_def dec_bytes_def peek_def split: Status.splits)

lemma yields_str: "dec_yields text_ok dec_str"
  unfolding dec_str_def
  by (rule yields_step [OF yields_any] yields_guard yields_bytes)+ (simp add: text_ok_def)

lemma yields_text_block: "dec_yields (\<lambda>t. length t \<le> kMaxFrameBytes) dec_text_block"
  unfolding dec_text_block_def by (rule yields_step [OF yields_any] yields_guard yields_bytes)+ simp

lemma yields_i64: "dec_yields i64_range dec_i64"
  unfolding dec_i64_def
proof (rule yields_step [OF yields_any])
  show "dec_yields i64_range (dec_return (sint raw))" for raw :: u64
    using sint_range_size [of raw] by (simp add: yields_return i64_range_def word_size)
qed

lemma yields_ids:
  "dec_yields id_encodable (dec_opt_id m)" "dec_yields (\<lambda>i. is_valid_identifier (id_value i)) (dec_req_id m)"
  "dec_yields id_encodable (dec_id t)"
  unfolding dec_opt_id_def dec_req_id_def dec_id_def
  by (rule yields_step [OF yields_any], auto simp: yields_return yields_error id_encodable_def)+

lemma yields_times: "dec_yields Q D \<Longrightarrow> dec_yields (\<lambda>vs. list_all Q vs \<and> length vs = n) (dec_times n D)"
proof (induction n)
  case (Suc n)
  show ?case
    unfolding dec_times.simps
    by (rule yields_step [OF Suc.prems], rule yields_step [OF Suc.IH [OF Suc.prems]]) (simp add: yields_return)
qed (simp add: yields_return)

lemma yields_counted: "dec_yields Q D \<Longrightarrow> dec_yields (counted_encodable limit Q) (dec_counted limit m D)"
  unfolding dec_counted_def
proof (rule yields_step [OF yields_any], rule yields_guard)
  fix count :: u32
  assume "dec_yields Q D" and n: "\<not> limit < unat count"
  then show "dec_yields (counted_encodable limit Q) (dec_times (unat count) D)"
    using yields_times [of Q D "unat count"] by (simp add: dec_yields_def counted_encodable_def not_less)
qed

lemma yields_fold:
  assumes "dec_yields Q D" and "\<And>v s s'. Q v \<Longrightarrow> I s \<Longrightarrow> add v s = (Success, s') \<Longrightarrow> I s'" and "I s"
  shows "dec_yields I (dec_fold n D add s)"
  using assms(3)
proof (induction n arbitrary: s)
  case (Suc n)
  show ?case
    unfolding dec_fold.simps
    by (rule yields_step [OF assms(1)])
      (use Suc assms(2) in \<open>auto simp: yields_error split: prod.splits Status.splits\<close>)
qed (simp add: yields_return)

lemma yields_capability_ref: "dec_yields CapabilityRef_encodable decode_capability_ref"
  unfolding decode_capability_ref_def Let_def
  by (rule yields_step [OF yields_any], rule yields_guard, rule yields_step [OF yields_ids(3)], rule yields_guard)
    (simp add: yields_return CapabilityRef_encodable_def)

lemma length_unique_adjacent: "length (unique_adjacent xs) \<le> length xs"
  by (induction xs rule: unique_adjacent.induct) auto

lemma value_text_set_ok:
  assumes "value_text_set ts = Inr v"
  shows "CapabilityValue_encodable v"
proof -
  have v: "v = CapabilityValue_TextSet (unique_adjacent (sort ts))" and ts: "length ts \<le> kMaxValueSetEntries"
      "\<forall>t \<in> set ts. length t \<le> 256"
    using assms by (auto simp: value_text_set_def list_ex_iff not_less split: if_splits)
  have "length (unique_adjacent (sort ts)) \<le> length ts" "set (unique_adjacent (sort ts)) = set ts"
      "sorted (unique_adjacent (sort ts))" "distinct (unique_adjacent (sort ts))"
    using length_unique_adjacent [of "sort ts"] by (simp_all add: unique_adjacent_sorted)
  then show ?thesis
    using ts by (auto simp: v CapabilityValue_encodable_def value_ok_def texts_encodable_def list_all_iff text_ok_def
        kMaxStringFieldBytes_def intro: order_trans)
qed

lemma yields_capability_value: "dec_yields CapabilityValue_encodable decode_capability_value"
proof -
  have set: "dec_yields CapabilityValue_encodable (dec_result (value_text_set ts))" for ts
    using value_text_set_ok
    by (cases "value_text_set ts") (auto simp: dec_result_def yields_error yields_return)
  have txt_case: "dec_yields CapabilityValue_encodable (dec_bind dec_str (\<lambda>v. dec_return (value_text v)))"
    by (rule yields_step [OF yields_str])
      (simp add: yields_return value_text_id CapabilityValue_encodable_def value_ok_def)
  have int: "dec_yields CapabilityValue_encodable (dec_bind dec_i64 (\<lambda>v. dec_return (CapabilityValue_Integer v)))"
    by (rule yields_step [OF yields_i64]) (simp add: yields_return CapabilityValue_encodable_def value_ok_def)
  have other: "CapabilityValue_encodable CapabilityValue_Unknown" "CapabilityValue_encodable (CapabilityValue_Boolean b)"
      "CapabilityValue_encodable (CapabilityValue_Number x)" for b x
    by (simp_all add: CapabilityValue_encodable_def value_ok_def)
  show ?thesis
    unfolding decode_capability_value_def
    by (rule yields_step [OF yields_any])
      (auto simp: set txt_case int other yields_return yields_error intro!: yields_step [OF yields_any])
qed

lemma yields_evidence_list:
  assumes "limit \<le> kMaxEvidencePerFinding"
  shows "dec_yields (EvidenceList_encodable limit) (decode_evidence_list limit)"
  unfolding decode_evidence_list_def
proof (rule yields_step [OF yields_any], rule yields_guard, rule yields_fold [OF yields_any])
  fix r l l' assume "EvidenceList_encodable limit l" and "EvidenceList_add r l = (Success, l')"
  then show "EvidenceList_encodable limit l'"
    using EvidenceList_add_ok [of l r] EvidenceList_add_limit [of r l] by (simp add: EvidenceList_encodable_def)
qed (simp add: EvidenceList_encodable_def EvidenceList_init_def EvidenceList_ok_init [unfolded EvidenceList_init_def] assms)

lemma yields_capability_entry: "dec_yields CapabilityEntry_encodable decode_capability_entry"
  unfolding decode_capability_entry_def
  by (rule yields_step [OF yields_capability_ref] yields_step [OF yields_capability_value] yields_step [OF yields_str]
      yields_step [OF yields_any])+
    (simp add: yields_return CapabilityEntry_encodable_def)

lemma put_keeps_encodable:
  assumes "CapabilityEntry_encodable e" and "CapabilitySet_encodable limit s" and "CapabilitySet_put e s = (Success, s')"
  shows "CapabilitySet_encodable limit s'"
proof -
  have s: "CapabilitySet_ok s" using assms(2) by (simp add: CapabilitySet_encodable_def)
  obtain es where "s' = s\<lparr>cset_entries := stable_sort entry_key_less es\<rparr>"
      "set es = insert (cset_note_truncated e) {x \<in> set (cset_entries s). ce_key x \<noteq> ce_key e}"
    using CapabilitySet_put_Success [OF s, of e] assms(3) by auto
  moreover have "CapabilityEntry_encodable (cset_note_truncated e)"
    using assms(1) note_truncated_bounded [of e]
    by (auto simp: CapabilityEntry_encodable_def cset_note_truncated_def text_ok_def)
  ultimately show ?thesis
    using CapabilitySet_put_ok [OF s, of e] assms(2,3) by (auto simp: CapabilitySet_encodable_def list_all_iff)
qed

lemma yields_capability_set:
  assumes "limit \<le> kMaxCapabilityEntriesPerPublication"
  shows "dec_yields (CapabilitySet_encodable limit) (decode_capability_set limit)"
  unfolding decode_capability_set_def
proof (rule yields_step [OF yields_any], rule yields_guard, rule yields_fold [OF yields_capability_entry])
  show "CapabilitySet_encodable limit (CapabilitySet_init limit)"
    using assms by (simp add: CapabilitySet_encodable_def CapabilitySet_init_def CapabilitySet_ok_def lt_sorted_def)
qed (rule put_keeps_encodable)

lemma yields_ledger: "dec_yields (\<lambda>l. CapacityLedger_validate l = Success) decode_ledger"
  unfolding decode_ledger_def by (intro fo_yields)

lemma yields_capacity_pool: "dec_yields CapacityPool_encodable decode_capacity_pool"
proof -
  have "kDefaultEvidencePerFinding \<le> kMaxEvidencePerFinding" by (simp add: limit_defs)
  then show ?thesis
    unfolding decode_capacity_pool_def
    by (intro yields_step [OF yields_ids(3)] yields_step [OF yields_str] yields_step [OF yields_ledger]
        yields_step [OF yields_evidence_list] yields_step [OF yields_any, where D = dec_gen]
        yields_step [OF yields_any, where D = "dec_enum _ _"])
      (auto simp: yields_return CapacityPool_encodable_def)
qed

lemma yields_publication_context: "dec_yields PublicationContext_encodable decode_publication_context"
  unfolding decode_publication_context_def
  by (rule yields_step [OF yields_i64] yields_step [OF yields_any] yields_checked)+
    (simp add: PublicationContext_encodable_def)

lemma yields_wire_row: "dec_yields (counted_encodable 64 WireField_encodable) decode_wire_row"
  unfolding decode_wire_row_def decode_wire_field_def
  by (rule yields_counted, (rule yields_step [OF yields_str])+) (simp add: yields_return WireField_encodable_def)

lemma yields_expected_capability: "dec_yields ExpectedCapability_encodable decode_expected_capability"
  unfolding decode_expected_capability_def
  by (rule yields_step [OF yields_ids(2)] yields_step [OF yields_capability_ref] yields_step [OF yields_capability_value]
      yields_step [OF yields_any])+
    (simp add: yields_return ExpectedCapability_encodable_def)

lemma yields_expected: "dec_yields Q D \<Longrightarrow> dec_yields (expected_encodable Q) (dec_expected D)"
  unfolding dec_expected_def
  by (rule yields_step [OF yields_ids(2)], rule yields_step, assumption) (simp add: yields_return expected_encodable_def)

text \<open>The steps of a message decoder, the ones that say something first.\<close>

lemmas message_steps =
  yields_step [OF yields_publication_context] yields_step [OF yields_ids(1)] yields_step [OF yields_ids(2)]
  yields_step [OF yields_str] yields_step [OF yields_text_block] yields_step [OF yields_i64]
  yields_step [OF yields_capability_set [OF order_refl]] yields_step [OF yields_counted [OF yields_capacity_pool]]
  yields_step [OF yields_counted [OF yields_wire_row]] yields_step [OF yields_counted [OF yields_ids(2)]]
  yields_step [OF yields_counted [OF yields_expected_capability]]
  yields_step [OF yields_counted [OF yields_expected [OF yields_str]]]
  yields_step [OF yields_counted [OF yields_expected [OF yields_ledger]]] yields_step [OF yields_any]

lemma yields_hello: "dec_yields HelloRequest_encodable decode_hello"
  unfolding decode_hello_def
  by (rule yields_guard message_steps)+ (simp add: yields_return HelloRequest_encodable_def)

lemma yields_hello_reply: "dec_yields HelloReply_encodable decode_hello_reply"
  unfolding decode_hello_reply_def
  by (rule message_steps)+ (simp add: yields_return HelloReply_encodable_def)

lemma yields_register_publisher: "dec_yields RegisterPublisherRequest_encodable decode_register_publisher"
  unfolding decode_register_publisher_def
  by (rule message_steps)+ (simp add: yields_return RegisterPublisherRequest_encodable_def)

lemma yields_publication_ack: "dec_yields PublicationAck_encodable decode_publication_ack"
  unfolding decode_publication_ack_def
  by (rule message_steps)+ (simp add: yields_return PublicationAck_encodable_def)

lemma yields_fence: "dec_yields FenceRequest_encodable decode_fence"
  unfolding decode_fence_def
  by (rule message_steps)+ (simp add: yields_return FenceRequest_encodable_def)

lemma yields_retire_cluster: "dec_yields RetireClusterRequest_encodable decode_retire_cluster"
  unfolding decode_retire_cluster_def
  by (rule message_steps)+ (simp add: yields_return RetireClusterRequest_encodable_def)

lemma yields_migration_stage: "dec_yields MigrationStageRequest_encodable decode_migration_stage"
  unfolding decode_migration_stage_def
  by (rule message_steps)+ (simp add: yields_return MigrationStageRequest_encodable_def)

lemma yields_capability_publication: "dec_yields CapabilityPublicationRequest_encodable decode_capability_publication"
  unfolding decode_capability_publication_def
  by (rule message_steps)+ (simp add: yields_return CapabilityPublicationRequest_encodable_def)

lemma yields_capacity_publication: "dec_yields CapacityPublicationRequest_encodable decode_capacity_publication"
  unfolding decode_capacity_publication_def
  by (rule message_steps)+ (simp add: yields_return CapacityPublicationRequest_encodable_def)

lemma yields_snapshot_query: "dec_yields SnapshotQuery_encodable decode_snapshot_query"
  unfolding decode_snapshot_query_def
  by (rule message_steps)+ (simp add: yields_return SnapshotQuery_encodable_def)

lemma yields_placement_query: "dec_yields PlacementQuery_encodable decode_placement_query"
  unfolding decode_placement_query_def
  by (rule message_steps)+ (simp add: yields_return PlacementQuery_encodable_def)

lemma yields_rejection_query: "dec_yields RejectionQuery_encodable decode_rejection_query"
  unfolding decode_rejection_query_def
  by (rule message_steps)+ (simp add: yields_return RejectionQuery_encodable_def)

lemma yields_stranded_query: "dec_yields StrandedCapacityRequest_encodable decode_stranded_query"
  unfolding decode_stranded_query_def
  by (rule message_steps)+ (simp add: yields_return StrandedCapacityRequest_encodable_def)

lemma yields_fragmentation_query: "dec_yields FragmentationQuery_encodable decode_fragmentation_query"
  unfolding decode_fragmentation_query_def
  by (rule message_steps)+ (simp add: yields_return FragmentationQuery_encodable_def)

lemma yields_compatibility_query: "dec_yields CompatibilityQuery_encodable decode_compatibility_query"
  unfolding decode_compatibility_query_def
  by (rule message_steps)+ (simp add: yields_return CompatibilityQuery_encodable_def)

lemma yields_portability_query: "dec_yields PortabilityQuery_encodable decode_portability_query"
  unfolding decode_portability_query_def
  by (rule message_steps)+ (simp add: yields_return PortabilityQuery_encodable_def)

lemma yields_migration_query: "dec_yields MigrationQuery_encodable decode_migration_query"
  unfolding decode_migration_query_def
  by (rule message_steps)+ (simp add: yields_return MigrationQuery_encodable_def)

lemma yields_reply: "dec_yields ReplyPayload_encodable decode_reply"
  unfolding decode_reply_def
  by (rule message_steps)+ (simp add: yields_return ReplyPayload_encodable_def)

lemma yields_mismatch_query: "dec_yields MismatchAnalysisRequest_encodable decode_mismatch_query"
  unfolding decode_mismatch_query_def
    by (rule yields_guard message_steps)+ (auto simp: yields_return MismatchAnalysisRequest_encodable_def
    TimeWindow_encodable_def id_encodable_def not_less)

lemma yields_drift_query: "dec_yields DriftQuery_encodable decode_drift_query"
  unfolding decode_drift_query_def
  by (rule yields_checked message_steps)+ (simp add: yields_return DriftQuery_encodable_def TimeWindow_encodable_def)

definition exact_codec :: "('a \<Rightarrow> Encoder \<Rightarrow> Encoder) \<Rightarrow> 'a decoder \<Rightarrow> ('a \<Rightarrow> bool) \<Rightarrow> bool" where
  "exact_codec enc dec encodable \<longleftrightarrow>
     (\<forall>v max_bytes. encodable v \<and> length (enc_buffer (enc v Encoder_init)) \<le> max_bytes \<longrightarrow>
        \<not> enc_failed (enc v Encoder_init) \<and>
        (\<exists>d. dec (Decoder_init (enc_buffer (enc v Encoder_init)) max_bytes) = (Inr v, d) \<and> exhausted d))"

context field_codec
begin

lemma exact: "exact_codec enc dec encodable"
  unfolding exact_codec_def using field_round_trip [of enc _ dec, OF field] by blast

lemma exact_publication:
  "exact_codec (\<lambda>(ctx, r). encode_publication enc ctx r) (decode_publication dec) (publication_encodable encodable)"
  unfolding exact_codec_def
  using field_round_trip [of "\<lambda>(ctx, r). encode_publication enc ctx r" _ "decode_publication dec"] field_publication
  by (auto simp: split_beta)

end



lemma safe_messages:
  "dec_safe decode_hello"
  "dec_safe decode_hello_reply"
  "dec_safe decode_register_publisher"
  "dec_safe decode_publication_ack"
  "dec_safe decode_fence"
  "dec_safe decode_retire_cluster"
  "dec_safe decode_migration_stage"
  "dec_safe decode_capability_publication"
  "dec_safe decode_capacity_publication"
  "dec_safe decode_snapshot_query"
  "dec_safe decode_placement_query"
  "dec_safe decode_rejection_query"
  "dec_safe decode_stranded_query"
  "dec_safe decode_fragmentation_query"
  "dec_safe decode_compatibility_query"
  "dec_safe decode_portability_query"
  "dec_safe decode_migration_query"
  "dec_safe decode_reply"
  "dec_safe decode_mismatch_query"
  "dec_safe decode_drift_query"
    unfolding decode_hello_def decode_hello_reply_def decode_register_publisher_def decode_publication_ack_def
    decode_fence_def decode_retire_cluster_def decode_migration_stage_def decode_capability_publication_def
    decode_capacity_publication_def decode_snapshot_query_def decode_placement_query_def decode_rejection_query_def
    decode_stranded_query_def decode_fragmentation_query_def decode_compatibility_query_def
    decode_portability_query_def decode_migration_query_def decode_reply_def decode_mismatch_query_def
    decode_drift_query_def
  by (intro fo_safe)+

text \<open>
  C30: what message decoders accept. Whatever bytes they are given, the decoders of the protocol's messages stay inside
  their input, and a message they accept satisfies the limits of the wire format: a valid publication context,
  well-formed identifiers, bounded strings and collections, closing ledgers. With the round trip, a message
  received can be passed on and arrives unchanged.
\<close>

theorem decoded_messages_are_valid:
  "dec_safe decode_hello \<and> dec_yields HelloRequest_encodable decode_hello \<and>
   dec_safe decode_hello_reply \<and> dec_yields HelloReply_encodable decode_hello_reply \<and>
   dec_safe decode_register_publisher \<and> dec_yields RegisterPublisherRequest_encodable decode_register_publisher \<and>
   dec_safe decode_publication_ack \<and> dec_yields PublicationAck_encodable decode_publication_ack \<and>
   dec_safe decode_fence \<and> dec_yields FenceRequest_encodable decode_fence \<and>
   dec_safe decode_retire_cluster \<and> dec_yields RetireClusterRequest_encodable decode_retire_cluster \<and>
   dec_safe decode_migration_stage \<and> dec_yields MigrationStageRequest_encodable decode_migration_stage \<and>
   dec_safe decode_capability_publication \<and> dec_yields CapabilityPublicationRequest_encodable decode_capability_publication \<and>
   dec_safe decode_capacity_publication \<and> dec_yields CapacityPublicationRequest_encodable decode_capacity_publication \<and>
   dec_safe decode_snapshot_query \<and> dec_yields SnapshotQuery_encodable decode_snapshot_query \<and>
   dec_safe decode_placement_query \<and> dec_yields PlacementQuery_encodable decode_placement_query \<and>
   dec_safe decode_rejection_query \<and> dec_yields RejectionQuery_encodable decode_rejection_query \<and>
   dec_safe decode_stranded_query \<and> dec_yields StrandedCapacityRequest_encodable decode_stranded_query \<and>
   dec_safe decode_fragmentation_query \<and> dec_yields FragmentationQuery_encodable decode_fragmentation_query \<and>
   dec_safe decode_compatibility_query \<and> dec_yields CompatibilityQuery_encodable decode_compatibility_query \<and>
   dec_safe decode_portability_query \<and> dec_yields PortabilityQuery_encodable decode_portability_query \<and>
   dec_safe decode_migration_query \<and> dec_yields MigrationQuery_encodable decode_migration_query \<and>
   dec_safe decode_reply \<and> dec_yields ReplyPayload_encodable decode_reply \<and>
   dec_safe decode_mismatch_query \<and> dec_yields MismatchAnalysisRequest_encodable decode_mismatch_query \<and>
   dec_safe decode_drift_query \<and> dec_yields DriftQuery_encodable decode_drift_query"
    by (intro conjI safe_messages yields_hello yields_hello_reply yields_register_publisher yields_publication_ack
    yields_fence yields_retire_cluster yields_migration_stage yields_capability_publication
    yields_capacity_publication yields_snapshot_query yields_placement_query yields_rejection_query
    yields_stranded_query yields_fragmentation_query yields_compatibility_query yields_portability_query
    yields_migration_query yields_reply yields_mismatch_query yields_drift_query)

lemma yields_publication:
  "dec_yields P D \<Longrightarrow> dec_yields (\<lambda>(ctx, r). PublicationContext_validate ctx = Success \<and> P r) (decode_publication D)"
  unfolding decode_publication_def
  by (rule yields_step [OF yields_publication_context], rule yields_step, assumption)
    (simp add: yields_return PublicationContext_encodable_def)

text \<open>Every publication that is accepted has a valid context and a valid record.\<close>

lemma decoded_publications_are_valid:
  "dec_yields (\<lambda>(ctx, r). PublicationContext_validate ctx = Success \<and> FederationRecord_validate r = Success) decode_federation_publication"
  "dec_yields (\<lambda>(ctx, r). PublicationContext_validate ctx = Success \<and> SiteRecord_validate r = Success) decode_site_publication"
  "dec_yields (\<lambda>(ctx, r). PublicationContext_validate ctx = Success \<and> ClusterRecord_validate r = Success) decode_cluster_publication"
  "dec_yields (\<lambda>(ctx, r). PublicationContext_validate ctx = Success \<and> AcceleratorClassRecord_validate r = Success) decode_accelerator_class_publication"
  "dec_yields (\<lambda>(ctx, r). PublicationContext_validate ctx = Success \<and> RuntimeRecord_validate r = Success) decode_runtime_publication"
  "dec_yields (\<lambda>(ctx, r). PublicationContext_validate ctx = Success \<and> BackendRecord_validate r = Success) decode_backend_publication"
  "dec_yields (\<lambda>(ctx, r). PublicationContext_validate ctx = Success \<and> DomainRecord_validate r = Success) decode_domain_publication"
  "dec_yields (\<lambda>(ctx, r). PublicationContext_validate ctx = Success \<and> PolicyRecord_validate r = Success) decode_policy_publication"
  "dec_yields (\<lambda>(ctx, r). PublicationContext_validate ctx = Success \<and> ArtifactRecord_validate r = Success) decode_artifact_publication"
  "dec_yields (\<lambda>(ctx, r). PublicationContext_validate ctx = Success \<and> WorkloadClassRecord_validate r = Success) decode_workload_class_publication"
  "dec_yields (\<lambda>(ctx, r). PublicationContext_validate ctx = Success \<and> WorkloadRecord_validate r = Success) decode_workload_publication"
  "dec_yields (\<lambda>(ctx, r). PublicationContext_validate ctx = Success \<and> PlacementRecord_validate r = Success) decode_placement_publication"
  "dec_yields (\<lambda>(ctx, r). PublicationContext_validate ctx = Success \<and> MigrationRecord_validate r = Success) decode_migration_publication"
  "dec_yields (\<lambda>(ctx, r). PublicationContext_validate ctx = Success \<and> PortabilityAssessment_validate r = Success) decode_portability_publication"
    unfolding decode_federation_publication_def decode_site_publication_def decode_cluster_publication_def
    decode_accelerator_class_publication_def decode_runtime_publication_def decode_backend_publication_def
    decode_domain_publication_def decode_policy_publication_def decode_artifact_publication_def
    decode_workload_class_publication_def decode_workload_publication_def decode_placement_publication_def
    decode_migration_publication_def decode_portability_publication_def
    by (rule yields_publication; rule yields_federation yields_site yields_cluster yields_accelerator_class
    yields_runtime yields_backend yields_domain yields_policy yields_artifact yields_workload_class yields_workload
    yields_placement yields_migration yields_portability)+

end
