(* ===== verification/FO_Stranding.thy ===== *)
theory FO_Stranding
  imports FO_Query FO_Messages
begin

text \<open>
  Stranded capacity (\<open>analysis.hpp\<close>, the first part of \<open>analysis.cpp\<close>): the eligibility of one capacity pool for a
  workload, and the report that partitions the idle capacity of a federation into usable, stranded and unknown. The
  checks of \<open>evaluate_pool\<close> are one definition each and give the marks they leave, in the order of the source. The
  theorems: capacity is called usable only with evidence for every requirement, and the report partitions exactly the
  capacity it covers.
\<close>

section \<open>Capabilities and reasons\<close>

definition merge_capabilities ::
  "ClusterRecord \<Rightarrow> AcceleratorClassRecord option \<Rightarrow> RuntimeRecord option \<Rightarrow> CapabilitySet" where
  "merge_capabilities cluster k runtime =
     effective_capabilities k cluster runtime (CapabilitySet_init (cset_limit (clr_capabilities cluster)))"

definition reason_for_requirement :: "CapabilityKey \<Rightarrow> StrandingReason" where
  "reason_for_requirement key =
     (if key \<in> set [CapabilityKey_PrecisionFp64, CapabilityKey_PrecisionFp32, CapabilityKey_PrecisionTf32,
          CapabilityKey_PrecisionFp16, CapabilityKey_PrecisionBf16, CapabilityKey_PrecisionFp8E4M3,
          CapabilityKey_PrecisionFp8E5M2, CapabilityKey_PrecisionFp6, CapabilityKey_PrecisionInt8,
          CapabilityKey_PrecisionInt4, CapabilityKey_PrecisionFp4] then StrandingReason_UnsupportedPrecision
      else if key \<in> set [CapabilityKey_InterconnectType, CapabilityKey_InterconnectBandwidthGbps,
          CapabilityKey_NvlinkGeneration, CapabilityKey_PcieGeneration] then StrandingReason_MissingInterconnectFeature
      else if key = CapabilityKey_OffloadCapability then StrandingReason_MissingOffloadCapability
      else if key \<in> set [CapabilityKey_PartitionSupport, CapabilityKey_PartitionModes, CapabilityKey_PartitionGeometry,
          CapabilityKey_PartitionMaxInstances] then StrandingReason_PartitionGeometry
      else if key \<in> set [CapabilityKey_RuntimeApi, CapabilityKey_RuntimeVersion, CapabilityKey_RuntimeGeneration]
        then StrandingReason_RuntimeMismatch
      else if key = CapabilityKey_RuntimeAbi then StrandingReason_AbiMismatch
      else if key \<in> set [CapabilityKey_DriverApi, CapabilityKey_DriverVersion, CapabilityKey_DriverAbi,
          CapabilityKey_DriverGeneration] then StrandingReason_DriverMismatch
      else if key \<in> set [CapabilityKey_CompilerTarget, CapabilityKey_CompilerVersion]
        then StrandingReason_MissingCompilerTarget
      else if key \<in> set [CapabilityKey_ArtifactFormat, CapabilityKey_ArtifactFormats, CapabilityKey_KernelFormat,
          CapabilityKey_KernelArchitectures, CapabilityKey_QuantizationSupport, CapabilityKey_QuantizationFormats,
          CapabilityKey_SparseExecutionSupport, CapabilityKey_InferenceServingBackend]
        then StrandingReason_ArtifactIncompatibility
      else if key \<in> set [CapabilityKey_CollectiveSupport, CapabilityKey_CollectiveBackend,
          CapabilityKey_CollectiveMaxGroupSize] then StrandingReason_TopologyConstraint
      else if key = CapabilityKey_SecurityIsolation then StrandingReason_IsolationRequirement
      else if key \<in> set [CapabilityKey_MemoryBytes, CapabilityKey_MemoryBandwidthGbps, CapabilityKey_MemoryType,
          CapabilityKey_MemoryEcc] then StrandingReason_MemoryInsufficient
      else StrandingReason_UnsupportedAcceleratorCapability)"

section \<open>Eligibility of one pool\<close>

record PoolEligibility =
  pel_decided :: bool
  pel_eligible :: bool
  pel_primary :: StrandingReason
  pel_occurrences :: ReasonTally
  pel_notes :: "string list"

definition PoolEligibility_init :: PoolEligibility where
  "PoolEligibility_init =
     \<lparr>pel_decided = False, pel_eligible = False, pel_primary = StrandingReason_None,
      pel_occurrences = ReasonTally_init, pel_notes = []\<rparr>"

definition note_reason :: "StrandingReason \<Rightarrow> PoolEligibility \<Rightarrow> PoolEligibility" where
  "note_reason reason p =
     p\<lparr>pel_occurrences := snd (tally_add reason 1 (pel_occurrences p)),
       pel_primary :=
         (if pel_primary p = StrandingReason_None \<or>
             stranding_reason_precedence reason < stranding_reason_precedence (pel_primary p)
          then reason else pel_primary p)\<rparr>"

text \<open>What a check leaves behind: a failure with its reason, or an undecided question, each with a note. A failure
  sets \<open>any_failure\<close>, a question \<open>any_undecided\<close>.\<close>

datatype pool_mark = PoolFails StrandingReason string | PoolUndecided string

fun apply_mark :: "pool_mark \<Rightarrow> PoolEligibility \<Rightarrow> PoolEligibility" where
  "apply_mark (PoolFails reason note) p = (note_reason reason p)\<lparr>pel_notes := pel_notes p @ [note]\<rparr>"
| "apply_mark (PoolUndecided note) p = p\<lparr>pel_notes := pel_notes p @ [note]\<rparr>"

fun mark_fails :: "pool_mark \<Rightarrow> bool" where
  "mark_fails (PoolFails reason note) = True"
| "mark_fails (PoolUndecided note) = False"

definition artifact_marks :: "ArtifactRecord \<Rightarrow> AcceleratorClassRecord option \<Rightarrow> pool_mark list" where
  "artifact_marks artifact k =
     (if \<not> is_code_bearing (art_kind artifact) then []
      else if art_target_architectures artifact = [] then
        [PoolUndecided ''the artifact does not declare its target architectures'']
      else case k of
             None \<Rightarrow> [PoolUndecided ''the accelerator architecture of this pool is unpublished'']
           | Some x \<Rightarrow>
               if ar_architecture x = [] then
                 [PoolUndecided ''the accelerator architecture of this pool is unpublished'']
               else if \<not> targets_architecture artifact (ar_architecture x) then
                 [PoolFails StrandingReason_ArtifactIncompatibility
                    (''the artifact targets '' @ join_strings (art_target_architectures artifact) '','' @
                     '' and not the pool architecture '' @ ar_architecture x)]
               else [])"

text \<open>The lambda \<open>require_text\<close>.\<close>

definition require_text :: "CapabilitySet \<Rightarrow> string \<Rightarrow> CapabilityKey \<Rightarrow> StrandingReason \<Rightarrow> string \<Rightarrow> pool_mark list" where
  "require_text effective v key reason label =
     (if v = [] then []
      else case CapabilitySet_find \<lparr>cr_key = key, cr_custom = no_id\<rparr> effective of
             None \<Rightarrow> [PoolUndecided (''the target does not declare '' @ label)]
           | Some entry \<Rightarrow>
               if \<not> value_known (ce_value entry) then [PoolUndecided (''the target does not declare '' @ label)]
               else if \<not> is_text (ce_value entry) \<and> \<not> is_text_set (ce_value entry) then
                 [PoolUndecided (''the declared '' @ label @ '' is not comparable'')]
               else if (if is_text (ce_value entry) then as_text (ce_value entry) = v
                        else v \<in> set (as_text_set (ce_value entry))) then []
               else [PoolFails reason (label @ '' '' @ v @ '' is not accepted by the target'')])"

definition format_marks :: "ArtifactRecord \<Rightarrow> CapabilitySet \<Rightarrow> pool_mark list" where
  "format_marks artifact effective =
     require_text effective (art_format artifact) CapabilityKey_ArtifactFormats StrandingReason_ArtifactIncompatibility
       ''artifact format'' @
     require_text effective (art_kernel_format artifact) CapabilityKey_KernelFormat
       StrandingReason_ArtifactIncompatibility ''kernel format'' @
     require_text effective (art_state_format artifact) CapabilityKey_ArtifactFormats
       StrandingReason_MissingLocalStorageState ''state format'' @
     require_text effective (art_compiler_target artifact) CapabilityKey_CompilerTarget
       StrandingReason_MissingCompilerTarget ''compiler target''"

definition runtime_abi_marks :: "ArtifactRecord \<Rightarrow> RuntimeRecord option \<Rightarrow> pool_mark list" where
  "runtime_abi_marks artifact runtime =
     (if art_runtime_abi artifact = [] then []
      else case runtime of
             None \<Rightarrow> [PoolUndecided ''the target runtime does not publish an ABI'']
           | Some r \<Rightarrow>
               if rr_abi r = [] then [PoolUndecided ''the target runtime does not publish an ABI'']
               else if rr_abi r \<noteq> art_runtime_abi artifact then
                 [PoolFails StrandingReason_AbiMismatch
                    (''the artifact requires runtime ABI '' @ art_runtime_abi artifact @
                     '' but the target publishes '' @ rr_abi r)]
               else [])"

definition requirement_mark :: "CapabilitySet \<Rightarrow> CapabilityRequirement \<Rightarrow> pool_mark list" where
  "requirement_mark effective r =
     (case chk_satisfied (evaluate_requirement r effective) of
        Tri_Yes \<Rightarrow> []
      | Tri_No \<Rightarrow> if req_optional r then []
                else [PoolFails (reason_for_requirement (cr_key (req_key r)))
                        (''unsatisfied requirement '' @ CapabilityRequirement_to_string r)]
      | Tri_Unknown \<Rightarrow> [PoolUndecided (''undecided requirement '' @ CapabilityRequirement_to_string r)])"

definition memory_marks :: "WorkloadRecord \<Rightarrow> AcceleratorClassRecord option \<Rightarrow> pool_mark list" where
  "memory_marks w k =
     (let required = wr_required_memory_bytes_per_accelerator w in
      if required = 0 then []
      else case k of
             None \<Rightarrow> [PoolUndecided ''per-device memory is unpublished for this pool'']
           | Some x \<Rightarrow>
               if ar_memory_bytes_per_device x = 0 then [PoolUndecided ''per-device memory is unpublished for this pool'']
               else if required > ar_memory_bytes_per_device x then
                 [PoolFails StrandingReason_MemoryInsufficient
                    (''the workload requires '' @ to_string_u64 required @ '' bytes per device, the pool provides '' @
                     to_string_u64 (ar_memory_bytes_per_device x))]
               else [])"

definition workload_marks ::
  "WorkloadRecord \<Rightarrow> AcceleratorClassRecord option \<Rightarrow> CapabilitySet \<Rightarrow> pool_mark list" where
  "workload_marks w k effective = concat (map (requirement_mark effective) (wr_requirements w)) @ memory_marks w k"

definition policy_marks :: "PolicyRecord \<Rightarrow> ClusterRecord \<Rightarrow> SiteRecord option \<Rightarrow> pool_mark list" where
  "policy_marks policy cluster site =
     (let label = ''policy '' @ id_value (pr_id policy) @ '' generation '' @ gen_to_string (pr_generation policy) in
      case (case site of Some s \<Rightarrow> permits_site policy (sr_id s) | None \<Rightarrow> Tri_Unknown) of
        Tri_No \<Rightarrow> [PoolFails StrandingReason_SiteRestriction
                    (label @ '' excludes site '' @ (case site of Some s \<Rightarrow> id_value (sr_id s) | None \<Rightarrow> []))]
      | _ \<Rightarrow>
          (case permits_cluster policy (clr_id cluster) of
             Tri_No \<Rightarrow> [PoolFails StrandingReason_PolicyRestriction
                         (label @ '' excludes cluster '' @ id_value (clr_id cluster))]
           | Tri_Unknown \<Rightarrow> [PoolUndecided ''policy admissibility of this cluster is undecided'']
           | Tri_Yes \<Rightarrow> []))"

definition pool_marks ::
  "WorkloadRecord option \<Rightarrow> ArtifactRecord option \<Rightarrow> ClusterRecord \<Rightarrow> SiteRecord option \<Rightarrow>
   AcceleratorClassRecord option \<Rightarrow> RuntimeRecord option \<Rightarrow> PolicyRecord option \<Rightarrow> pool_mark list" where
  "pool_marks workload artifact cluster site k runtime policy =
     (let effective = merge_capabilities cluster k runtime in
      (case artifact of
         None \<Rightarrow> []
       | Some a \<Rightarrow> artifact_marks a k @ format_marks a effective @ runtime_abi_marks a runtime) @
      (case workload of None \<Rightarrow> [] | Some w \<Rightarrow> workload_marks w k effective) @
      (case policy of None \<Rightarrow> [] | Some p \<Rightarrow> policy_marks p cluster site))"

definition evaluate_pool ::
  "WorkloadRecord option \<Rightarrow> ArtifactRecord option \<Rightarrow> ClusterRecord \<Rightarrow> SiteRecord option \<Rightarrow>
   AcceleratorClassRecord option \<Rightarrow> RuntimeRecord option \<Rightarrow> PolicyRecord option \<Rightarrow> ResourceKind \<Rightarrow> PoolEligibility" where
  "evaluate_pool workload artifact cluster site k runtime policy kind =
     (if clr_readiness cluster = Readiness_NotReady \<or> clr_readiness cluster = Readiness_Draining then
        PoolEligibility_init\<lparr>pel_notes :=
          [''cluster reports idle capacity while its readiness is '' @ Readiness_to_string (clr_readiness cluster) @
           ''; the runtime does not resolve the inconsistency'']\<rparr>
      else if kind = ResourceKind_Accelerator \<and> k = None then
        PoolEligibility_init\<lparr>pel_notes := [''the accelerator class of this pool is not published'']\<rparr>
      else
        (let marks = pool_marks workload artifact cluster site k runtime policy;
             result = fold apply_mark marks PoolEligibility_init
         in if list_ex mark_fails marks then result\<lparr>pel_decided := True, pel_eligible := False\<rparr>
            else if marks \<noteq> [] then result\<lparr>pel_decided := False\<rparr>
            else result\<lparr>pel_decided := True, pel_eligible := True\<rparr>))"

definition select_workload :: "FederationSnapshot \<Rightarrow> WorkloadClassId \<Rightarrow> WorkloadRecord option" where
  "select_workload snapshot workload_class =
     foldl (\<lambda>selected w.
       if wr_workload_class w \<noteq> workload_class then selected
       else case selected of
              None \<Rightarrow> Some w
            | Some s \<Rightarrow> if wr_id w < wr_id s then Some w else selected) None (fs_workloads snapshot)"

definition primary_runtime :: "FederationSnapshot \<Rightarrow> ClusterRecord \<Rightarrow> RuntimeRecord option" where
  "primary_runtime snapshot cluster = first_found (find_runtime snapshot) (clr_runtimes cluster)"

section \<open>The report\<close>

record StrandedCapacityFinding =
  scf_federation :: FederationId
  scf_federation_generation :: FederationGeneration
  scf_workload_class :: WorkloadClassId
  scf_cluster :: ClusterId
  scf_cluster_generation :: ClusterGeneration
  scf_cluster_epoch :: ClusterEpoch
  scf_site :: SiteId
  scf_accelerator_class :: AcceleratorClassId
  scf_pool :: ResourcePoolId
  scf_kind :: ResourceKind
  scf_capacity_generation :: CapacityGeneration
  scf_capability_generation :: AcceleratorCapabilityGeneration
  scf_topology_generation :: TopologyGeneration
  scf_compatibility_generation :: CompatibilityGeneration
  scf_ledger :: CapacityLedger
  scf_breakdown :: EligibilityBreakdown
  scf_currentness :: Currentness
  scf_precision :: Precision
  scf_evidence_class :: EvidenceClass
  scf_evidence :: EvidenceList

definition StrandedCapacityFinding_less :: "StrandedCapacityFinding \<Rightarrow> StrandedCapacityFinding \<Rightarrow> bool" where
  "StrandedCapacityFinding_less a b =
     (if scf_cluster a \<noteq> scf_cluster b then scf_cluster a < scf_cluster b
      else if scf_pool a \<noteq> scf_pool b then scf_pool a < scf_pool b
      else enum_lt ResourceKind_values (scf_kind a) (scf_kind b))"

record StrandedCapacityReport =
  rep_federation :: FederationId
  rep_federation_generation :: FederationGeneration
  rep_coordinator_epoch :: CoordinatorEpoch
  rep_snapshot_generation :: SnapshotGeneration
  rep_workload_class :: WorkloadClassId
  rep_kind :: ResourceKind
  rep_summary :: CapacitySummary
  rep_findings :: "StrandedCapacityFinding list"
  rep_excluded_stale_clusters :: "ClusterId list"
  rep_excluded_unknown_clusters :: "ClusterId list"
  rep_precision :: Precision
  rep_evidence_class :: EvidenceClass
  rep_evidence :: EvidenceList

definition CapacitySummary_init :: CapacitySummary where
  "CapacitySummary_init =
     \<lparr>cs_nominal = 0, cs_offline = 0, cs_allocated = 0, cs_reserved = 0, cs_draining = 0, cs_unusable = 0, cs_idle = 0,
      cs_usable = 0, cs_stranded = 0, cs_unknown = 0\<rparr>"

definition summary_closes :: "CapacitySummary \<Rightarrow> bool" where
  "summary_closes s =
     (case checked_add (cs_usable s) (cs_stranded s) of
        None \<Rightarrow> False
      | Some expected \<Rightarrow>
          (case checked_add expected (cs_unknown s) of None \<Rightarrow> False | Some accounted \<Rightarrow> accounted = cs_idle s))"

text \<open>A chain of tally additions, each of which may fail.\<close>

fun tally_add_all :: "(StrandingReason \<times> u64) list \<Rightarrow> ReasonTally \<Rightarrow> ReasonTally result" where
  "tally_add_all [] t = Inr t"
| "tally_add_all ((reason, amount) # rest) t =
     (case tally_add reason amount t of
        (Failure e, _) \<Rightarrow> Inl e
      | (Success, t') \<Rightarrow> tally_add_all rest t')"

definition pool_breakdown :: "PoolEligibility \<Rightarrow> u64 \<Rightarrow> EligibilityBreakdown result" where
  "pool_breakdown e idle =
     (let b = EligibilityBreakdown_init\<lparr>eb_idle := idle\<rparr> in
      if pel_decided e \<and> pel_eligible e then Inr (b\<lparr>eb_usable := idle\<rparr>)
      else if \<not> pel_decided e then Inr (b\<lparr>eb_unknown := idle\<rparr>)
      else case tally_add_all [(pel_primary e, idle)] ReasonTally_init of
             Inl err \<Rightarrow> Inl err
           | Inr primary \<Rightarrow>
               (case tally_add_all (map (\<lambda>(reason, _). (reason, idle)) (tally_non_zero (pel_occurrences e))) ReasonTally_init of
                  Inl err \<Rightarrow> Inl err
                | Inr occurrences \<Rightarrow>
                    Inr (b\<lparr>eb_stranded_by_primary_reason := primary, eb_reason_occurrences := occurrences\<rparr>)))"

record strand_query =
  sq_workload :: "WorkloadRecord option"
  sq_artifact :: "ArtifactRecord option"
  sq_policy :: "PolicyRecord option"

definition pool_eligibility :: "FederationSnapshot \<Rightarrow> strand_query \<Rightarrow> ClusterRecord \<Rightarrow> CapacityPool \<Rightarrow> PoolEligibility" where
  "pool_eligibility snapshot q cluster pool =
     evaluate_pool (sq_workload q) (sq_artifact q) cluster (find_site snapshot (clr_site cluster))
       (if id_empty (cp_accelerator_class pool) then None else find_accelerator_class snapshot (cp_accelerator_class pool))
       (primary_runtime snapshot cluster) (sq_policy q) (cp_kind pool)"

definition pool_finding ::
  "FederationSnapshot \<Rightarrow> WorkloadClassId \<Rightarrow> strand_query \<Rightarrow> ClusterRecord \<Rightarrow> CapacityPool \<Rightarrow> StrandedCapacityFinding result" where
  "pool_finding snapshot workload_class q cluster pool =
     (let eligibility = pool_eligibility snapshot q cluster pool;
          cls = weaker_class (cp_evidence_class pool) (os_evidence_class (clr_stamp cluster))
      in case pool_breakdown eligibility (cl_idle (cp_ledger pool)) of
           Inl e \<Rightarrow> Inl e
         | Inr breakdown \<Rightarrow> Inr
             \<lparr>scf_federation = clr_federation cluster, scf_federation_generation = fs_generation snapshot,
              scf_workload_class = workload_class, scf_cluster = clr_id cluster,
              scf_cluster_generation = clr_generation cluster, scf_cluster_epoch = clr_epoch cluster,
              scf_site = clr_site cluster, scf_accelerator_class = cp_accelerator_class pool,
              scf_pool = cp_pool_id pool, scf_kind = cp_kind pool, scf_capacity_generation = cp_generation pool,
              scf_capability_generation = clr_capability_generation cluster,
              scf_topology_generation = clr_topology_generation cluster,
              scf_compatibility_generation = clr_compatibility_generation cluster, scf_ledger = cp_ledger pool,
              scf_breakdown = breakdown, scf_currentness = clr_currentness cluster,
              scf_precision = weakest_precision (cp_precision pool) (os_precision (clr_stamp cluster)),
              scf_evidence_class = cls,
              scf_evidence = foldl (\<lambda>l note. snd (EvidenceList_add_fields Provenance_DerivedAnalysis cls
                ''stranding-analysis'' Precision_Derived note l)) no_evidence (pel_notes eligibility)\<rparr>)"

definition summary_add :: "StrandedCapacityFinding \<Rightarrow> CapacitySummary \<Rightarrow> CapacitySummary result" where
  "summary_add f s =
     (let l = scf_ledger f; b = scf_breakdown f in
      case checked_add (cs_nominal s) (cl_nominal l) of
        None \<Rightarrow> Inl (Error CapacityInconsistent ''stranded report nominal overflowed'' [])
      | Some nominal \<Rightarrow> Inr
          \<lparr>cs_nominal = nominal, cs_offline = saturating_add (cs_offline s) (cl_offline l),
           cs_allocated = saturating_add (cs_allocated s) (cl_allocated l),
           cs_reserved = saturating_add (cs_reserved s) (cl_reserved l),
           cs_draining = saturating_add (cs_draining s) (cl_draining l),
           cs_unusable = saturating_add (cs_unusable s) (cl_unusable l),
           cs_idle = saturating_add (cs_idle s) (cl_idle l),
           cs_usable = saturating_add (cs_usable s) (eb_usable b),
           cs_stranded = saturating_add (cs_stranded s) (eb_stranded b),
           cs_unknown = saturating_add (cs_unknown s) (eb_unknown b)\<rparr>)"

text \<open>The locals of the loop. \<open>stranding_class\<close> is the pair \<open>precision\<close>, \<open>evidence_class\<close>, \<open>None\<close> while \<open>first\<close> is set.\<close>

record stranding =
  str_summary :: CapacitySummary
  str_findings :: "StrandedCapacityFinding list"
  str_stale :: "ClusterId list"
  str_unknown :: "ClusterId list"
  str_class :: "(Precision \<times> EvidenceClass) option"

definition strand_pool ::
  "FederationSnapshot \<Rightarrow> WorkloadClassId \<Rightarrow> strand_query \<Rightarrow> ClusterRecord \<Rightarrow> CapacityPool \<Rightarrow> stranding \<Rightarrow> stranding result" where
  "strand_pool snapshot workload_class q cluster pool st =
     (case pool_finding snapshot workload_class q cluster pool of
        Inl e \<Rightarrow> Inl e
      | Inr f \<Rightarrow>
          (case summary_add f (str_summary st) of
             Inl e \<Rightarrow> Inl e
           | Inr summary \<Rightarrow>
               Inr (st\<lparr>str_summary := summary, str_findings := str_findings st @ [f],
                 str_class := Some (case str_class st of
                     None \<Rightarrow> (scf_precision f, scf_evidence_class f)
                   | Some (p, c) \<Rightarrow> (weakest_precision p (scf_precision f), weaker_class c (scf_evidence_class f)))\<rparr>)))"

fun try_each :: "('a \<Rightarrow> 's \<Rightarrow> 's result) \<Rightarrow> 'a list \<Rightarrow> 's \<Rightarrow> 's result" where
  "try_each step [] st = Inr st"
| "try_each step (x # xs) st = (case step x st of Inl e \<Rightarrow> Inl e | Inr st' \<Rightarrow> try_each step xs st')"

definition requested_pools :: "StrandedCapacityRequest \<Rightarrow> ClusterRecord \<Rightarrow> CapacityPool list" where
  "requested_pools request cluster =
     filter (\<lambda>p. cp_kind p = scr_kind request \<and>
        (id_empty (scr_accelerator_class request) \<or> cp_accelerator_class p = scr_accelerator_class request))
       (clr_capacity_pools cluster)"

definition requested_cluster :: "StrandedCapacityRequest \<Rightarrow> ClusterRecord \<Rightarrow> bool" where
  "requested_cluster request cluster \<longleftrightarrow>
     (id_empty (scr_federation request) \<or> clr_federation cluster = scr_federation request) \<and>
     (id_empty (scr_cluster request) \<or> clr_id cluster = scr_cluster request) \<and>
     clr_currentness cluster \<noteq> Currentness_Retired"

definition counted_cluster :: "StrandedCapacityRequest \<Rightarrow> ClusterRecord \<Rightarrow> bool" where
  "counted_cluster request cluster \<longleftrightarrow>
     requested_cluster request cluster \<and> (clr_currentness cluster = Currentness_Current \<or> scr_include_stale request)"

definition strand_cluster ::
  "FederationSnapshot \<Rightarrow> StrandedCapacityRequest \<Rightarrow> strand_query \<Rightarrow> ClusterRecord \<Rightarrow> stranding \<Rightarrow> stranding result" where
  "strand_cluster snapshot request q cluster st =
     (if \<not> requested_cluster request cluster then Inr st
      else if clr_currentness cluster \<noteq> Currentness_Current \<and> \<not> scr_include_stale request then
        Inr (st\<lparr>str_stale := str_stale st @ [clr_id cluster]\<rparr>)
      else case try_each (strand_pool snapshot (scr_workload_class request) q cluster) (requested_pools request cluster) st of
             Inl e \<Rightarrow> Inl e
           | Inr st' \<Rightarrow>
               if requested_pools request cluster = [] then
                 Inr (st'\<lparr>str_unknown := str_unknown st' @ [clr_id cluster]\<rparr>)
               else Inr st')"

definition stranding_init :: stranding where
  "stranding_init =
     \<lparr>str_summary = CapacitySummary_init, str_findings = [], str_stale = [], str_unknown = [], str_class = None\<rparr>"

definition strand_query_for :: "FederationSnapshot \<Rightarrow> WorkloadRecord option \<Rightarrow> strand_query" where
  "strand_query_for snapshot workload =
     \<lparr>sq_workload = workload,
      sq_artifact = (case workload of None \<Rightarrow> None | Some w \<Rightarrow> find_artifact snapshot (wr_artifact w)),
      sq_policy = (case workload of None \<Rightarrow> None | Some w \<Rightarrow> workload_policy (find_policy snapshot) w)\<rparr>"

definition analyze_stranded_capacity ::
  "FederationSnapshot \<Rightarrow> StrandedCapacityRequest \<Rightarrow> StrandedCapacityReport result" where
  "analyze_stranded_capacity snapshot request =
     (let workload = select_workload snapshot (scr_workload_class request) in
      if workload = None \<and> \<not> id_empty (scr_workload_class request) then
        not_found ''no workload generation is registered for this workload class'' (scr_workload_class request)
      else case try_each (strand_cluster snapshot request (strand_query_for snapshot workload)) (fs_clusters snapshot)
                  stranding_init of
             Inl e \<Rightarrow> Inl e
           | Inr st \<Rightarrow>
               (let (precision, cls) =
                      (case str_class st of None \<Rightarrow> (Precision_Unknown, fs_evidence_class snapshot) | Some pc \<Rightarrow> pc);
                    s = str_summary st
                in if \<not> summary_closes s then
                     Inl (Error CapacityInconsistent ''stranded capacity report does not close''
                       (''nominal='' @ to_string_u64 (cs_nominal s) @ '' idle='' @ to_string_u64 (cs_idle s) @
                        '' usable='' @ to_string_u64 (cs_usable s) @ '' stranded='' @ to_string_u64 (cs_stranded s) @
                        '' unknown='' @ to_string_u64 (cs_unknown s)))
                   else Inr
                     \<lparr>rep_federation = scr_federation request, rep_federation_generation = fs_generation snapshot,
                      rep_coordinator_epoch = fs_coordinator_epoch snapshot,
                      rep_snapshot_generation = fs_snapshot_generation snapshot,
                      rep_workload_class = scr_workload_class request, rep_kind = scr_kind request, rep_summary = s,
                      rep_findings = stable_sort StrandedCapacityFinding_less (str_findings st),
                      rep_excluded_stale_clusters = str_stale st, rep_excluded_unknown_clusters = str_unknown st,
                      rep_precision = precision, rep_evidence_class = cls,
                      rep_evidence = snd (EvidenceList_add_fields Provenance_DerivedAnalysis cls
                        ''stranded-capacity-analysis'' Precision_Derived
                        (''partition of idle capacity for workload class '' @
                         render_id (id_value (scr_workload_class request)) @ '' over '' @
                         to_string_nat (length (str_findings st)) @ '' capacity pools'') no_evidence)\<rparr>))"

definition Observatory_stranded_capacity ::
  "TimestampNanos \<Rightarrow> StrandedCapacityRequest \<Rightarrow> Observatory \<Rightarrow> StrandedCapacityReport result \<times> Observatory" where
  "Observatory_stranded_capacity now request ob =
     (let (snapshot, ob') = observe now (scr_federation request) ob in (analyze_stranded_capacity snapshot request, ob'))"

section \<open>Usable capacity is earned\<close>

definition mark_reasons :: "pool_mark list \<Rightarrow> StrandingReason list" where
  "mark_reasons marks = concat (map (\<lambda>m. case m of PoolFails reason _ \<Rightarrow> [reason] | PoolUndecided _ \<Rightarrow> []) marks)"

lemma mark_reasons_fail: "list_ex mark_fails marks \<longleftrightarrow> mark_reasons marks \<noteq> []"
  by (induction marks) (auto simp: mark_reasons_def split: pool_mark.split)

lemma fold_apply_primary:
  "pel_primary (fold apply_mark marks p) =
     foldl (\<lambda>q r. if q = StrandingReason_None \<or> stranding_reason_precedence r < stranding_reason_precedence q then r else q)
       (pel_primary p) (mark_reasons marks)"
proof (induction marks arbitrary: p)
  case (Cons m marks)
  then show ?case by (cases m) (simp_all add: mark_reasons_def note_reason_def)
qed (simp add: mark_reasons_def)

lemma precedence_None: "stranding_reason_precedence r \<le> 17" "stranding_reason_precedence r = 17 \<longleftrightarrow> r = StrandingReason_None"
  by (cases r; simp)+

lemma foldl_primary:
  assumes "StrandingReason_None \<notin> set rs"
  shows "(let q' = foldl (\<lambda>q r. if q = StrandingReason_None \<or> stranding_reason_precedence r < stranding_reason_precedence q
            then r else q) q rs
    in (q' = q \<or> q' \<in> set rs) \<and> stranding_reason_precedence q' \<le> stranding_reason_precedence q \<and>
       (\<forall>r \<in> set rs. stranding_reason_precedence q' \<le> stranding_reason_precedence r))"
  using assms
proof (induction rs arbitrary: q)
  case (Cons r rs)
  let ?q = "if q = StrandingReason_None \<or> stranding_reason_precedence r < stranding_reason_precedence q then r else q"
  have "stranding_reason_precedence ?q \<le> stranding_reason_precedence q"
    "stranding_reason_precedence ?q \<le> stranding_reason_precedence r" "?q = q \<or> ?q = r"
    using precedence_None [of r] precedence_None [of q] by auto
  with Cons.IH [of ?q] Cons.prems show ?case by (auto simp: Let_def)
qed simp

text \<open>The checks never report the absent reason.\<close>

lemma mark_reasons_simps [simp]:
  "mark_reasons [] = []" "mark_reasons (PoolFails r n # ms) = r # mark_reasons ms"
  "mark_reasons (PoolUndecided n # ms) = mark_reasons ms" "mark_reasons (xs @ ys) = mark_reasons xs @ mark_reasons ys"
  by (simp_all add: mark_reasons_def)

lemma require_text_reason:
  "r \<in> set (mark_reasons (require_text e v key reason l)) \<Longrightarrow> r = reason"
  by (auto simp: require_text_def split: option.splits if_splits)

lemma requirement_reason: "StrandingReason_None \<notin> set (mark_reasons (concat (map (requirement_mark e) rs)))"
  by (induction rs) (auto simp: requirement_mark_def reason_for_requirement_def split: Tri.splits if_splits)

lemma reasons_given: "StrandingReason_None \<notin> set (mark_reasons (pool_marks w a c s k r p))"
proof -
  have format: "StrandingReason_None \<notin> set (mark_reasons (format_marks x e))" for x e
    by (auto simp: format_marks_def dest: require_text_reason)
  have artifact: "StrandingReason_None \<notin> set (mark_reasons (artifact_marks x k))"
    "StrandingReason_None \<notin> set (mark_reasons (runtime_abi_marks x r))" for x
    by (auto simp: artifact_marks_def runtime_abi_marks_def split: option.splits if_splits)
  have work: "StrandingReason_None \<notin> set (mark_reasons (workload_marks x k e))" for x e
    using requirement_reason by (auto simp: workload_marks_def memory_marks_def Let_def split: option.splits if_splits)
  have policy: "StrandingReason_None \<notin> set (mark_reasons (policy_marks x c s))" for x
    by (auto simp: policy_marks_def Let_def split: option.splits Tri.splits)
  show ?thesis using format artifact work policy by (auto simp: pool_marks_def Let_def split: option.splits)
qed

text \<open>No mark means that every check found its evidence.\<close>

lemma unmarked_checks:
  "requirement_mark e r = [] \<longleftrightarrow> chk_satisfied (evaluate_requirement r e) = Tri_Yes \<or>
     (req_optional r \<and> chk_satisfied (evaluate_requirement r e) = Tri_No)"
  "memory_marks w k = [] \<longleftrightarrow> wr_required_memory_bytes_per_accelerator w = 0 \<or>
     (\<exists>x. k = Some x \<and> wr_required_memory_bytes_per_accelerator w \<le> ar_memory_bytes_per_device x)"
  "artifact_marks a k = [] \<Longrightarrow> is_code_bearing (art_kind a) \<Longrightarrow>
     \<exists>x. k = Some x \<and> targets_architecture a (ar_architecture x)"
  "runtime_abi_marks a rt = [] \<Longrightarrow> art_runtime_abi a \<noteq> [] \<Longrightarrow> \<exists>r. rt = Some r \<and> rr_abi r = art_runtime_abi a"
  "policy_marks p c s = [] \<Longrightarrow> permits_cluster p (clr_id c) = Tri_Yes"
  "policy_marks p c (Some site) = [] \<Longrightarrow> permits_site p (sr_id site) \<noteq> Tri_No"
proof -
  show "memory_marks w k = [] \<longleftrightarrow> wr_required_memory_bytes_per_accelerator w = 0 \<or>
      (\<exists>x. k = Some x \<and> wr_required_memory_bytes_per_accelerator w \<le> ar_memory_bytes_per_device x)"
    by (auto simp: memory_marks_def Let_def word_less_nat_alt word_le_nat_alt unat_eq_0 [symmetric]
        split: option.splits if_splits)
qed (auto simp: requirement_mark_def artifact_marks_def runtime_abi_marks_def policy_marks_def Let_def
      split: option.splits if_splits Tri.splits)

lemma eligible_unmarked:
  "pel_decided (evaluate_pool w a c s k rt p kind) \<Longrightarrow> pel_eligible (evaluate_pool w a c s k rt p kind) \<longleftrightarrow>
     pool_marks w a c s k rt p = []"
  by (auto simp: evaluate_pool_def Let_def PoolEligibility_init_def split: if_splits)

lemma decided_ready:
  "pel_decided (evaluate_pool w a c s k rt p kind) \<Longrightarrow>
     clr_readiness c \<noteq> Readiness_NotReady \<and> clr_readiness c \<noteq> Readiness_Draining \<and>
     (kind = ResourceKind_Accelerator \<longrightarrow> k \<noteq> None)"
  by (auto simp: evaluate_pool_def Let_def PoolEligibility_init_def split: if_splits)

lemma stranded_primary:
  assumes "pel_decided (evaluate_pool w a c s k rt p kind)" "\<not> pel_eligible (evaluate_pool w a c s k rt p kind)"
  shows "pel_primary (evaluate_pool w a c s k rt p kind) \<in> set (mark_reasons (pool_marks w a c s k rt p)) \<and>
    (\<forall>r \<in> set (mark_reasons (pool_marks w a c s k rt p)).
       stranding_reason_precedence (pel_primary (evaluate_pool w a c s k rt p kind)) \<le> stranding_reason_precedence r)"
proof -
  let ?m = "pool_marks w a c s k rt p"
  have fails: "mark_reasons ?m \<noteq> []"
    and primary: "pel_primary (evaluate_pool w a c s k rt p kind) = pel_primary (fold apply_mark ?m PoolEligibility_init)"
    using assms by (auto simp: evaluate_pool_def Let_def PoolEligibility_init_def mark_reasons_fail split: if_splits)
  let ?q = "pel_primary (fold apply_mark ?m PoolEligibility_init)"
  have spec: "(?q = StrandingReason_None \<or> ?q \<in> set (mark_reasons ?m)) \<and>
      (\<forall>r \<in> set (mark_reasons ?m). stranding_reason_precedence ?q \<le> stranding_reason_precedence r)"
    using foldl_primary [OF reasons_given [of w a c s k rt p], of StrandingReason_None]
    unfolding fold_apply_primary by (simp add: Let_def PoolEligibility_init_def)
  moreover have "?q \<noteq> StrandingReason_None"
  proof
    assume "?q = StrandingReason_None"
    moreover obtain r where r: "r \<in> set (mark_reasons ?m)" using fails by (cases "mark_reasons ?m") auto
    ultimately have "stranding_reason_precedence r = 17"
      using spec precedence_None(1) [of r] by (metis le_antisym precedence_None(2))
    then show False using r reasons_given by (metis precedence_None(2))
  qed
  ultimately show ?thesis unfolding primary by blast
qed


section \<open>The breakdown of one pool\<close>

lemma tally_add_fresh:
  assumes "tally_ok t" and "tally_get t r = 0"
  shows "fst (tally_add r n t) = Success"
  using assms reason_index_less [of r] unat_u64_less [of n]
  by (auto simp: tally_add_def tally_get_def Let_def checked_add_None not_le split: option.splits)

lemma tally_add_all_fresh:
  assumes "tally_ok t" "distinct (map fst xs)" "\<And>r. r \<in> fst ` set xs \<Longrightarrow> tally_get t r = 0"
  shows "\<exists>t'. tally_add_all xs t = Inr t' \<and> tally_ok t'"
  using assms
proof (induction xs arbitrary: t)
  case (Cons x xs)
  obtain r n where x: "x = (r, n)" by (cases x)
  let ?t = "snd (tally_add r n t)"
  have success: "fst (tally_add r n t) = Success" using Cons.prems tally_add_fresh by (simp add: x)
  have "\<exists>t'. tally_add_all xs ?t = Inr t' \<and> tally_ok t'"
  proof (rule Cons.IH)
    show "tally_ok ?t" using Cons.prems(1) by (rule tally_add_ok)
    show "distinct (map fst xs)" using Cons.prems(2) by simp
    fix s assume s: "s \<in> fst ` set xs"
    then have "s \<noteq> r" "tally_get t s = 0" using Cons.prems(2,3) by (auto simp: x)
    then show "tally_get ?t s = 0"
      using tally_add_get [OF Cons.prems(1) success, of s] by (simp add: unat_eq_0 [symmetric] del: unat_eq_0)
  qed
  then show ?case using success by (cases "tally_add r n t") (simp add: x)
qed simp

lemma tally_get_init: "tally_get ReasonTally_init r = 0"
  using reason_index_less [of r] by (simp add: tally_get_def ReasonTally_init_def)

lemma distinct_non_zero: "distinct (map fst (tally_non_zero t))"
proof -
  have "distinct (map fst (filter P (zip StrandingReason_values xs)))" for P and xs :: "u64 list"
    by (rule distinct_map_filter, unfold map_fst_zip_take, rule distinct_take) (simp add: StrandingReason_values_def)
  then show ?thesis by (simp add: tally_non_zero_def)
qed

lemma pool_breakdown_closes:
  "\<exists>b. pool_breakdown e idle = Inr b \<and> eb_idle b = idle \<and> eb_closes b \<and>
     eb_usable b = (if pel_decided e \<and> pel_eligible e then idle else 0) \<and>
     eb_unknown b = (if pel_decided e then 0 else idle) \<and>
     eb_stranded b = (if pel_decided e \<and> \<not> pel_eligible e then idle else 0) \<and>
     tally_ok (eb_stranded_by_primary_reason b) \<and> tally_sum (eb_stranded_by_primary_reason b) = unat (eb_stranded b)"
proof (cases "pel_decided e \<and> \<not> pel_eligible e")
  case False
  then show ?thesis
    by (auto simp: pool_breakdown_def Let_def EligibilityBreakdown_init_def eb_closes_iff tally_total_exact
        tally_sum_def ReasonTally_init_def sum_list_replicate eb_stranded_def checked_sub_def tally_ok_def)
next
  case True
  let ?b = "EligibilityBreakdown_init\<lparr>eb_idle := idle\<rparr>"
  let ?t = "snd (tally_add (pel_primary e) idle ReasonTally_init)"
  have success: "fst (tally_add (pel_primary e) idle ReasonTally_init) = Success"
    by (rule tally_add_fresh [OF tally_ok_init tally_get_init])
  then have primary: "tally_add_all [(pel_primary e, idle)] ReasonTally_init = Inr ?t"
    by (cases "tally_add (pel_primary e) idle ReasonTally_init") simp
  have sum: "tally_sum ?t = unat idle"
    using tally_add_sum [OF tally_ok_init success] by (simp add: tally_sum_def ReasonTally_init_def sum_list_replicate)
  then have total: "unat (tally_total ?t) = unat idle" using unat_u64_le [of idle] by (simp add: tally_total_exact)
  obtain occ where occ:
      "tally_add_all (map (\<lambda>(reason, _). (reason, idle)) (tally_non_zero (pel_occurrences e))) ReasonTally_init = Inr occ"
    using tally_add_all_fresh [OF tally_ok_init, of "map (\<lambda>(reason, _). (reason, idle)) (tally_non_zero (pel_occurrences e))"]
      distinct_non_zero tally_get_init by (auto simp: case_prod_beta comp_def)
  let ?r = "?b\<lparr>eb_stranded_by_primary_reason := ?t, eb_reason_occurrences := occ\<rparr>"
  have "pool_breakdown e idle = Inr ?r" using True primary occ by (simp add: pool_breakdown_def Let_def)
  moreover have "eb_closes ?r" by (simp add: eb_closes_iff EligibilityBreakdown_init_def total)
  moreover have "eb_stranded ?r = idle" by (simp add: eb_stranded_def EligibilityBreakdown_init_def checked_sub_def)
  ultimately show ?thesis using True sum tally_add_ok [OF tally_ok_init, of "pel_primary e" idle] by (intro exI [of _ ?r]) (simp add: EligibilityBreakdown_init_def)
qed

section \<open>The report partitions the capacity it covers\<close>

definition amount :: "('a \<Rightarrow> u64) \<Rightarrow> 'a list \<Rightarrow> nat" where
  "amount g xs = sum_list (map (\<lambda>x. unat (g x)) xs)"

lemma amount_simps [simp]: "amount g [] = 0" "amount g (x # xs) = unat (g x) + amount g xs"
  "amount g (xs @ ys) = amount g xs + amount g ys"
  by (simp_all add: amount_def)

lemma amount_mono: "(\<And>x. x \<in> set xs \<Longrightarrow> unat (g x) \<le> unat (h x)) \<Longrightarrow> amount g xs \<le> amount h xs"
  unfolding amount_def by (rule sum_list_mono) simp

lemma saturating_add_exact: "unat a + unat b < 18446744073709551616 \<Longrightarrow> unat (saturating_add a b) = unat a + unat b"
  by (simp add: saturating_add_def checked_add_exact u64_add_no_wrap)

abbreviation finding_nominal :: "StrandedCapacityFinding \<Rightarrow> u64" where
  "finding_nominal f \<equiv> cl_nominal (scf_ledger f)"

definition finding_ok :: "StrandedCapacityFinding \<Rightarrow> bool" where
  "finding_ok f \<longleftrightarrow> ledger_closes (scf_ledger f) \<and> eb_closes (scf_breakdown f) \<and>
     eb_idle (scf_breakdown f) = cl_idle (scf_ledger f) \<and>
     unat (cl_idle (scf_ledger f)) =
       unat (eb_usable (scf_breakdown f)) + unat (eb_stranded (scf_breakdown f)) + unat (eb_unknown (scf_breakdown f)) \<and>
     tally_ok (eb_stranded_by_primary_reason (scf_breakdown f)) \<and>
     tally_sum (eb_stranded_by_primary_reason (scf_breakdown f)) = unat (eb_stranded (scf_breakdown f))"

text \<open>Every column of a summary is the sum of that column over the findings.\<close>

definition summary_exact :: "CapacitySummary \<Rightarrow> StrandedCapacityFinding list \<Rightarrow> bool" where
  "summary_exact s fs \<longleftrightarrow>
     unat (cs_nominal s) = amount finding_nominal fs \<and>
     unat (cs_offline s) = amount (\<lambda>f. cl_offline (scf_ledger f)) fs \<and>
     unat (cs_allocated s) = amount (\<lambda>f. cl_allocated (scf_ledger f)) fs \<and>
     unat (cs_reserved s) = amount (\<lambda>f. cl_reserved (scf_ledger f)) fs \<and>
     unat (cs_draining s) = amount (\<lambda>f. cl_draining (scf_ledger f)) fs \<and>
     unat (cs_unusable s) = amount (\<lambda>f. cl_unusable (scf_ledger f)) fs \<and>
     unat (cs_idle s) = amount (\<lambda>f. cl_idle (scf_ledger f)) fs \<and>
     unat (cs_usable s) = amount (\<lambda>f. eb_usable (scf_breakdown f)) fs \<and>
     unat (cs_stranded s) = amount (\<lambda>f. eb_stranded (scf_breakdown f)) fs \<and>
     unat (cs_unknown s) = amount (\<lambda>f. eb_unknown (scf_breakdown f)) fs"

lemma finding_columns:
  assumes "finding_ok f"
  shows "unat (cl_offline (scf_ledger f)) \<le> unat (finding_nominal f)" "unat (cl_allocated (scf_ledger f)) \<le> unat (finding_nominal f)"
    "unat (cl_reserved (scf_ledger f)) \<le> unat (finding_nominal f)" "unat (cl_draining (scf_ledger f)) \<le> unat (finding_nominal f)"
    "unat (cl_unusable (scf_ledger f)) \<le> unat (finding_nominal f)" "unat (cl_idle (scf_ledger f)) \<le> unat (finding_nominal f)"
    "unat (eb_usable (scf_breakdown f)) \<le> unat (finding_nominal f)" "unat (eb_stranded (scf_breakdown f)) \<le> unat (finding_nominal f)"
    "unat (eb_unknown (scf_breakdown f)) \<le> unat (finding_nominal f)"
  using assms by (simp_all add: finding_ok_def ledger_closes_def)

abbreviation stranded_overflow :: Error where
  "stranded_overflow \<equiv> Error CapacityInconsistent ''stranded report nominal overflowed'' []"

lemma summary_add_exact:
  assumes s: "summary_exact s fs" and ok: "\<And>g. g \<in> set (fs @ [f]) \<Longrightarrow> finding_ok g"
  shows "if amount finding_nominal (fs @ [f]) < 18446744073709551616
    then \<exists>s'. summary_add f s = Inr s' \<and> summary_exact s' (fs @ [f]) else summary_add f s = Inl stranded_overflow"
proof (cases "amount finding_nominal (fs @ [f]) < 18446744073709551616")
  case False
  then have "checked_add (cs_nominal s) (finding_nominal f) = None"
    using s by (simp add: summary_exact_def checked_add_None)
  with False show ?thesis by (simp add: summary_add_def Let_def)
next
  case True
  have col: "amount g fs + unat (g f) < 18446744073709551616" if "\<And>h. finding_ok h \<Longrightarrow> unat (g h) \<le> unat (finding_nominal h)" for g
    using amount_mono [of "fs @ [f]" g finding_nominal] ok that True by simp
  have nominal: "checked_add (cs_nominal s) (finding_nominal f) = Some (cs_nominal s + finding_nominal f)"
    "unat (cs_nominal s + finding_nominal f) = unat (cs_nominal s) + unat (finding_nominal f)"
    using True s by (simp_all add: summary_exact_def checked_add_exact u64_add_no_wrap)
  note fits = col [OF finding_columns(1)] col [OF finding_columns(2)] col [OF finding_columns(3)] col [OF finding_columns(4)]
    col [OF finding_columns(5)] col [OF finding_columns(6)] col [OF finding_columns(7)] col [OF finding_columns(8)]
    col [OF finding_columns(9)]
  show ?thesis
    using True s nominal fits by (simp add: summary_add_def Let_def summary_exact_def saturating_add_exact)
qed

lemma summary_exact_closes:
  assumes "summary_exact s fs" and "\<And>f. f \<in> set fs \<Longrightarrow> finding_ok f"
  shows "unat (cs_usable s) + unat (cs_stranded s) + unat (cs_unknown s) = unat (cs_idle s)" "summary_closes s"
proof -
  have "amount (\<lambda>f. eb_usable (scf_breakdown f)) fs + amount (\<lambda>f. eb_stranded (scf_breakdown f)) fs +
      amount (\<lambda>f. eb_unknown (scf_breakdown f)) fs = amount (\<lambda>f. cl_idle (scf_ledger f)) fs"
    using assms(2) by (induction fs) (auto simp: finding_ok_def)
  then show sum: "unat (cs_usable s) + unat (cs_stranded s) + unat (cs_unknown s) = unat (cs_idle s)"
    using assms(1) by (simp add: summary_exact_def)
  have two: "unat (cs_usable s) + unat (cs_stranded s) < 18446744073709551616"
    and three: "unat (cs_usable s) + unat (cs_stranded s) + unat (cs_unknown s) < 18446744073709551616"
    using sum unat_u64_less [of "cs_idle s"] by linarith+
  let ?x = "cs_usable s + cs_stranded s"
  have x: "unat ?x = unat (cs_usable s) + unat (cs_stranded s)" by (rule u64_add_no_wrap [OF two])
  have "checked_add ?x (cs_unknown s) = Some (?x + cs_unknown s)" by (rule checked_add_exact) (use three x in simp)
  moreover have "unat (?x + cs_unknown s) = unat (cs_idle s)"
    using u64_add_no_wrap [of ?x "cs_unknown s"] three x sum by simp
  ultimately show "summary_closes s"
    by (simp add: summary_closes_def checked_add_exact [OF two] u64_eq_iff)
qed

definition finding_of :: "FederationSnapshot \<Rightarrow> WorkloadClassId \<Rightarrow> strand_query \<Rightarrow> ClusterRecord \<Rightarrow> CapacityPool \<Rightarrow> StrandedCapacityFinding" where
  "finding_of snapshot wc q c p = projr (pool_finding snapshot wc q c p)"

lemma pool_finding_ok:
  "pool_finding snapshot wc q c p = Inr (finding_of snapshot wc q c p)"
  "scf_cluster (finding_of snapshot wc q c p) = clr_id c" "scf_pool (finding_of snapshot wc q c p) = cp_pool_id p"
  "scf_ledger (finding_of snapshot wc q c p) = cp_ledger p"
  "ledger_closes (cp_ledger p) \<Longrightarrow> finding_ok (finding_of snapshot wc q c p)"
proof -
  let ?e = "pool_eligibility snapshot q c p" and ?idle = "cl_idle (cp_ledger p)"
  obtain b where b: "pool_breakdown ?e ?idle = Inr b" "eb_idle b = ?idle" "eb_closes b"
    "eb_usable b = (if pel_decided ?e \<and> pel_eligible ?e then ?idle else 0)"
    "eb_unknown b = (if pel_decided ?e then 0 else ?idle)"
    "eb_stranded b = (if pel_decided ?e \<and> \<not> pel_eligible ?e then ?idle else 0)"
    "tally_ok (eb_stranded_by_primary_reason b)" "tally_sum (eb_stranded_by_primary_reason b) = unat (eb_stranded b)"
    using pool_breakdown_closes [of ?e ?idle] by blast
  have sum: "unat ?idle = unat (eb_usable b) + unat (eb_stranded b) + unat (eb_unknown b)" by (auto simp: b(4-6))
  show "pool_finding snapshot wc q c p = Inr (finding_of snapshot wc q c p)"
    "scf_cluster (finding_of snapshot wc q c p) = clr_id c" "scf_pool (finding_of snapshot wc q c p) = cp_pool_id p"
    "scf_ledger (finding_of snapshot wc q c p) = cp_ledger p"
    "ledger_closes (cp_ledger p) \<Longrightarrow> finding_ok (finding_of snapshot wc q c p)"
    using b(1-3,7,8) sum by (simp_all add: finding_of_def pool_finding_def Let_def finding_ok_def)
qed

text \<open>What holds of the locals of the loop, and what one more group of findings does to them.\<close>

definition stranding_ok :: "stranding \<Rightarrow> bool" where
  "stranding_ok st \<longleftrightarrow> summary_exact (str_summary st) (str_findings st) \<and> (\<forall>f \<in> set (str_findings st). finding_ok f)"

definition extended :: "stranding result \<Rightarrow> stranding \<Rightarrow> StrandedCapacityFinding list \<Rightarrow> ClusterId list \<Rightarrow> ClusterId list \<Rightarrow> bool" where
  "extended out st fs stale unknown \<longleftrightarrow>
     (if amount finding_nominal (str_findings st @ fs) < 18446744073709551616
      then \<exists>st'. out = Inr st' \<and> stranding_ok st' \<and> str_findings st' = str_findings st @ fs \<and>
        str_stale st' = str_stale st @ stale \<and> str_unknown st' = str_unknown st @ unknown
      else out = Inl stranded_overflow)"

lemma stranding_ok_fits: "stranding_ok st \<Longrightarrow> amount finding_nominal (str_findings st) < 18446744073709551616"
  using unat_u64_less by (metis stranding_ok_def summary_exact_def)

lemma extended_none: "stranding_ok st \<Longrightarrow> extended (Inr st) st [] [] []"
  using stranding_ok_fits by (simp add: extended_def)

lemma extended_trans:
  assumes "extended out st fs stale unknown" and "\<And>st'. stranding_ok st' \<Longrightarrow> extended (rest st') st' fs' stale' unknown'"
  shows "extended (case out of Inl e \<Rightarrow> Inl e | Inr st' \<Rightarrow> rest st') st (fs @ fs') (stale @ stale') (unknown @ unknown')"
proof (cases "amount finding_nominal (str_findings st @ fs) < 18446744073709551616")
  case True
  then obtain st' where st': "out = Inr st'" "stranding_ok st'" "str_findings st' = str_findings st @ fs"
    "str_stale st' = str_stale st @ stale" "str_unknown st' = str_unknown st @ unknown"
    using assms(1) by (auto simp: extended_def)
  from assms(2) [OF st'(2)] st' show ?thesis by (auto simp: extended_def split: if_splits)
next
  case False
  with assms(1) show ?thesis by (simp add: extended_def)
qed

lemma strand_pool_extends:
  assumes "stranding_ok st" and "ledger_closes (cp_ledger p)"
  shows "extended (strand_pool snapshot wc q c p st) st [finding_of snapshot wc q c p] [] []"
proof -
  let ?f = "finding_of snapshot wc q c p"
  have f: "finding_ok ?f" by (rule pool_finding_ok(5) [OF assms(2)])
  have sum: "if amount finding_nominal (str_findings st @ [?f]) < 18446744073709551616
      then \<exists>s'. summary_add ?f (str_summary st) = Inr s' \<and> summary_exact s' (str_findings st @ [?f])
      else summary_add ?f (str_summary st) = Inl stranded_overflow"
    by (rule summary_add_exact) (use assms(1) f in \<open>auto simp: stranding_ok_def\<close>)
  show ?thesis
  proof (cases "amount finding_nominal (str_findings st @ [?f]) < 18446744073709551616")
    case True
    with sum obtain s' where "summary_add ?f (str_summary st) = Inr s'" "summary_exact s' (str_findings st @ [?f])" by auto
    with True assms(1) f show ?thesis
      by (simp add: extended_def strand_pool_def pool_finding_ok(1) stranding_ok_def ball_Un)
  next
    case False
    with sum show ?thesis by (simp add: extended_def strand_pool_def pool_finding_ok(1))
  qed
qed

lemma strand_pools_extend:
  "stranding_ok st \<Longrightarrow> (\<And>p. p \<in> set ps \<Longrightarrow> ledger_closes (cp_ledger p)) \<Longrightarrow>
     extended (try_each (strand_pool snapshot wc q c) ps st) st (map (finding_of snapshot wc q c) ps) [] []"
proof (induction ps arbitrary: st)
  case Nil
  then show ?case by (simp add: extended_none)
next
  case (Cons p ps)
  have "extended (strand_pool snapshot wc q c p st) st [finding_of snapshot wc q c p] [] []"
    by (rule strand_pool_extends) (use Cons.prems in auto)
  moreover have "extended (try_each (strand_pool snapshot wc q c) ps st') st' (map (finding_of snapshot wc q c) ps) [] []"
    if "stranding_ok st'" for st' by (rule Cons.IH [OF that]) (use Cons.prems in auto)
  ultimately have "extended (try_each (strand_pool snapshot wc q c) (p # ps) st) st
      ([finding_of snapshot wc q c p] @ map (finding_of snapshot wc q c) ps) ([] @ []) ([] @ [])"
    unfolding try_each.simps by (rule extended_trans)
  then show ?case by simp
qed

definition covered :: "StrandedCapacityRequest \<Rightarrow> ClusterRecord list \<Rightarrow> (ClusterRecord \<times> CapacityPool) list" where
  "covered request cs =
     concat (map (\<lambda>c. map (Pair c) (requested_pools request c)) (filter (counted_cluster request) cs))"

definition left_stale :: "StrandedCapacityRequest \<Rightarrow> ClusterRecord list \<Rightarrow> ClusterId list" where
  "left_stale request cs = map clr_id (filter (\<lambda>c. requested_cluster request c \<and> \<not> counted_cluster request c) cs)"

definition left_unknown :: "StrandedCapacityRequest \<Rightarrow> ClusterRecord list \<Rightarrow> ClusterId list" where
  "left_unknown request cs = map clr_id (filter (\<lambda>c. counted_cluster request c \<and> requested_pools request c = []) cs)"

lemma strand_cluster_extends:
  assumes "stranding_ok st" and "\<And>p. p \<in> set (clr_capacity_pools c) \<Longrightarrow> ledger_closes (cp_ledger p)"
  shows "extended (strand_cluster snapshot request q c st) st
    (map (\<lambda>(c, p). finding_of snapshot (scr_workload_class request) q c p) (covered request [c]))
    (left_stale request [c]) (left_unknown request [c])"
proof -
  have closes: "\<And>p. p \<in> set (requested_pools request c) \<Longrightarrow> ledger_closes (cp_ledger p)"
    using assms(2) by (simp add: requested_pools_def)
  consider "\<not> requested_cluster request c" | "requested_cluster request c" "\<not> counted_cluster request c"
    | "counted_cluster request c" by blast
  then show ?thesis
  proof cases
    case 1
    then show ?thesis using extended_none [OF assms(1)]
      by (simp add: strand_cluster_def covered_def left_stale_def left_unknown_def counted_cluster_def)
  next
    case 2
    then show ?thesis using assms(1) stranding_ok_fits [OF assms(1)]
      by (simp add: strand_cluster_def covered_def left_stale_def left_unknown_def counted_cluster_def extended_def stranding_ok_def)
  next
    case 3
    let ?out = "try_each (strand_pool snapshot (scr_workload_class request) q c) (requested_pools request c) st"
    have "extended (case ?out of Inl e \<Rightarrow> Inl e | Inr st' \<Rightarrow>
        (if requested_pools request c = [] then Inr (st'\<lparr>str_unknown := str_unknown st' @ [clr_id c]\<rparr>) else Inr st')) st
        (map (finding_of snapshot (scr_workload_class request) q c) (requested_pools request c) @ []) ([] @ [])
        ([] @ (if requested_pools request c = [] then [clr_id c] else []))"
    proof (rule extended_trans [OF strand_pools_extend [OF assms(1) closes]])
      fix st' assume "stranding_ok st'"
      then show "extended (if requested_pools request c = [] then Inr (st'\<lparr>str_unknown := str_unknown st' @ [clr_id c]\<rparr>) else Inr st')
          st' [] [] (if requested_pools request c = [] then [clr_id c] else [])"
        using stranding_ok_fits [of st'] by (simp add: extended_def stranding_ok_def)
    qed
    moreover have "strand_cluster snapshot request q c st = (case ?out of Inl e \<Rightarrow> Inl e | Inr st' \<Rightarrow>
        (if requested_pools request c = [] then Inr (st'\<lparr>str_unknown := str_unknown st' @ [clr_id c]\<rparr>) else Inr st'))"
      using 3 by (auto simp: strand_cluster_def counted_cluster_def)
    ultimately show ?thesis using 3
      by (cases "requested_pools request c = []") (simp_all add: covered_def left_stale_def left_unknown_def comp_def)
  qed
qed

lemma strand_clusters_extend:
  "stranding_ok st \<Longrightarrow> (\<And>c p. c \<in> set cs \<Longrightarrow> p \<in> set (clr_capacity_pools c) \<Longrightarrow> ledger_closes (cp_ledger p)) \<Longrightarrow>
     extended (try_each (strand_cluster snapshot request q) cs st) st
       (map (\<lambda>(c, p). finding_of snapshot (scr_workload_class request) q c p) (covered request cs))
       (left_stale request cs) (left_unknown request cs)"
proof (induction cs arbitrary: st)
  case Nil
  then show ?case by (simp add: extended_none covered_def left_stale_def left_unknown_def)
next
  case (Cons c cs)
  have split: "covered request (c # cs) = covered request [c] @ covered request cs"
    "left_stale request (c # cs) = left_stale request [c] @ left_stale request cs"
    "left_unknown request (c # cs) = left_unknown request [c] @ left_unknown request cs"
    by (simp_all add: covered_def left_stale_def left_unknown_def)
  have "extended (strand_cluster snapshot request q c st) st
    (map (\<lambda>(c, p). finding_of snapshot (scr_workload_class request) q c p) (covered request [c]))
    (left_stale request [c]) (left_unknown request [c])"
    by (rule strand_cluster_extends) (use Cons.prems in auto)
  moreover have "extended (try_each (strand_cluster snapshot request q) cs st') st'
      (map (\<lambda>(c, p). finding_of snapshot (scr_workload_class request) q c p) (covered request cs))
      (left_stale request cs) (left_unknown request cs)" if "stranding_ok st'" for st'
    by (rule Cons.IH [OF that]) (use Cons.prems in auto)
  ultimately show ?case unfolding split map_append try_each.simps by (rule extended_trans)
qed

lemma amount_mset: "mset xs = mset ys \<Longrightarrow> amount g xs = amount g ys"
  unfolding amount_def sum_mset_sum_list [symmetric] mset_map by simp

lemma select_workload_None:
  "select_workload s wc = None \<longleftrightarrow> (\<forall>w \<in> set (fs_workloads s). wr_workload_class w \<noteq> wc)"
proof -
  have "foldl (\<lambda>selected w. if wr_workload_class w \<noteq> wc then selected else case selected of None \<Rightarrow> Some w
      | Some s \<Rightarrow> if wr_id w < wr_id s then Some w else selected) x ws = None \<longleftrightarrow>
      x = None \<and> (\<forall>w \<in> set ws. wr_workload_class w \<noteq> wc)" for x and ws :: "WorkloadRecord list"
    by (induction ws arbitrary: x) (auto split: option.split)
  then show ?thesis by (simp add: select_workload_def)
qed

lemma stranded_report:
  assumes "\<forall>c \<in> set (fs_clusters s). \<forall>p \<in> set (clr_capacity_pools c). ledger_closes (cp_ledger p)"
    and found: "\<not> (select_workload s (scr_workload_class request) = None \<and> \<not> id_empty (scr_workload_class request))"
  shows "if amount (\<lambda>(c, p). cl_nominal (cp_ledger p)) (covered request (fs_clusters s)) < 18446744073709551616
    then \<exists>rep. analyze_stranded_capacity s request = Inr rep \<and>
      mset (rep_findings rep) = mset (map (\<lambda>(c, p). finding_of s (scr_workload_class request)
        (strand_query_for s (select_workload s (scr_workload_class request))) c p) (covered request (fs_clusters s))) \<and>
      summary_exact (rep_summary rep) (rep_findings rep) \<and> (\<forall>f \<in> set (rep_findings rep). finding_ok f) \<and>
      rep_excluded_stale_clusters rep = left_stale request (fs_clusters s) \<and>
      rep_excluded_unknown_clusters rep = left_unknown request (fs_clusters s)
    else analyze_stranded_capacity s request = Inl stranded_overflow"
proof -
  let ?q = "strand_query_for s (select_workload s (scr_workload_class request))"
  let ?fs = "map (\<lambda>(c, p). finding_of s (scr_workload_class request) ?q c p) (covered request (fs_clusters s))"
  have "stranding_ok stranding_init" by (simp add: stranding_ok_def stranding_init_def summary_exact_def CapacitySummary_init_def)
  then have out: "extended (try_each (strand_cluster s request ?q) (fs_clusters s) stranding_init) stranding_init ?fs
      (left_stale request (fs_clusters s)) (left_unknown request (fs_clusters s))"
    by (rule strand_clusters_extend) (use assms(1) in blast)
  have nominal: "amount finding_nominal ?fs = amount (\<lambda>(c, p). cl_nominal (cp_ledger p)) (covered request (fs_clusters s))"
    by (simp add: amount_def comp_def case_prod_beta pool_finding_ok)
  show ?thesis
  proof (cases "amount (\<lambda>(c, p). cl_nominal (cp_ledger p)) (covered request (fs_clusters s)) < 18446744073709551616")
    case True
    with out nominal obtain st where st: "try_each (strand_cluster s request ?q) (fs_clusters s) stranding_init = Inr st"
      "stranding_ok st" "str_findings st = ?fs" "str_stale st = left_stale request (fs_clusters s)"
      "str_unknown st = left_unknown request (fs_clusters s)"
      by (auto simp: extended_def stranding_init_def)
    have ok: "summary_exact (str_summary st) ?fs" "\<forall>f \<in> set ?fs. finding_ok f" using st(2,3) by (auto simp: stranding_ok_def)
    have "summary_closes (str_summary st)" by (rule summary_exact_closes(2) [OF ok(1)]) (use ok(2) in blast)
    then have "\<exists>rep. analyze_stranded_capacity s request = Inr rep \<and>
        rep_findings rep = stable_sort StrandedCapacityFinding_less (str_findings st) \<and> rep_summary rep = str_summary st \<and>
        rep_excluded_stale_clusters rep = str_stale st \<and> rep_excluded_unknown_clusters rep = str_unknown st"
      unfolding analyze_stranded_capacity_def Let_def if_not_P [OF found] st(1) by (simp add: case_prod_beta)
    then obtain rep where rep: "analyze_stranded_capacity s request = Inr rep"
      "rep_findings rep = stable_sort StrandedCapacityFinding_less ?fs" "rep_summary rep = str_summary st"
      "rep_excluded_stale_clusters rep = str_stale st" "rep_excluded_unknown_clusters rep = str_unknown st"
      unfolding st(3) by blast
    have same: "mset (rep_findings rep) = mset ?fs" unfolding rep(2) by (rule mset_stable_sort)
    have "\<forall>f \<in> set (rep_findings rep). finding_ok f" using ok(2) mset_eq_setD [OF same] by blast
    moreover have "summary_exact (rep_summary rep) (rep_findings rep)"
      using ok(1) unfolding summary_exact_def rep(3) amount_mset [OF same] .
    ultimately show ?thesis unfolding if_P [OF True] using rep(1,4,5) same st(4,5) by metis
  next
    case False
    with out nominal have "try_each (strand_cluster s request ?q) (fs_clusters s) stranding_init = Inl stranded_overflow"
      by (simp add: extended_def stranding_init_def)
    then show ?thesis unfolding if_not_P [OF False] analyze_stranded_capacity_def Let_def if_not_P [OF found] by simp
  qed
qed

lemma snapshot_pools_close:
  assumes ok: "engine_ok ob" and "c \<in> set (fs_clusters (build_snapshot now f ob))" "p \<in> set (clr_capacity_pools c)"
  shows "ledger_closes (cp_ledger p)"
proof -
  note shown = build_snapshot_def Let_def case_prod_beta FederationSnapshot.simps
  have taken: "set (fst (append_matching budget keep rs st)) \<subseteq> set rs" for budget keep rs st
    using append_matching_subset [of budget keep rs st] by auto
  have "c \<in> set (smap_values (ob_clusters ob))" by (rule subsetD [OF taken assms(2) [unfolded shown set_by_id]])
  then have "smap_find (ob_clusters ob) (clr_id c) = Some c" by (simp add: shown_clusters.stored [OF ok])
  moreover have "map_ok (ob_clusters ob) (max_clusters (ob_bounds ob)) (cluster_ok ob)"
    using ok by (simp add: engine_ok_def records_ok_def)
  ultimately show ?thesis using assms(3) map_ok_find by (fastforce simp: cluster_ok_def pools_ok_def)
qed

text \<open>C35: the stranded-capacity report partitions exactly the capacity it covers. In every well-formed engine the query either
  reports, or refuses because no workload of the class is registered, or because the nominal capacity of the covered pools
  exceeds 64 bits; its own closing check never fails. A report has one finding for each requested pool of each requested
  cluster whose evidence counts; the summary columns are the exact sums; usable, stranded and unknown capacity add up to
  the idle capacity, in every finding and in total; and every other requested cluster is listed as stale, or as one
  without published capacity.\<close>

theorem stranded_report_partitions:
  assumes ok: "engine_ok ob"
  shows "let s = build_snapshot now (scr_federation request) ob; cover = covered request (fs_clusters s) in
    case fst (Observatory_stranded_capacity now request ob) of
      Inl e \<Rightarrow>
        (error_code e = NotFound \<and> (\<forall>w \<in> set (fs_workloads s). wr_workload_class w \<noteq> scr_workload_class request)) \<or>
        (error_code e = CapacityInconsistent \<and> 18446744073709551616 \<le> amount (\<lambda>(c, p). cl_nominal (cp_ledger p)) cover)
    | Inr rep \<Rightarrow>
        mset (map (\<lambda>f. (scf_cluster f, scf_pool f, scf_ledger f)) (rep_findings rep)) =
          mset (map (\<lambda>(c, p). (clr_id c, cp_pool_id p, cp_ledger p)) cover) \<and>
        (\<forall>f \<in> set (rep_findings rep). finding_ok f) \<and>
        summary_exact (rep_summary rep) (rep_findings rep) \<and>
        unat (cs_usable (rep_summary rep)) + unat (cs_stranded (rep_summary rep)) + unat (cs_unknown (rep_summary rep)) =
          unat (cs_idle (rep_summary rep)) \<and>
        rep_excluded_stale_clusters rep = left_stale request (fs_clusters s) \<and>
        rep_excluded_unknown_clusters rep = left_unknown request (fs_clusters s)"
proof -
  define s where "s = build_snapshot now (scr_federation request) ob"
  define cover where "cover = covered request (fs_clusters s)"
  have query: "fst (Observatory_stranded_capacity now request ob) = analyze_stranded_capacity s request"
    by (simp add: Observatory_stranded_capacity_def observe_def s_def)
  have closes: "\<forall>c \<in> set (fs_clusters s). \<forall>p \<in> set (clr_capacity_pools c). ledger_closes (cp_ledger p)"
    unfolding s_def by (intro ballI) (rule snapshot_pools_close [OF ok])
  show ?thesis
  proof (cases "select_workload s (scr_workload_class request) = None \<and> \<not> id_empty (scr_workload_class request)")
    case True
    then have "\<forall>w \<in> set (fs_workloads s). wr_workload_class w \<noteq> scr_workload_class request" by (simp add: select_workload_None)
    with True show ?thesis
      by (simp add: Let_def query s_def [symmetric] analyze_stranded_capacity_def not_found_def)
  next
    case False
    note report = stranded_report [of s request, OF closes False, folded cover_def]
    show ?thesis
    proof (cases "amount (\<lambda>(c, p). cl_nominal (cp_ledger p)) cover < 18446744073709551616")
      case True
      from report [unfolded if_P [OF True]] obtain rep where rep: "analyze_stranded_capacity s request = Inr rep"
        "mset (rep_findings rep) = mset (map (\<lambda>(c, p). finding_of s (scr_workload_class request)
           (strand_query_for s (select_workload s (scr_workload_class request))) c p) cover)"
        and exact: "summary_exact (rep_summary rep) (rep_findings rep)" and good: "\<forall>f \<in> set (rep_findings rep). finding_ok f"
        and left: "rep_excluded_stale_clusters rep = left_stale request (fs_clusters s)"
        "rep_excluded_unknown_clusters rep = left_unknown request (fs_clusters s)" by blast
      have cover: "mset (map (\<lambda>f. (scf_cluster f, scf_pool f, scf_ledger f)) (rep_findings rep)) =
          mset (map (\<lambda>(c, p). (clr_id c, cp_pool_id p, cp_ledger p)) cover)"
        unfolding mset_map rep(2) by (simp add: image_mset.compositionality comp_def case_prod_unfold pool_finding_ok)
      have "unat (cs_usable (rep_summary rep)) + unat (cs_stranded (rep_summary rep)) + unat (cs_unknown (rep_summary rep)) =
          unat (cs_idle (rep_summary rep))" by (rule summary_exact_closes(1) [OF exact]) (use good in blast)
      then show ?thesis unfolding Let_def query s_def [symmetric] cover_def [symmetric] rep(1) sum.case
        using cover good exact left by blast
    next
      case large: False
      with report show ?thesis by (simp add: Let_def query s_def [symmetric] cover_def [symmetric])
    qed
  qed
qed

end
