(* ===== verification/FO_Fragmentation.thy ===== *)
theory FO_Fragmentation
  imports FO_Stranding
begin

text \<open>
  Federation fragmentation (\<open>analysis.hpp\<close>, \<open>analyze_fragmentation\<close> of \<open>analysis.cpp\<close>, the \<open>FragmentationClass\<close> texts of
  \<open>snapshot.cpp\<close>): the usable capacity of a stranded-capacity report grouped by placement domain, the largest group that
  can be placed together, and why a required group cannot be assembled. The theorem: the grouping loses and duplicates
  nothing, and shortage and fragmentation are told apart exactly.
\<close>

section \<open>Classes\<close>

datatype FragmentationClass =
    FragmentationClass_None
  | FragmentationClass_CapacityShortage
  | FragmentationClass_PhysicalFragmentation
  | FragmentationClass_CompatibilityFragmentation
  | FragmentationClass_PolicyFragmentation
  | FragmentationClass_TopologyFragmentation
  | FragmentationClass_SiteFragmentation
  | FragmentationClass_Mixed
  | FragmentationClass_Unknown

definition FragmentationClass_values :: "FragmentationClass list" where
  "FragmentationClass_values =
     [FragmentationClass_None, FragmentationClass_CapacityShortage, FragmentationClass_PhysicalFragmentation,
      FragmentationClass_CompatibilityFragmentation, FragmentationClass_PolicyFragmentation,
      FragmentationClass_TopologyFragmentation, FragmentationClass_SiteFragmentation, FragmentationClass_Mixed,
      FragmentationClass_Unknown]"

fun FragmentationClass_to_string :: "FragmentationClass \<Rightarrow> string" where
  "FragmentationClass_to_string FragmentationClass_None = ''NONE''"
| "FragmentationClass_to_string FragmentationClass_CapacityShortage = ''CAPACITY_SHORTAGE''"
| "FragmentationClass_to_string FragmentationClass_PhysicalFragmentation = ''PHYSICAL_FRAGMENTATION''"
| "FragmentationClass_to_string FragmentationClass_CompatibilityFragmentation = ''COMPATIBILITY_FRAGMENTATION''"
| "FragmentationClass_to_string FragmentationClass_PolicyFragmentation = ''POLICY_FRAGMENTATION''"
| "FragmentationClass_to_string FragmentationClass_TopologyFragmentation = ''TOPOLOGY_FRAGMENTATION''"
| "FragmentationClass_to_string FragmentationClass_SiteFragmentation = ''SITE_FRAGMENTATION''"
| "FragmentationClass_to_string FragmentationClass_Mixed = ''MIXED''"
| "FragmentationClass_to_string FragmentationClass_Unknown = ''UNKNOWN''"

interpretation fragmentation_enum: named_enumeration FragmentationClass_values FragmentationClass_to_string
proof unfold_locales
  show "v \<in> set FragmentationClass_values" for v by (cases v) (simp_all add: FragmentationClass_values_def)
qed (simp_all add: FragmentationClass_values_def)

definition parse_fragmentation_class :: "string \<Rightarrow> FragmentationClass option" where
  "parse_fragmentation_class = parse_enum FragmentationClass_values FragmentationClass_to_string"

section \<open>Placement domains\<close>

record DomainCapacity =
  dcap_domain :: DomainId
  dcap_kind :: DomainKind
  dcap_site :: SiteId
  dcap_nominal :: u64
  dcap_usable :: u64
  dcap_stranded :: u64
  dcap_unknown :: u64
  dcap_clusters :: "ClusterId list"

definition DomainCapacity_init :: DomainCapacity where
  "DomainCapacity_init =
     \<lparr>dcap_domain = no_id, dcap_kind = DomainKind_Unknown, dcap_site = no_id, dcap_nominal = 0, dcap_usable = 0,
      dcap_stranded = 0, dcap_unknown = 0, dcap_clusters = []\<rparr>"

definition DomainCapacity_less :: "DomainCapacity \<Rightarrow> DomainCapacity \<Rightarrow> bool" where
  "DomainCapacity_less a b \<longleftrightarrow> dcap_domain a < dcap_domain b"

text \<open>The registered domains, before any capacity is counted.\<close>

definition domain_seed :: "DomainRecord \<Rightarrow> DomainCapacity" where
  "domain_seed d = DomainCapacity_init
     \<lparr>dcap_domain := dr_id d, dcap_kind := dr_kind d, dcap_site := dr_site d, dcap_clusters := dr_clusters d\<rparr>"

definition seeded_domains :: "FederationId \<Rightarrow> DomainRecord list \<Rightarrow> (DomainId, DomainCapacity) std_map" where
  "seeded_domains federation domains =
     foldl (\<lambda>m d. if \<not> id_empty federation \<and> dr_federation d \<noteq> federation then m
                  else smap_put (dr_id d) (domain_seed d) m) [] domains"

text \<open>The domain of a finding, its kind, and whether it was synthesized from the cluster.\<close>

definition row_domain :: "FederationSnapshot \<Rightarrow> StrandedCapacityFinding \<Rightarrow> DomainId \<times> DomainKind \<times> bool" where
  "row_domain snapshot row =
     (let own = (StrongId (id_value (scf_cluster row)), DomainKind_Cluster, True) in
      case find_cluster snapshot (scf_cluster row) of
        None \<Rightarrow> own
      | Some cluster \<Rightarrow>
          if id_empty (clr_domain cluster) then own
          else (clr_domain cluster,
                (case find_domain snapshot (clr_domain cluster) of Some record \<Rightarrow> dr_kind record
                 | None \<Rightarrow> DomainKind_Cluster), False))"

definition domain_add :: "StrandedCapacityFinding \<Rightarrow> DomainCapacity \<Rightarrow> DomainCapacity" where
  "domain_add row c = c
     \<lparr>dcap_nominal := saturating_add (dcap_nominal c) (cl_nominal (scf_ledger row)),
      dcap_usable := saturating_add (dcap_usable c) (eb_usable (scf_breakdown row)),
      dcap_stranded := saturating_add (dcap_stranded c) (eb_stranded (scf_breakdown row)),
      dcap_unknown := saturating_add (dcap_unknown c) (eb_unknown (scf_breakdown row)),
      dcap_clusters := (if scf_cluster row \<in> set (dcap_clusters c) then dcap_clusters c
                        else stable_sort (<) (dcap_clusters c @ [scf_cluster row]))\<rparr>"

record fragmenting =
  frg_domains :: "(DomainId, DomainCapacity) std_map"
  frg_synthesized :: bool
  frg_reasons :: ReasonTally

definition fragment_row :: "FederationSnapshot \<Rightarrow> StrandedCapacityFinding \<Rightarrow> fragmenting \<Rightarrow> fragmenting result" where
  "fragment_row snapshot row st =
     (let (domain_id, domain_kind, synthesized) = row_domain snapshot row;
          capacity = (case smap_find (frg_domains st) domain_id of
              Some c \<Rightarrow> c
            | None \<Rightarrow> DomainCapacity_init\<lparr>dcap_domain := domain_id, dcap_kind := domain_kind, dcap_site := scf_site row\<rparr>)
      in case tally_add_all (tally_non_zero (eb_stranded_by_primary_reason (scf_breakdown row))) (frg_reasons st) of
           Inl e \<Rightarrow> Inl e
         | Inr reasons \<Rightarrow> Inr
             \<lparr>frg_domains = smap_put domain_id (domain_add row capacity) (frg_domains st),
              frg_synthesized = (frg_synthesized st \<or> synthesized), frg_reasons = reasons\<rparr>)"

section \<open>The finding\<close>

record FragmentationFinding =
  ff_federation :: FederationId
  ff_federation_generation :: FederationGeneration
  ff_workload_class :: WorkloadClassId
  ff_kind :: ResourceKind
  ff_required_domain_kind :: DomainKind
  ff_required_per_group :: u64
  ff_aggregate_nominal :: u64
  ff_aggregate_usable :: u64
  ff_aggregate_stranded :: u64
  ff_aggregate_unknown :: u64
  ff_largest_legal_group :: u64
  ff_largest_domain :: DomainId
  ff_legal_domain_count :: u64
  ff_classification :: FragmentationClass
  ff_domains :: "DomainCapacity list"
  ff_stranded_by_reason :: ReasonTally
  ff_capacity_generation :: CapacityGeneration
  ff_capability_generation :: AcceleratorCapabilityGeneration
  ff_topology_generation :: TopologyGeneration
  ff_currentness :: Currentness
  ff_precision :: Precision
  ff_evidence_class :: EvidenceClass
  ff_evidence :: EvidenceList

definition FragmentationFinding_init :: FragmentationFinding where
  "FragmentationFinding_init =
     \<lparr>ff_federation = no_id, ff_federation_generation = gen_unset, ff_workload_class = no_id,
      ff_kind = ResourceKind_Accelerator, ff_required_domain_kind = DomainKind_Unknown, ff_required_per_group = 0,
      ff_aggregate_nominal = 0, ff_aggregate_usable = 0, ff_aggregate_stranded = 0, ff_aggregate_unknown = 0,
      ff_largest_legal_group = 0, ff_largest_domain = no_id, ff_legal_domain_count = 0,
      ff_classification = FragmentationClass_Unknown, ff_domains = [], ff_stranded_by_reason = ReasonTally_init,
      ff_capacity_generation = gen_unset, ff_capability_generation = gen_unset, ff_topology_generation = gen_unset,
      ff_currentness = Currentness_Unknown, ff_precision = Precision_Unknown,
      ff_evidence_class = EvidenceClass_Unknown, ff_evidence = no_evidence\<rparr>"

definition aggregate_domain :: "DomainCapacity \<Rightarrow> FragmentationFinding \<Rightarrow> FragmentationFinding" where
  "aggregate_domain c f =
     (let larger = ff_largest_legal_group f < dcap_usable c in f
      \<lparr>ff_aggregate_nominal := saturating_add (ff_aggregate_nominal f) (dcap_nominal c),
       ff_aggregate_usable := saturating_add (ff_aggregate_usable f) (dcap_usable c),
       ff_aggregate_stranded := saturating_add (ff_aggregate_stranded f) (dcap_stranded c),
       ff_aggregate_unknown := saturating_add (ff_aggregate_unknown f) (dcap_unknown c),
       ff_largest_legal_group := (if larger then dcap_usable c else ff_largest_legal_group f),
       ff_largest_domain := (if larger then dcap_domain c else ff_largest_domain f),
       ff_legal_domain_count :=
         (if ff_required_per_group f \<noteq> 0 \<and> ff_required_per_group f \<le> dcap_usable c
          then ff_legal_domain_count f + 1 else ff_legal_domain_count f),
       ff_domains := ff_domains f @ [c]\<rparr>)"

definition policy_separates :: "StrandingReason \<Rightarrow> bool" where
  "policy_separates r \<longleftrightarrow> r \<in> {StrandingReason_SiteRestriction, StrandingReason_PolicyRestriction}"

definition topology_separates :: "StrandingReason \<Rightarrow> bool" where
  "topology_separates r \<longleftrightarrow>
     r \<in> {StrandingReason_TopologyConstraint, StrandingReason_PartitionGeometry, StrandingReason_MissingInterconnectFeature}"

definition compatibility_separates :: "StrandingReason \<Rightarrow> bool" where
  "compatibility_separates r \<longleftrightarrow> \<not> policy_separates r \<and> \<not> topology_separates r \<and>
     r \<notin> {StrandingReason_None, StrandingReason_Unknown, StrandingReason_IsolationRequirement,
           StrandingReason_MissingLocalStorageState, StrandingReason_MemoryInsufficient}"

definition classify_fragmentation :: "FragmentationFinding \<Rightarrow> FragmentationClass" where
  "classify_fragmentation f =
     (let reasons = map fst (tally_non_zero (ff_stranded_by_reason f));
          policy_reasons = list_ex policy_separates reasons;
          topology_reasons = list_ex topology_separates reasons;
          compatibility_reasons = list_ex compatibility_separates reasons
      in if ff_required_per_group f = 0 then FragmentationClass_Unknown
         else if ff_aggregate_usable f < ff_required_per_group f then FragmentationClass_CapacityShortage
         else if ff_required_per_group f \<le> ff_largest_legal_group f then FragmentationClass_None
         else if ff_required_domain_kind f = DomainKind_Federation \<and> policy_reasons then FragmentationClass_SiteFragmentation
         else if policy_reasons \<and> (compatibility_reasons \<or> topology_reasons) then FragmentationClass_Mixed
         else if policy_reasons then FragmentationClass_PolicyFragmentation
         else if compatibility_reasons \<and> topology_reasons then FragmentationClass_Mixed
         else if compatibility_reasons then FragmentationClass_CompatibilityFragmentation
         else if topology_reasons then FragmentationClass_TopologyFragmentation
         else FragmentationClass_PhysicalFragmentation)"

definition fragmentation_evidence :: "StrandedCapacityReport \<Rightarrow> FragmentationFinding \<Rightarrow> bool \<Rightarrow> EvidenceList" where
  "fragmentation_evidence report f synthesized =
     snd (EvidenceList_add_fields Provenance_DerivedAnalysis (ff_evidence_class f) ''fragmentation-analysis'' Precision_Derived
       (''grouped usable capacity into '' @ to_string_nat (length (ff_domains f)) @ '' placement domains'' @
        (if synthesized then
           ''; clusters that publish no domain were treated as their own cluster-scoped domain'' else []))
       (foldl (\<lambda>l r. snd (EvidenceList_add r l)) (ff_evidence f) (el_items (rep_evidence report))))"

definition fragmentation_request :: "FederationId \<Rightarrow> WorkloadClassId \<Rightarrow> ResourceKind \<Rightarrow> StrandedCapacityRequest" where
  "fragmentation_request federation workload_class kind =
     \<lparr>scr_federation = federation, scr_workload_class = workload_class, scr_kind = kind, scr_cluster = no_id,
      scr_accelerator_class = no_id, scr_include_stale = False\<rparr>"

definition analyze_fragmentation ::
  "FederationSnapshot \<Rightarrow> FederationId \<Rightarrow> WorkloadClassId \<Rightarrow> ResourceKind \<Rightarrow> FragmentationFinding result" where
  "analyze_fragmentation snapshot federation workload_class kind =
     (let own = (if id_empty federation then fs_federation snapshot else federation) in
      case select_workload snapshot workload_class of
        None \<Rightarrow> not_found ''no workload generation is registered for this workload class'' workload_class
      | Some workload \<Rightarrow>
          (case analyze_stranded_capacity snapshot (fragmentation_request own workload_class kind) of
             Inl e \<Rightarrow> Inl e
           | Inr report \<Rightarrow>
               (case try_each (fragment_row snapshot) (rep_findings report)
                       \<lparr>frg_domains = seeded_domains own (fs_domains snapshot), frg_synthesized = False,
                        frg_reasons = ReasonTally_init\<rparr> of
                  Inl e \<Rightarrow> Inl e
                | Inr st \<Rightarrow>
                    (let f = FragmentationFinding_init
                           \<lparr>ff_federation := own, ff_federation_generation := fs_generation snapshot,
                            ff_workload_class := workload_class, ff_kind := kind,
                            ff_required_per_group := ucast (wr_required_accelerators workload),
                            ff_required_domain_kind := wr_required_domain_kind workload,
                            ff_stranded_by_reason := frg_reasons st\<rparr>;
                         f = fold aggregate_domain (smap_values (frg_domains st)) f;
                         f = f\<lparr>ff_domains := stable_sort DomainCapacity_less (ff_domains f)\<rparr>;
                         f = f\<lparr>ff_classification := classify_fragmentation f,
                               ff_capacity_generation :=
                                 (case fs_clusters snapshot of [] \<Rightarrow> gen_unset | c # _ \<Rightarrow> clr_capacity_generation c),
                               ff_precision := rep_precision report, ff_evidence_class := rep_evidence_class report,
                               ff_currentness := (if fs_snapshot_generation snapshot = gen_unset then Currentness_Unknown
                                                  else Currentness_Current)\<rparr>
                     in Inr (f\<lparr>ff_evidence := fragmentation_evidence report f (frg_synthesized st)\<rparr>)))))"

definition Observatory_fragmentation ::
  "TimestampNanos \<Rightarrow> FederationId \<Rightarrow> WorkloadClassId \<Rightarrow> ResourceKind \<Rightarrow> Observatory \<Rightarrow> FragmentationFinding result \<times> Observatory" where
  "Observatory_fragmentation now federation workload_class kind ob =
     (let (snapshot, ob') = observe now federation ob in (analyze_fragmentation snapshot federation workload_class kind, ob'))"

section \<open>Grouping loses and duplicates nothing\<close>

abbreviation row_key :: "FederationSnapshot \<Rightarrow> StrandedCapacityFinding \<Rightarrow> DomainId" where
  "row_key snapshot row \<equiv> fst (row_domain snapshot row)"

definition rows_of :: "FederationSnapshot \<Rightarrow> DomainId \<Rightarrow> StrandedCapacityFinding list \<Rightarrow> StrandedCapacityFinding list" where
  "rows_of snapshot d rows = filter (\<lambda>r. row_key snapshot r = d) rows"

text \<open>The four columns of a domain are the sums over the findings of that domain.\<close>

definition domain_exact :: "DomainCapacity \<Rightarrow> StrandedCapacityFinding list \<Rightarrow> bool" where
  "domain_exact c rows \<longleftrightarrow>
     unat (dcap_nominal c) = amount finding_nominal rows \<and>
     unat (dcap_usable c) = amount (\<lambda>f. eb_usable (scf_breakdown f)) rows \<and>
     unat (dcap_stranded c) = amount (\<lambda>f. eb_stranded (scf_breakdown f)) rows \<and>
     unat (dcap_unknown c) = amount (\<lambda>f. eb_unknown (scf_breakdown f)) rows"

lemma domain_add_exact:
  assumes "domain_exact c rows" and "\<And>g. g \<in> set (rows @ [f]) \<Longrightarrow> finding_ok g"
    and "amount finding_nominal (rows @ [f]) < 18446744073709551616"
  shows "domain_exact (domain_add f c) (rows @ [f])"
proof -
  have col: "amount g rows + unat (g f) < 18446744073709551616" if "\<And>h. finding_ok h \<Longrightarrow> unat (g h) \<le> unat (finding_nominal h)" for g
    using amount_mono [of "rows @ [f]" g finding_nominal] assms(2,3) that by simp
  show ?thesis
    using assms(1,3) col [OF finding_columns(7)] col [OF finding_columns(8)] col [OF finding_columns(9)]
    by (simp add: domain_exact_def domain_add_def saturating_add_exact)
qed

lemma smap_values_put:
  assumes "smap_ok m"
  shows "amount g (smap_values (smap_put k v m)) + (case smap_find m k of Some w \<Rightarrow> unat (g w) | None \<Rightarrow> 0) =
    amount g (smap_values m) + unat (g v)"
  using assms
proof (induction m)
  case (Cons p m)
  obtain j w where p: "p = (j, w)" by (cases p)
  have "k < j \<Longrightarrow> map_of m k = None"
    using Cons.prems by (auto simp: p smap_ok_Cons map_of_eq_None_iff)
  then show ?case using Cons by (auto simp: p smap_values_def smap_find_def smap_ok_Cons)
qed (simp add: smap_values_def smap_find_def)

lemma rows_of_simps [simp]:
  "rows_of s d [] = []" "rows_of s d (rows @ [r]) = (if row_key s r = d then rows_of s d rows @ [r] else rows_of s d rows)"
  by (simp_all add: rows_of_def)

lemma amount_rows_of: "amount g (rows_of s d rows) \<le> amount g rows"
  by (induction rows) (auto simp: rows_of_def)

lemma tally_sum_init: "tally_sum ReasonTally_init = 0"
  by (simp add: tally_sum_def ReasonTally_init_def sum_list_replicate)

text \<open>The invariant of the loop over the findings.\<close>

definition fragmenting_ok :: "FederationSnapshot \<Rightarrow> StrandedCapacityFinding list \<Rightarrow> fragmenting \<Rightarrow> bool" where
  "fragmenting_ok s rows st \<longleftrightarrow>
     smap_ok (frg_domains st) \<and>
     (\<forall>d. case smap_find (frg_domains st) d of
        None \<Rightarrow> rows_of s d rows = [] | Some c \<Rightarrow> dcap_domain c = d \<and> domain_exact c (rows_of s d rows)) \<and>
     amount dcap_nominal (smap_values (frg_domains st)) = amount finding_nominal rows \<and>
     amount dcap_usable (smap_values (frg_domains st)) = amount (\<lambda>f. eb_usable (scf_breakdown f)) rows \<and>
     amount dcap_stranded (smap_values (frg_domains st)) = amount (\<lambda>f. eb_stranded (scf_breakdown f)) rows \<and>
     amount dcap_unknown (smap_values (frg_domains st)) = amount (\<lambda>f. eb_unknown (scf_breakdown f)) rows \<and>
     tally_ok (frg_reasons st) \<and> tally_sum (frg_reasons st) = amount (\<lambda>f. eb_stranded (scf_breakdown f)) rows"

lemma tally_add_fits:
  assumes "tally_ok t" and "tally_sum t + unat n < 18446744073709551616"
  shows "fst (tally_add r n t) = Success"
proof -
  have "unat (amounts t ! reason_index r) \<le> tally_sum t"
    using assms(1) reason_index_less [of r] elem_le_sum_list [of "reason_index r" "map unat (amounts t)"]
    by (simp add: tally_sum_def tally_ok_def)
  then have "checked_add (amounts t ! reason_index r) n = Some (amounts t ! reason_index r + n)"
    using assms(2) by (intro checked_add_exact) simp
  then show ?thesis using reason_index_less [of r] by (simp add: tally_add_def Let_def)
qed

lemma tally_add_all_sum:
  "tally_ok t \<Longrightarrow> tally_sum t + amount snd xs < 18446744073709551616 \<Longrightarrow>
     \<exists>t'. tally_add_all xs t = Inr t' \<and> tally_ok t' \<and> tally_sum t' = tally_sum t + amount snd xs"
proof (induction xs arbitrary: t)
  case (Cons x xs)
  obtain r n where x: "x = (r, n)" by (cases x)
  have success: "fst (tally_add r n t) = Success" using Cons.prems by (intro tally_add_fits) (simp_all add: x)
  let ?t = "snd (tally_add r n t)"
  have "tally_ok ?t" "tally_sum ?t = tally_sum t + unat n"
    using Cons.prems(1) tally_add_ok tally_add_sum [OF Cons.prems(1) success] by auto
  with Cons.IH [of ?t] Cons.prems(2) show ?case
    using success by (cases "tally_add r n t") (simp add: x add.assoc)
qed simp

lemma amount_non_zero: "amount g (filter (\<lambda>x. g x \<noteq> 0) xs) = amount g xs"
  by (induction xs) auto

lemma tally_non_zero_sum: "tally_ok t \<Longrightarrow> amount snd (tally_non_zero t) = tally_sum t"
proof -
  assume "tally_ok t"
  then have len: "length StrandingReason_values = length (amounts t)"
    by (simp add: tally_ok_def StrandingReason_values_def kStrandingReasonCount_def)
  have "amount snd (tally_non_zero t) = amount snd (filter (\<lambda>p. snd p \<noteq> 0) (zip StrandingReason_values (amounts t)))"
    by (rule amount_mset) (simp add: tally_non_zero_def)
  also have "\<dots> = amount snd (zip StrandingReason_values (amounts t))"
    by (rule amount_non_zero)
  also have "\<dots> = tally_sum t" using len map_snd_zip [of StrandingReason_values "amounts t"]
    by (simp add: amount_def tally_sum_def flip: map_map [unfolded comp_def])
  finally show ?thesis .
qed

lemma fragment_row_keeps:
  assumes inv: "fragmenting_ok s rows st" and ok: "\<And>g. g \<in> set (rows @ [r]) \<Longrightarrow> finding_ok g"
    and fits: "amount finding_nominal (rows @ [r]) < 18446744073709551616"
  shows "\<exists>st'. fragment_row s r st = Inr st' \<and> fragmenting_ok s (rows @ [r]) st'"
proof -
  obtain d kind syn where row: "row_domain s r = (d, kind, syn)" by (cases "row_domain s r")
  let ?m = "frg_domains st"
  define c where "c = (case smap_find ?m d of Some c \<Rightarrow> c
    | None \<Rightarrow> DomainCapacity_init\<lparr>dcap_domain := d, dcap_kind := kind, dcap_site := scf_site r\<rparr>)"
  let ?m' = "smap_put d (domain_add r c) ?m"
  have at: "case smap_find ?m e of None \<Rightarrow> rows_of s e rows = []
      | Some c \<Rightarrow> dcap_domain c = e \<and> domain_exact c (rows_of s e rows)" for e
    using inv by (simp add: fragmenting_ok_def)
  have c: "dcap_domain c = d" "domain_exact c (rows_of s d rows)"
    using at [of d] by (auto simp: c_def DomainCapacity_init_def domain_exact_def split: option.splits)
  have old: "(case smap_find ?m d of Some w \<Rightarrow> unat (g w) | None \<Rightarrow> 0) = unat (g c)"
    if "\<And>k i. unat (g (DomainCapacity_init\<lparr>dcap_domain := d, dcap_kind := k, dcap_site := i\<rparr>)) = 0" for g
    using that by (simp add: c_def split: option.split)
  have "domain_exact (domain_add r c) (rows_of s d rows @ [r])"
  proof (rule domain_add_exact [OF c(2)])
    show "finding_ok g" if "g \<in> set (rows_of s d rows @ [r])" for g using that ok by (auto simp: rows_of_def)
    show "amount finding_nominal (rows_of s d rows @ [r]) < 18446744073709551616"
      using fits amount_rows_of [of finding_nominal s d rows] by simp
  qed
  then have new: "domain_exact (domain_add r c) (rows_of s d (rows @ [r]))" by (simp add: row)
  have dcap: "dcap_domain (domain_add r c) = d" by (simp add: domain_add_def c(1))
  have find': "smap_find ?m' e = (if e = d then Some (domain_add r c) else smap_find ?m e)" for e
    by (simp add: smap_find_def map_of_smap_put)
  have per: "case smap_find ?m' e of None \<Rightarrow> rows_of s e (rows @ [r]) = []
      | Some c \<Rightarrow> dcap_domain c = e \<and> domain_exact c (rows_of s e (rows @ [r]))" for e
    using at [of e] new dcap by (cases "smap_find ?m e") (auto simp: find' row)
  have mok: "smap_ok ?m" using inv by (simp add: fragmenting_ok_def)
  have cols: "amount dcap_nominal (smap_values ?m') = amount finding_nominal (rows @ [r])"
    "amount dcap_usable (smap_values ?m') = amount (\<lambda>f. eb_usable (scf_breakdown f)) (rows @ [r])"
    "amount dcap_stranded (smap_values ?m') = amount (\<lambda>f. eb_stranded (scf_breakdown f)) (rows @ [r])"
    "amount dcap_unknown (smap_values ?m') = amount (\<lambda>f. eb_unknown (scf_breakdown f)) (rows @ [r])"
    using smap_values_put [OF mok, of dcap_nominal d "domain_add r c"] old [of dcap_nominal]
      smap_values_put [OF mok, of dcap_usable d "domain_add r c"] old [of dcap_usable]
      smap_values_put [OF mok, of dcap_stranded d "domain_add r c"] old [of dcap_stranded]
      smap_values_put [OF mok, of dcap_unknown d "domain_add r c"] old [of dcap_unknown]
      inv new c(2) by (simp_all add: DomainCapacity_init_def fragmenting_ok_def domain_exact_def row)
  let ?t = "eb_stranded_by_primary_reason (scf_breakdown r)"
  have t: "tally_ok ?t" "tally_sum ?t = unat (eb_stranded (scf_breakdown r))" using ok [of r] by (simp_all add: finding_ok_def)
  have "amount (\<lambda>f. eb_stranded (scf_breakdown f)) (rows @ [r]) \<le> amount finding_nominal (rows @ [r])"
    by (rule amount_mono) (use ok finding_columns(8) in blast)
  then obtain u where "tally_add_all (tally_non_zero ?t) (frg_reasons st) = Inr u" "tally_ok u"
      "tally_sum u = amount (\<lambda>f. eb_stranded (scf_breakdown f)) (rows @ [r])"
    using tally_add_all_sum [of "frg_reasons st" "tally_non_zero ?t"] tally_non_zero_sum [OF t(1)] t(2) inv fits
    by (auto simp: fragmenting_ok_def)
  moreover have "smap_ok ?m'" by (rule smap_ok_put [OF mok])
  ultimately show ?thesis using per cols
    by (simp add: fragment_row_def row Let_def c_def [symmetric] fragmenting_ok_def)
qed

lemma fragment_rows_keep:
  "fragmenting_ok s done_rows st \<Longrightarrow> (\<And>g. g \<in> set (done_rows @ rows) \<Longrightarrow> finding_ok g) \<Longrightarrow>
     amount finding_nominal (done_rows @ rows) < 18446744073709551616 \<Longrightarrow>
     \<exists>st'. try_each (fragment_row s) rows st = Inr st' \<and> fragmenting_ok s (done_rows @ rows) st'"
proof (induction rows arbitrary: done_rows st)
  case (Cons r rows)
  obtain st' where st': "fragment_row s r st = Inr st'" "fragmenting_ok s (done_rows @ [r]) st'"
    using fragment_row_keeps [OF Cons.prems(1), of r] Cons.prems(2,3) by auto
  with Cons.IH [of "done_rows @ [r]" st'] Cons.prems(2,3) show ?case by auto
qed simp

section \<open>Aggregates and the largest group\<close>

text \<open>What the loop over the domains leaves in the finding.\<close>

definition aggregated :: "DomainCapacity list \<Rightarrow> FragmentationFinding \<Rightarrow> bool" where
  "aggregated cs f \<longleftrightarrow>
     unat (ff_aggregate_nominal f) = amount dcap_nominal cs \<and> unat (ff_aggregate_usable f) = amount dcap_usable cs \<and>
     unat (ff_aggregate_stranded f) = amount dcap_stranded cs \<and> unat (ff_aggregate_unknown f) = amount dcap_unknown cs \<and>
     unat (ff_largest_legal_group f) = Max (insert 0 (set (map (\<lambda>c. unat (dcap_usable c)) cs))) \<and>
     (ff_largest_legal_group f \<noteq> 0 \<longrightarrow>
        (\<exists>c \<in> set cs. dcap_domain c = ff_largest_domain f \<and> dcap_usable c = ff_largest_legal_group f)) \<and>
     ff_legal_domain_count f = of_nat (length (filter
        (\<lambda>c. ff_required_per_group f \<noteq> 0 \<and> ff_required_per_group f \<le> dcap_usable c) cs)) \<and>
     ff_domains f = cs"

lemma aggregate_domain_keeps:
  assumes f: "aggregated cs f" and fits: "amount dcap_nominal (cs @ [c]) < 18446744073709551616"
    "amount dcap_usable (cs @ [c]) < 18446744073709551616" "amount dcap_stranded (cs @ [c]) < 18446744073709551616"
    "amount dcap_unknown (cs @ [c]) < 18446744073709551616"
  shows "aggregated (cs @ [c]) (aggregate_domain c f)"
proof -
  let ?us = "set (map (\<lambda>c. unat (dcap_usable c)) cs)"
  have "Max (insert 0 (insert (unat (dcap_usable c)) ?us)) = max (unat (dcap_usable c)) (Max (insert 0 ?us))"
    by (subst insert_commute) (simp add: Max_insert)
  then have largest: "Max (insert 0 (set (map (\<lambda>c. unat (dcap_usable c)) (cs @ [c])))) =
      max (unat (dcap_usable c)) (unat (ff_largest_legal_group f))" using f by (simp add: aggregated_def)
  note step = aggregate_domain_def Let_def
  let ?g = "aggregate_domain c f"
  have "unat (ff_largest_legal_group ?g) = max (unat (dcap_usable c)) (unat (ff_largest_legal_group f))"
    by (simp add: step word_less_nat_alt max_def)
  moreover have "ff_largest_legal_group ?g \<noteq> 0 \<longrightarrow>
      (\<exists>x \<in> set (cs @ [c]). dcap_domain x = ff_largest_domain ?g \<and> dcap_usable x = ff_largest_legal_group ?g)"
    using f by (simp add: aggregated_def step)
  moreover have "ff_legal_domain_count ?g = of_nat (length (filter
      (\<lambda>x. ff_required_per_group ?g \<noteq> 0 \<and> ff_required_per_group ?g \<le> dcap_usable x) (cs @ [c])))"
    using f by (simp add: aggregated_def step)
  moreover have "unat (ff_aggregate_nominal ?g) = amount dcap_nominal (cs @ [c])"
    "unat (ff_aggregate_usable ?g) = amount dcap_usable (cs @ [c])"
    "unat (ff_aggregate_stranded ?g) = amount dcap_stranded (cs @ [c])"
    "unat (ff_aggregate_unknown ?g) = amount dcap_unknown (cs @ [c])" "ff_domains ?g = cs @ [c]"
    using f fits by (simp_all add: aggregated_def step saturating_add_exact)
  ultimately show ?thesis unfolding aggregated_def largest by blast
qed

lemma aggregate_domains:
  "aggregated ds f \<Longrightarrow> amount dcap_nominal (ds @ cs) < 18446744073709551616 \<Longrightarrow>
     amount dcap_usable (ds @ cs) < 18446744073709551616 \<Longrightarrow> amount dcap_stranded (ds @ cs) < 18446744073709551616 \<Longrightarrow>
     amount dcap_unknown (ds @ cs) < 18446744073709551616 \<Longrightarrow> aggregated (ds @ cs) (fold aggregate_domain cs f)"
proof (induction cs arbitrary: ds f)
  case (Cons c cs)
  have "aggregated (ds @ [c]) (aggregate_domain c f)"
    by (rule aggregate_domain_keeps) (use Cons.prems in simp_all)
  with Cons.IH [of "ds @ [c]" "aggregate_domain c f"] Cons.prems show ?case by simp
qed simp

lemma aggregate_keeps [simp]:
  "ff_required_per_group (fold aggregate_domain cs f) = ff_required_per_group f"
  "ff_required_domain_kind (fold aggregate_domain cs f) = ff_required_domain_kind f"
  "ff_stranded_by_reason (fold aggregate_domain cs f) = ff_stranded_by_reason f"
  by (induction cs arbitrary: f) (simp_all add: aggregate_domain_def Let_def)

lemma seeded_domains_ok:
  "fragmenting_ok s [] \<lparr>frg_domains = seeded_domains own ds, frg_synthesized = False, frg_reasons = ReasonTally_init\<rparr>"
proof -
  have seed: "smap_ok (seeded_domains own ds) \<and>
      (\<forall>d c. smap_find (seeded_domains own ds) d = Some c \<longrightarrow> dcap_domain c = d \<and> domain_exact c [])"
  proof (induction ds rule: rev_induct)
    case (snoc d ds)
    then show ?case
      by (auto simp: seeded_domains_def smap_ok_put smap_find_def map_of_smap_put domain_seed_def DomainCapacity_init_def
          domain_exact_def)
  qed (simp add: seeded_domains_def smap_ok_def smap_find_def)
  then have "\<forall>c \<in> set (smap_values (seeded_domains own ds)). domain_exact c []"
    using smap_values_mem [of "seeded_domains own ds"] by metis
  then have "amount g (smap_values (seeded_domains own ds)) = 0"
    if "\<And>c. domain_exact c [] \<Longrightarrow> unat (g c) = 0" for g using that by (simp add: amount_def)
  from this [of dcap_nominal] this [of dcap_usable] this [of dcap_stranded] this [of dcap_unknown] seed
  show ?thesis
    by (simp add: fragmenting_ok_def tally_ok_init tally_sum_init domain_exact_def
        split: option.split)
qed

lemma classify_exact:
  assumes "aggregated cs f"
  shows "classify_fragmentation f = FragmentationClass_CapacityShortage \<longleftrightarrow>
      ff_required_per_group f \<noteq> 0 \<and> ff_aggregate_usable f < ff_required_per_group f"
    "classify_fragmentation f = FragmentationClass_None \<longleftrightarrow>
      ff_required_per_group f \<noteq> 0 \<and> (\<exists>c \<in> set cs. ff_required_per_group f \<le> dcap_usable c)"
    "classify_fragmentation f = FragmentationClass_Unknown \<longleftrightarrow> ff_required_per_group f = 0"
proof -
  have member: "dcap_usable c \<le> ff_aggregate_usable f" if "c \<in> set cs" for c
    using assms member_le_sum_list [of "unat (dcap_usable c)" "map (\<lambda>c. unat (dcap_usable c)) cs"] that
    by (simp add: aggregated_def amount_def word_le_nat_alt)
  have "ff_required_per_group f \<le> ff_largest_legal_group f \<longleftrightarrow> (\<exists>c \<in> set cs. ff_required_per_group f \<le> dcap_usable c)"
    if "ff_required_per_group f \<noteq> 0"
  proof -
    have "0 < unat (ff_required_per_group f)" using that by (simp add: unat_gt_0)
    then show ?thesis using assms by (auto simp: aggregated_def word_le_nat_alt Max_ge_iff)
  qed
  moreover have "\<not> ff_aggregate_usable f < ff_required_per_group f" if "c \<in> set cs" "ff_required_per_group f \<le> dcap_usable c" for c
    using member [OF that(1)] that(2) by simp
  ultimately show "classify_fragmentation f = FragmentationClass_CapacityShortage \<longleftrightarrow>
      ff_required_per_group f \<noteq> 0 \<and> ff_aggregate_usable f < ff_required_per_group f"
    "classify_fragmentation f = FragmentationClass_None \<longleftrightarrow>
      ff_required_per_group f \<noteq> 0 \<and> (\<exists>c \<in> set cs. ff_required_per_group f \<le> dcap_usable c)"
    "classify_fragmentation f = FragmentationClass_Unknown \<longleftrightarrow> ff_required_per_group f = 0"
    by (auto simp: classify_fragmentation_def Let_def)
qed

text \<open>What a finding promises, relative to the report it groups.\<close>

definition fragmentation_exact :: "FederationSnapshot \<Rightarrow> StrandedCapacityReport \<Rightarrow> FragmentationFinding \<Rightarrow> bool" where
  "fragmentation_exact s rep f \<longleftrightarrow>
     ff_aggregate_nominal f = cs_nominal (rep_summary rep) \<and> ff_aggregate_usable f = cs_usable (rep_summary rep) \<and>
     ff_aggregate_stranded f = cs_stranded (rep_summary rep) \<and> ff_aggregate_unknown f = cs_unknown (rep_summary rep) \<and>
     tally_sum (ff_stranded_by_reason f) = unat (cs_stranded (rep_summary rep)) \<and>
     distinct (map dcap_domain (ff_domains f)) \<and>
     (\<forall>d \<in> set (ff_domains f). domain_exact d (rows_of s (dcap_domain d) (rep_findings rep))) \<and>
     (\<forall>r \<in> set (rep_findings rep). row_key s r \<in> set (map dcap_domain (ff_domains f))) \<and>
     unat (ff_largest_legal_group f) = Max (insert 0 (set (map (\<lambda>d. unat (dcap_usable d)) (ff_domains f))))"

lemma grouped_report:
  assumes exact: "summary_exact sm rows" and good: "\<forall>f \<in> set rows. finding_ok f"
  obtains st where "try_each (fragment_row s) rows
      \<lparr>frg_domains = seeded_domains own ds, frg_synthesized = False, frg_reasons = ReasonTally_init\<rparr> = Inr st"
    "fragmenting_ok s rows st"
    "\<And>f. aggregated [] f \<Longrightarrow> aggregated (smap_values (frg_domains st)) (fold aggregate_domain (smap_values (frg_domains st)) f)"
proof -
  have fits: "amount finding_nominal rows < 18446744073709551616"
    using exact unat_u64_less [of "cs_nominal sm"] by (simp add: summary_exact_def)
  then obtain st where st: "try_each (fragment_row s) rows
      \<lparr>frg_domains = seeded_domains own ds, frg_synthesized = False, frg_reasons = ReasonTally_init\<rparr> = Inr st"
    "fragmenting_ok s rows st"
    using fragment_rows_keep [OF seeded_domains_ok [of s own ds], of rows] good by auto
  moreover have "aggregated (smap_values (frg_domains st)) (fold aggregate_domain (smap_values (frg_domains st)) f)" if "aggregated [] f" for f
    using aggregate_domains [OF that, of "smap_values (frg_domains st)"] st(2) exact
      unat_u64_less [of "cs_nominal sm"] unat_u64_less [of "cs_usable sm"] unat_u64_less [of "cs_stranded sm"]
      unat_u64_less [of "cs_unknown sm"] by (simp add: fragmenting_ok_def summary_exact_def)
  ultimately show thesis by (rule that)
qed

lemma smap_values_keys: "smap_ok m \<Longrightarrow> (\<And>k c. smap_find m k = Some c \<Longrightarrow> key c = k) \<Longrightarrow> map key (smap_values m) = map fst m"
  using map_of_is_SomeI [OF smap_ok_distinct, of m] by (fastforce simp: smap_values_def smap_find_def)

lemma fragmentation_exactI:
  assumes st: "fragmenting_ok s (rep_findings rep) st" and exact: "summary_exact (rep_summary rep) (rep_findings rep)"
    and agg: "aggregated (smap_values (frg_domains st)) g" and same: "mset (ff_domains f) = mset (smap_values (frg_domains st))"
    and cols: "ff_aggregate_nominal f = ff_aggregate_nominal g" "ff_aggregate_usable f = ff_aggregate_usable g"
      "ff_aggregate_stranded f = ff_aggregate_stranded g" "ff_aggregate_unknown f = ff_aggregate_unknown g"
      "ff_largest_legal_group f = ff_largest_legal_group g" "ff_stranded_by_reason f = frg_reasons st"
  shows "fragmentation_exact s rep f"
proof -
  let ?m = "frg_domains st"
  have mok: "smap_ok ?m" and at: "\<And>d. case smap_find ?m d of None \<Rightarrow> rows_of s d (rep_findings rep) = []
      | Some c \<Rightarrow> dcap_domain c = d \<and> domain_exact c (rows_of s d (rep_findings rep))"
    using st by (auto simp: fragmenting_ok_def)
  have key: "dcap_domain c = d" "domain_exact c (rows_of s d (rep_findings rep))" if "smap_find ?m d = Some c" for c d
    using at [of d] that by auto
  have keys: "map dcap_domain (smap_values ?m) = map fst ?m" by (rule smap_values_keys [OF mok key(1)])
  have set: "set (ff_domains f) = set (smap_values ?m)" by (rule mset_eq_setD [OF same])
  have "mset (map dcap_domain (ff_domains f)) = mset (map fst ?m)" unfolding keys [symmetric] mset_map same ..
  then have "distinct (map dcap_domain (ff_domains f))" using smap_ok_distinct [OF mok] by (metis mset_eq_imp_distinct_iff)
  moreover have "\<forall>d \<in> set (ff_domains f). domain_exact d (rows_of s (dcap_domain d) (rep_findings rep))"
    unfolding set using smap_values_mem [OF mok] key by metis
  moreover have "row_key s r \<in> set (map dcap_domain (ff_domains f))" if "r \<in> set (rep_findings rep)" for r
  proof -
    have "r \<in> set (rows_of s (row_key s r) (rep_findings rep))" using that by (simp add: rows_of_def)
    then obtain c where c: "smap_find ?m (row_key s r) = Some c" using at [of "row_key s r"] by (cases "smap_find ?m (row_key s r)") auto
    then have "c \<in> set (smap_values ?m)" using smap_values_mem [OF mok] by blast
    then show ?thesis using key(1) [OF c] set by force
  qed
  ultimately show ?thesis
    using agg st exact cols set by (simp add: fragmentation_exact_def aggregated_def fragmenting_ok_def summary_exact_def u64_eq_iff)
qed

text \<open>When each class is given.\<close>

definition fragmentation_classified :: "StrandedCapacityReport \<Rightarrow> FragmentationFinding \<Rightarrow> bool" where
  "fragmentation_classified rep f \<longleftrightarrow>
     (ff_classification f = FragmentationClass_CapacityShortage \<longleftrightarrow>
        ff_required_per_group f \<noteq> 0 \<and> cs_usable (rep_summary rep) < ff_required_per_group f) \<and>
     (ff_classification f = FragmentationClass_None \<longleftrightarrow>
        ff_required_per_group f \<noteq> 0 \<and> (\<exists>d \<in> set (ff_domains f). ff_required_per_group f \<le> dcap_usable d)) \<and>
     (ff_classification f = FragmentationClass_Unknown \<longleftrightarrow> ff_required_per_group f = 0)"

lemma fragmentation_of_report:
  assumes own: "own = (if id_empty federation then fs_federation s else federation)" and Some: "select_workload s wc = Some w"
    and rep: "analyze_stranded_capacity s (fragmentation_request own wc kind) = Inr rep"
      "summary_exact (rep_summary rep) (rep_findings rep)" "\<forall>f \<in> set (rep_findings rep). finding_ok f"
  shows "\<exists>f. analyze_fragmentation s federation wc kind = Inr f \<and> fragmentation_exact s rep f \<and> fragmentation_classified rep f"
proof -
  define f0 where "f0 = FragmentationFinding_init
    \<lparr>ff_federation := own, ff_federation_generation := fs_generation s, ff_workload_class := wc, ff_kind := kind,
     ff_required_per_group := ucast (wr_required_accelerators w), ff_required_domain_kind := wr_required_domain_kind w\<rparr>"
  obtain st where st: "try_each (fragment_row s) (rep_findings rep)
      \<lparr>frg_domains = seeded_domains own (fs_domains s), frg_synthesized = False, frg_reasons = ReasonTally_init\<rparr> = Inr st"
    "fragmenting_ok s (rep_findings rep) st"
    and fold: "\<And>f. aggregated [] f \<Longrightarrow> aggregated (smap_values (frg_domains st)) (fold aggregate_domain (smap_values (frg_domains st)) f)"
    using grouped_report [OF rep(2,3)] by blast
  define g where "g = fold aggregate_domain (smap_values (frg_domains st)) (f0\<lparr>ff_stranded_by_reason := frg_reasons st\<rparr>)"
  have agg: "aggregated (smap_values (frg_domains st)) g" unfolding g_def
    by (rule fold) (simp add: aggregated_def f0_def FragmentationFinding_init_def)
  have reasons: "ff_stranded_by_reason g = frg_reasons st" by (simp add: g_def)
  have same: "classify_fragmentation (g\<lparr>ff_domains := ds\<rparr>) = classify_fragmentation g" for ds
    by (simp add: classify_fragmentation_def Let_def cong: if_cong)
  obtain f where f: "analyze_fragmentation s federation wc kind = Inr f"
    "ff_domains f = stable_sort DomainCapacity_less (smap_values (frg_domains st))" "ff_classification f = classify_fragmentation g"
    "ff_required_per_group f = ff_required_per_group g" and cols: "ff_aggregate_nominal f = ff_aggregate_nominal g"
    "ff_aggregate_usable f = ff_aggregate_usable g" "ff_aggregate_stranded f = ff_aggregate_stranded g"
    "ff_aggregate_unknown f = ff_aggregate_unknown g" "ff_largest_legal_group f = ff_largest_legal_group g"
    "ff_stranded_by_reason f = frg_reasons st"
    using agg Some rep(1) st(1)
    by (simp add: analyze_fragmentation_def own [symmetric] f0_def [symmetric] g_def [symmetric]
        Let_def same aggregated_def reasons)
  have "fragmentation_exact s rep f" by (rule fragmentation_exactI [OF st(2) rep(2) agg _ cols]) (simp add: f(2))
  moreover have "cs_usable (rep_summary rep) = ff_aggregate_usable g"
    using \<open>fragmentation_exact s rep f\<close> cols(2) by (simp add: fragmentation_exact_def)
  ultimately show ?thesis using classify_exact [OF agg] f by (simp add: fragmentation_classified_def)
qed

text \<open>C37: the fragmentation analysis groups the usable capacity exactly and tells shortage from fragmentation. In every
  well-formed engine it either reports, or refuses because no workload of the class is registered, or because the nominal
  capacity of the covered pools exceeds 64 bits. In a finding, the aggregates are the totals of the stranded-capacity
  report; each domain's columns are the sums over the findings of that domain and every finding belongs to exactly one
  domain; the largest group is the largest usable amount of a domain; the reasons account for all stranded capacity. The
  classification is a capacity shortage exactly when the total usable capacity is below the required group, none exactly
  when some domain holds the group, and otherwise a fragmentation class.\<close>

theorem fragmentation_is_exact:
  assumes ok: "engine_ok ob"
  shows "let s = build_snapshot now federation ob; own = (if id_empty federation then fs_federation s else federation);
      request = fragmentation_request own wc kind in
    case fst (Observatory_fragmentation now federation wc kind ob) of
      Inl e \<Rightarrow>
        (error_code e = NotFound \<and> (\<forall>w \<in> set (fs_workloads s). wr_workload_class w \<noteq> wc)) \<or>
        (error_code e = CapacityInconsistent \<and>
           18446744073709551616 \<le> amount (\<lambda>(c, p). cl_nominal (cp_ledger p)) (covered request (fs_clusters s)))
    | Inr f \<Rightarrow> \<exists>rep. analyze_stranded_capacity s request = Inr rep \<and> fragmentation_exact s rep f \<and>
        (ff_classification f = FragmentationClass_CapacityShortage \<longleftrightarrow>
           ff_required_per_group f \<noteq> 0 \<and> cs_usable (rep_summary rep) < ff_required_per_group f) \<and>
        (ff_classification f = FragmentationClass_None \<longleftrightarrow>
           ff_required_per_group f \<noteq> 0 \<and> (\<exists>d \<in> set (ff_domains f). ff_required_per_group f \<le> dcap_usable d)) \<and>
        (ff_classification f = FragmentationClass_Unknown \<longleftrightarrow> ff_required_per_group f = 0)"
proof -
  define s where "s = build_snapshot now federation ob"
  define own where "own = (if id_empty federation then fs_federation s else federation)"
  define request where "request = fragmentation_request own wc kind"
  have query: "fst (Observatory_fragmentation now federation wc kind ob) = analyze_fragmentation s federation wc kind"
    by (simp add: Observatory_fragmentation_def observe_def s_def)
  have closes: "\<forall>c \<in> set (fs_clusters s). \<forall>p \<in> set (clr_capacity_pools c). ledger_closes (cp_ledger p)"
    unfolding s_def by (intro ballI) (rule snapshot_pools_close [OF ok])
  have wc: "scr_workload_class request = wc" by (simp add: request_def fragmentation_request_def)
  show ?thesis
  proof (cases "select_workload s wc")
    case None
    then have "analyze_fragmentation s federation wc kind =
        not_found ''no workload generation is registered for this workload class'' wc" by (simp add: analyze_fragmentation_def)
    moreover have "\<forall>w \<in> set (fs_workloads s). wr_workload_class w \<noteq> wc" using None by (simp add: select_workload_None)
    ultimately show ?thesis by (simp add: Let_def query s_def [symmetric] not_found_def)
  next
    case (Some w)
    then have found: "\<not> (select_workload s (scr_workload_class request) = None \<and> \<not> id_empty (scr_workload_class request))"
      by (simp add: wc)
    note report = stranded_report [OF closes found]
    show ?thesis
    proof (cases "amount (\<lambda>(c, p). cl_nominal (cp_ledger p)) (covered request (fs_clusters s)) < 18446744073709551616")
      case large: False
      then have "analyze_fragmentation s federation wc kind = Inl stranded_overflow"
        using report [unfolded if_not_P [OF large]] Some
        by (simp add: analyze_fragmentation_def own_def [symmetric] request_def [symmetric])
      with large show ?thesis by (simp add: Let_def query s_def [symmetric] own_def [symmetric] request_def [symmetric])
    next
      case True
      from report [unfolded if_P [OF True]] obtain rep where rep: "analyze_stranded_capacity s request = Inr rep"
        "summary_exact (rep_summary rep) (rep_findings rep)" "\<forall>f \<in> set (rep_findings rep). finding_ok f" by blast
      from fragmentation_of_report [OF own_def Some rep(1) [unfolded request_def] rep(2,3)]
      obtain f where f: "analyze_fragmentation s federation wc kind = Inr f" "fragmentation_exact s rep f" "fragmentation_classified rep f"
        by blast
      show ?thesis unfolding Let_def query s_def [symmetric] own_def [symmetric] request_def [symmetric] f(1) sum.case
        using rep(1) f(2) f(3) [unfolded fragmentation_classified_def] by blast
    qed
  qed
qed

end
