(* ===== verification/FO_Drift.thy ===== *)
theory FO_Drift
  imports FO_Stranding
begin

text \<open>
  Drift (\<open>analysis.hpp\<close>, \<open>analyze_drift\<close> of \<open>analysis.cpp\<close>, the \<open>DriftKind\<close> texts of \<open>snapshot.cpp\<close>): the differences between
  an intended federation state and the observed one, and between the placements of two observation windows. Each loop of
  the source is one definition that gives the findings it appends. The theorem: a report is silent exactly when the observed
  state agrees with what was supplied, and what was not supplied is never reported on.
\<close>

section \<open>Kinds\<close>

datatype DriftKind =
    DriftKind_ClusterMissing
  | DriftKind_UnexpectedCluster
  | DriftKind_SiteMissing
  | DriftKind_UnexpectedSite
  | DriftKind_CapabilityMismatch
  | DriftKind_RuntimeVersionDivergence
  | DriftKind_StaleCluster
  | DriftKind_PolicyGenerationMismatch
  | DriftKind_ArtifactCompatibilityDrift
  | DriftKind_CapacityReportDivergence
  | DriftKind_PlacementTargetChanged
  | DriftKind_PlacementRejectionIntroduced
  | DriftKind_PlacementRejectionCleared
  | DriftKind_PlacementFallbackIntroduced
  | DriftKind_PlacementCompatibilityChanged

definition DriftKind_values :: "DriftKind list" where
  "DriftKind_values =
     [DriftKind_ClusterMissing, DriftKind_UnexpectedCluster, DriftKind_SiteMissing, DriftKind_UnexpectedSite,
      DriftKind_CapabilityMismatch, DriftKind_RuntimeVersionDivergence, DriftKind_StaleCluster, DriftKind_PolicyGenerationMismatch,
      DriftKind_ArtifactCompatibilityDrift, DriftKind_CapacityReportDivergence, DriftKind_PlacementTargetChanged, DriftKind_PlacementRejectionIntroduced,
      DriftKind_PlacementRejectionCleared, DriftKind_PlacementFallbackIntroduced, DriftKind_PlacementCompatibilityChanged]"

fun DriftKind_to_string :: "DriftKind \<Rightarrow> string" where
  "DriftKind_to_string DriftKind_ClusterMissing = ''CLUSTER_MISSING''"
| "DriftKind_to_string DriftKind_UnexpectedCluster = ''UNEXPECTED_CLUSTER''"
| "DriftKind_to_string DriftKind_SiteMissing = ''SITE_MISSING''"
| "DriftKind_to_string DriftKind_UnexpectedSite = ''UNEXPECTED_SITE''"
| "DriftKind_to_string DriftKind_CapabilityMismatch = ''CAPABILITY_MISMATCH''"
| "DriftKind_to_string DriftKind_RuntimeVersionDivergence = ''RUNTIME_VERSION_DIVERGENCE''"
| "DriftKind_to_string DriftKind_StaleCluster = ''STALE_CLUSTER''"
| "DriftKind_to_string DriftKind_PolicyGenerationMismatch = ''POLICY_GENERATION_MISMATCH''"
| "DriftKind_to_string DriftKind_ArtifactCompatibilityDrift = ''ARTIFACT_COMPATIBILITY_DRIFT''"
| "DriftKind_to_string DriftKind_CapacityReportDivergence = ''CAPACITY_REPORT_DIVERGENCE''"
| "DriftKind_to_string DriftKind_PlacementTargetChanged = ''PLACEMENT_TARGET_CHANGED''"
| "DriftKind_to_string DriftKind_PlacementRejectionIntroduced = ''PLACEMENT_REJECTION_INTRODUCED''"
| "DriftKind_to_string DriftKind_PlacementRejectionCleared = ''PLACEMENT_REJECTION_CLEARED''"
| "DriftKind_to_string DriftKind_PlacementFallbackIntroduced = ''PLACEMENT_FALLBACK_INTRODUCED''"
| "DriftKind_to_string DriftKind_PlacementCompatibilityChanged = ''PLACEMENT_COMPATIBILITY_CHANGED''"

interpretation drift_enum: named_enumeration DriftKind_values DriftKind_to_string
proof unfold_locales
  show "v \<in> set DriftKind_values" for v by (cases v) (simp_all add: DriftKind_values_def)
qed (simp_all add: DriftKind_values_def)

definition parse_drift_kind :: "string \<Rightarrow> DriftKind option" where
  "parse_drift_kind = parse_enum DriftKind_values DriftKind_to_string"

definition is_behavioral_drift :: "DriftKind \<Rightarrow> bool" where
  "is_behavioral_drift k \<longleftrightarrow> k \<in> {DriftKind_PlacementTargetChanged, DriftKind_PlacementRejectionIntroduced,
     DriftKind_PlacementRejectionCleared, DriftKind_PlacementFallbackIntroduced, DriftKind_PlacementCompatibilityChanged}"

definition requires_intended_state :: "DriftKind \<Rightarrow> bool" where
  "requires_intended_state k \<longleftrightarrow> \<not> is_behavioral_drift k"

section \<open>Findings and requests\<close>

record DriftFinding =
  drf_kind :: DriftKind
  drf_subject :: string
  drf_intended :: string
  drf_observed :: string
  drf_basis :: ReasonBasis
  drf_precision :: Precision
  drf_evidence_class :: EvidenceClass
  drf_evidence :: EvidenceList

definition DriftFinding_init :: DriftFinding where
  "DriftFinding_init =
     \<lparr>drf_kind = DriftKind_ClusterMissing, drf_subject = [], drf_intended = [], drf_observed = [],
      drf_basis = ReasonBasis_Derived, drf_precision = Precision_Unknown, drf_evidence_class = EvidenceClass_Unknown,
      drf_evidence = no_evidence\<rparr>"

definition DriftFinding_less :: "DriftFinding \<Rightarrow> DriftFinding \<Rightarrow> bool" where
  "DriftFinding_less a b =
     (if drf_kind a \<noteq> drf_kind b then enum_lt DriftKind_values (drf_kind a) (drf_kind b)
      else if drf_subject a \<noteq> drf_subject b then drf_subject a < drf_subject b
      else drf_observed a < drf_observed b)"

record DriftRequest =
  drq_federation :: FederationId
  drq_intended :: "IntendedFederationState option"
  drq_behavior_window_supplied :: bool
  drq_before_window :: TimeWindow
  drq_after_window :: TimeWindow

record DriftReport =
  drep_federation :: FederationId
  drep_federation_generation :: FederationGeneration
  drep_snapshot_generation :: SnapshotGeneration
  drep_intended_state_supplied :: bool
  drep_behavior_window_supplied :: bool
  drep_before_window :: TimeWindow
  drep_after_window :: TimeWindow
  drep_findings :: "DriftFinding list"
  drep_precision :: Precision
  drep_evidence_class :: EvidenceClass
  drep_evidence :: EvidenceList

definition count_of :: "DriftReport \<Rightarrow> DriftKind \<Rightarrow> u64" where
  "count_of r kind = foldl (\<lambda>n f. if drf_kind f = kind then n + 1 else n) 0 (drep_findings r)"

section \<open>Intended state\<close>

abbreviation drift_note :: "Provenance \<Rightarrow> EvidenceClass \<Rightarrow> string \<Rightarrow> Precision \<Rightarrow> string \<Rightarrow> EvidenceList" where
  "drift_note source cls source_id precision detail \<equiv> snd (EvidenceList_add_fields source cls source_id precision detail no_evidence)"

definition drift_expected_cluster :: "FederationSnapshot \<Rightarrow> IntendedFederationState \<Rightarrow> ClusterId \<Rightarrow> DriftFinding list" where
  "drift_expected_cluster snapshot intended expected =
     (case find_cluster snapshot expected of
        None \<Rightarrow> [\<lparr>drf_kind = DriftKind_ClusterMissing, drf_subject = id_value expected,
          drf_intended = ''member of the intended federation'', drf_observed = ''not present in the observed federation'',
          drf_basis = ReasonBasis_Derived, drf_precision = ifs_precision intended,
          drf_evidence_class = ifs_evidence_class intended,
          drf_evidence = drift_note Provenance_ExternalInventory (ifs_evidence_class intended) ''intended-state''
            (ifs_precision intended) ''intended state lists this cluster''\<rparr>]
      | Some cluster \<Rightarrow>
          if is_current (clr_currentness cluster) then []
          else [\<lparr>drf_kind = DriftKind_StaleCluster, drf_subject = id_value expected, drf_intended = ''current evidence'',
            drf_observed = Currentness_to_string (clr_currentness cluster), drf_basis = ReasonBasis_Observed,
            drf_precision = Precision_Exact, drf_evidence_class = os_evidence_class (clr_stamp cluster),
            drf_evidence = drift_note Provenance_ClusterController (os_evidence_class (clr_stamp cluster))
              (id_value (os_publisher (clr_stamp cluster))) (os_precision (clr_stamp cluster)) ''cluster currentness observed''\<rparr>])"

definition drift_policy :: "FederationSnapshot \<Rightarrow> FederationId \<Rightarrow> IntendedFederationState \<Rightarrow> DriftFinding list" where
  "drift_policy snapshot federation intended =
     (if \<not> is_set (ifs_expected_policy_generation intended) then []
      else let record = find_federation snapshot federation;
               observed = (case record of Some r \<Rightarrow> fr_policy_generation r | None \<Rightarrow> gen_unset)
      in if observed = ifs_expected_policy_generation intended then []
         else [\<lparr>drf_kind = DriftKind_PolicyGenerationMismatch, drf_subject = id_value federation,
           drf_intended = ''policy generation '' @ gen_to_string (ifs_expected_policy_generation intended),
           drf_observed = (if is_set observed then ''policy generation '' @ gen_to_string observed
                           else ''no policy generation published''),
           drf_basis = ReasonBasis_Derived, drf_precision = ifs_precision intended,
           drf_evidence_class = (case record of Some r \<Rightarrow> os_evidence_class (fr_stamp r) | None \<Rightarrow> ifs_evidence_class intended),
           drf_evidence = drift_note Provenance_ExternalInventory (ifs_evidence_class intended) ''intended-state''
             (ifs_precision intended) ''intended policy generation differs from the observed policy generation''\<rparr>])"

definition drift_expected_site :: "FederationSnapshot \<Rightarrow> IntendedFederationState \<Rightarrow> SiteId \<Rightarrow> DriftFinding list" where
  "drift_expected_site snapshot intended expected =
     (if find_site snapshot expected \<noteq> None then []
      else [\<lparr>drf_kind = DriftKind_SiteMissing, drf_subject = id_value expected,
        drf_intended = ''member site of the intended federation'', drf_observed = ''not present in the observed federation'',
        drf_basis = ReasonBasis_Derived, drf_precision = ifs_precision intended,
        drf_evidence_class = ifs_evidence_class intended,
        drf_evidence = drift_note Provenance_ExternalInventory (ifs_evidence_class intended) ''intended-state''
          (ifs_precision intended) ''intended state lists this site''\<rparr>])"

definition drift_observed_cluster :: "IntendedFederationState \<Rightarrow> ClusterRecord \<Rightarrow> DriftFinding list" where
  "drift_observed_cluster intended cluster =
     (if clr_id cluster \<notin> set (ifs_expected_clusters intended) \<and> ifs_expected_clusters intended \<noteq> [] then
        [\<lparr>drf_kind = DriftKind_UnexpectedCluster, drf_subject = id_value (clr_id cluster),
          drf_intended = ''not listed in the intended federation'', drf_observed = ''present in the observed federation'',
          drf_basis = ReasonBasis_Derived, drf_precision = ifs_precision intended,
          drf_evidence_class = os_evidence_class (clr_stamp cluster),
          drf_evidence = drift_note Provenance_ExternalInventory (ifs_evidence_class intended) ''intended-state''
            (ifs_precision intended) ''intended state does not list this cluster''\<rparr>]
      else [])"

definition expected_requirement :: "ExpectedCapability \<Rightarrow> CapabilityRequirement" where
  "expected_requirement e =
     \<lparr>req_key = exc_key e, req_comparator = exc_comparator e, req_value = exc_value e, req_optional = False, req_rationale = []\<rparr>"

definition drift_expected_capability :: "FederationSnapshot \<Rightarrow> ExpectedCapability \<Rightarrow> DriftFinding list" where
  "drift_expected_capability snapshot expected =
     (case find_cluster snapshot (exc_cluster expected) of
        None \<Rightarrow> []
      | Some cluster \<Rightarrow>
          (let requirement = expected_requirement expected;
               check = evaluate_requirement requirement (clr_capabilities cluster)
           in if chk_satisfied check = Tri_Yes then []
              else [\<lparr>drf_kind = DriftKind_CapabilityMismatch,
                drf_subject = id_value (exc_cluster expected) @ ''/'' @ CapabilityRef_to_string (exc_key expected),
                drf_intended = CapabilityRequirement_to_string requirement,
                drf_observed = (if value_known (chk_observed check) then CapabilityValue_to_string (chk_observed check) else ''UNKNOWN''),
                drf_basis = ReasonBasis_Derived,
                drf_precision = (if chk_satisfied check = Tri_Unknown then Precision_Unknown else Precision_Derived),
                drf_evidence_class = os_evidence_class (clr_stamp cluster),
                drf_evidence = drift_note Provenance_DerivedAnalysis (os_evidence_class (clr_stamp cluster)) ''drift-analysis''
                  Precision_Derived (chk_detail check)\<rparr>]))"

definition drift_expected_runtime :: "FederationSnapshot \<Rightarrow> ClusterId \<times> string \<Rightarrow> DriftFinding list" where
  "drift_expected_runtime snapshot expected =
     (case find_cluster snapshot (fst expected) of
        None \<Rightarrow> []
      | Some cluster \<Rightarrow>
          (case primary_runtime snapshot cluster of
             None \<Rightarrow> [DriftFinding_init\<lparr>drf_kind := DriftKind_RuntimeVersionDivergence, drf_subject := id_value (fst expected),
               drf_intended := snd expected, drf_observed := ''no runtime published'', drf_basis := ReasonBasis_Observed,
               drf_precision := Precision_Unknown, drf_evidence_class := os_evidence_class (clr_stamp cluster)\<rparr>]
           | Some runtime \<Rightarrow>
               if rr_version runtime = snd expected then []
               else [\<lparr>drf_kind = DriftKind_RuntimeVersionDivergence,
                 drf_subject = id_value (fst expected) @ ''/'' @ id_value (rr_id runtime), drf_intended = snd expected,
                 drf_observed = rr_version runtime, drf_basis = ReasonBasis_Derived,
                 drf_precision = os_precision (rr_stamp runtime), drf_evidence_class = os_evidence_class (rr_stamp runtime),
                 drf_evidence = drift_note Provenance_RuntimeRegistry (os_evidence_class (rr_stamp runtime))
                   (id_value (os_publisher (rr_stamp runtime))) (os_precision (rr_stamp runtime)) ''runtime version observed''\<rparr>]))"

definition drift_expected_capacity :: "FederationSnapshot \<Rightarrow> ClusterId \<times> CapacityLedger \<Rightarrow> DriftFinding list" where
  "drift_expected_capacity snapshot expected =
     (case find_cluster snapshot (fst expected) of
        None \<Rightarrow> []
      | Some cluster \<Rightarrow>
          (case total_ledger cluster ResourceKind_Accelerator of
             Inl e \<Rightarrow> []
           | Inr observed \<Rightarrow>
               if observed = snd expected then []
               else [DriftFinding_init\<lparr>drf_kind := DriftKind_CapacityReportDivergence, drf_subject := id_value (fst expected),
                 drf_intended := ''nominal='' @ to_string_u64 (cl_nominal (snd expected)) @ '' idle='' @ to_string_u64 (cl_idle (snd expected)),
                 drf_observed := ''nominal='' @ to_string_u64 (cl_nominal observed) @ '' idle='' @ to_string_u64 (cl_idle observed),
                 drf_basis := ReasonBasis_Derived, drf_precision := Precision_Derived,
                 drf_evidence_class := os_evidence_class (clr_stamp cluster)\<rparr>]))"

definition intended_drift :: "FederationSnapshot \<Rightarrow> FederationId \<Rightarrow> IntendedFederationState \<Rightarrow> DriftFinding list" where
  "intended_drift snapshot federation intended =
     concat (map (drift_expected_cluster snapshot intended) (ifs_expected_clusters intended)) @
     drift_policy snapshot federation intended @
     concat (map (drift_expected_site snapshot intended) (ifs_expected_sites intended)) @
     concat (map (drift_observed_cluster intended) (fs_clusters snapshot)) @
     concat (map (drift_expected_capability snapshot) (ifs_expected_capabilities intended)) @
     concat (map (drift_expected_runtime snapshot) (ifs_expected_runtime_versions intended)) @
     concat (map (drift_expected_capacity snapshot) (ifs_expected_capacity intended))"

section \<open>Placement behaviour\<close>

text \<open>\<open>std::set_difference\<close> on sorted ranges.\<close>

fun set_difference :: "'a :: linorder list \<Rightarrow> 'a list \<Rightarrow> 'a list" where
  "set_difference [] ys = []"
| "set_difference (x # xs) [] = x # xs"
| "set_difference (x # xs) (y # ys) =
     (if x < y then x # set_difference xs (y # ys)
      else if y < x then set_difference (x # xs) ys
      else set_difference xs ys)"

definition latest_in :: "TimeWindow \<Rightarrow> FederationId \<Rightarrow> PlacementRecord list \<Rightarrow> (WorkloadId, PlacementRecord) std_map" where
  "latest_in window federation placements =
     foldl (\<lambda>m p.
         if \<not> id_empty federation \<and> plr_federation p \<noteq> federation then m
         else if \<not> TimeWindow_contains window (os_observed_at (plr_stamp p)) then m
         else case smap_find m (plr_workload p) of
                None \<Rightarrow> smap_put (plr_workload p) p m
              | Some q \<Rightarrow> if os_observed_at (plr_stamp q) < os_observed_at (plr_stamp p) then smap_put (plr_workload p) p m else m)
       [] placements"

definition rejection_texts :: "PlacementRecord \<Rightarrow> string list" where
  "rejection_texts p =
     stable_sort (<) (concat (map (\<lambda>c. map RejectionReason_to_string (reason_list c)) (plr_candidates p)))"

definition rejection_drift :: "WorkloadId \<Rightarrow> EvidenceClass \<Rightarrow> PlacementRecord \<Rightarrow> PlacementRecord \<Rightarrow> DriftFinding list" where
  "rejection_drift workload cls old_placement new_placement =
     (let old_reasons = rejection_texts old_placement; new_reasons = rejection_texts new_placement in
      if old_reasons = new_reasons then []
      else let missing_in_new = set_difference new_reasons old_reasons;
               cleared = set_difference old_reasons new_reasons;
               rejection = DriftFinding_init\<lparr>drf_subject := id_value workload, drf_basis := ReasonBasis_Derived,
                 drf_precision := Precision_Derived, drf_evidence_class := cls\<rparr>
           in (if missing_in_new = [] then []
               else [rejection\<lparr>drf_kind := DriftKind_PlacementRejectionIntroduced,
                 drf_intended := ''no new rejection reasons'', drf_observed := join_strings missing_in_new '',''\<rparr>]) @
              (if cleared = [] then []
               else [rejection\<lparr>drf_kind := DriftKind_PlacementRejectionCleared,
                 drf_intended := ''previous rejection reasons'', drf_observed := ''cleared: '' @ join_strings cleared '',''\<rparr>]))"

text \<open>One finding is filled by up to three tests in turn, each overwriting the kind and the texts of the one before.\<close>

definition placement_change :: "WorkloadId \<Rightarrow> PlacementRecord \<Rightarrow> PlacementRecord \<Rightarrow> DriftFinding \<times> bool" where
  "placement_change workload old_placement new_placement =
     (let target = plr_selected old_placement \<noteq> plr_selected new_placement;
          compatibility = plr_compatibility_constrained old_placement \<noteq> plr_compatibility_constrained new_placement;
          fallback = (\<not> plr_fallback_required old_placement \<and> plr_fallback_required new_placement);
          f = DriftFinding_init
            \<lparr>drf_subject := id_value workload, drf_basis := ReasonBasis_Derived,
             drf_precision := weakest_precision (os_precision (plr_stamp old_placement)) (os_precision (plr_stamp new_placement)),
             drf_evidence_class := weaker_class (os_evidence_class (plr_stamp old_placement)) (os_evidence_class (plr_stamp new_placement))\<rparr>;
          f = (if target then f
                 \<lparr>drf_kind := DriftKind_PlacementTargetChanged,
                  drf_intended := ''selected '' @ id_value (plr_selected old_placement),
                  drf_observed := ''selected '' @ id_value (plr_selected new_placement),
                  drf_evidence := drift_note Provenance_Scheduler (os_evidence_class (plr_stamp new_placement)) ''placement-history''
                    Precision_Derived
                    ''placement target changed between the two observation windows; a change is not by itself a regression''\<rparr>
               else f);
          f = (if compatibility then f
                 \<lparr>drf_kind := DriftKind_PlacementCompatibilityChanged,
                  drf_intended := ''compatibility_constrained='' @ Tri_to_string (plr_compatibility_constrained old_placement),
                  drf_observed := ''compatibility_constrained='' @ Tri_to_string (plr_compatibility_constrained new_placement)\<rparr>
               else f);
          f = (if fallback then f
                 \<lparr>drf_kind := DriftKind_PlacementFallbackIntroduced, drf_intended := ''no fallback'',
                  drf_observed := (if plr_fallback_detail new_placement = [] then ''fallback required''
                                   else plr_fallback_detail new_placement)\<rparr>
               else f)
      in (f, target \<or> compatibility \<or> fallback))"

definition placement_drift :: "WorkloadId \<Rightarrow> PlacementRecord \<Rightarrow> PlacementRecord \<Rightarrow> DriftFinding list" where
  "placement_drift workload old_placement new_placement =
     (let (f, emit) = placement_change workload old_placement new_placement
      in rejection_drift workload (drf_evidence_class f) old_placement new_placement @ (if emit then [f] else []))"

definition behavior_drift :: "FederationSnapshot \<Rightarrow> FederationId \<Rightarrow> TimeWindow \<Rightarrow> TimeWindow \<Rightarrow> DriftFinding list" where
  "behavior_drift snapshot federation before_window after_window =
     (let before = latest_in before_window federation (fs_placements snapshot);
          after = latest_in after_window federation (fs_placements snapshot)
      in concat (map (\<lambda>(workload, new_placement).
           case smap_find before workload of None \<Rightarrow> [] | Some old_placement \<Rightarrow> placement_drift workload old_placement new_placement)
         after))"

section \<open>The report\<close>

definition drift_summary :: "DriftFinding list \<Rightarrow> (Precision \<times> EvidenceClass) option" where
  "drift_summary fs =
     foldl (\<lambda>acc f. Some (case acc of None \<Rightarrow> (drf_precision f, drf_evidence_class f)
         | Some (p, c) \<Rightarrow> (weakest_precision p (drf_precision f), weaker_class c (drf_evidence_class f)))) None fs"

definition analyze_drift :: "FederationSnapshot \<Rightarrow> DriftRequest \<Rightarrow> DriftReport result" where
  "analyze_drift snapshot request =
     (let federation = (if id_empty (drq_federation request) then fs_federation snapshot else drq_federation request) in
      case (case drq_intended request of None \<Rightarrow> Success | Some intended \<Rightarrow> IntendedFederationState_validate intended) of
        Failure e \<Rightarrow> Inl e
      | Success \<Rightarrow>
          (let findings = stable_sort DriftFinding_less
                 ((case drq_intended request of None \<Rightarrow> [] | Some intended \<Rightarrow> intended_drift snapshot federation intended) @
                  (if drq_behavior_window_supplied request
                   then behavior_drift snapshot federation (drq_before_window request) (drq_after_window request) else []));
               (precision, cls) = (case drift_summary findings of
                   None \<Rightarrow> (Precision_Unknown, fs_evidence_class snapshot) | Some pc \<Rightarrow> pc)
           in Inr \<lparr>drep_federation = federation, drep_federation_generation = fs_generation snapshot,
                drep_snapshot_generation = fs_snapshot_generation snapshot,
                drep_intended_state_supplied = (drq_intended request \<noteq> None),
                drep_behavior_window_supplied = drq_behavior_window_supplied request,
                drep_before_window = drq_before_window request, drep_after_window = drq_after_window request,
                drep_findings = findings, drep_precision = precision, drep_evidence_class = cls,
                drep_evidence = drift_note Provenance_DerivedAnalysis cls ''drift-analysis'' Precision_Derived
                  (''intended_state_supplied='' @ (if drq_intended request \<noteq> None then ''yes'' else ''no'') @
                   '' behavior_windows_supplied='' @ (if drq_behavior_window_supplied request then ''yes'' else ''no'') @
                   '' findings='' @ to_string_nat (length findings))\<rparr>))"

definition Observatory_drift :: "TimestampNanos \<Rightarrow> DriftRequest \<Rightarrow> Observatory \<Rightarrow> DriftReport result \<times> Observatory" where
  "Observatory_drift now request ob =
     (let (snapshot, ob') = observe now (drq_federation request) ob in (analyze_drift snapshot request, ob'))"

section \<open>Silence is agreement\<close>

text \<open>The sorted multiset difference.\<close>

lemma mset_set_difference: "sorted xs \<Longrightarrow> sorted ys \<Longrightarrow> mset (set_difference xs ys) = mset xs - mset ys"
proof (induction xs ys rule: set_difference.induct)
  case (3 x xs y ys)
  consider "x < y" | "y < x" | "x = y" by fastforce
  then show ?case
  proof cases
    case 1
    then have "x \<notin># mset (y # ys)" using 3(5) by auto
    then show ?thesis using 1 3 by (simp add: diff_union_swap2 add_mset_diff_bothsides flip: add_mset_add_single)
  next
    case 2
    then have "y \<notin># mset (x # xs)" using 3(4) by auto
    then show ?thesis using 2 3 by simp
  next
    case 3
    then show ?thesis using "3.IH"(3) "3.prems" by simp
  qed
qed simp_all

lemma rejection_drift_silent:
  "rejection_drift w cls old new = [] \<longleftrightarrow> mset (rejection_texts old) = mset (rejection_texts new)"
proof -
  have sorted: "sorted (rejection_texts p)" for p
    unfolding rejection_texts_def by (subst stable_sort_key [of _ "\<lambda>x. x"]) simp_all
  have "rejection_texts old = rejection_texts new \<longleftrightarrow> mset (rejection_texts old) = mset (rejection_texts new)"
    using properties_for_sort [OF _ sorted] sorted by (metis sorted_sort_id)
  moreover have "set_difference xs ys = [] \<longleftrightarrow> mset xs \<subseteq># mset ys" if "sorted xs" "sorted ys" for xs ys :: "string list"
    using mset_set_difference [OF that] by (metis Diff_eq_empty_iff_mset mset_zero_iff)
  ultimately show ?thesis using sorted by (auto simp: rejection_drift_def Let_def)
qed

definition agrees_with_intended :: "FederationSnapshot \<Rightarrow> FederationId \<Rightarrow> IntendedFederationState \<Rightarrow> bool" where
  "agrees_with_intended s federation i \<longleftrightarrow>
     (\<forall>c \<in> set (ifs_expected_clusters i). \<exists>r. find_cluster s c = Some r \<and> is_current (clr_currentness r)) \<and>
     (is_set (ifs_expected_policy_generation i) \<longrightarrow>
        (\<exists>r. find_federation s federation = Some r \<and> fr_policy_generation r = ifs_expected_policy_generation i)) \<and>
     (\<forall>x \<in> set (ifs_expected_sites i). find_site s x \<noteq> None) \<and>
     (ifs_expected_clusters i \<noteq> [] \<longrightarrow> (\<forall>r \<in> set (fs_clusters s). clr_id r \<in> set (ifs_expected_clusters i))) \<and>
     (\<forall>e \<in> set (ifs_expected_capabilities i). \<forall>r. find_cluster s (exc_cluster e) = Some r \<longrightarrow>
        chk_satisfied (evaluate_requirement (expected_requirement e) (clr_capabilities r)) = Tri_Yes) \<and>
     (\<forall>(c, v) \<in> set (ifs_expected_runtime_versions i). \<forall>r. find_cluster s c = Some r \<longrightarrow>
        (\<exists>rt. primary_runtime s r = Some rt \<and> rr_version rt = v)) \<and>
     (\<forall>(c, l) \<in> set (ifs_expected_capacity i). \<forall>r. find_cluster s c = Some r \<longrightarrow>
        (\<forall>observed. total_ledger r ResourceKind_Accelerator = Inr observed \<longrightarrow> observed = l))"

lemma gen_unset_iff: "gen_unset = g \<longleftrightarrow> \<not> is_set g"
  by (cases g) (auto simp: is_set_def)

lemma intended_loops_silent:
  "drift_expected_cluster s i c = [] \<longleftrightarrow> (\<exists>r. find_cluster s c = Some r \<and> is_current (clr_currentness r))"
  "drift_policy s fed i = [] \<longleftrightarrow> (is_set (ifs_expected_policy_generation i) \<longrightarrow>
     (\<exists>r. find_federation s fed = Some r \<and> fr_policy_generation r = ifs_expected_policy_generation i))"
  "drift_expected_site s i x = [] \<longleftrightarrow> find_site s x \<noteq> None"
  "drift_observed_cluster i r = [] \<longleftrightarrow> (ifs_expected_clusters i \<noteq> [] \<longrightarrow> clr_id r \<in> set (ifs_expected_clusters i))"
  "drift_expected_capability s e = [] \<longleftrightarrow> (\<forall>r. find_cluster s (exc_cluster e) = Some r \<longrightarrow>
     chk_satisfied (evaluate_requirement (expected_requirement e) (clr_capabilities r)) = Tri_Yes)"
  "drift_expected_runtime s v = [] \<longleftrightarrow> (\<forall>r. find_cluster s (fst v) = Some r \<longrightarrow>
     (\<exists>rt. primary_runtime s r = Some rt \<and> rr_version rt = snd v))"
  "drift_expected_capacity s l = [] \<longleftrightarrow> (\<forall>r. find_cluster s (fst l) = Some r \<longrightarrow>
     (\<forall>observed. total_ledger r ResourceKind_Accelerator = Inr observed \<longrightarrow> observed = snd l))"
  by (auto simp: drift_expected_cluster_def drift_policy_def drift_expected_site_def drift_observed_cluster_def
      drift_expected_capability_def drift_expected_runtime_def drift_expected_capacity_def Let_def gen_unset_iff
      split: option.splits sum.splits)

lemma intended_drift_silent: "intended_drift s fed i = [] \<longleftrightarrow> agrees_with_intended s fed i"
  unfolding intended_drift_def agrees_with_intended_def append_is_Nil_conv concat_eq_Nil_conv set_map ball_simps
    intended_loops_silent case_prod_beta by blast

lemma intended_drift_kinds:
  "f \<in> set (intended_drift s fed i) \<Longrightarrow> drf_kind f \<in> {DriftKind_ClusterMissing, DriftKind_StaleCluster,
     DriftKind_PolicyGenerationMismatch, DriftKind_SiteMissing, DriftKind_UnexpectedCluster, DriftKind_CapabilityMismatch,
     DriftKind_RuntimeVersionDivergence, DriftKind_CapacityReportDivergence}"
  by (auto simp: intended_drift_def drift_expected_cluster_def drift_policy_def drift_expected_site_def
      drift_observed_cluster_def drift_expected_capability_def drift_expected_runtime_def drift_expected_capacity_def Let_def
      split: option.splits sum.splits if_splits)

definition placement_unchanged :: "PlacementRecord \<Rightarrow> PlacementRecord \<Rightarrow> bool" where
  "placement_unchanged old new \<longleftrightarrow>
     plr_selected old = plr_selected new \<and> plr_compatibility_constrained old = plr_compatibility_constrained new \<and>
     (plr_fallback_required new \<longrightarrow> plr_fallback_required old) \<and>
     mset (rejection_texts old) = mset (rejection_texts new)"

lemma placement_drift_silent: "placement_drift w old new = [] \<longleftrightarrow> placement_unchanged old new"
  by (auto simp: placement_drift_def case_prod_beta rejection_drift_silent placement_change_def Let_def placement_unchanged_def)

lemma placement_drift_kinds: "f \<in> set (placement_drift w old new) \<Longrightarrow> is_behavioral_drift (drf_kind f)"
  by (auto simp: placement_drift_def rejection_drift_def placement_change_def Let_def is_behavioral_drift_def split: if_splits)

text \<open>The latest placement of a workload in a window, and that the map holds exactly these.\<close>

definition in_window :: "TimeWindow \<Rightarrow> FederationId \<Rightarrow> WorkloadId \<Rightarrow> PlacementRecord \<Rightarrow> bool" where
  "in_window window federation w p \<longleftrightarrow>
     plr_workload p = w \<and> (id_empty federation \<or> plr_federation p = federation) \<and>
     TimeWindow_contains window (os_observed_at (plr_stamp p))"

definition latest_ok :: "TimeWindow \<Rightarrow> FederationId \<Rightarrow> PlacementRecord list \<Rightarrow> (WorkloadId, PlacementRecord) std_map \<Rightarrow> bool" where
  "latest_ok window federation ps m \<longleftrightarrow>
     smap_ok m \<and> (\<forall>w. case smap_find m w of
        None \<Rightarrow> (\<forall>q \<in> set ps. \<not> in_window window federation w q)
      | Some p \<Rightarrow> p \<in> set ps \<and> in_window window federation w p \<and>
          (\<forall>q \<in> set ps. in_window window federation w q \<longrightarrow> os_observed_at (plr_stamp q) \<le> os_observed_at (plr_stamp p)))"

lemma latest_in_ok: "latest_ok window federation ps (latest_in window federation ps)"
proof (induction ps rule: rev_induct)
  case Nil
  show ?case by (simp add: latest_ok_def latest_in_def smap_ok_def smap_find_def)
next
  case (snoc p ps)
  let ?m = "latest_in window federation ps"
  let ?at = "\<lambda>ps w (x :: PlacementRecord option). case x of None \<Rightarrow> (\<forall>q \<in> set ps. \<not> in_window window federation w q)
      | Some p \<Rightarrow> p \<in> set ps \<and> in_window window federation w p \<and>
          (\<forall>q \<in> set ps. in_window window federation w q \<longrightarrow> os_observed_at (plr_stamp q) \<le> os_observed_at (plr_stamp p))"
  have m: "smap_ok ?m" and at: "\<And>w. ?at ps w (smap_find ?m w)" using snoc.IH by (simp_all add: latest_ok_def)
  let ?keep = "\<not> in_window window federation (plr_workload p) p \<or>
    (\<exists>q. smap_find ?m (plr_workload p) = Some q \<and> os_observed_at (plr_stamp p) \<le> os_observed_at (plr_stamp q))"
  have step: "latest_in window federation (ps @ [p]) = (if ?keep then ?m else smap_put (plr_workload p) p ?m)"
    by (auto simp: latest_in_def in_window_def split: option.splits)
  have find: "smap_find (smap_put (plr_workload p) p ?m) w = (if w = plr_workload p then Some p else smap_find ?m w)" for w
    by (simp add: smap_find_def map_of_smap_put)
  have other: "\<not> in_window window federation w p" if "w \<noteq> plr_workload p" for w using that by (simp add: in_window_def)
  have "?at (ps @ [p]) w (smap_find (latest_in window federation (ps @ [p])) w)" for w
  proof (cases "w = plr_workload p")
    case False
    then show ?thesis using at [of w] other [OF False] by (auto simp: step find split: option.splits)
  next
    case True
    then show ?thesis using at [of w] by (auto simp: step find split: option.splits)
  qed
  moreover have "smap_ok (latest_in window federation (ps @ [p]))" using m by (simp add: step smap_ok_put)
  ultimately show ?case unfolding latest_ok_def by blast
qed

definition behavior_unchanged :: "FederationSnapshot \<Rightarrow> FederationId \<Rightarrow> TimeWindow \<Rightarrow> TimeWindow \<Rightarrow> bool" where
  "behavior_unchanged s federation before after \<longleftrightarrow>
     (\<forall>w old new. smap_find (latest_in before federation (fs_placements s)) w = Some old \<longrightarrow>
        smap_find (latest_in after federation (fs_placements s)) w = Some new \<longrightarrow> placement_unchanged old new)"

lemma behavior_drift_silent: "behavior_drift s fed before after = [] \<longleftrightarrow> behavior_unchanged s fed before after"
proof -
  let ?b = "latest_in before fed (fs_placements s)" and ?a = "latest_in after fed (fs_placements s)"
  have ok: "smap_ok ?a" using latest_in_ok [of after fed "fs_placements s"] by (simp add: latest_ok_def)
  have member: "(w, p) \<in> set ?a \<longleftrightarrow> smap_find ?a w = Some p" for w p
    using map_of_eq_Some_iff [OF smap_ok_distinct [OF ok]] by (simp add: smap_find_def)
  have "behavior_drift s fed before after = [] \<longleftrightarrow>
      (\<forall>w new old. (w, new) \<in> set ?a \<longrightarrow> smap_find ?b w = Some old \<longrightarrow> placement_drift w old new = [])"
    by (fastforce simp: behavior_drift_def Let_def split: option.splits)
  then show ?thesis unfolding member placement_drift_silent behavior_unchanged_def by blast
qed

lemma behavior_drift_kinds: "f \<in> set (behavior_drift s fed before after) \<Longrightarrow> is_behavioral_drift (drf_kind f)"
  by (auto simp: behavior_drift_def Let_def split: option.splits dest: placement_drift_kinds)


section \<open>Changes that the report hides\<close>

text \<open>The single finding of a pair of placements is overwritten: when a workload moved to another cluster and also needs a
  fallback, or is constrained differently, no finding tells that the target changed.\<close>

lemma target_change_hidden:
  assumes "f \<in> set (placement_drift w old new)"
    and "plr_compatibility_constrained old \<noteq> plr_compatibility_constrained new \<or>
      (\<not> plr_fallback_required old \<and> plr_fallback_required new)"
  shows "drf_kind f \<noteq> DriftKind_PlacementTargetChanged"
  using assms by (auto simp: placement_drift_def rejection_drift_def placement_change_def Let_def split: if_splits)

text \<open>Two of the kinds are never reported.\<close>

lemma kinds_never_reported:
  assumes "analyze_drift s request = Inr rep" and "f \<in> set (drep_findings rep)"
  shows "drf_kind f \<notin> {DriftKind_UnexpectedSite, DriftKind_ArtifactCompatibilityDrift}"
proof -
  have "drf_kind f \<notin> {DriftKind_UnexpectedSite, DriftKind_ArtifactCompatibilityDrift}"
    if "f \<in> set (intended_drift s fed i)" for fed i
    using intended_drift_kinds [OF that] by auto
  moreover have "drf_kind f \<notin> {DriftKind_UnexpectedSite, DriftKind_ArtifactCompatibilityDrift}"
    if "f \<in> set (behavior_drift s fed before after)" for fed before after
    using behavior_drift_kinds [OF that] by (auto simp: is_behavioral_drift_def)
  ultimately show ?thesis using assms
    by (auto simp: analyze_drift_def Let_def case_prod_beta split: Status.splits option.splits if_splits)
qed

end
