(* ===== verification/FO_Mismatch.thy ===== *)
theory FO_Mismatch
  imports FO_Stranding
begin

text \<open>
  Capability mismatch (\<open>analysis.hpp\<close>, \<open>analyze_mismatch\<close> of \<open>analysis.cpp\<close>): eleven tables of counted outcomes. A table is a
  list of rows, one per subject, and \<open>bump\<close> counts one outcome for a subject. The loops of the source fill independent
  tables, so each table is the fold of its own bumps, in the order of the loops. The theorem: every table is the exact tally
  of the outcomes it is built from.
\<close>

section \<open>Rows\<close>

record MismatchRow =
  mrw_subject :: string
  mrw_population :: u64
  mrw_satisfied :: u64
  mrw_missing :: u64
  mrw_unknown :: u64
  mrw_precision :: Precision

definition MismatchRow_init :: MismatchRow where
  "MismatchRow_init =
     \<lparr>mrw_subject = [], mrw_population = 0, mrw_satisfied = 0, mrw_missing = 0, mrw_unknown = 0,
      mrw_precision = Precision_Unknown\<rparr>"

definition MismatchRow_less :: "MismatchRow \<Rightarrow> MismatchRow \<Rightarrow> bool" where
  "MismatchRow_less a b \<longleftrightarrow> mrw_subject a < mrw_subject b"

text \<open>\<open>find_or_add\<close> followed by an update through the pointer it returns.\<close>

fun find_or_add :: "string \<Rightarrow> (MismatchRow \<Rightarrow> MismatchRow) \<Rightarrow> MismatchRow list \<Rightarrow> MismatchRow list" where
  "find_or_add subject update [] = [update (MismatchRow_init\<lparr>mrw_subject := subject\<rparr>)]"
| "find_or_add subject update (row # rows) =
     (if mrw_subject row = subject then update row # rows else row # find_or_add subject update rows)"

definition bump_row :: "Tri \<Rightarrow> Precision \<Rightarrow> MismatchRow \<Rightarrow> MismatchRow" where
  "bump_row satisfied precision row = row
     \<lparr>mrw_population := mrw_population row + 1,
      mrw_satisfied := (if satisfied = Tri_Yes then mrw_satisfied row + 1 else mrw_satisfied row),
      mrw_missing := (if satisfied = Tri_No then mrw_missing row + 1 else mrw_missing row),
      mrw_unknown := (if satisfied = Tri_Unknown then mrw_unknown row + 1 else mrw_unknown row),
      mrw_precision := weakest_precision (mrw_precision row) precision\<rparr>"

definition bump :: "string \<times> Tri \<times> Precision \<Rightarrow> MismatchRow list \<Rightarrow> MismatchRow list" where
  "bump b = (case b of (subject, satisfied, precision) \<Rightarrow> find_or_add subject (bump_row satisfied precision))"

abbreviation bumps :: "(string \<times> Tri) list \<Rightarrow> (string \<times> Tri \<times> Precision) list" where
  "bumps outcomes \<equiv> map (\<lambda>(subject, satisfied). (subject, satisfied, Precision_Derived)) outcomes"

definition sort_rows :: "MismatchRow list \<Rightarrow> MismatchRow list" where
  "sort_rows rows =
     stable_sort MismatchRow_less
       (map (\<lambda>row. if mrw_precision row = Precision_Exact \<and> mrw_population row \<noteq> 0
                   then row\<lparr>mrw_precision := Precision_Derived\<rparr> else row) rows)"

definition outcome_table :: "(string \<times> Tri \<times> Precision) list \<Rightarrow> MismatchRow list" where
  "outcome_table bs = sort_rows (foldl (\<lambda>rows b. bump b rows) [] bs)"

section \<open>Outcomes\<close>

definition mismatch_population :: "FederationSnapshot \<Rightarrow> MismatchAnalysisRequest \<Rightarrow> ClusterRecord list" where
  "mismatch_population snapshot request =
     filter (\<lambda>c. (id_empty (maq_federation request) \<or> clr_federation c = maq_federation request) \<and>
        clr_currentness c \<noteq> Currentness_Retired \<and>
        (clr_currentness c = Currentness_Current \<or> maq_include_stale request)) (fs_clusters snapshot)"

definition collect_keys :: "CapabilitySet \<Rightarrow> CapabilityRef list \<Rightarrow> CapabilityRef list" where
  "collect_keys set_of keys =
     foldl (\<lambda>keys e. if ce_key e \<in> set keys then keys else keys @ [ce_key e]) keys (cset_entries set_of)"

definition observed_keys :: "FederationSnapshot \<Rightarrow> ClusterRecord list \<Rightarrow> CapabilityRef list" where
  "observed_keys snapshot clusters =
     stable_sort CapabilityRef_less
       (fold collect_keys (map clr_capabilities clusters @ map ar_capabilities (fs_accelerator_classes snapshot) @
          map rr_capabilities (fs_runtimes snapshot)) [])"

definition cluster_class :: "FederationSnapshot \<Rightarrow> ClusterRecord \<Rightarrow> AcceleratorClassRecord option" where
  "cluster_class snapshot cluster = first_found (find_accelerator_class snapshot) (clr_accelerator_classes cluster)"

definition cluster_effective :: "FederationSnapshot \<Rightarrow> ClusterRecord \<Rightarrow> CapabilitySet" where
  "cluster_effective snapshot cluster =
     merge_capabilities cluster (cluster_class snapshot cluster) (primary_runtime snapshot cluster)"

definition declared_requirement :: "CapabilityRef \<Rightarrow> CapabilityRequirement" where
  "declared_requirement key =
     \<lparr>req_key = key, req_comparator = CapabilityComparator_Present, req_value = CapabilityValue_Unknown,
      req_optional = False, req_rationale = []\<rparr>"

definition key_outcomes :: "FederationSnapshot \<Rightarrow> MismatchAnalysisRequest \<Rightarrow> CapabilityRef list \<Rightarrow> ClusterRecord \<Rightarrow> (string \<times> Tri) list" where
  "key_outcomes snapshot request keys cluster =
     map (\<lambda>key. (CapabilityRef_to_string key,
            chk_satisfied (evaluate_requirement (declared_requirement key) (cluster_effective snapshot cluster))))
       (filter (\<lambda>key. \<not> CapabilityRef_valid (maq_capability_key request) \<or> maq_capability_key request = key) keys)"

definition coverage :: "FederationSnapshot \<Rightarrow> CapabilityRef list \<Rightarrow> ClusterRecord \<Rightarrow> Tri" where
  "coverage snapshot keys cluster =
     (let declared = length (filter (\<lambda>key. CapabilitySet_find key (cluster_effective snapshot cluster) \<noteq> None) keys)
      in if keys = [] then Tri_Unknown else if declared = length keys then Tri_Yes else Tri_No)"

definition subject_of :: "('r \<Rightarrow> 't StrongId) \<Rightarrow> string \<Rightarrow> 'r option \<Rightarrow> string" where
  "subject_of key missing r = (case r of None \<Rightarrow> missing | Some x \<Rightarrow> id_value (key x))"

text \<open>The verdict of one cluster on the requirements of a workload; \<open>None\<close> on the first requirement that fails.\<close>

fun requirements_met :: "CapabilitySet \<Rightarrow> CapabilityRequirement list \<Rightarrow> bool \<Rightarrow> bool option" where
  "requirements_met effective [] undecided = Some undecided"
| "requirements_met effective (r # rs) undecided =
     (case chk_satisfied (evaluate_requirement r effective) of
        Tri_No \<Rightarrow> None
      | Tri_Unknown \<Rightarrow> requirements_met effective rs True
      | Tri_Yes \<Rightarrow> requirements_met effective rs undecided)"

definition workload_outcome :: "FederationSnapshot \<Rightarrow> ClusterRecord list \<Rightarrow> WorkloadRecord \<Rightarrow> Tri option" where
  "workload_outcome snapshot clusters w =
     (let verdicts = map (\<lambda>c. requirements_met (cluster_effective snapshot c) (wr_requirements w) False) clusters;
          evaluated = length verdicts;
          satisfied_clusters = length (filter (\<lambda>v. v = Some False) verdicts);
          unknown_clusters = length (filter (\<lambda>v. v = Some True) verdicts)
      in if evaluated = 0 then None
         else Some (if satisfied_clusters = evaluated then Tri_Yes
                    else if satisfied_clusters + unknown_clusters = evaluated \<and> unknown_clusters > 0 then Tri_Unknown
                    else Tri_No))"

definition workload_outcomes :: "FederationSnapshot \<Rightarrow> ClusterRecord list \<Rightarrow> (WorkloadRecord \<times> Tri) list" where
  "workload_outcomes snapshot clusters =
     concat (map (\<lambda>w. case workload_outcome snapshot clusters w of None \<Rightarrow> [] | Some outcome \<Rightarrow> [(w, outcome)]) (fs_workloads snapshot))"

definition in_scope :: "MismatchAnalysisRequest \<Rightarrow> FederationId \<Rightarrow> ObservationStamp \<Rightarrow> bool" where
  "in_scope request federation stamp \<longleftrightarrow>
     (id_empty (maq_federation request) \<or> federation = maq_federation request) \<and>
     TimeWindow_contains (maq_window request) (os_observed_at stamp)"

definition rejection_outcomes :: "PlacementRecord \<Rightarrow> (string \<times> Tri) list" where
  "rejection_outcomes p =
     concat (map (\<lambda>c. if co_status c \<in> {CandidateStatus_Rejected, CandidateStatus_NotConsidered}
         then map (\<lambda>r. (RejectionReason_to_string r, Tri_Yes)) (reason_list c) else []) (plr_candidates p)) @
     (if plr_fallback_required p then [(''FALLBACK_REQUIRED'', Tri_Yes)] else [])"

definition adaptation_outcomes :: "MigrationRecord \<Rightarrow> (string \<times> Tri) list" where
  "adaptation_outcomes m =
     (if mr_requires_rebuild m then [(''REQUIRES_REBUILD'', Tri_Yes)] else []) @
     (if mr_requires_recompile m then [(''REQUIRES_RECOMPILE'', Tri_Yes)] else []) @
     (if mr_requires_conversion m then [(''REQUIRES_CONVERSION'', Tri_Yes)] else []) @
     (if mr_requires_state_translation m then [(''REQUIRES_STATE_TRANSLATION'', Tri_Yes)] else []) @
     (if mr_revalidation_pending m then [(''REVALIDATION_PENDING'', Tri_Yes)] else []) @
     (if mr_outcome m = MigrationOutcome_Failed then [(''MIGRATION_FAILED'', Tri_Yes)] else []) @
     (if mr_outcome m = MigrationOutcome_RolledBack then [(''MIGRATION_ROLLED_BACK'', Tri_Yes)] else [])"

definition portability_outcome :: "PortabilityAssessment \<Rightarrow> string \<times> Tri \<times> Precision" where
  "portability_outcome a =
     (PortabilityOutcome_to_string (pa_overall a),
      (if is_technical_failure (pa_overall a) then Tri_No
       else if is_undecided (pa_overall a) then Tri_Unknown else Tri_Yes), pa_precision a)"

section \<open>Stranded capacity by reason\<close>

definition class_stranding :: "FederationSnapshot \<Rightarrow> MismatchAnalysisRequest \<Rightarrow> WorkloadClassRecord \<Rightarrow> StrandedCapacityFinding list" where
  "class_stranding snapshot request k =
     (if wcr_currentness k = Currentness_Retired then []
      else case analyze_stranded_capacity snapshot
             \<lparr>scr_federation = maq_federation request, scr_workload_class = wcr_id k, scr_kind = maq_kind request,
              scr_cluster = no_id, scr_accelerator_class = no_id, scr_include_stale = maq_include_stale request\<rparr> of
             Inl e \<Rightarrow> []
           | Inr report \<Rightarrow> rep_findings report)"

definition stranded_bump :: "string \<times> u64 \<times> u64 \<Rightarrow> MismatchRow list \<Rightarrow> MismatchRow list" where
  "stranded_bump entry = (case entry of (reason, nominal, stranded) \<Rightarrow>
     find_or_add reason (\<lambda>row. row
       \<lparr>mrw_population := saturating_add (mrw_population row) nominal,
        mrw_missing := saturating_add (mrw_missing row) stranded, mrw_precision := Precision_Derived\<rparr>))"

definition stranded_entries :: "FederationSnapshot \<Rightarrow> MismatchAnalysisRequest \<Rightarrow> (string \<times> u64 \<times> u64) list" where
  "stranded_entries snapshot request =
     concat (map (\<lambda>f. map (\<lambda>(reason, stranded). (StrandingReason_to_string reason, cl_nominal (scf_ledger f), stranded))
         (tally_non_zero (eb_stranded_by_primary_reason (scf_breakdown f))))
       (concat (map (class_stranding snapshot request) (fs_workload_classes snapshot))))"

section \<open>The analysis\<close>

record MismatchAnalysis =
  mma_federation :: FederationId
  mma_federation_generation :: FederationGeneration
  mma_snapshot_generation :: SnapshotGeneration
  mma_window :: TimeWindow
  mma_by_capability_key :: "MismatchRow list"
  mma_by_accelerator_class :: "MismatchRow list"
  mma_by_cluster :: "MismatchRow list"
  mma_by_site :: "MismatchRow list"
  mma_by_runtime :: "MismatchRow list"
  mma_by_workload_class :: "MismatchRow list"
  mma_by_artifact :: "MismatchRow list"
  mma_placement_rejections :: "MismatchRow list"
  mma_capacity_stranded_by_reason :: "MismatchRow list"
  mma_migration_adaptations :: "MismatchRow list"
  mma_portability_outcomes :: "MismatchRow list"
  mma_placements_observed :: u64
  mma_migrations_observed :: u64
  mma_portability_records_observed :: u64
  mma_precision :: Precision
  mma_evidence_class :: EvidenceClass
  mma_evidence :: EvidenceList

definition analyze_mismatch :: "FederationSnapshot \<Rightarrow> MismatchAnalysisRequest \<Rightarrow> MismatchAnalysis result" where
  "analyze_mismatch snapshot request =
     (let clusters = mismatch_population snapshot request;
          keys = observed_keys snapshot clusters;
          covered_by = (\<lambda>subject. outcome_table (bumps (map (\<lambda>c. (subject c, coverage snapshot keys c)) clusters)));
          workloads = workload_outcomes snapshot clusters;
          placements = filter (\<lambda>p. in_scope request (plr_federation p) (plr_stamp p)) (fs_placements snapshot);
          migrations = filter (\<lambda>m. in_scope request (mr_federation m) (mr_stamp m)) (fs_migrations snapshot);
          portability = filter (\<lambda>a. in_scope request (pa_federation a) (pa_stamp a)) (fs_portability snapshot);
          cls = (case clusters of [] \<Rightarrow> fs_evidence_class snapshot | c # _ \<Rightarrow> os_evidence_class (clr_stamp c))
      in Inr
        \<lparr>mma_federation = maq_federation request, mma_federation_generation = fs_generation snapshot,
         mma_snapshot_generation = fs_snapshot_generation snapshot, mma_window = maq_window request,
         mma_by_capability_key = outcome_table (bumps (concat (map (key_outcomes snapshot request keys) clusters))),
         mma_by_accelerator_class = covered_by (\<lambda>c. subject_of ar_id ''<no-class>'' (cluster_class snapshot c)),
         mma_by_cluster = covered_by (\<lambda>c. id_value (clr_id c)),
         mma_by_site = covered_by (\<lambda>c. subject_of sr_id ''<no-site>'' (find_site snapshot (clr_site c))),
         mma_by_runtime = covered_by (\<lambda>c. subject_of rr_id ''<no-runtime>'' (primary_runtime snapshot c)),
         mma_by_workload_class = outcome_table (bumps (map (\<lambda>(w, outcome). (id_value (wr_workload_class w), outcome)) workloads)),
         mma_by_artifact = outcome_table (bumps (map (\<lambda>(w, outcome). (id_value (wr_artifact w), outcome))
           (filter (\<lambda>(w, _). \<not> id_empty (wr_artifact w)) workloads))),
         mma_placement_rejections = outcome_table (bumps (concat (map rejection_outcomes placements))),
         mma_capacity_stranded_by_reason =
           sort_rows (foldl (\<lambda>rows e. stranded_bump e rows) [] (stranded_entries snapshot request)),
         mma_migration_adaptations = outcome_table (bumps (concat (map adaptation_outcomes migrations))),
         mma_portability_outcomes = outcome_table (map portability_outcome portability),
         mma_placements_observed = of_nat (length placements), mma_migrations_observed = of_nat (length migrations),
         mma_portability_records_observed = of_nat (length portability),
         mma_precision = Precision_Derived, mma_evidence_class = cls,
         mma_evidence = snd (EvidenceList_add_fields Provenance_DerivedAnalysis cls ''mismatch-analysis'' Precision_Derived
           (''aggregated mismatch over '' @ to_string_nat (length clusters) @ '' clusters with current evidence'') no_evidence)\<rparr>)"

definition Observatory_mismatch_analysis ::
  "TimestampNanos \<Rightarrow> MismatchAnalysisRequest \<Rightarrow> Observatory \<Rightarrow> MismatchAnalysis result \<times> Observatory" where
  "Observatory_mismatch_analysis now request ob =
     (let (snapshot, ob') = observe now (maq_federation request) ob in (analyze_mismatch snapshot request, ob'))"

section \<open>Tables are exact tallies\<close>

lemma find_or_add_subjects:
  assumes "\<And>row. mrw_subject (update row) = mrw_subject row"
  shows "map mrw_subject (find_or_add subject update rows) =
    (if subject \<in> set (map mrw_subject rows) then map mrw_subject rows else map mrw_subject rows @ [subject])"
  by (induction rows) (auto simp: assms)

lemma find_or_add_rows:
  assumes "\<And>row. mrw_subject (update row) = mrw_subject row" and "distinct (map mrw_subject rows)"
  shows "r \<in> set (find_or_add subject update rows) \<longleftrightarrow>
    (if mrw_subject r = subject
     then \<exists>old. r = update old \<and> mrw_subject old = subject \<and>
       (old \<in> set rows \<or> (subject \<notin> set (map mrw_subject rows) \<and> old = MismatchRow_init\<lparr>mrw_subject := subject\<rparr>))
     else r \<in> set rows)"
  using assms(2)
proof (induction rows)
  case Nil
  then show ?case using assms(1) by (auto simp: MismatchRow_init_def)
next
  case (Cons row rows)
  show ?case
  proof (cases "mrw_subject row = subject")
    case True
    have "mrw_subject row \<notin> mrw_subject ` set rows" using Cons.prems by simp
    with True have "\<And>x. x \<in> set rows \<Longrightarrow> mrw_subject x \<noteq> subject" by blast
    then show ?thesis using True by (auto simp: assms(1))
  next
    case False
    then show ?thesis using Cons by auto
  qed
qed

text \<open>What a table says of the outcomes \<open>bs\<close> it was built from.\<close>

definition outcomes_for :: "string \<Rightarrow> (string \<times> Tri \<times> Precision) list \<Rightarrow> Tri list" where
  "outcomes_for subject bs = map (\<lambda>(_, satisfied, _). satisfied) (filter (\<lambda>b. fst b = subject) bs)"

definition row_exact :: "(string \<times> Tri \<times> Precision) list \<Rightarrow> MismatchRow \<Rightarrow> bool" where
  "row_exact bs row \<longleftrightarrow>
     (let outcomes = outcomes_for (mrw_subject row) bs in
      mrw_population row = of_nat (length outcomes) \<and>
      mrw_satisfied row = of_nat (count_list outcomes Tri_Yes) \<and>
      mrw_missing row = of_nat (count_list outcomes Tri_No) \<and>
      mrw_unknown row = of_nat (count_list outcomes Tri_Unknown))"

lemma row_exact_closes: "row_exact bs row \<Longrightarrow> mrw_population row = mrw_satisfied row + mrw_missing row + mrw_unknown row"
proof -
  have "length ts = count_list ts Tri_Yes + count_list ts Tri_No + count_list ts Tri_Unknown" for ts
  proof (induction ts)
    case (Cons x ts)
    then show ?case by (cases x) simp_all
  qed simp
  then show "row_exact bs row \<Longrightarrow> ?thesis" unfolding row_exact_def Let_def by (metis of_nat_add)
qed

definition table_exact :: "MismatchRow list \<Rightarrow> (string \<times> Tri \<times> Precision) list \<Rightarrow> bool" where
  "table_exact rows bs \<longleftrightarrow>
     distinct (map mrw_subject rows) \<and> set (map mrw_subject rows) = fst ` set bs \<and> (\<forall>row \<in> set rows. row_exact bs row)"

lemma outcomes_for_snoc:
  "outcomes_for s (bs @ [(x, t, p)]) = (if s = x then outcomes_for s bs @ [t] else outcomes_for s bs)"
  by (simp add: outcomes_for_def)

lemma outcomes_for_Nil: "s \<notin> fst ` set bs \<Longrightarrow> outcomes_for s bs = []"
  by (auto simp: outcomes_for_def filter_empty_conv)

lemma bump_exact:
  assumes table: "table_exact rows bs"
  shows "table_exact (bump b rows) (bs @ [b])"
proof -
  obtain s t p where b: "b = (s, t, p)" by (cases b)
  let ?u = "bump_row t p"
  have keep: "\<And>row. mrw_subject (?u row) = mrw_subject row" by (simp add: bump_row_def)
  have rows: "distinct (map mrw_subject rows)" "set (map mrw_subject rows) = fst ` set bs" "\<forall>row \<in> set rows. row_exact bs row"
    using table by (auto simp: table_exact_def)
  have new: "row_exact (bs @ [b]) (?u old)" if "row_exact bs old" "mrw_subject old = s" for old
    using that by (cases t) (simp_all add: row_exact_def Let_def b outcomes_for_snoc bump_row_def)
  have first: "row_exact bs (MismatchRow_init\<lparr>mrw_subject := s\<rparr>)" if "s \<notin> set (map mrw_subject rows)"
    using that rows(2) by (simp add: row_exact_def Let_def MismatchRow_init_def outcomes_for_Nil)
  have "row_exact (bs @ [b]) r" if "r \<in> set (find_or_add s ?u rows)" for r
  proof (cases "mrw_subject r = s")
    case True
    then show ?thesis using that rows(3) new first unfolding find_or_add_rows [OF keep rows(1)] by auto
  next
    case False
    then have "row_exact bs r" using that rows(3) unfolding find_or_add_rows [OF keep rows(1)] by simp
    then show ?thesis using False by (simp add: row_exact_def Let_def b outcomes_for_snoc)
  qed
  moreover have "distinct (map mrw_subject (find_or_add s ?u rows))"
    unfolding find_or_add_subjects [OF keep] using rows(1) by simp
  moreover have "set (map mrw_subject (find_or_add s ?u rows)) = insert s (fst ` set bs)"
    unfolding find_or_add_subjects [OF keep] using rows(2) by auto
  ultimately show ?thesis by (simp add: table_exact_def bump_def b)
qed

lemma bumps_exact: "table_exact (foldl (\<lambda>rows b. bump b rows) [] bs) bs"
proof (induction bs rule: rev_induct)
  case (snoc b bs)
  then show ?case using bump_exact by simp
qed (simp add: table_exact_def)

lemma sort_rows_mset:
  "mset (sort_rows rows) = image_mset (\<lambda>row. if mrw_precision row = Precision_Exact \<and> mrw_population row \<noteq> 0
     then row\<lparr>mrw_precision := Precision_Derived\<rparr> else row) (mset rows)"
  by (simp add: sort_rows_def)

lemma sort_rows_keeps:
  "set (map f (sort_rows rows)) = set (map f rows)" "distinct (map f (sort_rows rows)) \<longleftrightarrow> distinct (map f rows)"
  if "\<And>row p. f (row\<lparr>mrw_precision := p\<rparr>) = f row"
proof -
  have "mset (map f (sort_rows rows)) = mset (map f rows)"
    unfolding mset_map sort_rows_mset image_mset.compositionality comp_def
    by (rule image_mset_cong) (simp add: that)
  then show "set (map f (sort_rows rows)) = set (map f rows)" "distinct (map f (sort_rows rows)) \<longleftrightarrow> distinct (map f rows)"
    using mset_eq_setD mset_eq_imp_distinct_iff by blast+
qed

lemma outcome_table_exact: "table_exact (outcome_table bs) bs"
proof -
  let ?rows = "foldl (\<lambda>rows b. bump b rows) [] bs"
  have all: "(\<forall>row \<in> set rows. row_exact bs row) \<longleftrightarrow> False \<notin> set (map (row_exact bs) rows)" for rows by auto
  have "(\<forall>row \<in> set (sort_rows ?rows). row_exact bs row) \<longleftrightarrow> (\<forall>row \<in> set ?rows. row_exact bs row)"
    unfolding all by (subst sort_rows_keeps(1)) (simp_all add: row_exact_def)
  with bumps_exact [of bs] show ?thesis
    using sort_rows_keeps [of mrw_subject] by (simp add: table_exact_def outcome_table_def)
qed

section \<open>What the outcomes mean\<close>

lemma requirements_met_iff:
  "requirements_met e rs u = None \<longleftrightarrow> (\<exists>r \<in> set rs. chk_satisfied (evaluate_requirement r e) = Tri_No)"
  "requirements_met e rs u = Some False \<longleftrightarrow> \<not> u \<and> (\<forall>r \<in> set rs. chk_satisfied (evaluate_requirement r e) = Tri_Yes)"
  by (induction rs arbitrary: u) (auto split: Tri.split)

lemma length_verdicts:
  "length (filter (\<lambda>x. x = Some False) vs) + length (filter (\<lambda>x. x = Some True) vs) + length (filter (\<lambda>x. x = None) vs) =
   length vs"
proof (induction vs)
  case (Cons v vs)
  then show ?case by (cases v) auto
qed simp

lemma length_filter_all: "length (filter P xs) = length xs \<longleftrightarrow> (\<forall>x \<in> set xs. P x)"
  by (metis length_filter_less filter_True nat_neq_iff)

lemma workload_outcome_iff:
  assumes "workload_outcome s cs w = Some outcome"
  shows "outcome = Tri_Yes \<longleftrightarrow> (\<forall>c \<in> set cs. \<forall>r \<in> set (wr_requirements w).
      chk_satisfied (evaluate_requirement r (cluster_effective s c)) = Tri_Yes)" (is "_ \<longleftrightarrow> ?yes")
    "outcome = Tri_No \<longleftrightarrow> (\<exists>c \<in> set cs. \<exists>r \<in> set (wr_requirements w).
      chk_satisfied (evaluate_requirement r (cluster_effective s c)) = Tri_No)" (is "_ \<longleftrightarrow> ?no")
proof -
  let ?vs = "map (\<lambda>c. requirements_met (cluster_effective s c) (wr_requirements w) False) cs"
  let ?n = "\<lambda>v. length (filter (\<lambda>x. x = v) ?vs)"
  have total: "?n (Some False) + ?n (Some True) + ?n None = length ?vs"
    by (rule length_verdicts)
  have "?n (Some False) = length ?vs \<longleftrightarrow> ?yes"
    unfolding length_filter_all set_map ball_simps requirements_met_iff(2) by blast
  moreover have "?n None = 0 \<longleftrightarrow> \<not> ?no"
    unfolding length_0_conv filter_empty_conv set_map ball_simps requirements_met_iff(1) by blast
  ultimately show "outcome = Tri_Yes \<longleftrightarrow> ?yes" "outcome = Tri_No \<longleftrightarrow> ?no"
    using assms total by (auto simp: workload_outcome_def Let_def split: if_splits)
qed

lemma coverage_iff:
  "keys \<noteq> [] \<Longrightarrow> coverage s keys c = Tri_Yes \<longleftrightarrow> (\<forall>k \<in> set keys. CapabilitySet_find k (cluster_effective s c) \<noteq> None)"
  "coverage s keys c = Tri_Unknown \<longleftrightarrow> keys = []"
  unfolding coverage_def Let_def by (simp_all add: length_filter_all)


section \<open>Stranded capacity never exceeds the capacity it is part of\<close>

lemma saturating_add_mono:
  assumes "a \<le> c" and "b \<le> d"
  shows "saturating_add a b \<le> saturating_add c d"
proof (cases "unat c + unat d < 18446744073709551616")
  case True
  then show ?thesis using assms saturating_add_exact [of a b] saturating_add_exact [of c d]
    by (simp add: word_le_nat_alt)
next
  case False
  then have "checked_add c d = None" by (simp add: checked_add_None)
  then show ?thesis by (simp add: saturating_add_def)
qed

lemma stranded_rows_bounded:
  assumes "\<forall>(reason, nominal, stranded) \<in> set es. stranded \<le> nominal"
  shows "\<forall>row \<in> set (foldl (\<lambda>rows e. stranded_bump e rows) [] es). mrw_missing row \<le> mrw_population row"
proof -
  have step: "\<forall>row \<in> set (find_or_add s u rows). mrw_missing row \<le> mrw_population row"
    if "\<forall>row \<in> set rows. mrw_missing row \<le> mrw_population row"
      and "\<And>row. mrw_missing row \<le> mrw_population row \<Longrightarrow> mrw_missing (u row) \<le> mrw_population (u row)" for s u rows
    using that by (induction rows) (auto simp: MismatchRow_init_def)
  have "\<forall>row \<in> set (stranded_bump e rows). mrw_missing row \<le> mrw_population row"
    if "\<forall>row \<in> set rows. mrw_missing row \<le> mrw_population row" "case e of (reason, nominal, stranded) \<Rightarrow> stranded \<le> nominal" for e rows
  proof -
    obtain reason nominal stranded where e: "e = (reason, nominal, stranded)" by (cases e)
    show ?thesis unfolding stranded_bump_def e prod.case using that e by (intro step) (simp_all add: saturating_add_mono)
  qed
  then show ?thesis using assms by (induction es rule: rev_induct) auto
qed

lemma tally_member_le:
  assumes "tally_ok t" and "(r, n) \<in> set (tally_non_zero t)"
  shows "unat n \<le> tally_sum t"
proof -
  have "n \<in> set (amounts t)" using assms(2) by (auto simp: tally_non_zero_def dest: set_zip_rightD)
  then show ?thesis using member_le_sum_list [of "unat n" "map unat (amounts t)"] by (simp add: tally_sum_def)
qed

lemma stranded_needs_workload:
  "analyze_stranded_capacity s q = Inr rep \<Longrightarrow>
     \<not> (select_workload s (scr_workload_class q) = None \<and> \<not> id_empty (scr_workload_class q))"
  by (rule notI) (simp add: analyze_stranded_capacity_def Let_def not_found_def)

lemma stranded_never_exceeds_nominal:
  assumes ok: "engine_ok ob" and query: "fst (Observatory_mismatch_analysis now request ob) = Inr a"
  shows "\<forall>row \<in> set (mma_capacity_stranded_by_reason a). mrw_missing row \<le> mrw_population row"
proof -
  define s where "s = build_snapshot now (maq_federation request) ob"
  have closes: "\<forall>c \<in> set (fs_clusters s). \<forall>p \<in> set (clr_capacity_pools c). ledger_closes (cp_ledger p)"
    unfolding s_def by (intro ballI) (rule snapshot_pools_close [OF ok])
  have good: "finding_ok f" if f: "f \<in> set (class_stranding s request k)" for f k
  proof -
    let ?q = "\<lparr>scr_federation = maq_federation request, scr_workload_class = wcr_id k, scr_kind = maq_kind request,
        scr_cluster = no_id, scr_accelerator_class = no_id, scr_include_stale = maq_include_stale request\<rparr>"
    obtain rep where rep: "analyze_stranded_capacity s ?q = Inr rep" "f \<in> set (rep_findings rep)"
      using f by (cases "analyze_stranded_capacity s ?q") (auto simp: class_stranding_def split: if_splits)
    from stranded_report [OF closes stranded_needs_workload [OF rep(1)]] rep show ?thesis by (auto split: if_splits)
  qed
  have "\<forall>(reason, nominal, stranded) \<in> set (stranded_entries s request). stranded \<le> nominal"
  proof (clarsimp simp: stranded_entries_def)
    fix f r n k
    assume "f \<in> set (class_stranding s request k)" and n: "(r, n) \<in> set (tally_non_zero (eb_stranded_by_primary_reason (scf_breakdown f)))"
    then have "finding_ok f" by (intro good)
    then show "n \<le> finding_nominal f"
      using tally_member_le [OF _ n] finding_columns(8) [of f] by (auto simp: finding_ok_def word_le_nat_alt)
  qed
  from stranded_rows_bounded [OF this]
  have "\<forall>row \<in> set (sort_rows (foldl (\<lambda>rows e. stranded_bump e rows) [] (stranded_entries s request))).
      mrw_missing row \<le> mrw_population row" by (auto simp: sort_rows_def)
  moreover have "mma_capacity_stranded_by_reason a =
      sort_rows (foldl (\<lambda>rows e. stranded_bump e rows) [] (stranded_entries s request))"
    using query by (simp add: Observatory_mismatch_analysis_def observe_def s_def analyze_mismatch_def Let_def) auto
  ultimately show ?thesis by simp
qed

section \<open>The precision of a counted row\<close>

text \<open>A new row starts with the weakest precision and \<open>bump\<close> keeps the weakest: every counted row says unknown, whatever
  the precision of the outcomes, and the rewriting of exact rows in \<open>sort_rows\<close> never applies.\<close>

lemma counted_rows_unknown: "row \<in> set (outcome_table bs) \<Longrightarrow> mrw_precision row = Precision_Unknown"
proof -
  have weakest: "weakest_precision Precision_Unknown p = Precision_Unknown" for p
    by (cases p) (simp_all add: weakest_precision_def precision_rank_def Precision_values_def)
  have step: "\<forall>row \<in> set (find_or_add s (bump_row t p) rows). mrw_precision row = Precision_Unknown"
    if "\<forall>row \<in> set rows. mrw_precision row = Precision_Unknown" for s t p rows
    using that by (induction rows) (auto simp: MismatchRow_init_def bump_row_def weakest)
  have "\<forall>row \<in> set (foldl (\<lambda>rows b. bump b rows) [] bs). mrw_precision row = Precision_Unknown"
  proof (induction bs rule: rev_induct)
    case (snoc b bs)
    then show ?case using step by (cases b) (simp add: bump_def)
  qed simp
  then show "row \<in> set (outcome_table bs) \<Longrightarrow> ?thesis" by (auto simp: outcome_table_def sort_rows_def)
qed

end
