(* ===== verification/FO_Reports.thy ===== *)
theory FO_Reports
  imports FO_Answers FO_Fragmentation FO_Drift FO_Mismatch
begin

text \<open>
  The analyses on a concrete fleet: two clusters with an accelerator pool each, five devices idle on one and four on the
  other, and a workload that needs six together. The properties of the analyses are applied to it.
\<close>

definition pooled_cluster :: "string \<Rightarrow> CapacityPool \<Rightarrow> ClusterRecord" where
  "pooled_cluster name pool = (fleet_cluster name)\<lparr>clr_capacity_pools := [pool]\<rparr>"

definition pooled_demand :: WorkloadRecord where
  "pooled_demand = sample_demand\<lparr>wr_required_accelerators := 6\<rparr>"

definition pooled_fleet :: Observatory where
  "pooled_fleet = sample_fleet
     \<lparr>ob_clusters := [(StrongId ''east'', pooled_cluster ''east'' (sample_pool ''a'' 8 3)),
                      (StrongId ''west'', pooled_cluster ''west'' (sample_pool ''b'' 4 0))],
      ob_workloads := [(StrongId ''job'', pooled_demand)]\<rparr>"

lemma pooled_fleet_ok: "engine_ok pooled_fleet"
  by code_simp

definition batch_request :: StrandedCapacityRequest where
  "batch_request = fragmentation_request (StrongId ''fed'') (StrongId ''batch'') ResourceKind_Accelerator"


theorem stranded_report_partitions_witness:
  "\<exists>rep. fst (Observatory_stranded_capacity 7 batch_request pooled_fleet) = Inr rep \<and>
     summary_exact (rep_summary rep) (rep_findings rep) \<and> list_all finding_ok (rep_findings rep)"
proof -
  have "case fst (Observatory_stranded_capacity 7 batch_request pooled_fleet) of Inl e \<Rightarrow> False | Inr rep \<Rightarrow> True"
    by code_simp
  then obtain rep where rep: "fst (Observatory_stranded_capacity 7 batch_request pooled_fleet) = Inr rep"
    by (auto split: sum.splits)
  from stranded_report_partitions [OF pooled_fleet_ok, of 7 batch_request] show ?thesis
    unfolding Let_def rep sum.case list_all_iff by blast
qed

theorem fragmentation_is_exact_witness:
  "\<exists>f. fst (Observatory_fragmentation 7 (StrongId ''fed'') (StrongId ''batch'') ResourceKind_Accelerator pooled_fleet) = Inr f \<and>
     ff_classification f = FragmentationClass_PhysicalFragmentation \<and> ff_required_per_group f = 6 \<and>
     list_all (\<lambda>d. dcap_usable d < 6) (ff_domains f)"
proof -
  have "case fst (Observatory_fragmentation 7 (StrongId ''fed'') (StrongId ''batch'') ResourceKind_Accelerator pooled_fleet) of
      Inl e \<Rightarrow> False
    | Inr f \<Rightarrow> ff_classification f = FragmentationClass_PhysicalFragmentation \<and> ff_required_per_group f = 6"
    by code_simp
  then obtain f where f:
      "fst (Observatory_fragmentation 7 (StrongId ''fed'') (StrongId ''batch'') ResourceKind_Accelerator pooled_fleet) = Inr f"
    "ff_classification f = FragmentationClass_PhysicalFragmentation" "ff_required_per_group f = 6"
    by (auto split: sum.splits)
  from fragmentation_is_exact [OF pooled_fleet_ok, of 7 "StrongId ''fed''" "StrongId ''batch''" ResourceKind_Accelerator]
  obtain rep where "ff_classification f = FragmentationClass_None \<longleftrightarrow>
      ff_required_per_group f \<noteq> 0 \<and> (\<exists>d \<in> set (ff_domains f). ff_required_per_group f \<le> dcap_usable d)"
    unfolding Let_def f(1) sum.case by blast
  with f show ?thesis by (auto simp: list_all_iff not_le)
qed

definition fleet_intended :: IntendedFederationState where
  "fleet_intended =
     \<lparr>ifs_federation = StrongId ''fed'', ifs_generation = Generation 1, ifs_expected_sites = [StrongId ''site''],
      ifs_expected_clusters = [StrongId ''east'', StrongId ''north''], ifs_expected_capabilities = [],
      ifs_expected_runtime_versions = [], ifs_expected_capacity = [], ifs_expected_policy_generation = gen_unset,
      ifs_precision = Precision_Exact, ifs_evidence_class = EvidenceClass_Unknown, ifs_evidence = no_evidence\<rparr>"

definition fleet_drift :: DriftRequest where
  "fleet_drift =
     \<lparr>drq_federation = StrongId ''fed'', drq_intended = Some fleet_intended, drq_behavior_window_supplied = False,
      drq_before_window = \<lparr>tw_from = 0, tw_to = 0\<rparr>, drq_after_window = \<lparr>tw_from = 0, tw_to = 0\<rparr>\<rparr>"


definition fleet_mismatch :: MismatchAnalysisRequest where
  "fleet_mismatch =
     \<lparr>maq_federation = StrongId ''fed'', maq_capability_key = \<lparr>cr_key = CapabilityKey_Unknown, cr_custom = no_id\<rparr>,
      maq_window = \<lparr>tw_from = 0, tw_to = 0\<rparr>, maq_kind = ResourceKind_Accelerator, maq_include_stale = False\<rparr>"


end
