(* ===== verification/FO_Coordinator.thy ===== *)
theory FO_Coordinator
  imports FO_Messages FO_Conduct
begin

text \<open>
  The coordinator process (\<open>coordinator.hpp\<close>, \<open>coordinator.cpp\<close>): the dispatch of a request frame to the state engine,
  its reply, and the service of connections through the bounded ingest queue.

  The version string is made by the build. The answer to a query, which the engine computes with its \<open>const\<close> methods from
  snapshots, is the argument \<open>answers\<close>: it gives the reply and the number of snapshots taken, the only thing a query
  leaves behind in the engine. Everything else of the dispatch is here: the decoding of every request and query, the
  guards, the engine operations and the replies.
\<close>

section \<open>Replies\<close>

definition ReplyPayload_init :: ReplyPayload where
  "ReplyPayload_init =
     \<lparr>rpl_code = Ok, rpl_message = [], rpl_detail = [], rpl_digest = [], rpl_text = [], rpl_rows = []\<rparr>"

definition make_reply :: "Frame \<Rightarrow> ReplyPayload \<Rightarrow> Frame" where
  "make_reply request payload =
     (let encoder = encode_reply payload Encoder_init;
          failure = ReplyPayload_init\<lparr>rpl_code := Internal, rpl_message := ''the coordinator could not encode its reply''\<rparr>
      in if enc_failed encoder then
           \<lparr>fm_type = MessageType_Failure, fm_flags = frame_flag FrameFlags_Reply, fm_request_id = fm_request_id request,
            fm_payload = enc_buffer (encode_reply failure Encoder_init)\<rparr>
         else
           \<lparr>fm_type = (if rpl_code payload = Ok then MessageType_Reply else MessageType_Failure),
            fm_flags = frame_flag FrameFlags_Reply, fm_request_id = fm_request_id request,
            fm_payload = enc_buffer encoder\<rparr>)"

definition make_error_reply :: "Frame \<Rightarrow> ErrorCode \<Rightarrow> string \<Rightarrow> string \<Rightarrow> Frame" where
  "make_error_reply request code message detail =
     make_reply request (ReplyPayload_init\<lparr>rpl_code := code, rpl_message := message, rpl_detail := detail\<rparr>)"

abbreviation refuse_with :: "Frame \<Rightarrow> Error \<Rightarrow> Frame" where
  "refuse_with request e \<equiv> make_error_reply request (error_code e) (error_message e) (error_detail e)"

definition acknowledgement :: "IngestResult \<Rightarrow> PublicationAck" where
  "acknowledgement ir =
     \<lparr>ack_disposition = ir_disposition ir, ack_code = ir_code ir, ack_detail = ir_detail ir,
      ack_watermark = ir_watermark ir, ack_sequence_gap = ir_sequence_gap ir\<rparr>"

definition make_publication_reply :: "Frame \<Rightarrow> IngestResult result \<Rightarrow> Frame" where
  "make_publication_reply request result =
     (case result of
        Inl e \<Rightarrow> refuse_with request e
      | Inr ir \<Rightarrow>
          \<lparr>fm_type = MessageType_Reply, fm_flags = frame_flag FrameFlags_Reply, fm_request_id = fm_request_id request,
           fm_payload = enc_buffer (encode_publication_ack (acknowledgement ir) Encoder_init)\<rparr>)"

section \<open>Configuration and state\<close>

record CoordinatorConfig =
  cc_bind_host :: string
  cc_port :: u16
  cc_bounds :: Bounds
  cc_state_path :: string
  cc_ready_file :: string
  cc_worker_threads :: nat
  cc_accept_threads :: nat
  cc_poll_millis :: int
  cc_allow_fence :: bool
  cc_admin_token :: string
  cc_max_connections :: nat
  cc_log_path :: string

definition CoordinatorConfig_init :: CoordinatorConfig where
  "CoordinatorConfig_init =
     \<lparr>cc_bind_host = ''127.0.0.1'', cc_port = 0, cc_bounds = default_bounds, cc_state_path = [], cc_ready_file = [],
      cc_worker_threads = 1, cc_accept_threads = 1, cc_poll_millis = 50, cc_allow_fence = True, cc_admin_token = [],
      cc_max_connections = 256, cc_log_path = []\<rparr>"

definition CoordinatorConfig_validate :: "CoordinatorConfig \<Rightarrow> Status" where
  "CoordinatorConfig_validate c =
     checks
       [refuse_if (cc_bind_host c = []) InvalidArgument ''coordinator bind host is empty'' [],
        Bounds_validate (cc_bounds c),
        refuse_if (cc_worker_threads c = 0 \<or> cc_worker_threads c > 64) InvalidArgument
          ''worker thread count must be between 1 and 64'' [],
        refuse_if (cc_accept_threads c = 0 \<or> cc_accept_threads c > 8) InvalidArgument
          ''accept thread count must be between 1 and 8'' [],
        refuse_if (cc_poll_millis c < 1 \<or> cc_poll_millis c > 5000) InvalidArgument
          ''poll quantum must be between 1 and 5000 milliseconds'' [],
        refuse_if (cc_max_connections c = 0 \<or> cc_max_connections c > max_connections (cc_bounds c)) InvalidArgument
          ''max_connections must be between 1 and the configured connection bound'' []]"

record Coordinator =
  crd_config :: CoordinatorConfig
  crd_observatory :: Observatory
  crd_coordinator_id :: string
  crd_shutdown_requested :: bool

definition Coordinator_init :: "CoordinatorConfig \<Rightarrow> Coordinator" where
  "Coordinator_init config =
     \<lparr>crd_config = config, crd_observatory = Observatory_init (cc_bounds config), crd_coordinator_id = [],
      crd_shutdown_requested = False\<rparr>"

section \<open>Dispatch of publications\<close>

definition request_decoder :: "Coordinator \<Rightarrow> Frame \<Rightarrow> Decoder" where
  "request_decoder c f = Decoder_init (fm_payload f) (max_frame_bytes (cc_bounds (crd_config c)))"

text \<open>One case of the switch: decode the payload, and when it decodes run the operation and acknowledge its result.\<close>

definition accept_publication ::
  "'a decoder \<Rightarrow> ('a \<Rightarrow> Observatory \<Rightarrow> outcome) \<Rightarrow> Frame \<Rightarrow> Coordinator \<Rightarrow> Frame \<times> Coordinator" where
  "accept_publication dec operation f c =
     (case fst (dec (request_decoder c f)) of
        Inl e \<Rightarrow> (refuse_with f e, c)
      | Inr v \<Rightarrow>
          (case operation v (crd_observatory c) of
             (result, ob) \<Rightarrow> (make_publication_reply f result, c\<lparr>crd_observatory := ob\<rparr>)))"

definition dispatch_publication :: "clock \<Rightarrow> Frame \<Rightarrow> Coordinator \<Rightarrow> Frame \<times> Coordinator" where
  "dispatch_publication clock f c =
     (let t = fm_type f in
      if t = MessageType_RegisterFederation then
        accept_publication decode_federation_publication (\<lambda>(ctx, r). register_federation clock ctx r) f c
      else if t = MessageType_RegisterSite then
        accept_publication decode_site_publication (\<lambda>(ctx, r). register_site clock ctx r) f c
      else if t = MessageType_RegisterCluster then
        accept_publication decode_cluster_publication (\<lambda>(ctx, r). register_cluster clock ctx r) f c
      else if t = MessageType_RegisterAcceleratorClass then
        accept_publication decode_accelerator_class_publication (\<lambda>(ctx, r). register_accelerator_class clock ctx r) f c
      else if t = MessageType_RegisterRuntime then
        accept_publication decode_runtime_publication (\<lambda>(ctx, r). register_runtime clock ctx r) f c
      else if t = MessageType_RegisterBackend then
        accept_publication decode_backend_publication (\<lambda>(ctx, r). register_backend clock ctx r) f c
      else if t = MessageType_RegisterDomain then
        accept_publication decode_domain_publication (\<lambda>(ctx, r). register_domain clock ctx r) f c
      else if t = MessageType_RegisterPolicy then
        accept_publication decode_policy_publication (\<lambda>(ctx, r). register_policy clock ctx r) f c
      else if t = MessageType_RegisterArtifact then
        accept_publication decode_artifact_publication (\<lambda>(ctx, r). register_artifact clock ctx r) f c
      else if t = MessageType_RegisterWorkloadClass then
        accept_publication decode_workload_class_publication (\<lambda>(ctx, r). register_workload_class clock ctx r) f c
      else if t = MessageType_RegisterWorkload then
        accept_publication decode_workload_publication (\<lambda>(ctx, r). register_workload clock ctx r) f c
      else if t = MessageType_PublishPlacement then
        accept_publication decode_placement_publication (\<lambda>(ctx, r). publish_placement clock r ctx) f c
      else if t = MessageType_PublishMigration then
        accept_publication decode_migration_publication (\<lambda>(ctx, r). publish_migration clock r ctx) f c
      else if t = MessageType_PublishPortability then
        accept_publication decode_portability_publication (\<lambda>(ctx, r). publish_portability clock r ctx) f c
      else if t = MessageType_PublishCapability then
        accept_publication decode_capability_publication
          (\<lambda>q. publish_capability clock (cbq_cluster q) (cbq_cluster_generation q) (cbq_capability_generation q)
                 (cbq_capabilities q) (cbq_context q)) f c
      else if t = MessageType_PublishCapacity then
        accept_publication decode_capacity_publication
          (\<lambda>q. publish_capacity clock (cpq_cluster q) (cpq_cluster_generation q) (cpq_capacity_generation q)
                 (cpq_pools q) (cpq_context q)) f c
      else if t = MessageType_PublishMigrationStage then
        accept_publication decode_migration_stage
          (\<lambda>q. publish_migration_stage clock (msq_migration q) (msq_generation q) (msq_stage q) (msq_detail q)
                 (msq_context q)) f c
      else if t = MessageType_RetireCluster then
        accept_publication decode_retire_cluster
          (\<lambda>q. retire_cluster clock (rtc_cluster q) (rtc_generation q) (rtc_reason q) (rtc_context q)) f c
      else (make_error_reply f ProtocolViolation ''unsupported publication type'' (MessageType_to_string t), c))"

section \<open>Dispatch of queries\<close>

datatype Query =
    HealthQuery
  | BoundsQuery
  | QuerySnapshot SnapshotQuery
  | QueryPlacement PlacementQuery
  | QueryRejection RejectionQuery
  | QueryStranded StrandedCapacityRequest
  | QueryFragmentation FragmentationQuery
  | QueryCompatibility CompatibilityQuery
  | QueryPortability PortabilityQuery
  | QueryMigration MigrationQuery
  | QueryMismatch MismatchAnalysisRequest
  | QueryDrift DriftQuery

type_synonym query_answers = "Query \<Rightarrow> Coordinator \<Rightarrow> ReplyPayload result \<times> nat"

definition count_snapshots :: "nat \<Rightarrow> Coordinator \<Rightarrow> Coordinator" where
  "count_snapshots n c = c\<lparr>crd_observatory := (count_snapshot ^^ n) (crd_observatory c)\<rparr>"

definition answer_query :: "query_answers \<Rightarrow> 'a decoder \<Rightarrow> ('a \<Rightarrow> Query) \<Rightarrow> Frame \<Rightarrow> Coordinator \<Rightarrow> Frame \<times> Coordinator" where
  "answer_query answers dec query f c =
     (case fst (dec (request_decoder c f)) of
        Inl e \<Rightarrow> (refuse_with f e, c)
      | Inr q \<Rightarrow>
          (case answers (query q) c of
             (Inl e, n) \<Rightarrow> (refuse_with f e, count_snapshots n c)
           | (Inr payload, n) \<Rightarrow> (make_reply f payload, count_snapshots n c)))"

definition dispatch_query :: "query_answers \<Rightarrow> Frame \<Rightarrow> Coordinator \<Rightarrow> Frame \<times> Coordinator" where
  "dispatch_query answers f c =
     (let t = fm_type f in
      if t = MessageType_QueryHealth then answer_query answers (dec_return HealthQuery) (\<lambda>q. q) f c
      else if t = MessageType_QueryBounds then answer_query answers (dec_return BoundsQuery) (\<lambda>q. q) f c
      else if t = MessageType_QuerySnapshot then answer_query answers decode_snapshot_query QuerySnapshot f c
      else if t = MessageType_QueryPlacement then answer_query answers decode_placement_query QueryPlacement f c
      else if t = MessageType_QueryRejection then answer_query answers decode_rejection_query QueryRejection f c
      else if t = MessageType_QueryStrandedCapacity then answer_query answers decode_stranded_query QueryStranded f c
      else if t = MessageType_QueryFragmentation then answer_query answers decode_fragmentation_query QueryFragmentation f c
      else if t = MessageType_QueryCompatibility then answer_query answers decode_compatibility_query QueryCompatibility f c
      else if t = MessageType_QueryPortability then answer_query answers decode_portability_query QueryPortability f c
      else if t = MessageType_QueryMigration then answer_query answers decode_migration_query QueryMigration f c
      else if t = MessageType_QueryMismatch then answer_query answers decode_mismatch_query QueryMismatch f c
      else if t = MessageType_QueryDrift then answer_query answers decode_drift_query QueryDrift f c
      else (make_error_reply f ProtocolViolation ''unsupported query type'' (MessageType_to_string t), c))"

section \<open>Dispatch\<close>

definition dispatch_hello :: "string \<Rightarrow> Frame \<Rightarrow> Coordinator \<Rightarrow> Frame \<times> Coordinator" where
  "dispatch_hello version_string f c =
     (case decode_hello (request_decoder c f) of
        (Inl e, d) \<Rightarrow> (refuse_with f e, c)
      | (Inr request, d) \<Rightarrow>
          if \<not> exhausted d then (make_error_reply f ProtocolViolation ''HELLO carries trailing bytes'' [], c)
          else
            (\<lparr>fm_type = MessageType_HelloAck, fm_flags = frame_flag FrameFlags_Reply, fm_request_id = fm_request_id f,
              fm_payload = enc_buffer (encode_hello_reply
                \<lparr>hre_protocol = ucast kProtocolVersion, hre_server_version = version_string,
                 hre_epoch = ob_coordinator_epoch (crd_observatory c), hre_coordinator_id = crd_coordinator_id c\<rparr>
                Encoder_init)\<rparr>, c))"

definition dispatch_heartbeat :: "Frame \<Rightarrow> Coordinator \<Rightarrow> Frame \<times> Coordinator" where
  "dispatch_heartbeat f c =
     (\<lparr>fm_type = MessageType_HeartbeatAck, fm_flags = frame_flag FrameFlags_Reply, fm_request_id = fm_request_id f,
       fm_payload = []\<rparr>, c)"

definition dispatch_registration :: "clock \<Rightarrow> Frame \<Rightarrow> Coordinator \<Rightarrow> Frame \<times> Coordinator" where
  "dispatch_registration clock f c =
     accept_publication decode_register_publisher (\<lambda>q. register_publisher clock (rpq_context q)) f c"

definition dispatch_fence :: "Frame \<Rightarrow> Coordinator \<Rightarrow> Frame \<times> Coordinator" where
  "dispatch_fence f c =
     (if \<not> cc_allow_fence (crd_config c) then
        (make_error_reply f UnsupportedOperation ''this coordinator does not accept remote fences'' [], c)
      else
        case fst (decode_fence (request_decoder c f)) of
          Inl e \<Rightarrow> (refuse_with f e, c)
        | Inr q \<Rightarrow>
            if cc_admin_token (crd_config c) \<noteq> [] \<and> fq_token q \<noteq> cc_admin_token (crd_config c) then
              (make_error_reply f UnsupportedOperation ''administrative token does not match'' [], c)
            else
              case fence_publisher (fq_publisher q) (fq_boot q) (fq_reason q) (crd_observatory c) of
                (Failure e, ob) \<Rightarrow> (refuse_with f e, c\<lparr>crd_observatory := ob\<rparr>)
              | (Success, ob) \<Rightarrow>
                  (make_reply f
                     (ReplyPayload_init\<lparr>rpl_message := ''publisher boot identity fenced'',
                        rpl_text := ''fenced publisher '' @ id_value (fq_publisher q) @ '' boot '' @ gen_to_string (fq_boot q)\<rparr>),
                   c\<lparr>crd_observatory := ob\<rparr>))"

definition dispatch :: "string \<Rightarrow> query_answers \<Rightarrow> clock \<Rightarrow> Frame \<Rightarrow> Coordinator \<Rightarrow> Frame \<times> Coordinator" where
  "dispatch version_string answers clock f c =
     (let t = fm_type f in
      if t = MessageType_Hello then dispatch_hello version_string f c
      else if t = MessageType_Heartbeat then dispatch_heartbeat f c
      else if t = MessageType_RegisterPublisher then dispatch_registration clock f c
      else if t = MessageType_FencePublisher then dispatch_fence f c
      else if is_registration t \<or> is_publication t then dispatch_publication clock f c
      else if is_query t then dispatch_query answers f c
      else if t = MessageType_Shutdown then
        (make_reply f (ReplyPayload_init\<lparr>rpl_message := ''shutdown acknowledged; the coordinator will stop after this reply''\<rparr>),
         c\<lparr>crd_shutdown_requested := True\<rparr>)
      else (make_error_reply f ProtocolViolation ''message type is not accepted here'' (MessageType_to_string t), c))"

definition handle_frame ::
  "string \<Rightarrow> query_answers \<Rightarrow> clock \<Rightarrow> Frame \<Rightarrow> Coordinator \<Rightarrow> Frame result \<times> Coordinator" where
  "handle_frame version_string answers clock f c =
     (if \<not> is_request f then (Inl (Error ProtocolViolation ''frame is not a request'' []), c)
      else (case dispatch version_string answers clock f c of (reply, c') \<Rightarrow> (Inr reply, c')))"

section \<open>Replies answer their request\<close>

definition answers_request :: "Frame \<Rightarrow> Frame \<Rightarrow> bool" where
  "answers_request f reply \<longleftrightarrow>
     fm_request_id reply = fm_request_id f \<and> is_reply reply \<and>
     fm_type reply \<in> {MessageType_HelloAck, MessageType_HeartbeatAck, MessageType_Reply, MessageType_Failure}"

lemma direct_reply_answers [simp]:
  "answers_request f \<lparr>fm_type = t, fm_flags = frame_flag FrameFlags_Reply, fm_request_id = fm_request_id f, fm_payload = p\<rparr> \<longleftrightarrow>
     t \<in> {MessageType_HelloAck, MessageType_HeartbeatAck, MessageType_Reply, MessageType_Failure}"
  by (simp add: answers_request_def is_reply_def)

lemma make_reply_answers [simp]: "answers_request f (make_reply f payload)"
  by (simp add: make_reply_def Let_def del: frame_flag.simps)

lemma make_error_reply_answers [simp]: "answers_request f (make_error_reply f code message detail)"
  by (simp add: make_error_reply_def)

lemma make_publication_reply_answers [simp]: "answers_request f (make_publication_reply f result)"
  by (simp add: make_publication_reply_def del: frame_flag.simps split: sum.split)

section \<open>The coordinator drives the engine through its operations only\<close>

lemma reachable_trans: "reachable_from ob2 ob3 \<Longrightarrow> reachable_from ob1 ob2 \<Longrightarrow> reachable_from ob1 ob3"
  by (induction rule: reachable_from.induct) (auto intro: reachable_from.step)

lemma reachable_step: "engine_step ob ob' \<Longrightarrow> reachable_from ob ob'"
  by (rule reachable_from.step [OF reachable_from.refl])

text \<open>What a request may do: answer, keep the configuration, and move the engine by steps of its own.\<close>

definition serves :: "Frame \<Rightarrow> Coordinator \<Rightarrow> Frame \<times> Coordinator \<Rightarrow> bool" where
  "serves f c out \<longleftrightarrow>
     answers_request f (fst out) \<and> crd_config (snd out) = crd_config c \<and>
     reachable_from (crd_observatory c) (crd_observatory (snd out))"

lemma serves_reply: "answers_request f reply \<Longrightarrow> serves f c (reply, c)"
  by (simp add: serves_def reachable_from.refl)

lemma reachable_counts: "reachable_from ob ((count_snapshot ^^ n) ob)"
  by (induction n) (auto intro: reachable_from.intros engine_step.observation)

lemma serves_step: "answers_request f reply \<Longrightarrow> engine_step (crd_observatory c) ob \<Longrightarrow> serves f c (reply, c\<lparr>crd_observatory := ob\<rparr>)"
  by (simp add: serves_def reachable_step)

lemma serves_accepted:
  assumes "\<And>v ob. engine_step ob (snd (operation v ob))"
  shows "serves f c (accept_publication dec operation f c)"
  using serves_step [OF make_publication_reply_answers assms]
  by (auto simp: accept_publication_def serves_reply split: sum.split prod.split) (metis snd_conv)

lemma serves_query: "serves f c (answer_query answers dec query f c)"
  by (auto simp: answer_query_def serves_reply serves_def count_snapshots_def reachable_from.refl reachable_counts
      split: sum.split prod.split)

lemma serves_if: "serves f c a \<Longrightarrow> serves f c b \<Longrightarrow> serves f c (if x then a else b)"
  by simp

lemmas publication_steps =
  engine_step.publication [OF publications.federation] engine_step.publication [OF publications.site]
  engine_step.publication [OF publications.accelerator_class] engine_step.publication [OF publications.runtime]
  engine_step.publication [OF publications.backend] engine_step.publication [OF publications.domain]
  engine_step.publication [OF publications.policy] engine_step.publication [OF publications.artifact]
  engine_step.publication [OF publications.workload_class] engine_step.publication [OF publications.workload]
  engine_step.publication [OF publications.cluster] engine_step.publication [OF publications.retirement]
  engine_step.publication [OF publications.capability] engine_step.publication [OF publications.capacity]
  engine_step.publication [OF publications.placement] engine_step.publication [OF publications.migration]
  engine_step.publication [OF publications.stage] engine_step.publication [OF publications.portability]

lemma serves_publication: "serves f c (dispatch_publication clock f c)"
  unfolding dispatch_publication_def Let_def
  by (intro serves_if serves_accepted serves_reply) (simp_all add: split_beta publication_steps)

lemma serves_hello: "serves f c (dispatch_hello version_string f c)"
  by (auto simp: dispatch_hello_def simp del: frame_flag.simps split: prod.split sum.split intro!: serves_reply)

lemma serves_fence: "serves f c (dispatch_fence f c)"
  using engine_step.fencing [of "crd_observatory c"]
  by (auto simp: dispatch_fence_def split: prod.split sum.split Status.split intro!: serves_reply serves_step)
    (metis snd_conv)+

lemma serves_dispatch: "serves f c (dispatch version_string answers clock f c)"
  unfolding dispatch_def dispatch_query_def dispatch_registration_def dispatch_heartbeat_def Let_def
  by (intro serves_if serves_hello serves_fence serves_publication serves_query serves_accepted serves_reply)
    (simp_all add: engine_step.registration serves_def reachable_from.refl del: frame_flag.simps)

fun serve_frames :: "string \<Rightarrow> query_answers \<Rightarrow> (clock \<times> Frame) list \<Rightarrow> Coordinator \<Rightarrow> Coordinator" where
  "serve_frames version_string answers [] c = c"
| "serve_frames version_string answers ((clock, f) # fs) c =
     serve_frames version_string answers fs (snd (dispatch version_string answers clock f c))"

lemma serve_frames_driven:
  "crd_config (serve_frames version_string answers fs c) = crd_config c \<and>
   reachable_from (crd_observatory c) (crd_observatory (serve_frames version_string answers fs c))"
proof (induction fs arbitrary: c)
  case (Cons x fs)
  obtain clock f where x: "x = (clock, f)" by force
  have "serves f c (dispatch version_string answers clock f c)" by (rule serves_dispatch)
  then show ?case
    using Cons.IH [of "snd (dispatch version_string answers clock f c)"] by (auto simp: x serves_def intro: reachable_trans)
qed (simp add: reachable_from.refl)


text \<open>
  Every request gets its answer. The reply to a frame carries its request identifier and the reply flag, has one of
  the four reply types, and the frame encoder accepts it unless its payload exceeds the frame bound.
\<close>

lemma dispatch_answers_request:
  "answers_request f (fst (dispatch version_string answers clock f c)) \<and>
   (length (fm_payload (fst (dispatch version_string answers clock f c))) \<le> max_frame_bytes b \<longrightarrow>
      (\<exists>img. encode_frame (fst (dispatch version_string answers clock f c)) b = Inr img))"
proof -
  have a: "answers_request f (fst (dispatch version_string answers clock f c))"
    using serves_dispatch by (simp add: serves_def)
  then have "known_message_type (message_code (fm_type (fst (dispatch version_string answers clock f c))))"
    by (auto simp: answers_request_def known_message_type_def)
  with a show ?thesis by (simp add: encode_frame_def)
qed

section \<open>What is sent is what is applied\<close>

text \<open>A frame of the given type whose payload is the encoding of a value within the limits of the wire format.\<close>

definition carries ::
  "MessageType \<Rightarrow> ('a \<Rightarrow> Encoder \<Rightarrow> Encoder) \<Rightarrow> ('a \<Rightarrow> bool) \<Rightarrow> 'a \<Rightarrow> Frame \<Rightarrow> Coordinator \<Rightarrow> bool" where
  "carries t enc encodable v f c \<longleftrightarrow>
     fm_type f = t \<and> encodable v \<and> fm_payload f = enc_buffer (enc v Encoder_init) \<and>
     length (fm_payload f) \<le> max_frame_bytes (cc_bounds (crd_config c))"

definition served :: "Frame \<Rightarrow> Coordinator \<Rightarrow> outcome \<Rightarrow> Frame \<times> Coordinator" where
  "served f c out = (make_publication_reply f (fst out), c\<lparr>crd_observatory := snd out\<rparr>)"

lemma accept_carried:
  assumes "exact_codec enc dec encodable" and "carries t enc encodable v f c"
  shows "accept_publication dec operation f c = served f c (operation v (crd_observatory c))"
proof -
  have "fst (dec (request_decoder c f)) = Inr v"
    using assms unfolding exact_codec_def carries_def request_decoder_def by force
  then show ?thesis by (simp add: accept_publication_def served_def split: prod.split)
qed

lemma sent:
  assumes "exact_codec enc dec encodable" and "carries t enc encodable v f c"
    and "fm_type f = t \<Longrightarrow> dispatch version_string answers clock f c = accept_publication dec operation f c"
  shows "dispatch version_string answers clock f c = served f c (operation v (crd_observatory c))"
  using accept_carried [OF assms(1,2)] assms(2,3) by (simp add: carries_def)

lemma dispatch_by_type:
  "fm_type f = MessageType_RegisterFederation \<Longrightarrow> dispatch version_string answers clock f c =
     accept_publication decode_federation_publication (\<lambda>(ctx, r). register_federation clock ctx r) f c"
  "fm_type f = MessageType_RegisterSite \<Longrightarrow> dispatch version_string answers clock f c =
     accept_publication decode_site_publication (\<lambda>(ctx, r). register_site clock ctx r) f c"
  "fm_type f = MessageType_RegisterCluster \<Longrightarrow> dispatch version_string answers clock f c =
     accept_publication decode_cluster_publication (\<lambda>(ctx, r). register_cluster clock ctx r) f c"
  "fm_type f = MessageType_RegisterAcceleratorClass \<Longrightarrow> dispatch version_string answers clock f c =
     accept_publication decode_accelerator_class_publication (\<lambda>(ctx, r). register_accelerator_class clock ctx r) f c"
  "fm_type f = MessageType_RegisterRuntime \<Longrightarrow> dispatch version_string answers clock f c =
     accept_publication decode_runtime_publication (\<lambda>(ctx, r). register_runtime clock ctx r) f c"
  "fm_type f = MessageType_RegisterBackend \<Longrightarrow> dispatch version_string answers clock f c =
     accept_publication decode_backend_publication (\<lambda>(ctx, r). register_backend clock ctx r) f c"
  "fm_type f = MessageType_RegisterDomain \<Longrightarrow> dispatch version_string answers clock f c =
     accept_publication decode_domain_publication (\<lambda>(ctx, r). register_domain clock ctx r) f c"
  "fm_type f = MessageType_RegisterPolicy \<Longrightarrow> dispatch version_string answers clock f c =
     accept_publication decode_policy_publication (\<lambda>(ctx, r). register_policy clock ctx r) f c"
  "fm_type f = MessageType_RegisterArtifact \<Longrightarrow> dispatch version_string answers clock f c =
     accept_publication decode_artifact_publication (\<lambda>(ctx, r). register_artifact clock ctx r) f c"
  "fm_type f = MessageType_RegisterWorkloadClass \<Longrightarrow> dispatch version_string answers clock f c =
     accept_publication decode_workload_class_publication (\<lambda>(ctx, r). register_workload_class clock ctx r) f c"
  "fm_type f = MessageType_RegisterWorkload \<Longrightarrow> dispatch version_string answers clock f c =
     accept_publication decode_workload_publication (\<lambda>(ctx, r). register_workload clock ctx r) f c"
  "fm_type f = MessageType_PublishPlacement \<Longrightarrow> dispatch version_string answers clock f c =
     accept_publication decode_placement_publication (\<lambda>(ctx, r). publish_placement clock r ctx) f c"
  "fm_type f = MessageType_PublishMigration \<Longrightarrow> dispatch version_string answers clock f c =
     accept_publication decode_migration_publication (\<lambda>(ctx, r). publish_migration clock r ctx) f c"
  "fm_type f = MessageType_PublishPortability \<Longrightarrow> dispatch version_string answers clock f c =
     accept_publication decode_portability_publication (\<lambda>(ctx, r). publish_portability clock r ctx) f c"
  "fm_type f = MessageType_PublishCapability \<Longrightarrow> dispatch version_string answers clock f c =
     accept_publication decode_capability_publication
       (\<lambda>q. publish_capability clock (cbq_cluster q) (cbq_cluster_generation q) (cbq_capability_generation q) (cbq_capabilities q) (cbq_context q)) f c"
  "fm_type f = MessageType_PublishCapacity \<Longrightarrow> dispatch version_string answers clock f c =
     accept_publication decode_capacity_publication
       (\<lambda>q. publish_capacity clock (cpq_cluster q) (cpq_cluster_generation q) (cpq_capacity_generation q) (cpq_pools q) (cpq_context q)) f c"
  "fm_type f = MessageType_PublishMigrationStage \<Longrightarrow> dispatch version_string answers clock f c =
     accept_publication decode_migration_stage
       (\<lambda>q. publish_migration_stage clock (msq_migration q) (msq_generation q) (msq_stage q) (msq_detail q) (msq_context q)) f c"
  "fm_type f = MessageType_RetireCluster \<Longrightarrow> dispatch version_string answers clock f c =
     accept_publication decode_retire_cluster
       (\<lambda>q. retire_cluster clock (rtc_cluster q) (rtc_generation q) (rtc_reason q) (rtc_context q)) f c"
  "fm_type f = MessageType_RegisterPublisher \<Longrightarrow> dispatch version_string answers clock f c =
     accept_publication decode_register_publisher
       (\<lambda>q. register_publisher clock (rpq_context q)) f c"
  by (simp_all add: dispatch_def Let_def dispatch_publication_def dispatch_registration_def is_registration_def is_publication_def)

lemmas sent_rules =
  sent [OF federation_codec.exact_publication [folded encode_federation_publication_def decode_federation_publication_def] _ dispatch_by_type(1)]
  sent [OF site_codec.exact_publication [folded encode_site_publication_def decode_site_publication_def] _ dispatch_by_type(2)]
  sent [OF cluster_codec.exact_publication [folded encode_cluster_publication_def decode_cluster_publication_def] _ dispatch_by_type(3)]
  sent [OF accelerator_class_codec.exact_publication [folded encode_accelerator_class_publication_def decode_accelerator_class_publication_def] _ dispatch_by_type(4)]
  sent [OF runtime_codec.exact_publication [folded encode_runtime_publication_def decode_runtime_publication_def] _ dispatch_by_type(5)]
  sent [OF backend_codec.exact_publication [folded encode_backend_publication_def decode_backend_publication_def] _ dispatch_by_type(6)]
  sent [OF domain_codec.exact_publication [folded encode_domain_publication_def decode_domain_publication_def] _ dispatch_by_type(7)]
  sent [OF policy_codec.exact_publication [folded encode_policy_publication_def decode_policy_publication_def] _ dispatch_by_type(8)]
  sent [OF artifact_codec.exact_publication [folded encode_artifact_publication_def decode_artifact_publication_def] _ dispatch_by_type(9)]
  sent [OF workload_class_codec.exact_publication [folded encode_workload_class_publication_def decode_workload_class_publication_def] _ dispatch_by_type(10)]
  sent [OF workload_codec.exact_publication [folded encode_workload_publication_def decode_workload_publication_def] _ dispatch_by_type(11)]
  sent [OF placement_codec.exact_publication [folded encode_placement_publication_def decode_placement_publication_def] _ dispatch_by_type(12)]
  sent [OF migration_codec.exact_publication [folded encode_migration_publication_def decode_migration_publication_def] _ dispatch_by_type(13)]
  sent [OF portability_codec.exact_publication [folded encode_portability_publication_def decode_portability_publication_def] _ dispatch_by_type(14)]
  sent [OF capability_publication_codec.exact _ dispatch_by_type(15)]
  sent [OF capacity_publication_codec.exact _ dispatch_by_type(16)]
  sent [OF migration_stage_codec.exact _ dispatch_by_type(17)]
  sent [OF retire_cluster_codec.exact _ dispatch_by_type(18)]
  sent [OF register_publisher_codec.exact _ dispatch_by_type(19)]


end
