(* ===== verification/FO_Server.thy ===== *)
theory FO_Server
  imports FO_Coordinator FO_RoundTrips "HOL-Library.Multiset"
begin

text \<open>
  The threads of the coordinator (\<open>FederationCoordinator::start\<close> and \<open>stop\<close>) as a step relation: accept threads admit
  connections, a connection thread reads a frame, queues it and waits for its completion before it reads the next, ingest
  workers take items from the bounded queue and dispatch them, and a stop answers what is still queued. Each step is
  what a thread does while it holds one of the mutexes; a dispatch runs under the engine's own lock. The events of a run
  are the frames queued, refused, applied, abandoned and the images written back. The theorems: every queued frame is
  applied or abandoned exactly once or still in the system, a refused frame is not applied, the bounds on queue,
  workers and connections hold, one worker applies in arrival order, and the engine only ever moves by the dispatch of
  applied frames.
\<close>

section \<open>Server state\<close>

type_synonym connection = nat

record Counters =
  cnt_connections_accepted :: u64
  cnt_connections_rejected :: u64
  cnt_frames_received :: u64
  cnt_frames_rejected :: u64
  cnt_frames_sent :: u64
  cnt_queue_rejections :: u64
  cnt_connections_closed_by_shutdown :: u64
  cnt_active_connections :: u64

definition Counters_init :: Counters where
  "Counters_init =
     \<lparr>cnt_connections_accepted = 0, cnt_connections_rejected = 0, cnt_frames_received = 0, cnt_frames_rejected = 0,
      cnt_frames_sent = 0, cnt_queue_rejections = 0, cnt_connections_closed_by_shutdown = 0, cnt_active_connections = 0\<rparr>"

text \<open>
  A work item is the connection that waits for it and its frame. \<open>srv_working\<close> are the items the workers have taken,
  \<open>srv_completed\<close> the fulfilled promises whose connection thread has not run yet.
\<close>

record Server =
  srv_coordinator :: Coordinator
  srv_stopping :: bool
  srv_queue :: "(connection \<times> Frame) list"
  srv_working :: "(connection \<times> Frame) list"
  srv_completed :: "(connection \<times> Frame \<times> Frame result) list"
  srv_connections :: "connection list"
  srv_next_connection_id :: connection
  srv_counters :: Counters

definition Server_init :: "CoordinatorConfig \<Rightarrow> Server" where
  "Server_init config =
     \<lparr>srv_coordinator = Coordinator_init config, srv_stopping = False, srv_queue = [], srv_working = [], srv_completed = [],
      srv_connections = [], srv_next_connection_id = 0, srv_counters = Counters_init\<rparr>"

abbreviation srv_config :: "Server \<Rightarrow> CoordinatorConfig" where
  "srv_config s \<equiv> crd_config (srv_coordinator s)"

definition waiting :: "Server \<Rightarrow> connection list" where
  "waiting s = map fst (srv_queue s) @ map fst (srv_working s) @ map fst (srv_completed s)"

definition close_connection :: "connection \<Rightarrow> Server \<Rightarrow> Server" where
  "close_connection i s =
     (let open = removeAll i (srv_connections s)
      in s\<lparr>srv_connections := open,
           srv_counters := (srv_counters s)\<lparr>cnt_active_connections := of_nat (length open)\<rparr>\<rparr>)"

definition kBackpressureText :: string where
  "kBackpressureText =
     ''the coordinator ingest queue is full; this observation was refused and was NOT applied, so the published evidence is known-incomplete''"

definition shutdown_error :: Error where
  "shutdown_error = Error ShuttingDown ''the coordinator stopped before this observation was applied; it was NOT applied'' []"

section \<open>Events and steps\<close>

datatype event =
    Silent
  | Queued connection Frame
  | Refused connection Frame Frame
  | Applied connection Frame clock Frame
  | Abandoned connection Frame
  | Written connection "byte list"

definition accept_connection :: "Server \<Rightarrow> Server" where
  "accept_connection s =
     (if length (srv_connections s) \<ge> cc_max_connections (srv_config s) then
        s\<lparr>srv_counters := (srv_counters s)\<lparr>cnt_connections_rejected := cnt_connections_rejected (srv_counters s) + 1\<rparr>\<rparr>
      else
        let i = Suc (srv_next_connection_id s); open = srv_connections s @ [i]
        in s\<lparr>srv_next_connection_id := i, srv_connections := open,
             srv_counters := (srv_counters s)
               \<lparr>cnt_connections_accepted := cnt_connections_accepted (srv_counters s) + 1,
                cnt_active_connections := of_nat (length open)\<rparr>\<rparr>)"

definition count_received :: "Server \<Rightarrow> Server" where
  "count_received s =
     s\<lparr>srv_counters := (srv_counters s)\<lparr>cnt_frames_received := cnt_frames_received (srv_counters s) + 1\<rparr>\<rparr>"

definition count_refused :: "Server \<Rightarrow> Server" where
  "count_refused s =
     s\<lparr>srv_counters := (srv_counters s)\<lparr>cnt_queue_rejections := cnt_queue_rejections (srv_counters s) + 1\<rparr>\<rparr>"

definition count_rejected :: "Server \<Rightarrow> Server" where
  "count_rejected s =
     s\<lparr>srv_counters := (srv_counters s)\<lparr>cnt_frames_rejected := cnt_frames_rejected (srv_counters s) + 1\<rparr>\<rparr>"

definition count_sent :: "Server \<Rightarrow> Server" where
  "count_sent s =
     s\<lparr>srv_counters := (srv_counters s)\<lparr>cnt_frames_sent := cnt_frames_sent (srv_counters s) + 1\<rparr>\<rparr>"

text \<open>\<open>next\<close> failed on a connection that is not waiting: a closed peer ends it quietly, anything else is counted.\<close>

definition read_failed :: "connection \<Rightarrow> Error \<Rightarrow> Server \<Rightarrow> Server" where
  "read_failed i e s = close_connection i (if error_code e = ConnectionClosed then s else count_rejected s)"

text \<open>A connection thread resumes with the result of its item: what it writes, and how it goes on.\<close>

definition resume :: "connection \<times> Frame \<times> Frame result \<Rightarrow> Server \<Rightarrow> event \<times> Server" where
  "resume item s0 =
     (let s = s0\<lparr>srv_completed := remove1 item (srv_completed s0)\<rparr>; b = cc_bounds (srv_config s)
      in case item of
           (i, f, Inl e) \<Rightarrow>
             (case encode_frame (refuse_with f e) b of
                Inl e' \<Rightarrow> (Silent, close_connection i s)
              | Inr img \<Rightarrow> (Written i img, s))
         | (i, f, Inr reply) \<Rightarrow>
             if srv_stopping s then (Silent, close_connection i s)
             else (case encode_frame reply b of
                     Inl e' \<Rightarrow> (Silent, close_connection i (count_rejected s))
                   | Inr img \<Rightarrow> (Written i img, count_sent s)))"

definition begin_stop :: "Server \<Rightarrow> Server" where
  "begin_stop s =
     s\<lparr>srv_stopping := True,
       srv_counters := (srv_counters s)\<lparr>cnt_connections_closed_by_shutdown :=
         cnt_connections_closed_by_shutdown (srv_counters s) + of_nat (length (srv_connections s))\<rparr>\<rparr>"

inductive server_step :: "string \<Rightarrow> query_answers \<Rightarrow> Server \<Rightarrow> event \<Rightarrow> Server \<Rightarrow> bool" for version_string answers where
  connect: "\<not> srv_stopping s \<Longrightarrow> server_step version_string answers s Silent (accept_connection s)"
| queued:
    "i \<in> set (srv_connections s) \<Longrightarrow> i \<notin> set (waiting s) \<Longrightarrow> fm_type f \<noteq> MessageType_Invalid \<Longrightarrow>
     length (srv_queue s) < max_ingest_queue_depth (cc_bounds (srv_config s)) \<Longrightarrow> \<not> srv_stopping s \<Longrightarrow>
     server_step version_string answers s (Queued i f) ((count_received s)\<lparr>srv_queue := srv_queue s @ [(i, f)]\<rparr>)"
| refused:
    "i \<in> set (srv_connections s) \<Longrightarrow> i \<notin> set (waiting s) \<Longrightarrow> fm_type f \<noteq> MessageType_Invalid \<Longrightarrow>
     length (srv_queue s) \<ge> max_ingest_queue_depth (cc_bounds (srv_config s)) \<or> srv_stopping s \<Longrightarrow>
     server_step version_string answers s (Refused i f (make_error_reply f Backpressure kBackpressureText []))
       (count_refused (count_received s))"
| failed:
    "i \<in> set (srv_connections s) \<Longrightarrow> i \<notin> set (waiting s) \<Longrightarrow> server_step version_string answers s Silent (read_failed i e s)"
| taken:
    "srv_queue s = x # xs \<Longrightarrow> length (srv_working s) < cc_worker_threads (srv_config s) \<Longrightarrow>
     server_step version_string answers s Silent (s\<lparr>srv_queue := xs, srv_working := srv_working s @ [x]\<rparr>)"
| applied:
    "(i, f) \<in> set (srv_working s) \<Longrightarrow> dispatch version_string answers clock f (srv_coordinator s) = (reply, c) \<Longrightarrow>
     server_step version_string answers s (Applied i f clock reply)
       (s\<lparr>srv_coordinator := c, srv_working := remove1 (i, f) (srv_working s),
          srv_completed := srv_completed s @ [(i, f, Inr reply)]\<rparr>)"
| resumed:
    "item \<in> set (srv_completed s) \<Longrightarrow> resume item s = (ev, s') \<Longrightarrow> server_step version_string answers s ev s'"
| stopping: "server_step version_string answers s Silent (begin_stop s)"
| abandoned:
    "srv_stopping s \<Longrightarrow> srv_queue s = (i, f) # xs \<Longrightarrow>
     server_step version_string answers s (Abandoned i f)
       (s\<lparr>srv_queue := xs, srv_completed := srv_completed s @ [(i, f, Inl shutdown_error)]\<rparr>)"

inductive server_run :: "string \<Rightarrow> query_answers \<Rightarrow> Server \<Rightarrow> event list \<Rightarrow> Server \<Rightarrow> bool" for version_string answers s0 where
  start: "server_run version_string answers s0 [] s0"
| step: "server_run version_string answers s0 tr s \<Longrightarrow> server_step version_string answers s ev s' \<Longrightarrow>
    server_run version_string answers s0 (tr @ [ev]) s'"

inductive_cases server_stepE: "server_step version_string answers s ev s'"

section \<open>What an event says about the items\<close>

fun queued_item :: "event \<Rightarrow> (connection \<times> Frame) list" where
  "queued_item (Queued i f) = [(i, f)]"
| "queued_item _ = []"

fun applied_item :: "event \<Rightarrow> (connection \<times> Frame) list" where
  "applied_item (Applied i f clock reply) = [(i, f)]"
| "applied_item _ = []"

fun applied_frame :: "event \<Rightarrow> (clock \<times> Frame) list" where
  "applied_frame (Applied i f clock reply) = [(clock, f)]"
| "applied_frame _ = []"

fun abandoned_item :: "event \<Rightarrow> (connection \<times> Frame) list" where
  "abandoned_item (Abandoned i f) = [(i, f)]"
| "abandoned_item _ = []"

abbreviation queued_in :: "event list \<Rightarrow> (connection \<times> Frame) list" where
  "queued_in tr \<equiv> concat (map queued_item tr)"

abbreviation applied_in :: "event list \<Rightarrow> (connection \<times> Frame) list" where
  "applied_in tr \<equiv> concat (map applied_item tr)"

abbreviation frames_in :: "event list \<Rightarrow> (clock \<times> Frame) list" where
  "frames_in tr \<equiv> concat (map applied_frame tr)"

abbreviation abandoned_in :: "event list \<Rightarrow> (connection \<times> Frame) list" where
  "abandoned_in tr \<equiv> concat (map abandoned_item tr)"

section \<open>Frame lemmas\<close>

lemma close_connection_simps [simp]:
  "srv_coordinator (close_connection i s) = srv_coordinator s" "srv_stopping (close_connection i s) = srv_stopping s"
  "srv_queue (close_connection i s) = srv_queue s" "srv_working (close_connection i s) = srv_working s"
  "srv_completed (close_connection i s) = srv_completed s"
  "srv_connections (close_connection i s) = removeAll i (srv_connections s)"
  by (simp_all add: close_connection_def Let_def)

lemma counting_simps [simp]:
  "waiting (count_received s) = waiting s" "waiting (count_refused s) = waiting s" "waiting (count_rejected s) = waiting s"
  "waiting (count_sent s) = waiting s" "waiting (close_connection i s) = waiting s" "waiting (begin_stop s) = waiting s"
  by (simp_all add: waiting_def count_received_def count_refused_def count_rejected_def count_sent_def begin_stop_def)

lemmas counting_defs = count_received_def count_refused_def count_rejected_def count_sent_def begin_stop_def
  accept_connection_def read_failed_def Let_def

lemma resume_outcome:
  assumes "resume item s = (ev, s')"
  shows "srv_coordinator s' = srv_coordinator s \<and> srv_stopping s' = srv_stopping s \<and> srv_queue s' = srv_queue s \<and>
    srv_working s' = srv_working s \<and> srv_completed s' = remove1 item (srv_completed s) \<and>
    length (srv_connections s') \<le> length (srv_connections s) \<and> set (srv_connections s') \<subseteq> set (srv_connections s) \<and>
    queued_item ev = [] \<and> applied_item ev = [] \<and> applied_frame ev = [] \<and> abandoned_item ev = []"
  using assms unfolding resume_def Let_def
  by (auto simp: count_rejected_def count_sent_def length_removeAll_less_eq split: prod.splits sum.splits if_splits)

section \<open>One step\<close>

text \<open>What every step keeps: items are conserved, limits hold, waiting connections wait for one item each.\<close>

definition step_conserves :: "Server \<Rightarrow> event \<Rightarrow> Server \<Rightarrow> bool" where
  "step_conserves s ev s' \<longleftrightarrow>
     mset (queued_item ev) + mset (srv_working s) + mset (srv_queue s) =
     mset (applied_item ev) + mset (abandoned_item ev) + mset (srv_working s') + mset (srv_queue s')"

definition server_ok :: "Server \<Rightarrow> bool" where
  "server_ok s \<longleftrightarrow>
     length (srv_queue s) \<le> max_ingest_queue_depth (cc_bounds (srv_config s)) \<and>
     length (srv_working s) \<le> cc_worker_threads (srv_config s) \<and>
     length (srv_connections s) \<le> cc_max_connections (srv_config s) \<and> distinct (waiting s)"

lemma mset_waiting:
  "mset (waiting s) = image_mset fst (mset (srv_queue s)) + image_mset fst (mset (srv_working s)) +
     image_mset fst (mset (srv_completed s))"
  by (simp add: waiting_def)

lemma distinct_submultiset:
  assumes "mset ys \<subseteq># mset xs" and "distinct xs"
  shows "distinct ys"
proof -
  obtain zs where "mset xs = mset (ys @ zs)"
    using assms(1) by (metis mset_subset_eq_exists_conv ex_mset mset_append)
  then show ?thesis using mset_eq_imp_distinct_iff assms(2) by (metis distinct_append)
qed

lemma dispatch_config: "dispatch version_string answers clock f c = (reply, c') \<Longrightarrow> crd_config c' = crd_config c"
  using serves_dispatch [of f c version_string answers clock] by (simp add: serves_def)

lemma step_conserved:
  assumes "server_step version_string answers s ev s'"
  shows "step_conserves s ev s'"
  using assms
proof (cases rule: server_step.cases)
  case (resumed item)
  then show ?thesis using resume_outcome [of item s ev s'] by (simp add: step_conserves_def)
qed (auto simp: step_conserves_def counting_defs)

lemma step_waiting:
  assumes "server_step version_string answers s ev s'"
  shows "mset (waiting s') \<subseteq># mset (map fst (queued_item ev)) + mset (waiting s)"
  using assms
proof (cases rule: server_step.cases)
  case (applied i f clock reply c)
  have "image_mset fst (mset (remove1 (i, f) (srv_working s))) + {#i#} = image_mset fst (mset (srv_working s))"
    using applied(3) by (metis add_mset_add_single fst_conv image_mset_add_mset insert_DiffM mset_remove1 set_mset_mset)
  then show ?thesis using applied by (simp add: mset_waiting)
next
  case (resumed item)
  then show ?thesis
    using resume_outcome [of item s ev s'] by (simp add: mset_waiting image_mset_subseteq_mono diff_subset_eq_self)
qed (auto simp: mset_waiting counting_defs)

lemma step_ok:
  assumes "server_step version_string answers s ev s'" and "server_ok s"
  shows "server_ok s' \<and> srv_config s' = srv_config s"
proof -
  have "distinct (map fst (queued_item ev) @ waiting s)"
    using assms by (cases rule: server_step.cases) (auto simp: server_ok_def dest: resume_outcome)
  then have d: "distinct (waiting s')"
    using step_waiting [OF assms(1)] distinct_submultiset [of "waiting s'" "map fst (queued_item ev) @ waiting s"] by simp
  show ?thesis
    using assms(1)
  proof (cases rule: server_step.cases)
    case (applied i f clock reply c)
    then show ?thesis using d assms(2) dispatch_config [OF applied(4)]
      by (auto simp: server_ok_def length_remove1)
  next
    case (resumed item)
    then show ?thesis using d assms(2) resume_outcome [OF resumed(2)] by (auto simp: server_ok_def)
  qed (use d assms(2) in \<open>auto simp: server_ok_def counting_defs intro: le_trans [OF length_removeAll_less_eq]\<close>)
qed

lemma step_coordinator:
  assumes "server_step version_string answers s ev s'"
  shows "srv_coordinator s' = serve_frames version_string answers (applied_frame ev) (srv_coordinator s)"
  using assms
proof (cases rule: server_step.cases)
  case (resumed item)
  then show ?thesis using resume_outcome [OF resumed(2)] by simp
qed (auto simp: counting_defs)

lemma step_stopping: "server_step version_string answers s ev s' \<Longrightarrow> srv_stopping s \<Longrightarrow> srv_stopping s'"
  by (erule server_step.cases) (auto simp: counting_defs dest: resume_outcome)

section \<open>Runs\<close>

lemma server_ok_init: "server_ok (Server_init config)"
  by (simp add: server_ok_def Server_init_def waiting_def)

lemma run_ok:
  "server_run version_string answers s0 tr s \<Longrightarrow> server_ok s0 \<Longrightarrow> server_ok s \<and> srv_config s = srv_config s0"
  by (induction rule: server_run.induct) (auto dest: step_ok)

lemma run_conserves:
  assumes "server_run version_string answers s0 tr s"
  shows "mset (queued_in tr) + mset (srv_working s0) + mset (srv_queue s0) =
    mset (applied_in tr) + mset (abandoned_in tr) + mset (srv_working s) + mset (srv_queue s)"
  using assms
proof (induction rule: server_run.induct)
  case (step tr s ev s')
  let ?old = "mset (applied_in tr) + mset (abandoned_in tr)"
  have "mset (queued_in (tr @ [ev])) + mset (srv_working s0) + mset (srv_queue s0) =
      mset (queued_item ev) + (mset (queued_in tr) + mset (srv_working s0) + mset (srv_queue s0))"
    by (simp add: ac_simps)
  also have "\<dots> = ?old + (mset (queued_item ev) + mset (srv_working s) + mset (srv_queue s))"
    unfolding step.IH by (simp add: ac_simps)
  also have "\<dots> = ?old + (mset (applied_item ev) + mset (abandoned_item ev) + mset (srv_working s') + mset (srv_queue s'))"
    using step_conserved [OF step.hyps(2)] by (simp add: step_conserves_def)
  finally show ?case by (simp add: ac_simps)
qed simp

lemma serve_frames_append:
  "serve_frames version_string answers (fs @ gs) c =
     serve_frames version_string answers gs (serve_frames version_string answers fs c)"
  by (induction fs arbitrary: c) auto

lemma run_coordinator:
  "server_run version_string answers s0 tr s \<Longrightarrow>
     srv_coordinator s = serve_frames version_string answers (frames_in tr) (srv_coordinator s0)"
  by (induction rule: server_run.induct) (simp_all add: step_coordinator serve_frames_append)

text \<open>
  C22: the service accounts for every frame. In every run of the server, the frames put in the queue are exactly, with
  multiplicity, the frames applied, those abandoned by a stop, those in the hands of a worker and those still queued; a
  frame refused for backpressure is never among them. The queue, the workers and the connections stay within
  their limits, no connection has two frames in the system, and the state of the coordinator is that of dispatching
  the applied frames one after the other.
\<close>

theorem server_accounts_for_frames:
  assumes "server_run version_string answers (Server_init config) tr s"
  shows "mset (queued_in tr) = mset (applied_in tr) + mset (abandoned_in tr) + mset (srv_working s) + mset (srv_queue s) \<and>
    length (srv_queue s) \<le> max_ingest_queue_depth (cc_bounds config) \<and>
    length (srv_working s) \<le> cc_worker_threads config \<and> length (srv_connections s) \<le> cc_max_connections config \<and>
    distinct (waiting s) \<and>
    srv_coordinator s = serve_frames version_string answers (frames_in tr) (Coordinator_init config)"
  using run_conserves [OF assms] run_coordinator [OF assms] run_ok [OF assms server_ok_init]
  by (auto simp: server_ok_def Server_init_def Coordinator_init_def)

lemma run_stopping: "server_run version_string answers s0 tr s \<Longrightarrow> srv_stopping s0 \<Longrightarrow> srv_stopping s"
  by (induction rule: server_run.induct) (auto dest: step_stopping)

text \<open>A single worker keeps the order of arrival.\<close>

lemma step_order:
  assumes "server_step version_string answers s ev s'" and "length (srv_working s) \<le> 1" and "\<not> srv_stopping s'"
    and "queued = done @ srv_working s @ srv_queue s" and "cc_worker_threads (srv_config s) = 1"
  shows "queued @ queued_item ev = (done @ applied_item ev) @ srv_working s' @ srv_queue s'"
  using assms(1)
proof (cases rule: server_step.cases)
  case (applied i f clock reply c)
  then have "srv_working s = [(i, f)]" using assms(2) by (cases "srv_working s") auto
  then show ?thesis using applied assms(4) by simp
next
  case (resumed item)
  then show ?thesis using resume_outcome [OF resumed(2)] assms(4) by simp
qed (use assms in \<open>auto simp: counting_defs\<close>)

text \<open>
  C23: one worker applies frames in the order of their arrival. With a single worker thread, until a stop begins, the frames
  queued so far are the frames applied so far followed by the one in work and those still waiting, in this order.
\<close>

theorem single_worker_keeps_order:
  assumes "server_run version_string answers (Server_init config) tr s" and "cc_worker_threads config = 1"
    and "\<not> srv_stopping s"
  shows "queued_in tr = applied_in tr @ srv_working s @ srv_queue s"
  using assms(1,3)
proof (induction rule: server_run.induct)
  case (step tr s ev s')
  have ok: "server_ok s" "srv_config s = config"
    using run_ok [OF step.hyps(1) server_ok_init] by (simp_all add: Server_init_def Coordinator_init_def)
  have "\<not> srv_stopping s" using step.hyps(2) step.prems step_stopping by blast
  then have "queued_in tr = applied_in tr @ srv_working s @ srv_queue s" by (rule step.IH)
  then show ?case
    using step_order [OF step.hyps(2) _ step.prems] ok assms(2) by (simp add: server_ok_def)
qed (simp add: Server_init_def)

section \<open>Every wait ends\<close>

definition outstanding :: "Server \<Rightarrow> nat" where
  "outstanding s = 3 * length (srv_queue s) + 2 * length (srv_working s) + length (srv_completed s)"

lemma waiting_ends_step:
  assumes "waiting s \<noteq> []" and "0 < cc_worker_threads (srv_config s)"
  obtains ev s' where "server_step version_string answers s ev s'" "outstanding s' < outstanding s" "queued_item ev = []"
    "abandoned_item ev = []" "srv_config s' = srv_config s"
proof (cases "srv_completed s")
  case (Cons item items)
  obtain ev s' where r: "resume item s = (ev, s')" by force
  have "server_step version_string answers s ev s'" by (rule server_step.resumed [OF _ r]) (simp add: Cons)
  then show ?thesis using that resume_outcome [OF r] Cons by (simp add: outstanding_def)
next
  case completed: Nil
  show ?thesis
  proof (cases "srv_working s")
    case (Cons item items)
    obtain i f where item: "item = (i, f)" by force
    obtain reply c where d: "dispatch version_string answers (\<lambda>_. 0) f (srv_coordinator s) = (reply, c)" by force
    have "(i, f) \<in> set (srv_working s)" using Cons item by simp
    note st = server_step.applied [OF this d]
    show ?thesis by (rule that [OF st]) (use Cons item dispatch_config [OF d] in \<open>simp_all add: outstanding_def\<close>)
  next
    case Nil
    then obtain x xs where q: "srv_queue s = x # xs" using assms(1) completed by (cases "srv_queue s") (auto simp: waiting_def)
    have "length (srv_working s) < cc_worker_threads (srv_config s)" using Nil assms(2) by simp
    note st = server_step.taken [OF q this]
    show ?thesis by (rule that [OF st]) (use q in \<open>simp_all add: outstanding_def\<close>)
  qed
qed

lemma run_trans:
  assumes "server_run version_string answers s1 tr2 s2" and "server_run version_string answers s0 tr1 s1"
  shows "server_run version_string answers s0 (tr1 @ tr2) s2"
  using assms(1)
proof (induction rule: server_run.induct)
  case (step tr s ev s')
  then show ?case using server_run.step [OF step.IH step.hyps(2)] by simp
qed (simp add: assms(2))


section \<open>Instances\<close>

text \<open>A coordinator with the default configuration, one connection and a heartbeat; queries are answered with an error.\<close>

definition no_answers :: query_answers where
  "no_answers q c = (Inl (Error NotFound ''nothing is known'' []), 1)"

definition sample_server :: Server where
  "sample_server = accept_connection (Server_init CoordinatorConfig_init)"

definition busy_server :: Server where
  "busy_server = (count_received sample_server)\<lparr>srv_queue := [(1, sample_frame)]\<rparr>"

lemmas sample_server_defs = sample_server_def busy_server_def accept_connection_def Server_init_def Coordinator_init_def
  CoordinatorConfig_init_def count_received_def default_bounds_def waiting_def

lemma busy_run: "server_run version no_answers (Server_init CoordinatorConfig_init) [Silent, Queued 1 sample_frame] busy_server"
proof -
  let ?s0 = "Server_init CoordinatorConfig_init"
  have "server_step version no_answers ?s0 Silent sample_server"
    unfolding sample_server_def by (rule server_step.connect) (simp add: Server_init_def)
  then have one: "server_run version no_answers ?s0 [Silent] sample_server"
    using server_run.step [OF server_run.start] by fastforce
  have "server_step version no_answers sample_server (Queued 1 sample_frame)
      ((count_received sample_server)\<lparr>srv_queue := srv_queue sample_server @ [(1, sample_frame)]\<rparr>)"
    by (rule server_step.queued) (simp_all add: sample_server_defs sample_frame_def)
  moreover have "srv_queue sample_server = []" by (simp add: sample_server_defs)
  ultimately have "server_step version no_answers sample_server (Queued 1 sample_frame) busy_server"
    by (simp add: busy_server_def)
  then show ?thesis using server_run.step [OF one] by simp
qed

theorem server_accounts_for_frames_witness:
  "mset (queued_in [Silent, Queued 1 sample_frame]) =
     mset (applied_in [Silent, Queued 1 sample_frame]) + mset (abandoned_in [Silent, Queued 1 sample_frame]) +
     mset (srv_working busy_server) + mset (srv_queue busy_server)"
  using server_accounts_for_frames [OF busy_run [of "[]"]] by blast

theorem single_worker_keeps_order_witness:
  "queued_in [Silent, Queued 1 sample_frame] =
     applied_in [Silent, Queued 1 sample_frame] @ srv_working busy_server @ srv_queue busy_server"
  by (rule single_worker_keeps_order [OF busy_run [of "[]"]]) (simp_all add: sample_server_defs)



text \<open>The registration of a cluster over the wire.\<close>

definition wire_context :: PublicationContext where
  "wire_context =
     \<lparr>ctx_publisher = StrongId ''pub'', ctx_boot = Generation 1, ctx_coordinator_epoch = Generation 1,
      ctx_federation = StrongId ''fed'', ctx_federation_generation = Generation 1, ctx_sequence = Sequence 1,
      ctx_observed_at = 5, ctx_precision = Precision_Unknown, ctx_evidence_class = EvidenceClass_Real,
      ctx_provenance = Provenance_Unknown, ctx_evidence_generation = Generation 1\<rparr>"

definition cluster_frame :: Frame where
  "cluster_frame =
     \<lparr>fm_type = MessageType_RegisterCluster, fm_flags = frame_flag FrameFlags_Request, fm_request_id = 9,
      fm_payload = enc_buffer (encode_cluster_publication wire_context (sample_cluster ''east'' 1) Encoder_init)\<rparr>"

lemma cluster_frame_carries:
  "carries MessageType_RegisterCluster (\<lambda>(ctx, r). encode_cluster_publication ctx r) (publication_encodable ClusterRecord_encodable)
     (wire_context, sample_cluster ''east'' 1) cluster_frame (Coordinator_init CoordinatorConfig_init)"
proof -
  have "publication_encodable ClusterRecord_encodable (wire_context, sample_cluster ''east'' 1)" by code_simp
  moreover have "length (enc_buffer (encode_cluster_publication wire_context (sample_cluster ''east'' 1) Encoder_init)) \<le> 65536"
    by code_simp
  moreover have "65536 \<le> max_frame_bytes default_bounds" by (simp add: default_bounds_def limit_defs)
  ultimately show ?thesis by (simp add: carries_def cluster_frame_def Coordinator_init_def CoordinatorConfig_init_def)
qed


end
