(* ===== verification/Spec2Isabelle.thy ===== *)
theory Spec2Isabelle
  imports FO_Reports FO_Server
begin

text \<open>
  Federation Observatory: a verification library for the runtime under \<open>src/\<close>.

  The program watches a federation of accelerator clusters. Publishers send records (what exists, what
  it can do, how much of it is in use, where work was placed, how it moves); the engine checks the
  authority of the publisher and the record itself, stores it, and answers questions about the whole.
  Records travel and are stored in one binary format.

  \<^bold>\<open>Theories, in the order they build on each other\<close>

  \<^item> \<open>FO_Prelude\<close>: machine integers, decimal printing, sorting and duplicate search of the C++ library, the
    lemma collections; \<open>FO_StdMap\<close>: \<open>std::map\<close> as an ordered association list, with its laws as a locale.
  \<^item> \<open>FO_Ids\<close> (\<open>errors.hpp\<close>, \<open>ids.hpp\<close>): error codes, statuses, results, typed identifiers, saturating
    generations and sequence numbers.
  \<^item> \<open>FO_Arith\<close> (\<open>foundation.cpp\<close>, \<open>codec.hpp\<close>): checked arithmetic, 128-bit product and division, percentages,
    CRC-32, FNV-1a, hex digests, the deterministic random generator, text tables.
  \<^item> \<open>FO_Codec\<close> (\<open>codec.hpp\<close>, \<open>foundation.cpp\<close>): the writer and the bounded reader; the contract \<open>field_ok\<close> of a
    field codec, lifted to collections in the locale \<open>field_codec\<close>; \<open>dec_safe\<close> and \<open>dec_yields\<close> for arbitrary input.
  \<^item> \<open>FO_Bounds\<close> (\<open>bounds.hpp\<close>), \<open>FO_Evidence\<close> (\<open>evidence.hpp\<close>), \<open>FO_Capacity\<close> (\<open>capacity.hpp/.cpp\<close>),
    \<open>FO_Capability\<close> (\<open>capability.hpp/.cpp\<close>), \<open>FO_Model\<close> (\<open>model.hpp/.cpp\<close>), \<open>FO_Placement\<close> (\<open>placement.hpp/.cpp\<close>),
    \<open>FO_Migration\<close> (\<open>migration.hpp/.cpp\<close>), \<open>FO_Portability\<close> (\<open>portability.hpp/.cpp\<close>): the data model, one record or
    datatype per struct or enum of the source with its operations and its validation.
  \<^item> \<open>FO_ValueCodec\<close>, \<open>FO_RecordCodec\<close>, \<open>FO_WorkCodec\<close> (\<open>records_codec.cpp\<close>): the binary format of every value and
    record; \<open>FO_RoundTrips\<close>: the codecs end to end, and sample records.
  \<^item> \<open>FO_Engine\<close>, \<open>FO_Registry\<close>, \<open>FO_Publish\<close> (\<open>observatory.hpp/.cpp\<close>): the state \<open>Observatory\<close> of
    \<open>FederationObservatory::Impl\<close>, the authority gate (\<open>check_authority\<close>, \<open>finish\<close>, \<open>refuse\<close>), publisher registration
    and fencing, the eleven structural registrations (all instances of \<open>register_structural\<close>), retirement, and the
    publications of capability, capacity, placements, migrations, stages and portability.
  \<^item> \<open>FO_Invariants\<close>, \<open>FO_Reachable\<close>, \<open>FO_Conduct\<close>: the engine as a transition system and what holds of every run;
    \<open>FO_Scenario\<close>: concrete states on which these properties are exercised.
  \<^item> \<open>FO_Durable\<close> (\<open>state_store.hpp/.cpp\<close>, the durable part of \<open>observatory.cpp\<close>): the state that outlives the process,
    its normalization, validation and file image, capture and restore; \<open>FO_Persist\<close>: the image is read back and
    damage is refused; \<open>FO_Files\<close>: saving and loading over a file system whose operations may fail;
    \<open>FO_Restart\<close>: what a restart keeps and what it withdraws.

  \<^item> \<open>FO_Compatibility\<close> (\<open>compatibility.hpp/.cpp\<close>), \<open>FO_Assess\<close> (\<open>assess_portability\<close> of \<open>portability.cpp\<close>),
    \<open>FO_Explain\<close> (the explanations of \<open>placement.cpp\<close>): the pure assessments of a workload against a target, one
    definition per section of the source function; \<open>FO_Verdicts\<close>: the same on concrete inputs.

  \<^item> \<open>FO_Protocol\<close> (\<open>protocol.hpp/.cpp\<close>, \<open>Socket::read_some\<close> of \<open>net.cpp\<close>): frames, their image, and the incremental
    \<open>FrameReader\<close> over the answers of the operating system; \<open>FO_Messages\<close> (\<open>protocol.cpp\<close>): the payloads, one record and
    one codec per message; \<open>FO_Coordinator\<close> (\<open>coordinator.cpp\<close>): \<open>dispatch\<close>, case by case, and its replies; \<open>FO_Server\<close>
    (\<open>FederationCoordinator::start\<close> and \<open>stop\<close>): connections, the bounded ingest queue, workers and shutdown as the step
    relation \<open>server_step\<close>.

  \<^item> \<open>FO_Snapshot\<close> (\<open>snapshot.hpp/.cpp\<close>, \<open>build_snapshot\<close> of \<open>observatory.cpp\<close>): the snapshot of the engine with its byte
    budget and census, and the binary-search accessors; the locale \<open>stored_by_key\<close> is what a snapshot promises of one map,
    interpreted twelve times. \<open>FO_Query\<close> (the queries of \<open>observatory.cpp\<close>, \<open>analyze_migration\<close> of \<open>migration.cpp\<close>).
  \<^item> \<open>FO_Stranding\<close>, \<open>FO_Fragmentation\<close>, \<open>FO_Mismatch\<close>, \<open>FO_Drift\<close> (\<open>analysis.hpp/.cpp\<close>): eligibility of capacity pools and
    the stranded-capacity report, grouping by placement domain, the tables of counted mismatches, and the comparison with an
    intended state and between two windows. \<open>FO_Answers\<close>, \<open>FO_Reports\<close>: queries and analyses on concrete fleets.

  \<^bold>\<open>How the code is modelled\<close>

  Every engine operation runs under one mutex, so it is a function from the state to a result and the next
  state; runs are sequences of such steps (\<open>engine_step\<close>, \<open>reachable_from\<close>). An error is a value (\<open>Failure\<close>,
  \<open>Inl\<close>); a reference into a map is its key with the value read; 64-, 32- and 8-bit integers are words and
  wrap as in the source; a \<open>double\<close> is its 64-bit pattern; time is the argument \<open>clock\<close>, the successive readings of
  \<open>now_unix_nanos()\<close>. \<open>std::sort\<close> is a stable insertion sort: the orders used are total on the keys compared, or
  the sorted lists are only compared with each other. No model uses fuel: every recursion is structural or has
  a termination proof (\<open>compare_version_strings\<close>, decimal printing, the parsers, \<open>read_chunks\<close>, \<open>fill\<close>). The answers of
  \<open>select\<close> and \<open>recv\<close> are a list that each read consumes; the threads of the coordinator are the steps of one relation, each
  what a thread does under a lock. The
  file system is a
  map from paths to contents; which of its operations fail is the argument \<open>file_faults\<close> of every file operation.

  \<^bold>\<open>What is shown\<close>

  Of the engine: the invariant \<open>engine_ok\<close> of the stored records holds in every reachable state; fencing is
  final; only authorised publications are accepted, and watermarks do not move back; refused and duplicate
  publications change nothing; no generation moves back and no record disappears; ended migrations are
  final; capacity that was published is what is stored. These rest on the locales \<open>gated_operation\<close> (the gate),
  \<open>structural_kind\<close> (registration of one kind of record) and \<open>content_property\<close> (properties that counters do not
  touch), interpreted on the model's operations. Of queries: a snapshot within its budget shows exactly the stored
  records; an admission, a migration claim and an explanation rest on stored records. Of the analyses: the
  stranded-capacity report partitions exactly the capacity it covers and calls capacity usable only with evidence; the
  fragmentation analysis groups it without loss and separates shortage from fragmentation; mismatch tables are exact tallies;
  a drift report is silent exactly on agreement. Of a restart: fences and watermarks survive it and the old
  epoch is refused; the invariant holds of the restored engine; a captured state is always accepted; nothing
  comes back as current; saving is atomic under every file fault and a saved state loads; a damaged byte
  is refused. Of the format: round trips, decoders that never read
  beyond their input and accept only valid records. Of the data model: exact accounting of ledgers, totals and
  merged breakdowns, legal migration histories, capability sets, requirement evaluation, version parsing,
  checksums, percentages and bounded evidence lists. Of the assessments: a verdict is exactly the weakest of its
  checks, an admitted placement and a directly portable verdict rest on published evidence for every requirement,
  policy never changes a technical conclusion, and an explanation repeats exactly what the source exposed,
  whatever the order it was listed in. Of the wire: the frame decoder accepts exactly the images of the encoder and
  refuses damaged ones, the reader recovers the frames of a stream whatever its pieces and withstands any peer
  within its buffer, messages and publications are read back, and decoders accept only valid ones. Of the
  coordinator: no sequence of frames moves the engine other than by its own operations, a publication that is sent is
  the one that is applied, every queued frame is accounted for within the limits, a single worker keeps the order of
  arrival, and every wait ends.

  \<^bold>\<open>Not modelled\<close>

  The text of query answers and the digests of snapshots and reports: the coordinator takes the answers to queries as an
  argument. Listening sockets, writes, processes, hardware discovery, synthetic data, the publisher and client programs and
  the command line tools are input and output around the library: operating system and vendor calls, or printing. Text
  rendering is modelled only where a digest depends on it.
\<close>

end
